(* ===== verification/Prelude.thy ===== *)
theory Prelude
  imports Main "HOL-Library.Word" "HOL-Library.AList" "HOL-Library.Multiset" "HOL-Library.Sublist"
    "HOL-Library.Char_ord" "HOL-Library.List_Lexorder"
begin

text \<open>
  Shared vocabulary of the development.
  \<^item> Machine integers of the Rust sources as words, with the saturating operations the sources
    call (\<open>saturating_sub\<close>, \<open>saturating_add\<close>).
  \<^item> \<open>run\<close>: a component driven by a list of events, and the locales about such runs:
    \<open>machine\<close> (every step keeps an invariant), \<open>counted\<close> (the invariant depends on the number of
    events), \<open>ledger\<close> (every step changes a balance by what its event and its output say) and
    \<open>simulation\<close>, each with its lemma over whole runs.
  \<^item> Rust's \<open>HashMap\<close> as an association list with distinct keys, the laws of a keyed
    store as a locale, and the iteration order of a \<open>HashMap\<close>, which Rust leaves open,
    as a parameter with the locale \<open>hash_iter\<close>.
  \<^item> Generic lemmas on lists and sorted lists.
\<close>

section \<open>Machine integers\<close>

type_synonym u8 = "8 word"
type_synonym u16 = "16 word"
type_synonym u32 = "32 word"
type_synonym u64 = "64 word"
type_synonym i32 = "32 word"

definition sat_sub :: "'a::len word \<Rightarrow> 'a word \<Rightarrow> 'a word" where
  "sat_sub a b = (if a < b then 0 else a - b)"

definition sat_add :: "'a::len word \<Rightarrow> 'a word \<Rightarrow> 'a word" where
  "sat_add a b = (if a + b < a then - 1 else a + b)"

lemma unat_sat_sub: "unat (sat_sub a b) = unat a - unat b"
  by (auto simp: sat_sub_def unat_sub word_less_nat_alt word_le_nat_alt not_less)

lemma sat_sub_self [simp]: "sat_sub a a = 0"
  by (simp add: sat_sub_def)

lemma sat_sub_eq_0_iff: "sat_sub a b = 0 \<longleftrightarrow> a \<le> b"
  by (auto simp: sat_sub_def)

lemma unat_inc: "unat (a + 1) = (if a = - 1 then 0 else Suc (unat a))" for a :: "'a::len word"
proof (cases "a = - 1")
  case False
  then have "a + 1 \<noteq> 0" by (metis add_eq_0_iff add.commute)
  then have "1 + a \<noteq> 0" by (simp add: add.commute)
  then have "unat (1 + a) = Suc (unat a)" by (rule unatSuc)
  with False show ?thesis by (simp add: add.commute)
qed simp

lemma sat_add_1: "sat_add a 1 = (if a = - 1 then - 1 else a + 1)" for a :: "'a::len word"
proof (cases "a = - 1")
  case False
  then have "unat (a + 1) = Suc (unat a)" by (simp add: unat_inc)
  then have "\<not> a + 1 < a" by (simp add: word_less_nat_alt)
  with False show ?thesis by (simp add: sat_add_def)
next
  case True
  have "(0::'a word) < - 1" by (simp add: word_less_alt [symmetric] word_neq_0_conv [symmetric])
  with True show ?thesis by (simp add: sat_add_def)
qed

section \<open>Runs of a component\<close>

text \<open>
  A component is a function from a state and an event to the next state and an output;
  \<open>run\<close> feeds it a list of events and collects the outputs.
\<close>

fun run :: "('s \<Rightarrow> 'e \<Rightarrow> 's \<times> 'o) \<Rightarrow> 's \<Rightarrow> 'e list \<Rightarrow> 's \<times> 'o list" where
  "run step s [] = (s, [])"
| "run step s (e # es) =
     (let (s', out) = step s e; (s'', outs) = run step s' es in (s'', out # outs))"

lemma run_Cons:
  "fst (run step s (e # es)) = fst (run step (fst (step s e)) es)"
  "snd (run step s (e # es)) = snd (step s e) # snd (run step (fst (step s e)) es)"
  by (simp_all split: prod.split)

declare run.simps(2) [simp del] run_Cons [simp]

lemma run_append:
  "fst (run step s (xs @ ys)) = fst (run step (fst (run step s xs)) ys)"
  "snd (run step s (xs @ ys)) = snd (run step s xs) @ snd (run step (fst (run step s xs)) ys)"
  by (induction xs arbitrary: s) simp_all

lemma length_run [simp]: "length (snd (run step s es)) = length es"
  by (induction es arbitrary: s) simp_all

locale machine =
  fixes step :: "'s \<Rightarrow> 'e \<Rightarrow> 's \<times> 'o"
    and inv :: "'s \<Rightarrow> bool"
    and ok :: "'e \<Rightarrow> bool"
  assumes step_inv: "inv s \<Longrightarrow> ok e \<Longrightarrow> inv (fst (step s e))"
begin

lemma run_inv: "inv s \<Longrightarrow> list_all ok es \<Longrightarrow> inv (fst (run step s es))"
  by (induction es arbitrary: s) (simp_all add: step_inv)

end

text \<open>
  An invariant that may depend on how many events were handled, for counters that would wrap
  after more than \<open>bound\<close> of them; and the same with a balance.
\<close>

locale counted =
  fixes step :: "'s \<Rightarrow> 'e \<Rightarrow> 's \<times> 'o"
    and inv :: "nat \<Rightarrow> 's \<Rightarrow> bool"
    and ok :: "'e \<Rightarrow> bool"
    and bound :: nat
  assumes counted_step: "inv n s \<Longrightarrow> ok e \<Longrightarrow> n < bound \<Longrightarrow> inv (Suc n) (fst (step s e))"
begin

lemma run_counted:
  "inv n s \<Longrightarrow> list_all ok es \<Longrightarrow> n + length es \<le> bound \<Longrightarrow>
   inv (n + length es) (fst (run step s es))"
proof (induction es arbitrary: n s)
  case (Cons e es)
  then have "inv (Suc n) (fst (step s e))" by (intro counted_step) simp_all
  from Cons.IH [OF this] Cons.prems show ?case
    by simp
qed simp

end

locale ledger = counted step inv ok bound
  for step :: "'s \<Rightarrow> 'e \<Rightarrow> 's \<times> 'o" and inv :: "nat \<Rightarrow> 's \<Rightarrow> bool"
    and ok :: "'e \<Rightarrow> bool" and bound :: nat +
  fixes balance :: "'s \<Rightarrow> int"
    and charge :: "'e \<Rightarrow> 'o \<Rightarrow> int"
  assumes step_balance: "inv n s \<Longrightarrow> ok e \<Longrightarrow> n < bound \<Longrightarrow>
    balance (fst (step s e)) = balance s + charge e (snd (step s e))"
begin

lemma run_balance:
  "inv n s \<Longrightarrow> list_all ok es \<Longrightarrow> n + length es \<le> bound \<Longrightarrow>
   balance (fst (run step s es)) = balance s + sum_list (map2 charge es (snd (run step s es)))"
proof (induction es arbitrary: n s)
  case (Cons e es)
  then have n: "n < bound" and e: "ok e" by simp_all
  with Cons.prems have "inv (Suc n) (fst (step s e))" by (intro counted_step)
  from Cons.IH [OF this] Cons.prems step_balance [OF Cons.prems(1) e n]
  show ?case by simp
qed simp

end

text \<open>
  A forward simulation: related states stay related and produce the same outputs under every event
  the abstract state enables.
\<close>

fun enabled :: "('a \<Rightarrow> 'e \<Rightarrow> 'a \<times> 'o) \<Rightarrow> ('a \<Rightarrow> 'e \<Rightarrow> bool) \<Rightarrow> 'a \<Rightarrow> 'e list \<Rightarrow> bool" where
  "enabled astep ok a [] = True"
| "enabled astep ok a (e # es) = (ok a e \<and> enabled astep ok (fst (astep a e)) es)"

locale simulation =
  fixes step :: "'s \<Rightarrow> 'e \<Rightarrow> 's \<times> 'o"
    and astep :: "'a \<Rightarrow> 'e \<Rightarrow> 'a \<times> 'o"
    and rel :: "'s \<Rightarrow> 'a \<Rightarrow> bool"
    and ok :: "'a \<Rightarrow> 'e \<Rightarrow> bool"
  assumes sim_state: "rel s a \<Longrightarrow> ok a e \<Longrightarrow> rel (fst (step s e)) (fst (astep a e))"
    and sim_out: "rel s a \<Longrightarrow> ok a e \<Longrightarrow> snd (step s e) = snd (astep a e)"
begin

lemma run_simulates:
  "rel s a \<Longrightarrow> enabled astep ok a es \<Longrightarrow>
   rel (fst (run step s es)) (fst (run astep a es)) \<and> snd (run step s es) = snd (run astep a es)"
proof (induction es arbitrary: s a)
  case (Cons e es)
  then have "ok a e" and "enabled astep ok (fst (astep a e)) es" by simp_all
  with Cons.IH [OF sim_state [OF Cons.prems(1)]] sim_out [OF Cons.prems(1)]
  show ?case by simp
qed simp

end

section \<open>Hash maps\<close>

type_synonym ('k, 'v) hmap = "('k \<times> 'v) list"

abbreviation hm_wf :: "('k, 'v) hmap \<Rightarrow> bool" where
  "hm_wf m \<equiv> distinct (map fst m)"

abbreviation hm_get :: "('k, 'v) hmap \<Rightarrow> 'k \<Rightarrow> 'v option" where
  "hm_get \<equiv> map_of"

abbreviation hm_insert :: "'k \<Rightarrow> 'v \<Rightarrow> ('k, 'v) hmap \<Rightarrow> ('k, 'v) hmap" where
  "hm_insert \<equiv> AList.update"

abbreviation hm_remove :: "'k \<Rightarrow> ('k, 'v) hmap \<Rightarrow> ('k, 'v) hmap" where
  "hm_remove \<equiv> AList.delete"

definition hm_retain :: "('k \<Rightarrow> 'v \<Rightarrow> bool) \<Rightarrow> ('k, 'v) hmap \<Rightarrow> ('k, 'v) hmap" where
  "hm_retain P m = filter (\<lambda>(k, v). P k v) m"

definition hm_remove_all :: "'k list \<Rightarrow> ('k, 'v) hmap \<Rightarrow> ('k, 'v) hmap" where
  "hm_remove_all ks m = fold hm_remove ks m"

text \<open>Lookups are reasoned about as lookups, not as membership of the pair.\<close>

declare map_of_eq_Some_iff [simp del] Some_eq_map_of_iff [simp del]

text \<open>The laws of a keyed store, and the model of \<open>HashMap\<close> as one.\<close>

locale keyed_store =
  fixes get :: "'m \<Rightarrow> 'k \<Rightarrow> 'v option"
    and put :: "'k \<Rightarrow> 'v \<Rightarrow> 'm \<Rightarrow> 'm"
    and del :: "'k \<Rightarrow> 'm \<Rightarrow> 'm"
    and wf :: "'m \<Rightarrow> bool"
  assumes get_put: "get (put k v m) k' = (if k' = k then Some v else get m k')"
    and get_del: "get (del k m) k' = (if k' = k then None else get m k')"
    and wf_put: "wf m \<Longrightarrow> wf (put k v m)"
    and wf_del: "wf m \<Longrightarrow> wf (del k m)"
begin

lemmas store_laws = get_put get_del wf_put wf_del

lemma put_del_same: "get (put k v (del k m)) = get (put k v m)"
  by (rule ext) (simp add: get_put get_del)

end

interpretation hm: keyed_store hm_get hm_insert hm_remove hm_wf
  by unfold_locales
    (auto simp: update_conv delete_conv distinct_update distinct_delete)

lemma hm_wf_retain: "hm_wf m \<Longrightarrow> hm_wf (hm_retain P m)"
  by (induction m) (auto simp: hm_retain_def)

lemma hm_get_retain:
  "hm_wf m \<Longrightarrow>
   hm_get (hm_retain P m) k =
     (case hm_get m k of None \<Rightarrow> None | Some v \<Rightarrow> if P k v then Some v else None)"
  by (induction m) (force simp: hm_retain_def dom_map_of_conv_image_fst [symmetric]
      split: option.splits)+

lemma hm_retain_length: "length (hm_retain P m) \<le> length m"
  by (simp add: hm_retain_def)

lemma hm_remove_filter: "hm_remove k m = filter (\<lambda>(k', v). k' \<noteq> k) m"
  by (auto simp: AList.delete_eq intro: filter_cong)

lemma hm_remove_all_filter:
  "hm_remove_all ks m = filter (\<lambda>(k, v). k \<notin> set ks) m"
  unfolding hm_remove_all_def
  by (induction ks arbitrary: m) (auto simp: hm_remove_filter intro!: filter_cong)

lemma hm_remove_all_wf: "hm_wf m \<Longrightarrow> hm_wf (hm_remove_all ks m)"
  by (induction m) (auto simp: hm_remove_all_filter)

lemma hm_remove_all_length: "length (hm_remove_all ks m) \<le> length m"
  by (simp add: hm_remove_all_filter)

lemma hm_get_remove_all:
  "hm_get (hm_remove_all ks m) k = (if k \<in> set ks then None else hm_get m k)"
  by (induction m) (auto simp: hm_remove_all_filter)

lemma hm_get_in_keys: "hm_get m k = Some v \<Longrightarrow> k \<in> fst ` set m"
  by (force dest: map_of_SomeD)

lemma hm_insert_length:
  "length (hm_insert k v m) = (if k \<in> fst ` set m then length m else Suc (length m))"
  by (induction m) auto

lemma hm_insert_length_le: "length (hm_insert k v m) \<le> Suc (length m)"
  by (simp add: hm_insert_length)

lemma hm_remove_length:
  "hm_wf m \<Longrightarrow> length (hm_remove k m) = (if k \<in> fst ` set m then length m - 1 else length m)"
proof (induction m)
  case (Cons a m)
  then show ?case by (cases "m = []") (auto simp: AList.delete_eq)
qed simp

section \<open>Iteration order\<close>

text \<open>
  \<open>it m\<close> is the order in which one traversal of the hash map \<open>m\<close> yields its keys. Rust
  promises only that every key comes exactly once.
\<close>

locale hash_iter =
  fixes it :: "('k, 'v) hmap \<Rightarrow> 'k list"
  assumes it_keys: "hm_wf m \<Longrightarrow> mset (it m) = mset (map fst m)"
begin

lemma set_it: "hm_wf m \<Longrightarrow> set (it m) = fst ` set m"
  using it_keys [of m] by (metis set_map set_mset_mset)

lemma length_it: "hm_wf m \<Longrightarrow> length (it m) = length m"
  using it_keys [of m] by (metis length_map size_mset)

lemma distinct_it: "hm_wf m \<Longrightarrow> distinct (it m)"
  using it_keys [of m] by (metis mset_eq_imp_distinct_iff)

lemma length_remove_taken:
  assumes "hm_wf m" and "n \<le> length m"
  shows "length (hm_remove_all (take n (it m)) m) = length m - n"
proof -
  let ?ks = "take n (it m)"
  have sub: "set ?ks \<subseteq> set (map fst m)"
    using set_it [OF assms(1)] set_take_subset [of n "it m"] by auto
  have "length (filter (\<lambda>k. k \<in> set ?ks) (map fst m)) = card (set ?ks)"
    using assms(1) sub
    by (subst distinct_card [symmetric]) (auto intro!: arg_cong [where f = card])
  also have "\<dots> = n"
    using assms distinct_it [OF assms(1)] length_it [OF assms(1)]
    by (simp add: distinct_card)
  finally have "length (filter (\<lambda>k. k \<in> set ?ks) (map fst m)) = n" .
  then have "length (filter (\<lambda>(k, v). k \<in> set ?ks) m) = n"
    by (simp add: filter_map comp_def case_prod_unfold)
  moreover have "length (filter (\<lambda>(k, v). k \<in> set ?ks) m) +
      length (filter (\<lambda>x. \<not> (case x of (k, v) \<Rightarrow> k \<in> set ?ks)) m) = length m"
    by (rule sum_length_filter_compl)
  ultimately show ?thesis
    by (simp add: hm_remove_all_filter case_prod_unfold)
qed

end

interpretation stored_order: hash_iter "map fst"
  by unfold_locales simp

interpretation reverse_order: hash_iter "\<lambda>m. rev (map fst m)"
  by unfold_locales simp

section \<open>Lists\<close>

lemma sum_list_map_filter_split:
  "sum_list (map f xs) = sum_list (map f (filter P xs)) + sum_list (map f (filter (\<lambda>x. \<not> P x) xs))"
  for f :: "'a \<Rightarrow> nat"
  by (induction xs) simp_all

lemma sum_list_map2_append:
  "length xs = length ys \<Longrightarrow>
   sum_list (map2 f (xs @ xs') (ys @ ys')) = sum_list (map2 f xs ys) + sum_list (map2 f xs' ys')"
  for f :: "'a \<Rightarrow> 'b \<Rightarrow> int"
  by simp

lemma sorted_nth_filter_ge:
  assumes "sorted xs" and "i < length xs"
  shows "length xs - i \<le> length (filter (\<lambda>x. xs ! i \<le> x) xs)"
proof -
  have "filter (\<lambda>x. xs ! i \<le> x) (drop i xs) = drop i xs"
  proof (rule filter_True, rule ballI)
    fix x assume "x \<in> set (drop i xs)"
    then obtain j where "j < length (drop i xs)" and "x = drop i xs ! j"
      by (auto simp: in_set_conv_nth)
    then have "i + j < length xs" and x: "x = xs ! (i + j)" by auto
    then show "xs ! i \<le> x"
      using sorted_nth_mono [OF assms(1), of i "i + j"] by simp
  qed
  then have "length (filter (\<lambda>x. xs ! i \<le> x) (drop i xs)) = length xs - i" by simp
  moreover have "filter (\<lambda>x. xs ! i \<le> x) xs =
      filter (\<lambda>x. xs ! i \<le> x) (take i xs) @ filter (\<lambda>x. xs ! i \<le> x) (drop i xs)"
    by (metis append_take_drop_id filter_append)
  ultimately show ?thesis by simp
qed

end
