(* ===== verification/Text.thy ===== *)
theory Text
  imports Prelude
begin

text \<open>
  Rust strings. A \<open>String\<close> is its UTF-8 bytes, so \<open>string\<close> here is a list of bytes (each
  \<open>char\<close> is one byte) and \<open>length\<close> is \<open>str::len\<close>. The theory models the string operations
  of the Rust standard library that the sources call: ASCII case folding, \<open>trim\<close>,
  \<open>split\<close>, \<open>join\<close>, prefix, suffix and substring tests, UTF-8 character boundaries,
  integer parsing and printing, and \<open>String::from_utf8_lossy\<close>.
\<close>

section \<open>ASCII case\<close>

abbreviation byte :: "char \<Rightarrow> nat" where
  "byte c \<equiv> of_char c"

definition ascii_lower :: "char \<Rightarrow> char" where
  "ascii_lower c = (if 65 \<le> byte c \<and> byte c \<le> 90 then char_of (byte c + 32) else c)"

definition to_ascii_lowercase :: "string \<Rightarrow> string" where
  "to_ascii_lowercase s = map ascii_lower s"

definition eq_ignore_ascii_case :: "string \<Rightarrow> string \<Rightarrow> bool" where
  "eq_ignore_ascii_case s t \<longleftrightarrow> to_ascii_lowercase s = to_ascii_lowercase t"

lemma byte_lt: "byte c < 256"
  by simp

lemma byte_ascii_lower:
  "byte (ascii_lower c) = (if 65 \<le> byte c \<and> byte c \<le> 90 then byte c + 32 else byte c)"
  by (simp add: ascii_lower_def)

lemma ascii_lower_idem [simp]: "ascii_lower (ascii_lower c) = ascii_lower c"
  by (auto simp: ascii_lower_def [of "ascii_lower c"] byte_ascii_lower split: if_splits)

lemma to_ascii_lowercase_idem [simp]:
  "to_ascii_lowercase (to_ascii_lowercase s) = to_ascii_lowercase s"
  by (simp add: to_ascii_lowercase_def)

lemma length_to_ascii_lowercase [simp]: "length (to_ascii_lowercase s) = length s"
  by (simp add: to_ascii_lowercase_def)

lemma to_ascii_lowercase_append [simp]:
  "to_ascii_lowercase (s @ t) = to_ascii_lowercase s @ to_ascii_lowercase t"
  by (simp add: to_ascii_lowercase_def)

lemma to_ascii_lowercase_Nil_iff [simp]: "to_ascii_lowercase s = [] \<longleftrightarrow> s = []"
  by (simp add: to_ascii_lowercase_def)

lemma eq_ignore_ascii_case_refl [simp]: "eq_ignore_ascii_case s s"
  by (simp add: eq_ignore_ascii_case_def)

lemma eq_ignore_ascii_case_length: "eq_ignore_ascii_case s t \<Longrightarrow> length s = length t"
  by (metis eq_ignore_ascii_case_def length_to_ascii_lowercase)

abbreviation backslash :: char where
  "backslash \<equiv> CHR 0x5C"

abbreviation dquote :: char where
  "dquote \<equiv> CHR 0x22"

section \<open>Prefixes, suffixes, substrings\<close>

abbreviation starts_with :: "string \<Rightarrow> string \<Rightarrow> bool" where
  "starts_with s p \<equiv> prefix p s"

abbreviation ends_with :: "string \<Rightarrow> string \<Rightarrow> bool" where
  "ends_with s p \<equiv> suffix p s"

abbreviation str_contains :: "string \<Rightarrow> string \<Rightarrow> bool" where
  "str_contains s p \<equiv> sublist p s"

definition strip_prefix :: "string \<Rightarrow> string \<Rightarrow> string option" where
  "strip_prefix s p = (if starts_with s p then Some (drop (length p) s) else None)"

section \<open>White space\<close>

text \<open>
  The UTF-8 encodings of the code points with the property \<open>White_Space\<close>, which
  \<open>char::is_whitespace\<close> tests.
\<close>

definition white_space :: "string list" where
  "white_space = map (map (char_of :: nat \<Rightarrow> char))
     [[9], [10], [11], [12], [13], [32], [194, 133], [194, 160], [225, 154, 128],
      [226, 128, 128], [226, 128, 129], [226, 128, 130], [226, 128, 131], [226, 128, 132],
      [226, 128, 133], [226, 128, 134], [226, 128, 135], [226, 128, 136], [226, 128, 137],
      [226, 128, 138], [226, 128, 168], [226, 128, 169], [226, 128, 175], [226, 129, 159],
      [227, 128, 128]]"

lemma white_space_not_Nil: "w \<in> set white_space \<Longrightarrow> w \<noteq> []"
  by (auto simp: white_space_def)

function trim_start :: "string \<Rightarrow> string" where
  "trim_start s =
     (case find (starts_with s) white_space of
        None \<Rightarrow> s
      | Some w \<Rightarrow> trim_start (drop (length w) s))"
  by pat_completeness auto
termination
proof (relation "measure length", simp)
  fix s w assume *: "find (starts_with s) white_space = Some w"
  then have "prefix w s" and "w \<noteq> []"
    using white_space_not_Nil by (auto simp: find_Some_iff)
  then have "0 < length w" and "0 < length s" by (auto simp: prefix_def)
  then show "(drop (length w) s, s) \<in> measure length" by simp
qed

function trim_end :: "string \<Rightarrow> string" where
  "trim_end s =
     (case find (ends_with s) white_space of
        None \<Rightarrow> s
      | Some w \<Rightarrow> trim_end (take (length s - length w) s))"
  by pat_completeness auto
termination
proof (relation "measure length", simp)
  fix s w assume *: "find (ends_with s) white_space = Some w"
  then have "suffix w s" and "w \<noteq> []"
    using white_space_not_Nil by (auto simp: find_Some_iff)
  then have "0 < length w" and "0 < length s" by (auto simp: suffix_def)
  then show "(take (length s - length w) s, s) \<in> measure length" by simp
qed

declare trim_start.simps [simp del] trim_end.simps [simp del]

definition str_trim :: "string \<Rightarrow> string" where
  "str_trim s = trim_end (trim_start s)"

definition no_outer_space :: "string \<Rightarrow> bool" where
  "no_outer_space s \<longleftrightarrow> (\<forall>w \<in> set white_space. \<not> starts_with s w \<and> \<not> ends_with s w)"

lemma find_None_space:
  "find P xs = None \<longleftrightarrow> (\<forall>x \<in> set xs. \<not> P x)"
  by (auto simp: find_None_iff)

lemma trim_id: "no_outer_space s \<Longrightarrow> str_trim s = s"
proof -
  assume "no_outer_space s"
  then have "find (starts_with s) white_space = None" "find (ends_with s) white_space = None"
    by (auto simp: no_outer_space_def find_None_space)
  then show ?thesis
    by (simp add: str_trim_def trim_start.simps [of s] trim_end.simps [of s])
qed

lemma white_space_ends:
  "w \<in> set white_space \<Longrightarrow>
   byte (hd w) \<notin> {33..126} \<and> byte (last w) \<notin> {33..126}"
  by (auto simp: white_space_def)

lemma trim_printable:
  assumes "s \<noteq> []" and "byte (hd s) \<in> {33..126}" and "byte (last s) \<in> {33..126}"
  shows "str_trim s = s"
proof (rule trim_id)
  have "\<not> starts_with s w \<and> \<not> ends_with s w" if "w \<in> set white_space" for w
  proof -
    have "hd s \<noteq> hd w" "last s \<noteq> last w" using white_space_ends [OF that] assms(2,3) by auto
    then show ?thesis using white_space_not_Nil [OF that] by (auto simp: prefix_def suffix_def)
  qed
  then show "no_outer_space s" by (simp add: no_outer_space_def)
qed

lemma trim_start_no_space:
  "w \<in> set white_space \<Longrightarrow> \<not> starts_with (trim_start s) w"
proof (induction s rule: trim_start.induct)
  case (1 s)
  show ?case
  proof (cases "find (starts_with s) white_space")
    case None
    with "1.prems" have "\<not> starts_with s w" by (simp add: find_None_space)
    with None show ?thesis by (simp add: trim_start.simps [of s])
  next
    case (Some v)
    with 1 show ?thesis by (simp add: trim_start.simps [of s])
  qed
qed

lemma trim_end_no_space:
  "w \<in> set white_space \<Longrightarrow> \<not> ends_with (trim_end s) w"
proof (induction s rule: trim_end.induct)
  case (1 s)
  show ?case
  proof (cases "find (ends_with s) white_space")
    case None
    with "1.prems" have "\<not> ends_with s w" by (simp add: find_None_space)
    with None show ?thesis by (simp add: trim_end.simps [of s])
  next
    case (Some v)
    with 1 show ?thesis by (simp add: trim_end.simps [of s])
  qed
qed

lemma trim_end_prefix: "prefix (trim_end s) s"
proof (induction s rule: trim_end.induct)
  case (1 s)
  show ?case
  proof (cases "find (ends_with s) white_space")
    case None
    then show ?thesis by (simp add: trim_end.simps [of s])
  next
    case (Some v)
    with 1 have "prefix (trim_end (take (length s - length v) s)) (take (length s - length v) s)"
      by simp
    with Some show ?thesis
      by (simp add: trim_end.simps [of s]) (metis prefix_order.trans take_is_prefix)
  qed
qed

lemma trim_no_outer_space: "no_outer_space (str_trim s)"
  unfolding no_outer_space_def str_trim_def
  using trim_end_no_space trim_start_no_space trim_end_prefix prefix_order.trans by blast

lemma trim_idem [simp]: "str_trim (str_trim s) = str_trim s"
  by (rule trim_id) (rule trim_no_outer_space)

section \<open>Splitting and joining\<close>

text \<open>\<open>str::split\<close> on a character predicate: always at least one piece.\<close>

fun split_by :: "(char \<Rightarrow> bool) \<Rightarrow> string \<Rightarrow> string list" where
  "split_by p [] = [[]]"
| "split_by p (c # s) =
     (if p c then [] # split_by p s
      else case split_by p s of [] \<Rightarrow> [[c]] | w # ws \<Rightarrow> (c # w) # ws)"

fun join :: "string \<Rightarrow> string list \<Rightarrow> string" where
  "join sep [] = []"
| "join sep [w] = w"
| "join sep (w # v # ws) = w @ sep @ join sep (v # ws)"

lemma split_by_not_Nil [simp]: "split_by p s \<noteq> []"
  by (cases s) (auto split: list.splits)

lemma join_Cons: "ws \<noteq> [] \<Longrightarrow> join sep (w # ws) = w @ sep @ join sep ws"
  by (cases ws) simp_all

lemma join_split_by: "join [c] (split_by (\<lambda>x. x = c) s) = s"
proof (induction s)
  case (Cons a s)
  show ?case
  proof (cases "split_by (\<lambda>x. x = c) s")
    case Nil
    then show ?thesis by simp
  next
    case (Cons w ws)
    with Cons.IH show ?thesis by (cases ws) auto
  qed
qed simp

lemma join_butlast_last:
  "ws \<noteq> [] \<Longrightarrow> join sep ws =
     (if butlast ws = [] then last ws else join sep (butlast ws) @ sep @ last ws)"
proof (induction ws)
  case (Cons w ws)
  then show ?case by (cases "ws = []") (auto simp: join_Cons)
qed simp

lemma split_by_no_sep: "\<forall>w \<in> set (split_by p s). \<forall>c \<in> set w. \<not> p c"
  by (induction s) (auto split: list.splits)

lemma split_by_last_cases:
  "\<exists>front. s = front @ last (split_by p s) \<and>
     (front = [] \<and> split_by p s = [s] \<or> front \<noteq> [] \<and> p (last front) \<and> tl (split_by p s) \<noteq> [])"
proof (induction s)
  case (Cons c s)
  then obtain front where f: "s = front @ last (split_by p s)"
    "front = [] \<and> split_by p s = [s] \<or> front \<noteq> [] \<and> p (last front) \<and> tl (split_by p s) \<noteq> []"
    by blast
  then obtain w ws where w: "split_by p s = w # ws" by (cases "split_by p s") auto
  from f w show ?case
    by (cases "p c"; cases "front = []")
      (auto intro: exI [of _ "[]"] exI [of _ "c # front"])
qed simp

lemma split_by_last:
  "\<exists>front. s = front @ last (split_by p s) \<and> (front = [] \<or> p (last front))"
  using split_by_last_cases [of s p] by blast

text \<open>\<open>str::split_once\<close> and \<open>str::rsplit_once\<close> on a character.\<close>

fun split_once :: "char \<Rightarrow> string \<Rightarrow> (string \<times> string) option" where
  "split_once c [] = None"
| "split_once c (x # s) =
     (if x = c then Some ([], s) else map_option (apfst (Cons x)) (split_once c s))"

definition rsplit_once :: "char \<Rightarrow> string \<Rightarrow> (string \<times> string) option" where
  "rsplit_once c s = map_option (\<lambda>(a, b). (rev b, rev a)) (split_once c (rev s))"

lemma split_once_Some:
  "split_once c s = Some (a, b) \<longleftrightarrow> s = a @ c # b \<and> c \<notin> set a"
proof (induction s arbitrary: a)
  case (Cons x s)
  then show ?case by (cases a) (auto simp: Cons)
qed simp

lemma split_once_append: "c \<notin> set a \<Longrightarrow> split_once c (a @ c # b) = Some (a, b)"
  by (simp add: split_once_Some)

lemma rsplit_once_Some:
  "rsplit_once c s = Some (a, b) \<longleftrightarrow> s = a @ c # b \<and> c \<notin> set b"
proof -
  have "rsplit_once c s = Some (a, b) \<longleftrightarrow> split_once c (rev s) = Some (rev b, rev a)"
    by (auto simp: rsplit_once_def)
  also have "\<dots> \<longleftrightarrow> s = a @ c # b \<and> c \<notin> set b"
    by (auto simp: split_once_Some rev_swap)
  finally show ?thesis .
qed

section \<open>Trimming a character\<close>

definition trim_start_matches_char :: "char \<Rightarrow> string \<Rightarrow> string" where
  "trim_start_matches_char c s = dropWhile (\<lambda>x. x = c) s"

definition trim_end_matches_char :: "char \<Rightarrow> string \<Rightarrow> string" where
  "trim_end_matches_char c s = rev (dropWhile (\<lambda>x. x = c) (rev s))"

text \<open>\<open>trim_start_matches\<close> with a non-empty string pattern strips it repeatedly.\<close>

function trim_start_matches :: "string \<Rightarrow> string \<Rightarrow> string" where
  "trim_start_matches p s =
     (if p \<noteq> [] \<and> starts_with s p then trim_start_matches p (drop (length p) s) else s)"
  by pat_completeness auto
termination
proof (relation "measure (\<lambda>(p, s). length s)", simp)
  fix p s :: string assume "p \<noteq> [] \<and> starts_with s p"
  then have "0 < length p" and "length p \<le> length s" by (auto dest: prefix_length_le)
  then have "length (drop (length p) s) < length s" by (simp only: length_drop diff_less)
  then show "((p, drop (length p) s), p, s) \<in> measure (\<lambda>(p, s). length s)" by simp
qed

declare trim_start_matches.simps [simp del]

lemma trim_end_matches_char_last:
  "trim_end_matches_char c s = [] \<or> last (trim_end_matches_char c s) \<noteq> c"
proof (cases "dropWhile (\<lambda>x. x = c) (rev s)")
  case (Cons a t)
  then have "a \<noteq> c" using hd_dropWhile [of "\<lambda>x. x = c" "rev s"] by simp
  with Cons show ?thesis by (simp add: trim_end_matches_char_def)
qed (simp add: trim_end_matches_char_def)

lemma trim_end_matches_char_id:
  "s = [] \<or> last s \<noteq> c \<Longrightarrow> trim_end_matches_char c s = s"
  by (cases s rule: rev_cases) (auto simp: trim_end_matches_char_def)

section \<open>Character boundaries\<close>

definition is_char_boundary :: "string \<Rightarrow> nat \<Rightarrow> bool" where
  "is_char_boundary s i \<longleftrightarrow>
     (if i = 0 then True
      else if length s \<le> i then i = length s
      else byte (s ! i) < 128 \<or> 192 \<le> byte (s ! i))"

definition cont :: "char \<Rightarrow> bool" where
  "cont c \<longleftrightarrow> 128 \<le> byte c \<and> byte c \<le> 191"

text \<open>
  One step of the UTF-8 decoder: whether a well-formed character starts the bytes, and how
  many bytes it has, or how many bytes the ill-formed prefix has
  that \<open>from_utf8_lossy\<close> replaces by one replacement character.
\<close>

definition utf8_width :: "nat \<Rightarrow> nat" where
  "utf8_width b =
     (if b < 128 then 1 else if 194 \<le> b \<and> b \<le> 223 then 2
      else if 224 \<le> b \<and> b \<le> 239 then 3 else if 240 \<le> b \<and> b \<le> 244 then 4 else 0)"

definition second_ok :: "nat \<Rightarrow> char \<Rightarrow> bool" where
  "second_ok b c \<longleftrightarrow>
     (if b = 224 then 160 \<le> byte c \<and> byte c \<le> 191
      else if b = 237 then 128 \<le> byte c \<and> byte c \<le> 159
      else if b = 240 then 144 \<le> byte c \<and> byte c \<le> 191
      else if b = 244 then 128 \<le> byte c \<and> byte c \<le> 143
      else cont c)"

fun utf8_step :: "string \<Rightarrow> bool \<times> nat" where
  "utf8_step [] = (True, 0)"
| "utf8_step (c # r) =
     (let w = utf8_width (byte c) in
      if w = 0 then (False, 1) else if w = 1 then (True, 1)
      else case r of [] \<Rightarrow> (False, 1)
      | c2 # r2 \<Rightarrow>
          if \<not> second_ok (byte c) c2 then (False, 1) else if w = 2 then (True, 2)
          else case r2 of [] \<Rightarrow> (False, 2)
          | c3 # r3 \<Rightarrow>
              if \<not> cont c3 then (False, 2) else if w = 3 then (True, 3)
              else case r3 of [] \<Rightarrow> (False, 3)
              | c4 # r4 \<Rightarrow> if \<not> cont c4 then (False, 3) else (True, 4))"

lemma utf8_step_bounds:
  "s \<noteq> [] \<Longrightarrow> 0 < snd (utf8_step s) \<and> snd (utf8_step s) \<le> length s"
  by (cases s) (auto simp: Let_def split: list.splits)

lemma utf8_step_drop: "s \<noteq> [] \<Longrightarrow> length (drop (snd (utf8_step s)) s) < length s"
  using utf8_step_bounds [of s] by simp

function valid_utf8 :: "string \<Rightarrow> bool" where
  "valid_utf8 s =
     (if s = [] then True
      else fst (utf8_step s) \<and> valid_utf8 (drop (snd (utf8_step s)) s))"
  by pat_completeness auto
termination
  by (relation "measure length", simp, unfold in_measure, rule utf8_step_drop)

declare valid_utf8.simps [simp del]

lemma valid_utf8_Nil [simp]: "valid_utf8 []"
  by (simp add: valid_utf8.simps)

function utf8_lossy :: "string \<Rightarrow> string" where
  "utf8_lossy s =
     (if s = [] then []
      else let (ok, n) = utf8_step s in
        (if ok then take n s else [char_of (239::nat), char_of (191::nat), char_of (189::nat)])
        @ utf8_lossy (drop n s))"
  by pat_completeness auto
termination
proof (relation "measure length", simp)
  fix s x ok n assume "s \<noteq> []" and "x = utf8_step s" and "(ok, n) = x"
  then have "n = snd (utf8_step s)" and "s \<noteq> []" by (auto dest: arg_cong [where f = snd])
  then show "(drop n s, s) \<in> measure length"
    using utf8_step_drop [of s] by (simp del: length_drop)
qed

declare utf8_lossy.simps [simp del]

definition byte_char :: "u8 \<Rightarrow> char" where
  "byte_char b = char_of (unat b)"

definition from_utf8_lossy :: "u8 list \<Rightarrow> string" where
  "from_utf8_lossy bs = utf8_lossy (map byte_char bs)"

lemma utf8_lossy_Nil [simp]: "utf8_lossy [] = []"
  by (simp add: utf8_lossy.simps)

lemma utf8_lossy_valid: "valid_utf8 s \<Longrightarrow> utf8_lossy s = s"
proof (induction s rule: valid_utf8.induct)
  case (1 s)
  show ?case
  proof (cases "s = []")
    case False
    with "1.prems" have ok: "fst (utf8_step s)" "valid_utf8 (drop (snd (utf8_step s)) s)"
      by (auto simp: valid_utf8.simps [of s])
    with "1.IH" False have "utf8_lossy (drop (snd (utf8_step s)) s) = drop (snd (utf8_step s)) s"
      by blast
    with ok(1) False show ?thesis
      by (simp add: utf8_lossy.simps [of s] case_prod_unfold)
  qed simp
qed

lemma valid_utf8_ascii: "(\<forall>c \<in> set s. byte c < 128) \<Longrightarrow> valid_utf8 s"
proof (induction s)
  case (Cons c s)
  then show ?case by (subst valid_utf8.simps) (simp add: utf8_width_def Let_def)
qed simp

section \<open>Slicing at character boundaries\<close>

lemma ascii_lower_byte_class [simp]:
  "cont (ascii_lower c) = cont c"
  "utf8_width (byte (ascii_lower c)) = utf8_width (byte c)"
  "second_ok (byte (ascii_lower c)) d = second_ok (byte c) d"
  "second_ok b (ascii_lower c) = second_ok b c"
  by (auto simp: cont_def utf8_width_def second_ok_def byte_ascii_lower)

lemma utf8_step_lower [simp]: "utf8_step (to_ascii_lowercase s) = utf8_step s"
  by (cases s rule: utf8_step.cases)
    (auto simp: to_ascii_lowercase_def Let_def split: list.split)

lemma valid_utf8_lower [simp]: "valid_utf8 (to_ascii_lowercase s) = valid_utf8 s"
proof (induction s rule: valid_utf8.induct)
  case (1 s)
  have "drop n (to_ascii_lowercase s) = to_ascii_lowercase (drop n s)" for n
    by (simp add: to_ascii_lowercase_def drop_map)
  with 1 show ?case
    by (cases "s = []") (auto simp: valid_utf8.simps [of s] valid_utf8.simps [of "to_ascii_lowercase s"])
qed

lemma second_ok_cont: "second_ok b c \<Longrightarrow> cont c"
  by (auto simp: second_ok_def cont_def split: if_splits)

lemma utf8_step_cont:
  assumes "fst (utf8_step s)" and "0 < j" and "j < snd (utf8_step s)"
  shows "cont (s ! j)"
proof (cases s)
  case (Cons c r)
  with assms show ?thesis
    by (auto simp: Let_def nth_Cons less_Suc_eq numeral_eq_Suc split: list.splits if_splits nat.splits
        intro: second_ok_cont)
qed (use assms in simp)

lemma utf8_step_start: "fst (utf8_step (c # r)) \<Longrightarrow> \<not> cont c"
  by (auto simp: Let_def utf8_width_def cont_def split: if_splits)

lemma valid_utf8_start: "valid_utf8 (c # r) \<Longrightarrow> \<not> cont c"
  using utf8_step_start [of c r] by (simp add: valid_utf8.simps [of "c # r"])

lemma boundary_iff_not_cont:
  "is_char_boundary s i \<longleftrightarrow> i = 0 \<or> i = length s \<or> i < length s \<and> \<not> cont (s ! i)"
  by (auto simp: is_char_boundary_def cont_def)

lemma valid_utf8_drop:
  assumes "valid_utf8 s" and "is_char_boundary s i" and "i \<le> length s"
  shows "valid_utf8 (drop i s)"
  using assms
proof (induction s arbitrary: i rule: valid_utf8.induct)
  case (1 s)
  show ?case
  proof (cases "s = [] \<or> i = 0")
    case True
    with "1.prems" show ?thesis by auto
  next
    case False
    define n where "n = snd (utf8_step s)"
    have s: "s \<noteq> []" and i: "0 < i" using False by auto
    with "1.prems" have ok: "fst (utf8_step s)" and rest: "valid_utf8 (drop n s)"
      by (auto simp: valid_utf8.simps [of s] n_def)
    have "n \<le> i"
    proof (rule ccontr)
      assume "\<not> n \<le> i"
      with ok i have "cont (s ! i)" by (intro utf8_step_cont) (simp_all add: n_def)
      moreover have "i < length s"
        using utf8_step_bounds [OF s] \<open>\<not> n \<le> i\<close> by (simp add: n_def)
      ultimately show False using "1.prems"(2) i by (simp add: boundary_iff_not_cont)
    qed
    moreover have "is_char_boundary (drop n s) (i - n)"
      using "1.prems" \<open>n \<le> i\<close> i by (auto simp: boundary_iff_not_cont)
    ultimately have "valid_utf8 (drop (i - n) (drop n s))"
      using "1.IH" [of "i - n"] s rest "1.prems"(3) by (simp add: n_def)
    with \<open>n \<le> i\<close> show ?thesis by simp
  qed
qed

lemma utf8_step_take:
  "fst (utf8_step s) \<Longrightarrow> snd (utf8_step s) \<le> n \<Longrightarrow> utf8_step (take n s) = utf8_step s"
  by (cases s rule: utf8_step.cases; cases n)
    (auto simp: Let_def take_Cons split: list.splits if_splits nat.splits)

lemma valid_utf8_take:
  assumes "valid_utf8 s" and "is_char_boundary s i" and "i \<le> length s"
  shows "valid_utf8 (take i s)"
  using assms
proof (induction s arbitrary: i rule: valid_utf8.induct)
  case (1 s)
  show ?case
  proof (cases "s = [] \<or> i = 0")
    case False
    define n where "n = snd (utf8_step s)"
    have s: "s \<noteq> []" and i: "0 < i" using False by auto
    with "1.prems" have ok: "fst (utf8_step s)" and rest: "valid_utf8 (drop n s)"
      by (auto simp: valid_utf8.simps [of s] n_def)
    have n: "0 < n" "n \<le> length s" using utf8_step_bounds [OF s] by (simp_all add: n_def)
    have ni: "n \<le> i"
    proof (rule ccontr)
      assume "\<not> n \<le> i"
      with ok i have "cont (s ! i)" by (intro utf8_step_cont) (simp_all add: n_def)
      with "1.prems"(2) i n \<open>\<not> n \<le> i\<close> show False by (simp add: boundary_iff_not_cont)
    qed
    moreover have "is_char_boundary (drop n s) (i - n)"
      using "1.prems" ni i by (auto simp: boundary_iff_not_cont)
    ultimately have "valid_utf8 (take (i - n) (drop n s))"
      using "1.IH" [of "i - n"] s ok rest "1.prems"(3) by (simp add: n_def)
    moreover have "utf8_step (take i s) = utf8_step s"
      using ok ni by (intro utf8_step_take) (simp_all add: n_def)
    moreover have "drop n (take i s) = take (i - n) (drop n s)" by (simp add: drop_take)
    ultimately show ?thesis using ok
      by (simp add: valid_utf8.simps [of "take i s"] n_def)
  qed auto
qed

lemma utf8_step_append:
  "fst (utf8_step s) \<Longrightarrow> s \<noteq> [] \<Longrightarrow> utf8_step (s @ t) = utf8_step s"
  by (cases s rule: utf8_step.cases) (auto simp: Let_def split: list.splits if_splits)

lemma valid_utf8_append: "valid_utf8 s \<Longrightarrow> valid_utf8 t \<Longrightarrow> valid_utf8 (s @ t)"
proof (induction s rule: valid_utf8.induct)
  case (1 s)
  show ?case
  proof (cases "s = []")
    case False
    define n where "n = snd (utf8_step s)"
    from False "1.prems" have ok: "fst (utf8_step s)" and rest: "valid_utf8 (drop n s)"
      by (auto simp: valid_utf8.simps [of s] n_def)
    have n: "n \<le> length s" using utf8_step_bounds [OF False] by (simp add: n_def)
    have "valid_utf8 (drop n s @ t)" using "1.IH" False ok rest "1.prems"(2) by (simp add: n_def)
    with n have "valid_utf8 (drop n (s @ t))" by simp
    with utf8_step_append [OF ok False] ok show ?thesis
      by (simp add: valid_utf8.simps [of "s @ t"] n_def)
  qed (use 1 in simp)
qed

lemma valid_utf8_append_cancel:
  "valid_utf8 s \<Longrightarrow> valid_utf8 (s @ t) \<Longrightarrow> valid_utf8 t"
proof (induction s rule: valid_utf8.induct)
  case (1 s)
  show ?case
  proof (cases "s = []")
    case False
    define n where "n = snd (utf8_step s)"
    from False "1.prems" have ok: "fst (utf8_step s)" and rest: "valid_utf8 (drop n s)"
      by (auto simp: valid_utf8.simps [of s] n_def)
    have "n \<le> length s" using utf8_step_bounds [OF False] by (simp add: n_def)
    have "utf8_step (s @ t) = utf8_step s" using ok False by (rule utf8_step_append)
    with False "1.prems"(2) have "valid_utf8 (drop n (s @ t))"
      by (simp add: valid_utf8.simps [of "s @ t"] n_def)
    with \<open>n \<le> length s\<close> have "valid_utf8 (drop n s @ t)" by simp
    with "1.IH" False rest ok show ?thesis by (simp add: n_def)
  qed (use 1 in simp)
qed

text \<open>
  In a well-formed text, where a well-formed text occurs up to ASCII case, it occurs between
  character boundaries.
\<close>

lemma occurrence_boundaries:
  assumes v: "valid_utf8 v" and s: "valid_utf8 s" "s \<noteq> []"
    and eq: "to_ascii_lowercase v = a @ to_ascii_lowercase s @ b"
  shows "is_char_boundary v (length a)" and "is_char_boundary v (length a + length s)"
proof -
  have len: "length v = length a + length s + length b"
    using arg_cong [OF eq, of length] by simp
  have nth: "ascii_lower (v ! i) = to_ascii_lowercase v ! i" if "i < length v" for i
    using that by (simp add: to_ascii_lowercase_def)
  show start: "is_char_boundary v (length a)"
  proof -
    have i: "length a < length v" using len s(2) by simp
    obtain c r where sc: "s = c # r" using s(2) by (cases s) auto
    have "to_ascii_lowercase v ! length a = ascii_lower c"
      unfolding eq by (simp add: sc to_ascii_lowercase_def)
    with nth [OF i] have "ascii_lower (v ! length a) = ascii_lower c" by simp
    then have "cont (v ! length a) = cont c" by (metis ascii_lower_byte_class(1))
    with valid_utf8_start [of c r] s(1) i show ?thesis by (simp add: boundary_iff_not_cont sc)
  qed
  show "is_char_boundary v (length a + length s)"
  proof (cases "b = []")
    case True
    with len show ?thesis by (simp add: boundary_iff_not_cont)
  next
    case False
    then obtain c r where bc: "b = c # r" by (cases b) auto
    have "valid_utf8 (drop (length a) v)" using valid_utf8_drop [OF v start] len by simp
    then have "valid_utf8 (to_ascii_lowercase (drop (length a) v))" by simp
    moreover have "to_ascii_lowercase (drop (length a) v) = to_ascii_lowercase s @ b"
      using eq by (simp add: to_ascii_lowercase_def drop_map [symmetric])
    ultimately have "valid_utf8 b"
      using valid_utf8_append_cancel [of "to_ascii_lowercase s" b] s(1) by simp
    then have "\<not> cont c" using valid_utf8_start bc by simp
    moreover have i: "length a + length s < length v" using len bc by simp
    have "to_ascii_lowercase v ! (length a + length s) = c"
      unfolding eq by (simp add: bc nth_append)
    with nth [OF i] have "ascii_lower (v ! (length a + length s)) = c" by simp
    then have "cont (v ! (length a + length s)) = cont c" by (metis ascii_lower_byte_class(1))
    ultimately show ?thesis using i by (simp add: boundary_iff_not_cont)
  qed
qed

section \<open>Characters and replacement\<close>

text \<open>\<open>str::chars\<close>, each character as its bytes.\<close>

function chars :: "string \<Rightarrow> string list" where
  "chars s =
     (if s = [] then []
      else let n = snd (utf8_step s) in take n s # chars (drop n s))"
  by pat_completeness auto
termination
proof (relation "measure length", simp)
  fix s n assume "s \<noteq> []" and "n = snd (utf8_step s)"
  then show "(drop n s, s) \<in> measure length"
    using utf8_step_drop [of s] by (simp del: length_drop)
qed

declare chars.simps [simp del]

text \<open>\<open>str::replace\<close> for a non-empty pattern, from left to right.\<close>

function str_replace :: "string \<Rightarrow> string \<Rightarrow> string \<Rightarrow> string" where
  "str_replace p t s =
     (if p \<noteq> [] \<and> starts_with s p then t @ str_replace p t (drop (length p) s)
      else case s of [] \<Rightarrow> [] | c # r \<Rightarrow> c # str_replace p t r)"
  by pat_completeness auto
termination
proof (relation "measure (\<lambda>(p, t, s). length s)", simp)
  fix p t s :: string assume "p \<noteq> [] \<and> starts_with s p"
  then have "0 < length p" and "length p \<le> length s" by (auto dest: prefix_length_le)
  then have "length (drop (length p) s) < length s" by (simp only: length_drop diff_less)
  then show "((p, t, drop (length p) s), p, t, s) \<in> measure (\<lambda>(p, t, s). length s)" by simp
qed simp_all

declare str_replace.simps [simp del]

lemma chars_Nil [simp]: "chars [] = []"
  by (simp add: chars.simps)

lemma concat_chars: "concat (chars s) = s"
proof (induction s rule: chars.induct)
  case (1 s)
  then show ?case by (cases "s = []") (simp_all add: chars.simps [of s] Let_def)
qed

end
