(* ===== verification/Numbers.thy ===== *)
theory Numbers
  imports Text
begin

text \<open>
  Rust's integer parsing (\<open>str::parse\<close>, \<open>from_str_radix\<close>) and printing (\<open>to_string\<close>,
  the lower-case hexadecimal format): the value of a digit string, the checked conversion to a
  machine integer, and the round trip.
\<close>

section \<open>Digits\<close>

text \<open>\<open>char::to_digit\<close>\<close>

definition digit_value :: "nat \<Rightarrow> char \<Rightarrow> nat option" where
  "digit_value radix c =
     (let b = byte c;
          d = if 48 \<le> b \<and> b \<le> 57 then b - 48
              else if 97 \<le> b \<and> b \<le> 122 then b - 87
              else if 65 \<le> b \<and> b \<le> 90 then b - 55 else 255
      in if d < radix then Some d else None)"

definition digit_char :: "nat \<Rightarrow> char" where
  "digit_char d = (if d < 10 then char_of (48 + d) else char_of (87 + d))"

fun digits_from :: "nat \<Rightarrow> nat \<Rightarrow> string \<Rightarrow> nat option" where
  "digits_from radix n [] = Some n"
| "digits_from radix n (c # s) =
     (case digit_value radix c of None \<Rightarrow> None
      | Some d \<Rightarrow> digits_from radix (n * radix + d) s)"

function show_radix :: "nat \<Rightarrow> nat \<Rightarrow> string" where
  "show_radix radix n =
     (if radix < 2 \<or> n < radix then [digit_char n]
      else show_radix radix (n div radix) @ [digit_char (n mod radix)])"
  by pat_completeness auto
termination by (relation "measure snd") auto

declare show_radix.simps [simp del]

lemma digit_value_char:
  assumes "d < radix" and "radix \<le> 36"
  shows "digit_value radix (digit_char d) = Some d"
proof (cases "d < 10")
  case True
  then have "byte (digit_char d) = 48 + d" by (simp add: digit_char_def)
  with True assms show ?thesis by (simp add: digit_value_def Let_def)
next
  case False
  with assms have "byte (digit_char d) = 87 + d" by (simp add: digit_char_def)
  with False assms show ?thesis by (simp add: digit_value_def Let_def)
qed

lemma digits_from_append:
  "digits_from radix n (s @ t) =
     (case digits_from radix n s of None \<Rightarrow> None | Some m \<Rightarrow> digits_from radix m t)"
  by (induction s arbitrary: n) (auto split: option.split)

lemma digits_from_show:
  assumes "2 \<le> radix" and "radix \<le> 36"
  shows "digits_from radix 0 (show_radix radix n) = Some n"
  using assms
proof (induction radix n rule: show_radix.induct)
  case (1 radix n)
  show ?case
  proof (cases "n < radix")
    case True
    with 1 show ?thesis by (simp add: show_radix.simps [of radix n] digit_value_char)
  next
    case False
    with 1 have "digits_from radix 0 (show_radix radix (n div radix)) = Some (n div radix)" by simp
    with False 1 show ?thesis
      by (simp add: show_radix.simps [of radix n] digits_from_append digit_value_char)
  qed
qed

lemma show_radix_not_Nil [simp]: "show_radix radix n \<noteq> []"
  by (simp add: show_radix.simps [of radix n])

lemma digit_char_range:
  "d < 10 \<Longrightarrow> 48 \<le> byte (digit_char d) \<and> byte (digit_char d) \<le> 57"
  by (simp add: digit_char_def)

lemma show_decimal_digits: "c \<in> set (show_radix 10 n) \<Longrightarrow> 48 \<le> byte c \<and> byte c \<le> 57"
proof (induction "10 :: nat" n rule: show_radix.induct)
  case (1 n)
  show ?case
  proof (cases "n < 10")
    case True
    with 1 show ?thesis by (auto simp: show_radix.simps [of 10 n] digit_char_range)
  next
    case False
    with "1.prems" have "c \<in> set (show_radix 10 (n div 10)) \<or> c = digit_char (n mod 10)"
      by (auto simp: show_radix.simps [of 10 n])
    with "1.hyps" False show ?thesis by (auto simp: digit_char_range)
  qed
qed

lemma show_radix_length: "n < 10 ^ k \<Longrightarrow> 0 < k \<Longrightarrow> length (show_radix 10 n) \<le> k"
proof (induction k arbitrary: n)
  case (Suc k)
  show ?case
  proof (cases "n < 10")
    case True
    then show ?thesis by (simp add: show_radix.simps [of 10 n])
  next
    case False
    with Suc.prems have "n div 10 < 10 ^ k" and "0 < k"
      by (auto simp: less_mult_imp_div_less mult.commute intro: Nat.gr0I)
    from Suc.IH [OF this] False show ?thesis by (simp add: show_radix.simps [of 10 n])
  qed
qed simp

section \<open>Parsing and printing machine integers\<close>

text \<open>An optional plus sign, then at least one digit.\<close>

definition parse_nat :: "nat \<Rightarrow> string \<Rightarrow> nat option" where
  "parse_nat radix s =
     (case s of
        [] \<Rightarrow> None
      | c # r \<Rightarrow>
          if r = [] \<and> (c = CHR ''+'' \<or> c = CHR ''-'') then None
          else digits_from radix 0 (if c = CHR ''+'' then r else s))"

definition from_str_radix :: "nat \<Rightarrow> string \<Rightarrow> 'a::len word option" where
  "from_str_radix radix s =
     (case parse_nat radix s of
        None \<Rightarrow> None
      | Some n \<Rightarrow> if n < 2 ^ LENGTH('a) then Some (of_nat n) else None)"

definition parse_uint :: "string \<Rightarrow> 'a::len word option" where
  "parse_uint s = from_str_radix 10 s"

definition show_uint :: "'a::len word \<Rightarrow> string" where
  "show_uint w = show_radix 10 (unat w)"

lemma parse_show_nat: "parse_nat 10 (show_radix 10 n) = Some n"
proof (cases "show_radix 10 n")
  case (Cons c r)
  then have "48 \<le> byte c" using show_decimal_digits [of c n] by simp
  then have "c \<noteq> CHR ''+''" and "c \<noteq> CHR ''-''" by auto
  with Cons digits_from_show [of 10 n] show ?thesis by (simp add: parse_nat_def)
qed simp

lemma parse_show_uint [simp]: "parse_uint (show_uint w) = Some w"
  using unsigned_less [of w]
  by (simp add: parse_uint_def show_uint_def from_str_radix_def parse_show_nat)

lemma show_uint_digits: "c \<in> set (show_uint w) \<Longrightarrow> 48 \<le> byte c \<and> byte c \<le> 57"
  unfolding show_uint_def by (rule show_decimal_digits)

lemma show_uint_not_Nil [simp]: "show_uint w \<noteq> []"
  by (simp add: show_uint_def)

lemma parse_uint_Nil [simp]: "parse_uint [] = None"
  by (simp add: parse_uint_def from_str_radix_def parse_nat_def)

end
