(* ===== verification/Addr.thy ===== *)
theory Addr
  imports Numbers
begin

unbundle bit_operations_syntax

text \<open>
  IP addresses: \<open>std::net::IpAddr\<close> as the integers its octets denote, with the
  conversions from octets the sources use, and its parser and printer: dotted decimals without
  leading zeros, groups of hexadecimal digits with at most one \<open>::\<close> and an optional
  embedded IPv4 address.
\<close>

datatype ip_addr = V4 u32 | V6 "128 word"

definition be_word :: "u8 list \<Rightarrow> 'a::len word" where
  "be_word bs = foldl (\<lambda>w b. push_bit 8 w OR ucast b) 0 bs"

text \<open>\<open>u16::from_be_bytes\<close>, \<open>Ipv4Addr::new\<close> and \<open>Ipv6Addr::from([u8; 16])\<close>.\<close>

definition u16_from_be_bytes :: "u8 \<Rightarrow> u8 \<Rightarrow> u16" where
  "u16_from_be_bytes hi lo = be_word [hi, lo]"

definition ipv4_new :: "u8 \<Rightarrow> u8 \<Rightarrow> u8 \<Rightarrow> u8 \<Rightarrow> ip_addr" where
  "ipv4_new a b c d = V4 (be_word [a, b, c, d])"

definition ipv6_from_octets :: "u8 list \<Rightarrow> ip_addr" where
  "ipv6_from_octets bs = V6 (be_word bs)"

section \<open>The parser\<close>

text \<open>
  Each reader returns the value and the rest of the input, or \<open>None\<close>, in which case the
  parser's position is unchanged.
\<close>

type_synonym 'a reader = "string \<Rightarrow> ('a \<times> string) option"

definition is_digit :: "nat \<Rightarrow> char \<Rightarrow> bool" where
  "is_digit radix c \<longleftrightarrow> digit_value radix c \<noteq> None"

definition read_number :: "nat \<Rightarrow> nat \<Rightarrow> nat \<Rightarrow> bool \<Rightarrow> nat reader" where
  "read_number radix max_digits bound allow_zero_prefix s =
     (let ds = takeWhile (is_digit radix) s
      in if ds = [] \<or> max_digits < length ds then None
         else if \<not> allow_zero_prefix \<and> hd ds = CHR ''0'' \<and> 1 < length ds then None
         else case digits_from radix 0 ds of
                None \<Rightarrow> None
              | Some n \<Rightarrow> if n < bound then Some (n, dropWhile (is_digit radix) s) else None)"

definition read_given_char :: "char \<Rightarrow> unit reader" where
  "read_given_char c s = (case s of [] \<Rightarrow> None | x # r \<Rightarrow> if x = c then Some ((), r) else None)"

definition read_separator :: "char \<Rightarrow> bool \<Rightarrow> 'a reader \<Rightarrow> 'a reader" where
  "read_separator sep first inner s =
     (if first then inner s
      else case read_given_char sep s of None \<Rightarrow> None | Some (_, r) \<Rightarrow> inner r)"

definition read_octet :: "bool \<Rightarrow> u8 reader" where
  "read_octet first s =
     map_option (apfst of_nat) (read_separator CHR ''.'' first (read_number 10 3 256 False) s)"

definition read_ipv4 :: "u8 list reader" where
  "read_ipv4 s =
     (case read_octet True s of None \<Rightarrow> None | Some (a, s1) \<Rightarrow>
      case read_octet False s1 of None \<Rightarrow> None | Some (b, s2) \<Rightarrow>
      case read_octet False s2 of None \<Rightarrow> None | Some (c, s3) \<Rightarrow>
      case read_octet False s3 of None \<Rightarrow> None | Some (d, s4) \<Rightarrow> Some ([a, b, c, d], s4))"

text \<open>At most \<open>n\<close> groups; an embedded IPv4 address needs room for two and ends the groups.\<close>

fun read_groups :: "nat \<Rightarrow> bool \<Rightarrow> string \<Rightarrow> u16 list \<times> bool \<times> string" where
  "read_groups 0 first s = ([], False, s)"
| "read_groups (Suc n) first s =
     (case (if 0 < n then read_separator CHR '':'' first read_ipv4 s else None) of
        Some (os, r) \<Rightarrow>
          ([u16_from_be_bytes (os ! 0) (os ! 1), u16_from_be_bytes (os ! 2) (os ! 3)], True, r)
      | None \<Rightarrow>
          (case read_separator CHR '':'' first (read_number 16 4 65536 True) s of
             None \<Rightarrow> ([], False, s)
           | Some (g, r) \<Rightarrow>
               let (gs, v4, r') = read_groups n False r in (of_nat g # gs, v4, r')))"

definition read_ipv6 :: "u16 list reader" where
  "read_ipv6 s =
     (let (head, head_ipv4, r) = read_groups 8 True s
      in if length head = 8 then Some (head, r)
         else if head_ipv4 then None
         else case read_given_char CHR '':'' r of None \<Rightarrow> None | Some (_, r1) \<Rightarrow>
              case read_given_char CHR '':'' r1 of None \<Rightarrow> None | Some (_, r2) \<Rightarrow>
                let (tail, _, r3) = read_groups (8 - (length head + 1)) True r2
                in Some (head @ replicate (8 - length head - length tail) 0 @ tail, r3))"

definition word_of_groups :: "u16 list \<Rightarrow> 128 word" where
  "word_of_groups gs = foldl (\<lambda>w g. push_bit 16 w OR ucast g) 0 gs"

text \<open>\<open>str::parse::<IpAddr>\<close>: the whole input has to be consumed.\<close>

definition parse_ip :: "string \<Rightarrow> ip_addr option" where
  "parse_ip s =
     (case read_ipv4 s of
        Some (os, r) \<Rightarrow> if r = [] then Some (V4 (be_word os)) else None
      | None \<Rightarrow>
          (case read_ipv6 s of
             Some (gs, r) \<Rightarrow> if r = [] then Some (V6 (word_of_groups gs)) else None
           | None \<Rightarrow> None))"

section \<open>The printer\<close>

definition octets_of :: "u32 \<Rightarrow> u8 list" where
  "octets_of w = map (\<lambda>i. ucast (drop_bit i w)) [24, 16, 8, 0]"

definition groups_of :: "128 word \<Rightarrow> u16 list" where
  "groups_of w = map (\<lambda>i. ucast (drop_bit i w)) [112, 96, 80, 64, 48, 32, 16, 0]"

definition show_octets :: "u8 list \<Rightarrow> string" where
  "show_octets os = join ''.'' (map show_uint os)"

definition show_groups :: "u16 list \<Rightarrow> string" where
  "show_groups gs = join '':'' (map (\<lambda>g. show_radix 16 (unat g)) gs)"

text \<open>The first of the longest runs of zero groups, as its start and its length.\<close>

fun longest_zeroes :: "nat \<Rightarrow> nat \<times> nat \<Rightarrow> nat \<times> nat \<Rightarrow> u16 list \<Rightarrow> nat \<times> nat" where
  "longest_zeroes i longest current [] = longest"
| "longest_zeroes i longest current (g # gs) =
     (if g = 0 then
        let current' = (if snd current = 0 then (i, 1) else (fst current, snd current + 1));
            longest' = (if snd longest < snd current' then current' else longest)
        in longest_zeroes (i + 1) longest' current' gs
      else longest_zeroes (i + 1) longest (0, 0) gs)"

definition show_ipv6 :: "128 word \<Rightarrow> string" where
  "show_ipv6 w =
     (let gs = groups_of w in
      if take 5 gs = [0, 0, 0, 0, 0] \<and> gs ! 5 = - 1 then
        ''::ffff:'' @ show_octets (octets_of (ucast w))
      else
        let (start, len) = longest_zeroes 0 (0, 0) (0, 0) gs
        in if 1 < len then
             show_groups (take start gs) @ ''::'' @ show_groups (drop (start + len) gs)
           else show_groups gs)"

fun show_ip :: "ip_addr \<Rightarrow> string" where
  "show_ip (V4 w) = show_octets (octets_of w)"
| "show_ip (V6 w) = show_ipv6 w"

section \<open>IPv4 addresses survive printing and parsing\<close>

lemma is_decimal: "is_digit 10 c \<longleftrightarrow> 48 \<le> byte c \<and> byte c \<le> 57"
proof -
  have "48 \<le> byte c \<and> byte c \<le> 57 \<longrightarrow> byte c - 48 < 10" by arith
  moreover have "97 \<le> byte c \<longrightarrow> \<not> byte c - 87 < 10" by arith
  moreover have "65 \<le> byte c \<longrightarrow> \<not> byte c - 55 < 10" by arith
  ultimately show ?thesis by (simp add: is_digit_def digit_value_def Let_def)
qed

lemma show_decimal_hd: "hd (show_radix 10 n) = CHR ''0'' \<Longrightarrow> n = 0"
proof (induction "10 :: nat" n rule: show_radix.induct)
  case (1 n)
  show ?case
  proof (cases "n < 10")
    case True
    with "1.prems" have "digit_char n = CHR ''0''" by (simp add: show_radix.simps [of 10 n])
    with True have "byte (char_of (48 + n) :: char) = 48" by (simp add: digit_char_def)
    with True show ?thesis by simp
  next
    case False
    with "1.prems" have "hd (show_radix 10 (n div 10)) = CHR ''0''"
      by (simp add: show_radix.simps [of 10 n])
    with "1.hyps" False have "n div 10 = 0" by simp
    with False show ?thesis by simp
  qed
qed

lemma read_octet_show:
  assumes "r = [] \<or> hd r = CHR ''.''"
  shows "read_octet True (show_uint a @ r) = Some (a, r)"
    and "read_octet False (CHR ''.'' # show_uint a @ r) = Some (a, r)"
proof -
  let ?s = "show_uint a @ r"
  have digit: "is_digit 10 c" if "c \<in> set (show_uint a)" for c
    using show_uint_digits [OF that] by (simp add: is_decimal)
  have stop: "r = [] \<or> \<not> is_digit 10 (hd r)" using assms by (auto simp: is_decimal)
  have ds: "takeWhile (is_digit 10) ?s = show_uint a" "dropWhile (is_digit 10) ?s = r"
    using digit stop by (cases r; simp)+
  have v: "digits_from 10 0 (show_uint a) = Some (unat a)"
    using digits_from_show [of 10 "unat a"] by (simp add: show_uint_def)
  have lt: "unat a < 256" using unsigned_less [of a] by simp
  then have l: "length (show_uint a) \<le> 3"
    using show_radix_length [of "unat a" 3] by (simp add: show_uint_def)
  have z: "hd (show_uint a) = CHR ''0'' \<longrightarrow> length (show_uint a) \<le> 1"
    using show_decimal_hd [of "unat a"] by (auto simp: show_uint_def show_radix.simps [of 10 0])
  have "read_number 10 3 256 False ?s = Some (unat a, r)"
    using ds v l z lt by (auto simp: read_number_def Let_def not_less)
  then show "read_octet True ?s = Some (a, r)"
    and "read_octet False (CHR ''.'' # ?s) = Some (a, r)"
    by (simp_all add: read_octet_def read_separator_def read_given_char_def)
qed

lemma read_ipv4_show: "read_ipv4 (show_octets [a, b, c, d]) = Some ([a, b, c, d], [])"
  using read_octet_show(1) [of "CHR ''.'' # show_uint b @ CHR ''.'' # show_uint c @ CHR ''.'' # show_uint d" a]
    read_octet_show(2) [of "CHR ''.'' # show_uint c @ CHR ''.'' # show_uint d" b]
    read_octet_show(2) [of "CHR ''.'' # show_uint d" c] read_octet_show(2) [of "[]" d]
  by (simp add: read_ipv4_def show_octets_def)

lemma be_word_octets: "be_word (octets_of w) = w"
proof (rule bit_word_eqI)
  fix n assume "n < LENGTH(32)"
  then show "bit (be_word (octets_of w) :: u32) n = bit w n"
    by (cases "n < 8"; cases "n < 16"; cases "n < 24")
      (auto simp: be_word_def octets_of_def bit_simps less_diff_conv2)
qed

lemma parse_show_ipv4 [simp]: "parse_ip (show_ip (V4 w)) = Some (V4 w)"
  using read_ipv4_show [of "octets_of w ! 0" "octets_of w ! 1" "octets_of w ! 2" "octets_of w ! 3"]
    be_word_octets [of w]
  by (simp add: parse_ip_def octets_of_def)

end
