(* ===== verification/Bytes.thy ===== *)
theory Bytes
  imports Addr
begin

text \<open>
  Slices of bytes as the sensors use them: checked access, and the integers and arrays laid out
  in a \<open>#[repr(C)]\<close> structure on a little-endian machine, with their round trip.
\<close>

unbundle bit_operations_syntax

section \<open>Checked access\<close>

definition get_byte :: "nat \<Rightarrow> u8 list \<Rightarrow> u8 option" where
  "get_byte i xs = (if i < length xs then Some (xs ! i) else None)"

definition get_from :: "nat \<Rightarrow> u8 list \<Rightarrow> u8 list option" where
  "get_from i xs = (if i \<le> length xs then Some (drop i xs) else None)"

definition get_u16 :: "nat \<Rightarrow> u8 list \<Rightarrow> u16 option" where
  "get_u16 i xs =
     (case get_byte i xs of None \<Rightarrow> None
      | Some hi \<Rightarrow> (case get_byte (i + 1) xs of None \<Rightarrow> None
                   | Some lo \<Rightarrow> Some (u16_from_be_bytes hi lo)))"

lemma get_u16_eq:
  "get_u16 i xs =
     (if i + 2 \<le> length xs then Some (u16_from_be_bytes (xs ! i) (xs ! (i + 1))) else None)"
  by (simp add: get_u16_def get_byte_def)

section \<open>Little-endian integers\<close>

definition le_word :: "u8 list \<Rightarrow> 'a::len word" where
  "le_word bs = be_word (rev bs)"

definition le_bytes :: "nat \<Rightarrow> 'a::len word \<Rightarrow> u8 list" where
  "le_bytes n w = map (\<lambda>i. ucast (drop_bit (8 * i) w)) [0..<n]"

text \<open>The bytes of an array at an offset of a structure.\<close>

definition field :: "nat \<Rightarrow> nat \<Rightarrow> u8 list \<Rightarrow> u8 list" where
  "field off n bs = take n (drop off bs)"

lemma le_word_Nil: "le_word [] = 0"
  by (simp add: le_word_def be_word_def)

lemma le_word_Cons: "le_word (b # bs) = (ucast b OR push_bit 8 (le_word bs) :: 'a::len word)"
  by (simp add: le_word_def be_word_def or.commute)

lemma bit_le_word:
  "bit (le_word bs :: 'a::len word) n \<longleftrightarrow>
     n < LENGTH('a) \<and> n div 8 < length bs \<and> bit (bs ! (n div 8)) (n mod 8)"
proof (induction bs arbitrary: n)
  case Nil
  then show ?case by (simp add: le_word_Nil)
next
  case (Cons b bs)
  show ?case
  proof (cases "n < 8")
    case True
    then show ?thesis by (auto simp: le_word_Cons bit_simps)
  next
    case False
    then have "n div 8 = Suc ((n - 8) div 8)" and "n mod 8 = (n - 8) mod 8"
      by (simp_all add: le_div_geq le_mod_geq)
    with False Cons.IH [of "n - 8"] show ?thesis
      by (auto simp: le_word_Cons bit_simps dest: bit_imp_le_length)
  qed
qed

lemma length_le_bytes [simp]: "length (le_bytes n w) = n"
  by (simp add: le_bytes_def)

lemma le_word_le_bytes:
  assumes "LENGTH('a) \<le> 8 * n"
  shows "le_word (le_bytes n w) = (w :: 'a::len word)"
proof (rule bit_word_eqI)
  fix i assume i: "i < LENGTH('a)"
  with assms have "i div 8 < n" by (simp add: less_mult_imp_div_less mult.commute)
  moreover have "8 * (i div 8) + i mod 8 = i" by simp
  ultimately show "bit (le_word (le_bytes n w) :: 'a word) i = bit w i"
    using i by (simp add: bit_le_word le_bytes_def bit_simps)
qed

lemma le_bytes_le_word:
  assumes "8 * length bs \<le> LENGTH('a::len)"
  shows "le_bytes (length bs) (le_word bs :: 'a word) = bs"
proof (rule nth_equalityI)
  fix i assume "i < length (le_bytes (length bs) (le_word bs :: 'a word))"
  then have i: "i < length bs" by simp
  show "le_bytes (length bs) (le_word bs :: 'a word) ! i = bs ! i"
  proof (rule bit_word_eqI)
    fix n assume n: "n < LENGTH(8)"
    with i have "8 * i + n < 8 * length bs" by simp
    with assms have "8 * i + n < LENGTH('a)" by linarith
    with i n show "bit (le_bytes (length bs) (le_word bs :: 'a word) ! i) n = bit (bs ! i) n"
      by (simp add: le_bytes_def bit_simps bit_le_word add.commute)
  qed
qed simp

text \<open>The octets of \<open>Addr\<close> are the bytes in the other order.\<close>

lemma octets_rev_le_bytes: "octets_of w = rev (le_bytes 4 w)"
  by (simp add: octets_of_def le_bytes_def upt_rec)

lemmas le_roundtrip [simp] =
  le_word_le_bytes [where 'a = 16 and n = 2, simplified]
  le_word_le_bytes [where 'a = 32 and n = 4, simplified]
  le_word_le_bytes [where 'a = 64 and n = 8, simplified]

lemma field_drop: "field off n bs @ drop (off + n) bs = drop off bs"
  by (metis field_def append_take_drop_id drop_drop add.commute)

lemma field_append [simp]:
  "length xs = off \<Longrightarrow> length ys = n \<Longrightarrow> field off n (xs @ ys @ zs) = ys"
  by (simp add: field_def)

end
