(* ===== verification/Ebpf_Events.thy ===== *)
theory Ebpf_Events
  imports Bytes
begin

text \<open>
  The records the eBPF programs write to their ring buffers and the sensor reads back:
  \<open>ebpf/src/events.rs\<close> and its mirror \<open>src/sensor/linux/events.rs\<close>. The two files declare the
  same structures; writing an entry lays one out in bytes, \<open>parse_event\<close> reads it back.
\<close>

section \<open>The structures\<close>

record process_raw =
  pr_kind :: u32
  pr_pid :: u32
  pr_uid :: u32
  pr_pad :: u32
  pr_comm :: "u8 list"
  pr_image :: "u8 list"

record network_raw =
  nr_pid :: u32
  nr_uid :: u32
  nr_fd :: i32
  nr_pad0 :: u32
  nr_dport :: u16
  nr_sport :: u16
  nr_af :: u16
  nr_pad1 :: u16
  nr_daddr :: "u8 list"
  nr_saddr :: "u8 list"

record file_raw =
  fr_kind :: u32
  fr_pid :: u32
  fr_uid :: u32
  fr_pad0 :: u32
  fr_path :: "u8 list"
  fr_aux_path :: "u8 list"
  fr_comm :: "u8 list"

record dns_raw =
  dr_kind :: u32
  dr_pid :: u32
  dr_uid :: u32
  dr_fd :: i32
  dr_payload_len :: u16
  dr_pad0 :: u16
  dr_query_name :: "u8 list"
  dr_query_results :: "u8 list"
  dr_record_type :: "u8 list"
  dr_payload :: "u8 list"

text \<open>The lengths of the arrays.\<close>

definition process_raw_ok :: "process_raw \<Rightarrow> bool" where
  "process_raw_ok ev \<longleftrightarrow> length (pr_comm ev) = 16 \<and> length (pr_image ev) = 128"

definition network_raw_ok :: "network_raw \<Rightarrow> bool" where
  "network_raw_ok ev \<longleftrightarrow> length (nr_daddr ev) = 16 \<and> length (nr_saddr ev) = 16"

definition file_raw_ok :: "file_raw \<Rightarrow> bool" where
  "file_raw_ok ev \<longleftrightarrow>
     length (fr_path ev) = 96 \<and> length (fr_aux_path ev) = 96 \<and> length (fr_comm ev) = 16"

definition dns_raw_ok :: "dns_raw \<Rightarrow> bool" where
  "dns_raw_ok ev \<longleftrightarrow>
     length (dr_query_name ev) = 96 \<and> length (dr_query_results ev) = 96 \<and>
     length (dr_record_type ev) = 16 \<and> length (dr_payload ev) = 256"

section \<open>The layout\<close>

definition process_bytes :: "process_raw \<Rightarrow> u8 list" where
  "process_bytes ev =
     le_bytes 4 (pr_kind ev) @ le_bytes 4 (pr_pid ev) @ le_bytes 4 (pr_uid ev) @
     le_bytes 4 (pr_pad ev) @ pr_comm ev @ pr_image ev"

definition network_bytes :: "network_raw \<Rightarrow> u8 list" where
  "network_bytes ev =
     le_bytes 4 (nr_pid ev) @ le_bytes 4 (nr_uid ev) @ le_bytes 4 (nr_fd ev) @
     le_bytes 4 (nr_pad0 ev) @ le_bytes 2 (nr_dport ev) @ le_bytes 2 (nr_sport ev) @
     le_bytes 2 (nr_af ev) @ le_bytes 2 (nr_pad1 ev) @ nr_daddr ev @ nr_saddr ev"

definition file_bytes :: "file_raw \<Rightarrow> u8 list" where
  "file_bytes ev =
     le_bytes 4 (fr_kind ev) @ le_bytes 4 (fr_pid ev) @ le_bytes 4 (fr_uid ev) @
     le_bytes 4 (fr_pad0 ev) @ fr_path ev @ fr_aux_path ev @ fr_comm ev"

definition dns_bytes :: "dns_raw \<Rightarrow> u8 list" where
  "dns_bytes ev =
     le_bytes 4 (dr_kind ev) @ le_bytes 4 (dr_pid ev) @ le_bytes 4 (dr_uid ev) @
     le_bytes 4 (dr_fd ev) @ le_bytes 2 (dr_payload_len ev) @ le_bytes 2 (dr_pad0 ev) @
     dr_query_name ev @ dr_query_results ev @ dr_record_type ev @ dr_payload ev"

definition parse_event :: "nat \<Rightarrow> (u8 list \<Rightarrow> 'ev) \<Rightarrow> u8 list \<Rightarrow> 'ev option" where
  "parse_event size_of layout bytes = (if length bytes < size_of then None else Some (layout bytes))"

definition process_layout :: "u8 list \<Rightarrow> process_raw" where
  "process_layout bs =
     \<lparr>pr_kind = le_word (field 0 4 bs), pr_pid = le_word (field 4 4 bs),
      pr_uid = le_word (field 8 4 bs), pr_pad = le_word (field 12 4 bs),
      pr_comm = field 16 16 bs, pr_image = field 32 128 bs\<rparr>"

definition network_layout :: "u8 list \<Rightarrow> network_raw" where
  "network_layout bs =
     \<lparr>nr_pid = le_word (field 0 4 bs), nr_uid = le_word (field 4 4 bs),
      nr_fd = le_word (field 8 4 bs), nr_pad0 = le_word (field 12 4 bs),
      nr_dport = le_word (field 16 2 bs), nr_sport = le_word (field 18 2 bs),
      nr_af = le_word (field 20 2 bs), nr_pad1 = le_word (field 22 2 bs),
      nr_daddr = field 24 16 bs, nr_saddr = field 40 16 bs\<rparr>"

definition file_layout :: "u8 list \<Rightarrow> file_raw" where
  "file_layout bs =
     \<lparr>fr_kind = le_word (field 0 4 bs), fr_pid = le_word (field 4 4 bs),
      fr_uid = le_word (field 8 4 bs), fr_pad0 = le_word (field 12 4 bs),
      fr_path = field 16 96 bs, fr_aux_path = field 112 96 bs, fr_comm = field 208 16 bs\<rparr>"

definition dns_layout :: "u8 list \<Rightarrow> dns_raw" where
  "dns_layout bs =
     \<lparr>dr_kind = le_word (field 0 4 bs), dr_pid = le_word (field 4 4 bs),
      dr_uid = le_word (field 8 4 bs), dr_fd = le_word (field 12 4 bs),
      dr_payload_len = le_word (field 16 2 bs), dr_pad0 = le_word (field 18 2 bs),
      dr_query_name = field 20 96 bs, dr_query_results = field 116 96 bs,
      dr_record_type = field 212 16 bs, dr_payload = field 228 256 bs\<rparr>"

definition parse_process_event :: "u8 list \<Rightarrow> process_raw option" where
  "parse_process_event = parse_event 160 process_layout"

definition parse_network_event :: "u8 list \<Rightarrow> network_raw option" where
  "parse_network_event = parse_event 56 network_layout"

definition parse_file_event :: "u8 list \<Rightarrow> file_raw option" where
  "parse_file_event = parse_event 224 file_layout"

definition parse_dns_event :: "u8 list \<Rightarrow> dns_raw option" where
  "parse_dns_event = parse_event 484 dns_layout"

lemma field_0 [simp]: "length xs = n \<Longrightarrow> field 0 n (xs @ ys) = xs"
  by (simp add: field_def)

lemma field_skip:
  "length xs \<le> off \<Longrightarrow> field off n (xs @ ys) = field (off - length xs) n ys"
  by (simp add: field_def)

lemma field_all: "length xs = n \<Longrightarrow> field 0 n xs = xs"
  by (simp add: field_def)

lemmas layout_simps = parse_event_def field_skip field_all

lemma process_roundtrip: "process_raw_ok ev \<Longrightarrow> parse_process_event (process_bytes ev) = Some ev"
  by (simp add: parse_process_event_def process_layout_def process_bytes_def process_raw_ok_def
      layout_simps del: field_append)

lemma network_roundtrip: "network_raw_ok ev \<Longrightarrow> parse_network_event (network_bytes ev) = Some ev"
  by (simp add: parse_network_event_def network_layout_def network_bytes_def network_raw_ok_def
      layout_simps del: field_append)

lemma file_roundtrip: "file_raw_ok ev \<Longrightarrow> parse_file_event (file_bytes ev) = Some ev"
  by (simp add: parse_file_event_def file_layout_def file_bytes_def file_raw_ok_def
      layout_simps del: field_append)

lemma dns_roundtrip: "dns_raw_ok ev \<Longrightarrow> parse_dns_event (dns_bytes ev) = Some ev"
  by (simp add: parse_dns_event_def dns_layout_def dns_bytes_def dns_raw_ok_def
      layout_simps del: field_append)

section \<open>Text in fixed arrays\<close>

definition bytes_to_string :: "u8 list \<Rightarrow> string" where
  "bytes_to_string buf = from_utf8_lossy (takeWhile (\<lambda>b. b \<noteq> 0) buf)"

text \<open>A text cut to the array, with at least one zero after it.\<close>

definition c_array :: "nat \<Rightarrow> u8 list \<Rightarrow> u8 list" where
  "c_array n s = take (n - 1) s @ replicate (n - length (take (n - 1) s)) 0"

lemma length_c_array [simp]: "0 < n \<Longrightarrow> length (c_array n s) = n"
  by (simp add: c_array_def)

lemma takeWhile_c_array:
  assumes "0 \<notin> set s" and "0 < n"
  shows "takeWhile (\<lambda>b. b \<noteq> 0) (c_array n s) = take (n - 1) s"
proof -
  have "takeWhile (\<lambda>b. b \<noteq> 0) (take (n - 1) s @ replicate k 0) = take (n - 1) s" for k
    using assms(1) by (subst takeWhile_append2) (auto dest: in_set_takeD simp: takeWhile_replicate)
  then show ?thesis by (simp add: c_array_def)
qed

lemma bytes_to_string_c_array:
  assumes "0 \<notin> set s" and "length s < n" and "valid_utf8 (map byte_char s)"
  shows "bytes_to_string (c_array n s) = map byte_char s"
  using assms takeWhile_c_array [of s n]
  by (simp add: bytes_to_string_def from_utf8_lossy_def utf8_lossy_valid)

end
