(* ===== verification/Lines.thy ===== *)
theory Lines
  imports Text
begin

text \<open>\<open>str::lines\<close>, \<open>str::split_whitespace\<close> and \<open>str::get\<close> with a range.\<close>

section \<open>Lines\<close>

text \<open>The pieces between line feeds, without the carriage return before one.\<close>

definition strip_cr :: "string \<Rightarrow> string" where
  "strip_cr w = (if w \<noteq> [] \<and> last w = CHR 0x0D then butlast w else w)"

fun lines_of :: "string list \<Rightarrow> string list" where
  "lines_of [] = []"
| "lines_of [w] = (if w = [] then [] else [w])"
| "lines_of (w # v # ws) = strip_cr w # lines_of (v # ws)"

definition str_lines :: "string \<Rightarrow> string list" where
  "str_lines s = lines_of (split_by (\<lambda>c. c = CHR 0x0A) s)"

definition unlines :: "string list \<Rightarrow> string" where
  "unlines ls = concat (map (\<lambda>l. l @ [CHR 0x0A]) ls)"

lemma split_by_append:
  "p c \<Longrightarrow> list_all (\<lambda>x. \<not> p x) l \<Longrightarrow> split_by p (l @ c # s) = l # split_by p s"
  by (induction l) (simp_all split: list.split)

lemma str_lines_unlines:
  assumes "list_all (\<lambda>l. CHR 0x0A \<notin> set l \<and> strip_cr l = l) ls"
  shows "str_lines (unlines ls) = ls"
  using assms
proof (induction ls)
  case (Cons l ls)
  have "list_all (\<lambda>c. c \<noteq> CHR 0x0A) l" using Cons.prems by (auto simp: list_all_iff)
  then have "split_by (\<lambda>c. c = CHR 0x0A) (unlines (l # ls)) =
      l # split_by (\<lambda>c. c = CHR 0x0A) (unlines ls)"
    by (simp add: unlines_def split_by_append)
  moreover obtain v vs where "split_by (\<lambda>c. c = CHR 0x0A) (unlines ls) = v # vs"
    by (cases "split_by (\<lambda>c. c = CHR 0x0A) (unlines ls)") auto
  ultimately show ?case using Cons by (simp add: str_lines_def)
qed (simp add: str_lines_def unlines_def)

section \<open>Words\<close>

text \<open>The maximal runs of characters that are not white space.\<close>

fun words_of :: "string list \<Rightarrow> string \<Rightarrow> string list" where
  "words_of [] w = (if w = [] then [] else [w])"
| "words_of (c # cs) w =
     (if c \<in> set white_space then (if w = [] then words_of cs [] else w # words_of cs [])
      else words_of cs (w @ c))"

definition split_whitespace :: "string \<Rightarrow> string list" where
  "split_whitespace s = words_of (chars s) []"

definition printable :: "string \<Rightarrow> bool" where
  "printable w \<longleftrightarrow> w \<noteq> [] \<and> list_all (\<lambda>c. 33 \<le> byte c \<and> byte c \<le> 126) w"

lemma chars_ascii: "byte c < 128 \<Longrightarrow> chars (c # s) = [c] # chars s"
  by (simp add: chars.simps [of "c # s"] utf8_width_def Let_def)

lemma byte_space: "byte c = 32 \<or> byte c = 10 \<Longrightarrow> [c] \<in> set white_space"
proof -
  assume "byte c = 32 \<or> byte c = 10"
  then have "c = char_of (32 :: nat) \<or> c = char_of (10 :: nat)" by (metis char_of_char)
  then show ?thesis by (auto simp: white_space_def)
qed

lemma space_char: "[CHR '' ''] \<in> set white_space" "[CHR 0x0A] \<in> set white_space"
  by (simp_all add: byte_space)

lemma printable_char_not_space: "33 \<le> byte c \<Longrightarrow> byte c \<le> 126 \<Longrightarrow> [c] \<notin> set white_space"
  by (auto simp: white_space_def)

lemma words_of_printable:
  assumes "list_all (\<lambda>c. 33 \<le> byte c \<and> byte c \<le> 126) w"
  shows "words_of (chars (w @ s)) acc = words_of (chars s) (acc @ w)"
  using assms
proof (induction w arbitrary: acc)
  case (Cons c w)
  then show ?case by (simp add: chars_ascii printable_char_not_space)
qed simp

lemma split_whitespace_word:
  assumes "printable w"
  shows "split_whitespace (w @ CHR '' '' # s) = w # split_whitespace s"
    and "split_whitespace (w @ [CHR 0x0A]) = [w]"
    and "split_whitespace w = [w]"
  using assms words_of_printable [of w "CHR '' '' # s" "[]"] words_of_printable [of w "[CHR 0x0A]" "[]"]
    words_of_printable [of w "[]" "[]"] space_char
  by (simp_all add: printable_def split_whitespace_def chars_ascii)

lemma split_whitespace_join:
  assumes "list_all printable ws" and "ws \<noteq> []"
  shows "split_whitespace (join '' '' ws) = ws"
    and "split_whitespace (join '' '' ws @ [CHR 0x0A]) = ws"
  using assms
proof (induction ws)
  case (Cons w ws)
  case 1 with Cons.IH show ?case
    by (cases ws) (simp_all add: split_whitespace_word join_Cons)
  case 2 with Cons.IH show ?case
    by (cases ws) (simp_all add: split_whitespace_word join_Cons)
qed simp_all

lemma printable_decimal: "(\<And>c. c \<in> set s \<Longrightarrow> 48 \<le> byte c \<and> byte c \<le> 57) \<Longrightarrow> s \<noteq> [] \<Longrightarrow> printable s"
  by (fastforce simp: printable_def list_all_iff)

section \<open>Ranges\<close>

text \<open>\<open>s.get(i..)\<close>: absent out of range or within a character.\<close>

definition str_get_from :: "nat \<Rightarrow> string \<Rightarrow> string option" where
  "str_get_from i s = (if is_char_boundary s i then Some (drop i s) else None)"

lemma str_get_from_append:
  "b \<noteq> [] \<Longrightarrow> byte (hd b) < 128 \<Longrightarrow> str_get_from (length a) (a @ b) = Some b"
  by (simp add: str_get_from_def is_char_boundary_def nth_append hd_conv_nth)

lemma printable_join:
  assumes "list_all printable ws" and "ws \<noteq> []"
  shows "join sep ws \<noteq> []" and "byte (hd (join sep ws)) < 128"
proof -
  obtain w ws' where "ws = w # ws'" using assms(2) by (cases ws) auto
  moreover obtain c r where "w = c # r" "byte c < 128"
    using assms(1) calculation by (cases w) (auto simp: printable_def)
  ultimately show "join sep ws \<noteq> []" and "byte (hd (join sep ws)) < 128"
    by (cases ws'; simp)+
qed

end
