(* ===== verification/Events.thy ===== *)
theory Events
  imports Text
begin

text \<open>
  The normalized event model (\<open>src/models/fields.rs\<close>, \<open>src/models/event.rs\<close>,
  \<open>src/models/alert.rs\<close>, \<open>src/models/match_details.rs\<close>, and \<open>Platform\<close> of
  \<open>src/sensor/mod.rs\<close>): one record per field struct, the \<open>EventFields\<close> enum, the field
  accessor \<open>get_field\<close> that Sigma rules read an event through, and the two enumerations of the
  field values that keyword search uses. The lemmas relate the three: what a keyword
  search can see is exactly what a rule can name.
\<close>

section \<open>Platforms, categories, severities\<close>

datatype platform = Windows | Linux | MacOS

datatype event_category =
  CatProcess | CatNetwork | CatFile | CatRegistry | CatDns | CatImageLoad | CatScripting
| CatWmi | CatService | CatTask

datatype alert_severity = Low | Medium | High | Critical

datatype detection_engine = EngineSigma | EngineYara | EngineIoc

section \<open>Field structs\<close>

record process_fields =
  pc_image :: "string option"
  pc_original_file_name :: "string option"
  pc_product :: "string option"
  pc_description :: "string option"
  pc_target_image :: "string option"
  pc_command_line :: "string option"
  pc_process_id :: "string option"
  pc_process_start_time :: "u64 option"
  pc_parent_process_id :: "string option"
  pc_parent_image :: "string option"
  pc_parent_command_line :: "string option"
  pc_current_directory :: "string option"
  pc_integrity_level :: "string option"
  pc_user :: "string option"
  pc_logon_id :: "string option"
  pc_logon_guid :: "string option"

record file_fields =
  fe_source_filename :: "string option"
  fe_target_filename :: "string option"
  fe_process_id :: "string option"
  fe_image :: "string option"
  fe_creation_utc_time :: "string option"
  fe_previous_creation_utc_time :: "string option"
  fe_user :: "string option"

record registry_fields =
  re_target_object :: "string option"
  re_details :: "string option"
  re_process_id :: "string option"
  re_image :: "string option"
  re_event_type :: "string option"
  re_user :: "string option"
  re_new_name :: "string option"

record network_fields =
  nc_destination_ip :: "string option"
  nc_source_ip :: "string option"
  nc_destination_port :: "string option"
  nc_source_port :: "string option"
  nc_process_id :: "string option"
  nc_image :: "string option"
  nc_user :: "string option"
  nc_destination_hostname :: "string option"
  nc_protocol :: "string option"

record dns_fields =
  dq_query_name :: "string option"
  dq_query_results :: "string option"
  dq_record_type :: "string option"
  dq_query_status :: "string option"
  dq_process_id :: "string option"
  dq_image :: "string option"

record image_load_fields =
  il_image_loaded :: "string option"
  il_process_id :: "string option"
  il_image :: "string option"
  il_original_file_name :: "string option"
  il_product :: "string option"
  il_description :: "string option"
  il_signed :: "string option"
  il_signature :: "string option"
  il_user :: "string option"

record script_fields =
  ps_script_block_text :: "string option"
  ps_script_block_id :: "string option"
  ps_path :: "string option"
  ps_process_id :: "string option"
  ps_image :: "string option"
  ps_user :: "string option"

record remote_thread_fields =
  rt_source_process_id :: "string option"
  rt_source_image :: "string option"
  rt_target_process_id :: "string option"
  rt_target_image :: "string option"
  rt_start_address :: "string option"
  rt_start_module :: "string option"
  rt_start_function :: "string option"
  rt_user :: "string option"

record wmi_fields =
  wm_operation :: "string option"
  wm_user :: "string option"
  wm_query :: "string option"
  wm_process_id :: "string option"
  wm_image :: "string option"
  wm_event_namespace :: "string option"
  wm_event_type :: "string option"
  wm_destination_hostname :: "string option"

record service_fields =
  sc_service_name :: "string option"
  sc_service_file_name :: "string option"
  sc_service_type :: "string option"
  sc_start_type :: "string option"
  sc_account_name :: "string option"
  sc_user :: "string option"
  sc_process_id :: "string option"
  sc_image :: "string option"

record task_fields =
  tc_task_name :: "string option"
  tc_task_content :: "string option"
  tc_user_name :: "string option"
  tc_user :: "string option"
  tc_process_id :: "string option"
  tc_image :: "string option"

record process_context =
  cx_image :: "string option"
  cx_command_line :: "string option"
  cx_process_id :: "string option"
  cx_process_start_time :: "u64 option"
  cx_parent_process_id :: "string option"
  cx_parent_image :: "string option"
  cx_parent_command_line :: "string option"
  cx_original_file_name :: "string option"
  cx_product :: "string option"
  cx_description :: "string option"
  cx_current_directory :: "string option"
  cx_integrity_level :: "string option"
  cx_user :: "string option"
  cx_logon_id :: "string option"
  cx_logon_guid :: "string option"

datatype event_fields =
  ProcessCreation process_fields
| FileEvent file_fields
| RegistryEvent registry_fields
| NetworkConnection network_fields
| DnsQuery dns_fields
| ImageLoad image_load_fields
| PowerShellScript script_fields
| RemoteThread remote_thread_fields
| WmiEvent wmi_fields
| ServiceCreation service_fields
| TaskCreation task_fields
| Generic "(string, string) hmap"

record normalized_event =
  ev_timestamp :: string
  ev_platform :: platform
  ev_provider :: string
  ev_category :: event_category
  ev_event_id :: u16
  ev_event_id_string :: string
  ev_opcode :: u8
  ev_fields :: event_fields
  ev_process_context :: "process_context option"

section \<open>Field access\<close>

text \<open>
  \<open>match key { k1 => v1, ... , _ => None }\<close> over string literals: the first arm whose literal
  is the key.
\<close>

definition match_key :: "string \<Rightarrow> (string \<times> 'a option) list \<Rightarrow> 'a option" where
  "match_key key arms = (case map_of arms key of None \<Rightarrow> None | Some v \<Rightarrow> v)"

definition get_process_field :: "process_fields \<Rightarrow> string \<Rightarrow> string option" where
  "get_process_field f key =
     match_key key
       [(''Image'', pc_image f),
        (''OriginalFileName'', pc_original_file_name f),
        (''Product'', pc_product f),
        (''Description'', pc_description f),
        (''CommandLine'', pc_command_line f),
        (''ProcessId'', pc_process_id f),
        (''ParentProcessId'', pc_parent_process_id f),
        (''ParentImage'', pc_parent_image f),
        (''ParentCommandLine'', pc_parent_command_line f),
        (''User'', pc_user f),
        (''IntegrityLevel'', pc_integrity_level f),
        (''CurrentDirectory'', pc_current_directory f),
        (''TargetImage'', pc_target_image f),
        (''LogonId'', pc_logon_id f),
        (''LogonGuid'', pc_logon_guid f)]"

definition get_file_field :: "file_fields \<Rightarrow> string \<Rightarrow> string option" where
  "get_file_field f key =
     match_key key
       [(''SourceFilename'', fe_source_filename f),
        (''TargetFilename'', fe_target_filename f),
        (''Image'', fe_image f),
        (''ProcessId'', fe_process_id f),
        (''User'', fe_user f),
        (''CreationUtcTime'', fe_creation_utc_time f),
        (''PreviousCreationUtcTime'', fe_previous_creation_utc_time f)]"

definition get_registry_field :: "registry_fields \<Rightarrow> string \<Rightarrow> string option" where
  "get_registry_field f key =
     match_key key
       [(''TargetObject'', re_target_object f),
        (''Details'', re_details f),
        (''Image'', re_image f),
        (''EventType'', re_event_type f),
        (''NewName'', re_new_name f),
        (''ProcessId'', re_process_id f),
        (''User'', re_user f)]"

definition get_network_field :: "network_fields \<Rightarrow> string \<Rightarrow> string option" where
  "get_network_field f key =
     match_key key
       [(''DestinationIp'', nc_destination_ip f),
        (''SourceIp'', nc_source_ip f),
        (''DestinationPort'', nc_destination_port f),
        (''SourcePort'', nc_source_port f),
        (''Image'', nc_image f),
        (''User'', nc_user f),
        (''DestinationHostname'', nc_destination_hostname f),
        (''Protocol'', nc_protocol f),
        (''ProcessId'', nc_process_id f)]"

definition get_dns_field :: "dns_fields \<Rightarrow> string \<Rightarrow> string option" where
  "get_dns_field f key =
     match_key key
       [(''query'', dq_query_name f),
        (''answer'', dq_query_results f),
        (''record_type'', dq_record_type f),
        (''QueryName'', dq_query_name f),
        (''QueryResults'', dq_query_results f),
        (''RecordType'', dq_record_type f),
        (''QueryStatus'', dq_query_status f),
        (''Image'', dq_image f),
        (''ProcessId'', dq_process_id f)]"

definition get_image_load_field :: "image_load_fields \<Rightarrow> string \<Rightarrow> string option" where
  "get_image_load_field f key =
     match_key key
       [(''ImageLoaded'', il_image_loaded f),
        (''Image'', il_image f),
        (''OriginalFileName'', il_original_file_name f),
        (''Product'', il_product f),
        (''Description'', il_description f),
        (''Signed'', il_signed f),
        (''Signature'', il_signature f),
        (''ProcessId'', il_process_id f),
        (''User'', il_user f)]"

definition get_script_field :: "script_fields \<Rightarrow> string \<Rightarrow> string option" where
  "get_script_field f key =
     match_key key
       [(''ScriptBlockText'', ps_script_block_text f),
        (''ScriptBlockId'', ps_script_block_id f),
        (''Path'', ps_path f),
        (''ProcessId'', ps_process_id f),
        (''Image'', ps_image f),
        (''User'', ps_user f)]"

definition get_remote_thread_field :: "remote_thread_fields \<Rightarrow> string \<Rightarrow> string option" where
  "get_remote_thread_field f key =
     match_key key
       [(''SourceProcessId'', rt_source_process_id f),
        (''SourceImage'', rt_source_image f),
        (''TargetProcessId'', rt_target_process_id f),
        (''TargetImage'', rt_target_image f),
        (''StartAddress'', rt_start_address f),
        (''StartModule'', rt_start_module f),
        (''StartFunction'', rt_start_function f),
        (''User'', rt_user f)]"

definition get_wmi_field :: "wmi_fields \<Rightarrow> string \<Rightarrow> string option" where
  "get_wmi_field f key =
     match_key key
       [(''Operation'', wm_operation f),
        (''User'', wm_user f),
        (''Query'', wm_query f),
        (''ProcessId'', wm_process_id f),
        (''Image'', wm_image f),
        (''EventNamespace'', wm_event_namespace f),
        (''EventType'', wm_event_type f),
        (''DestinationHostname'', wm_destination_hostname f)]"

definition get_service_field :: "service_fields \<Rightarrow> string \<Rightarrow> string option" where
  "get_service_field f key =
     match_key key
       [(''ServiceName'', sc_service_name f),
        (''ServiceFileName'', sc_service_file_name f),
        (''ServiceType'', sc_service_type f),
        (''StartType'', sc_start_type f),
        (''AccountName'', sc_account_name f),
        (''User'', sc_user f),
        (''ProcessId'', sc_process_id f),
        (''Image'', sc_image f)]"

definition get_task_field :: "task_fields \<Rightarrow> string \<Rightarrow> string option" where
  "get_task_field f key =
     match_key key
       [(''TaskName'', tc_task_name f),
        (''TaskContent'', tc_task_content f),
        (''UserName'', tc_user_name f),
        (''User'', tc_user f),
        (''ProcessId'', tc_process_id f),
        (''Image'', tc_image f)]"

definition get_fields :: "event_fields \<Rightarrow> string \<Rightarrow> string option" where
  "get_fields fs key = (case fs of
     ProcessCreation f \<Rightarrow> get_process_field f key
   | FileEvent f \<Rightarrow> get_file_field f key
   | NetworkConnection f \<Rightarrow> get_network_field f key
   | RegistryEvent f \<Rightarrow> get_registry_field f key
   | DnsQuery f \<Rightarrow> get_dns_field f key
   | ImageLoad f \<Rightarrow> get_image_load_field f key
   | PowerShellScript f \<Rightarrow> get_script_field f key
   | RemoteThread f \<Rightarrow> get_remote_thread_field f key
   | WmiEvent f \<Rightarrow> get_wmi_field f key
   | ServiceCreation f \<Rightarrow> get_service_field f key
   | TaskCreation f \<Rightarrow> get_task_field f key
   | Generic m \<Rightarrow> hm_get m key)"

definition get_field :: "normalized_event \<Rightarrow> string \<Rightarrow> string option" where
  "get_field e key =
     (if key = ''timestamp'' then Some (ev_timestamp e)
      else if key = ''EventID'' then Some (ev_event_id_string e)
      else get_fields (ev_fields e) key)"

section \<open>Keyword values\<close>

definition push_some :: "'a option \<Rightarrow> 'a list" where
  "push_some v = (case v of None \<Rightarrow> [] | Some x \<Rightarrow> [x])"

definition push_keyed :: "'k \<times> 'a option \<Rightarrow> ('k \<times> 'a) list" where
  "push_keyed kv = (case snd kv of None \<Rightarrow> [] | Some x \<Rightarrow> [(fst kv, x)])"

definition process_values :: "process_fields \<Rightarrow> string list" where
  "process_values f =
     concat (map push_some
       [pc_image f, pc_original_file_name f, pc_product f, pc_description f, pc_command_line f, pc_process_id f, pc_parent_process_id f, pc_parent_image f, pc_parent_command_line f, pc_current_directory f, pc_integrity_level f, pc_user f, pc_target_image f, pc_logon_id f, pc_logon_guid f])"

definition file_values :: "file_fields \<Rightarrow> string list" where
  "file_values f =
     concat (map push_some
       [fe_source_filename f, fe_target_filename f, fe_image f, fe_process_id f, fe_user f, fe_creation_utc_time f, fe_previous_creation_utc_time f])"

definition registry_values :: "registry_fields \<Rightarrow> string list" where
  "registry_values f =
     concat (map push_some
       [re_target_object f, re_details f, re_image f, re_event_type f, re_new_name f, re_process_id f, re_user f])"

definition network_values :: "network_fields \<Rightarrow> string list" where
  "network_values f =
     concat (map push_some
       [nc_destination_ip f, nc_source_ip f, nc_destination_port f, nc_source_port f, nc_image f, nc_user f, nc_destination_hostname f, nc_protocol f, nc_process_id f])"

definition dns_values :: "dns_fields \<Rightarrow> string list" where
  "dns_values f =
     concat (map push_some
       [dq_query_name f, dq_query_results f, dq_record_type f, dq_query_status f, dq_image f, dq_process_id f])"

definition image_load_values :: "image_load_fields \<Rightarrow> string list" where
  "image_load_values f =
     concat (map push_some
       [il_image_loaded f, il_image f, il_original_file_name f, il_product f, il_description f, il_signed f, il_signature f, il_user f, il_process_id f])"

definition script_values :: "script_fields \<Rightarrow> string list" where
  "script_values f =
     concat (map push_some
       [ps_script_block_text f, ps_script_block_id f, ps_path f, ps_image f, ps_user f, ps_process_id f])"

definition remote_thread_values :: "remote_thread_fields \<Rightarrow> string list" where
  "remote_thread_values f =
     concat (map push_some
       [rt_source_process_id f, rt_source_image f, rt_target_process_id f, rt_target_image f, rt_start_address f, rt_start_module f, rt_start_function f, rt_user f])"

definition wmi_values :: "wmi_fields \<Rightarrow> string list" where
  "wmi_values f =
     concat (map push_some
       [wm_operation f, wm_user f, wm_query f, wm_image f, wm_event_namespace f, wm_event_type f, wm_destination_hostname f, wm_process_id f])"

definition service_values :: "service_fields \<Rightarrow> string list" where
  "service_values f =
     concat (map push_some
       [sc_service_name f, sc_service_file_name f, sc_service_type f, sc_start_type f, sc_account_name f, sc_user f, sc_process_id f, sc_image f])"

definition task_values :: "task_fields \<Rightarrow> string list" where
  "task_values f =
     concat (map push_some
       [tc_task_name f, tc_task_content f, tc_user_name f, tc_user f, tc_process_id f, tc_image f])"

text \<open>
  A generic event is a hash map, whose values come in the iteration order of the map; every
  consumer of the list only asks whether some value of it matches, or, for debug output, takes
  the list in the order it comes, so the order of the association list stands for it.
\<close>

definition fields_values :: "event_fields \<Rightarrow> string list" where
  "fields_values fs = (case fs of
     ProcessCreation f \<Rightarrow> process_values f
   | FileEvent f \<Rightarrow> file_values f
   | NetworkConnection f \<Rightarrow> network_values f
   | RegistryEvent f \<Rightarrow> registry_values f
   | DnsQuery f \<Rightarrow> dns_values f
   | ImageLoad f \<Rightarrow> image_load_values f
   | PowerShellScript f \<Rightarrow> script_values f
   | RemoteThread f \<Rightarrow> remote_thread_values f
   | WmiEvent f \<Rightarrow> wmi_values f
   | ServiceCreation f \<Rightarrow> service_values f
   | TaskCreation f \<Rightarrow> task_values f
   | Generic m \<Rightarrow> map snd m)"

definition all_field_values :: "normalized_event \<Rightarrow> string list" where
  "all_field_values e =
     [ev_timestamp e, ev_event_id_string e] @ fields_values (ev_fields e)"

section \<open>Keyword values with their keys\<close>

definition process_entries :: "process_fields \<Rightarrow> (string \<times> string) list" where
  "process_entries f =
     concat (map push_keyed
       [(''Image'', pc_image f),
        (''OriginalFileName'', pc_original_file_name f),
        (''Product'', pc_product f),
        (''Description'', pc_description f),
        (''CommandLine'', pc_command_line f),
        (''ProcessId'', pc_process_id f),
        (''ParentProcessId'', pc_parent_process_id f),
        (''ParentImage'', pc_parent_image f),
        (''ParentCommandLine'', pc_parent_command_line f),
        (''CurrentDirectory'', pc_current_directory f),
        (''IntegrityLevel'', pc_integrity_level f),
        (''User'', pc_user f),
        (''TargetImage'', pc_target_image f),
        (''LogonId'', pc_logon_id f),
        (''LogonGuid'', pc_logon_guid f)])"

definition file_entries :: "file_fields \<Rightarrow> (string \<times> string) list" where
  "file_entries f =
     concat (map push_keyed
       [(''SourceFilename'', fe_source_filename f),
        (''TargetFilename'', fe_target_filename f),
        (''Image'', fe_image f),
        (''ProcessId'', fe_process_id f),
        (''User'', fe_user f),
        (''CreationUtcTime'', fe_creation_utc_time f),
        (''PreviousCreationUtcTime'', fe_previous_creation_utc_time f)])"

definition registry_entries :: "registry_fields \<Rightarrow> (string \<times> string) list" where
  "registry_entries f =
     concat (map push_keyed
       [(''TargetObject'', re_target_object f),
        (''Details'', re_details f),
        (''Image'', re_image f),
        (''EventType'', re_event_type f),
        (''NewName'', re_new_name f),
        (''ProcessId'', re_process_id f),
        (''User'', re_user f)])"

definition network_entries :: "network_fields \<Rightarrow> (string \<times> string) list" where
  "network_entries f =
     concat (map push_keyed
       [(''DestinationIp'', nc_destination_ip f),
        (''SourceIp'', nc_source_ip f),
        (''DestinationPort'', nc_destination_port f),
        (''SourcePort'', nc_source_port f),
        (''Image'', nc_image f),
        (''User'', nc_user f),
        (''DestinationHostname'', nc_destination_hostname f),
        (''Protocol'', nc_protocol f),
        (''ProcessId'', nc_process_id f)])"

definition dns_entries :: "dns_fields \<Rightarrow> (string \<times> string) list" where
  "dns_entries f =
     concat (map push_keyed
       [(''query'', dq_query_name f),
        (''answer'', dq_query_results f),
        (''record_type'', dq_record_type f),
        (''QueryName'', dq_query_name f),
        (''QueryResults'', dq_query_results f),
        (''RecordType'', dq_record_type f),
        (''QueryStatus'', dq_query_status f),
        (''Image'', dq_image f),
        (''ProcessId'', dq_process_id f)])"

definition image_load_entries :: "image_load_fields \<Rightarrow> (string \<times> string) list" where
  "image_load_entries f =
     concat (map push_keyed
       [(''ImageLoaded'', il_image_loaded f),
        (''Image'', il_image f),
        (''OriginalFileName'', il_original_file_name f),
        (''Product'', il_product f),
        (''Description'', il_description f),
        (''Signed'', il_signed f),
        (''Signature'', il_signature f),
        (''User'', il_user f),
        (''ProcessId'', il_process_id f)])"

definition script_entries :: "script_fields \<Rightarrow> (string \<times> string) list" where
  "script_entries f =
     concat (map push_keyed
       [(''ScriptBlockText'', ps_script_block_text f),
        (''ScriptBlockId'', ps_script_block_id f),
        (''Path'', ps_path f),
        (''Image'', ps_image f),
        (''User'', ps_user f),
        (''ProcessId'', ps_process_id f)])"

definition remote_thread_entries :: "remote_thread_fields \<Rightarrow> (string \<times> string) list" where
  "remote_thread_entries f =
     concat (map push_keyed
       [(''SourceProcessId'', rt_source_process_id f),
        (''SourceImage'', rt_source_image f),
        (''TargetProcessId'', rt_target_process_id f),
        (''TargetImage'', rt_target_image f),
        (''StartAddress'', rt_start_address f),
        (''StartModule'', rt_start_module f),
        (''StartFunction'', rt_start_function f),
        (''User'', rt_user f)])"

definition wmi_entries :: "wmi_fields \<Rightarrow> (string \<times> string) list" where
  "wmi_entries f =
     concat (map push_keyed
       [(''Operation'', wm_operation f),
        (''User'', wm_user f),
        (''Query'', wm_query f),
        (''Image'', wm_image f),
        (''EventNamespace'', wm_event_namespace f),
        (''EventType'', wm_event_type f),
        (''DestinationHostname'', wm_destination_hostname f),
        (''ProcessId'', wm_process_id f)])"

definition service_entries :: "service_fields \<Rightarrow> (string \<times> string) list" where
  "service_entries f =
     concat (map push_keyed
       [(''ServiceName'', sc_service_name f),
        (''ServiceFileName'', sc_service_file_name f),
        (''ServiceType'', sc_service_type f),
        (''StartType'', sc_start_type f),
        (''AccountName'', sc_account_name f),
        (''User'', sc_user f),
        (''ProcessId'', sc_process_id f),
        (''Image'', sc_image f)])"

definition task_entries :: "task_fields \<Rightarrow> (string \<times> string) list" where
  "task_entries f =
     concat (map push_keyed
       [(''TaskName'', tc_task_name f),
        (''TaskContent'', tc_task_content f),
        (''UserName'', tc_user_name f),
        (''User'', tc_user f),
        (''ProcessId'', tc_process_id f),
        (''Image'', tc_image f)])"

definition fields_entries :: "event_fields \<Rightarrow> (string \<times> string) list" where
  "fields_entries fs = (case fs of
     ProcessCreation f \<Rightarrow> process_entries f
   | FileEvent f \<Rightarrow> file_entries f
   | NetworkConnection f \<Rightarrow> network_entries f
   | RegistryEvent f \<Rightarrow> registry_entries f
   | DnsQuery f \<Rightarrow> dns_entries f
   | ImageLoad f \<Rightarrow> image_load_entries f
   | PowerShellScript f \<Rightarrow> script_entries f
   | RemoteThread f \<Rightarrow> remote_thread_entries f
   | WmiEvent f \<Rightarrow> wmi_entries f
   | ServiceCreation f \<Rightarrow> service_entries f
   | TaskCreation f \<Rightarrow> task_entries f
   | Generic m \<Rightarrow> m)"

definition all_field_values_with_keys :: "normalized_event \<Rightarrow> (string \<times> string) list" where
  "all_field_values_with_keys e =
     [(''timestamp'', ev_timestamp e), (''EventID'', ev_event_id_string e)]
     @ fields_entries (ev_fields e)"


section \<open>Match details and alerts\<close>

datatype match_debug_level = DebugOff | DebugSummary | DebugFull

record sigma_field_match =
  fm_selection :: string
  fm_field :: string
  fm_matcher :: string
  fm_pattern_type :: string
  fm_pattern :: string
  fm_case_sensitive :: "bool option"
  fm_value :: "string option"

record sigma_keyword_match =
  km_selection :: string
  km_pattern_type :: string
  km_keyword :: string
  km_field :: "string option"
  km_value :: "string option"

record sigma_match_details =
  md_condition :: "string option"
  md_selection_results :: "(string, bool) hmap"
  md_matches :: "sigma_field_match list"
  md_keyword_matches :: "sigma_keyword_match list"

record yara_string_match =
  ys_id :: string
  ys_offset :: "u64 option"
  ys_snippet :: "string option"

record yara_rule_match =
  yr_rule :: string
  yr_metadata_id :: "string option"
  yr_tags :: "string list"
  yr_namespace :: "string option"
  yr_strings :: "yara_string_match list"

record match_details =
  md_summary :: string
  md_sigma :: "sigma_match_details option"
  md_yara :: "yara_rule_match list option"

record alert =
  al_severity :: alert_severity
  al_rule_name :: string
  al_rule_description :: "string option"
  al_rule_id :: "string option"
  al_engine :: detection_engine
  al_event :: normalized_event
  al_match_details :: "match_details option"

section \<open>Keyword search and field access agree\<close>

lemma push_some_iff [simp]: "x \<in> set (push_some v) \<longleftrightarrow> v = Some x"
  by (auto simp: push_some_def split: option.splits)

lemma push_keyed_iff [simp]: "(k, x) \<in> set (push_keyed (k', v)) \<longleftrightarrow> k = k' \<and> v = Some x"
  by (auto simp: push_keyed_def split: option.splits)


lemma match_key_entries:
  assumes "distinct (map fst T)" and "set E \<subseteq> set T"
    and "(k, v) \<in> set (concat (map push_keyed E))"
  shows "match_key k T = Some v"
proof -
  from assms(3) obtain k' x where "(k', x) \<in> set E" and "(k, v) \<in> set (push_keyed (k', x))"
    by auto
  with assms(1,2) have "map_of T k = Some (Some v)" by (auto intro: map_of_is_SomeI)
  then show ?thesis by (simp add: match_key_def)
qed

lemma match_key_values:
  assumes "snd ` set T \<subseteq> set V" and "match_key k T = Some v"
  shows "v \<in> set (concat (map push_some V))"
proof -
  from assms(2) have "map_of T k = Some (Some v)"
    by (simp add: match_key_def split: option.splits)
  then have "Some v \<in> snd ` set T" by (force dest: map_of_SomeD)
  with assms(1) show ?thesis by (force simp: push_some_def)
qed

lemma values_keyed:
  assumes "set V \<subseteq> snd ` set E" and "v \<in> set (concat (map push_some V))"
  shows "\<exists>k. (k, v) \<in> set (concat (map push_keyed E))"
proof -
  from assms(2) have "Some v \<in> set V" by auto
  with assms(1) obtain k where "(k, Some v) \<in> set E" by force
  then have "(k, v) \<in> set (concat (map push_keyed E))" by force
  then show ?thesis ..
qed

lemmas arm_sets = list.set insert_subset insert_iff empty_subsetI simp_thms image_insert
  image_empty snd_conv

named_theorems entry_laws

lemma process_entries_get [entry_laws]:
  "(k, v) \<in> set (process_entries f) \<Longrightarrow> get_process_field f k = Some v"
  unfolding process_entries_def get_process_field_def
  by (erule match_key_entries [rotated 2])
    (simp only: list.map fst_conv, code_simp, simp only: arm_sets)

lemma process_get_values [entry_laws]:
  "get_process_field f k = Some v \<Longrightarrow> v \<in> set (process_values f)"
  unfolding process_values_def get_process_field_def
  by (erule match_key_values [rotated]) (simp only: arm_sets)

lemma process_values_entries [entry_laws]:
  "v \<in> set (process_values f) \<Longrightarrow> \<exists>k. (k, v) \<in> set (process_entries f)"
  unfolding process_entries_def process_values_def
  by (erule values_keyed [rotated]) (simp only: arm_sets)

lemma file_entries_get [entry_laws]:
  "(k, v) \<in> set (file_entries f) \<Longrightarrow> get_file_field f k = Some v"
  unfolding file_entries_def get_file_field_def
  by (erule match_key_entries [rotated 2])
    (simp only: list.map fst_conv, code_simp, simp only: arm_sets)

lemma file_get_values [entry_laws]:
  "get_file_field f k = Some v \<Longrightarrow> v \<in> set (file_values f)"
  unfolding file_values_def get_file_field_def
  by (erule match_key_values [rotated]) (simp only: arm_sets)

lemma file_values_entries [entry_laws]:
  "v \<in> set (file_values f) \<Longrightarrow> \<exists>k. (k, v) \<in> set (file_entries f)"
  unfolding file_entries_def file_values_def
  by (erule values_keyed [rotated]) (simp only: arm_sets)

lemma registry_entries_get [entry_laws]:
  "(k, v) \<in> set (registry_entries f) \<Longrightarrow> get_registry_field f k = Some v"
  unfolding registry_entries_def get_registry_field_def
  by (erule match_key_entries [rotated 2])
    (simp only: list.map fst_conv, code_simp, simp only: arm_sets)

lemma registry_get_values [entry_laws]:
  "get_registry_field f k = Some v \<Longrightarrow> v \<in> set (registry_values f)"
  unfolding registry_values_def get_registry_field_def
  by (erule match_key_values [rotated]) (simp only: arm_sets)

lemma registry_values_entries [entry_laws]:
  "v \<in> set (registry_values f) \<Longrightarrow> \<exists>k. (k, v) \<in> set (registry_entries f)"
  unfolding registry_entries_def registry_values_def
  by (erule values_keyed [rotated]) (simp only: arm_sets)

lemma network_entries_get [entry_laws]:
  "(k, v) \<in> set (network_entries f) \<Longrightarrow> get_network_field f k = Some v"
  unfolding network_entries_def get_network_field_def
  by (erule match_key_entries [rotated 2])
    (simp only: list.map fst_conv, code_simp, simp only: arm_sets)

lemma network_get_values [entry_laws]:
  "get_network_field f k = Some v \<Longrightarrow> v \<in> set (network_values f)"
  unfolding network_values_def get_network_field_def
  by (erule match_key_values [rotated]) (simp only: arm_sets)

lemma network_values_entries [entry_laws]:
  "v \<in> set (network_values f) \<Longrightarrow> \<exists>k. (k, v) \<in> set (network_entries f)"
  unfolding network_entries_def network_values_def
  by (erule values_keyed [rotated]) (simp only: arm_sets)

lemma dns_entries_get [entry_laws]:
  "(k, v) \<in> set (dns_entries f) \<Longrightarrow> get_dns_field f k = Some v"
  unfolding dns_entries_def get_dns_field_def
  by (erule match_key_entries [rotated 2])
    (simp only: list.map fst_conv, code_simp, simp only: arm_sets)

lemma dns_get_values [entry_laws]:
  "get_dns_field f k = Some v \<Longrightarrow> v \<in> set (dns_values f)"
  unfolding dns_values_def get_dns_field_def
  by (erule match_key_values [rotated]) (simp only: arm_sets)

lemma dns_values_entries [entry_laws]:
  "v \<in> set (dns_values f) \<Longrightarrow> \<exists>k. (k, v) \<in> set (dns_entries f)"
  unfolding dns_entries_def dns_values_def
  by (erule values_keyed [rotated]) (simp only: arm_sets)

lemma image_load_entries_get [entry_laws]:
  "(k, v) \<in> set (image_load_entries f) \<Longrightarrow> get_image_load_field f k = Some v"
  unfolding image_load_entries_def get_image_load_field_def
  by (erule match_key_entries [rotated 2])
    (simp only: list.map fst_conv, code_simp, simp only: arm_sets)

lemma image_load_get_values [entry_laws]:
  "get_image_load_field f k = Some v \<Longrightarrow> v \<in> set (image_load_values f)"
  unfolding image_load_values_def get_image_load_field_def
  by (erule match_key_values [rotated]) (simp only: arm_sets)

lemma image_load_values_entries [entry_laws]:
  "v \<in> set (image_load_values f) \<Longrightarrow> \<exists>k. (k, v) \<in> set (image_load_entries f)"
  unfolding image_load_entries_def image_load_values_def
  by (erule values_keyed [rotated]) (simp only: arm_sets)

lemma script_entries_get [entry_laws]:
  "(k, v) \<in> set (script_entries f) \<Longrightarrow> get_script_field f k = Some v"
  unfolding script_entries_def get_script_field_def
  by (erule match_key_entries [rotated 2])
    (simp only: list.map fst_conv, code_simp, simp only: arm_sets)

lemma script_get_values [entry_laws]:
  "get_script_field f k = Some v \<Longrightarrow> v \<in> set (script_values f)"
  unfolding script_values_def get_script_field_def
  by (erule match_key_values [rotated]) (simp only: arm_sets)

lemma script_values_entries [entry_laws]:
  "v \<in> set (script_values f) \<Longrightarrow> \<exists>k. (k, v) \<in> set (script_entries f)"
  unfolding script_entries_def script_values_def
  by (erule values_keyed [rotated]) (simp only: arm_sets)

lemma remote_thread_entries_get [entry_laws]:
  "(k, v) \<in> set (remote_thread_entries f) \<Longrightarrow> get_remote_thread_field f k = Some v"
  unfolding remote_thread_entries_def get_remote_thread_field_def
  by (erule match_key_entries [rotated 2])
    (simp only: list.map fst_conv, code_simp, simp only: arm_sets)

lemma remote_thread_get_values [entry_laws]:
  "get_remote_thread_field f k = Some v \<Longrightarrow> v \<in> set (remote_thread_values f)"
  unfolding remote_thread_values_def get_remote_thread_field_def
  by (erule match_key_values [rotated]) (simp only: arm_sets)

lemma remote_thread_values_entries [entry_laws]:
  "v \<in> set (remote_thread_values f) \<Longrightarrow> \<exists>k. (k, v) \<in> set (remote_thread_entries f)"
  unfolding remote_thread_entries_def remote_thread_values_def
  by (erule values_keyed [rotated]) (simp only: arm_sets)

lemma wmi_entries_get [entry_laws]:
  "(k, v) \<in> set (wmi_entries f) \<Longrightarrow> get_wmi_field f k = Some v"
  unfolding wmi_entries_def get_wmi_field_def
  by (erule match_key_entries [rotated 2])
    (simp only: list.map fst_conv, code_simp, simp only: arm_sets)

lemma wmi_get_values [entry_laws]:
  "get_wmi_field f k = Some v \<Longrightarrow> v \<in> set (wmi_values f)"
  unfolding wmi_values_def get_wmi_field_def
  by (erule match_key_values [rotated]) (simp only: arm_sets)

lemma wmi_values_entries [entry_laws]:
  "v \<in> set (wmi_values f) \<Longrightarrow> \<exists>k. (k, v) \<in> set (wmi_entries f)"
  unfolding wmi_entries_def wmi_values_def
  by (erule values_keyed [rotated]) (simp only: arm_sets)

lemma service_entries_get [entry_laws]:
  "(k, v) \<in> set (service_entries f) \<Longrightarrow> get_service_field f k = Some v"
  unfolding service_entries_def get_service_field_def
  by (erule match_key_entries [rotated 2])
    (simp only: list.map fst_conv, code_simp, simp only: arm_sets)

lemma service_get_values [entry_laws]:
  "get_service_field f k = Some v \<Longrightarrow> v \<in> set (service_values f)"
  unfolding service_values_def get_service_field_def
  by (erule match_key_values [rotated]) (simp only: arm_sets)

lemma service_values_entries [entry_laws]:
  "v \<in> set (service_values f) \<Longrightarrow> \<exists>k. (k, v) \<in> set (service_entries f)"
  unfolding service_entries_def service_values_def
  by (erule values_keyed [rotated]) (simp only: arm_sets)

lemma task_entries_get [entry_laws]:
  "(k, v) \<in> set (task_entries f) \<Longrightarrow> get_task_field f k = Some v"
  unfolding task_entries_def get_task_field_def
  by (erule match_key_entries [rotated 2])
    (simp only: list.map fst_conv, code_simp, simp only: arm_sets)

lemma task_get_values [entry_laws]:
  "get_task_field f k = Some v \<Longrightarrow> v \<in> set (task_values f)"
  unfolding task_values_def get_task_field_def
  by (erule match_key_values [rotated]) (simp only: arm_sets)

lemma task_values_entries [entry_laws]:
  "v \<in> set (task_values f) \<Longrightarrow> \<exists>k. (k, v) \<in> set (task_entries f)"
  unfolding task_entries_def task_values_def
  by (erule values_keyed [rotated]) (simp only: arm_sets)

lemma fields_entries_get:
  "(case fs of Generic m \<Rightarrow> hm_wf m | _ \<Rightarrow> True) \<Longrightarrow> (k, v) \<in> set (fields_entries fs) \<Longrightarrow>
   get_fields fs k = Some v"
  by (cases fs) (auto simp: fields_entries_def get_fields_def intro: entry_laws map_of_is_SomeI)

lemma fields_get_values: "get_fields fs k = Some v \<Longrightarrow> v \<in> set (fields_values fs)"
  by (cases fs) (auto simp: fields_values_def get_fields_def intro: entry_laws
      dest!: map_of_SomeD intro!: image_eqI [where f = snd])

lemma fields_values_entries: "v \<in> set (fields_values fs) \<Longrightarrow> \<exists>k. (k, v) \<in> set (fields_entries fs)"
  by (cases fs) (auto simp: fields_values_def fields_entries_def dest: entry_laws)

lemmas entries_defs = process_entries_def file_entries_def registry_entries_def network_entries_def
  dns_entries_def image_load_entries_def script_entries_def remote_thread_entries_def
  wmi_entries_def service_entries_def task_entries_def

text \<open>The two keys \<open>get_field\<close> answers itself.\<close>

definition reserved_keys :: "string set" where
  "reserved_keys = {''timestamp'', ''EventID''}"

definition plain_fields :: "event_fields \<Rightarrow> bool" where
  "plain_fields fs = (case fs of Generic m \<Rightarrow> hm_wf m \<and> fst ` set m \<inter> reserved_keys = {} | _ \<Rightarrow> True)"

lemma entries_not_reserved:
  "plain_fields fs \<Longrightarrow> (k, v) \<in> set (fields_entries fs) \<Longrightarrow> k \<notin> reserved_keys"
  by (cases fs)
    (force simp: fields_entries_def entries_defs reserved_keys_def plain_fields_def)+

lemma plain_generic_wf: "plain_fields fs \<Longrightarrow> (case fs of Generic m \<Rightarrow> hm_wf m | _ \<Rightarrow> True)"
  by (cases fs) (simp_all add: plain_fields_def)

lemma keyed_values_get:
  assumes "plain_fields (ev_fields e)" and "(k, v) \<in> set (all_field_values_with_keys e)"
  shows "get_field e k = Some v"
  using assms(2) fields_entries_get [OF plain_generic_wf [OF assms(1)]]
    entries_not_reserved [OF assms(1)]
  by (auto simp: all_field_values_with_keys_def get_field_def reserved_keys_def)

lemma all_field_values_iff:
  assumes "plain_fields (ev_fields e)"
  shows "v \<in> set (all_field_values e) \<longleftrightarrow> (\<exists>k. get_field e k = Some v)"
    and "v \<in> set (all_field_values e) \<longleftrightarrow> (\<exists>k. (k, v) \<in> set (all_field_values_with_keys e))"
proof -
  let ?fs = "ev_fields e"
  have vals: "v \<in> set (all_field_values e)" if "get_field e k = Some v" for k
    using that fields_get_values [of ?fs k v]
    by (auto simp: all_field_values_def get_field_def split: if_splits)
  have keys: "\<exists>k. (k, v) \<in> set (all_field_values_with_keys e)" if "v \<in> set (all_field_values e)"
    using that fields_values_entries [of v ?fs]
    unfolding all_field_values_def all_field_values_with_keys_def set_append list.set Un_iff
      insert_iff empty_iff prod.inject by blast
  show "v \<in> set (all_field_values e) \<longleftrightarrow> (\<exists>k. get_field e k = Some v)"
    and "v \<in> set (all_field_values e) \<longleftrightarrow> (\<exists>k. (k, v) \<in> set (all_field_values_with_keys e))"
    using vals keys keyed_values_get [OF assms] by blast+
qed

section \<open>Properties\<close>

text \<open>
  What a keyword can match and what a field criterion can name are the same values: the
  value list of keyword search holds exactly the values \<open>get_field\<close> answers for some name, and
  each name paired with a value in the keyed list is a name under which \<open>get_field\<close> answers
  that value. (Generic events: keys other than the two \<open>get_field\<close> answers itself.)
\<close>

lemma keyword_values_are_fields:
  assumes "plain_fields (ev_fields e)"
  shows "set (all_field_values e) = {v. \<exists>k. get_field e k = Some v} \<and>
    snd ` set (all_field_values_with_keys e) = set (all_field_values e) \<and>
    (\<forall>(k, v) \<in> set (all_field_values_with_keys e). get_field e k = Some v)"
proof (intro conjI)
  show "set (all_field_values e) = {v. \<exists>k. get_field e k = Some v}"
    using all_field_values_iff(1) [OF assms] by blast
  show "snd ` set (all_field_values_with_keys e) = set (all_field_values e)"
    using all_field_values_iff(2) [OF assms] by force
  show "\<forall>(k, v) \<in> set (all_field_values_with_keys e). get_field e k = Some v"
    using keyed_values_get [OF assms] by blast
qed

definition sample_generic :: normalized_event where
  "sample_generic = \<lparr>ev_timestamp = ''t'', ev_platform = Linux, ev_provider = ''p'',
     ev_category = CatFile, ev_event_id = 11, ev_event_id_string = ''11'', ev_opcode = 64,
     ev_fields = Generic [(''A'', ''x''), (''B'', ''y'')], ev_process_context = None\<rparr>"


text \<open>
  A generic event that carries one of the reserved keys breaks this agreement: keyword search
  reports a name and a value that \<open>get_field\<close> does not answer under that name.
\<close>

lemma reserved_key_shadowed:
  "let e = sample_generic\<lparr>ev_fields := Generic [(''EventID'', ''4688'')]\<rparr>
   in (''EventID'', ''4688'') \<in> set (all_field_values_with_keys e) \<and>
      get_field e ''EventID'' = Some ''11''"
  by (simp add: all_field_values_with_keys_def fields_entries_def get_field_def sample_generic_def)

end
