(* ===== verification/Response.thy ===== *)
theory Response
  imports Events Numbers
begin

text \<open>
  Active response: \<open>src/response/mod.rs\<close> and the process identities of
  \<open>src/utils/process.rs\<close> (with \<open>normalize_path_for_comparison\<close> of \<open>src/utils/path.rs\<close>). The
  engine decides on an alert and queues a task; the worker takes tasks from the bounded queue,
  decides again, validates the identity of the process and terminates it. What the operating
  system answers when a task is handled is the record \<open>os\<close>, one per step of the worker.
\<close>

section \<open>Severities\<close>

definition severity_rank :: "alert_severity \<Rightarrow> u8" where
  "severity_rank s = (case s of Low \<Rightarrow> 0 | Medium \<Rightarrow> 1 | High \<Rightarrow> 2 | Critical \<Rightarrow> 3)"

lemma severity_rank_inject: "severity_rank a = severity_rank b \<longleftrightarrow> a = b"
  by (cases a; cases b) (simp_all add: severity_rank_def)

instantiation alert_severity :: linorder
begin

definition less_eq_alert_severity :: "alert_severity \<Rightarrow> alert_severity \<Rightarrow> bool" where
  "less_eq_alert_severity a b \<longleftrightarrow> severity_rank a \<le> severity_rank b"

definition less_alert_severity :: "alert_severity \<Rightarrow> alert_severity \<Rightarrow> bool" where
  "less_alert_severity a b \<longleftrightarrow> severity_rank a < severity_rank b"

instance
  by standard
    (auto simp: less_eq_alert_severity_def less_alert_severity_def severity_rank_inject
      order.strict_iff_order)

end

definition severity_at_least :: "alert_severity \<Rightarrow> alert_severity \<Rightarrow> bool" where
  "severity_at_least severity least \<longleftrightarrow> severity_rank least \<le> severity_rank severity"

lemma severity_at_least_iff: "severity_at_least s m \<longleftrightarrow> m \<le> s"
  by (simp add: severity_at_least_def less_eq_alert_severity_def)

definition parse_min_severity :: "string \<Rightarrow> alert_severity" where
  "parse_min_severity value =
     (let v = to_ascii_lowercase (str_trim value)
      in if v = ''critical'' then Critical else if v = ''high'' then High
         else if v = ''medium'' then Medium else if v = ''low'' then Low else Critical)"

definition effective_alert_severity :: "alert \<Rightarrow> alert_severity" where
  "effective_alert_severity a = (case al_engine a of EngineYara \<Rightarrow> Critical | _ \<Rightarrow> al_severity a)"

section \<open>Process identities\<close>

record process_identity =
  pi_pid :: u32
  pi_image :: string
  pi_start_time :: "u64 option"
  pi_command_line_hash :: "string option"

datatype identity_error =
  NotQueried | PidChanged u32 u32 | ImageChanged string string | StartTimeChanged u64 u64
  | CommandLineChanged

text \<open>The process table, \<open>fs::canonicalize\<close>, and whether a termination succeeds.\<close>

record os =
  os_query :: "u32 \<Rightarrow> process_identity option"
  os_canonicalize :: "string \<Rightarrow> string option"
  os_terminate :: "u32 \<Rightarrow> bool"

definition normalize_path_for_comparison :: "platform \<Rightarrow> string \<Rightarrow> string" where
  "normalize_path_for_comparison p value =
     (if p = Linux \<or> p = MacOS then to_ascii_lowercase (str_trim value)
      else to_ascii_lowercase (str_replace ''/'' [backslash] (str_trim value)))"

definition same_process_image :: "platform \<Rightarrow> os \<Rightarrow> string \<Rightarrow> string \<Rightarrow> bool" where
  "same_process_image p os expected current \<longleftrightarrow>
     (if normalize_path_for_comparison p expected = normalize_path_for_comparison p current then True
      else
        (case (os_canonicalize os expected, os_canonicalize os current) of
           (Some e, Some c) \<Rightarrow>
             normalize_path_for_comparison p e = normalize_path_for_comparison p c
         | _ \<Rightarrow> False))"

definition identity_matches ::
  "platform \<Rightarrow> os \<Rightarrow> process_identity \<Rightarrow> process_identity \<Rightarrow> identity_error + unit" where
  "identity_matches p os expected current =
     (if pi_pid expected \<noteq> pi_pid current then Inl (PidChanged (pi_pid expected) (pi_pid current))
      else if \<not> same_process_image p os (pi_image expected) (pi_image current)
        then Inl (ImageChanged (pi_image expected) (pi_image current))
      else
        (case (pi_start_time expected, pi_start_time current) of
           (Some e, Some c) \<Rightarrow>
             if e \<noteq> c then Inl (StartTimeChanged e c)
             else
               (case (pi_command_line_hash expected, pi_command_line_hash current) of
                  (Some eh, Some ch) \<Rightarrow> if eh \<noteq> ch then Inl CommandLineChanged else Inr ()
                | _ \<Rightarrow> Inr ())
         | _ \<Rightarrow>
             (case (pi_command_line_hash expected, pi_command_line_hash current) of
                (Some eh, Some ch) \<Rightarrow> if eh \<noteq> ch then Inl CommandLineChanged else Inr ()
              | _ \<Rightarrow> Inr ())))"

text \<open>There is no query on macOS: the code answers \<open>None\<close>.\<close>

definition query_process_identity :: "platform \<Rightarrow> os \<Rightarrow> u32 \<Rightarrow> process_identity option" where
  "query_process_identity p os pid = (if p = MacOS then None else os_query os pid)"

definition validate_process_identity ::
  "platform \<Rightarrow> os \<Rightarrow> process_identity \<Rightarrow> identity_error + process_identity" where
  "validate_process_identity p os expected =
     (case query_process_identity p os (pi_pid expected) of
        None \<Rightarrow> Inl NotQueried
      | Some current \<Rightarrow>
          (case identity_matches p os expected current of
             Inl e \<Rightarrow> Inl e | Inr _ \<Rightarrow> Inr current))"

section \<open>What an alert says of the process\<close>

definition parse_pid :: "string option \<Rightarrow> u32 option" where
  "parse_pid value =
     (case value of
        None \<Rightarrow> None
      | Some v \<Rightarrow>
          let v = str_trim v in
          (case strip_prefix v ''0x'' of
             Some hex \<Rightarrow> from_str_radix 16 hex
           | None \<Rightarrow>
               (case strip_prefix v ''0X'' of
                  Some hex \<Rightarrow> from_str_radix 16 hex | None \<Rightarrow> parse_uint v)))"

definition event_process_info :: "event_fields \<Rightarrow> u32 option \<times> string option" where
  "event_process_info fs =
     (case fs of
        ProcessCreation f \<Rightarrow> (parse_pid (pc_process_id f), pc_image f)
      | FileEvent f \<Rightarrow> (parse_pid (fe_process_id f), fe_image f)
      | RegistryEvent f \<Rightarrow> (parse_pid (re_process_id f), re_image f)
      | NetworkConnection f \<Rightarrow> (parse_pid (nc_process_id f), nc_image f)
      | DnsQuery f \<Rightarrow> (parse_pid (dq_process_id f), dq_image f)
      | ImageLoad f \<Rightarrow> (parse_pid (il_process_id f), il_image f)
      | PowerShellScript f \<Rightarrow> (parse_pid (ps_process_id f), ps_image f)
      | WmiEvent f \<Rightarrow> (parse_pid (wm_process_id f), wm_image f)
      | ServiceCreation f \<Rightarrow> (parse_pid (sc_process_id f), sc_image f)
      | TaskCreation f \<Rightarrow> (parse_pid (tc_process_id f), tc_image f)
      | RemoteThread f \<Rightarrow>
          (case parse_pid (rt_target_process_id f) of
             Some target_pid \<Rightarrow> (Some target_pid, rt_target_image f)
           | None \<Rightarrow> (parse_pid (rt_source_process_id f), rt_source_image f))
      | Generic _ \<Rightarrow> (None, None))"

definition context_pid :: "alert \<Rightarrow> u32 option" where
  "context_pid a = (case ev_process_context (al_event a) of
     None \<Rightarrow> None | Some ctx \<Rightarrow> parse_pid (cx_process_id ctx))"

definition context_image :: "alert \<Rightarrow> string option" where
  "context_image a = (case ev_process_context (al_event a) of None \<Rightarrow> None | Some ctx \<Rightarrow> cx_image ctx)"

definition extract_process_info :: "alert \<Rightarrow> u32 option \<times> string option" where
  "extract_process_info a =
     (let (pid, img) = event_process_info (ev_fields (al_event a))
      in (if pid = None then context_pid a else pid,
          if img = None then context_image a else img))"

text \<open>\<open>hash\<close> is the hexadecimal SHA-256 digest.\<close>

definition extract_process_identity :: "(string \<Rightarrow> string) \<Rightarrow> alert \<Rightarrow> process_identity option" where
  "extract_process_identity hash a =
     (let (pid, img, start_time, command_line) =
        (case ev_fields (al_event a) of
           ProcessCreation f \<Rightarrow>
             (parse_pid (pc_process_id f), pc_image f, pc_process_start_time f, pc_command_line f)
         | _ \<Rightarrow>
             (context_pid a, context_image a,
              (case ev_process_context (al_event a) of
                 None \<Rightarrow> None | Some ctx \<Rightarrow> cx_process_start_time ctx),
              (case ev_process_context (al_event a) of
                 None \<Rightarrow> None | Some ctx \<Rightarrow> cx_command_line ctx)))
      in case pid of None \<Rightarrow> None
         | Some i \<Rightarrow> (case img of None \<Rightarrow> None
             | Some img \<Rightarrow>
                 Some \<lparr>pi_pid = i, pi_image = img, pi_start_time = start_time,
                       pi_command_line_hash = map_option hash command_line\<rparr>))"

section \<open>Allowlists\<close>

definition path_sep :: "platform \<Rightarrow> char" where
  "path_sep p = (if p = Linux \<or> p = MacOS then CHR ''/'' else backslash)"

definition normalize_allowlist_paths :: "platform \<Rightarrow> string list \<Rightarrow> string list" where
  "normalize_allowlist_paths p values =
     map (\<lambda>v. let n = normalize_path_for_comparison p v
              in if ends_with n [path_sep p] then n else n @ [path_sep p])
       (filter (\<lambda>v. str_trim v \<noteq> []) values)"

definition normalize_allowlist_images :: "platform \<Rightarrow> string list \<Rightarrow> string list" where
  "normalize_allowlist_images p values =
     map (normalize_path_for_comparison p) (filter (\<lambda>v. str_trim v \<noteq> []) values)"

definition image_basename :: "string \<Rightarrow> string" where
  "image_basename path =
     (let path' = trim_end_matches_char CHR ''/'' (trim_end_matches_char backslash path) in
      case rsplit_once backslash path' of
        Some (_, name) \<Rightarrow> name
      | None \<Rightarrow> (case rsplit_once CHR ''/'' path' of Some (_, name) \<Rightarrow> name | None \<Rightarrow> path'))"

definition is_allowlisted :: "platform \<Rightarrow> string \<Rightarrow> string list \<Rightarrow> string list \<Rightarrow> bool" where
  "is_allowlisted p img allowlist_images allowlist_paths \<longleftrightarrow>
     (let normalized = normalize_path_for_comparison p img in
      if list_ex (starts_with normalized) allowlist_paths then True
      else
        let basename = image_basename normalized
        in list_ex
             (\<lambda>entry. if str_contains entry [backslash] \<or> str_contains entry ''/''
                      then normalized = entry else basename = entry)
             allowlist_images)"

section \<open>Decisions\<close>

datatype response_decision =
    Disabled
  | BelowSeverity alert_severity alert_severity
  | MissingPid
  | ProtectedPid u32
  | MissingImage u32
  | Allowlisted u32 string
  | DryRun u32 string
  | Terminate u32 string

record response_config =
  rc_enabled :: bool
  rc_prevention_enabled :: bool
  rc_min_severity :: string
  rc_channel_capacity :: nat
  rc_allowlist_images :: "string list"
  rc_allowlist_paths :: "string list"

record response_task =
  tk_severity :: alert_severity
  tk_rule_name :: string
  tk_engine :: detection_engine
  tk_pid :: "u32 option"
  tk_image :: "string option"
  tk_identity :: "process_identity option"

text \<open>
  The engine and the worker it spawned: the settings both hold, the channel between them, and the
  counter \<open>IDENTITY_MISMATCH_SKIPS\<close>.
\<close>

record response_engine =
  rs_platform :: platform
  rs_enabled :: bool
  rs_min_severity :: alert_severity
  rs_prevention_enabled :: bool
  rs_self_pid :: u32
  rs_allowlist_images :: "string list"
  rs_allowlist_paths :: "string list"
  rs_capacity :: nat
  rs_queue :: "response_task list"
  rs_mismatch_skips :: u64

definition response_new :: "platform \<Rightarrow> u32 \<Rightarrow> response_config \<Rightarrow> response_engine" where
  "response_new p self cfg =
     \<lparr>rs_platform = p, rs_enabled = rc_enabled cfg,
      rs_min_severity = parse_min_severity (rc_min_severity cfg),
      rs_prevention_enabled = rc_prevention_enabled cfg, rs_self_pid = self,
      rs_allowlist_images = normalize_allowlist_images p (rc_allowlist_images cfg),
      rs_allowlist_paths = normalize_allowlist_paths p (rc_allowlist_paths cfg),
      rs_capacity = rc_channel_capacity cfg, rs_queue = [], rs_mismatch_skips = 0\<rparr>"

definition decide_response ::
  "platform \<Rightarrow> u32 option \<Rightarrow> string option \<Rightarrow> bool \<Rightarrow> u32 \<Rightarrow> string list \<Rightarrow> string list
   \<Rightarrow> response_decision" where
  "decide_response p pid img prevention_enabled self_pid allowlist_images allowlist_paths =
     (case pid of
        None \<Rightarrow> MissingPid
      | Some pid \<Rightarrow>
          if pid \<le> 4 \<or> pid = self_pid then ProtectedPid pid
          else
            (case img of
               None \<Rightarrow> MissingImage pid
             | Some img \<Rightarrow>
                 if is_allowlisted p img allowlist_images allowlist_paths
                 then Allowlisted pid img
                 else if prevention_enabled then Terminate pid img else DryRun pid img))"

definition decide_with :: "response_engine \<Rightarrow> u32 option \<Rightarrow> string option \<Rightarrow> response_decision" where
  "decide_with en pid img =
     decide_response (rs_platform en) pid img (rs_prevention_enabled en) (rs_self_pid en)
       (rs_allowlist_images en) (rs_allowlist_paths en)"

definition decision_for_alert :: "response_engine \<Rightarrow> alert \<Rightarrow> response_decision" where
  "decision_for_alert en a =
     (if \<not> rs_enabled en then Disabled
      else
        let severity = effective_alert_severity a in
        if \<not> severity_at_least severity (rs_min_severity en)
        then BelowSeverity severity (rs_min_severity en)
        else let (pid, img) = extract_process_info a in decide_with en pid img)"

definition task_of :: "(string \<Rightarrow> string) \<Rightarrow> alert \<Rightarrow> response_task" where
  "task_of hash a =
     (let (pid, img) = extract_process_info a
      in \<lparr>tk_severity = effective_alert_severity a, tk_rule_name = al_rule_name a,
          tk_engine = al_engine a, tk_pid = pid, tk_image = img,
          tk_identity = extract_process_identity hash a\<rparr>)"

definition acts_on :: "response_decision \<Rightarrow> bool" where
  "acts_on d = (case d of DryRun _ _ \<Rightarrow> True | Terminate _ _ \<Rightarrow> True | _ \<Rightarrow> False)"

definition handle_alert :: "(string \<Rightarrow> string) \<Rightarrow> response_engine \<Rightarrow> alert \<Rightarrow> response_engine" where
  "handle_alert hash en a =
     (if \<not> acts_on (decision_for_alert en a) then en
      else if length (rs_queue en) < rs_capacity en
        then en\<lparr>rs_queue := rs_queue en @ [task_of hash a]\<rparr>
      else en)"

section \<open>The worker\<close>

definition expected_identity :: "response_task \<Rightarrow> u32 \<Rightarrow> string \<Rightarrow> process_identity" where
  "expected_identity task pid img =
     (case tk_identity task of
        Some identity \<Rightarrow> identity
      | None \<Rightarrow> \<lparr>pi_pid = pid, pi_image = img, pi_start_time = None,
                 pi_command_line_hash = None\<rparr>)"

text \<open>
  \<open>handle_task\<close>: the process for which \<open>terminate_process\<close> is called, if any. Whether the call
  succeeds only changes the log.
\<close>

definition handle_task ::
  "os \<Rightarrow> response_engine \<Rightarrow> response_task \<Rightarrow> response_engine \<times> u32 option" where
  "handle_task os en task =
     (case decide_with en (tk_pid task) (tk_image task) of
        Terminate pid img \<Rightarrow>
          (case validate_process_identity (rs_platform en) os (expected_identity task pid img) of
             Inr current \<Rightarrow> (en, Some pid)
           | Inl err \<Rightarrow> (en\<lparr>rs_mismatch_skips := rs_mismatch_skips en + 1\<rparr>, None))
      | _ \<Rightarrow> (en, None))"

datatype response_op = HandleAlert alert | Work os

fun response_step ::
  "(string \<Rightarrow> string) \<Rightarrow> response_engine \<Rightarrow> response_op \<Rightarrow> response_engine \<times> u32 option" where
  "response_step hash en (HandleAlert a) = (handle_alert hash en a, None)"
| "response_step hash en (Work os) =
     (case rs_queue en of
        [] \<Rightarrow> (en, None)
      | task # rest \<Rightarrow> handle_task os (en\<lparr>rs_queue := rest\<rparr>) task)"

section \<open>What a queued task can lead to\<close>

text \<open>The process that an alert names may be terminated under the configuration.\<close>

definition eligible :: "platform \<Rightarrow> u32 \<Rightarrow> response_config \<Rightarrow> alert \<Rightarrow> u32 \<Rightarrow> bool" where
  "eligible p self cfg a pid \<longleftrightarrow>
     rc_enabled cfg \<and> rc_prevention_enabled cfg \<and>
     parse_min_severity (rc_min_severity cfg) \<le> effective_alert_severity a \<and>
     fst (extract_process_info a) = Some pid \<and> 4 < pid \<and> pid \<noteq> self \<and>
     (\<exists>img. snd (extract_process_info a) = Some img \<and>
        \<not> is_allowlisted p img (normalize_allowlist_images p (rc_allowlist_images cfg))
            (normalize_allowlist_paths p (rc_allowlist_paths cfg)))"

lemma decide_acts:
  "acts_on (decide_response p pid img prevention self imgs paths) \<longleftrightarrow>
   (\<exists>i m. pid = Some i \<and> img = Some m \<and> 4 < i \<and> i \<noteq> self \<and> \<not> is_allowlisted p m imgs paths)"
  by (auto simp: decide_response_def acts_on_def not_le split: option.splits)

lemma decide_terminates:
  "decide_response p pid img prevention self imgs paths = Terminate i m \<longleftrightarrow>
   pid = Some i \<and> img = Some m \<and> 4 < i \<and> i \<noteq> self \<and> \<not> is_allowlisted p m imgs paths \<and>
   prevention"
  by (auto simp: decide_response_def not_le split: option.splits)

definition settings_of :: "response_engine \<Rightarrow> response_engine" where
  "settings_of en = en\<lparr>rs_queue := [], rs_mismatch_skips := 0\<rparr>"

definition response_inv ::
  "(string \<Rightarrow> string) \<Rightarrow> response_engine \<Rightarrow> alert set \<Rightarrow> response_engine \<Rightarrow> bool" where
  "response_inv hash start A en \<longleftrightarrow>
     settings_of en = settings_of start \<and> length (rs_queue en) \<le> rs_capacity start \<and>
     (\<forall>task \<in> set (rs_queue en). \<exists>a \<in> A. task = task_of hash a \<and> acts_on (decision_for_alert start a))"

fun response_ok :: "alert set \<Rightarrow> response_op \<Rightarrow> bool" where
  "response_ok A (HandleAlert a) = (a \<in> A)"
| "response_ok A (Work os) = True"

lemma settings_sel:
  "rs_platform (settings_of en) = rs_platform en" "rs_enabled (settings_of en) = rs_enabled en"
  "rs_min_severity (settings_of en) = rs_min_severity en"
  "rs_prevention_enabled (settings_of en) = rs_prevention_enabled en"
  "rs_self_pid (settings_of en) = rs_self_pid en"
  "rs_allowlist_images (settings_of en) = rs_allowlist_images en"
  "rs_allowlist_paths (settings_of en) = rs_allowlist_paths en"
  "rs_capacity (settings_of en) = rs_capacity en"
  by (simp_all add: settings_of_def)

lemma settings_decide:
  assumes "settings_of en = settings_of start"
  shows "decide_with en = decide_with start" and "decision_for_alert en = decision_for_alert start"
    and "rs_capacity en = rs_capacity start"
proof -
  show decide: "decide_with en = decide_with start"
    unfolding decide_with_def fun_eq_iff
    by (simp only: settings_sel [of en, symmetric] settings_sel [of start, symmetric] assms simp_thms)
  show "decision_for_alert en = decision_for_alert start"
    unfolding decision_for_alert_def fun_eq_iff decide
    by (simp only: settings_sel [of en, symmetric] settings_sel [of start, symmetric] assms simp_thms)
  show "rs_capacity en = rs_capacity start"
    by (simp only: settings_sel [of en, symmetric] settings_sel [of start, symmetric] assms simp_thms)
qed

lemma settings_queue:
  "settings_of (en\<lparr>rs_queue := q\<rparr>) = settings_of en"
  "settings_of (en\<lparr>rs_mismatch_skips := n\<rparr>) = settings_of en"
  by (simp_all add: settings_of_def)

lemma handle_task_state:
  "rs_queue (fst (handle_task os en task)) = rs_queue en \<and>
   settings_of (fst (handle_task os en task)) = settings_of en"
  by (simp add: handle_task_def settings_queue split: response_decision.split sum.split)

interpretation responder: machine "response_step hash" "response_inv hash start A" "response_ok A"
  for hash start A
proof
  fix en e assume inv: "response_inv hash start A en" and ok: "response_ok A e"
  then have same: "settings_of en = settings_of start" by (simp add: response_inv_def)
  show "response_inv hash start A (fst (response_step hash en e))"
  proof (cases e)
    case (HandleAlert a)
    with inv ok same show ?thesis
      by (auto simp: handle_alert_def response_inv_def settings_decide [OF same] settings_queue)
  next
    case (Work os)
    with inv show ?thesis
      by (cases "rs_queue en") (auto simp: response_inv_def handle_task_state settings_queue)
  qed
qed

lemma run_nth:
  "i < length es \<Longrightarrow>
   snd (run step s es) ! i = snd (step (fst (run step s (take i es))) (es ! i))"
proof (induction es arbitrary: s i)
  case (Cons e es)
  then show ?case by (cases i) simp_all
qed simp

lemma response_new_fields [simp]:
  "rs_platform (response_new p self cfg) = p" "rs_queue (response_new p self cfg) = []"
  "rs_enabled (response_new p self cfg) = rc_enabled cfg"
  "rs_prevention_enabled (response_new p self cfg) = rc_prevention_enabled cfg"
  "rs_min_severity (response_new p self cfg) = parse_min_severity (rc_min_severity cfg)"
  "rs_self_pid (response_new p self cfg) = self"
  "rs_allowlist_images (response_new p self cfg) =
     normalize_allowlist_images p (rc_allowlist_images cfg)"
  "rs_allowlist_paths (response_new p self cfg) =
     normalize_allowlist_paths p (rc_allowlist_paths cfg)"
  by (simp_all add: response_new_def)

lemma new_decides:
  "acts_on (decision_for_alert (response_new p self cfg) a) \<Longrightarrow>
   rc_enabled cfg \<and> parse_min_severity (rc_min_severity cfg) \<le> effective_alert_severity a"
  by (auto simp: decision_for_alert_def acts_on_def severity_at_least_iff Let_def split: if_splits)

text \<open>
  The one place where the worker terminates: the task at the head of the queue, from an earlier
  alert that was eligible, with an identity that validates at that moment.
\<close>

lemma response_kill:
  assumes i: "i < length es"
    and kill: "snd (run (response_step hash) (response_new p self cfg) es) ! i = Some pid"
  obtains os a m current where "es ! i = Work os" and "HandleAlert a \<in> set (take i es)"
    and "eligible p self cfg a pid" and "snd (extract_process_info a) = Some m"
    and "validate_process_identity p os (expected_identity (task_of hash a) pid m) = Inr current"
proof -
  let ?start = "response_new p self cfg"
  let ?A = "{a. HandleAlert a \<in> set (take i es)}"
  define en where "en = fst (run (response_step hash) ?start (take i es))"
  have "response_ok ?A e" if "e \<in> set (take i es)" for e by (cases e) (use that in simp_all)
  then have "list_all (response_ok ?A) (take i es)" by (simp add: list_all_iff)
  then have inv: "response_inv hash ?start ?A en"
    unfolding en_def by (intro responder.run_inv) (simp_all add: response_inv_def)
  note decide = settings_decide [of en ?start]
  from kill have step: "snd (response_step hash en (es ! i)) = Some pid"
    by (simp add: run_nth [OF i] en_def)
  then obtain os where os: "es ! i = Work os" by (cases "es ! i") simp_all
  with step obtain task rest where q: "rs_queue en = task # rest" by (cases "rs_queue en") auto
  with inv obtain a where a: "HandleAlert a \<in> set (take i es)" and task: "task = task_of hash a"
    and acts: "acts_on (decision_for_alert ?start a)" and same: "settings_of en = settings_of ?start"
    by (auto simp: response_inv_def)
  obtain pid' m' where info: "extract_process_info a = (pid', m')" by fastforce
  have platform: "rs_platform en = p"
    by (metis same settings_sel(1) response_new_fields(1))
  have "settings_of (en\<lparr>rs_queue := rest\<rparr>) = settings_of ?start" using same
    by (simp add: settings_queue)
  from settings_decide(1) [OF this] step os q
  obtain m current where decided: "decide_with ?start pid' m' = Terminate pid m"
    and valid: "validate_process_identity p os (expected_identity task pid m) = Inr current"
    by (auto simp: handle_task_def task task_of_def info platform
        split: response_decision.splits sum.splits)
  have "eligible p self cfg a pid" "m' = Some m"
    using decided new_decides [OF acts]
    by (auto simp: eligible_def info decide_with_def decide_terminates)
  with that os a valid task info show thesis by simp
qed

text \<open>
  The process that dies is the process the alert was about, when the identity an alert carries, if
  it carries one, names the pid it would terminate: at the moment of termination the system
  reports a process at that pid which matches in the image and, where both are known, in the start
  time and the hash of the command line.
\<close>

lemma response_observed:
  assumes "i < length es"
    and "snd (run (response_step hash) (response_new p self cfg) es) ! i = Some pid"
    and "\<And>a identity. HandleAlert a \<in> set es \<Longrightarrow>
      extract_process_identity hash a = Some identity \<Longrightarrow>
      fst (extract_process_info a) = Some (pi_pid identity)"
  shows "\<exists>os a current expected. es ! i = Work os \<and> HandleAlert a \<in> set (take i es) \<and>
     eligible p self cfg a pid \<and> p \<noteq> MacOS \<and>
     os_query os pid = Some current \<and>
     (extract_process_identity hash a = Some expected \<or>
      extract_process_identity hash a = None \<and>
      Some (pi_image expected) = snd (extract_process_info a)) \<and>
     same_process_image p os (pi_image expected) (pi_image current) \<and>
     (pi_start_time expected = None \<or> pi_start_time current = None \<or>
      pi_start_time expected = pi_start_time current) \<and>
     (pi_command_line_hash expected = None \<or> pi_command_line_hash current = None \<or>
      pi_command_line_hash expected = pi_command_line_hash current)"
proof -
  from assms(1,2) obtain os a m current where k: "es ! i = Work os"
    "HandleAlert a \<in> set (take i es)" "eligible p self cfg a pid"
    "snd (extract_process_info a) = Some m"
    and valid: "validate_process_identity p os (expected_identity (task_of hash a) pid m) = Inr current"
    by (rule response_kill)
  let ?expected = "expected_identity (task_of hash a) pid m"
  have id: "tk_identity (task_of hash a) = extract_process_identity hash a"
    by (simp add: task_of_def split_beta)
  from k(2) have "HandleAlert a \<in> set es" by (rule in_set_takeD)
  with assms(3) [of a] k(3) have pid: "pi_pid ?expected = pid"
    by (cases "extract_process_identity hash a") (auto simp: expected_identity_def id eligible_def)
  from valid have "p \<noteq> MacOS \<and> os_query os pid = Some current"
    and "identity_matches p os ?expected current = Inr ()"
    by (auto simp: validate_process_identity_def query_process_identity_def pid
        split: if_splits option.splits sum.splits)
  then show ?thesis
    using k id
    by (intro exI [of _ os] exI [of _ a] exI [of _ current] exI [of _ ?expected])
      (auto simp: identity_matches_def expected_identity_def split: if_splits option.splits)
qed

section \<open>Properties\<close>

definition response_sample_config :: response_config where
  "response_sample_config = \<lparr>rc_enabled = True, rc_prevention_enabled = True,
     rc_min_severity = ''high'', rc_channel_capacity = 8, rc_allowlist_images = [''sshd''],
     rc_allowlist_paths = [''/usr/bin'']\<rparr>"

definition response_sample_alert :: "event_fields \<Rightarrow> process_context option \<Rightarrow> alert" where
  "response_sample_alert fs ctx =
     \<lparr>al_severity = Critical, al_rule_name = ''r'', al_rule_description = None,
      al_rule_id = None, al_engine = EngineSigma,
      al_event = \<lparr>ev_timestamp = ''t'', ev_platform = Windows, ev_provider = ''etw'',
        ev_category = CatProcess, ev_event_id = 1, ev_event_id_string = ''1'', ev_opcode = 1,
        ev_fields = fs, ev_process_context = ctx\<rparr>,
      al_match_details = None\<rparr>"

definition evil_fields :: process_fields where
  "evil_fields = \<lparr>pc_image = Some ''/tmp/evil'', pc_original_file_name = None,
     pc_product = None, pc_description = None, pc_target_image = None, pc_command_line = None,
     pc_process_id = Some ''0x4D'', pc_process_start_time = None, pc_parent_process_id = None,
     pc_parent_image = None, pc_parent_command_line = None, pc_current_directory = None,
     pc_integrity_level = None, pc_user = None, pc_logon_id = None, pc_logon_guid = None\<rparr>"

definition evil_os :: os where
  "evil_os = \<lparr>os_query = (\<lambda>pid. if pid = 77
       then Some \<lparr>pi_pid = 77, pi_image = ''/tmp/Evil'', pi_start_time = Some 5,
                  pi_command_line_hash = None\<rparr> else None),
     os_canonicalize = (\<lambda>_. None), os_terminate = (\<lambda>_. True)\<rparr>"

definition evil_ops :: "response_op list" where
  "evil_ops = [HandleAlert (response_sample_alert (ProcessCreation evil_fields) None), Work evil_os]"

lemma evil_lower: "to_ascii_lowercase ''/tmp/Evil'' = ''/tmp/evil''"
  by code_simp

lemmas sample_text = to_ascii_lowercase_def ascii_lower_def trim_printable

lemma evil_facts:
  "parse_pid (Some ''0x4D'') = Some 77" "parse_min_severity ''high'' = High"
  "is_allowlisted Linux ''/tmp/evil'' (normalize_allowlist_images Linux [''sshd''])
     (normalize_allowlist_paths Linux [''/usr/bin'']) = False"
  "same_process_image Linux evil_os ''/tmp/evil'' ''/tmp/Evil''"
proof -
  show "parse_pid (Some ''0x4D'') = Some 77"
    by (simp add: parse_pid_def trim_printable strip_prefix_def from_str_radix_def parse_nat_def
        digit_value_def Let_def)
  show "parse_min_severity ''high'' = High"
    by (simp add: parse_min_severity_def sample_text)
  show "is_allowlisted Linux ''/tmp/evil'' (normalize_allowlist_images Linux [''sshd''])
     (normalize_allowlist_paths Linux [''/usr/bin'']) = False"
    by (simp add: is_allowlisted_def normalize_allowlist_images_def normalize_allowlist_paths_def
        normalize_path_for_comparison_def path_sep_def image_basename_def trim_end_matches_char_def
        rsplit_once_def sample_text Let_def suffix_def sublist_Cons_right)
  show "same_process_image Linux evil_os ''/tmp/evil'' ''/tmp/Evil''"
    by (simp add: same_process_image_def normalize_path_for_comparison_def trim_printable evil_lower)
      (simp add: sample_text)
qed

lemma evil_query:
  "os_query evil_os 77 =
     Some \<lparr>pi_pid = 77, pi_image = ''/tmp/Evil'', pi_start_time = Some 5,
           pi_command_line_hash = None\<rparr>"
  by (simp add: evil_os_def)

lemmas response_defs =
  handle_alert_def decision_for_alert_def response_sample_alert_def extract_process_info_def
  event_process_info_def response_new_def response_sample_config_def severity_at_least_def
  severity_rank_def effective_alert_severity_def decide_with_def decide_response_def acts_on_def
  task_of_def extract_process_identity_def handle_task_def expected_identity_def
  validate_process_identity_def query_process_identity_def identity_matches_def context_pid_def
  context_image_def

lemma evil_run:
  "snd (run (response_step (\<lambda>x. x)) (response_new Linux 1 response_sample_config) evil_ops) =
   [None, Some 77]"
  by (simp add: evil_ops_def response_defs evil_fields_def evil_facts evil_query)

text \<open>
  C5: active response terminates only what the configuration allows. Whatever alerts arrive and
  whatever the worker finds, a process is terminated only after an alert that names it, with the
  engine and prevention enabled, the effective severity at least the configured one, a pid above 4
  that is not the program's own, and an image that no allowlist entry covers.
\<close>

theorem response_kills_only_eligible:
  assumes "i < length es"
    and "snd (run (response_step hash) (response_new p self cfg) es) ! i = Some pid"
  shows "\<exists>os a. es ! i = Work os \<and> HandleAlert a \<in> set (take i es) \<and> eligible p self cfg a pid"
  using response_kill [OF assms] by metis

theorem response_kills_only_eligible_witness:
  "\<exists>os a. evil_ops ! 1 = Work os \<and> HandleAlert a \<in> set (take 1 evil_ops) \<and>
     eligible Linux 1 response_sample_config a 77"
  by (rule response_kills_only_eligible [where hash = "\<lambda>x. x"])
    (simp_all only: evil_run, simp_all add: evil_ops_def)

definition thread_fields :: remote_thread_fields where
  "thread_fields = \<lparr>rt_source_process_id = Some ''50'', rt_source_image = Some ''/tmp/inject'',
     rt_target_process_id = Some ''77'', rt_target_image = Some ''/tmp/victim'',
     rt_start_address = None, rt_start_module = None, rt_start_function = None, rt_user = None\<rparr>"

definition thread_context :: process_context where
  "thread_context = \<lparr>cx_image = Some ''/tmp/inject'', cx_command_line = None,
     cx_process_id = Some ''50'', cx_process_start_time = Some 3, cx_parent_process_id = None,
     cx_parent_image = None, cx_parent_command_line = None, cx_original_file_name = None,
     cx_product = None, cx_description = None, cx_current_directory = None,
     cx_integrity_level = None, cx_user = None, cx_logon_id = None, cx_logon_guid = None\<rparr>"

text \<open>The source still runs; the pid of the target belongs to another program by now.\<close>

definition thread_os :: os where
  "thread_os = \<lparr>os_query = (\<lambda>pid.
       if pid = 50 then Some \<lparr>pi_pid = 50, pi_image = ''/tmp/inject'', pi_start_time = Some 3,
                              pi_command_line_hash = None\<rparr>
       else if pid = 77 then Some \<lparr>pi_pid = 77, pi_image = ''/opt/database'',
                              pi_start_time = Some 900, pi_command_line_hash = None\<rparr>
       else None),
     os_canonicalize = (\<lambda>_. None), os_terminate = (\<lambda>_. True)\<rparr>"

lemma thread_facts:
  "parse_pid (Some ''50'') = Some 50" "parse_pid (Some ''77'') = Some 77"
  "is_allowlisted Linux ''/tmp/victim'' (normalize_allowlist_images Linux [''sshd''])
     (normalize_allowlist_paths Linux [''/usr/bin'']) = False"
proof -
  show "parse_pid (Some ''50'') = Some 50" "parse_pid (Some ''77'') = Some 77"
    by (simp_all add: parse_pid_def trim_printable strip_prefix_def parse_uint_def
        from_str_radix_def parse_nat_def digit_value_def Let_def)
  show "is_allowlisted Linux ''/tmp/victim'' (normalize_allowlist_images Linux [''sshd''])
     (normalize_allowlist_paths Linux [''/usr/bin'']) = False"
    by (simp add: is_allowlisted_def normalize_allowlist_images_def normalize_allowlist_paths_def
        normalize_path_for_comparison_def path_sep_def image_basename_def trim_end_matches_char_def
        rsplit_once_def sample_text Let_def suffix_def sublist_Cons_right)
qed

text \<open>
  A remote-thread alert is validated against the wrong process: its identity is that of the
  source, from the process context, while the process it terminates is the target. Here the
  target's pid has passed to another program, the source still validates, and the other program
  is terminated.
\<close>

lemma remote_thread_kills_unvalidated_target:
  "snd (run (response_step hash) (response_new Linux 1 response_sample_config)
     [HandleAlert (response_sample_alert (RemoteThread thread_fields) (Some thread_context)),
      Work thread_os]) = [None, Some 77]"
  by (simp add: response_defs thread_fields_def thread_context_def thread_facts evil_facts
      thread_os_def same_process_image_def)

text \<open>
  On Unix, where a backslash is an ordinary character of a file name, the base name of an
  image is what follows the last backslash, so a program in any directory evades the response by
  a name that ends in a backslash and an allowlisted name.
\<close>

lemma backslash_name_is_allowlisted:
  "is_allowlisted Linux (CHR ''/'' # dir @ backslash # ''sshd'')
     (normalize_allowlist_images Linux [''sshd'']) paths"
proof -
  let ?path = "CHR ''/'' # to_ascii_lowercase dir @ backslash # ''sshd''"
  have norm: "normalize_path_for_comparison Linux (CHR ''/'' # dir @ backslash # ''sshd'') = ?path"
    by (simp add: normalize_path_for_comparison_def trim_printable)
      (simp add: to_ascii_lowercase_def ascii_lower_def)
  have "rsplit_once backslash ?path = Some (CHR ''/'' # to_ascii_lowercase dir, ''sshd'')"
    by (simp add: rsplit_once_Some)
  moreover have "trim_end_matches_char CHR ''/'' (trim_end_matches_char backslash ?path) = ?path"
    by (simp add: trim_end_matches_char_def)
  ultimately have "image_basename ?path = ''sshd''" by (simp add: image_basename_def)
  then show ?thesis
    by (simp add: is_allowlisted_def norm normalize_allowlist_images_def)
      (simp add: normalize_path_for_comparison_def sample_text sublist_Cons_right)
qed

end
