(* ===== verification/Linux_Proc.thy ===== *)
theory Linux_Proc
  imports Lines Bytes Response
begin

text \<open>
  What the Linux build reads below \<open>/proc\<close>: the process details of \<open>src/utils/process.rs\<close> and the
  socket tables of \<open>src/utils/socket.rs\<close>. The file system is a parameter: the bytes of a file and
  the target of a link, by path. The machine is little-endian, as every supported target is.
\<close>

record procfs =
  pf_read :: "string \<Rightarrow> u8 list option"
  pf_link :: "string \<Rightarrow> u8 list option"

text \<open>\<open>fs::read_to_string\<close> fails on bytes that are not UTF-8.\<close>

definition read_to_string :: "procfs \<Rightarrow> string \<Rightarrow> string option" where
  "read_to_string pf path =
     (case pf_read pf path of
        None \<Rightarrow> None
      | Some bs \<Rightarrow> if valid_utf8 (map byte_char bs) then Some (map byte_char bs) else None)"

definition proc_path :: "u32 \<Rightarrow> string \<Rightarrow> string" where
  "proc_path pid name = ''/proc/'' @ show_uint pid @ ''/'' @ name"

section \<open>Processes\<close>

record proc_stat =
  st_parent_process_id :: "u32 option"
  st_start_time :: "u64 option"

record process_details =
  pd_image :: "string option"
  pd_command_line :: "string option"
  pd_parent_process_id :: "u32 option"
  pd_parent_image :: "string option"
  pd_parent_command_line :: "string option"
  pd_current_directory :: "string option"
  pd_start_time :: "u64 option"

definition read_proc_cmdline :: "procfs \<Rightarrow> u32 \<Rightarrow> string option" where
  "read_proc_cmdline pf pid =
     (case pf_read pf (proc_path pid ''cmdline'') of
        None \<Rightarrow> None
      | Some raw \<Rightarrow>
          let parts = map utf8_lossy
                (filter (\<lambda>segment. segment \<noteq> [])
                  (split_by (\<lambda>c. byte c = 0) (map byte_char raw)))
          in if parts = [] then None else Some (join '' '' parts))"

definition read_proc_link :: "procfs \<Rightarrow> u32 \<Rightarrow> string \<Rightarrow> string option" where
  "read_proc_link pf pid name = map_option from_utf8_lossy (pf_link pf (proc_path pid name))"

definition read_proc_stat :: "procfs \<Rightarrow> u32 \<Rightarrow> proc_stat option" where
  "read_proc_stat pf pid =
     (case read_to_string pf (proc_path pid ''stat'') of
        None \<Rightarrow> None
      | Some stat \<Rightarrow>
          (case rsplit_once CHR '')'' stat of
             None \<Rightarrow> None
           | Some (before, _) \<Rightarrow>
               (case str_get_from (length before + 2) stat of
                  None \<Rightarrow> None
                | Some rest \<Rightarrow>
                    let fs = split_whitespace rest
                    in if length fs \<le> 19 then None
                       else Some \<lparr>st_parent_process_id = parse_uint (fs ! 1),
                         st_start_time = parse_uint (fs ! 19)\<rparr>)))"

definition query_process_details :: "procfs \<Rightarrow> u32 \<Rightarrow> process_details option" where
  "query_process_details pf pid =
     (if pid = 0 then None
      else
        let stat = read_proc_stat pf pid;
            parent = Option.bind stat st_parent_process_id;
            details =
              \<lparr>pd_image = read_proc_link pf pid ''exe'',
               pd_command_line = read_proc_cmdline pf pid,
               pd_parent_process_id = parent,
               pd_parent_image = Option.bind parent (\<lambda>ppid. read_proc_link pf ppid ''exe''),
               pd_parent_command_line = Option.bind parent (read_proc_cmdline pf),
               pd_current_directory = read_proc_link pf pid ''cwd'',
               pd_start_time = Option.bind stat st_start_time\<rparr>
        in if details = \<lparr>pd_image = None, pd_command_line = None, pd_parent_process_id = None,
             pd_parent_image = None, pd_parent_command_line = None, pd_current_directory = None,
             pd_start_time = None\<rparr>
           then None else Some details)"

text \<open>The identity the response validates; the hash of a command line is a parameter.\<close>

definition linux_process_identity ::
    "procfs \<Rightarrow> (string \<Rightarrow> string) \<Rightarrow> u32 \<Rightarrow> process_identity option" where
  "linux_process_identity pf hash pid =
     (case query_process_details pf pid of
        None \<Rightarrow> None
      | Some details \<Rightarrow>
          (case pd_image details of
             None \<Rightarrow> None
           | Some img \<Rightarrow>
               Some \<lparr>pi_pid = pid, pi_image = img, pi_start_time = pd_start_time details,
                 pi_command_line_hash = map_option hash (pd_command_line details)\<rparr>))"

section \<open>The stat file\<close>

text \<open>
  The kernel's line: the pid, the name of the command in parentheses, then at least twenty words,
  of which the second is the parent and the twentieth the start time in clock ticks. The name is
  whatever the process chose; it may contain blanks and parentheses.
\<close>

definition stat_line :: "u32 \<Rightarrow> string \<Rightarrow> string list \<Rightarrow> string" where
  "stat_line pid comm ws = show_uint pid @ '' ('' @ comm @ '') '' @ join '' '' ws @ [CHR 0x0A]"

definition stat_words :: "u32 \<Rightarrow> u64 \<Rightarrow> string list \<Rightarrow> bool" where
  "stat_words ppid start ws \<longleftrightarrow>
     20 \<le> length ws \<and> list_all printable ws \<and> list_all (\<lambda>w. CHR '')'' \<notin> set w) ws \<and>
     ws ! 1 = show_uint ppid \<and> ws ! 19 = show_uint start"

lemma join_notin:
  "list_all (\<lambda>w. c \<notin> set w) ws \<Longrightarrow> c \<notin> set sep \<Longrightarrow> c \<notin> set (join sep ws)"
  by (induction sep ws rule: join.induct) auto

lemma stat_line_parses:
  assumes "read_to_string pf (proc_path pid ''stat'') = Some (stat_line pid comm ws)"
    and "stat_words ppid start ws"
  shows "read_proc_stat pf pid =
    Some \<lparr>st_parent_process_id = Some ppid, st_start_time = Some start\<rparr>"
proof -
  let ?head = "show_uint pid @ '' ('' @ comm" and ?tail = "'' '' @ join '' '' ws @ [CHR 0x0A]"
  have line: "stat_line pid comm ws = ?head @ CHR '')'' # ?tail" by (simp add: stat_line_def)
  have "CHR '')'' \<notin> set ?tail"
    using assms(2) join_notin [of "CHR '')''" ws "'' ''"] by (simp add: stat_words_def)
  then have split: "rsplit_once CHR '')'' (stat_line pid comm ws) = Some (?head, ?tail)"
    by (simp only: line rsplit_once_Some) simp
  have words: "list_all printable ws" "ws \<noteq> []" using assms(2) by (auto simp: stat_words_def)
  have "str_get_from (length (?head @ '') '')) ((?head @ '') '') @ join '' '' ws @ [CHR 0x0A]) =
      Some (join '' '' ws @ [CHR 0x0A])"
    using printable_join [OF words, of "'' ''"] by (intro str_get_from_append) simp_all
  then have "str_get_from (length ?head + 2) (stat_line pid comm ws) = Some (join '' '' ws @ [CHR 0x0A])"
    by (simp add: line)
  with assms split split_whitespace_join(2) [OF words] show ?thesis
    by (simp add: read_proc_stat_def stat_words_def)
qed

section \<open>Sockets\<close>

record socket_metadata =
  sm_source_ip :: "string option"
  sm_source_port :: "u16 option"
  sm_destination_ip :: "string option"
  sm_destination_port :: "u16 option"
  sm_protocol :: "string option"

text \<open>The slices of \<open>parse_ipv6_hex\<close> panic within a character.\<close>

datatype 'a outcome = Panics | Returns 'a

definition read_socket_inode :: "procfs \<Rightarrow> u32 \<Rightarrow> i32 \<Rightarrow> u64 option" where
  "read_socket_inode pf pid fd =
     (case pf_link pf (proc_path pid (''fd/'' @ show_uint fd)) of
        None \<Rightarrow> None
      | Some link \<Rightarrow>
          (case strip_prefix (from_utf8_lossy link) ''socket:['' of
             None \<Rightarrow> None
           | Some inner \<Rightarrow>
               if ends_with inner '']'' then parse_uint (butlast inner) else None))"

definition swap_bytes :: "u32 \<Rightarrow> u32" where
  "swap_bytes w = be_word (rev (octets_of w))"

definition parse_ipv4_hex :: "string \<Rightarrow> ip_addr option" where
  "parse_ipv4_hex s = map_option (\<lambda>n. V4 (swap_bytes n)) (from_str_radix 16 s)"

text \<open>The words still to read, as the offsets of their digits, and the bytes so far.\<close>

fun parse_ipv6_words :: "nat list \<Rightarrow> string \<Rightarrow> u8 list \<Rightarrow> ip_addr option outcome" where
  "parse_ipv6_words [] s bs = Returns (Some (ipv6_from_octets bs))"
| "parse_ipv6_words (i # is) s bs =
     (if \<not> is_char_boundary s i \<or> \<not> is_char_boundary s (i + 8) then Panics
      else
        (case from_str_radix 16 (take 8 (drop i s)) of
           None \<Rightarrow> Returns None
         | Some word \<Rightarrow> parse_ipv6_words is s (bs @ octets_of (swap_bytes word))))"

definition parse_ipv6_hex :: "string \<Rightarrow> ip_addr option outcome" where
  "parse_ipv6_hex s =
     (if length s \<noteq> 32 then Returns None else parse_ipv6_words [0, 8, 16, 24] s [])"

definition parse_addr :: "string \<Rightarrow> bool \<Rightarrow> (ip_addr \<times> u16) option outcome" where
  "parse_addr s ipv6 =
     (case split_once CHR '':'' s of
        None \<Rightarrow> Returns None
      | Some (ip_hex, port_hex) \<Rightarrow>
          (case from_str_radix 16 port_hex of
             None \<Rightarrow> Returns None
           | Some port \<Rightarrow>
               (case (if ipv6 then parse_ipv6_hex ip_hex else Returns (parse_ipv4_hex ip_hex)) of
                  Panics \<Rightarrow> Panics
                | Returns None \<Rightarrow> Returns None
                | Returns (Some ip) \<Rightarrow> Returns (Some (ip, port)))))"

text \<open>
  The loop of \<open>lookup_proc_net\<close>: a line with fewer than ten words ends it without a result, a
  line whose inode is not a number or another one is skipped.
\<close>

fun scan_net_lines :: "u64 \<Rightarrow> string \<Rightarrow> bool \<Rightarrow> string list \<Rightarrow> socket_metadata option outcome" where
  "scan_net_lines inode protocol ipv6 [] = Returns None"
| "scan_net_lines inode protocol ipv6 (line # lines) =
     (let ws = split_whitespace line in
      if length ws < 10 then Returns None
      else
        case parse_uint (ws ! 9) of
          None \<Rightarrow> scan_net_lines inode protocol ipv6 lines
        | Some line_inode \<Rightarrow>
            if line_inode \<noteq> inode then scan_net_lines inode protocol ipv6 lines
            else
              (case parse_addr (ws ! 1) ipv6 of
                 Panics \<Rightarrow> Panics
               | Returns None \<Rightarrow> Returns None
               | Returns (Some (src_ip, src_port)) \<Rightarrow>
                   (case parse_addr (ws ! 2) ipv6 of
                      Panics \<Rightarrow> Panics
                    | Returns None \<Rightarrow> Returns None
                    | Returns (Some (dst_ip, dst_port)) \<Rightarrow>
                        Returns (Some
                          \<lparr>sm_source_ip = Some (show_ip src_ip), sm_source_port = Some src_port,
                           sm_destination_ip = Some (show_ip dst_ip),
                           sm_destination_port = Some dst_port, sm_protocol = Some protocol\<rparr>))))"

definition lookup_proc_net ::
    "procfs \<Rightarrow> string \<Rightarrow> u64 \<Rightarrow> string \<Rightarrow> bool \<Rightarrow> socket_metadata option outcome" where
  "lookup_proc_net pf path inode protocol ipv6 =
     (case read_to_string pf path of
        None \<Rightarrow> Returns None
      | Some content \<Rightarrow> scan_net_lines inode protocol ipv6 (drop 1 (str_lines content)))"

fun or_else :: "'a option outcome \<Rightarrow> 'a option outcome \<Rightarrow> 'a option outcome" where
  "or_else Panics _ = Panics"
| "or_else (Returns None) other = other"
| "or_else (Returns (Some v)) _ = Returns (Some v)"

definition query_socket_metadata :: "procfs \<Rightarrow> u32 \<Rightarrow> i32 \<Rightarrow> socket_metadata option outcome" where
  "query_socket_metadata pf pid fd =
     (if pid = 0 \<or> sint fd < 0 then Returns None
      else
        case read_socket_inode pf pid fd of
          None \<Rightarrow> Returns None
        | Some inode \<Rightarrow>
            or_else (lookup_proc_net pf ''/proc/net/tcp'' inode ''tcp'' False)
              (or_else (lookup_proc_net pf ''/proc/net/tcp6'' inode ''tcp'' True)
                (or_else (lookup_proc_net pf ''/proc/net/udp'' inode ''udp'' False)
                  (lookup_proc_net pf ''/proc/net/udp6'' inode ''udp'' True))))"

section \<open>The addresses of a socket table\<close>

text \<open>
  What the kernel prints: the octets of an address read as native integers of 32 bits, each as
  eight hexadecimal digits, and the port as four.
\<close>

definition hex_upper :: "nat \<Rightarrow> char" where
  "hex_upper d = (if d < 10 then char_of (48 + d) else char_of (55 + d))"

fun hex_pad :: "nat \<Rightarrow> nat \<Rightarrow> string" where
  "hex_pad 0 n = []"
| "hex_pad (Suc k) n = hex_pad k (n div 16) @ [hex_upper (n mod 16)]"

definition ipv6_octets :: "128 word \<Rightarrow> u8 list" where
  "ipv6_octets w = rev (le_bytes 16 w)"

fun kernel_ip :: "ip_addr \<Rightarrow> string" where
  "kernel_ip (V4 w) = hex_pad 8 (unat (swap_bytes w))"
| "kernel_ip (V6 w) =
     concat (map (\<lambda>i. hex_pad 8 (unat (le_word (field i 4 (ipv6_octets w)) :: u32))) [0, 4, 8, 12])"

definition kernel_addr :: "ip_addr \<Rightarrow> u16 \<Rightarrow> string" where
  "kernel_addr ip port = kernel_ip ip @ CHR '':'' # hex_pad 4 (unat port)"

lemma hex_upper_range:
  "d < 16 \<Longrightarrow> 48 \<le> byte (hex_upper d) \<and> byte (hex_upper d) \<le> 57 \<or>
    65 \<le> byte (hex_upper d) \<and> byte (hex_upper d) \<le> 70"
  by (simp add: hex_upper_def)

lemma hex_upper_value: "d < 16 \<Longrightarrow> digit_value 16 (hex_upper d) = Some d"
  by (simp add: hex_upper_def digit_value_def Let_def)

lemma hex_pad_chars:
  "c \<in> set (hex_pad k n) \<Longrightarrow> 48 \<le> byte c \<and> byte c \<le> 57 \<or> 65 \<le> byte c \<and> byte c \<le> 70"
proof (induction k arbitrary: n)
  case (Suc k)
  with hex_upper_range [of "n mod 16"] show ?case by auto
qed simp

lemma length_hex_pad [simp]: "length (hex_pad k n) = k"
  by (induction k arbitrary: n) simp_all

lemma digits_hex_pad:
  "digits_from 16 acc (hex_pad k n) = Some (acc * 16 ^ k + n mod 16 ^ k)"
proof (induction k arbitrary: n)
  case (Suc k)
  have "n mod 16 ^ Suc k = (n div 16 mod 16 ^ k) * 16 + n mod 16"
    by (metis mod_mult2_eq mult.commute power_Suc)
  with Suc show ?case by (simp add: digits_from_append hex_upper_value algebra_simps)
qed simp

lemma from_str_hex_pad:
  assumes "0 < k" and "unat (w :: 'a::len word) < 16 ^ k"
  shows "from_str_radix 16 (hex_pad k (unat w)) = Some w"
proof -
  obtain c r where cr: "hex_pad k (unat w) = c # r"
    using assms(1) length_hex_pad [of k "unat w"] by (cases "hex_pad k (unat w)") auto
  then have "48 \<le> byte c" using hex_pad_chars [of c k "unat w"] by auto
  then have "c \<noteq> CHR ''+''" "c \<noteq> CHR ''-''" by auto
  with cr digits_hex_pad [of 0 k "unat w"] assms(2)
  have "parse_nat 16 (hex_pad k (unat w)) = Some (unat w)"
    by (simp add: parse_nat_def)
  then show ?thesis using unsigned_less [of w] by (simp add: from_str_radix_def)
qed

lemma swap_swap [simp]: "swap_bytes (swap_bytes w) = w"
proof -
  have swap: "swap_bytes v = le_word (rev (le_bytes 4 v))" for v
    by (simp add: swap_bytes_def octets_rev_le_bytes le_word_def)
  have "le_bytes 4 (le_word (rev (le_bytes 4 w)) :: u32) = rev (le_bytes 4 w)"
    using le_bytes_le_word [of "rev (le_bytes 4 w)", where 'a = 32] by simp
  then show ?thesis by (simp add: swap)
qed

lemma u32_hex: "from_str_radix 16 (hex_pad 8 (unat (w :: u32))) = Some w"
  using unsigned_less [of w] by (intro from_str_hex_pad) simp_all

lemma u16_hex: "from_str_radix 16 (hex_pad 4 (unat (w :: u16))) = Some w"
  using unsigned_less [of w] by (intro from_str_hex_pad) simp_all

lemma boundary_ascii: "list_all (\<lambda>c. byte c < 128) s \<Longrightarrow> i \<le> length s \<Longrightarrow> is_char_boundary s i"
  by (auto simp: is_char_boundary_def list_all_length)

lemma hex_pad_ascii: "list_all (\<lambda>c. byte c < 128) (hex_pad k n)"
  using hex_pad_chars [of _ k n] by (fastforce simp: list_all_iff)

lemma octets_swap_le_word:
  assumes "length bs = 4"
  shows "octets_of (swap_bytes (le_word bs)) = bs"
proof -
  have "le_bytes 4 (le_word bs :: u32) = bs" "le_bytes 4 (le_word (rev bs) :: u32) = rev bs"
    using le_bytes_le_word [of bs, where 'a = 32] le_bytes_le_word [of "rev bs", where 'a = 32] assms
    by simp_all
  then show ?thesis by (simp add: swap_bytes_def octets_rev_le_bytes le_word_def)
qed

lemma parse_ipv6_hex_kernel: "parse_ipv6_hex (kernel_ip (V6 w)) = Returns (Some (V6 w))"
proof -
  let ?bs = "ipv6_octets w"
  have len: "length ?bs = 16" by (simp add: ipv6_octets_def)
  define h where "h i = hex_pad 8 (unat (le_word (field i 4 ?bs) :: u32))" for i
  have shown: "kernel_ip (V6 w) = h 0 @ h 4 @ h 8 @ h 12" by (simp add: h_def)
  have l: "length (h i) = 8" and p: "from_str_radix 16 (h i) = Some (le_word (field i 4 ?bs) :: u32)" for i
    by (simp_all add: h_def u32_hex)
  have "list_all (\<lambda>c. byte c < 128) (h i)" for i
    by (simp add: h_def hex_pad_ascii)
  then have b: "is_char_boundary (h 0 @ h 4 @ h 8 @ h 12) i" if "i \<le> 32" for i
    using that by (intro boundary_ascii) (simp_all add: l)
  have fields: "length (field 0 4 ?bs) = 4" "length (field 4 4 ?bs) = 4" "length (field 8 4 ?bs) = 4"
    "length (field 12 4 ?bs) = 4"
    by (simp_all add: field_def len)
  have all: "field 0 4 ?bs @ field 4 4 ?bs @ field 8 4 ?bs @ field 12 4 ?bs = ?bs"
    using field_drop [of 0 4 ?bs] field_drop [of 4 4 ?bs] field_drop [of 8 4 ?bs]
      field_drop [of 12 4 ?bs] len by simp
  have "ipv6_from_octets ?bs = V6 w"
    using le_word_le_bytes [of 16 w] by (simp add: ipv6_from_octets_def ipv6_octets_def le_word_def)
  with all show ?thesis
    unfolding shown by (simp add: parse_ipv6_hex_def l b p octets_swap_le_word fields)
qed

definition is_v6 :: "ip_addr \<Rightarrow> bool" where
  "is_v6 ip = (case ip of V4 _ \<Rightarrow> False | V6 _ \<Rightarrow> True)"

lemma no_colon: "CHR '':'' \<notin> set (kernel_ip ip)"
  using hex_pad_chars [of "CHR '':''"] by (cases ip) auto

text \<open>
  An address and a port, printed as the kernel prints them in a socket table of their
  family, are read back as they were; no slice panics.
\<close>

lemma proc_net_address_roundtrip:
  "parse_addr (kernel_addr ip port) (is_v6 ip) = Returns (Some (ip, port))"
proof -
  have "split_once CHR '':'' (kernel_addr ip port) = Some (kernel_ip ip, hex_pad 4 (unat port))"
    unfolding kernel_addr_def by (rule split_once_append) (rule no_colon)
  then show ?thesis
    by (cases ip) (simp_all add: parse_addr_def u16_hex u32_hex is_v6_def parse_ipv4_hex_def
        parse_ipv6_hex_kernel del: kernel_ip.simps(2))
qed

section \<open>The look-up of an inode\<close>

record table_entry =
  te_local :: "ip_addr \<times> u16"
  te_remote :: "ip_addr \<times> u16"
  te_inode :: u64

definition entry_line :: "bool \<Rightarrow> table_entry \<Rightarrow> string \<Rightarrow> bool" where
  "entry_line ipv6 e line \<longleftrightarrow>
     (let ws = split_whitespace line in
      10 \<le> length ws \<and> ws ! 1 = kernel_addr (fst (te_local e)) (snd (te_local e)) \<and>
      ws ! 2 = kernel_addr (fst (te_remote e)) (snd (te_remote e)) \<and> ws ! 9 = show_uint (te_inode e) \<and>
      is_v6 (fst (te_local e)) = ipv6 \<and> is_v6 (fst (te_remote e)) = ipv6)"

definition entry_metadata :: "string \<Rightarrow> table_entry \<Rightarrow> socket_metadata" where
  "entry_metadata protocol e =
     \<lparr>sm_source_ip = Some (show_ip (fst (te_local e))), sm_source_port = Some (snd (te_local e)),
      sm_destination_ip = Some (show_ip (fst (te_remote e))),
      sm_destination_port = Some (snd (te_remote e)), sm_protocol = Some protocol\<rparr>"

lemma parse_kernel_addr:
  "is_v6 ip = ipv6 \<Longrightarrow> parse_addr (kernel_addr ip port) ipv6 = Returns (Some (ip, port))"
proof -
  assume "is_v6 ip = ipv6"
  moreover have "split_once CHR '':'' (kernel_addr ip port) = Some (kernel_ip ip, hex_pad 4 (unat port))"
    unfolding kernel_addr_def by (rule split_once_append) (rule no_colon)
  ultimately show ?thesis
    by (cases ip) (simp_all add: parse_addr_def u16_hex u32_hex is_v6_def parse_ipv4_hex_def
        parse_ipv6_hex_kernel del: kernel_ip.simps(2))
qed

lemma scan_net_lines_exact:
  assumes "list_all2 (entry_line ipv6) es lines"
  shows "scan_net_lines inode protocol ipv6 lines =
    Returns (map_option (entry_metadata protocol) (find (\<lambda>e. te_inode e = inode) es))"
  using assms
proof (induction es lines rule: list_all2_induct)
  case (Cons e es line lines)
  then show ?case
    by (cases "te_inode e = inode")
      (simp_all add: entry_line_def Let_def parse_kernel_addr entry_metadata_def case_prod_beta)
qed simp

text \<open>
  The look-up in a socket table of the kernel's format answers with the addresses and ports
  of the first entry that has the inode, and with nothing when no entry has it.
\<close>

lemma socket_lookup_exact:
  assumes "read_to_string pf path = Some content"
    and "list_all2 (entry_line ipv6) es (drop 1 (str_lines content))"
  shows "lookup_proc_net pf path inode protocol ipv6 =
    Returns (map_option (entry_metadata protocol) (find (\<lambda>e. te_inode e = inode) es))"
  using assms by (simp add: lookup_proc_net_def scan_net_lines_exact)

text \<open>A line as the kernel prints it, with the columns the code ignores filled in.\<close>

definition table_line :: "table_entry \<Rightarrow> string" where
  "table_line e = join '' ''
     [''0:'', kernel_addr (fst (te_local e)) (snd (te_local e)),
      kernel_addr (fst (te_remote e)) (snd (te_remote e)), ''01'', ''00000000:00000000'',
      ''02:00000A6E'', ''00000000'', ''1000'', ''0'', show_uint (te_inode e), ''2'']"

lemma printable_kernel_addr: "printable (kernel_addr ip port)"
proof -
  have "33 \<le> byte c \<and> byte c \<le> 126" if "c \<in> set (hex_pad k n)" for c k n
    using hex_pad_chars [OF that] by auto
  then show ?thesis
    by (cases ip) (auto simp: kernel_addr_def printable_def list_all_iff)
qed

lemma printable_show_uint: "printable (show_uint w)"
  by (rule printable_decimal) (simp_all add: show_uint_digits)

lemma table_line_words:
  "split_whitespace (table_line e) =
     [''0:'', kernel_addr (fst (te_local e)) (snd (te_local e)),
      kernel_addr (fst (te_remote e)) (snd (te_remote e)), ''01'', ''00000000:00000000'',
      ''02:00000A6E'', ''00000000'', ''1000'', ''0'', show_uint (te_inode e), ''2'']"
  unfolding table_line_def
  by (rule split_whitespace_join) (simp_all add: printable_kernel_addr printable_show_uint, simp_all add: printable_def)

lemma entry_table_line:
  "is_v6 (fst (te_local e)) = ipv6 \<Longrightarrow> is_v6 (fst (te_remote e)) = ipv6 \<Longrightarrow>
   entry_line ipv6 e (table_line e)"
  by (simp add: entry_line_def table_line_words Let_def)

lemma byte_char_of_char: "byte_char (of_nat (of_char c)) = c"
  using byte_lt [of c] by (simp add: byte_char_def unat_of_nat take_bit_nat_eq_self)

definition proc_text :: "string \<Rightarrow> u8 list" where
  "proc_text s = map (\<lambda>c. of_nat (of_char c)) s"

lemma proc_text_char: "map byte_char (proc_text s) = s"
  by (simp add: proc_text_def comp_def byte_char_of_char)

lemma read_proc_text:
  "pf_read pf path = Some (proc_text s) \<Longrightarrow> valid_utf8 s \<Longrightarrow> read_to_string pf path = Some s"
  by (simp add: read_to_string_def proc_text_char)

lemma table_line_chars:
  assumes "c \<in> set (table_line e)"
  shows "32 \<le> byte c \<and> byte c \<le> 126"
proof -
  have hex: "c \<in> set (kernel_addr ip port) \<Longrightarrow> 33 \<le> byte c \<and> byte c \<le> 126" for ip port
    using printable_kernel_addr [of ip port] by (simp add: printable_def list_all_iff)
  have dec: "c \<in> set (show_uint (te_inode e)) \<Longrightarrow> 33 \<le> byte c \<and> byte c \<le> 126"
    using printable_show_uint [of "te_inode e"] by (simp add: printable_def list_all_iff)
  from assms hex dec show ?thesis unfolding table_line_def by (simp del: char_of_char) force
qed

definition sample_entry :: table_entry where
  "sample_entry = \<lparr>te_local = (V4 0x0A000005, 51324), te_remote = (V4 0x5DB8D822, 443), te_inode = 4711\<rparr>"

definition sample_procfs :: procfs where
  "sample_procfs =
     \<lparr>pf_read = (\<lambda>path. if path = ''/proc/net/tcp''
        then Some (proc_text (unlines [''  sl  local_address'', table_line sample_entry])) else None),
      pf_link = (\<lambda>_. None)\<rparr>"

lemma unlines_ascii:
  "list_all (list_all (\<lambda>c. byte c < 128)) ls \<Longrightarrow> valid_utf8 (unlines ls)"
  by (rule valid_utf8_ascii) (auto simp: unlines_def list_all_iff)


end
