(* ===== verification/Dns_Wire.thy ===== *)
theory Dns_Wire
  imports Addr Numbers
begin

text \<open>
  \<open>src/sensor/dns.rs\<close>: the parser of the question of a DNS query, on bytes. Its loop is a recursion
  on the bytes after the header; it is compared with the encoding of a name into labels.
\<close>

section \<open>The parser\<close>

definition header_len :: nat where "header_len = 12"
definition label_pointer_mask :: u8 where "label_pointer_mask = 0xC0"
definition label_max_len :: nat where "label_max_len = 63"

unbundle bit_operations_syntax

definition is_pointer :: "u8 \<Rightarrow> bool" where
  "is_pointer n \<longleftrightarrow> n AND label_pointer_mask \<noteq> 0"

definition is_response :: "u16 \<Rightarrow> bool" where
  "is_response flags \<longleftrightarrow> flags AND 0x8000 \<noteq> 0"

definition qtype_of :: "u8 list \<Rightarrow> u16" where
  "qtype_of rest = (case rest of hi # lo # _ \<Rightarrow> u16_from_be_bytes hi lo | _ \<Rightarrow> 0)"

function parse_labels :: "string list \<Rightarrow> u8 list \<Rightarrow> (string \<times> u16) option" where
  "parse_labels labels [] = None"
| "parse_labels labels (n # rest) =
     (if n = 0 then Some (if labels = [] then ''.'' else join ''.'' labels, qtype_of rest)
      else if is_pointer n then None
      else if label_max_len < unat n \<or> length rest < unat n then None
      else parse_labels (labels @ [from_utf8_lossy (take (unat n) rest)]) (drop (unat n) rest))"
  by pat_completeness auto
termination by (relation "measure (\<lambda>(labels, bytes). length bytes)") auto

definition parse_question :: "u8 list \<Rightarrow> (string \<times> u16) option" where
  "parse_question payload =
     (if length payload < header_len then None
      else
        let flags = u16_from_be_bytes (payload ! 2) (payload ! 3);
            qdcount = u16_from_be_bytes (payload ! 4) (payload ! 5)
        in if is_response flags \<or> qdcount = 0 then None
           else parse_labels [] (drop header_len payload))"

section \<open>Round trip\<close>

text \<open>A label is one to 63 bytes of well-formed UTF-8.\<close>

definition label_ok :: "u8 list \<Rightarrow> bool" where
  "label_ok l \<longleftrightarrow> l \<noteq> [] \<and> length l \<le> label_max_len \<and> valid_utf8 (map byte_char l)"

definition encode_name :: "u8 list list \<Rightarrow> u8 list" where
  "encode_name ls = concat (map (\<lambda>l. of_nat (length l) # l) ls) @ [0]"

definition query_header :: "u8 list \<Rightarrow> bool" where
  "query_header h \<longleftrightarrow>
     length h = header_len \<and> \<not> is_response (u16_from_be_bytes (h ! 2) (h ! 3)) \<and>
     u16_from_be_bytes (h ! 4) (h ! 5) \<noteq> 0"

lemma small_not_pointer:
  assumes "n \<le> 63"
  shows "\<not> is_pointer (of_nat n)"
proof -
  have "list_all (\<lambda>n. \<not> is_pointer (of_nat n)) [0..<64]" by code_simp
  with assms show ?thesis by (simp add: list_all_iff)
qed

lemma parse_encoded:
  "list_all label_ok ls \<Longrightarrow>
   parse_labels labels (encode_name ls @ rest) =
     Some (if labels = [] \<and> ls = [] then ''.'' else join ''.'' (labels @ map (map byte_char) ls),
       qtype_of rest)"
proof (induction ls arbitrary: labels)
  case Nil
  then show ?case by (simp add: encode_name_def)
next
  case (Cons l ls)
  then have l: "l \<noteq> []" "length l \<le> 63" "valid_utf8 (map byte_char l)"
    by (simp_all add: label_ok_def label_max_len_def)
  have len: "unat (of_nat (length l) :: u8) = length l" and "(of_nat (length l) :: u8) \<noteq> 0"
    using l(1,2) by (simp_all add: unat_of_nat take_bit_nat_eq_self_iff word_unat_eq_iff)
  moreover have "encode_name (l # ls) @ rest = of_nat (length l) # l @ encode_name ls @ rest"
    by (simp add: encode_name_def)
  moreover have "from_utf8_lossy l = map byte_char l"
    using l(3) by (simp add: from_utf8_lossy_def utf8_lossy_valid)
  ultimately show ?case
    using Cons.IH [of "labels @ [map byte_char l]"] Cons.prems small_not_pointer [OF l(2)] l(2)
    by (simp add: label_max_len_def)
qed

lemma parse_question_encoded:
  assumes "query_header h" and "list_all label_ok ls" and "ls \<noteq> []"
  shows "parse_question (h @ encode_name ls @ rest) =
    Some (join ''.'' (map (map byte_char) ls), qtype_of rest)"
  using assms(1,3) parse_encoded [OF assms(2), of "[]" rest]
  by (simp add: query_header_def parse_question_def nth_append header_len_def)

text \<open>
  C38: the question of a query, encoded into labels of 1 to 63 bytes of UTF-8, is read back as
  the labels joined by dots, with the type in the two bytes after it, whatever follows.
\<close>

theorem dns_question_roundtrip:
  assumes "query_header h" and "list_all label_ok ls" and "ls \<noteq> []"
  shows "parse_question (h @ encode_name ls @ rest) =
    Some (join ''.'' (map (map byte_char) ls), qtype_of rest)"
  using assms by (rule parse_question_encoded)

theorem dns_question_roundtrip_witness:
  "parse_question ([0xAB, 0xCD, 1, 0, 0, 1, 0, 0, 0, 0, 0, 0] @
     encode_name [[0x61, 0x62], [0x63]] @ [0, 28, 0, 1]) =
   Some (join ''.'' (map (map byte_char) [[0x61, 0x62], [0x63]]), qtype_of [0, 28, 0, 1])"
  by (rule dns_question_roundtrip) code_simp+

text \<open>A pointer in the name, or a response, is refused.\<close>

lemma pointer_refused: "is_pointer n \<Longrightarrow> parse_labels labels (n # rest) = None"
  by (auto simp: is_pointer_def)

lemma response_refused:
  "is_response (u16_from_be_bytes (p ! 2) (p ! 3)) \<Longrightarrow> parse_question p = None"
  by (simp add: parse_question_def)

end
