(* ===== verification/Process_Cache.thy ===== *)
theory Process_Cache
  imports Text
begin

text \<open>
  \<open>src/state/process.rs\<close>: process metadata under the compound key (pid, creation time), an index
  from a pid to the creation time it was last added with, and a graveyard that keeps
  dead processes for a minute. Every operation takes the second it reads from the clock
  and whether it wins the compare-exchange that rate-limits the graveyard clean-up (a concurrent
  caller may win it instead). The locks make each operation of the model one critical section.
\<close>

section \<open>State\<close>

record process_metadata =
  pm_image_name :: string
  pm_command_line :: "string option"
  pm_user :: "string option"
  pm_creation_time :: u64
  pm_parent_pid :: "u32 option"
  pm_parent_image :: "string option"
  pm_parent_command_line :: "string option"
  pm_original_filename :: "string option"
  pm_product :: "string option"
  pm_description :: "string option"
  pm_current_directory :: "string option"
  pm_integrity_level :: "string option"
  pm_logon_id :: "string option"
  pm_logon_guid :: "string option"

record graveyard_entry =
  ge_metadata :: process_metadata
  ge_death_time :: u64

record process_cache =
  pr_cache :: "(u32 \<times> u64, process_metadata) hmap"
  pr_pid_index :: "(u32, u64) hmap"
  pr_graveyard :: "(u32, graveyard_entry) hmap"
  pr_last_graveyard_cleanup :: u64

definition graveyard_ttl_secs :: u64 where
  "graveyard_ttl_secs = 60"

definition graveyard_cleanup_interval_secs :: u64 where
  "graveyard_cleanup_interval_secs = 10"

definition process_cache_new :: process_cache where
  "process_cache_new = \<lparr>pr_cache = [], pr_pid_index = [], pr_graveyard = [],
     pr_last_graveyard_cleanup = 0\<rparr>"

section \<open>Operations\<close>

definition cleanup_graveyard_if_needed :: "u64 \<Rightarrow> bool \<Rightarrow> process_cache \<Rightarrow> process_cache" where
  "cleanup_graveyard_if_needed now won c =
     (if sat_sub now (pr_last_graveyard_cleanup c) < graveyard_cleanup_interval_secs then c
      else if \<not> won then c
      else c\<lparr>pr_last_graveyard_cleanup := now,
             pr_graveyard := hm_retain
               (\<lambda>_ entry. sat_sub now (ge_death_time entry) \<le> graveyard_ttl_secs)
               (pr_graveyard c)\<rparr>)"

text \<open>\<open>add\<close>: the caller's fields become the metadata; its creation time is the key's.\<close>

definition process_add ::
  "u64 \<Rightarrow> bool \<Rightarrow> u32 \<Rightarrow> u64 \<Rightarrow> string \<Rightarrow> string option \<Rightarrow> string option \<Rightarrow> u32 option
   \<Rightarrow> string option \<Rightarrow> string option \<Rightarrow> string option \<Rightarrow> string option \<Rightarrow> string option
   \<Rightarrow> string option \<Rightarrow> string option \<Rightarrow> string option \<Rightarrow> string option
   \<Rightarrow> process_cache \<Rightarrow> process_cache" where
  "process_add now won pid creation_time img cmd usr parent_pid parent_image
     parent_command_line original_filename product description current_directory
     integrity_level logon_id logon_guid c =
     cleanup_graveyard_if_needed now won
       (c\<lparr>pr_cache := hm_insert (pid, creation_time)
              \<lparr>pm_image_name = img, pm_command_line = cmd, pm_user = usr,
               pm_creation_time = creation_time, pm_parent_pid = parent_pid,
               pm_parent_image = parent_image, pm_parent_command_line = parent_command_line,
               pm_original_filename = original_filename, pm_product = product,
               pm_description = description, pm_current_directory = current_directory,
               pm_integrity_level = integrity_level, pm_logon_id = logon_id,
               pm_logon_guid = logon_guid\<rparr> (pr_cache c),
          pr_pid_index := hm_insert pid creation_time (pr_pid_index c),
          pr_graveyard := hm_remove pid (pr_graveyard c)\<rparr>)"

definition process_remove :: "u64 \<Rightarrow> bool \<Rightarrow> u32 \<Rightarrow> u64 \<Rightarrow> process_cache \<Rightarrow> process_cache" where
  "process_remove now won pid creation_time c =
     (let removed = hm_get (pr_cache c) (pid, creation_time);
          index' = (case hm_get (pr_pid_index c) pid of
              None \<Rightarrow> pr_pid_index c
            | Some indexed_time \<Rightarrow>
                if indexed_time = creation_time then hm_remove pid (pr_pid_index c)
                else pr_pid_index c);
          c' = c\<lparr>pr_cache := hm_remove (pid, creation_time) (pr_cache c),
                 pr_pid_index := index'\<rparr>
      in case removed of
           None \<Rightarrow> c'
         | Some meta \<Rightarrow>
             cleanup_graveyard_if_needed now won
               (c'\<lparr>pr_graveyard := hm_insert pid
                     \<lparr>ge_metadata = meta, ge_death_time = now\<rparr> (pr_graveyard c')\<rparr>))"

definition live_metadata :: "process_cache \<Rightarrow> u32 \<Rightarrow> process_metadata option" where
  "live_metadata c pid =
     (case hm_get (pr_pid_index c) pid of
        None \<Rightarrow> None
      | Some creation_time \<Rightarrow> hm_get (pr_cache c) (pid, creation_time))"

definition buried_metadata :: "u64 \<Rightarrow> process_cache \<Rightarrow> u32 \<Rightarrow> process_metadata option" where
  "buried_metadata now c pid =
     (case hm_get (pr_graveyard c) pid of
        None \<Rightarrow> None
      | Some entry \<Rightarrow>
          if graveyard_ttl_secs < sat_sub now (ge_death_time entry) then None
          else Some (ge_metadata entry))"

definition process_get_metadata ::
  "u64 \<Rightarrow> bool \<Rightarrow> u32 \<Rightarrow> process_cache \<Rightarrow> process_cache \<times> process_metadata option" where
  "process_get_metadata now won pid c =
     (case live_metadata c pid of
        Some meta \<Rightarrow> (c, Some meta)
      | None \<Rightarrow>
          let c' = cleanup_graveyard_if_needed now won c
          in (c', buried_metadata now c' pid))"

definition process_get_image ::
  "u64 \<Rightarrow> bool \<Rightarrow> u32 \<Rightarrow> process_cache \<Rightarrow> process_cache \<times> string option" where
  "process_get_image now won pid c =
     (case live_metadata c pid of
        Some meta \<Rightarrow> (c, Some (pm_image_name meta))
      | None \<Rightarrow>
          let c' = cleanup_graveyard_if_needed now won c
          in (c', map_option pm_image_name (buried_metadata now c' pid)))"

definition process_get_metadata_by_key ::
  "u64 \<Rightarrow> bool \<Rightarrow> u32 \<Rightarrow> u64 \<Rightarrow> process_cache \<Rightarrow> process_cache \<times> process_metadata option" where
  "process_get_metadata_by_key now won pid creation_time c =
     (case hm_get (pr_cache c) (pid, creation_time) of
        Some meta \<Rightarrow> (c, Some meta)
      | None \<Rightarrow>
          let c' = cleanup_graveyard_if_needed now won c
          in (c', case hm_get (pr_graveyard c') pid of
                    None \<Rightarrow> None
                  | Some entry \<Rightarrow>
                      if pm_creation_time (ge_metadata entry) \<noteq> creation_time then None
                      else if graveyard_ttl_secs < sat_sub now (ge_death_time entry) then None
                      else Some (ge_metadata entry)))"

definition process_count :: "process_cache \<Rightarrow> nat" where
  "process_count c = length (pr_cache c)"

definition process_get_latest_creation_time :: "u32 \<Rightarrow> process_cache \<Rightarrow> u64 option" where
  "process_get_latest_creation_time pid c = hm_get (pr_pid_index c) pid"

text \<open>The operations as events of one machine; lookups are events because they may clean up.\<close>

datatype process_op =
  ProcAdd u64 bool u32 u64 process_metadata
| ProcRemove u64 bool u32 u64
| ProcGet u64 bool u32
| ProcGetByKey u64 bool u32 u64

fun process_step :: "process_cache \<Rightarrow> process_op \<Rightarrow> process_cache \<times> process_metadata option" where
  "process_step c (ProcAdd now won pid ct m) =
     (process_add now won pid ct (pm_image_name m) (pm_command_line m) (pm_user m)
        (pm_parent_pid m) (pm_parent_image m) (pm_parent_command_line m)
        (pm_original_filename m) (pm_product m) (pm_description m) (pm_current_directory m)
        (pm_integrity_level m) (pm_logon_id m) (pm_logon_guid m) c, None)"
| "process_step c (ProcRemove now won pid ct) = (process_remove now won pid ct c, None)"
| "process_step c (ProcGet now won pid) = process_get_metadata now won pid c"
| "process_step c (ProcGetByKey now won pid ct) = process_get_metadata_by_key now won pid ct c"

section \<open>Invariant\<close>

text \<open>
  Well-formed maps; the index names a cached entry; every cached or buried entry carries the
  creation time of its key; and a pid that is indexed is not in the graveyard unless an older
  incarnation of it died after it was added.
\<close>

definition process_inv :: "process_cache \<Rightarrow> bool" where
  "process_inv c \<longleftrightarrow>
     hm_wf (pr_cache c) \<and> hm_wf (pr_pid_index c) \<and> hm_wf (pr_graveyard c) \<and>
     (\<forall>pid t. hm_get (pr_pid_index c) pid = Some t \<longrightarrow> hm_get (pr_cache c) (pid, t) \<noteq> None) \<and>
     (\<forall>pid t m. hm_get (pr_cache c) (pid, t) = Some m \<longrightarrow> pm_creation_time m = t)"

lemma cleanup_frame [simp]:
  "pr_cache (cleanup_graveyard_if_needed now won c) = pr_cache c"
  "pr_pid_index (cleanup_graveyard_if_needed now won c) = pr_pid_index c"
  by (simp_all add: cleanup_graveyard_if_needed_def)

lemma cleanup_graveyard_get:
  assumes "hm_wf (pr_graveyard c)"
  shows "hm_get (pr_graveyard (cleanup_graveyard_if_needed now won c)) pid = Some e \<Longrightarrow>
    hm_get (pr_graveyard c) pid = Some e"
  using assms
  by (auto simp: cleanup_graveyard_if_needed_def hm_get_retain split: if_splits option.splits)

lemma cleanup_graveyard_wf:
  "hm_wf (pr_graveyard c) \<Longrightarrow> hm_wf (pr_graveyard (cleanup_graveyard_if_needed now won c))"
  by (simp add: cleanup_graveyard_if_needed_def hm_wf_retain)

text \<open>A clean-up at \<open>now\<close> never changes what the graveyard answers at \<open>now\<close>.\<close>

lemma buried_cleanup [simp]:
  "hm_wf (pr_graveyard c) \<Longrightarrow>
   buried_metadata now (cleanup_graveyard_if_needed now won c) pid = buried_metadata now c pid"
  by (auto simp: buried_metadata_def cleanup_graveyard_if_needed_def hm_get_retain
      split: option.split)

lemma cleanup_inv: "process_inv c \<Longrightarrow> process_inv (cleanup_graveyard_if_needed now won c)"
  by (simp add: process_inv_def cleanup_graveyard_wf)

lemma process_add_inv:
  "process_inv c \<Longrightarrow>
   process_inv (process_add now won pid ct i cm us pp pi pc ofn pd ds cd il li lg c)"
  unfolding process_add_def
  by (rule cleanup_inv) (auto simp: process_inv_def hm.store_laws)

lemma process_remove_inv: "process_inv c \<Longrightarrow> process_inv (process_remove now won pid ct c)"
  by (auto simp: process_remove_def Let_def process_inv_def hm.store_laws cleanup_graveyard_wf
      split: option.split if_splits)

lemma process_lookup_inv:
  "process_inv c \<Longrightarrow> process_inv (fst (process_get_metadata now won pid c))"
  "process_inv c \<Longrightarrow> process_inv (fst (process_get_metadata_by_key now won pid ct c))"
  "process_inv c \<Longrightarrow> process_inv (fst (process_get_image now won pid c))"
  by (simp_all add: process_get_metadata_def process_get_metadata_by_key_def
      process_get_image_def Let_def cleanup_inv split: option.split)

interpretation process: machine process_step process_inv "\<lambda>_. True"
proof
  fix c op
  show "process_inv c \<Longrightarrow> process_inv (fst (process_step c op))"
    by (cases op) (simp_all add: process_add_inv process_remove_inv process_lookup_inv)
qed

lemma process_inv_init: "process_inv process_cache_new"
  by (simp add: process_inv_def process_cache_new_def)

lemma process_run_inv: "process_inv (fst (run process_step process_cache_new ops))"
  by (rule process.run_inv) (simp_all add: process_inv_init list_all_iff)

section \<open>The cache without garbage collection\<close>

text \<open>
  The abstract cache keeps every death for ever and never cleans up; a lookup alone decides by the
  age of the death. Its clock is the time of the last operation.
\<close>

record abs_process_cache =
  ap_cache :: "u32 \<times> u64 \<Rightarrow> process_metadata option"
  ap_index :: "u32 \<Rightarrow> u64 option"
  ap_deaths :: "u32 \<Rightarrow> (u64 \<times> process_metadata) option"
  ap_now :: u64

definition abs_process_init :: abs_process_cache where
  "abs_process_init = \<lparr>ap_cache = (\<lambda>_. None), ap_index = (\<lambda>_. None), ap_deaths = (\<lambda>_. None),
     ap_now = 0\<rparr>"

definition abs_buried ::
  "u64 \<Rightarrow> (u64 \<times> process_metadata) option \<Rightarrow> process_metadata option" where
  "abs_buried now d =
     (case d of None \<Rightarrow> None
      | Some (t, m) \<Rightarrow> if unat now - unat t \<le> unat graveyard_ttl_secs then Some m else None)"

definition abs_live :: "abs_process_cache \<Rightarrow> u32 \<Rightarrow> process_metadata option" where
  "abs_live a pid = (case ap_index a pid of None \<Rightarrow> None | Some t \<Rightarrow> ap_cache a (pid, t))"

fun op_time :: "process_op \<Rightarrow> u64" where
  "op_time (ProcAdd now won pid ct m) = now"
| "op_time (ProcRemove now won pid ct) = now"
| "op_time (ProcGet now won pid) = now"
| "op_time (ProcGetByKey now won pid ct) = now"

fun abs_process_step ::
  "abs_process_cache \<Rightarrow> process_op \<Rightarrow> abs_process_cache \<times> process_metadata option" where
  "abs_process_step a (ProcAdd now won pid ct m) =
     (a\<lparr>ap_cache := (ap_cache a)((pid, ct) \<mapsto> m\<lparr>pm_creation_time := ct\<rparr>),
        ap_index := (ap_index a)(pid \<mapsto> ct), ap_deaths := (ap_deaths a)(pid := None),
        ap_now := now\<rparr>, None)"
| "abs_process_step a (ProcRemove now won pid ct) =
     (a\<lparr>ap_cache := (ap_cache a)((pid, ct) := None),
        ap_index := (if ap_index a pid = Some ct then (ap_index a)(pid := None) else ap_index a),
        ap_deaths := (case ap_cache a (pid, ct) of None \<Rightarrow> ap_deaths a
                      | Some m \<Rightarrow> (ap_deaths a)(pid \<mapsto> (now, m))),
        ap_now := now\<rparr>, None)"
| "abs_process_step a (ProcGet now won pid) =
     (a\<lparr>ap_now := now\<rparr>,
      case abs_live a pid of Some m \<Rightarrow> Some m | None \<Rightarrow> abs_buried now (ap_deaths a pid))"
| "abs_process_step a (ProcGetByKey now won pid ct) =
     (a\<lparr>ap_now := now\<rparr>,
      case ap_cache a (pid, ct) of Some m \<Rightarrow> Some m
      | None \<Rightarrow> (case ap_deaths a pid of None \<Rightarrow> None
          | Some (t, m) \<Rightarrow> if pm_creation_time m = ct then abs_buried now (Some (t, m)) else None))"

text \<open>
  A concrete graveyard entry is the recorded death; a death that is missing from the concrete
  graveyard is too old to be reported at the clock of the abstract state or later.
\<close>

fun grave_at :: "graveyard_entry option \<Rightarrow> (u64 \<times> process_metadata) option \<Rightarrow> u64 \<Rightarrow> bool" where
  "grave_at (Some e) d now \<longleftrightarrow> d = Some (ge_death_time e, ge_metadata e)"
| "grave_at None d now \<longleftrightarrow> abs_buried now d = None"

definition grave_rel :: "(u32, graveyard_entry) hmap \<Rightarrow> (u32 \<Rightarrow> (u64 \<times> process_metadata) option)
    \<Rightarrow> u64 \<Rightarrow> bool" where
  "grave_rel g deaths now \<longleftrightarrow> hm_wf g \<and> (\<forall>pid. grave_at (hm_get g pid) (deaths pid) now)"

definition process_rel :: "process_cache \<Rightarrow> abs_process_cache \<Rightarrow> bool" where
  "process_rel c a \<longleftrightarrow>
     hm_get (pr_cache c) = ap_cache a \<and> hm_get (pr_pid_index c) = ap_index a \<and>
     grave_rel (pr_graveyard c) (ap_deaths a) (ap_now a)"

lemma abs_buried_mono:
  "abs_buried now d = None \<Longrightarrow> now \<le> now' \<Longrightarrow> abs_buried now' d = None"
  by (auto simp: abs_buried_def word_le_nat_alt split: option.splits if_splits)

lemma grave_rel_mono:
  assumes "grave_rel g d now" and "now \<le> now'"
  shows "grave_rel g d now'"
proof -
  have "grave_at x y now \<Longrightarrow> grave_at x y now'" for x y
    using assms(2) by (cases x) (auto intro: abs_buried_mono)
  with assms(1) show ?thesis by (simp add: grave_rel_def)
qed

lemma grave_rel_cleanup:
  assumes "grave_rel (pr_graveyard c) d now"
  shows "grave_rel (pr_graveyard (cleanup_graveyard_if_needed now won c)) d now"
proof -
  have wf: "hm_wf (pr_graveyard c)" using assms by (simp add: grave_rel_def)
  have "grave_at (case x of None \<Rightarrow> None
      | Some e \<Rightarrow> if sat_sub now (ge_death_time e) \<le> graveyard_ttl_secs then Some e else None) y now"
    if "grave_at x y now" for x y
    using that by (cases x) (auto simp: abs_buried_def word_le_nat_alt unat_sat_sub)
  with assms wf show ?thesis
    by (simp add: grave_rel_def cleanup_graveyard_if_needed_def hm_wf_retain hm_get_retain)
qed

lemma grave_rel_put:
  "grave_rel g d now \<Longrightarrow>
   grave_rel (hm_insert pid \<lparr>ge_metadata = m, ge_death_time = t\<rparr> g) (d(pid \<mapsto> (t, m))) now"
  by (simp add: grave_rel_def hm.store_laws)

lemma grave_rel_del: "grave_rel g d now \<Longrightarrow> grave_rel (hm_remove pid g) (d(pid := None)) now"
  by (simp add: grave_rel_def hm.store_laws abs_buried_def)

lemma buried_rel:
  assumes "grave_rel (pr_graveyard c) d now"
  shows "buried_metadata now c pid = abs_buried now (d pid)"
proof -
  from assms have "grave_at (hm_get (pr_graveyard c) pid) (d pid) now" by (simp add: grave_rel_def)
  then show ?thesis
    by (cases "hm_get (pr_graveyard c) pid")
      (simp_all add: buried_metadata_def abs_buried_def word_less_nat_alt unat_sat_sub not_less)
qed

lemma process_rel_clock: "process_rel c a \<Longrightarrow> ap_now a \<le> t \<Longrightarrow> process_rel c (a\<lparr>ap_now := t\<rparr>)"
  by (auto simp: process_rel_def intro: grave_rel_mono)

lemma process_rel_cleanup:
  "process_rel c (a\<lparr>ap_now := now\<rparr>) \<Longrightarrow>
   process_rel (cleanup_graveyard_if_needed now won c) (a\<lparr>ap_now := now\<rparr>)"
  by (simp add: process_rel_def grave_rel_cleanup)

lemma live_rel: "process_rel c a \<Longrightarrow> live_metadata c pid = abs_live a pid"
  by (auto simp: process_rel_def live_metadata_def abs_live_def split: option.split)

lemma key_lookup_rel:
  assumes "grave_rel (pr_graveyard c) d now"
  shows "(case hm_get (pr_graveyard c) pid of None \<Rightarrow> None
      | Some e \<Rightarrow> if pm_creation_time (ge_metadata e) \<noteq> ct then None
          else if graveyard_ttl_secs < sat_sub now (ge_death_time e) then None
          else Some (ge_metadata e)) =
    (case d pid of None \<Rightarrow> None
      | Some (t, m) \<Rightarrow> if pm_creation_time m = ct then abs_buried now (Some (t, m)) else None)"
proof -
  from assms have "grave_at (hm_get (pr_graveyard c) pid) (d pid) now" by (simp add: grave_rel_def)
  then show ?thesis
    by (cases "hm_get (pr_graveyard c) pid"; cases "d pid")
      (auto simp: abs_buried_def word_less_nat_alt unat_sat_sub not_less)
qed

text \<open>The clock of the events is monotone.\<close>

definition clock_ok :: "abs_process_cache \<Rightarrow> process_op \<Rightarrow> bool" where
  "clock_ok a op \<longleftrightarrow> ap_now a \<le> op_time op"

lemma process_rel_add:
  assumes "process_rel c a" and "ap_now a \<le> now"
  shows "process_rel (fst (process_step c (ProcAdd now won pid ct m)))
    (fst (abs_process_step a (ProcAdd now won pid ct m)))"
proof -
  let ?c = "c\<lparr>pr_cache := hm_insert (pid, ct) (m\<lparr>pm_creation_time := ct\<rparr>) (pr_cache c),
      pr_pid_index := hm_insert pid ct (pr_pid_index c),
      pr_graveyard := hm_remove pid (pr_graveyard c)\<rparr>"
  have "fst (process_step c (ProcAdd now won pid ct m)) = cleanup_graveyard_if_needed now won ?c"
    by (cases m) (simp add: process_add_def)
  moreover have "process_rel ?c (fst (abs_process_step a (ProcAdd now won pid ct m)))"
    using process_rel_clock [OF assms]
    by (auto simp: process_rel_def hm.get_put grave_rel_del fun_eq_iff)
  ultimately show ?thesis using process_rel_cleanup [where a = "fst (abs_process_step a
      (ProcAdd now won pid ct m))" and now = now] by simp
qed

lemma process_rel_remove:
  assumes "process_rel c a" and "ap_now a \<le> now"
  shows "process_rel (fst (process_step c (ProcRemove now won pid ct)))
    (fst (abs_process_step a (ProcRemove now won pid ct)))"
proof (cases "hm_get (pr_cache c) (pid, ct)")
  case None
  with process_rel_clock [OF assms] show ?thesis
    by (auto simp: process_remove_def Let_def process_rel_def hm.get_del fun_eq_iff
        split: option.split)
next
  case (Some m)
  let ?a = "fst (abs_process_step a (ProcRemove now won pid ct))"
  let ?c = "c\<lparr>pr_cache := hm_remove (pid, ct) (pr_cache c),
      pr_pid_index := (case hm_get (pr_pid_index c) pid of None \<Rightarrow> pr_pid_index c
        | Some t \<Rightarrow> if t = ct then hm_remove pid (pr_pid_index c) else pr_pid_index c),
      pr_graveyard := hm_insert pid \<lparr>ge_metadata = m, ge_death_time = now\<rparr> (pr_graveyard c)\<rparr>"
  have am: "ap_cache a (pid, ct) = Some m" using assms(1) Some by (simp add: process_rel_def)
  have "process_rel ?c ?a"
    using process_rel_clock [OF assms] am
    by (auto simp: process_rel_def hm.get_del grave_rel_put fun_eq_iff split: option.split)
  then show ?thesis
    using process_rel_cleanup [where a = ?a and now = now] Some am
    by (simp add: process_remove_def Let_def)
qed

interpretation process_gc: simulation process_step abs_process_step process_rel clock_ok
proof
  fix c a op
  assume r: "process_rel c a" and "clock_ok a op"
  then have t: "ap_now a \<le> op_time op" by (simp add: clock_ok_def)
  from process_rel_clock [OF r t] have r': "process_rel c (a\<lparr>ap_now := op_time op\<rparr>)" .
  then have g: "grave_rel (pr_graveyard c) (ap_deaths a) (op_time op)" by (simp add: process_rel_def)
  show "process_rel (fst (process_step c op)) (fst (abs_process_step a op))"
    using r t r' process_rel_add process_rel_remove
    by (cases op) (auto simp: process_get_metadata_def process_get_metadata_by_key_def Let_def
        process_rel_cleanup split: option.split)
  show "snd (process_step c op) = snd (abs_process_step a op)"
    using g grave_rel_cleanup [OF g] live_rel [OF r] r
    by (cases op) (auto simp: process_get_metadata_def process_get_metadata_by_key_def Let_def
        process_rel_def buried_rel key_lookup_rel split: option.split)
qed

lemma process_rel_init: "process_rel process_cache_new abs_process_init"
  by (simp add: process_rel_def process_cache_new_def abs_process_init_def grave_rel_def
      abs_buried_def fun_eq_iff)

lemma abs_clock: "ap_now (fst (abs_process_step a op)) = op_time op"
  by (cases op) simp_all

lemma sorted_clock_enabled:
  "sorted (map op_time ops) \<Longrightarrow> (\<forall>op \<in> set ops. ap_now a \<le> op_time op) \<Longrightarrow>
   enabled abs_process_step clock_ok a ops"
  by (induction ops arbitrary: a) (simp_all add: clock_ok_def abs_clock)

section \<open>Properties\<close>

lemma get_by_key_time:
  assumes "process_inv c"
    and "snd (process_get_metadata_by_key now won pid ct c) = Some m"
  shows "pm_creation_time m = ct"
  using assms
  by (auto simp: process_get_metadata_by_key_def process_inv_def Let_def split: option.splits if_splits)


definition sample_process :: "string \<Rightarrow> process_metadata" where
  "sample_process img = \<lparr>pm_image_name = img, pm_command_line = None, pm_user = None,
     pm_creation_time = 0, pm_parent_pid = None, pm_parent_image = None,
     pm_parent_command_line = None, pm_original_filename = None, pm_product = None,
     pm_description = None, pm_current_directory = None, pm_integrity_level = None,
     pm_logon_id = None, pm_logon_guid = None\<rparr>"

text \<open>A death at second 20 is still reported at 70 and no longer at 81.\<close>

definition sample_ops :: "process_op list" where
  "sample_ops = [ProcAdd 5 True 9 100 (sample_process ''a''), ProcRemove 20 True 9 100,
     ProcGet 70 True 9, ProcGet 81 True 9]"


text \<open>
  A lookup by (pid, creation time) never answers for another incarnation of the pid: after
  any history, what it returns was created at the requested time, also when it comes from the
  graveyard.
\<close>

lemma process_lookup_exact_incarnation:
  assumes "snd (process_get_metadata_by_key now won pid ct
      (fst (run process_step process_cache_new ops))) = Some m"
  shows "pm_creation_time m = ct"
  by (rule get_by_key_time [OF process_run_inv assms])


text \<open>
  The pid index never dangles: after any history, an indexed pid has a cached
  process of that creation time, so a lookup by pid falls back to the graveyard only for a pid that is
  not indexed at all.
\<close>

lemma process_index_names_live:
  "process_get_latest_creation_time pid (fst (run process_step process_cache_new ops)) = Some t
   \<Longrightarrow> \<exists>m. hm_get (pr_cache (fst (run process_step process_cache_new ops))) (pid, t) = Some m
         \<and> pm_creation_time m = t"
  using process_run_inv [of ops]
  by (fastforce simp: process_inv_def process_get_latest_creation_time_def)


text \<open>
  What the pid index holds is the creation time of the last \<open>add\<close>, not the greatest one:
  registering an older incarnation after a newer one makes lookups by pid answer for
  the older one, although the newer one is still cached.
\<close>

lemma process_index_follows_last_add:
  "let c = fst (run process_step process_cache_new
       [ProcAdd 5 True 9 200 (sample_process ''new''), ProcAdd 6 True 9 100 (sample_process ''old'')])
   in process_get_latest_creation_time 9 c = Some 100 \<and>
      map_option pm_image_name (snd (process_get_metadata 7 True 9 c)) = Some ''old'' \<and>
      map_option pm_image_name (hm_get (pr_cache c) (9, 200)) = Some ''new''"
  by code_simp

end
