(* ===== verification/Eviction.thy ===== *)
theory Eviction
  imports Text
begin

text \<open>
  The size cap shared by the caches of \<open>src/state/\<close> and \<open>src/ioc/hash.rs\<close>: insert, and when the
  map has grown past its cap, trim it. Two trims occur in the code: \<open>drop_extra\<close> removes the first
  surplus keys of one traversal, \<open>trim_oldest\<close> first retains the entries whose time
  stamp is at least the median of all stamps and then drops what is still surplus. The locale
  \<open>evicting\<close> is what the caches rely on; both trims are shown to provide it for any
  iteration order.
\<close>

section \<open>The two trims and the capped insertion\<close>

definition drop_extra ::
  "(('k, 'v) hmap \<Rightarrow> 'k list) \<Rightarrow> nat \<Rightarrow> ('k, 'v) hmap \<Rightarrow> ('k, 'v) hmap" where
  "drop_extra it cap m =
     (let extra = length m - cap in hm_remove_all (take extra (it m)) m)"

definition trim_oldest ::
  "('v \<Rightarrow> u64) \<Rightarrow> (('k, 'v) hmap \<Rightarrow> 'k list) \<Rightarrow> nat \<Rightarrow> ('k, 'v) hmap \<Rightarrow> ('k, 'v) hmap" where
  "trim_oldest stamp it cap m =
     (if length m \<le> cap then m
      else
        let stamps = sort (map (\<lambda>(k, v). stamp v) m);
            cutoff = stamps ! (length m div 2);
            kept = hm_retain (\<lambda>k v. cutoff \<le> stamp v) m
        in if cap < length kept then drop_extra it cap kept else kept)"

definition insert_capped ::
  "(nat \<Rightarrow> ('k, 'v) hmap \<Rightarrow> ('k, 'v) hmap) \<Rightarrow> nat \<Rightarrow> 'k \<Rightarrow> 'v \<Rightarrow> ('k, 'v) hmap \<Rightarrow> ('k, 'v) hmap"
where
  "insert_capped trim cap k v m =
     (let m' = hm_insert k v m in if cap < length m' then trim cap m' else m')"

section \<open>What a cache relies on\<close>

locale evicting =
  fixes trim :: "nat \<Rightarrow> ('k, 'v) hmap \<Rightarrow> ('k, 'v) hmap"
  assumes trim_length: "hm_wf m \<Longrightarrow> length (trim cap m) \<le> cap"
    and trim_wf: "hm_wf m \<Longrightarrow> hm_wf (trim cap m)"
    and trim_get: "hm_wf m \<Longrightarrow> hm_get (trim cap m) k = Some v \<Longrightarrow> hm_get m k = Some v"
begin

lemma insert_capped_length: "hm_wf m \<Longrightarrow> length (insert_capped trim cap k v m) \<le> cap"
  using trim_length [of "hm_insert k v m" cap] hm.wf_put [of m k v]
  by (auto simp: insert_capped_def Let_def)

lemma insert_capped_wf: "hm_wf m \<Longrightarrow> hm_wf (insert_capped trim cap k v m)"
  by (simp add: insert_capped_def Let_def trim_wf hm.wf_put)

lemma insert_capped_get:
  assumes "hm_wf m" and "hm_get (insert_capped trim cap k v m) k' = Some v'"
  shows "if k' = k then v' = v else hm_get m k' = Some v'"
proof -
  have "hm_wf (hm_insert k v m)" by (rule hm.wf_put) (rule assms(1))
  then have "hm_get (hm_insert k v m) k' = Some v'"
    using assms(2) trim_get by (auto simp: insert_capped_def Let_def split: if_splits)
  then show ?thesis by (simp add: hm.get_put split: if_splits)
qed

lemma insert_capped_room:
  assumes "k \<in> fst ` set m \<and> length m \<le> cap \<or> length m < cap"
  shows "insert_capped trim cap k v m = hm_insert k v m"
  using assms by (auto simp: insert_capped_def Let_def hm_insert_length)

end

section \<open>Dropping surplus keys\<close>

context hash_iter
begin

lemma drop_extra_length: "hm_wf m \<Longrightarrow> length (drop_extra it cap m) = min cap (length m)"
  using length_remove_taken [of m "length m - cap"] by (simp add: drop_extra_def)

lemma drop_extra_get: "hm_get (drop_extra it cap m) k = Some v \<Longrightarrow> hm_get m k = Some v"
  by (simp add: drop_extra_def hm_get_remove_all split: if_splits)

lemma drop_extra_wf: "hm_wf m \<Longrightarrow> hm_wf (drop_extra it cap m)"
  by (simp add: drop_extra_def hm_remove_all_wf)

lemma drop_extra_evicting: "evicting (drop_extra it)"
  by unfold_locales (auto simp: drop_extra_length drop_extra_wf dest: drop_extra_get)

end

sublocale hash_iter \<subseteq> dropping: evicting "drop_extra it"
  by (rule drop_extra_evicting)

section \<open>Trimming by the median time stamp\<close>

lemma median_retained:
  fixes stamp :: "'v \<Rightarrow> u64" and m :: "('k \<times> 'v) list"
  assumes "m \<noteq> []"
  defines "cutoff \<equiv> sort (map (\<lambda>(k, v). stamp v) m) ! (length m div 2)"
  shows "length m - length m div 2 \<le> length (hm_retain (\<lambda>k v. cutoff \<le> stamp v) m)"
proof -
  let ?stamps = "map (\<lambda>(k, v). stamp v) m"
  have "length m - length m div 2 \<le> length (filter (\<lambda>x. cutoff \<le> x) (sort ?stamps))"
    using sorted_nth_filter_ge [of "sort ?stamps" "length m div 2"] assms(1)
    by (simp add: cutoff_def)
  also have "\<dots> = length (filter (\<lambda>x. cutoff \<le> x) ?stamps)"
    by (simp only: filter_sort length_sort)
  also have "\<dots> = length (hm_retain (\<lambda>k v. cutoff \<le> stamp v) m)"
    by (simp add: hm_retain_def filter_map comp_def case_prod_unfold)
  finally show ?thesis .
qed

locale stamped_iter = hash_iter it
  for it :: "('k, 'v) hmap \<Rightarrow> 'k list" +
  fixes stamp :: "'v \<Rightarrow> u64"
begin

lemma trim_oldest_length:
  assumes "hm_wf m"
  shows "length (trim_oldest stamp it cap m) \<le> cap"
  using drop_extra_length [OF hm_wf_retain [OF assms]]
  by (auto simp: trim_oldest_def Let_def)

lemma trim_oldest_wf: "hm_wf m \<Longrightarrow> hm_wf (trim_oldest stamp it cap m)"
  by (simp add: trim_oldest_def Let_def drop_extra_wf hm_wf_retain)

lemma trim_oldest_get:
  "hm_wf m \<Longrightarrow> hm_get (trim_oldest stamp it cap m) k = Some v \<Longrightarrow> hm_get m k = Some v"
  by (auto simp: trim_oldest_def Let_def hm_get_retain
      dest!: drop_extra_get split: if_splits option.splits)

text \<open>At least half of the entries survive the first pass, so a trim never empties a cache.\<close>

lemma trim_oldest_keeps:
  assumes "hm_wf m"
  shows "min cap (length m - length m div 2) \<le> length (trim_oldest stamp it cap m)"
proof (cases "length m \<le> cap")
  case True
  then show ?thesis by (simp add: trim_oldest_def)
next
  case False
  then have "m \<noteq> []" by auto
  from median_retained [OF this, of stamp] False show ?thesis
    by (auto simp: trim_oldest_def Let_def drop_extra_length [OF hm_wf_retain [OF assms]])
qed

text \<open>
  When the trim leaves spare room, only the first pass removed entries, so every evicted entry
  is strictly older than every entry that is kept.
\<close>

lemma trim_oldest_order:
  assumes wf: "hm_wf m" and room: "length (trim_oldest stamp it cap m) < cap"
    and old: "hm_get m k = Some v" "hm_get (trim_oldest stamp it cap m) k = None"
    and new: "hm_get (trim_oldest stamp it cap m) k' = Some v'"
  shows "stamp v < stamp v'"
proof -
  let ?cut = "sort (map (\<lambda>(k, v). stamp v) m) ! (length m div 2)"
  let ?kept = "hm_retain (\<lambda>k v. ?cut \<le> stamp v) m"
  have full: "\<not> length m \<le> cap" using old by (auto simp: trim_oldest_def)
  then have "\<not> cap < length ?kept"
    using room drop_extra_length [OF hm_wf_retain [OF wf]]
    by (auto simp: trim_oldest_def Let_def split: if_splits)
  with full have eq: "trim_oldest stamp it cap m = ?kept"
    by (simp add: trim_oldest_def Let_def)
  from old eq have "stamp v < ?cut" by (simp add: hm_get_retain [OF wf] split: if_splits)
  also from new eq have "?cut \<le> stamp v'"
    by (simp add: hm_get_retain [OF wf] split: if_splits option.splits)
  finally show ?thesis .
qed

lemma trim_oldest_evicting: "evicting (trim_oldest stamp it)"
  by unfold_locales (auto simp: trim_oldest_length trim_oldest_wf dest: trim_oldest_get)

end

sublocale stamped_iter \<subseteq> trimming: evicting "trim_oldest stamp it"
  by (rule trim_oldest_evicting)

end
