(* ===== verification/Dns_Cache.thy ===== *)
theory Dns_Cache
  imports Eviction Addr
begin

text \<open>
  \<open>src/state/dns.rs\<close>: the IP-to-hostname cache. \<open>update\<close> and \<open>lookup\<close> take the
  wall-clock second they read (\<open>now_secs()\<close>); \<open>update\<close> also takes the iteration order of the
  hash map, which only the trim depends on. The cache is compared with the abstract promise
  "the last update of this address, while it is fresh".
\<close>

section \<open>The cache\<close>

record dns_entry =
  de_hostname :: string
  de_timestamp :: u64

record dns_cache =
  dc_cache :: "(ip_addr, dns_entry) hmap"
  dc_max_entries :: nat
  dc_ttl_secs :: u64

definition dns_with_limits :: "nat \<Rightarrow> u64 \<Rightarrow> dns_cache" where
  "dns_with_limits cap ttl = \<lparr>dc_cache = [], dc_max_entries = cap, dc_ttl_secs = ttl\<rparr>"

definition dns_new :: dns_cache where
  "dns_new = dns_with_limits 10000 (15 * 60)"

type_synonym dns_iter = "(ip_addr, dns_entry) hmap \<Rightarrow> ip_addr list"

definition trim_dns_cache ::
  "dns_iter \<Rightarrow> nat \<Rightarrow> (ip_addr, dns_entry) hmap \<Rightarrow> (ip_addr, dns_entry) hmap" where
  "trim_dns_cache it max_entries m = trim_oldest de_timestamp it max_entries m"

definition dns_update :: "dns_iter \<Rightarrow> u64 \<Rightarrow> ip_addr \<Rightarrow> string \<Rightarrow> dns_cache \<Rightarrow> dns_cache" where
  "dns_update it now ip hostname c =
     c\<lparr>dc_cache := insert_capped (trim_dns_cache it) (dc_max_entries c) ip
         \<lparr>de_hostname = hostname, de_timestamp = now\<rparr> (dc_cache c)\<rparr>"

definition dns_lookup :: "u64 \<Rightarrow> ip_addr \<Rightarrow> dns_cache \<Rightarrow> string option" where
  "dns_lookup now ip c =
     (case hm_get (dc_cache c) ip of
        None \<Rightarrow> None
      | Some entry \<Rightarrow>
          if dc_ttl_secs c \<le> sat_sub now (de_timestamp entry) then None
          else Some (de_hostname entry))"

definition dns_count :: "dns_cache \<Rightarrow> nat" where
  "dns_count c = length (dc_cache c)"

datatype dns_op = DnsUpdate dns_iter u64 ip_addr string | DnsLookup u64 ip_addr

fun dns_step :: "dns_cache \<Rightarrow> dns_op \<Rightarrow> dns_cache \<times> string option" where
  "dns_step c (DnsUpdate it now ip hostname) = (dns_update it now ip hostname c, None)"
| "dns_step c (DnsLookup now ip) = (c, dns_lookup now ip c)"

section \<open>The abstract promise\<close>

fun last_update :: "ip_addr \<Rightarrow> dns_op list \<Rightarrow> (u64 \<times> string) option" where
  "last_update ip [] = None"
| "last_update ip (DnsUpdate it now ip' h # ops) =
     (case last_update ip ops of
        Some r \<Rightarrow> Some r
      | None \<Rightarrow> if ip' = ip then Some (now, h) else None)"
| "last_update ip (DnsLookup now ip' # ops) = last_update ip ops"

definition fresh_answer :: "u64 \<Rightarrow> u64 \<Rightarrow> (u64 \<times> string) option \<Rightarrow> string option" where
  "fresh_answer ttl now u =
     (case u of None \<Rightarrow> None
      | Some (t, h) \<Rightarrow> if unat now - unat t < unat ttl then Some h else None)"

fun updated_ips :: "dns_op list \<Rightarrow> ip_addr list" where
  "updated_ips [] = []"
| "updated_ips (DnsUpdate it now ip h # ops) = List.insert ip (updated_ips ops)"
| "updated_ips (DnsLookup now ip # ops) = updated_ips ops"

section \<open>Invariant\<close>

fun dns_ok :: "dns_op \<Rightarrow> bool" where
  "dns_ok (DnsUpdate it now ip h) \<longleftrightarrow> hash_iter it"
| "dns_ok (DnsLookup now ip) \<longleftrightarrow> True"

definition dns_inv :: "nat \<Rightarrow> u64 \<Rightarrow> dns_cache \<Rightarrow> bool" where
  "dns_inv cap ttl c \<longleftrightarrow>
     hm_wf (dc_cache c) \<and> length (dc_cache c) \<le> cap \<and> dc_max_entries c = cap \<and> dc_ttl_secs c = ttl"

lemma dns_evicting: "hash_iter it \<Longrightarrow> evicting (trim_dns_cache it)"
  unfolding trim_dns_cache_def [abs_def]
  by (rule stamped_iter.trim_oldest_evicting) (rule stamped_iter.intro)

interpretation dns_order: stamped_iter "map fst :: dns_iter" de_timestamp ..

lemma dns_update_inv:
  "dns_inv cap ttl c \<Longrightarrow> hash_iter it \<Longrightarrow> dns_inv cap ttl (dns_update it now ip h c)"
  using evicting.insert_capped_length [OF dns_evicting] evicting.insert_capped_wf [OF dns_evicting]
  by (auto simp: dns_inv_def dns_update_def)

interpretation dns: machine dns_step "dns_inv cap ttl" dns_ok
proof
  fix c op
  show "dns_inv cap ttl c \<Longrightarrow> dns_ok op \<Longrightarrow> dns_inv cap ttl (fst (dns_step c op))"
    by (cases op) (simp_all add: dns_update_inv)
qed

lemma dns_inv_init: "dns_inv cap ttl (dns_with_limits cap ttl)"
  by (simp add: dns_inv_def dns_with_limits_def)

lemma dns_run_inv:
  "list_all dns_ok ops \<Longrightarrow> dns_inv cap ttl (fst (run dns_step (dns_with_limits cap ttl) ops))"
  by (rule dns.run_inv) (rule dns_inv_init)

lemma dns_lookup_fresh:
  "dns_lookup now ip c =
     fresh_answer (dc_ttl_secs c) now
       (map_option (\<lambda>e. (de_timestamp e, de_hostname e)) (hm_get (dc_cache c) ip))"
  by (auto simp: dns_lookup_def fresh_answer_def word_le_nat_alt unat_sat_sub split: option.splits)

text \<open>\<open>last_update\<close> grows at the end of the history like the cache does.\<close>

lemma last_update_append:
  "last_update ip (ops @ ops') =
     (case last_update ip ops' of Some r \<Rightarrow> Some r | None \<Rightarrow> last_update ip ops)"
  by (induction ops rule: last_update.induct) (auto split: option.splits)

lemma set_updated_ips_append [simp]:
  "set (updated_ips (ops @ ops')) = set (updated_ips ops) \<union> set (updated_ips ops')"
  by (induction ops rule: updated_ips.induct) auto

lemma distinct_updated_ips [simp]: "distinct (updated_ips ops)"
  by (induction ops rule: updated_ips.induct) auto

lemma last_update_None: "last_update ip ops = None \<longleftrightarrow> ip \<notin> set (updated_ips ops)"
  by (induction ops rule: updated_ips.induct) (auto split: option.splits)

section \<open>The cache keeps its promise\<close>

abbreviation dns_after :: "nat \<Rightarrow> u64 \<Rightarrow> dns_op list \<Rightarrow> dns_cache" where
  "dns_after cap ttl ops \<equiv> fst (run dns_step (dns_with_limits cap ttl) ops)"

lemma dns_after_snoc: "dns_after cap ttl (ops @ [op]) = fst (dns_step (dns_after cap ttl ops) op)"
  by (simp add: run_append split: prod.split)

lemma dns_entry_last_update:
  "list_all dns_ok ops \<Longrightarrow> hm_get (dc_cache (dns_after cap ttl ops)) ip = Some e \<Longrightarrow>
   last_update ip ops = Some (de_timestamp e, de_hostname e)"
proof (induction ops arbitrary: e rule: rev_induct)
  case Nil
  then show ?case by (simp add: dns_with_limits_def)
next
  case (snoc op ops)
  let ?c = "dns_after cap ttl ops"
  have wf: "hm_wf (dc_cache ?c)" using dns_run_inv snoc.prems(1) by (simp add: dns_inv_def)
  show ?case
  proof (cases op)
    case (DnsUpdate it now ip' h)
    with snoc.prems have it: "hash_iter it" by simp
    have "if ip = ip' then e = \<lparr>de_hostname = h, de_timestamp = now\<rparr>
          else hm_get (dc_cache ?c) ip = Some e"
      using evicting.insert_capped_get [OF dns_evicting [OF it] wf] snoc.prems(2) DnsUpdate
      by (simp add: dns_after_snoc dns_update_def)
    with snoc DnsUpdate show ?thesis by (auto simp: last_update_append split: if_splits)
  next
    case (DnsLookup now ip')
    with snoc show ?thesis by (simp add: dns_after_snoc last_update_append)
  qed
qed

lemma updated_ips_mono: "length (updated_ips ops) \<le> length (updated_ips (ops @ ops'))"
  by (simp only: distinct_card [symmetric] distinct_updated_ips)
    (rule card_mono, simp_all)

lemma dns_entry_complete:
  "list_all dns_ok ops \<Longrightarrow> length (updated_ips ops) \<le> cap \<Longrightarrow>
   fst ` set (dc_cache (dns_after cap ttl ops)) \<subseteq> set (updated_ips ops) \<and>
   map_option (\<lambda>e. (de_timestamp e, de_hostname e)) (hm_get (dc_cache (dns_after cap ttl ops)) ip)
     = last_update ip ops"
proof (induction ops arbitrary: ip rule: rev_induct)
  case Nil
  then show ?case by (simp add: dns_with_limits_def)
next
  case (snoc op ops)
  let ?c = "dns_after cap ttl ops" and ?n = "length (updated_ips (ops @ [op]))"
  have le: "length (updated_ips ops) \<le> cap"
    using updated_ips_mono [of ops "[op]"] snoc.prems(2) by simp
  from snoc.IH [OF _ le] snoc.prems(1)
  have keys: "fst ` set (dc_cache ?c) \<subseteq> set (updated_ips ops)"
    and last: "\<And>ip. map_option (\<lambda>e. (de_timestamp e, de_hostname e)) (hm_get (dc_cache ?c) ip)
        = last_update ip ops" by auto
  have inv: "dns_inv cap ttl ?c" using dns_run_inv snoc.prems(1) by simp
  show ?case
  proof (cases op)
    case (DnsUpdate it now ip' h)
    with snoc.prems have it: "hash_iter it" by simp
    have "card (insert ip' (fst ` set (dc_cache ?c))) \<le> card (set (updated_ips (ops @ [op])))"
      using keys DnsUpdate by (intro card_mono) auto
    also have "\<dots> \<le> cap" using snoc.prems(2) by (simp only: distinct_card [OF distinct_updated_ips])
    finally have "card (insert ip' (fst ` set (dc_cache ?c))) \<le> cap" .
    moreover have "card (fst ` set (dc_cache ?c)) = length (dc_cache ?c)"
      using inv distinct_card [of "map fst (dc_cache ?c)"] by (simp add: dns_inv_def)
    ultimately have "ip' \<in> fst ` set (dc_cache ?c) \<and> length (dc_cache ?c) \<le> cap
        \<or> length (dc_cache ?c) < cap"
      using inv by (cases "ip' \<in> fst ` set (dc_cache ?c)") (auto simp: dns_inv_def)
    then have "insert_capped (trim_dns_cache it) cap ip' \<lparr>de_hostname = h, de_timestamp = now\<rparr>
        (dc_cache ?c) = hm_insert ip' \<lparr>de_hostname = h, de_timestamp = now\<rparr> (dc_cache ?c)"
      by (rule evicting.insert_capped_room [OF dns_evicting [OF it]])
    with inv have "dc_cache (dns_after cap ttl (ops @ [op])) =
        hm_insert ip' \<lparr>de_hostname = h, de_timestamp = now\<rparr> (dc_cache ?c)"
      using DnsUpdate by (simp add: dns_after_snoc dns_update_def dns_inv_def)
    with keys last DnsUpdate show ?thesis
      by (auto simp: last_update_append hm.get_put dom_update)
  next
    case (DnsLookup now ip')
    with keys last show ?thesis by (auto simp: dns_after_snoc last_update_append)
  qed
qed

section \<open>What a lookup returns\<close>

text \<open>Whatever the history of updates and lookups, whatever the hash-map iteration order each
  update saw, a hostname that \<open>lookup\<close> returns is the one the last update of that address
  stored, and that update is less than \<open>ttl_secs\<close> old: the trim never resurrects or mixes up
  entries.\<close>

lemma dns_lookup_sound:
  assumes "list_all dns_ok ops"
    and "dns_lookup now ip (fst (run dns_step (dns_with_limits cap ttl) ops)) = Some h"
  shows "fresh_answer ttl now (last_update ip ops) = Some h"
proof -
  from assms(2) obtain e where e: "hm_get (dc_cache (dns_after cap ttl ops)) ip = Some e"
    by (auto simp: dns_lookup_def split: option.splits)
  with assms dns_entry_last_update [OF assms(1) e] dns_run_inv [OF assms(1), of cap ttl]
  show ?thesis by (simp add: dns_lookup_fresh dns_inv_def)
qed

text \<open>As long as the history names no more distinct addresses than \<open>max_entries\<close>, the
  bounded cache is indistinguishable from the unbounded promise: \<open>lookup\<close> returns exactly the
  last update of the address while it is fresh, and nothing otherwise.\<close>

lemma dns_lookup_exact:
  assumes "list_all dns_ok ops" and "length (updated_ips ops) \<le> cap"
  shows "dns_lookup now ip (fst (run dns_step (dns_with_limits cap ttl) ops)) =
    fresh_answer ttl now (last_update ip ops)"
  using dns_entry_complete [OF assms] dns_run_inv [OF assms(1), of cap ttl]
  by (simp add: dns_lookup_fresh dns_inv_def)

text \<open>Every update trims back to the cap: the number of cached addresses never exceeds
  \<open>max_entries\<close>, for every cap including zero and for every iteration order.\<close>

lemma dns_count_bounded:
  assumes "list_all dns_ok ops"
  shows "dns_count (fst (run dns_step (dns_with_limits cap ttl) ops)) \<le> cap"
  using dns_run_inv [OF assms, of cap ttl] by (simp add: dns_count_def dns_inv_def)

end
