(* ===== verification/Connection_Aggregator.thy ===== *)
theory Connection_Aggregator
  imports Eviction Addr
begin

text \<open>
  \<open>src/state/connection.rs\<close>: aggregation of repeated connections. Each key has a period
  that starts with a \<open>FirstConnection\<close> and lasts \<open>window_secs\<close>; later connections in it are
  \<open>Aggregated\<close>. \<open>record_at\<close> takes the event's time stamp; the trim it may trigger reads the
  wall clock (\<open>now\<close>), may lose the compare-exchange on \<open>last_cleanup\<close> to another
  thread (\<open>won = False\<close>), and depends on the iteration order of the hash map.
  \<open>HashSet<u32>\<close> is a distinct list, \<open>VecDeque<u64>\<close> a list with the oldest interval first.
  Counters wrap at 64 bits as in a release build.
\<close>

section \<open>State\<close>

datatype protocol = Tcp | Udp | UnknownProtocol

record connection_key =
  ck_process_image :: string
  ck_dest_ip :: ip_addr
  ck_dest_port :: u16
  ck_protocol :: protocol

record connection_state =
  cs_first_seen :: u64
  cs_last_seen :: u64
  cs_count :: u64
  cs_pids :: "u32 list"
  cs_intervals :: "u64 list"
  cs_interval_buffer_size :: nat

definition conn_state_new :: "u64 \<Rightarrow> u32 \<Rightarrow> nat \<Rightarrow> connection_state" where
  "conn_state_new timestamp pid buf =
     \<lparr>cs_first_seen = timestamp, cs_last_seen = timestamp, cs_count = 1, cs_pids = [pid],
      cs_intervals = [], cs_interval_buffer_size = buf\<rparr>"

definition conn_state_update :: "u64 \<Rightarrow> u32 \<Rightarrow> connection_state \<Rightarrow> connection_state" where
  "conn_state_update timestamp pid s =
     (let delta = sat_sub timestamp (cs_last_seen s);
          kept = (if cs_interval_buffer_size s \<le> length (cs_intervals s)
                  then drop 1 (cs_intervals s) else cs_intervals s)
      in s\<lparr>cs_last_seen := timestamp, cs_count := cs_count s + 1,
           cs_pids := List.insert pid (cs_pids s), cs_intervals := kept @ [delta]\<rparr>)"

record aggregation_meta =
  am_first_seen :: u64
  am_last_seen :: u64
  am_connection_count :: u64
  am_unique_pids :: "u32 list"

datatype aggregation_result = FirstConnection | Aggregated

type_synonym conn_map = "(connection_key, connection_state) hmap"
type_synonym conn_iter = "conn_map \<Rightarrow> connection_key list"

record connection_aggregator =
  ca_cache :: conn_map
  ca_max_entries :: nat
  ca_interval_buffer_size :: nat
  ca_window_secs :: u64
  ca_last_cleanup :: u64

definition conn_with_limits_and_window :: "nat \<Rightarrow> nat \<Rightarrow> u64 \<Rightarrow> connection_aggregator" where
  "conn_with_limits_and_window cap buf window =
     \<lparr>ca_cache = [], ca_max_entries = cap, ca_interval_buffer_size = buf,
      ca_window_secs = window, ca_last_cleanup = 0\<rparr>"

definition conn_with_limits :: "nat \<Rightarrow> nat \<Rightarrow> connection_aggregator" where
  "conn_with_limits cap buf = conn_with_limits_and_window cap buf 60"

definition conn_new :: connection_aggregator where
  "conn_new = conn_with_limits 20000 50"

section \<open>Operations\<close>

definition conn_trim_map :: "conn_iter \<Rightarrow> bool \<Rightarrow> nat \<Rightarrow> conn_map \<Rightarrow> conn_map" where
  "conn_trim_map it full cap m =
     (if length m \<le> cap then m
      else if \<not> full then drop_extra it cap m
      else trim_oldest cs_last_seen it cap m)"

definition conn_trims_fully :: "u64 \<Rightarrow> bool \<Rightarrow> connection_aggregator \<Rightarrow> bool" where
  "conn_trims_fully now won a \<longleftrightarrow> 1 \<le> sat_sub now (ca_last_cleanup a) \<and> won"

text \<open>
  \<open>trim_cache\<close>: nothing to do below the cap; at most one full trim per second, and only for the
  thread that wins the exchange of \<open>last_cleanup\<close>; otherwise arbitrary surplus keys go.
\<close>

definition conn_trim_cache ::
  "conn_iter \<Rightarrow> u64 \<Rightarrow> bool \<Rightarrow> connection_aggregator \<Rightarrow> connection_aggregator" where
  "conn_trim_cache it now won a =
     (let cap = ca_max_entries a in
      if length (ca_cache a) \<le> cap then a
      else if conn_trims_fully now won a
      then a\<lparr>ca_cache := conn_trim_map it True cap (ca_cache a), ca_last_cleanup := now\<rparr>
      else a\<lparr>ca_cache := conn_trim_map it False cap (ca_cache a)\<rparr>)"

definition conn_record_at ::
  "conn_iter \<Rightarrow> u64 \<Rightarrow> bool \<Rightarrow> u64 \<Rightarrow> connection_key \<Rightarrow> u32 \<Rightarrow> connection_aggregator
   \<Rightarrow> connection_aggregator \<times> aggregation_result" where
  "conn_record_at it now won timestamp key pid a =
     (case hm_get (ca_cache a) key of
        Some s \<Rightarrow>
          if ca_window_secs a \<le> sat_sub timestamp (cs_first_seen s)
          then (a\<lparr>ca_cache := hm_insert key
                   (conn_state_new timestamp pid (ca_interval_buffer_size a)) (ca_cache a)\<rparr>,
                FirstConnection)
          else (a\<lparr>ca_cache := hm_insert key (conn_state_update timestamp pid s) (ca_cache a)\<rparr>,
                Aggregated)
      | None \<Rightarrow>
          let a' = a\<lparr>ca_cache := hm_insert key
                 (conn_state_new timestamp pid (ca_interval_buffer_size a)) (ca_cache a)\<rparr>
          in (if ca_max_entries a' < length (ca_cache a')
              then conn_trim_cache it now won a' else a', FirstConnection))"

text \<open>\<open>record\<close> stamps the connection with the wall clock.\<close>

definition conn_record ::
  "conn_iter \<Rightarrow> u64 \<Rightarrow> bool \<Rightarrow> connection_key \<Rightarrow> u32 \<Rightarrow> connection_aggregator
   \<Rightarrow> connection_aggregator \<times> aggregation_result" where
  "conn_record it now won key pid a = conn_record_at it now won now key pid a"

definition conn_get_meta :: "connection_key \<Rightarrow> connection_aggregator \<Rightarrow> aggregation_meta option"
where
  "conn_get_meta key a =
     map_option (\<lambda>s. \<lparr>am_first_seen = cs_first_seen s, am_last_seen = cs_last_seen s,
        am_connection_count = cs_count s, am_unique_pids = cs_pids s\<rparr>) (hm_get (ca_cache a) key)"

definition conn_count :: "connection_aggregator \<Rightarrow> nat" where
  "conn_count a = length (ca_cache a)"

text \<open>A connection event: the clock, the exchange, the order, and the connection itself.\<close>

record conn_event =
  ce_iter :: conn_iter
  ce_now :: u64
  ce_won :: bool
  ce_timestamp :: u64
  ce_key :: connection_key
  ce_pid :: u32

definition conn_step ::
  "connection_aggregator \<Rightarrow> conn_event \<Rightarrow> connection_aggregator \<times> aggregation_result" where
  "conn_step a e =
     conn_record_at (ce_iter e) (ce_now e) (ce_won e) (ce_timestamp e) (ce_key e) (ce_pid e) a"

section \<open>Invariant\<close>

definition conn_state_ok :: "nat \<Rightarrow> connection_state \<Rightarrow> bool" where
  "conn_state_ok buf s \<longleftrightarrow>
     cs_interval_buffer_size s = buf \<and> length (cs_intervals s) \<le> max 1 buf \<and>
     distinct (cs_pids s) \<and> cs_pids s \<noteq> []"

definition conn_inv :: "nat \<Rightarrow> nat \<Rightarrow> u64 \<Rightarrow> connection_aggregator \<Rightarrow> bool" where
  "conn_inv cap buf window a \<longleftrightarrow>
     hm_wf (ca_cache a) \<and> length (ca_cache a) \<le> cap \<and>
     ca_max_entries a = cap \<and> ca_interval_buffer_size a = buf \<and> ca_window_secs a = window \<and>
     (\<forall>k s. hm_get (ca_cache a) k = Some s \<longrightarrow> conn_state_ok buf s)"

lemma conn_state_new_ok: "conn_state_ok buf (conn_state_new t pid buf)"
  by (simp add: conn_state_ok_def conn_state_new_def)

lemma conn_state_update_ok:
  "conn_state_ok buf s \<Longrightarrow> conn_state_ok buf (conn_state_update t pid s)"
  by (auto simp: conn_state_ok_def conn_state_update_def Let_def List.insert_def)

lemma conn_trim_evicting: "hash_iter it \<Longrightarrow> evicting (conn_trim_map it full)"
proof
  fix m :: conn_map and cap k v
  assume it: "hash_iter it" and wf: "hm_wf m"
  have d: "evicting (drop_extra it)" using it by (rule hash_iter.drop_extra_evicting)
  have t: "evicting (trim_oldest cs_last_seen it)"
    using it by (intro stamped_iter.trim_oldest_evicting stamped_iter.intro)
  show "length (conn_trim_map it full cap m) \<le> cap"
    using evicting.trim_length [OF d wf] evicting.trim_length [OF t wf]
    by (simp add: conn_trim_map_def)
  show "hm_wf (conn_trim_map it full cap m)"
    using wf evicting.trim_wf [OF d wf] evicting.trim_wf [OF t wf]
    by (simp add: conn_trim_map_def)
  assume "hm_get (conn_trim_map it full cap m) k = Some v"
  then show "hm_get m k = Some v"
    using evicting.trim_get [OF d wf] evicting.trim_get [OF t wf]
    by (auto simp: conn_trim_map_def split: if_splits)
qed

lemma conn_record_cache:
  "ca_cache (fst (conn_record_at it now won t key pid a)) =
     (case hm_get (ca_cache a) key of
        Some s \<Rightarrow> hm_insert key
          (if ca_window_secs a \<le> sat_sub t (cs_first_seen s)
           then conn_state_new t pid (ca_interval_buffer_size a)
           else conn_state_update t pid s) (ca_cache a)
      | None \<Rightarrow> insert_capped (conn_trim_map it (conn_trims_fully now won a)) (ca_max_entries a) key
          (conn_state_new t pid (ca_interval_buffer_size a)) (ca_cache a))"
  by (simp add: conn_record_at_def insert_capped_def conn_trim_cache_def Let_def
      conn_trims_fully_def conn_trim_map_def split: option.split)

lemma conn_record_config:
  "ca_max_entries (fst (conn_record_at it now won t key pid a)) = ca_max_entries a"
  "ca_interval_buffer_size (fst (conn_record_at it now won t key pid a)) = ca_interval_buffer_size a"
  "ca_window_secs (fst (conn_record_at it now won t key pid a)) = ca_window_secs a"
  by (simp_all add: conn_record_at_def conn_trim_cache_def Let_def split: option.split)

lemma conn_record_output:
  "snd (conn_record_at it now won t key pid a) = Aggregated \<longleftrightarrow>
     (\<exists>s. hm_get (ca_cache a) key = Some s \<and> sat_sub t (cs_first_seen s) < ca_window_secs a)"
  by (auto simp: conn_record_at_def Let_def not_le split: option.split)

text \<open>What a lookup returns after a connection was recorded.\<close>

lemma conn_record_get:
  assumes "hash_iter it" and wf: "hm_wf (ca_cache a)"
    and "hm_get (ca_cache (fst (conn_record_at it now won t key pid a))) k = Some s'"
  shows "if k \<noteq> key then hm_get (ca_cache a) k = Some s'
    else if snd (conn_record_at it now won t key pid a) = FirstConnection
    then s' = conn_state_new t pid (ca_interval_buffer_size a)
    else \<exists>s. hm_get (ca_cache a) key = Some s \<and> s' = conn_state_update t pid s"
proof (cases "hm_get (ca_cache a) key")
  case None
  then have "snd (conn_record_at it now won t key pid a) = FirstConnection"
    by (simp add: conn_record_at_def Let_def)
  with None assms(3) show ?thesis
    using evicting.insert_capped_get [OF conn_trim_evicting [OF assms(1)] wf]
    by (simp add: conn_record_cache split: if_splits)
next
  case (Some s)
  with assms(3) show ?thesis
    by (auto simp: conn_record_cache conn_record_at_def hm.get_put split: if_splits)
qed

lemma conn_step_get:
  assumes "hash_iter (ce_iter e)" and "hm_wf (ca_cache a)"
    and "hm_get (ca_cache (fst (conn_step a e))) k = Some s'"
  shows "if k \<noteq> ce_key e then hm_get (ca_cache a) k = Some s'
    else if snd (conn_step a e) = FirstConnection
    then s' = conn_state_new (ce_timestamp e) (ce_pid e) (ca_interval_buffer_size a)
    else \<exists>s. hm_get (ca_cache a) (ce_key e) = Some s \<and>
      s' = conn_state_update (ce_timestamp e) (ce_pid e) s"
  using assms conn_record_get unfolding conn_step_def by blast

lemma conn_record_inv:
  assumes inv: "conn_inv cap buf window a" and it: "hash_iter it"
  shows "conn_inv cap buf window (fst (conn_record_at it now won t key pid a))"
proof -
  have wf: "hm_wf (ca_cache a)" using inv by (simp add: conn_inv_def)
  let ?a' = "fst (conn_record_at it now won t key pid a)"
  note ev = conn_trim_evicting [OF it]
  have "hm_wf (ca_cache ?a') \<and> length (ca_cache ?a') \<le> cap"
    using inv evicting.insert_capped_wf [OF ev wf] evicting.insert_capped_length [OF ev wf]
    by (auto simp: conn_inv_def conn_record_cache hm.wf_put hm_insert_length hm_get_in_keys
        split: option.split)
  moreover have "\<forall>k s. hm_get (ca_cache ?a') k = Some s \<longrightarrow> conn_state_ok buf s"
  proof (intro allI impI)
    fix k s assume "hm_get (ca_cache ?a') k = Some s"
    from conn_record_get [OF it wf this] inv show "conn_state_ok buf s"
      by (auto simp: conn_inv_def conn_state_new_ok conn_state_update_ok split: if_splits)
  qed
  ultimately show ?thesis using inv by (simp add: conn_inv_def conn_record_config)
qed

interpretation conn: machine conn_step "conn_inv cap buf window" "\<lambda>e. hash_iter (ce_iter e)"
  by unfold_locales (simp add: conn_step_def conn_record_inv)

abbreviation conn_start :: "nat \<Rightarrow> nat \<Rightarrow> u64 \<Rightarrow> connection_aggregator" where
  "conn_start \<equiv> conn_with_limits_and_window"

lemma conn_inv_init: "conn_inv cap buf window (conn_start cap buf window)"
  by (simp add: conn_inv_def conn_with_limits_and_window_def)

lemma conn_run_inv:
  "list_all (\<lambda>e. hash_iter (ce_iter e)) es \<Longrightarrow>
   conn_inv cap buf window (fst (run conn_step (conn_start cap buf window) es))"
  by (rule conn.run_inv) (rule conn_inv_init)

section \<open>The current period of a key\<close>

text \<open>
  The connections of a key since its last \<open>FirstConnection\<close>, read off the history of events
  and results.
\<close>

definition period_step ::
  "connection_key \<Rightarrow> conn_event list \<Rightarrow> conn_event \<times> aggregation_result \<Rightarrow> conn_event list" where
  "period_step k p h =
     (if ce_key (fst h) \<noteq> k then p
      else if snd h = FirstConnection then [fst h] else if p = [] then [] else p @ [fst h])"

definition current_period ::
  "connection_key \<Rightarrow> (conn_event \<times> aggregation_result) list \<Rightarrow> conn_event list" where
  "current_period k h = foldl (period_step k) [] h"

definition period_matches :: "u64 \<Rightarrow> conn_event list \<Rightarrow> connection_state \<Rightarrow> bool" where
  "period_matches window p s \<longleftrightarrow>
     p \<noteq> [] \<and> cs_first_seen s = ce_timestamp (hd p) \<and> cs_last_seen s = ce_timestamp (last p) \<and>
     cs_count s = of_nat (length p) \<and> set (cs_pids s) = ce_pid ` set p \<and>
     (\<forall>e \<in> set (tl p). sat_sub (ce_timestamp e) (ce_timestamp (hd p)) < window)"

abbreviation conn_history ::
  "connection_aggregator \<Rightarrow> conn_event list \<Rightarrow> (conn_event \<times> aggregation_result) list" where
  "conn_history a es \<equiv> zip es (snd (run conn_step a es))"

lemma conn_history_snoc:
  "conn_history a (es @ [e]) =
     conn_history a es @ [(e, snd (conn_step (fst (run conn_step a es)) e))]"
  by (simp add: run_append split: prod.split)

lemma period_matches_new:
  "period_matches window [e] (conn_state_new (ce_timestamp e) (ce_pid e) buf)"
  by (simp add: period_matches_def conn_state_new_def)

lemma period_matches_update:
  assumes "period_matches window p s"
    and "sat_sub (ce_timestamp e) (cs_first_seen s) < window"
  shows "period_matches window (p @ [e]) (conn_state_update (ce_timestamp e) (ce_pid e) s)"
  using assms by (cases p) (auto simp: period_matches_def conn_state_update_def Let_def)

lemma conn_period:
  "list_all (\<lambda>e. hash_iter (ce_iter e)) es \<Longrightarrow>
   hm_get (ca_cache (fst (run conn_step (conn_start cap buf window) es))) k = Some s \<Longrightarrow>
   period_matches window (current_period k (conn_history (conn_start cap buf window) es)) s"
proof (induction es arbitrary: s rule: rev_induct)
  case Nil
  then show ?case by (simp add: conn_with_limits_and_window_def)
next
  case (snoc e es)
  let ?a = "fst (run conn_step (conn_start cap buf window) es)"
  let ?h = "conn_history (conn_start cap buf window) es"
  let ?out = "snd (conn_step ?a e)"
  from snoc.prems(1) have it: "hash_iter (ce_iter e)" by simp
  have inv: "conn_inv cap buf window ?a" using snoc.prems(1) by (simp add: conn_run_inv)
  then have wf: "hm_wf (ca_cache ?a)" by (simp add: conn_inv_def)
  have p: "current_period k (conn_history (conn_start cap buf window) (es @ [e])) =
      period_step k (current_period k ?h) (e, ?out)"
    by (simp add: conn_history_snoc current_period_def)
  have "hm_get (ca_cache (fst (conn_step ?a e))) k = Some s"
    using snoc.prems(2) by (simp add: run_append split: prod.splits)
  from conn_step_get [OF it wf this]
  consider "k \<noteq> ce_key e" "hm_get (ca_cache ?a) k = Some s"
    | "k = ce_key e" "?out = FirstConnection"
      "s = conn_state_new (ce_timestamp e) (ce_pid e) (ca_interval_buffer_size ?a)"
    | s0 where "k = ce_key e" "?out \<noteq> FirstConnection" "hm_get (ca_cache ?a) k = Some s0"
      "s = conn_state_update (ce_timestamp e) (ce_pid e) s0"
    by (auto split: if_splits)
  then show ?case
  proof cases
    case 1
    with snoc.IH [of s] snoc.prems(1) p show ?thesis by (simp add: period_step_def)
  next
    case 2
    with p show ?thesis by (simp add: period_step_def period_matches_new)
  next
    case 3
    then have "?out = Aggregated" by (cases ?out) simp_all
    with 3 inv have "sat_sub (ce_timestamp e) (cs_first_seen s0) < window"
      by (auto simp: conn_step_def conn_record_output conn_inv_def)
    moreover from 3 snoc.IH [of s0] snoc.prems(1)
    have "period_matches window (current_period k ?h) s0" by simp
    moreover from this have "current_period k ?h \<noteq> []" by (simp add: period_matches_def)
    ultimately show ?thesis using 3 p by (simp add: period_step_def period_matches_update)
  qed
qed

lemma current_period_hd:
  "current_period k h \<noteq> [] \<Longrightarrow>
   (hd (current_period k h), FirstConnection) \<in> set h \<and> ce_key (hd (current_period k h)) = k"
proof (induction h rule: rev_induct)
  case (snoc x h)
  then show ?case
    by (cases x; cases "snd x"; cases "current_period k h")
      (auto simp: current_period_def period_step_def split: if_splits)
qed (simp add: current_period_def)

section \<open>Properties\<close>

text \<open>C37: Aggregation metrics are exact. For every history of connections, iteration orders and
  lost or won clean-up races, the metadata that \<open>get_meta\<close> reports for a key describes the
  key's current period and nothing else: its first and last time stamps, its number of connections
  (modulo the 64-bit counter) and the set of process ids seen in it.\<close>

theorem conn_meta_exact:
  assumes "list_all (\<lambda>e. hash_iter (ce_iter e)) es"
    and "conn_get_meta k (fst (run conn_step (conn_with_limits_and_window cap buf window) es))
      = Some meta"
    and "p = current_period k (conn_history (conn_with_limits_and_window cap buf window) es)"
  shows "p \<noteq> [] \<and> am_first_seen meta = ce_timestamp (hd p) \<and>
    am_last_seen meta = ce_timestamp (last p) \<and> am_connection_count meta = of_nat (length p) \<and>
    set (am_unique_pids meta) = ce_pid ` set p"
proof -
  from assms(2) obtain s where "hm_get (ca_cache (fst (run conn_step
      (conn_start cap buf window) es))) k = Some s"
    and "meta = \<lparr>am_first_seen = cs_first_seen s, am_last_seen = cs_last_seen s,
        am_connection_count = cs_count s, am_unique_pids = cs_pids s\<rparr>"
    by (auto simp: conn_get_meta_def)
  with conn_period [OF assms(1)] assms(3) show ?thesis by (simp add: period_matches_def)
qed

definition sample_key :: connection_key where
  "sample_key = \<lparr>ck_process_image = ''app'', ck_dest_ip = V4 9, ck_dest_port = 443,
     ck_protocol = Tcp\<rparr>"

definition sample_event :: "u64 \<Rightarrow> u32 \<Rightarrow> conn_event" where
  "sample_event t pid = \<lparr>ce_iter = map fst, ce_now = t, ce_won = True, ce_timestamp = t,
     ce_key = sample_key, ce_pid = pid\<rparr>"

lemma sample_ok: "hash_iter (ce_iter (sample_event t pid))"
  by (simp add: sample_event_def stored_order.hash_iter_axioms)

theorem conn_meta_exact_witness:
  "am_connection_count (the (conn_get_meta sample_key (fst (run conn_step
     (conn_with_limits_and_window 2 4 60) [sample_event 100 1, sample_event 130 2])))) = 2"
proof -
  let ?es = "[sample_event 100 1, sample_event 130 2]"
  let ?a = "conn_with_limits_and_window 2 4 60"
  have ok: "list_all (\<lambda>e. hash_iter (ce_iter e)) ?es" by (simp add: sample_ok)
  have "conn_get_meta sample_key (fst (run conn_step ?a ?es)) \<noteq> None" by code_simp
  then obtain meta where m: "conn_get_meta sample_key (fst (run conn_step ?a ?es)) = Some meta"
    by blast
  have "length (current_period sample_key (conn_history ?a ?es)) = 2" by code_simp
  with conn_meta_exact [OF ok m refl] m show ?thesis by simp
qed

text \<open>
  No false aggregation. When \<open>record_at\<close> answers \<open>Aggregated\<close>, the same process image,
  address, port and protocol already had a connection that was answered
  \<open>FirstConnection\<close> less than \<open>window_secs\<close> before; so a destination is never reported as a
  repeat before it was reported as new, and every period ends.
\<close>

lemma conn_aggregated_sound:
  assumes "list_all (\<lambda>e. hash_iter (ce_iter e)) es"
    and "snd (conn_step (fst (run conn_step (conn_with_limits_and_window cap buf window) es)) e)
      = Aggregated"
  shows "\<exists>e0. (e0, FirstConnection) \<in>
      set (zip es (snd (run conn_step (conn_with_limits_and_window cap buf window) es))) \<and>
    ce_key e0 = ce_key e \<and>
    unat (ce_timestamp e) - unat (ce_timestamp e0) < unat window"
proof -
  let ?a = "fst (run conn_step (conn_start cap buf window) es)"
  let ?p = "current_period (ce_key e) (conn_history (conn_start cap buf window) es)"
  have "ca_window_secs ?a = window" using conn_run_inv [OF assms(1)] by (simp add: conn_inv_def)
  with assms(2) obtain s where s: "hm_get (ca_cache ?a) (ce_key e) = Some s"
    and "sat_sub (ce_timestamp e) (cs_first_seen s) < window"
    by (auto simp: conn_step_def conn_record_output)
  moreover from conn_period [OF assms(1) s]
  have "?p \<noteq> []" and "cs_first_seen s = ce_timestamp (hd ?p)" by (simp_all add: period_matches_def)
  ultimately show ?thesis
    using current_period_hd [of "ce_key e"]
    by (intro exI [of _ "hd ?p"]) (simp add: word_less_nat_alt unat_sat_sub)
qed


text \<open>Bounds. After any history the aggregator holds at most \<open>max_entries\<close> keys, also when
  the once-per-second limit or a lost race replaces the full trim, and every kept key remembers at
  most \<open>max 1 interval_buffer_size\<close> intervals.\<close>

lemma conn_bounded:
  assumes "list_all (\<lambda>e. hash_iter (ce_iter e)) es"
    and "a = fst (run conn_step (conn_with_limits_and_window cap buf window) es)"
  shows "conn_count a \<le> cap \<and>
    (\<forall>k s. hm_get (ca_cache a) k = Some s \<longrightarrow> length (cs_intervals s) \<le> max 1 buf)"
  using conn_run_inv [OF assms(1), of cap buf window] assms(2)
  by (auto simp: conn_inv_def conn_count_def conn_state_ok_def)

end
