(* ===== verification/Sid_Cache.thy ===== *)
theory Sid_Cache
  imports Text
begin

text \<open>
  \<open>src/state/sid.rs\<close>: the cache from security identifiers to account names. On Windows an unknown
  identifier is put into a bounded channel, at most once at a time, and a background thread looks
  it up; elsewhere only the well-known identifiers resolve. The thread takes two steps, receiving
  an identifier and finishing with it, because callers run in between.
\<close>

section \<open>State and operations\<close>

record sid_cache =
  sd_windows :: bool
  sd_cache :: "(string, string) hmap"
  sd_pending :: "string set"
  sd_channel :: "string list"
  sd_current :: "string option"

definition sid_channel_capacity :: nat where
  "sid_channel_capacity = 1024"

definition account :: "string \<Rightarrow> string \<Rightarrow> string" where
  "account domain name = domain @ backslash # name"

definition well_known_sids :: "(string, string) hmap" where
  "well_known_sids =
     [(''S-1-5-18'', account ''NT AUTHORITY'' ''SYSTEM''),
      (''S-1-5-19'', account ''NT AUTHORITY'' ''LOCAL SERVICE''),
      (''S-1-5-20'', account ''NT AUTHORITY'' ''NETWORK SERVICE'')]"

definition sid_cache_new :: "bool \<Rightarrow> sid_cache" where
  "sid_cache_new windows = \<lparr>sd_windows = windows, sd_cache = well_known_sids, sd_pending = {},
     sd_channel = [], sd_current = None\<rparr>"

text \<open>
  \<open>try_send\<close> fails when the channel is full; then the identifier stops being pending.
\<close>

definition queue_resolution :: "string \<Rightarrow> sid_cache \<Rightarrow> sid_cache" where
  "queue_resolution sid c =
     (if \<not> sd_windows c then c
      else if hm_get (sd_cache c) sid \<noteq> None then c
      else if sid \<in> sd_pending c then c
      else
        let c' = c\<lparr>sd_pending := insert sid (sd_pending c)\<rparr>
        in if length (sd_channel c') < sid_channel_capacity
           then c'\<lparr>sd_channel := sd_channel c' @ [sid]\<rparr>
           else c'\<lparr>sd_pending := sd_pending c' - {sid}\<rparr>)"

definition sid_resolve :: "string \<Rightarrow> sid_cache \<Rightarrow> sid_cache \<times> string option" where
  "sid_resolve sid c =
     (if sid = [] then (c, None)
      else
        case hm_get (sd_cache c) sid of
          Some cached \<Rightarrow> (c, Some cached)
        | None \<Rightarrow> (queue_resolution sid c, None))"

text \<open>The resolver thread.\<close>

definition resolver_receive :: "sid_cache \<Rightarrow> sid_cache" where
  "resolver_receive c =
     (case (sd_current c, sd_channel c) of
        (None, sid # rest) \<Rightarrow>
          c\<lparr>sd_channel := rest, sd_current := (if sid = [] then None else Some sid)\<rparr>
      | _ \<Rightarrow> c)"

definition resolver_finish :: "string option \<Rightarrow> sid_cache \<Rightarrow> sid_cache" where
  "resolver_finish looked_up c =
     (case sd_current c of
        None \<Rightarrow> c
      | Some sid \<Rightarrow>
          let c' = c\<lparr>sd_current := None, sd_pending := sd_pending c - {sid}\<rparr>
          in if hm_get (sd_cache c) sid \<noteq> None then c'
             else
               (case looked_up of
                  None \<Rightarrow> c'
                | Some resolved \<Rightarrow> c'\<lparr>sd_cache := hm_insert sid resolved (sd_cache c)\<rparr>))"

datatype sid_op = Resolve string | Receive | Finish "string option"

fun sid_step :: "sid_cache \<Rightarrow> sid_op \<Rightarrow> sid_cache \<times> string option" where
  "sid_step c (Resolve sid) = sid_resolve sid c"
| "sid_step c Receive = (resolver_receive c, None)"
| "sid_step c (Finish looked_up) = (resolver_finish looked_up c, None)"

section \<open>Invariant\<close>

text \<open>
  An identifier is pending exactly while it is in the channel or with the thread, and it is there
  only once; the channel stays within its capacity.
\<close>

definition in_flight :: "sid_cache \<Rightarrow> string list" where
  "in_flight c = (case sd_current c of None \<Rightarrow> [] | Some sid \<Rightarrow> [sid]) @ sd_channel c"

definition sid_inv :: "sid_cache \<Rightarrow> bool" where
  "sid_inv c \<longleftrightarrow>
     distinct (in_flight c) \<and> set (in_flight c) = sd_pending c \<and> [] \<notin> sd_pending c \<and>
     length (sd_channel c) \<le> sid_channel_capacity"

lemma queue_resolution_inv:
  assumes inv: "sid_inv c" and sid: "sid \<noteq> []"
  shows "sid_inv (queue_resolution sid c)"
proof -
  let ?waits = "sd_windows c \<and> hm_get (sd_cache c) sid = None \<and> sid \<notin> sd_pending c"
  consider "queue_resolution sid c = c"
    | "sid \<notin> sd_pending c" "queue_resolution sid c = c\<lparr>sd_pending := sd_pending c - {sid}\<rparr>"
    | "sid \<notin> sd_pending c" "length (sd_channel c) < sid_channel_capacity"
      "queue_resolution sid c =
         c\<lparr>sd_pending := insert sid (sd_pending c), sd_channel := sd_channel c @ [sid]\<rparr>"
    by (cases ?waits; cases "length (sd_channel c) < sid_channel_capacity")
      (auto simp: queue_resolution_def)
  then show ?thesis
  proof cases
    case 2
    then have "queue_resolution sid c = c" by simp
    with inv show ?thesis by simp
  next
    case 3
    then show ?thesis using inv sid
      by (cases "sd_current c") (auto simp: sid_inv_def in_flight_def)
  qed (use inv in simp)
qed

lemma sid_resolve_inv: "sid_inv c \<Longrightarrow> sid_inv (fst (sid_resolve sid c))"
  by (auto simp: sid_resolve_def queue_resolution_inv split: option.split)

lemma resolver_receive_inv: "sid_inv c \<Longrightarrow> sid_inv (resolver_receive c)"
  by (cases "sd_current c"; cases "sd_channel c")
    (auto simp: resolver_receive_def sid_inv_def in_flight_def)

lemma resolver_finish_inv: "sid_inv c \<Longrightarrow> sid_inv (resolver_finish looked_up c)"
  by (cases "sd_current c")
    (auto simp: resolver_finish_def sid_inv_def in_flight_def Let_def split: option.split)

interpretation sids: machine sid_step sid_inv "\<lambda>_. True"
proof
  fix c op assume "sid_inv c"
  then show "sid_inv (fst (sid_step c op))"
    by (cases op) (simp_all add: sid_resolve_inv resolver_receive_inv resolver_finish_inv)
qed

lemma sid_inv_new: "sid_inv (sid_cache_new windows)"
  by (simp add: sid_inv_def sid_cache_new_def in_flight_def)

lemma sid_run_inv: "sid_inv (fst (run sid_step (sid_cache_new windows) ops))"
  by (intro sids.run_inv sid_inv_new) (simp add: list_all_iff)

section \<open>Properties\<close>

text \<open>
  No account lookup is lost and none is doubled. After any interleaving of callers and the
  resolver thread, an identifier is pending exactly while it waits in the channel or is being
  looked up, it waits there once, and so an identifier that is asked for on Windows is either
  answered, or in flight, or was turned away because the channel was full.
\<close>

lemma sid_lookup_not_lost:
  assumes "c = fst (run sid_step (sid_cache_new True) ops)" and "sid \<noteq> []"
    and "sid_resolve sid c = (c', None)"
  shows "distinct (in_flight c') \<and> set (in_flight c') = sd_pending c' \<and>
    (sid \<in> set (in_flight c') \<or> length (sd_channel c) = sid_channel_capacity)"
proof -
  have inv: "sid_inv c" using sid_run_inv assms(1) by simp
  have win: "sd_windows c"
  proof -
    have "sd_windows (fst (sid_step d op)) = sd_windows d" for d op
      by (cases op) (auto simp: sid_resolve_def queue_resolution_def resolver_receive_def
          resolver_finish_def Let_def split: option.split list.split)
    then have "sd_windows (fst (run sid_step d ops)) = sd_windows d" for d
      by (induction ops arbitrary: d) simp_all
    then show ?thesis using assms(1) by (simp add: sid_cache_new_def)
  qed
  have "sid_inv c'" using sid_resolve_inv [OF inv, of sid] assms(3) by simp
  moreover have "sid \<in> sd_pending c' \<or> length (sd_channel c) = sid_channel_capacity"
  proof -
    have none: "hm_get (sd_cache c) sid = None" and c': "c' = queue_resolution sid c"
      using assms(2,3) by (simp_all add: sid_resolve_def split: option.splits)
    have "length (sd_channel c) \<le> sid_channel_capacity" using inv by (simp add: sid_inv_def)
    then show ?thesis
      by (cases "length (sd_channel c) < sid_channel_capacity"; cases "sid \<in> sd_pending c")
        (simp_all add: c' queue_resolution_def Let_def none win)
  qed
  ultimately show ?thesis by (simp add: sid_inv_def)
qed


end
