(* ===== verification/Path_Map.thy ===== *)
theory Path_Map
  imports Text
begin

text \<open>
  \<open>src/utils/path.rs\<close>: from NT device paths to DOS paths by the cached map of drives. The global
  \<open>DRIVE_MAP\<close> is an optional cache, filled at the first use and refreshed at most once in ten
  seconds. What \<open>init_drive_map\<close> reads from the system is a parameter.
\<close>

section \<open>The drive map\<close>

type_synonym drive_map = "(string, string) hmap"

record drive_map_cache =
  dm_map :: drive_map
  dm_last_refresh :: u64

text \<open>
  One conversion reads: the drives at initialisation and at a refresh (Windows only), the clock,
  the outcome of the compare-exchange, and the iteration order of the map.
\<close>

record drive_env =
  dv_windows :: bool
  dv_init_drives :: drive_map
  dv_refreshed_drives :: drive_map
  dv_now :: u64
  dv_won :: bool
  dv_iter :: "drive_map \<Rightarrow> string list"

definition drive_map_refresh_cooldown_secs :: u64 where
  "drive_map_refresh_cooldown_secs = 10"

definition init_drive_map :: "bool \<Rightarrow> drive_map \<Rightarrow> drive_map" where
  "init_drive_map windows drives = (if windows then drives else [])"

definition drive_map_cache_new :: "drive_env \<Rightarrow> drive_map_cache" where
  "drive_map_cache_new v =
     \<lparr>dm_map = init_drive_map (dv_windows v) (dv_init_drives v), dm_last_refresh = 0\<rparr>"

definition device :: "string \<Rightarrow> string" where
  "device name = backslash # ''Device'' @ backslash # name"

definition lookup_dos_path :: "(drive_map \<Rightarrow> string list) \<Rightarrow> drive_map \<Rightarrow> string \<Rightarrow> string option" where
  "lookup_dos_path it m nt_path =
     (case find (starts_with nt_path) (it m) of
        None \<Rightarrow> None
      | Some device_path \<Rightarrow>
          (case hm_get m device_path of
             None \<Rightarrow> None
           | Some dos_drive \<Rightarrow> Some (dos_drive @ drop (length device_path) nt_path)))"

definition should_refresh_for_path :: "string \<Rightarrow> bool" where
  "should_refresh_for_path nt_path \<longleftrightarrow>
     starts_with nt_path (device ''HarddiskVolume'') \<or>
     starts_with nt_path (device ''HarddiskVolumeShadowCopy'') \<or>
     starts_with nt_path (device ''Mup'') \<or>
     starts_with nt_path (device ''LanmanRedirector'')"

definition refresh_if_needed :: "drive_env \<Rightarrow> string \<Rightarrow> drive_map_cache \<Rightarrow> drive_map_cache" where
  "refresh_if_needed v nt_path c =
     (if \<not> should_refresh_for_path nt_path then c
      else if sat_sub (dv_now v) (dm_last_refresh c) < drive_map_refresh_cooldown_secs then c
      else if \<not> dv_won v then c
      else
        let c' = c\<lparr>dm_last_refresh := dv_now v\<rparr>;
            refreshed = init_drive_map (dv_windows v) (dv_refreshed_drives v)
        in if refreshed = [] then c' else c'\<lparr>dm_map := refreshed\<rparr>)"

definition convert_nt_to_dos ::
  "drive_env \<Rightarrow> string \<Rightarrow> drive_map_cache option \<Rightarrow> drive_map_cache option \<times> string" where
  "convert_nt_to_dos v nt_path static =
     (let c = (case static of Some c \<Rightarrow> c | None \<Rightarrow> drive_map_cache_new v) in
      if \<not> starts_with nt_path (device []) then (Some c, nt_path)
      else
        case lookup_dos_path (dv_iter v) (dm_map c) nt_path of
          Some dos_path \<Rightarrow> (Some c, dos_path)
        | None \<Rightarrow>
            let c' = refresh_if_needed v nt_path c in
            case lookup_dos_path (dv_iter v) (dm_map c') nt_path of
              Some dos_path \<Rightarrow> (Some c', dos_path)
            | None \<Rightarrow> (Some c', nt_path))"

section \<open>Lemmas\<close>

text \<open>No device name of the map is a prefix of another.\<close>

definition prefix_free :: "drive_map \<Rightarrow> bool" where
  "prefix_free m \<longleftrightarrow> (\<forall>d \<in> fst ` set m. \<forall>d' \<in> fst ` set m. prefix d d' \<longrightarrow> d = d')"

lemma find_unique:
  assumes "x \<in> set xs" and "P x" and "\<And>y. y \<in> set xs \<Longrightarrow> P y \<Longrightarrow> y = x"
  shows "find P xs = Some x"
proof (cases "find P xs")
  case None
  with assms(1,2) show ?thesis by (auto simp: find_None_iff)
next
  case (Some y)
  then have "y \<in> set xs" "P y" by (auto simp: find_Some_iff)
  with assms(3) Some show ?thesis by blast
qed

lemma lookup_dos_path_unique:
  assumes it: "hash_iter it" and wf: "hm_wf m" and free: "prefix_free m"
    and dev: "hm_get m d = Some drive"
  shows "lookup_dos_path it m (d @ rest) = Some (drive @ rest)"
proof -
  have keys: "set (it m) = fst ` set m" by (rule hash_iter.set_it [OF it wf])
  have d: "d \<in> fst ` set m" by (rule hm_get_in_keys [OF dev])
  have "find (starts_with (d @ rest)) (it m) = Some d"
  proof (rule find_unique)
    fix d' assume d': "d' \<in> set (it m)" "starts_with (d @ rest) d'"
    then have "prefix d d' \<or> prefix d' d" by (metis prefix_same_cases prefixI)
    then show "d' = d" using free d d'(1) keys unfolding prefix_free_def by blast
  qed (use keys d in simp_all)
  then show ?thesis by (simp add: lookup_dos_path_def dev)
qed

section \<open>Properties\<close>

definition sample_drives :: drive_map where
  "sample_drives = [(device ''HarddiskVolume1'', ''C:''), (device ''HarddiskVolume10'', ''D:'')]"

definition sample_drive_env :: "(drive_map \<Rightarrow> string list) \<Rightarrow> drive_env" where
  "sample_drive_env it = \<lparr>dv_windows = True, dv_init_drives = sample_drives,
     dv_refreshed_drives = sample_drives, dv_now = 100, dv_won = True, dv_iter = it\<rparr>"

text \<open>
  A path on a mapped device becomes the drive and the rest of the path, whatever the iteration
  order of the map, as long as no device name is a prefix of another.
\<close>

lemma device_path_converted:
  assumes "hash_iter (dv_iter v)" and "hm_wf (dm_map c)" and "prefix_free (dm_map c)"
    and "hm_get (dm_map c) (device name) = Some drive"
  shows "convert_nt_to_dos v (device name @ rest) (Some c) = (Some c, drive @ rest)"
  using lookup_dos_path_unique [OF assms]
  by (simp add: convert_nt_to_dos_def device_def)


text \<open>
  The prefix test has no boundary at the end of the device name: on a system with the volumes 1
  and 10 a path on volume 10 becomes a path on the drive of volume 1 that does not exist, or the
  right one, depending on the iteration order of the map.
\<close>

lemma volume_ten_misattributed:
  "snd (convert_nt_to_dos (sample_drive_env (map fst))
     (device ''HarddiskVolume10'' @ backslash # ''x'') None) = ''C:0'' @ backslash # ''x'' \<and>
   snd (convert_nt_to_dos (sample_drive_env (\<lambda>m. rev (map fst m)))
     (device ''HarddiskVolume10'' @ backslash # ''x'') None) = ''D:'' @ backslash # ''x''"
  by (simp add: convert_nt_to_dos_def drive_map_cache_new_def init_drive_map_def
      sample_drive_env_def sample_drives_def lookup_dos_path_def device_def)

end
