(* ===== verification/Normalizer.thy ===== *)
theory Normalizer
  imports Events Process_Cache Dns_Cache Connection_Aggregator Sid_Cache Path_Map
begin

text \<open>
  The normalizer (\<open>src/normalizer/mod.rs\<close>) and the sensor events it reads
  (\<open>src/sensor/mod.rs\<close>): a sensor event becomes a normalized event, completed from the process,
  account, host-name and drive caches, which it also feeds. The state is those caches; what one
  call reads from its surroundings (clocks, outcomes of compare-exchanges, iteration orders, the
  command line of a process, chrono's time format) is the record \<open>norm_env\<close>.
\<close>

section \<open>Sensor events\<close>

datatype sensor_action =
  ActStart | ActStop | ActCreate | ActDelete | ActModify | ActRename | ActConnect | ActDisconnect
| ActAccept | ActQuery | ActSet | ActLoad | ActExecute | ActRegister

datatype sensor_payload =
  PayProcess process_fields
| PayNetwork network_fields
| PayFile file_fields
| PayDns dns_fields
| PayRegistry registry_fields
| PayImageLoad image_load_fields
| PayScripting script_fields
| PayWmi wmi_fields
| PayService service_fields
| PayTask task_fields

text \<open>Time stamps are nanoseconds since the Unix epoch and may lie before it.\<close>

record process_start_key =
  sk_pid :: u32
  sk_start_time :: u64

record sensor_event =
  sv_platform :: platform
  sv_provider :: string
  sv_action :: sensor_action
  sv_event_id :: u16
  sv_action_code :: u8
  sv_pid :: "u32 option"
  sv_timestamp :: int
  sv_process_start_key :: "process_start_key option"
  sv_payload :: sensor_payload

definition payload_category :: "sensor_payload \<Rightarrow> event_category" where
  "payload_category pay =
     (case pay of PayProcess _ \<Rightarrow> CatProcess | PayNetwork _ \<Rightarrow> CatNetwork | PayFile _ \<Rightarrow> CatFile
      | PayDns _ \<Rightarrow> CatDns | PayRegistry _ \<Rightarrow> CatRegistry | PayImageLoad _ \<Rightarrow> CatImageLoad
      | PayScripting _ \<Rightarrow> CatScripting | PayWmi _ \<Rightarrow> CatWmi | PayService _ \<Rightarrow> CatService
      | PayTask _ \<Rightarrow> CatTask)"

text \<open>\<open>TryFrom<EventFields>\<close>\<close>

definition payload_of_fields :: "event_fields \<Rightarrow> event_fields + sensor_payload" where
  "payload_of_fields fs =
     (case fs of
        ProcessCreation f \<Rightarrow> Inr (PayProcess f)
      | NetworkConnection f \<Rightarrow> Inr (PayNetwork f)
      | FileEvent f \<Rightarrow> Inr (PayFile f)
      | DnsQuery f \<Rightarrow> Inr (PayDns f)
      | RegistryEvent f \<Rightarrow> Inr (PayRegistry f)
      | ImageLoad f \<Rightarrow> Inr (PayImageLoad f)
      | PowerShellScript f \<Rightarrow> Inr (PayScripting f)
      | WmiEvent f \<Rightarrow> Inr (PayWmi f)
      | ServiceCreation f \<Rightarrow> Inr (PayService f)
      | TaskCreation f \<Rightarrow> Inr (PayTask f)
      | _ \<Rightarrow> Inl fs)"

section \<open>State and surroundings\<close>

record normalizer =
  nz_process :: process_cache
  nz_sid :: sid_cache
  nz_dns :: dns_cache
  nz_conn :: connection_aggregator
  nz_aggregation_enabled :: bool
  nz_drives :: "drive_map_cache option"

text \<open>
  The clock and the compare-exchange of a look-up in the process cache, of an insertion or
  removal, and of the look-up for the process context; the other fields are named by their cache.
\<close>

record norm_env =
  ne_get :: "u64 \<times> bool"
  ne_put :: "u64 \<times> bool"
  ne_context :: "u64 \<times> bool"
  ne_drive :: drive_env
  ne_dns_lookup :: u64
  ne_dns_update :: "nat \<Rightarrow> u64"
  ne_dns_iter :: dns_iter
  ne_conn :: "u64 \<times> bool"
  ne_conn_iter :: conn_iter
  ne_command_line :: "u32 \<Rightarrow> string option"
  ne_format_time :: "int \<Rightarrow> string"

section \<open>Helpers\<close>

definition parse_optional_u32 :: "string option \<Rightarrow> u32 option" where
  "parse_optional_u32 value = (case value of None \<Rightarrow> None | Some v \<Rightarrow> parse_uint v)"

definition event_pid :: "sensor_event \<Rightarrow> string option \<Rightarrow> u32" where
  "event_pid event explicit_pid =
     (case parse_optional_u32 explicit_pid of
        Some pid \<Rightarrow> pid
      | None \<Rightarrow> (case sv_pid event of Some pid \<Rightarrow> pid | None \<Rightarrow> 0))"

definition process_cache_time_fallback :: "int \<Rightarrow> u64" where
  "process_cache_time_fallback timestamp =
     (if timestamp < 0 then 0 else word_of_int (timestamp div 1000000000))"

definition start_time_of :: "sensor_event \<Rightarrow> u64 option" where
  "start_time_of event = map_option sk_start_time (sv_process_start_key event)"

text \<open>The tokens of hexadecimal digits, dots and colons; those that are addresses.\<close>

fun scan_ips :: "string \<Rightarrow> string \<Rightarrow> ip_addr list" where
  "scan_ips token [] = (if token \<noteq> [] then (case parse_ip token of None \<Rightarrow> [] | Some ip \<Rightarrow> [ip]) else [])"
| "scan_ips token (ch # s) =
     (if is_digit 16 ch \<or> ch = CHR ''.'' \<or> ch = CHR '':'' then scan_ips (token @ [ch]) s
      else if token \<noteq> [] then (case parse_ip token of None \<Rightarrow> [] | Some ip \<Rightarrow> [ip]) @ scan_ips [] s
      else scan_ips [] s)"

definition extract_ips_from_query_results :: "string \<Rightarrow> ip_addr list" where
  "extract_ips_from_query_results value = scan_ips [] value"

definition resolve_user_field ::
  "string option \<Rightarrow> normalizer \<Rightarrow> normalizer \<times> string option" where
  "resolve_user_field user nz =
     (case user of
        None \<Rightarrow> (nz, user)
      | Some value \<Rightarrow>
          if starts_with value ''S-1-'' then
            let (sid, resolved) = sid_resolve value (nz_sid nz)
            in (nz\<lparr>nz_sid := sid\<rparr>, if resolved \<noteq> None then resolved else user)
          else (nz, user))"

text \<open>\<open>get_image\<close> of the process cache, converted to a DOS path.\<close>

definition cached_image :: "norm_env \<Rightarrow> u32 \<Rightarrow> normalizer \<Rightarrow> normalizer \<times> string option" where
  "cached_image env pid nz =
     (let (cache, found) = process_get_image (fst (ne_get env)) (snd (ne_get env)) pid (nz_process nz);
          nz1 = nz\<lparr>nz_process := cache\<rparr>
      in case found of
           None \<Rightarrow> (nz1, None)
         | Some img \<Rightarrow>
             let (drives, dos) = convert_nt_to_dos (ne_drive env) img (nz_drives nz1)
             in (nz1\<lparr>nz_drives := drives\<rparr>, Some dos))"

text \<open>What the arms for registry, network, DNS, service and task events do with the image.\<close>

definition complete_image ::
  "norm_env \<Rightarrow> sensor_event \<Rightarrow> string option \<Rightarrow> string option \<Rightarrow> normalizer
   \<Rightarrow> normalizer \<times> string option" where
  "complete_image env event img process_id nz =
     (if img = None then cached_image env (event_pid event process_id) nz else (nz, img))"

section \<open>Process events\<close>

text \<open>A stop only maintains the cache.\<close>

definition normalize_stop :: "norm_env \<Rightarrow> sensor_event \<Rightarrow> u32 \<Rightarrow> normalizer \<Rightarrow> normalizer" where
  "normalize_stop env event pid nz =
     (let creation_time = (case start_time_of event of
            Some t \<Rightarrow> Some t
          | None \<Rightarrow>
              if pid = 0 then None else process_get_latest_creation_time pid (nz_process nz))
      in case creation_time of
           None \<Rightarrow> nz
         | Some t \<Rightarrow>
             nz\<lparr>nz_process := process_remove (fst (ne_put env)) (snd (ne_put env)) pid t
                  (nz_process nz)\<rparr>)"

text \<open>What a start learns of its parent, and how it enters the cache.\<close>

definition parent_of :: "norm_env \<Rightarrow> u32 option \<Rightarrow> normalizer \<Rightarrow> normalizer \<times> string option \<times> string option"
where
  "parent_of env parent_pid nz =
     (case parent_pid of
        None \<Rightarrow> (nz, None, None)
      | Some ppid \<Rightarrow>
          let (cache, meta) = process_get_metadata (fst (ne_get env)) (snd (ne_get env)) ppid
                (nz_process nz);
              nz1 = nz\<lparr>nz_process := cache\<rparr>
          in case meta of
               None \<Rightarrow> (nz1, None, None)
             | Some m \<Rightarrow> (nz1, Some (pm_image_name m), pm_command_line m))"

definition register_process ::
  "norm_env \<Rightarrow> sensor_event \<Rightarrow> u32 \<Rightarrow> string \<Rightarrow> u32 option \<Rightarrow> process_fields \<Rightarrow> normalizer \<Rightarrow> normalizer"
where
  "register_process env event pid img parent_pid f nz =
     (if pid = 0 then nz
      else
        let start_time = (case start_time_of event of
              Some t \<Rightarrow> t | None \<Rightarrow> process_cache_time_fallback (sv_timestamp event))
        in nz\<lparr>nz_process := process_add (fst (ne_put env)) (snd (ne_put env)) pid start_time img
               (pc_command_line f) (pc_user f) parent_pid (pc_parent_image f)
               (pc_parent_command_line f) (pc_original_file_name f) (pc_product f)
               (pc_description f) (pc_current_directory f) (pc_integrity_level f)
               (pc_logon_id f) (pc_logon_guid f) (nz_process nz)\<rparr>)"

text \<open>What a process event learns of itself.\<close>

definition complete_process ::
  "norm_env \<Rightarrow> sensor_event \<Rightarrow> u32 \<Rightarrow> string option \<Rightarrow> process_fields \<Rightarrow> process_fields" where
  "complete_process env event pid usr fields0 =
     (let f1 = fields0\<lparr>pc_user := usr\<rparr>;
          f2 = (if pc_process_start_time f1 = None
                then f1\<lparr>pc_process_start_time := start_time_of event\<rparr> else f1)
      in if sv_action event = ActStart \<and> pc_command_line f2 = None \<and> pid \<noteq> 0
         then (case ne_command_line env pid of
                 Some cmd \<Rightarrow> f2\<lparr>pc_command_line := Some cmd\<rparr> | None \<Rightarrow> f2)
         else f2)"

definition complete_parent ::
  "string option \<Rightarrow> string option \<Rightarrow> process_fields \<Rightarrow> process_fields" where
  "complete_parent parent_image parent_command_line f3 =
     (let f4 = (if pc_parent_image f3 = None
                then f3\<lparr>pc_parent_image := parent_image\<rparr> else f3)
      in if pc_parent_command_line f4 = None
         then f4\<lparr>pc_parent_command_line := parent_command_line\<rparr> else f4)"

definition normalize_process ::
  "norm_env \<Rightarrow> sensor_event \<Rightarrow> process_fields \<Rightarrow> normalizer \<Rightarrow> normalizer \<times> event_fields option"
where
  "normalize_process env event fields0 nz =
     (let pid = event_pid event (pc_process_id fields0) in
      if sv_action event = ActStop then (normalize_stop env event pid nz, None)
      else
        let (nz1, usr) = resolve_user_field (pc_user fields0) nz;
            f3 = complete_process env event pid usr fields0
        in if sv_action event \<noteq> ActStart then (nz1, Some (ProcessCreation f3))
           else
             (case pc_image f3 of
                None \<Rightarrow> (nz1, Some (ProcessCreation f3))
              | Some img \<Rightarrow>
                  let parent_pid = parse_optional_u32 (pc_parent_process_id f3);
                      (nz2, parent_image, parent_command_line) = parent_of env parent_pid nz1;
                      f5 = complete_parent parent_image parent_command_line f3
                  in (register_process env event pid img parent_pid f5 nz2,
                      Some (ProcessCreation f5))))"

section \<open>The other events\<close>

text \<open>A file event takes the cached image even when it came with one.\<close>

definition normalize_file ::
  "norm_env \<Rightarrow> sensor_event \<Rightarrow> file_fields \<Rightarrow> normalizer \<Rightarrow> normalizer \<times> event_fields option" where
  "normalize_file env event f nz =
     (let (nz1, usr) = resolve_user_field (fe_user f) nz;
          f1 = f\<lparr>fe_user := usr\<rparr>;
          pid = event_pid event (fe_process_id f1)
      in if pid \<noteq> 0 then
           let (nz2, found) = cached_image env pid nz1
           in (nz2, Some (FileEvent
                (case found of None \<Rightarrow> f1 | Some img \<Rightarrow> f1\<lparr>fe_image := Some img\<rparr>)))
         else (nz1, Some (FileEvent f1)))"

definition normalize_registry ::
  "norm_env \<Rightarrow> sensor_event \<Rightarrow> registry_fields \<Rightarrow> normalizer \<Rightarrow> normalizer \<times> event_fields option"
where
  "normalize_registry env event f nz =
     (let (nz1, usr) = resolve_user_field (re_user f) nz;
          (nz2, img) = complete_image env event (re_image f) (re_process_id f) nz1
      in (nz2, Some (RegistryEvent (f\<lparr>re_user := usr, re_image := img\<rparr>))))"

definition protocol_of :: "string option \<Rightarrow> protocol" where
  "protocol_of name =
     (if name = Some ''tcp'' then Tcp else if name = Some ''udp'' then Udp else UnknownProtocol)"

definition complete_hostname :: "norm_env \<Rightarrow> network_fields \<Rightarrow> normalizer \<Rightarrow> network_fields" where
  "complete_hostname env f nz =
     (if nc_destination_hostname f \<noteq> None then f
      else
        (case nc_destination_ip f of
           None \<Rightarrow> f
         | Some destination_ip \<Rightarrow>
             (case parse_ip destination_ip of
                None \<Rightarrow> f
              | Some ip \<Rightarrow>
                  (case dns_lookup (ne_dns_lookup env) ip (nz_dns nz) of
                     None \<Rightarrow> f
                   | Some hostname \<Rightarrow> f\<lparr>nc_destination_hostname := Some hostname\<rparr>))))"

definition connection_of :: "network_fields \<Rightarrow> connection_key option" where
  "connection_of f =
     (case (nc_image f, nc_destination_ip f, nc_destination_port f) of
        (Some img, Some dest_ip, Some dest_port) \<Rightarrow>
          (case (parse_ip dest_ip, parse_uint dest_port) of
             (Some ip, Some port) \<Rightarrow>
               Some \<lparr>ck_process_image = img, ck_dest_ip = ip, ck_dest_port = port,
                     ck_protocol = protocol_of (nc_protocol f)\<rparr>
           | _ \<Rightarrow> None)
      | _ \<Rightarrow> None)"

definition record_connection ::
  "norm_env \<Rightarrow> sensor_event \<Rightarrow> network_fields \<Rightarrow> normalizer \<Rightarrow> normalizer" where
  "record_connection env event f nz =
     (if \<not> nz_aggregation_enabled nz then nz
      else
        (case connection_of f of
           None \<Rightarrow> nz
         | Some key \<Rightarrow>
             nz\<lparr>nz_conn := fst (conn_record (ne_conn_iter env) (fst (ne_conn env))
                  (snd (ne_conn env)) key (event_pid event (nc_process_id f)) (nz_conn nz))\<rparr>))"

definition normalize_network ::
  "norm_env \<Rightarrow> sensor_event \<Rightarrow> network_fields \<Rightarrow> normalizer \<Rightarrow> normalizer \<times> event_fields option"
where
  "normalize_network env event f nz =
     (let (nz1, usr) = resolve_user_field (nc_user f) nz;
          (nz2, img) = complete_image env event (nc_image f) (nc_process_id f) nz1;
          f1 = complete_hostname env (f\<lparr>nc_user := usr, nc_image := img\<rparr>) nz2
      in (record_connection env event f1 nz2, Some (NetworkConnection f1)))"

definition dns_answers_of :: "dns_fields \<Rightarrow> (ip_addr \<times> string) list" where
  "dns_answers_of f =
     (case (dq_query_name f, dq_query_results f) of
        (Some query_name, Some query_results) \<Rightarrow>
          map (\<lambda>ip. (ip, query_name)) (extract_ips_from_query_results query_results)
      | _ \<Rightarrow> [])"

definition normalize_dns ::
  "norm_env \<Rightarrow> sensor_event \<Rightarrow> dns_fields \<Rightarrow> normalizer \<Rightarrow> normalizer \<times> event_fields option" where
  "normalize_dns env event f nz =
     (let (nz1, img) = complete_image env event (dq_image f) (dq_process_id f) nz;
          f1 = f\<lparr>dq_image := img\<rparr>
      in (nz1\<lparr>nz_dns := fold
            (\<lambda>(i, ip, query_name). dns_update (ne_dns_iter env) (ne_dns_update env i) ip query_name)
            (enumerate 0 (dns_answers_of f1)) (nz_dns nz1)\<rparr>,
          Some (DnsQuery f1)))"

definition normalize_image_load ::
  "image_load_fields \<Rightarrow> normalizer \<Rightarrow> normalizer \<times> event_fields option" where
  "normalize_image_load f nz =
     (let (nz1, usr) = resolve_user_field (il_user f) nz
      in (nz1, Some (ImageLoad (f\<lparr>il_user := usr\<rparr>))))"

definition normalize_powershell ::
  "script_fields \<Rightarrow> normalizer \<Rightarrow> normalizer \<times> event_fields option" where
  "normalize_powershell f nz =
     (let (nz1, usr) = resolve_user_field (ps_user f) nz
      in (nz1, Some (PowerShellScript (f\<lparr>ps_user := usr\<rparr>))))"

definition normalize_wmi :: "wmi_fields \<Rightarrow> normalizer \<Rightarrow> normalizer \<times> event_fields option" where
  "normalize_wmi f nz =
     (let (nz1, usr) = resolve_user_field (wm_user f) nz
      in (nz1, Some (WmiEvent (f\<lparr>wm_user := usr\<rparr>))))"

definition normalize_service ::
  "norm_env \<Rightarrow> sensor_event \<Rightarrow> service_fields \<Rightarrow> normalizer \<Rightarrow> normalizer \<times> event_fields option"
where
  "normalize_service env event f nz =
     (let (nz1, usr) = resolve_user_field (sc_user f) nz;
          (nz2, img) = complete_image env event (sc_image f) (sc_process_id f) nz1
      in (nz2, Some (ServiceCreation (f\<lparr>sc_user := usr, sc_image := img\<rparr>))))"

definition normalize_task ::
  "norm_env \<Rightarrow> sensor_event \<Rightarrow> task_fields \<Rightarrow> normalizer \<Rightarrow> normalizer \<times> event_fields option" where
  "normalize_task env event f nz =
     (let (nz1, usr) = resolve_user_field (tc_user f) nz;
          (nz2, img) = complete_image env event (tc_image f) (tc_process_id f) nz1
      in (nz2, Some (TaskCreation (f\<lparr>tc_user := usr, tc_image := img\<rparr>))))"

section \<open>Normalization\<close>

definition normalize_payload ::
  "norm_env \<Rightarrow> sensor_event \<Rightarrow> normalizer \<Rightarrow> normalizer \<times> event_fields option" where
  "normalize_payload env event nz =
     (case sv_payload event of
        PayProcess f \<Rightarrow> normalize_process env event f nz
      | PayNetwork f \<Rightarrow> normalize_network env event f nz
      | PayFile f \<Rightarrow> normalize_file env event f nz
      | PayDns f \<Rightarrow> normalize_dns env event f nz
      | PayRegistry f \<Rightarrow> normalize_registry env event f nz
      | PayImageLoad f \<Rightarrow> normalize_image_load f nz
      | PayScripting f \<Rightarrow> normalize_powershell f nz
      | PayWmi f \<Rightarrow> normalize_wmi f nz
      | PayService f \<Rightarrow> normalize_service env event f nz
      | PayTask f \<Rightarrow> normalize_task env event f nz)"

definition normalize ::
  "norm_env \<Rightarrow> sensor_event \<Rightarrow> normalizer \<Rightarrow> normalizer \<times> normalized_event option" where
  "normalize env event nz =
     (let (nz1, fs) = normalize_payload env event nz
      in (nz1, map_option
           (\<lambda>fs. \<lparr>ev_timestamp = ne_format_time env (sv_timestamp event),
              ev_platform = sv_platform event, ev_provider = sv_provider event,
              ev_category = payload_category (sv_payload event), ev_event_id = sv_event_id event,
              ev_event_id_string = show_uint (sv_event_id event),
              ev_opcode = sv_action_code event, ev_fields = fs, ev_process_context = None\<rparr>) fs))"

section \<open>Process context\<close>

definition context_pid_field :: "event_fields \<Rightarrow> string option" where
  "context_pid_field fs =
     (case fs of
        FileEvent f \<Rightarrow> fe_process_id f
      | RegistryEvent f \<Rightarrow> re_process_id f
      | NetworkConnection f \<Rightarrow> nc_process_id f
      | DnsQuery f \<Rightarrow> dq_process_id f
      | ImageLoad f \<Rightarrow> il_process_id f
      | PowerShellScript f \<Rightarrow> ps_process_id f
      | WmiEvent f \<Rightarrow> wm_process_id f
      | ServiceCreation f \<Rightarrow> sc_process_id f
      | TaskCreation f \<Rightarrow> tc_process_id f
      | RemoteThread f \<Rightarrow> rt_source_process_id f
      | ProcessCreation _ \<Rightarrow> None
      | Generic _ \<Rightarrow> None)"

definition is_process_creation :: "event_fields \<Rightarrow> bool" where
  "is_process_creation fs = (case fs of ProcessCreation _ \<Rightarrow> True | _ \<Rightarrow> False)"

definition context_of_metadata :: "u32 \<Rightarrow> process_metadata \<Rightarrow> process_context" where
  "context_of_metadata pid m =
     \<lparr>cx_image = Some (pm_image_name m), cx_command_line = pm_command_line m,
      cx_process_id = Some (show_uint pid), cx_process_start_time = Some (pm_creation_time m),
      cx_parent_process_id = map_option show_uint (pm_parent_pid m),
      cx_parent_image = pm_parent_image m, cx_parent_command_line = pm_parent_command_line m,
      cx_original_file_name = pm_original_filename m, cx_product = pm_product m,
      cx_description = pm_description m, cx_current_directory = pm_current_directory m,
      cx_integrity_level = pm_integrity_level m, cx_user = pm_user m,
      cx_logon_id = pm_logon_id m, cx_logon_guid = pm_logon_guid m\<rparr>"

definition build_process_context ::
  "norm_env \<Rightarrow> event_fields \<Rightarrow> u32 \<Rightarrow> normalizer \<Rightarrow> normalizer \<times> process_context option" where
  "build_process_context env fs fallback_pid nz =
     (if is_process_creation fs then (nz, None)
      else
        let pid = (case parse_optional_u32 (context_pid_field fs) of
              Some pid \<Rightarrow> pid | None \<Rightarrow> fallback_pid)
        in if pid = 0 then (nz, None)
           else
             let (cache, meta) = process_get_metadata (fst (ne_context env)) (snd (ne_context env))
                   pid (nz_process nz)
             in (nz\<lparr>nz_process := cache\<rparr>, map_option (context_of_metadata pid) meta))"

definition enrich_process_context ::
  "norm_env \<Rightarrow> u32 \<Rightarrow> normalized_event \<Rightarrow> normalizer \<Rightarrow> normalizer \<times> normalized_event" where
  "enrich_process_context env fallback_pid event nz =
     (if ev_process_context event \<noteq> None then (nz, event)
      else
        let (nz1, cx) = build_process_context env (ev_fields event) fallback_pid nz
        in (nz1, event\<lparr>ev_process_context := cx\<rparr>))"

end
