(* ===== verification/Linux_Sensor.thy ===== *)
theory Linux_Sensor
  imports Ebpf_Events Linux_Proc Dns_Wire Normalizer
begin

text \<open>
  \<open>src/sensor/linux/ebpf.rs\<close>: the sensor events built from the raw records, and the draining of the
  ring buffers. The account data base, \<open>/proc\<close> and the clock are parameters.
\<close>

section \<open>Helpers\<close>

definition resolved_linux_user :: "(u32 \<Rightarrow> string option) \<Rightarrow> u32 \<Rightarrow> string" where
  "resolved_linux_user users uid = (case users uid of None \<Rightarrow> show_uint uid | Some name \<Rightarrow> name)"

text \<open>The nanoseconds truncated to 64 bits, 0 before the epoch.\<close>

definition unix_epoch_nanos :: "int \<Rightarrow> u64" where
  "unix_epoch_nanos timestamp = (if timestamp < 0 then 0 else of_int timestamp)"

definition is_unspecified :: "ip_addr \<Rightarrow> bool" where
  "is_unspecified ip = (case ip of V4 w \<Rightarrow> w = 0 | V6 w \<Rightarrow> w = 0)"

definition filter_unspecified_ip :: "string option \<Rightarrow> string option" where
  "filter_unspecified_ip v =
     (case v of None \<Rightarrow> None
      | Some ip \<Rightarrow>
          if (case parse_ip ip of None \<Rightarrow> False | Some a \<Rightarrow> is_unspecified a) then None else Some ip)"

definition nonempty :: "string \<Rightarrow> string option" where
  "nonempty s = (if s = [] then None else Some s)"

section \<open>Processes\<close>

definition linux_process_start ::
    "procfs \<Rightarrow> (u32 \<Rightarrow> string option) \<Rightarrow> int \<Rightarrow> process_raw \<Rightarrow> sensor_event option" where
  "linux_process_start pf users now ev =
     (let user = resolved_linux_user users (pr_uid ev);
          details = query_process_details pf (pr_pid ev)
      in case (case nonempty (bytes_to_string (pr_image ev)) of
                 Some v \<Rightarrow> Some v | None \<Rightarrow> Option.bind details pd_image) of
           None \<Rightarrow> None
         | Some img \<Rightarrow>
             Some \<lparr>sv_platform = Linux, sv_provider = ''ebpf'', sv_action = ActStart,
               sv_event_id = 1, sv_action_code = 1, sv_pid = Some (pr_pid ev), sv_timestamp = now,
               sv_process_start_key = Some \<lparr>sk_pid = pr_pid ev,
                 sk_start_time = (case Option.bind details pd_start_time of
                   None \<Rightarrow> unix_epoch_nanos now | Some t \<Rightarrow> t)\<rparr>,
               sv_payload = PayProcess \<lparr>pc_image = Some img, pc_original_file_name = None,
                 pc_product = None, pc_description = None, pc_target_image = None,
                 pc_command_line = Option.bind details pd_command_line,
                 pc_process_id = Some (show_uint (pr_pid ev)), pc_process_start_time = None,
                 pc_parent_process_id =
                   map_option show_uint (Option.bind details pd_parent_process_id),
                 pc_parent_image = Option.bind details pd_parent_image,
                 pc_parent_command_line = Option.bind details pd_parent_command_line,
                 pc_current_directory = Option.bind details pd_current_directory,
                 pc_integrity_level = None, pc_user = Some user, pc_logon_id = None,
                 pc_logon_guid = None\<rparr>\<rparr>)"

definition linux_process_stop ::
    "(u32 \<Rightarrow> string option) \<Rightarrow> int \<Rightarrow> process_raw \<Rightarrow> sensor_event" where
  "linux_process_stop users now ev =
     \<lparr>sv_platform = Linux, sv_provider = ''ebpf'', sv_action = ActStop, sv_event_id = 5,
      sv_action_code = 2, sv_pid = Some (pr_pid ev), sv_timestamp = now,
      sv_process_start_key = None,
      sv_payload = PayProcess \<lparr>pc_image = None, pc_original_file_name = None, pc_product = None,
        pc_description = None, pc_target_image = None, pc_command_line = None,
        pc_process_id = Some (show_uint (pr_pid ev)), pc_process_start_time = None,
        pc_parent_process_id = None, pc_parent_image = None, pc_parent_command_line = None,
        pc_current_directory = None, pc_integrity_level = None,
        pc_user = Some (resolved_linux_user users (pr_uid ev)), pc_logon_id = None,
        pc_logon_guid = None\<rparr>\<rparr>"

definition build_process_event ::
    "procfs \<Rightarrow> (u32 \<Rightarrow> string option) \<Rightarrow> int \<Rightarrow> process_raw \<Rightarrow> sensor_event option" where
  "build_process_event pf users now ev =
     (if pr_kind ev = 1 then linux_process_start pf users now ev
      else if pr_kind ev = 2 then Some (linux_process_stop users now ev)
      else None)"

section \<open>Connections\<close>

text \<open>The destination and the source, \<open>None\<close> when the event is dropped.\<close>

definition network_addresses :: "network_raw \<Rightarrow> (string \<times> string option) option" where
  "network_addresses ev =
     (let shown = (\<lambda>dst src.
        if is_unspecified dst then None
        else Some (show_ip dst, if is_unspecified src then None else Some (show_ip src)))
      in if nr_af ev = 2 then
           shown (ipv4_new (nr_daddr ev ! 0) (nr_daddr ev ! 1) (nr_daddr ev ! 2) (nr_daddr ev ! 3))
             (ipv4_new (nr_saddr ev ! 0) (nr_saddr ev ! 1) (nr_saddr ev ! 2) (nr_saddr ev ! 3))
         else if nr_af ev = 10 then
           shown (ipv6_from_octets (nr_daddr ev)) (ipv6_from_octets (nr_saddr ev))
         else None)"

definition linux_network_event ::
    "(u32 \<Rightarrow> string option) \<Rightarrow> int \<Rightarrow> network_raw \<Rightarrow> string \<Rightarrow> string option \<Rightarrow>
     socket_metadata option \<Rightarrow> sensor_event" where
  "linux_network_event users now ev destination_ip source socket =
     \<lparr>sv_platform = Linux, sv_provider = ''ebpf'', sv_action = ActConnect, sv_event_id = 3,
      sv_action_code = 0, sv_pid = Some (nr_pid ev), sv_timestamp = now,
      sv_process_start_key = None,
      sv_payload = PayNetwork \<lparr>nc_destination_ip = Some destination_ip,
        nc_source_ip = (case source of Some ip \<Rightarrow> Some ip
          | None \<Rightarrow> Option.bind socket (\<lambda>m. filter_unspecified_ip (sm_source_ip m))),
        nc_destination_port = Some (show_uint (nr_dport ev)),
        nc_source_port = (if 0 < nr_sport ev then Some (show_uint (nr_sport ev))
          else map_option show_uint (Option.bind socket sm_source_port)),
        nc_process_id = Some (show_uint (nr_pid ev)), nc_image = None,
        nc_user = Some (resolved_linux_user users (nr_uid ev)), nc_destination_hostname = None,
        nc_protocol = Option.bind socket sm_protocol\<rparr>\<rparr>"

definition build_network_event ::
    "procfs \<Rightarrow> (u32 \<Rightarrow> string option) \<Rightarrow> int \<Rightarrow> network_raw \<Rightarrow> sensor_event option outcome" where
  "build_network_event pf users now ev =
     (if nr_dport ev = 0 then Returns None
      else
        case network_addresses ev of
          None \<Rightarrow> Returns None
        | Some (destination_ip, source_ip) \<Rightarrow>
            (case query_socket_metadata pf (nr_pid ev) (nr_fd ev) of
               Panics \<Rightarrow> Panics
             | Returns socket \<Rightarrow>
                 Returns (Some (linux_network_event users now ev destination_ip source_ip socket))))"

section \<open>Files\<close>

definition build_file_event ::
    "(u32 \<Rightarrow> string option) \<Rightarrow> int \<Rightarrow> file_raw \<Rightarrow> sensor_event option" where
  "build_file_event users now ev =
     (let path = bytes_to_string (fr_path ev) in
      if path = [] then None
      else
        case (if fr_kind ev = 1 then Some (ActCreate, 11, 64)
              else if fr_kind ev = 2 then Some (ActDelete, 23, 70)
              else if fr_kind ev = 3 then Some (ActRename, 71, 71)
              else if fr_kind ev = 4 then Some (ActModify, 65, 65) else None) of
          None \<Rightarrow> None
        | Some (action, event_id, action_code) \<Rightarrow>
            Some \<lparr>sv_platform = Linux, sv_provider = ''ebpf'', sv_action = action,
              sv_event_id = event_id, sv_action_code = action_code, sv_pid = Some (fr_pid ev),
              sv_timestamp = now, sv_process_start_key = None,
              sv_payload = PayFile \<lparr>
                fe_source_filename =
                  (if fr_kind ev = 3 then nonempty (bytes_to_string (fr_aux_path ev)) else None),
                fe_target_filename = Some path,
                fe_process_id = Some (show_uint (fr_pid ev)),
                fe_image = nonempty (bytes_to_string (fr_comm ev)),
                fe_creation_utc_time = None, fe_previous_creation_utc_time = None,
                fe_user = Some (resolved_linux_user users (fr_uid ev))\<rparr>\<rparr>)"

section \<open>DNS queries\<close>

definition parse_dns_query_name :: "dns_raw \<Rightarrow> string option" where
  "parse_dns_query_name ev =
     (let payload_len = min (unat (dr_payload_len ev)) (length (dr_payload ev))
      in map_option fst (parse_question (take payload_len (dr_payload ev))))"

definition build_dns_event :: "int \<Rightarrow> dns_raw \<Rightarrow> sensor_event option" where
  "build_dns_event now ev =
     (let record_type = bytes_to_string (dr_record_type ev) in
      if record_type = [] then None
      else Some \<lparr>sv_platform = Linux, sv_provider = ''ebpf'', sv_action = ActQuery,
        sv_event_id = 22, sv_action_code = 0, sv_pid = Some (dr_pid ev), sv_timestamp = now,
        sv_process_start_key = None,
        sv_payload = PayDns \<lparr>
          dq_query_name = (case parse_dns_query_name ev of
            Some name \<Rightarrow> Some name | None \<Rightarrow> nonempty (bytes_to_string (dr_query_name ev))),
          dq_query_results = nonempty (bytes_to_string (dr_query_results ev)),
          dq_record_type = Some record_type, dq_query_status = None,
          dq_process_id = Some (show_uint (dr_pid ev)), dq_image = None\<rparr>\<rparr>)"

end
