(* ===== verification/Ebpf_Programs.thy ===== *)
theory Ebpf_Programs
  imports Ebpf_Events
begin

text \<open>
  The eBPF programs of \<open>ebpf/src/\<close>. The kernel's helpers are parameters: the arguments of a
  tracepoint, the current task, user memory, and whether a ring buffer has room for an entry. A
  program returns its new state and its result; \<open>?\<close> on a failed read is the result 1 with the
  state as it is then.
\<close>

unbundle bit_operations_syntax

section \<open>The kernel's side\<close>

text \<open>The arguments of a tracepoint by offset.\<close>

record tracepoint =
  tp_u32 :: "nat \<Rightarrow> u32 option"
  tp_u64 :: "nat \<Rightarrow> u64 option"

record task =
  tk_pid_tgid :: u64
  tk_uid_gid :: u64
  tk_comm :: "u8 list option"

text \<open>
  User memory: the bytes at an address, and what the string helper leaves in a zeroed buffer of
  a size (kernel addresses for the file name of an exec).
\<close>

record memory =
  um_read :: "u64 \<Rightarrow> nat \<Rightarrow> u8 list option"
  um_str :: "u64 \<Rightarrow> nat \<Rightarrow> u8 list"

definition task_pid :: "task \<Rightarrow> u32" where
  "task_pid t = ucast (drop_bit 32 (tk_pid_tgid t))"

definition task_tid :: "task \<Rightarrow> u32" where
  "task_tid t = ucast (tk_pid_tgid t)"

definition task_uid :: "task \<Rightarrow> u32" where
  "task_uid t = ucast (tk_uid_gid t)"

definition task_comm :: "task \<Rightarrow> u8 list" where
  "task_comm t = (case tk_comm t of None \<Rightarrow> replicate 16 0 | Some c \<Rightarrow> c)"

text \<open>A hash map of the kernel: a new key is refused when the map is full.\<close>

definition map_insert :: "nat \<Rightarrow> u32 \<Rightarrow> 'v \<Rightarrow> (u32, 'v) hmap \<Rightarrow> (u32, 'v) hmap" where
  "map_insert max_entries k v m =
     (if hm_get m k = None \<and> max_entries \<le> length m then m else hm_insert k v m)"

section \<open>Files\<close>

record file_maps =
  fm_ring :: "file_raw list"
  fm_openat_pending :: "(u32, file_raw) hmap"
  fm_openat_created :: "(u32, u8) hmap"
  fm_unlinkat_pending :: "(u32, file_raw) hmap"
  fm_rename_pending :: "(u32, file_raw) hmap"

definition pending_max :: nat where
  "pending_max = 16384"

definition o_creat :: u64 where "o_creat = 0x40"
definition o_wronly :: u64 where "o_wronly = 0x1"
definition o_rdwr :: u64 where "o_rdwr = 0x2"
definition o_trunc :: u64 where "o_trunc = 0x200"
definition o_append :: u64 where "o_append = 0x400"

text \<open>The new pending map and the result.\<close>

definition queue_file_event ::
    "memory \<Rightarrow> task \<Rightarrow> tracepoint \<Rightarrow> u32 \<Rightarrow> (u32, file_raw) hmap \<Rightarrow> (u32, file_raw) hmap \<times> u32" where
  "queue_file_event um t ctx kind pending =
     (case tp_u64 ctx 24 of
        None \<Rightarrow> (pending, 1)
      | Some path_ptr \<Rightarrow>
          if path_ptr = 0 then (pending, 0)
          else
            let path = um_str um path_ptr 96
            in if path ! 0 = 0 then (pending, 0)
               else
                 (map_insert pending_max (task_tid t)
                   \<lparr>fr_kind = kind, fr_pid = task_pid t, fr_uid = task_uid t, fr_pad0 = 0,
                    fr_path = path, fr_aux_path = replicate 96 0, fr_comm = task_comm t\<rparr> pending, 0))"

definition queue_rename_event ::
    "memory \<Rightarrow> task \<Rightarrow> tracepoint \<Rightarrow> (u32, file_raw) hmap \<Rightarrow> (u32, file_raw) hmap \<times> u32" where
  "queue_rename_event um t ctx pending =
     (case tp_u64 ctx 24 of
        None \<Rightarrow> (pending, 1)
      | Some old_path_ptr \<Rightarrow>
          (case tp_u64 ctx 40 of
             None \<Rightarrow> (pending, 1)
           | Some new_path_ptr \<Rightarrow>
               if old_path_ptr = 0 \<or> new_path_ptr = 0 then (pending, 0)
               else
                 let path = um_str um new_path_ptr 96; aux_path = um_str um old_path_ptr 96
                 in if path ! 0 = 0 \<or> aux_path ! 0 = 0 then (pending, 0)
                    else
                      (map_insert pending_max (task_tid t)
                        \<lparr>fr_kind = 3, fr_pid = task_pid t, fr_uid = task_uid t, fr_pad0 = 0,
                         fr_path = path, fr_aux_path = aux_path, fr_comm = task_comm t\<rparr>
                        pending, 0)))"

text \<open>The pending map and what is appended to the ring.\<close>

definition emit_pending_file_event ::
    "bool \<Rightarrow> task \<Rightarrow> bool \<Rightarrow> (u32, file_raw) hmap \<Rightarrow> (u32, file_raw) hmap \<times> file_raw list" where
  "emit_pending_file_event room t should_emit pending =
     (let pending_event = hm_get pending (task_tid t); pending' = hm_remove (task_tid t) pending
      in if \<not> should_emit then (pending', [])
         else case pending_event of None \<Rightarrow> (pending', [])
              | Some ev \<Rightarrow> (pending', if room then [ev] else []))"

definition try_handle_openat ::
    "memory \<Rightarrow> task \<Rightarrow> tracepoint \<Rightarrow> file_maps \<Rightarrow> file_maps \<times> u32" where
  "try_handle_openat um t ctx m =
     (case tp_u64 ctx 32 of
        None \<Rightarrow> (m, 1)
      | Some flags \<Rightarrow>
          if flags AND o_creat \<noteq> 0 then
            let (p, r) = queue_file_event um t ctx 1 (fm_openat_pending m)
            in (m\<lparr>fm_openat_created := hm_remove (task_tid t) (fm_openat_created m),
                  fm_openat_pending := p\<rparr>, r)
          else if flags AND (o_wronly OR o_rdwr OR o_trunc OR o_append) \<noteq> 0 then
            let (p, r) = queue_file_event um t ctx 4 (fm_openat_pending m)
            in (m\<lparr>fm_openat_pending := p\<rparr>, r)
          else (m, 0))"

definition try_handle_openat_exit ::
    "bool \<Rightarrow> task \<Rightarrow> tracepoint \<Rightarrow> file_maps \<Rightarrow> file_maps \<times> u32" where
  "try_handle_openat_exit room t ctx m =
     (case tp_u64 ctx 16 of
        None \<Rightarrow> (m, 1)
      | Some ret \<Rightarrow>
          let (p, out) = emit_pending_file_event room t (0 \<le> sint ret) (fm_openat_pending m)
          in (m\<lparr>fm_openat_created := hm_remove (task_tid t) (fm_openat_created m),
                fm_openat_pending := p, fm_ring := fm_ring m @ out\<rparr>, 0))"

definition try_handle_unlinkat ::
    "memory \<Rightarrow> task \<Rightarrow> tracepoint \<Rightarrow> file_maps \<Rightarrow> file_maps \<times> u32" where
  "try_handle_unlinkat um t ctx m =
     (let (p, r) = queue_file_event um t ctx 2 (fm_unlinkat_pending m)
      in (m\<lparr>fm_unlinkat_pending := p\<rparr>, r))"

definition try_handle_unlinkat_exit ::
    "bool \<Rightarrow> task \<Rightarrow> tracepoint \<Rightarrow> file_maps \<Rightarrow> file_maps \<times> u32" where
  "try_handle_unlinkat_exit room t ctx m =
     (case tp_u64 ctx 16 of
        None \<Rightarrow> (m, 1)
      | Some ret \<Rightarrow>
          let (p, out) = emit_pending_file_event room t (ret = 0) (fm_unlinkat_pending m)
          in (m\<lparr>fm_unlinkat_pending := p, fm_ring := fm_ring m @ out\<rparr>, 0))"

definition try_handle_renameat ::
    "memory \<Rightarrow> task \<Rightarrow> tracepoint \<Rightarrow> file_maps \<Rightarrow> file_maps \<times> u32" where
  "try_handle_renameat um t ctx m =
     (let (p, r) = queue_rename_event um t ctx (fm_rename_pending m)
      in (m\<lparr>fm_rename_pending := p\<rparr>, r))"

definition try_handle_renameat_exit ::
    "bool \<Rightarrow> task \<Rightarrow> tracepoint \<Rightarrow> file_maps \<Rightarrow> file_maps \<times> u32" where
  "try_handle_renameat_exit room t ctx m =
     (case tp_u64 ctx 16 of
        None \<Rightarrow> (m, 1)
      | Some ret \<Rightarrow>
          let (p, out) = emit_pending_file_event room t (ret = 0) (fm_rename_pending m)
          in (m\<lparr>fm_rename_pending := p, fm_ring := fm_ring m @ out\<rparr>, 0))"

definition try_handle_vfs_create :: "task \<Rightarrow> file_maps \<Rightarrow> file_maps \<times> u32" where
  "try_handle_vfs_create t m =
     (if hm_get (fm_openat_pending m) (task_tid t) = None then (m, 0)
      else (m\<lparr>fm_openat_created := map_insert pending_max (task_tid t) 1 (fm_openat_created m)\<rparr>, 0))"

section \<open>Processes\<close>

definition try_handle_exec ::
    "bool \<Rightarrow> memory \<Rightarrow> u64 \<Rightarrow> task \<Rightarrow> tracepoint \<Rightarrow> process_raw list \<Rightarrow> process_raw list \<times> u32" where
  "try_handle_exec room um ctx_ptr t ctx ring =
     (case tp_u32 ctx 12 of
        None \<Rightarrow> (ring, 1)
      | Some pid \<Rightarrow>
          (case tp_u32 ctx 8 of
             None \<Rightarrow> (ring, 1)
           | Some data_loc \<Rightarrow>
               let fname_ptr = ctx_ptr + ucast (data_loc AND 0xFFFF); img = um_str um fname_ptr 128
               in (ring @ (if room then [\<lparr>pr_kind = 1, pr_pid = pid, pr_uid = task_uid t,
                     pr_pad = 0, pr_comm = task_comm t, pr_image = img\<rparr>] else []), 0)))"

definition try_handle_exit ::
    "bool \<Rightarrow> task \<Rightarrow> process_raw list \<Rightarrow> process_raw list \<times> u32" where
  "try_handle_exit room t ring =
     (if task_pid t = 0 \<or> task_pid t \<noteq> task_tid t then (ring, 0)
      else (ring @ (if room then [\<lparr>pr_kind = 2, pr_pid = task_pid t, pr_uid = task_uid t,
              pr_pad = 0, pr_comm = task_comm t, pr_image = replicate 128 0\<rparr>] else []), 0))"

section \<open>Connections\<close>

text \<open>The big-endian port and the address of a \<open>sockaddr_in\<close> or \<open>sockaddr_in6\<close>.\<close>

definition sockaddr_port :: "u8 list \<Rightarrow> u16" where
  "sockaddr_port sa = u16_from_be_bytes (sa ! 2) (sa ! 3)"

definition try_handle_connect ::
    "bool \<Rightarrow> memory \<Rightarrow> task \<Rightarrow> tracepoint \<Rightarrow> network_raw list \<Rightarrow> network_raw list \<times> u32" where
  "try_handle_connect room um t ctx ring =
     (case (tp_u64 ctx 16, tp_u64 ctx 24) of
        (Some fd, Some uservaddr) \<Rightarrow>
          if uservaddr = 0 then (ring, 0)
          else
            (case um_read um uservaddr 2 of
               None \<Rightarrow> (ring, 1)
             | Some fam \<Rightarrow>
                 let family = le_word fam :: u16;
                     entry = (\<lambda>dport daddr.
                       \<lparr>nr_pid = task_pid t, nr_uid = task_uid t, nr_fd = ucast fd, nr_pad0 = 0,
                        nr_dport = dport, nr_sport = 0, nr_af = family, nr_pad1 = 0,
                        nr_daddr = daddr, nr_saddr = replicate 16 0\<rparr>)
                 in if family = 2 then
                      (case um_read um uservaddr 16 of
                         None \<Rightarrow> (ring, 1)
                       | Some sa \<Rightarrow>
                           let daddr = field 4 4 sa @ replicate 12 0
                           in if daddr ! 0 = 127 then (ring, 0)
                              else (ring @ (if room then [entry (sockaddr_port sa) daddr] else []), 0))
                    else if family = 10 then
                      (case um_read um uservaddr 28 of
                         None \<Rightarrow> (ring, 1)
                       | Some sa \<Rightarrow>
                           (ring @ (if room then [entry (sockaddr_port sa) (field 8 16 sa)] else []), 0))
                    else (ring, 0))
      | _ \<Rightarrow> (ring, 1))"

section \<open>DNS queries\<close>

definition max_dns_payload :: nat where
  "max_dns_payload = 256"

definition max_sendmmsg_messages :: nat where
  "max_sendmmsg_messages = 4"

definition dns_header_len :: nat where
  "dns_header_len = 12"

text \<open>\<open>None\<close> when user memory cannot be read.\<close>

definition sockaddr_points_to_dns_port :: "memory \<Rightarrow> u64 \<Rightarrow> bool option" where
  "sockaddr_points_to_dns_port um addr_ptr =
     (case um_read um addr_ptr 2 of
        None \<Rightarrow> None
      | Some fam \<Rightarrow>
          let family = le_word fam :: u16 in
          if family = 2 then map_option (\<lambda>sa. sockaddr_port sa = 53) (um_read um addr_ptr 16)
          else if family = 10 then map_option (\<lambda>sa. sockaddr_port sa = 53) (um_read um addr_ptr 28)
          else Some False)"

definition record_type_text :: "u16 \<Rightarrow> string" where
  "record_type_text record_type =
     (if record_type = 1 then ''A'' else if record_type = 2 then ''NS''
      else if record_type = 5 then ''CNAME'' else if record_type = 12 then ''PTR''
      else if record_type = 16 then ''TXT'' else if record_type = 28 then ''AAAA'' else ''OTHER'')"

definition write_record_type :: "u16 \<Rightarrow> u8 list" where
  "write_record_type record_type = c_array 16 (map (\<lambda>c. of_nat (of_char c)) (record_type_text record_type))"

text \<open>The position of the zero byte after the name, \<open>None\<close> when the loop leaves the function.\<close>

fun scan_name :: "nat \<Rightarrow> nat \<Rightarrow> nat \<Rightarrow> u8 list \<Rightarrow> nat option" where
  "scan_name 0 pos read_len payload = Some pos"
| "scan_name (Suc trips) pos read_len payload =
     (if read_len \<le> pos then None
      else if payload ! (pos mod max_dns_payload) = 0 then Some pos
      else scan_name trips (pos + 1) read_len payload)"

text \<open>
  The payload is the per-CPU scratch buffer after the read, of which every field is overwritten
  before it is submitted. The result is what is appended to the ring.
\<close>

definition emit_dns_query ::
    "bool \<Rightarrow> u32 \<Rightarrow> u32 \<Rightarrow> i32 \<Rightarrow> nat \<Rightarrow> u8 list \<Rightarrow> dns_raw list" where
  "emit_dns_query room pid uid fd read_len payload =
     (if read_len < dns_header_len \<or> max_dns_payload < read_len then []
      else
        let flags = push_bit 8 (ucast (payload ! 2)) OR ucast (payload ! 3) :: u16;
            qdcount = push_bit 8 (ucast (payload ! 4)) OR ucast (payload ! 5) :: u16
        in if flags AND 0x8000 \<noteq> 0 \<or> qdcount = 0 then []
           else
             case scan_name max_dns_payload dns_header_len read_len payload of
               None \<Rightarrow> []
             | Some pos \<Rightarrow>
                 if read_len < pos + 3 then []
                 else
                   let qtype = push_bit 8 (ucast (payload ! ((pos + 1) mod max_dns_payload))) OR
                         ucast (payload ! ((pos + 2) mod max_dns_payload))
                   in if room then [\<lparr>dr_kind = 1, dr_pid = pid, dr_uid = uid, dr_fd = fd,
                        dr_payload_len = of_nat read_len, dr_pad0 = 0,
                        dr_query_name = replicate 96 0, dr_query_results = replicate 96 0,
                        dr_record_type = write_record_type qtype, dr_payload = payload\<rparr>]
                      else [])"

definition zero_filled :: "u8 list \<Rightarrow> u8 list" where
  "zero_filled bs = bs @ replicate (max_dns_payload - length bs) 0"

text \<open>The length of a buffer is a \<open>u64\<close> read as \<open>usize\<close>.\<close>

definition try_handle_sendto ::
    "bool \<Rightarrow> memory \<Rightarrow> task \<Rightarrow> tracepoint \<Rightarrow> dns_raw list \<Rightarrow> dns_raw list \<times> u32" where
  "try_handle_sendto room um t ctx ring =
     (case (tp_u64 ctx 16, tp_u64 ctx 24, tp_u64 ctx 32, tp_u64 ctx 48) of
        (Some fd, Some buf_ptr, Some len, Some addr_ptr) \<Rightarrow>
          if buf_ptr = 0 \<or> unat len < dns_header_len then (ring, 0)
          else
            (case (if addr_ptr = 0 then Some True else sockaddr_points_to_dns_port um addr_ptr) of
               None \<Rightarrow> (ring, 1)
             | Some False \<Rightarrow> (ring, 0)
             | Some True \<Rightarrow>
                 let read_len = min (unat len) max_dns_payload
                 in case um_read um buf_ptr read_len of
                      None \<Rightarrow> (ring, 0)
                    | Some bs \<Rightarrow>
                        (ring @ emit_dns_query room (task_pid t) (task_uid t) (ucast fd) read_len
                           (zero_filled bs), 0))
      | _ \<Rightarrow> (ring, 1))"

text \<open>The fields of a \<open>UserMsghdr\<close> (56 bytes) and a \<open>UserIovec\<close> (16 bytes) the code uses.\<close>

record user_msghdr =
  mh_name :: u64
  mh_iov :: u64
  mh_iovlen :: u64

definition read_msghdr :: "memory \<Rightarrow> u64 \<Rightarrow> user_msghdr option" where
  "read_msghdr um ptr =
     map_option (\<lambda>bs. \<lparr>mh_name = le_word (field 0 8 bs), mh_iov = le_word (field 16 8 bs),
       mh_iovlen = le_word (field 24 8 bs)\<rparr>) (um_read um ptr 56)"

definition read_iovec_payload :: "memory \<Rightarrow> user_msghdr \<Rightarrow> (nat \<times> u8 list) option" where
  "read_iovec_payload um msg =
     (if mh_iov msg = 0 \<or> mh_iovlen msg < 1 then None
      else
        case um_read um (mh_iov msg) 16 of
          None \<Rightarrow> None
        | Some iovec \<Rightarrow>
            let iov_base = le_word (field 0 8 iovec) :: u64; iov_len = le_word (field 8 8 iovec) :: u64
            in if iov_base = 0 \<or> unat iov_len < dns_header_len then None
               else
                 let read_len = min (unat iov_len) max_dns_payload
                 in map_option (\<lambda>bs. (read_len, zero_filled bs)) (um_read um iov_base read_len))"

text \<open>
  One message: \<open>None\<close> for a failed read of its address, which ends the program, otherwise the
  entries appended.
\<close>

definition message_query ::
    "bool \<Rightarrow> memory \<Rightarrow> task \<Rightarrow> i32 \<Rightarrow> user_msghdr \<Rightarrow> dns_raw list option" where
  "message_query room um t fd msg =
     (case (if mh_name msg = 0 then Some True else sockaddr_points_to_dns_port um (mh_name msg)) of
        None \<Rightarrow> None
      | Some False \<Rightarrow> Some []
      | Some True \<Rightarrow>
          (case read_iovec_payload um msg of
             None \<Rightarrow> Some []
           | Some (read_len, payload) \<Rightarrow>
               Some (emit_dns_query room (task_pid t) (task_uid t) fd read_len payload)))"

definition try_handle_sendmsg ::
    "bool \<Rightarrow> memory \<Rightarrow> task \<Rightarrow> tracepoint \<Rightarrow> dns_raw list \<Rightarrow> dns_raw list \<times> u32" where
  "try_handle_sendmsg room um t ctx ring =
     (case (tp_u64 ctx 16, tp_u64 ctx 24) of
        (Some fd, Some msg_ptr) \<Rightarrow>
          if msg_ptr = 0 then (ring, 0)
          else
            (case read_msghdr um msg_ptr of
               None \<Rightarrow> (ring, 0)
             | Some msg \<Rightarrow>
                 (case message_query room um t (ucast fd) msg of
                    None \<Rightarrow> (ring, 1) | Some out \<Rightarrow> (ring @ out, 0)))
      | _ \<Rightarrow> (ring, 1))"

text \<open>The loop over the messages, from an index with some trips left.\<close>

fun sendmmsg_loop ::
    "nat \<Rightarrow> bool \<Rightarrow> memory \<Rightarrow> task \<Rightarrow> i32 \<Rightarrow> u64 \<Rightarrow> nat \<Rightarrow> nat \<Rightarrow> dns_raw list \<Rightarrow> dns_raw list \<times> u32"
where
  "sendmmsg_loop 0 room um t fd msgvec_ptr message_count index ring = (ring, 0)"
| "sendmmsg_loop (Suc trips) room um t fd msgvec_ptr message_count index ring =
     (if message_count \<le> index then (ring, 0)
      else
        case read_msghdr um (msgvec_ptr + of_nat (index * 64)) of
          None \<Rightarrow> (ring, 0)
        | Some msg \<Rightarrow>
            (case message_query room um t fd msg of
               None \<Rightarrow> (ring, 1)
             | Some out \<Rightarrow>
                 sendmmsg_loop trips room um t fd msgvec_ptr message_count (index + 1) (ring @ out)))"

definition try_handle_sendmmsg ::
    "bool \<Rightarrow> memory \<Rightarrow> task \<Rightarrow> tracepoint \<Rightarrow> dns_raw list \<Rightarrow> dns_raw list \<times> u32" where
  "try_handle_sendmmsg room um t ctx ring =
     (case (tp_u64 ctx 16, tp_u64 ctx 24, tp_u64 ctx 32) of
        (Some fd, Some msgvec_ptr, Some message_count) \<Rightarrow>
          if msgvec_ptr = 0 \<or> message_count = 0 then (ring, 0)
          else sendmmsg_loop max_sendmmsg_messages room um t (ucast fd) msgvec_ptr
            (unat message_count) 0 ring
      | _ \<Rightarrow> (ring, 1))"

end
