(* ===== verification/Ebpf_Trace.thy ===== *)
theory Ebpf_Trace
  imports Ebpf_Programs
begin

text \<open>
  What the file programs report of a trace of system calls. The programs run at the entry and the
  exit of a call, in any interleaving of the threads, and keep what the entry read in maps keyed by
  thread. The abstract machine below knows only which call each thread is in.
\<close>

unbundle bit_operations_syntax

section \<open>The programs on a trace\<close>

datatype file_call = Openat | Unlinkat | Renameat

datatype file_op =
  Enter file_call memory task tracepoint
| VfsCreate task
| Leave file_call task tracepoint bool

definition enter_program :: "file_call \<Rightarrow> memory \<Rightarrow> task \<Rightarrow> tracepoint \<Rightarrow> file_maps \<Rightarrow> file_maps" where
  "enter_program call um t ctx m =
     (case call of Openat \<Rightarrow> fst (try_handle_openat um t ctx m)
      | Unlinkat \<Rightarrow> fst (try_handle_unlinkat um t ctx m)
      | Renameat \<Rightarrow> fst (try_handle_renameat um t ctx m))"

definition leave_program :: "file_call \<Rightarrow> bool \<Rightarrow> task \<Rightarrow> tracepoint \<Rightarrow> file_maps \<Rightarrow> file_maps" where
  "leave_program call room t ctx m =
     (case call of Openat \<Rightarrow> fst (try_handle_openat_exit room t ctx m)
      | Unlinkat \<Rightarrow> fst (try_handle_unlinkat_exit room t ctx m)
      | Renameat \<Rightarrow> fst (try_handle_renameat_exit room t ctx m))"

fun file_op_state :: "file_maps \<Rightarrow> file_op \<Rightarrow> file_maps" where
  "file_op_state m (Enter call um t ctx) = enter_program call um t ctx m"
| "file_op_state m (VfsCreate t) = fst (try_handle_vfs_create t m)"
| "file_op_state m (Leave call t ctx room) = leave_program call room t ctx m"

text \<open>A step and what it appends to the ring.\<close>

definition file_step :: "file_maps \<Rightarrow> file_op \<Rightarrow> file_maps \<times> file_raw list" where
  "file_step m op =
     (let m' = file_op_state m op in (m', drop (length (fm_ring m)) (fm_ring m')))"

definition no_file_calls :: file_maps where
  "no_file_calls = \<lparr>fm_ring = [], fm_openat_pending = [], fm_openat_created = [],
     fm_unlinkat_pending = [], fm_rename_pending = []\<rparr>"

section \<open>The abstract machine\<close>

definition task_event :: "task \<Rightarrow> u32 \<Rightarrow> u8 list \<Rightarrow> u8 list \<Rightarrow> file_raw" where
  "task_event t kind path aux_path =
     \<lparr>fr_kind = kind, fr_pid = task_pid t, fr_uid = task_uid t, fr_pad0 = 0, fr_path = path,
      fr_aux_path = aux_path, fr_comm = task_comm t\<rparr>"

text \<open>The text at a pointer argument, \<open>None\<close> for a null pointer or an empty text.\<close>

definition path_argument :: "memory \<Rightarrow> tracepoint \<Rightarrow> nat \<Rightarrow> u8 list option" where
  "path_argument um ctx off =
     (case tp_u64 ctx off of None \<Rightarrow> None
      | Some ptr \<Rightarrow> if ptr = 0 \<or> um_str um ptr 96 ! 0 = 0 then None else Some (um_str um ptr 96))"

text \<open>What a call would report on success: creation when it may create, change when it may write.\<close>

definition open_kind :: "u64 \<Rightarrow> u32 option" where
  "open_kind flags =
     (if flags AND o_creat \<noteq> 0 then Some 1
      else if flags AND (o_wronly OR o_rdwr OR o_trunc OR o_append) \<noteq> 0 then Some 4 else None)"

definition candidate :: "file_call \<Rightarrow> memory \<Rightarrow> task \<Rightarrow> tracepoint \<Rightarrow> file_raw option" where
  "candidate call um t ctx =
     (case call of
        Openat \<Rightarrow>
          Option.bind (Option.bind (tp_u64 ctx 32) open_kind) (\<lambda>kind.
            map_option (\<lambda>path. task_event t kind path (replicate 96 0)) (path_argument um ctx 24))
      | Unlinkat \<Rightarrow>
          map_option (\<lambda>path. task_event t 2 path (replicate 96 0)) (path_argument um ctx 24)
      | Renameat \<Rightarrow>
          Option.bind (path_argument um ctx 24) (\<lambda>old.
            map_option (\<lambda>new. task_event t 3 new old) (path_argument um ctx 40)))"

definition call_succeeded :: "file_call \<Rightarrow> u64 \<Rightarrow> bool" where
  "call_succeeded call ret = (case call of Openat \<Rightarrow> 0 \<le> sint ret | _ \<Rightarrow> ret = 0)"

type_synonym calls = "(u32, file_call \<times> file_raw option) hmap"

fun call_step :: "calls \<Rightarrow> file_op \<Rightarrow> calls \<times> file_raw list" where
  "call_step calls (Enter call um t ctx) =
     (hm_insert (task_tid t) (call, candidate call um t ctx) calls, [])"
| "call_step calls (VfsCreate t) = (calls, [])"
| "call_step calls (Leave call t ctx room) =
     (hm_remove (task_tid t) calls,
      case (hm_get calls (task_tid t), tp_u64 ctx 16) of
        (Some (_, Some ev), Some ret) \<Rightarrow> if call_succeeded call ret \<and> room then [ev] else []
      | _ \<Rightarrow> [])"

text \<open>
  A thread enters a call only from outside of one, leaves the call it is in with a readable
  result, and no more threads are in a call than a pending map holds.
\<close>

fun call_ok :: "calls \<Rightarrow> file_op \<Rightarrow> bool" where
  "call_ok calls (Enter call um t ctx) \<longleftrightarrow>
     hm_get calls (task_tid t) = None \<and> length calls < pending_max"
| "call_ok calls (VfsCreate t) \<longleftrightarrow> True"
| "call_ok calls (Leave call t ctx room) \<longleftrightarrow>
     (case hm_get calls (task_tid t) of None \<Rightarrow> False | Some (c, _) \<Rightarrow> c = call) \<and>
     tp_u64 ctx 16 \<noteq> None"

section \<open>The simulation\<close>

definition pending_of :: "file_maps \<Rightarrow> file_call \<Rightarrow> (u32, file_raw) hmap" where
  "pending_of m call =
     (case call of Openat \<Rightarrow> fm_openat_pending m | Unlinkat \<Rightarrow> fm_unlinkat_pending m
      | Renameat \<Rightarrow> fm_rename_pending m)"

definition in_call :: "calls \<Rightarrow> file_call \<Rightarrow> u32 \<Rightarrow> file_raw option" where
  "in_call calls call tid =
     (case hm_get calls tid of None \<Rightarrow> None | Some (c, ev) \<Rightarrow> if c = call then ev else None)"

definition calls_rel :: "file_maps \<Rightarrow> calls \<Rightarrow> bool" where
  "calls_rel m calls \<longleftrightarrow>
     hm_wf calls \<and>
     (\<forall>call. hm_wf (pending_of m call) \<and> hm_get (pending_of m call) = in_call calls call)"

lemma hm_length_le:
  assumes "hm_wf p" "hm_wf q" and "\<And>k. hm_get p k \<noteq> None \<Longrightarrow> hm_get q k \<noteq> None"
  shows "length p \<le> length q"
proof -
  have "dom (map_of p) \<subseteq> dom (map_of q)" using assms(3) by (auto simp: dom_def)
  then have "set (map fst p) \<subseteq> set (map fst q)" by (simp add: dom_map_of_conv_image_fst)
  then have "card (set (map fst p)) \<le> card (set (map fst q))" by (intro card_mono) auto
  with assms(1,2) show ?thesis
    using distinct_card [of "map fst p"] distinct_card [of "map fst q"] by simp
qed

lemma pending_room:
  assumes "calls_rel m calls" and "length calls < pending_max"
  shows "length (pending_of m call) < pending_max"
proof -
  have "length (pending_of m call) \<le> length calls"
    using assms(1) by (intro hm_length_le) (auto simp: calls_rel_def in_call_def split: option.splits)
  with assms(2) show ?thesis by simp
qed

lemma queue_file_candidate:
  "fst (queue_file_event um t ctx kind p) =
     (case map_option (\<lambda>path. task_event t kind path (replicate 96 0)) (path_argument um ctx 24) of
        None \<Rightarrow> p | Some ev \<Rightarrow> map_insert pending_max (task_tid t) ev p)"
  by (simp add: queue_file_event_def path_argument_def task_event_def Let_def split: option.split)

lemma queue_rename_candidate:
  "fst (queue_rename_event um t ctx p) =
     (case candidate Renameat um t ctx of
        None \<Rightarrow> p | Some ev \<Rightarrow> map_insert pending_max (task_tid t) ev p)"
  by (simp add: queue_rename_event_def path_argument_def task_event_def candidate_def Let_def
      split: option.split)

lemma enter_pending:
  "pending_of (enter_program call um t ctx m) c =
     (case candidate call um t ctx of
        None \<Rightarrow> pending_of m c
      | Some ev \<Rightarrow> if c = call then map_insert pending_max (task_tid t) ev (pending_of m c)
                   else pending_of m c)"
  "fm_ring (enter_program call um t ctx m) = fm_ring m"
proof -
  have kinds: "candidate Openat um t ctx = (case tp_u64 ctx 32 of None \<Rightarrow> None
      | Some flags \<Rightarrow> (case open_kind flags of None \<Rightarrow> None
        | Some kind \<Rightarrow> map_option (\<lambda>path. task_event t kind path (replicate 96 0)) (path_argument um ctx 24)))"
    by (simp add: candidate_def split: option.split)
  show "pending_of (enter_program call um t ctx m) c =
     (case candidate call um t ctx of
        None \<Rightarrow> pending_of m c
      | Some ev \<Rightarrow> if c = call then map_insert pending_max (task_tid t) ev (pending_of m c)
                   else pending_of m c)"
  proof (cases call)
    case Openat
    then show ?thesis
      by (cases c) (auto simp: kinds enter_program_def try_handle_openat_def pending_of_def
          case_prod_beta queue_file_candidate open_kind_def split: option.split)
  next
    case Unlinkat
    then show ?thesis
      by (cases c) (auto simp: candidate_def enter_program_def try_handle_unlinkat_def pending_of_def
          case_prod_beta queue_file_candidate split: option.split)
  next
    case Renameat
    then show ?thesis
      by (cases c) (auto simp: enter_program_def try_handle_renameat_def pending_of_def
          case_prod_beta queue_rename_candidate split: option.split)
  qed
  show "fm_ring (enter_program call um t ctx m) = fm_ring m"
    by (cases call) (simp_all add: enter_program_def try_handle_openat_def try_handle_unlinkat_def
        try_handle_renameat_def case_prod_beta split: option.split)
qed

lemma emit_pending_event:
  "emit_pending_file_event room t emit p =
     (hm_remove (task_tid t) p,
      case hm_get p (task_tid t) of None \<Rightarrow> [] | Some ev \<Rightarrow> if emit \<and> room then [ev] else [])"
  by (simp add: emit_pending_file_event_def Let_def split: option.split)

lemma leave_pending:
  assumes "tp_u64 ctx 16 = Some ret"
  shows "pending_of (leave_program call room t ctx m) c =
      (if c = call then hm_remove (task_tid t) (pending_of m c) else pending_of m c)"
    and "fm_ring (leave_program call room t ctx m) = fm_ring m @
      (case hm_get (pending_of m call) (task_tid t) of None \<Rightarrow> []
       | Some ev \<Rightarrow> if call_succeeded call ret \<and> room then [ev] else [])"
  using assms
  by (cases call; cases c; simp add: leave_program_def try_handle_openat_exit_def
      try_handle_unlinkat_exit_def try_handle_renameat_exit_def pending_of_def emit_pending_event
      call_succeeded_def split: option.split)+

lemma vfs_create_pending:
  "pending_of (fst (try_handle_vfs_create t m)) c = pending_of m c"
  "fm_ring (fst (try_handle_vfs_create t m)) = fm_ring m"
  by (cases c; simp add: try_handle_vfs_create_def pending_of_def)+

lemma file_step_rel:
  assumes rel: "calls_rel m calls" and ok: "call_ok calls op"
  shows "calls_rel (fst (file_step m op)) (fst (call_step calls op))"
proof (cases op)
  case (Enter call um t ctx)
  then have free: "hm_get calls (task_tid t) = None" and room: "length calls < pending_max"
    using ok by simp_all
  have "length (pending_of m call) < pending_max" by (rule pending_room [OF rel room])
  then have insert: "map_insert pending_max k ev (pending_of m call) = hm_insert k ev (pending_of m call)"
    for k ev by (simp add: map_insert_def)
  show ?thesis
    using rel free
    by (auto simp: Enter file_step_def calls_rel_def enter_pending insert hm.store_laws in_call_def
        fun_eq_iff split: option.split)
next
  case (VfsCreate t)
  with rel show ?thesis by (simp add: file_step_def calls_rel_def vfs_create_pending)
next
  case (Leave call t ctx room)
  then obtain ret c where "tp_u64 ctx 16 = Some ret" "hm_get calls (task_tid t) = Some (call, c)"
    using ok by (auto split: option.splits)
  with rel show ?thesis
    by (auto simp: Leave file_step_def calls_rel_def leave_pending hm.store_laws in_call_def fun_eq_iff)
qed

lemma file_step_out:
  assumes rel: "calls_rel m calls" and ok: "call_ok calls op"
  shows "snd (file_step m op) = snd (call_step calls op)"
proof (cases op)
  case (Leave call t ctx room)
  then obtain ret c where "tp_u64 ctx 16 = Some ret" "hm_get calls (task_tid t) = Some (call, c)"
    using ok by (auto split: option.splits)
  with rel show ?thesis
    by (auto simp: Leave file_step_def calls_rel_def leave_pending(2) in_call_def split: option.split)
qed (simp_all add: file_step_def enter_pending vfs_create_pending)

interpretation file_calls: simulation file_step call_step calls_rel call_ok
  by unfold_locales (simp_all add: file_step_rel file_step_out)

lemma file_trace_exact:
  assumes "enabled call_step call_ok [] ops"
  shows "snd (run file_step no_file_calls ops) = snd (run call_step [] ops)"
proof -
  have "calls_rel no_file_calls []"
    by (auto simp: calls_rel_def no_file_calls_def pending_of_def in_call_def split: file_call.split)
  from file_calls.run_simulates [OF this assms] show ?thesis by simp
qed

text \<open>
  C9: for any interleaving of threads, each in at most one call at a time, the file programs
  report exactly what the abstract machine does: at the exit of a call, the event its own entry
  described, if the call succeeded and the ring has room; nothing for a failed call, and never
  the event of another thread or of another call.
\<close>

theorem file_programs_refine_calls:
  assumes "enabled call_step call_ok [] ops"
  shows "snd (run file_step no_file_calls ops) = snd (run call_step [] ops)"
  using assms by (rule file_trace_exact)

text \<open>Thread 5 creates a file while thread 6 fails to delete one.\<close>

definition sample_task :: "u64 \<Rightarrow> task" where
  "sample_task tid = \<lparr>tk_pid_tgid = push_bit 32 tid OR tid, tk_uid_gid = 0, tk_comm = None\<rparr>"

definition sample_memory :: memory where
  "sample_memory = \<lparr>um_read = (\<lambda>_ _. None), um_str = (\<lambda>ptr n. c_array n [0x2F, ucast ptr])\<rparr>"

definition sample_enter :: "u64 \<Rightarrow> u64 \<Rightarrow> tracepoint" where
  "sample_enter ptr flags = \<lparr>tp_u32 = (\<lambda>_. None),
     tp_u64 = (\<lambda>off. if off = 24 then Some ptr else if off = 32 then Some flags else None)\<rparr>"

definition sample_exit :: "u64 \<Rightarrow> tracepoint" where
  "sample_exit ret = \<lparr>tp_u32 = (\<lambda>_. None), tp_u64 = (\<lambda>off. if off = 16 then Some ret else None)\<rparr>"

definition two_thread_ops :: "file_op list" where
  "two_thread_ops =
     [Enter Openat sample_memory (sample_task 5) (sample_enter 0x61 0x41),
      Enter Unlinkat sample_memory (sample_task 6) (sample_enter 0x62 0),
      VfsCreate (sample_task 5),
      Leave Unlinkat (sample_task 6) (sample_exit (- 2)) True,
      Leave Openat (sample_task 5) (sample_exit 3) True]"

lemma sample_tid: "task_tid (sample_task 5) = 5" "task_tid (sample_task 6) = 6"
  by (simp_all add: task_tid_def sample_task_def)

theorem file_programs_refine_calls_witness:
  "snd (run file_step no_file_calls two_thread_ops) =
     [[], [], [], [], [task_event (sample_task 5) 1 (c_array 96 [0x2F, 0x61]) (replicate 96 0)]]"
proof -
  have "snd (run file_step no_file_calls two_thread_ops) = snd (run call_step [] two_thread_ops)"
    by (rule file_programs_refine_calls)
      (simp add: two_thread_ops_def sample_tid sample_exit_def pending_max_def)
  moreover have "c_array 96 [0x2F, 0x61] ! 0 = 0x2F" by (simp add: c_array_def)
  ultimately show ?thesis
    by (simp add: two_thread_ops_def sample_tid candidate_def sample_enter_def sample_exit_def
        path_argument_def sample_memory_def open_kind_def o_creat_def call_succeeded_def)
qed

end
