(* ===== verification/Linux_Path.thy ===== *)
theory Linux_Path
  imports Linux_Sensor Ebpf_Trace
begin

text \<open>
  From the kernel to the sensor event: what a program writes to its ring, in bytes, is what the
  sensor reads back and turns into an event.
\<close>

unbundle bit_operations_syntax

section \<open>Draining a ring\<close>

text \<open>The entries with the clock at each; short entries and those without an event are skipped.\<close>

definition drain_ring ::
    "(u8 list \<Rightarrow> 'raw option) \<Rightarrow> (int \<Rightarrow> 'raw \<Rightarrow> sensor_event option) \<Rightarrow> (int \<times> u8 list) list \<Rightarrow>
     sensor_event list" where
  "drain_ring parse build items =
     List.map_filter (\<lambda>(now, bytes). Option.bind (parse bytes) (build now)) items"

definition drain_process_ring where
  "drain_process_ring pf users = drain_ring parse_process_event (build_process_event pf users)"

definition drain_file_ring where
  "drain_file_ring users = drain_ring parse_file_event (build_file_event users)"

definition drain_dns_ring where
  "drain_dns_ring = drain_ring parse_dns_event build_dns_event"

text \<open>Of the network ring also whether the task panicked, which ends it.\<close>

fun drain_network_ring ::
    "procfs \<Rightarrow> (u32 \<Rightarrow> string option) \<Rightarrow> (int \<times> u8 list) list \<Rightarrow> sensor_event list \<times> bool" where
  "drain_network_ring pf users [] = ([], False)"
| "drain_network_ring pf users ((now, bytes) # items) =
     (case parse_network_event bytes of
        None \<Rightarrow> drain_network_ring pf users items
      | Some ev \<Rightarrow>
          (case build_network_event pf users now ev of
             Panics \<Rightarrow> ([], True)
           | Returns event \<Rightarrow>
               let (events, panicked) = drain_network_ring pf users items
               in ((case event of None \<Rightarrow> [] | Some e \<Rightarrow> [e]) @ events, panicked)))"

section \<open>DNS queries\<close>

lemma scan_name_finds:
  assumes "\<And>i. i < n \<Longrightarrow> payload ! (pos + i) \<noteq> 0" and "payload ! (pos + n) = 0"
    and "pos + n < read_len" "read_len \<le> max_dns_payload" "n < trips"
  shows "scan_name trips pos read_len payload = Some (pos + n)"
  using assms
proof (induction trips arbitrary: pos n)
  case (Suc trips)
  show ?case
  proof (cases n)
    case 0
    with Suc.prems show ?thesis by simp
  next
    case (Suc k)
    have "payload ! pos \<noteq> 0" using Suc.prems(1) [of 0] Suc by simp
    moreover have "scan_name trips (pos + 1) read_len payload = Some (pos + 1 + k)"
      using Suc.prems(1) [of "Suc i" for i] Suc.prems(2-) Suc
      by (intro Suc.IH) simp_all
    ultimately show ?thesis using Suc.prems(3,4) Suc by simp
  qed
qed simp

text \<open>A query in user memory whose labels have no zero byte.\<close>

definition plain_labels :: "u8 list list \<Rightarrow> bool" where
  "plain_labels ls \<longleftrightarrow> ls \<noteq> [] \<and> list_all (\<lambda>l. label_ok l \<and> 0 \<notin> set l) ls"

definition dns_query :: "u8 list \<Rightarrow> u8 list list \<Rightarrow> u16 \<Rightarrow> u8 list \<Rightarrow> u8 list" where
  "dns_query h ls qtype rest = h @ encode_name ls @ rev (le_bytes 2 qtype) @ rest"

lemma name_bytes_nonzero:
  assumes "list_all (\<lambda>l. label_ok l \<and> 0 \<notin> set l) ls"
  shows "0 \<notin> set (concat (map (\<lambda>l. of_nat (length l) # l) ls))"
proof -
  have "(of_nat (length l) :: u8) \<noteq> 0" if "label_ok l" for l
    using that by (auto simp: label_ok_def label_max_len_def word_unat_eq_iff unat_of_nat
        take_bit_nat_eq_self_iff)
  with assms show ?thesis by (auto simp: list_all_iff)
qed

lemma be_pair: "push_bit 8 (ucast hi) OR ucast lo = u16_from_be_bytes hi lo"
  by (simp add: u16_from_be_bytes_def be_word_def)

lemma u16_bytes:
  obtains hi lo where "rev (le_bytes 2 q) = [hi, lo]" and "u16_from_be_bytes hi lo = (q :: u16)"
proof -
  obtain hi lo where *: "rev (le_bytes 2 q) = [hi, lo]"
    by (simp add: le_bytes_def upt_rec)
  then have "u16_from_be_bytes hi lo = le_word (le_bytes 2 q)"
    by (simp add: u16_from_be_bytes_def le_word_def)
  also have "\<dots> = q" by simp
  finally show ?thesis using * that by blast
qed

lemma nth_zero_filled: "i < length bs \<Longrightarrow> zero_filled bs ! i = bs ! i"
  by (simp add: zero_filled_def nth_append)

lemma emit_query:
  assumes h: "query_header h" and ls: "plain_labels ls"
    and q: "q = dns_query h ls qtype rest" and len: "length q \<le> max_dns_payload"
  shows "emit_dns_query True pid uid fd (length q) (zero_filled q) =
    [\<lparr>dr_kind = 1, dr_pid = pid, dr_uid = uid, dr_fd = fd, dr_payload_len = of_nat (length q),
      dr_pad0 = 0, dr_query_name = replicate 96 0, dr_query_results = replicate 96 0,
      dr_record_type = write_record_type qtype, dr_payload = zero_filled q\<rparr>]"
proof -
  define body where "body = concat (map (\<lambda>l. of_nat (length l) # l) ls)"
  define n where "n = length body"
  obtain hi lo where qt: "rev (le_bytes 2 qtype) = [hi, lo]" "u16_from_be_bytes hi lo = qtype"
    by (rule u16_bytes)
  have qeq: "q = h @ body @ [0, hi, lo] @ rest"
    by (simp add: q dns_query_def encode_name_def body_def qt)
  have hl: "length h = 12" using h by (simp add: query_header_def header_len_def)
  have body: "0 \<notin> set body" unfolding body_def
    using ls by (intro name_bytes_nonzero) (simp add: plain_labels_def)
  have bytes: "zero_filled q ! (12 + i) = (body @ [0, hi, lo] @ rest) ! i" if "12 + i < length q" for i
    using that by (simp add: nth_zero_filled qeq hl nth_append)
  have nlen: "n + 15 \<le> length q" by (simp add: qeq hl n_def)
  have scan: "scan_name max_dns_payload 12 (length q) (zero_filled q) = Some (12 + n)"
  proof (rule scan_name_finds)
    fix i assume "i < n"
    with nlen body show "zero_filled q ! (12 + i) \<noteq> 0"
      by (auto simp: bytes n_def nth_append) (metis nth_mem)
  next
    show "zero_filled q ! (12 + n) = 0" using nlen by (simp add: bytes n_def nth_append)
  qed (use nlen len in \<open>simp_all add: max_dns_payload_def\<close>)
  have header: "zero_filled q ! i = h ! i" if "i < 12" for i
    using that nlen by (simp add: nth_zero_filled qeq hl nth_append)
  have "zero_filled q ! ((12 + n + 1) mod max_dns_payload) = hi"
    "zero_filled q ! ((12 + n + 2) mod max_dns_payload) = lo"
    using nlen len bytes [of "n + 1"] bytes [of "n + 2"]
    by (simp_all add: max_dns_payload_def n_def nth_append)
  with scan nlen len h qt(2) header show ?thesis
    by (simp add: emit_dns_query_def be_pair query_header_def is_response_def dns_header_len_def)
qed

lemma record_type_text_ok:
  "bytes_to_string (write_record_type qtype) = record_type_text qtype" "record_type_text qtype \<noteq> []"
proof -
  have char: "byte_char (of_nat (of_char c)) = c" for c
    using byte_lt [of c] by (simp add: byte_char_def unat_of_nat take_bit_nat_eq_self)
  let ?bs = "map (\<lambda>c. of_nat (of_char c)) (record_type_text qtype) :: u8 list"
  have again: "map byte_char ?bs = record_type_text qtype" by (simp add: comp_def char)
  have "list_all (\<lambda>c. byte c < 128 \<and> byte c \<noteq> 0) (record_type_text qtype) \<and> length (record_type_text qtype) < 16"
    by (simp add: record_type_text_def)
  then have "\<forall>c \<in> set (record_type_text qtype). byte c < 128" "length ?bs < 16"
    and "0 \<notin> set ?bs"
    by (auto simp: list_all_iff word_unat_eq_iff unat_of_nat take_bit_nat_eq_self_iff)
  then show "bytes_to_string (write_record_type qtype) = record_type_text qtype"
    using bytes_to_string_c_array [of ?bs 16] valid_utf8_ascii [of "record_type_text qtype"]
    unfolding again write_record_type_def by blast
  show "record_type_text qtype \<noteq> []" by (simp add: record_type_text_def)
qed

text \<open>The arguments of a \<open>sendto\<close> of a buffer to the DNS port, or on a connected socket.\<close>

definition sends_to_dns :: "memory \<Rightarrow> tracepoint \<Rightarrow> u8 list \<Rightarrow> bool" where
  "sends_to_dns um ctx q \<longleftrightarrow>
     (case (tp_u64 ctx 16, tp_u64 ctx 24, tp_u64 ctx 32, tp_u64 ctx 48) of
        (Some fd, Some buf_ptr, Some len, Some addr_ptr) \<Rightarrow>
          buf_ptr \<noteq> 0 \<and> unat len = length q \<and> um_read um buf_ptr (length q) = Some q \<and>
          (addr_ptr = 0 \<or> sockaddr_points_to_dns_port um addr_ptr = Some True)
      | _ \<Rightarrow> False)"

definition dns_sensor_event :: "int \<Rightarrow> u32 \<Rightarrow> string \<Rightarrow> string \<Rightarrow> sensor_event" where
  "dns_sensor_event now pid name record_type =
     \<lparr>sv_platform = Linux, sv_provider = ''ebpf'', sv_action = ActQuery, sv_event_id = 22,
      sv_action_code = 0, sv_pid = Some pid, sv_timestamp = now, sv_process_start_key = None,
      sv_payload = PayDns \<lparr>dq_query_name = Some name, dq_query_results = None,
        dq_record_type = Some record_type, dq_query_status = None,
        dq_process_id = Some (show_uint pid), dq_image = None\<rparr>\<rparr>"

lemma sendto_emits:
  assumes s: "sends_to_dns um ctx q" and h: "query_header h" and ls: "plain_labels ls"
    and q: "q = dns_query h ls qtype rest" and len: "length q \<le> max_dns_payload"
  obtains fd where "fst (try_handle_sendto True um t ctx []) =
    emit_dns_query True (task_pid t) (task_uid t) fd (length q) (zero_filled q)"
proof -
  have "dns_header_len \<le> length q"
    using h by (simp add: q dns_query_def query_header_def header_len_def dns_header_len_def)
  with s len that show ?thesis
    by (auto simp: sends_to_dns_def try_handle_sendto_def min_def not_less split: option.splits)
qed

lemma zeros_string: "bytes_to_string (replicate n 0) = []"
  by (simp add: bytes_to_string_def from_utf8_lossy_def takeWhile_replicate)

lemma length_write_record_type: "length (write_record_type qtype) = 16"
  by (simp add: write_record_type_def)


definition query_head :: "u8 list" where
  "query_head = [0xAB, 0xCD, 1, 0, 0, 1, 0, 0, 0, 0, 0, 0]"

definition sample_query :: "u8 list" where
  "sample_query = dns_query query_head [[0x61, 0x62], [0x63]] 28 [0, 1]"

definition query_memory :: memory where
  "query_memory = \<lparr>um_read = (\<lambda>ptr n. if ptr = 0x1000 \<and> n = length sample_query
     then Some sample_query else None), um_str = (\<lambda>_ n. replicate n 0)\<rparr>"

definition query_args :: tracepoint where
  "query_args = \<lparr>tp_u32 = (\<lambda>_. None),
     tp_u64 = (\<lambda>off. if off = 24 then Some 0x1000 else if off = 32 then Some 22 else Some 0)\<rparr>"


section \<open>Renames\<close>

text \<open>
  A user pointer to a non-empty text of at most 95 bytes of UTF-8, as the string helper reads it:
  the text, and zeros behind it.
\<close>

definition user_text :: "memory \<Rightarrow> u64 \<Rightarrow> u8 list \<Rightarrow> bool" where
  "user_text um ptr s \<longleftrightarrow>
     ptr \<noteq> 0 \<and> s \<noteq> [] \<and> 0 \<notin> set s \<and> length s < 96 \<and> valid_utf8 (map byte_char s) \<and>
     um_str um ptr 96 = c_array 96 s"

definition renames :: "memory \<Rightarrow> tracepoint \<Rightarrow> u8 list \<Rightarrow> u8 list \<Rightarrow> bool" where
  "renames um ctx old new \<longleftrightarrow>
     (case (tp_u64 ctx 24, tp_u64 ctx 40) of
        (Some old_ptr, Some new_ptr) \<Rightarrow> user_text um old_ptr old \<and> user_text um new_ptr new
      | _ \<Rightarrow> False)"

definition rename_sensor_event ::
    "(u32 \<Rightarrow> string option) \<Rightarrow> int \<Rightarrow> task \<Rightarrow> string \<Rightarrow> string \<Rightarrow> sensor_event" where
  "rename_sensor_event users now t old new =
     \<lparr>sv_platform = Linux, sv_provider = ''ebpf'', sv_action = ActRename, sv_event_id = 71,
      sv_action_code = 71, sv_pid = Some (task_pid t), sv_timestamp = now,
      sv_process_start_key = None,
      sv_payload = PayFile \<lparr>fe_source_filename = Some old, fe_target_filename = Some new,
        fe_process_id = Some (show_uint (task_pid t)),
        fe_image = nonempty (bytes_to_string (task_comm t)), fe_creation_utc_time = None,
        fe_previous_creation_utc_time = None,
        fe_user = Some (resolved_linux_user users (task_uid t))\<rparr>\<rparr>"

lemma c_array_hd: "s \<noteq> [] \<Longrightarrow> 1 < n \<Longrightarrow> c_array n s ! 0 = hd s"
  by (cases s) (auto simp: c_array_def nth_append take_Cons')

lemma user_text_argument:
  "user_text um ptr s \<Longrightarrow> tp_u64 ctx off = Some ptr \<Longrightarrow> path_argument um ctx off = Some (c_array 96 s)"
  by (cases s) (auto simp: user_text_def path_argument_def c_array_hd)

lemma user_text_string: "user_text um ptr s \<Longrightarrow> bytes_to_string (c_array 96 s) = map byte_char s"
  by (simp add: user_text_def bytes_to_string_c_array)

text \<open>
  A successful rename becomes exactly one
  event, which names the old path, the new path and the process; a failed one becomes none.
\<close>

lemma rename_reaches_sensor:
  assumes "renames um ctx old new" and "length (task_comm t) = 16"
  shows "drain_file_ring users (map (\<lambda>entry. (now, file_bytes entry))
      (concat (snd (run file_step no_file_calls
        [Enter Renameat um t ctx, Leave Renameat t (sample_exit ret) True])))) =
    (if ret = 0 then [rename_sensor_event users now t (map byte_char old) (map byte_char new)] else [])"
proof -
  obtain old_ptr new_ptr where ptr: "tp_u64 ctx 24 = Some old_ptr" "tp_u64 ctx 40 = Some new_ptr"
      "user_text um old_ptr old" "user_text um new_ptr new"
    using assms(1) by (auto simp: renames_def split: option.splits)
  let ?ev = "task_event t 3 (c_array 96 new) (c_array 96 old)"
  have "candidate Renameat um t ctx = Some ?ev"
    using ptr by (simp add: candidate_def user_text_argument)
  moreover have "snd (run file_step no_file_calls [Enter Renameat um t ctx, Leave Renameat t (sample_exit ret) True]) =
      snd (run call_step [] [Enter Renameat um t ctx, Leave Renameat t (sample_exit ret) True])"
    by (rule file_trace_exact) (simp add: pending_max_def sample_exit_def)
  ultimately have ring: "concat (snd (run file_step no_file_calls
        [Enter Renameat um t ctx, Leave Renameat t (sample_exit ret) True])) = (if ret = 0 then [?ev] else [])"
    by (simp add: sample_exit_def call_succeeded_def)
  have "parse_file_event (file_bytes ?ev) = Some ?ev"
    using assms(2) by (intro file_roundtrip) (simp add: file_raw_ok_def task_event_def)
  moreover have "map byte_char old \<noteq> []" "map byte_char new \<noteq> []" using ptr by (auto simp: user_text_def)
  ultimately show ?thesis
    using ptr(3,4) unfolding ring
    by (simp add: drain_file_ring_def drain_ring_def map_filter_simps build_file_event_def Let_def
        task_event_def user_text_string nonempty_def rename_sensor_event_def)
qed

definition rename_args :: tracepoint where
  "rename_args = \<lparr>tp_u32 = (\<lambda>_. None),
     tp_u64 = (\<lambda>off. if off = 24 then Some 0x61 else if off = 40 then Some 0x62 else None)\<rparr>"


end
