(* ===== verification/Packet.thy ===== *)
theory Packet
  imports Bytes
begin

text \<open>
  \<open>src/sensor/macos/packet.rs\<close>: from a captured frame to its transport header. An access
  out of range is the branch \<open>None\<close>, as \<open>get\<close> has it.
\<close>

unbundle bit_operations_syntax

section \<open>The parser\<close>

definition dlt_null :: u32 where "dlt_null = 0"
definition dlt_en10mb :: u32 where "dlt_en10mb = 1"
definition ethertype_ipv4 :: u16 where "ethertype_ipv4 = 0x0800"
definition ethertype_ipv6 :: u16 where "ethertype_ipv6 = 0x86dd"
definition ethertype_vlan :: u16 where "ethertype_vlan = 0x8100"
definition ipproto_tcp :: u8 where "ipproto_tcp = 6"
definition ipproto_udp :: u8 where "ipproto_udp = 17"
definition tcp_flag_syn :: u8 where "tcp_flag_syn = 0x02"
definition tcp_flag_ack :: u8 where "tcp_flag_ack = 0x10"

lemmas packet_consts = dlt_null_def dlt_en10mb_def ethertype_ipv4_def ethertype_ipv6_def
  ethertype_vlan_def ipproto_tcp_def ipproto_udp_def tcp_flag_syn_def tcp_flag_ack_def

text \<open>Of TCP the ports, the flags and the payload; of UDP the destination port and the payload.\<close>

datatype transport = TransTcp u16 u16 u8 "u8 list" | TransUdp u16 "u8 list"

record parsed_packet =
  pk_src_ip :: ip_addr
  pk_dst_ip :: ip_addr
  pk_transport :: transport

definition strip_link_layer :: "u32 \<Rightarrow> u8 list \<Rightarrow> u8 list option" where
  "strip_link_layer link_type frame =
     (if link_type = dlt_null then get_from 4 frame
      else if link_type = dlt_en10mb then
        (case get_u16 12 frame of None \<Rightarrow> None
         | Some ethertype \<Rightarrow>
             if ethertype = ethertype_ipv4 \<or> ethertype = ethertype_ipv6 then get_from 14 frame
             else if ethertype = ethertype_vlan then
               (case get_u16 16 frame of None \<Rightarrow> None
                | Some inner \<Rightarrow>
                    if inner = ethertype_ipv4 \<or> inner = ethertype_ipv6 then get_from 18 frame
                    else None)
             else None)
      else None)"

definition parse_transport :: "u8 \<Rightarrow> u8 list \<Rightarrow> transport option" where
  "parse_transport protocol l4 =
     (if protocol = ipproto_tcp then
        (if length l4 < 20 then None
         else
           let src_port = u16_from_be_bytes (l4 ! 0) (l4 ! 1);
               dst_port = u16_from_be_bytes (l4 ! 2) (l4 ! 3);
               data_offset = unat (drop_bit 4 (l4 ! 12)) * 4
           in if data_offset < 20 \<or> length l4 < data_offset then None
              else Some (TransTcp src_port dst_port (l4 ! 13) (case get_from data_offset l4 of None \<Rightarrow> [] | Some b \<Rightarrow> b)))
      else if protocol = ipproto_udp then
        (if length l4 < 8 then None
         else Some (TransUdp (u16_from_be_bytes (l4 ! 2) (l4 ! 3)) (case get_from 8 l4 of None \<Rightarrow> [] | Some b \<Rightarrow> b)))
      else None)"

definition parse_ipv4 :: "u8 list \<Rightarrow> parsed_packet option" where
  "parse_ipv4 l3 =
     (if length l3 < 20 then None
      else
        let ihl = unat (l3 ! 0 AND 0x0f) * 4
        in if ihl < 20 \<or> length l3 < ihl then None
           else
             let protocol = l3 ! 9;
                 src = ipv4_new (l3 ! 12) (l3 ! 13) (l3 ! 14) (l3 ! 15);
                 dst = ipv4_new (l3 ! 16) (l3 ! 17) (l3 ! 18) (l3 ! 19)
             in case get_from ihl l3 of None \<Rightarrow> None
                | Some l4 \<Rightarrow>
                    (case parse_transport protocol l4 of None \<Rightarrow> None
                     | Some t \<Rightarrow> Some \<lparr>pk_src_ip = src, pk_dst_ip = dst, pk_transport = t\<rparr>))"

definition parse_ipv6 :: "u8 list \<Rightarrow> parsed_packet option" where
  "parse_ipv6 l3 =
     (if length l3 < 40 then None
      else
        let next_header = l3 ! 6;
            src = ipv6_from_octets (take 16 (drop 8 l3));
            dst = ipv6_from_octets (take 16 (drop 24 l3))
        in case get_from 40 l3 of None \<Rightarrow> None
           | Some l4 \<Rightarrow>
               (case parse_transport next_header l4 of None \<Rightarrow> None
                | Some t \<Rightarrow> Some \<lparr>pk_src_ip = src, pk_dst_ip = dst, pk_transport = t\<rparr>))"

definition parse_l3 :: "u8 list \<Rightarrow> parsed_packet option" where
  "parse_l3 l3 =
     (case l3 of [] \<Rightarrow> None
      | b # _ \<Rightarrow> if drop_bit 4 b = 4 then parse_ipv4 l3
                 else if drop_bit 4 b = 6 then parse_ipv6 l3 else None)"

definition parse_packet :: "u32 \<Rightarrow> u8 list \<Rightarrow> parsed_packet option" where
  "parse_packet link_type frame =
     (case strip_link_layer link_type frame of None \<Rightarrow> None | Some l3 \<Rightarrow> parse_l3 l3)"

section \<open>What a parsed frame contains\<close>

lemma parse_transport_Tcp:
  assumes "parse_transport protocol l4 = Some (TransTcp s d f p)"
  shows "protocol = ipproto_tcp" "20 \<le> length l4" "f = l4 ! 13"
    "s = u16_from_be_bytes (l4 ! 0) (l4 ! 1)" "d = u16_from_be_bytes (l4 ! 2) (l4 ! 3)"
  using assms by (auto simp: parse_transport_def Let_def split: if_splits)

lemma parse_transport_Udp:
  assumes "parse_transport protocol l4 = Some (TransUdp d p)"
  shows "protocol = ipproto_udp" "8 \<le> length l4" "d = u16_from_be_bytes (l4 ! 2) (l4 ! 3)"
  using assms by (auto simp: parse_transport_def Let_def split: if_splits)

lemma parse_ipv4_transport:
  assumes "parse_ipv4 l3 = Some p"
  shows "20 \<le> length l3" "unat (l3 ! 0 AND 0x0f) * 4 \<le> length l3"
    "parse_transport (l3 ! 9) (drop (unat (l3 ! 0 AND 0x0f) * 4) l3) = Some (pk_transport p)"
  using assms by (auto simp: parse_ipv4_def Let_def get_from_def split: if_splits option.splits)

lemma parse_ipv6_transport:
  assumes "parse_ipv6 l3 = Some p"
  shows "40 \<le> length l3" "parse_transport (l3 ! 6) (drop 40 l3) = Some (pk_transport p)"
  using assms by (auto simp: parse_ipv6_def Let_def get_from_def split: if_splits option.splits)

text \<open>An untagged Ethernet frame of either family.\<close>

lemma parse_packet_untagged:
  assumes "parse_packet dlt_en10mb frame = Some p"
    and "get_u16 12 frame = Some e" and "e = ethertype_ipv4 \<or> e = ethertype_ipv6"
  shows "14 < length frame"
    and "drop_bit 4 (frame ! 14) = 4 \<and> parse_ipv4 (drop 14 frame) = Some p \<or>
         drop_bit 4 (frame ! 14) = 6 \<and> parse_ipv6 (drop 14 frame) = Some p"
proof -
  from assms have p: "parse_l3 (drop 14 frame) = Some p"
    by (auto simp: parse_packet_def strip_link_layer_def packet_consts get_from_def split: if_splits)
  then show len: "14 < length frame"
    by (auto simp: parse_l3_def not_less [symmetric] intro: ccontr)
  then have "drop 14 frame = frame ! 14 # drop 15 frame"
    using Cons_nth_drop_Suc [of 14 frame] by simp
  with p show "drop_bit 4 (frame ! 14) = 4 \<and> parse_ipv4 (drop 14 frame) = Some p \<or>
         drop_bit 4 (frame ! 14) = 6 \<and> parse_ipv6 (drop 14 frame) = Some p"
    by (auto simp: parse_l3_def split: if_splits)
qed

end
