(* ===== verification/Bpf_Filter.thy ===== *)
theory Bpf_Filter
  imports Packet
begin

text \<open>
  The program \<open>BPF_FILTER_EN10MB\<close> of \<open>src/sensor/macos/bpf.rs\<close>, which the kernel runs on every
  Ethernet frame before the sensor sees it, and the part of the BPF instruction set it is written
  in: an accumulator, an index register, loads from the packet, forward jumps and returns. A load
  out of range returns 0, which drops the packet. The program is compared with the parser.
\<close>

unbundle bit_operations_syntax

record bpf_insn =
  bi_code :: u16
  bi_jt :: u8
  bi_jf :: u8
  bi_k :: u32

definition insn :: "u16 \<Rightarrow> u8 \<Rightarrow> u8 \<Rightarrow> u32 \<Rightarrow> bpf_insn" where
  "insn code jt jf k = \<lparr>bi_code = code, bi_jt = jt, bi_jf = jf, bi_k = k\<rparr>"

section \<open>The instruction set\<close>

definition ld_byte :: "u8 list \<Rightarrow> u32 \<Rightarrow> u32 option" where
  "ld_byte pkt k = map_option ucast (get_byte (unat k) pkt)"

definition ld_half :: "u8 list \<Rightarrow> u32 \<Rightarrow> u32 option" where
  "ld_half pkt k = map_option ucast (get_u16 (unat k) pkt)"

text \<open>The jump offsets count from the next instruction.\<close>

function bpf_run :: "u8 list \<Rightarrow> bpf_insn list \<Rightarrow> u32 \<Rightarrow> u32 \<Rightarrow> u32" where
  "bpf_run pkt [] a x = 0"
| "bpf_run pkt (i # rest) a x =
     (let k = bi_k i; code = bi_code i in
      if code = 0x06 then k
      else if code = 0x28 then
        (case ld_half pkt k of None \<Rightarrow> 0 | Some v \<Rightarrow> bpf_run pkt rest v x)
      else if code = 0x30 then
        (case ld_byte pkt k of None \<Rightarrow> 0 | Some v \<Rightarrow> bpf_run pkt rest v x)
      else if code = 0x48 then
        (case ld_half pkt (x + k) of None \<Rightarrow> 0 | Some v \<Rightarrow> bpf_run pkt rest v x)
      else if code = 0x50 then
        (case ld_byte pkt (x + k) of None \<Rightarrow> 0 | Some v \<Rightarrow> bpf_run pkt rest v x)
      else if code = 0xb1 then
        (case ld_byte pkt k of None \<Rightarrow> 0 | Some v \<Rightarrow> bpf_run pkt rest a (4 * (v AND 0x0f)))
      else if code = 0x54 then bpf_run pkt rest (a AND k) x
      else if code = 0x15 then bpf_run pkt (drop (unat (if a = k then bi_jt i else bi_jf i)) rest) a x
      else if code = 0x45 then
        bpf_run pkt (drop (unat (if a AND k \<noteq> 0 then bi_jt i else bi_jf i)) rest) a x
      else 0)"
  by pat_completeness auto
termination by (relation "measure (\<lambda>(pkt, prog, a, x). length prog)") auto

section \<open>The program\<close>

definition bpf_filter_en10mb :: "bpf_insn list" where
  "bpf_filter_en10mb = [
    insn 0x28 0 0 0xc,
    insn 0x15 0 19 0x800,
    insn 0x30 0 0 0x17,
    insn 0x15 0 8 6,
    insn 0x28 0 0 0x14,
    insn 0x45 30 0 0x1fff,
    insn 0xb1 0 0 0xe,
    insn 0x50 0 0 0x1b,
    insn 0x54 0 0 0x12,
    insn 0x15 25 0 2,
    insn 0x48 0 0 0xe,
    insn 0x15 23 7 0x35,
    insn 0x15 1 0 0x84,
    insn 0x15 0 22 0x11,
    insn 0x28 0 0 0x14,
    insn 0x45 20 0 0x1fff,
    insn 0xb1 0 0 0xe,
    insn 0x48 0 0 0xe,
    insn 0x15 16 0 0x35,
    insn 0x48 0 0 0x10,
    insn 0x15 14 15 0x35,
    insn 0x15 0 14 0x86dd,
    insn 0x30 0 0 0x14,
    insn 0x15 0 3 6,
    insn 0x30 0 0 0x43,
    insn 0x54 0 0 0x12,
    insn 0x15 8 0 2,
    insn 0x30 0 0 0x14,
    insn 0x15 2 0 0x84,
    insn 0x15 1 0 6,
    insn 0x15 0 5 0x11,
    insn 0x28 0 0 0x36,
    insn 0x15 2 0 0x35,
    insn 0x28 0 0 0x38,
    insn 0x15 0 1 0x35,
    insn 0x06 0 0 0x40000,
    insn 0x06 0 0 0]"

text \<open>What the kernel keeps of a frame: 0 drops it.\<close>

definition kernel_filter :: "u8 list \<Rightarrow> u32" where
  "kernel_filter frame = bpf_run frame bpf_filter_en10mb 0 0"

definition accept :: u32 where
  "accept = 0x40000"

section \<open>Its execution\<close>

lemma filter_ipv4_tcp:
  assumes "ld_half f 0x0c = Some 0x800" "ld_byte f 0x17 = Some 6"
    "ld_half f 0x14 = Some fr" "fr AND 0x1fff = 0"
    "ld_byte f 0x0e = Some b" "x = 4 * (b AND 0x0f)"
    "ld_byte f (x + 0x1b) = Some fl" "ld_half f (x + 0x0e) = Some sp"
    "ld_half f (x + 0x10) = Some dp"
    "fl AND 0x12 = 2 \<or> sp = 0x35 \<or> dp = 0x35"
  shows "kernel_filter f = accept"
  using assms by (auto simp: kernel_filter_def bpf_filter_en10mb_def insn_def accept_def)

lemma filter_ipv4_udp:
  assumes "ld_half f 0x0c = Some 0x800" "ld_byte f 0x17 = Some 0x11"
    "ld_half f 0x14 = Some fr" "fr AND 0x1fff = 0"
    "ld_byte f 0x0e = Some b" "x = 4 * (b AND 0x0f)"
    "ld_half f (x + 0x0e) = Some sp" "ld_half f (x + 0x10) = Some dp"
    "sp = 0x35 \<or> dp = 0x35"
  shows "kernel_filter f = accept"
  using assms by (auto simp: kernel_filter_def bpf_filter_en10mb_def insn_def accept_def)

lemma filter_ipv6_tcp:
  assumes "ld_half f 0x0c = Some 0x86dd" "ld_byte f 0x14 = Some 6"
    "ld_byte f 0x43 = Some fl" "ld_half f 0x36 = Some sp" "ld_half f 0x38 = Some dp"
    "fl AND 0x12 = 2 \<or> sp = 0x35 \<or> dp = 0x35"
  shows "kernel_filter f = accept"
  using assms by (auto simp: kernel_filter_def bpf_filter_en10mb_def insn_def accept_def)

lemma filter_ipv6_udp:
  assumes "ld_half f 0x0c = Some 0x86dd" "ld_byte f 0x14 = Some 0x11"
    "ld_half f 0x36 = Some sp" "ld_half f 0x38 = Some dp"
    "sp = 0x35 \<or> dp = 0x35"
  shows "kernel_filter f = accept"
  using assms by (auto simp: kernel_filter_def bpf_filter_en10mb_def insn_def accept_def)

lemma filter_other_ethertype:
  assumes "ld_half f 0x0c = Some e" "e \<noteq> 0x800" "e \<noteq> 0x86dd"
  shows "kernel_filter f = 0"
  using assms by (auto simp: kernel_filter_def bpf_filter_en10mb_def insn_def)

text \<open>The loads in terms of the bytes of the frame.\<close>

lemma ld_byte_eq: "unat k < length f \<Longrightarrow> ld_byte f k = Some (ucast (f ! unat k))"
  by (simp add: ld_byte_def get_byte_def)

lemma ld_half_eq:
  "unat k + 2 \<le> length f \<Longrightarrow>
   ld_half f k = Some (ucast (u16_from_be_bytes (f ! unat k) (f ! (unat k + 1))))"
  by (simp add: ld_half_def get_u16_eq)

lemma ld_half_u16: "get_u16 (unat k) f = Some v \<Longrightarrow> ld_half f k = Some (ucast v)"
  by (simp add: ld_half_def)

lemma low_nibble: "(b :: 'a::len word) AND 0x0f = take_bit 4 b"
  by (simp add: take_bit_eq_mask mask_eq_exp_minus_1)

lemma header_length: "unat (4 * (ucast (b :: u8) AND 0x0f) :: u32) = unat (b AND 0x0f) * 4"
proof -
  have "take_bit 4 (unat b) < 2 ^ 4" by (rule take_bit_nat_less_exp)
  then show ?thesis by (simp add: low_nibble unsigned_take_bit_eq unat_word_ariths unsigned_ucast_eq)
qed

lemma header_length_less: "unat ((b :: u8) AND 0x0f) * 4 \<le> 60"
  using take_bit_nat_less_exp [of 4 "unat b"] by (simp add: low_nibble unsigned_take_bit_eq)

lemma syn_only:
  assumes "(b :: u8) AND tcp_flag_syn \<noteq> 0" "b AND tcp_flag_ack = 0"
  shows "(ucast b :: u32) AND 0x12 = 2"
proof -
  have bits: "bit b 1" "\<not> bit b 4"
    using assms and_exp_eq_0_iff_not_bit [of b 1] and_exp_eq_0_iff_not_bit [of b 4]
    by (simp_all add: tcp_flag_syn_def tcp_flag_ack_def)
  have "(ucast b :: u32) AND (2 ^ 1 OR 2 ^ 4) = 2 ^ 1"
  proof (rule bit_word_eqI)
    fix n assume "n < LENGTH(32)"
    show "bit ((ucast b :: u32) AND (2 ^ 1 OR 2 ^ 4)) n = bit (2 ^ 1 :: u32) n"
      using bits by (simp only: bit_and_iff bit_or_iff bit_exp_iff bit_unsigned_iff) auto
  qed
  then show ?thesis by simp
qed

section \<open>The filter passes what the parser turns into events\<close>

text \<open>A connection attempt, or traffic to port 53.\<close>

definition wanted :: "transport \<Rightarrow> bool" where
  "wanted t =
     (case t of
        TransTcp _ d fl _ \<Rightarrow> fl AND tcp_flag_syn \<noteq> 0 \<and> fl AND tcp_flag_ack = 0 \<or> d = 0x35
      | TransUdp d _ \<Rightarrow> d = 0x35)"

lemma wanted_bytes:
  assumes "parse_transport pr (drop n f) = Some t" and "wanted t"
  shows "pr = 6 \<and> n + 20 \<le> length f \<and>
      ((ucast (f ! (n + 13)) :: u32) AND 0x12 = 2 \<or>
       ucast (u16_from_be_bytes (f ! (n + 2)) (f ! (n + 3))) = (0x35 :: u32)) \<or>
    pr = 0x11 \<and> n + 8 \<le> length f \<and>
      ucast (u16_from_be_bytes (f ! (n + 2)) (f ! (n + 3))) = (0x35 :: u32)"
proof (cases t)
  case (TransTcp s d fl p)
  with assms parse_transport_Tcp [of pr "drop n f" s d fl p] syn_only [of "f ! (n + 13)"]
  show ?thesis by (auto simp: wanted_def ipproto_tcp_def)
next
  case (TransUdp d p)
  with assms parse_transport_Udp [of pr "drop n f" d p] show ?thesis
    by (auto simp: wanted_def ipproto_udp_def)
qed

lemma filter_ipv4:
  assumes e: "get_u16 12 f = Some ethertype_ipv4"
    and fr: "get_u16 20 f = Some fr" "fr AND 0x1fff = 0"
    and p: "parse_ipv4 (drop 14 f) = Some p" and w: "wanted (pk_transport p)"
  shows "kernel_filter f = accept"
proof -
  define x :: u32 where "x = 4 * (ucast (f ! 14) AND 0x0f)"
  define n where "n = 14 + unat x"
  have x: "unat x = unat (f ! 14 AND 0x0f) * 4" "unat x \<le> 60"
    using header_length header_length_less by (simp_all add: x_def)
  have plus: "unat (x + 0x0e) = unat x + 14" "unat (x + 0x10) = unat x + 16"
    "unat (x + 0x1b) = unat x + 27"
    using x(2) by (simp_all add: unat_word_ariths)
  have len: "34 \<le> length f" and t: "parse_transport (f ! 23) (drop n f) = Some (pk_transport p)"
    using parse_ipv4_transport [OF p] x(1) by (simp_all add: n_def add.commute)
  have "ucast (fr AND 0x1fff) = (ucast fr :: u32) AND ucast (0x1fff :: u16)"
    by (rule unsigned_and_eq)
  then have off: "(ucast fr :: u32) AND 0x1fff = 0" using fr(2) by simp
  have loads: "ld_half f 0x0c = Some 0x800" "ld_half f 0x14 = Some (ucast fr)"
    "ld_byte f 0x0e = Some (ucast (f ! 14))" "ld_byte f 0x17 = Some (ucast (f ! 23))"
    using e fr len by (simp_all add: ld_half_def ld_byte_eq ethertype_ipv4_def)
  have ports: "ld_half f (x + 0x0e) = Some (ucast (u16_from_be_bytes (f ! n) (f ! (n + 1))))"
    "ld_half f (x + 0x10) = Some (ucast (u16_from_be_bytes (f ! (n + 2)) (f ! (n + 3))))"
    if "n + 8 \<le> length f"
    using that plus by (simp_all add: n_def ld_half_eq add.commute)
  have flags: "ld_byte f (x + 0x1b) = Some (ucast (f ! (n + 13)))" if "n + 20 \<le> length f"
    using that plus by (simp add: n_def ld_byte_eq add.commute)
  show ?thesis
    using wanted_bytes [OF t w]
  proof (elim disjE conjE)
    assume "f ! 23 = 0x11" "n + 8 \<le> length f"
      "ucast (u16_from_be_bytes (f ! (n + 2)) (f ! (n + 3))) = (0x35 :: u32)"
    with loads off ports show ?thesis
      by (intro filter_ipv4_udp [OF loads(1) _ loads(2) off loads(3) x_def]) auto
  qed (use loads off ports flags in
    \<open>auto intro!: filter_ipv4_tcp [OF loads(1) _ loads(2) off loads(3) x_def]\<close>)
qed

lemma filter_ipv6:
  assumes e: "get_u16 12 f = Some ethertype_ipv6"
    and p: "parse_ipv6 (drop 14 f) = Some p" and w: "wanted (pk_transport p)"
  shows "kernel_filter f = accept"
proof -
  have len: "54 \<le> length f" and t: "parse_transport (f ! 20) (drop 54 f) = Some (pk_transport p)"
    using parse_ipv6_transport [OF p] by simp_all
  have loads: "ld_half f 0x0c = Some 0x86dd" "ld_byte f 0x14 = Some (ucast (f ! 20))"
    using e len by (simp_all add: ld_half_def ld_byte_eq ethertype_ipv6_def)
  have ports: "ld_half f 0x36 = Some (ucast (u16_from_be_bytes (f ! 54) (f ! 55)))"
    "ld_half f 0x38 = Some (ucast (u16_from_be_bytes (f ! 56) (f ! 57)))" if "62 \<le> length f"
    using that by (simp_all add: ld_half_eq)
  have flags: "ld_byte f 0x43 = Some (ucast (f ! 67))" if "74 \<le> length f"
    using that by (simp add: ld_byte_eq)
  show ?thesis
    using wanted_bytes [OF t w]
  proof (elim disjE conjE)
    assume "f ! 20 = 0x11" "54 + 8 \<le> length f"
      "ucast (u16_from_be_bytes (f ! (54 + 2)) (f ! (54 + 3))) = (0x35 :: u32)"
    with loads ports show ?thesis by (intro filter_ipv6_udp [OF loads(1)]) auto
  qed (use loads ports flags in \<open>auto intro!: filter_ipv6_tcp [OF loads(1)]\<close>)
qed

text \<open>
  The frames for which the two tiers agree: untagged, with the version the type announces, and
  over IPv4 not a later fragment.
\<close>

definition plain_frame :: "u8 list \<Rightarrow> bool" where
  "plain_frame f \<longleftrightarrow>
     get_u16 12 f = Some ethertype_ipv4 \<and> drop_bit 4 (f ! 14) = 4 \<and>
       (case get_u16 20 f of None \<Rightarrow> False | Some fr \<Rightarrow> fr AND 0x1fff = 0) \<or>
     get_u16 12 f = Some ethertype_ipv6 \<and> drop_bit 4 (f ! 14) = 6"

lemma filter_wanted:
  assumes "plain_frame f" and "parse_packet dlt_en10mb f = Some p" and "wanted (pk_transport p)"
  shows "kernel_filter f = accept"
proof -
  from assms(1) obtain e where e: "get_u16 12 f = Some e" "e = ethertype_ipv4 \<or> e = ethertype_ipv6"
    by (auto simp: plain_frame_def)
  note ip = parse_packet_untagged(2) [OF assms(2) e]
  from assms(1) consider fr where "get_u16 12 f = Some ethertype_ipv4" "drop_bit 4 (f ! 14) = 4"
      "get_u16 20 f = Some fr" "fr AND 0x1fff = 0"
    | "get_u16 12 f = Some ethertype_ipv6" "drop_bit 4 (f ! 14) = 6"
    by (auto simp: plain_frame_def split: option.splits)
  then show ?thesis
  proof cases
    case 1
    with ip have "parse_ipv4 (drop 14 f) = Some p" by simp
    with 1 assms(3) show ?thesis by (intro filter_ipv4) auto
  next
    case 2
    with ip have "parse_ipv6 (drop 14 f) = Some p" by simp
    with 2 assms(3) show ?thesis by (intro filter_ipv6) auto
  qed
qed

lemma filter_drops_vlan: "get_u16 12 f = Some ethertype_vlan \<Longrightarrow> kernel_filter f = 0"
  by (rule filter_other_ethertype [of f "0x8100"]) (simp_all add: ld_half_def ethertype_vlan_def)

end
