(* ===== verification/Bpf_Sensor.thy ===== *)
theory Bpf_Sensor
  imports Bpf_Filter Dns_Wire Normalizer
begin

text \<open>
  \<open>src/sensor/macos/bpf.rs\<close>: the records of a read buffer, the events built from a packet, and the
  machine of the capture thread and the attribution worker. Byte order is little-endian, as on
  every macOS target; the socket table and the clock are parameters.
\<close>

unbundle bit_operations_syntax

section \<open>The events of a packet\<close>

definition connection_ports :: "parsed_packet \<Rightarrow> (u16 \<times> u16) option" where
  "connection_ports packet =
     (case pk_transport packet of TransTcp s d _ _ \<Rightarrow> Some (s, d) | TransUdp _ _ \<Rightarrow> None)"

definition bpf_network_event :: "int \<Rightarrow> parsed_packet \<Rightarrow> sensor_event option" where
  "bpf_network_event now packet =
     (case pk_transport packet of
        TransUdp _ _ \<Rightarrow> None
      | TransTcp src_port dst_port flags _ \<Rightarrow>
          if flags AND tcp_flag_syn = 0 \<or> flags AND tcp_flag_ack \<noteq> 0 then None
          else Some \<lparr>sv_platform = MacOS, sv_provider = ''bpf'', sv_action = ActConnect,
            sv_event_id = 3, sv_action_code = 0, sv_pid = None, sv_timestamp = now,
            sv_process_start_key = None,
            sv_payload = PayNetwork \<lparr>
              nc_destination_ip = Some (show_ip (pk_dst_ip packet)),
              nc_source_ip = Some (show_ip (pk_src_ip packet)),
              nc_destination_port = Some (show_uint dst_port),
              nc_source_port = Some (show_uint src_port),
              nc_process_id = None, nc_image = None, nc_user = None,
              nc_destination_hostname = None, nc_protocol = Some ''tcp''\<rparr>\<rparr>)"

definition dns_port :: u16 where
  "dns_port = 53"

definition record_type_name :: "u16 \<Rightarrow> string option" where
  "record_type_name qtype =
     (if qtype = 1 then Some ''A'' else if qtype = 2 then Some ''NS''
      else if qtype = 5 then Some ''CNAME'' else if qtype = 6 then Some ''SOA''
      else if qtype = 12 then Some ''PTR'' else if qtype = 15 then Some ''MX''
      else if qtype = 16 then Some ''TXT'' else if qtype = 28 then Some ''AAAA''
      else if qtype = 33 then Some ''SRV'' else if qtype = 255 then Some ''ANY'' else None)"

definition bpf_dns_event :: "int \<Rightarrow> parsed_packet \<Rightarrow> sensor_event option" where
  "bpf_dns_event now packet =
     (case (case pk_transport packet of
              TransUdp dst_port payload \<Rightarrow> Some (dst_port, payload)
            | TransTcp _ dst_port _ payload \<Rightarrow>
                map_option (\<lambda>rest. (dst_port, rest)) (get_from 2 payload)) of
        None \<Rightarrow> None
      | Some (dst_port, dns_payload) \<Rightarrow>
          if dst_port \<noteq> dns_port then None
          else
            case parse_question dns_payload of
              None \<Rightarrow> None
            | Some (query_name, qtype) \<Rightarrow>
                Some \<lparr>sv_platform = MacOS, sv_provider = ''bpf'', sv_action = ActQuery,
                  sv_event_id = 22, sv_action_code = 0, sv_pid = None, sv_timestamp = now,
                  sv_process_start_key = None,
                  sv_payload = PayDns \<lparr>
                    dq_query_name = Some query_name, dq_query_results = None,
                    dq_record_type = record_type_name qtype, dq_query_status = None,
                    dq_process_id = None, dq_image = None\<rparr>\<rparr>)"

text \<open>Only packets the kernel filter is meant to pass become events.\<close>

lemma event_wanted:
  "bpf_network_event now p \<noteq> None \<or> bpf_dns_event now p \<noteq> None \<Longrightarrow> wanted (pk_transport p)"
  by (auto simp: bpf_network_event_def bpf_dns_event_def wanted_def dns_port_def
      split: transport.splits if_splits option.splits)

text \<open>
  C16: the kernel filter does not under-match the parser on plain frames: every untagged Ethernet
  frame, its IP version the one announced and not a later IPv4 fragment, from which the sensor
  builds a network or DNS event, is accepted by the filter.
\<close>

theorem filter_passes_every_event:
  assumes "plain_frame f" and "parse_packet dlt_en10mb f = Some p"
    and "bpf_network_event now p \<noteq> None \<or> bpf_dns_event now p \<noteq> None"
  shows "kernel_filter f = accept"
  by (rule filter_wanted [OF assms(1,2) event_wanted [OF assms(3)]])

text \<open>An IPv4 SYN to port 443, without and with a VLAN tag.\<close>

definition syn_packet :: "u8 list" where
  "syn_packet =
     [0x45, 0, 0, 40, 0, 0, 0, 0, 64, 6, 0, 0, 10, 0, 0, 5, 93, 184, 216, 34,
      0xC8, 0x7C, 0x01, 0xBB, 0, 0, 0, 0, 0, 0, 0, 0, 0x50, 0x02, 0, 0, 0, 0, 0, 0]"

definition syn_frame :: "u8 list" where
  "syn_frame = replicate 12 0 @ [0x08, 0] @ syn_packet"

definition vlan_syn_frame :: "u8 list" where
  "vlan_syn_frame = replicate 12 0 @ [0x81, 0, 0, 7, 0x08, 0] @ syn_packet"

lemma syn_frame_parses:
  "parse_packet dlt_en10mb syn_frame = Some \<lparr>pk_src_ip = V4 0x0A000005, pk_dst_ip = V4 0x5DB8D822,
     pk_transport = TransTcp 51324 443 2 []\<rparr>"
  by code_simp

lemma vlan_syn_frame_parses:
  "parse_packet dlt_en10mb vlan_syn_frame = parse_packet dlt_en10mb syn_frame"
  by code_simp

lemma syn_event: "pk_transport p = TransTcp s d 2 pay \<Longrightarrow> bpf_network_event now p \<noteq> None"
  by (simp add: bpf_network_event_def tcp_flag_syn_def tcp_flag_ack_def)

theorem filter_passes_every_event_witness: "kernel_filter syn_frame = accept"
proof (rule filter_passes_every_event [OF _ syn_frame_parses])
  show "plain_frame syn_frame" by code_simp
qed (rule disjI1, rule syn_event, simp)

text \<open>
  With a VLAN tag the two tiers disagree. The parser understands a tagged frame, and the
  sensor would build a network event from a tagged SYN; the filter drops it, as it drops every
  frame with a tag.
\<close>

lemma tagged_frames_dropped:
  "(case parse_packet dlt_en10mb vlan_syn_frame of
      None \<Rightarrow> False | Some p \<Rightarrow> bpf_network_event now p \<noteq> None) \<and>
   kernel_filter vlan_syn_frame = 0"
proof (rule conjI)
  show "case parse_packet dlt_en10mb vlan_syn_frame of
      None \<Rightarrow> False | Some p \<Rightarrow> bpf_network_event now p \<noteq> None"
    by (simp add: vlan_syn_frame_parses syn_frame_parses syn_event del: not_None_eq)
  have "get_u16 12 vlan_syn_frame = Some ethertype_vlan" by code_simp
  then show "kernel_filter vlan_syn_frame = 0" by (rule filter_drops_vlan)
qed

section \<open>The records of a read buffer\<close>

definition read_u32 :: "u8 list \<Rightarrow> nat \<Rightarrow> u32" where
  "read_u32 buf at = le_word [buf ! at, buf ! (at + 1), buf ! (at + 2), buf ! (at + 3)]"

definition read_u16 :: "u8 list \<Rightarrow> nat \<Rightarrow> u16" where
  "read_u16 buf at = le_word [buf ! at, buf ! (at + 1)]"

text \<open>\<open>(value + 3) & !3\<close>.\<close>

definition bpf_word_align :: "nat \<Rightarrow> nat" where
  "bpf_word_align v = (v + 3) div 4 * 4"

definition bh_caplen_offset :: nat where "bh_caplen_offset = 8"
definition bh_hdrlen_offset :: nat where "bh_hdrlen_offset = 16"
definition bpf_hdr_fields_len :: nat where "bpf_hdr_fields_len = 18"

lemmas bpf_hdr_defs = bh_caplen_offset_def bh_hdrlen_offset_def bpf_hdr_fields_len_def

text \<open>
  The frames the closure is called with, in order. The offset is a \<open>usize\<close> of 64 bits; header
  and capture length are below 2^33 and the sums do not wrap.
\<close>

function for_each_packet :: "u8 list \<Rightarrow> nat \<Rightarrow> u8 list list" where
  "for_each_packet buf offset =
     (if offset + bpf_hdr_fields_len \<le> length buf then
        let caplen = unat (read_u32 buf (offset + bh_caplen_offset));
            hdrlen = unat (read_u16 buf (offset + bh_hdrlen_offset));
            start = offset + hdrlen
        in if start + caplen \<le> length buf then
             take caplen (drop start buf) #
               (let advance = bpf_word_align (hdrlen + caplen)
                in if advance = 0 then [] else for_each_packet buf (offset + advance))
           else []
      else [])"
  by pat_completeness auto
termination by (relation "measure (\<lambda>(buf, offset). length buf - offset)")
  (auto simp: bpf_hdr_fields_len_def)

declare for_each_packet.simps [simp del]

text \<open>
  A record as the kernel writes it: a header of at least 18 bytes that names its own length and
  the length of the capture, the capture, and padding up to a multiple of four.
\<close>

definition bpf_record :: "u8 list \<Rightarrow> u8 list \<Rightarrow> bool" where
  "bpf_record payload r \<longleftrightarrow>
     (let h = unat (read_u16 r bh_hdrlen_offset) in
      bpf_hdr_fields_len \<le> h \<and> unat (read_u32 r bh_caplen_offset) = length payload \<and>
      length r = bpf_word_align (h + length payload) \<and> take (length payload) (drop h r) = payload)"

lemma word_align_ge: "n \<le> bpf_word_align n"
  by (simp add: bpf_word_align_def)

lemma read_within:
  "at + 4 \<le> length r \<Longrightarrow> read_u32 (pre @ r @ post) (length pre + at) = read_u32 r at"
  "at + 2 \<le> length r \<Longrightarrow> read_u16 (pre @ r @ post) (length pre + at) = read_u16 r at"
  by (simp_all add: read_u32_def read_u16_def nth_append)

lemma record_first:
  assumes "bpf_record payload r"
  shows "for_each_packet (pre @ r @ post) (length pre) =
    payload # for_each_packet (pre @ r @ post) (length pre + length r)"
proof -
  define h where "h = unat (read_u16 r bh_hdrlen_offset)"
  have r: "18 \<le> h" "length r = bpf_word_align (h + length payload)"
    "take (length payload) (drop h r) = payload"
    "unat (read_u32 r bh_caplen_offset) = length payload"
    using assms by (simp_all add: bpf_record_def h_def bpf_hdr_fields_len_def Let_def)
  have len: "h + length payload \<le> length r" "length r \<noteq> 0"
    using r(1,2) word_align_ge [of "h + length payload"] by simp_all
  have "read_u32 (pre @ r @ post) (length pre + bh_caplen_offset) = read_u32 r bh_caplen_offset"
    "read_u16 (pre @ r @ post) (length pre + bh_hdrlen_offset) = read_u16 r bh_hdrlen_offset"
    using len r(1) by (simp_all add: read_within bpf_hdr_defs)
  moreover have "take (length payload) (drop (length pre + h) (pre @ r @ post)) = payload"
    using len(1) r(3) by simp
  ultimately show ?thesis
    using r(1,4) len
    by (subst for_each_packet.simps)
      (simp add: Let_def bpf_hdr_fields_len_def r(2) [symmetric] h_def [symmetric])
qed

lemma packets_of_records:
  assumes "list_all2 bpf_record ps rs" and "length tail < bpf_hdr_fields_len"
  shows "for_each_packet (pre @ concat rs @ tail) (length pre) = ps"
  using assms(1)
proof (induction ps rs arbitrary: pre rule: list_all2_induct)
  case Nil
  with assms(2) show ?case by (simp add: for_each_packet.simps [of "pre @ tail"])
next
  case (Cons p ps r rs)
  with record_first [of p r pre "concat rs @ tail"] Cons.IH [of "pre @ r"]
  show ?case by simp
qed

text \<open>
  The captures of a buffer of records are handed on in order and unchanged, whatever the
  header sizes and the padding, and a partial header at the end is ignored.
\<close>

lemma captures_roundtrip:
  assumes "list_all2 bpf_record ps rs" and "length tail < bpf_hdr_fields_len"
  shows "for_each_packet (concat rs @ tail) 0 = ps"
  using packets_of_records [OF assms, of "[]"] by simp

definition sample_record :: "u8 list \<Rightarrow> u8 list" where
  "sample_record payload =
     replicate 8 0 @ [of_nat (length payload), 0, 0, 0] @ replicate 4 0 @ [18, 0] @ payload @
     replicate (bpf_word_align (18 + length payload) - (18 + length payload)) 0"


section \<open>The capture thread and the attribution worker\<close>

text \<open>
  The event channel of the pipeline (a bounded queue that may be closed), the bounded queue of
  attribution jobs, and whether the worker still holds its receiver.
\<close>

record attribution_job =
  aj_event :: sensor_event
  aj_local_port :: u16
  aj_remote_port :: u16

record socket_owner =
  so_pid :: u32
  so_image :: "string option"

record capture =
  cp_events :: "sensor_event list"
  cp_room :: nat
  cp_open :: bool
  cp_jobs :: "attribution_job list"
  cp_worker :: bool

definition attribution_queue_cap :: nat where
  "attribution_queue_cap = 1024"

text \<open>Each operation returns the events it dropped.\<close>

definition bpf_try_send :: "sensor_event \<Rightarrow> capture \<Rightarrow> capture \<times> sensor_event list" where
  "bpf_try_send ev c =
     (if cp_open c \<and> length (cp_events c) < cp_room c
      then (c\<lparr>cp_events := cp_events c @ [ev]\<rparr>, [])
      else (c, [ev]))"

definition enqueue_attribution ::
    "sensor_event \<Rightarrow> u16 \<Rightarrow> u16 \<Rightarrow> capture \<Rightarrow> capture \<times> sensor_event list" where
  "enqueue_attribution ev local_port remote_port c =
     (let job = \<lparr>aj_event = ev, aj_local_port = local_port, aj_remote_port = remote_port\<rparr> in
      if cp_worker c \<and> length (cp_jobs c) < attribution_queue_cap
      then (c\<lparr>cp_jobs := cp_jobs c @ [job]\<rparr>, [])
      else bpf_try_send ev c)"

text \<open>The clock is read once for each event of the packet.\<close>

definition handle_packet ::
    "u32 \<Rightarrow> int \<times> int \<Rightarrow> u8 list \<Rightarrow> capture \<Rightarrow> capture \<times> sensor_event list" where
  "handle_packet link_type now frame c =
     (case parse_packet link_type frame of
        None \<Rightarrow> (c, [])
      | Some parsed \<Rightarrow>
          let (c1, lost1) =
                (case bpf_network_event (fst now) parsed of
                   None \<Rightarrow> (c, [])
                 | Some event \<Rightarrow>
                     (case connection_ports parsed of
                        Some (local_port, remote_port) \<Rightarrow>
                          enqueue_attribution event local_port remote_port c
                      | None \<Rightarrow> bpf_try_send event c));
              (c2, lost2) =
                (case bpf_dns_event (snd now) parsed of
                   None \<Rightarrow> (c1, []) | Some event \<Rightarrow> bpf_try_send event c1)
          in (c2, lost1 @ lost2))"

text \<open>One round of the capture loop: the packets of what was read, each with its clock.\<close>

fun handle_packets ::
    "u32 \<Rightarrow> (nat \<Rightarrow> int \<times> int) \<Rightarrow> u8 list list \<Rightarrow> capture \<Rightarrow> capture \<times> sensor_event list" where
  "handle_packets link_type clock [] c = (c, [])"
| "handle_packets link_type clock (frame # frames) c =
     (let (c1, lost1) = handle_packet link_type (clock (length frames)) frame c;
          (c2, lost2) = handle_packets link_type clock frames c1
      in (c2, lost1 @ lost2))"

definition apply_socket_owner ::
    "(u16 \<Rightarrow> u16 \<Rightarrow> socket_owner option) \<Rightarrow> sensor_event \<Rightarrow> u16 \<Rightarrow> u16 \<Rightarrow> sensor_event" where
  "apply_socket_owner find_owner event local_port remote_port =
     (case find_owner local_port remote_port of
        None \<Rightarrow> event
      | Some owner \<Rightarrow>
          event\<lparr>sv_pid := Some (so_pid owner),
            sv_payload :=
              (case sv_payload event of
                 PayNetwork nf \<Rightarrow>
                   PayNetwork (nf\<lparr>nc_process_id := Some (show_uint (so_pid owner)),
                     nc_image := so_image owner\<rparr>)
               | other \<Rightarrow> other)\<rparr>)"

text \<open>One iteration of the worker's loop.\<close>

definition attribution_worker ::
    "(u16 \<Rightarrow> u16 \<Rightarrow> socket_owner option) \<Rightarrow> capture \<Rightarrow> capture \<times> sensor_event list" where
  "attribution_worker find_owner c =
     (case cp_jobs c of
        [] \<Rightarrow> (c, [])
      | job # jobs \<Rightarrow>
          bpf_try_send
            (apply_socket_owner find_owner (aj_event job) (aj_local_port job) (aj_remote_port job))
            (c\<lparr>cp_jobs := jobs\<rparr>))"

text \<open>
  The threads' steps: a read returns a buffer, the worker takes a job, the pipeline receives the
  oldest event. The second component lists the events dropped, the third those delivered.
\<close>

datatype capture_step =
  ReadBuffer "u8 list" "nat \<Rightarrow> int \<times> int"
| Attribute "u16 \<Rightarrow> u16 \<Rightarrow> socket_owner option"
| Receive

fun capture_run_step ::
    "u32 \<Rightarrow> capture \<Rightarrow> capture_step \<Rightarrow> capture \<times> sensor_event list \<times> sensor_event list" where
  "capture_run_step link_type c (ReadBuffer buf clock) =
     (let (c', lost) = handle_packets link_type clock (for_each_packet buf 0) c in (c', lost, []))"
| "capture_run_step link_type c (Attribute find_owner) =
     (let (c', lost) = attribution_worker find_owner c in (c', lost, []))"
| "capture_run_step link_type c Receive =
     (case cp_events c of [] \<Rightarrow> (c, [], []) | ev # evs \<Rightarrow> (c\<lparr>cp_events := evs\<rparr>, [], [ev]))"

section \<open>No event is lost unseen\<close>

text \<open>The events a read buffer gives rise to, and an event without its attribution.\<close>

definition packet_events :: "u32 \<Rightarrow> int \<times> int \<Rightarrow> u8 list \<Rightarrow> sensor_event list" where
  "packet_events link_type now frame =
     (case parse_packet link_type frame of
        None \<Rightarrow> []
      | Some p \<Rightarrow>
          (case bpf_network_event (fst now) p of None \<Rightarrow> [] | Some ev \<Rightarrow> [ev]) @
          (case bpf_dns_event (snd now) p of None \<Rightarrow> [] | Some ev \<Rightarrow> [ev]))"

fun packets_events :: "u32 \<Rightarrow> (nat \<Rightarrow> int \<times> int) \<Rightarrow> u8 list list \<Rightarrow> sensor_event list" where
  "packets_events link_type clock [] = []"
| "packets_events link_type clock (frame # frames) =
     packet_events link_type (clock (length frames)) frame @ packets_events link_type clock frames"

definition step_events :: "u32 \<Rightarrow> capture_step \<Rightarrow> sensor_event list" where
  "step_events link_type e =
     (case e of ReadBuffer buf clock \<Rightarrow> packets_events link_type clock (for_each_packet buf 0) | _ \<Rightarrow> [])"

definition unattributed :: "sensor_event \<Rightarrow> sensor_event" where
  "unattributed ev =
     ev\<lparr>sv_pid := None,
       sv_payload := (case sv_payload ev of
          PayNetwork nf \<Rightarrow> PayNetwork (nf\<lparr>nc_process_id := None, nc_image := None\<rparr>)
        | other \<Rightarrow> other)\<rparr>"

definition bag :: "sensor_event list \<Rightarrow> sensor_event multiset" where
  "bag evs = mset (map unattributed evs)"

lemma bag_simps [simp]:
  "bag [] = {#}" "bag (ev # evs) = add_mset (unattributed ev) (bag evs)"
  "bag (xs @ ys) = bag xs + bag ys"
  by (simp_all add: bag_def)

definition held :: "capture \<Rightarrow> sensor_event multiset" where
  "held c = bag (cp_events c) + bag (map aj_event (cp_jobs c))"

lemma unattributed_apply [simp]:
  "unattributed (apply_socket_owner find_owner ev l r) = unattributed ev"
  by (simp add: unattributed_def apply_socket_owner_def split: option.split sensor_payload.split)

lemma try_send_held:
  "bpf_try_send ev c = (c', lost) \<Longrightarrow> held c' + bag lost = add_mset (unattributed ev) (held c)"
  by (auto simp: bpf_try_send_def held_def split: if_splits)

lemma enqueue_held:
  "enqueue_attribution ev l r c = (c', lost) \<Longrightarrow>
   held c' + bag lost = add_mset (unattributed ev) (held c)"
  by (auto simp: enqueue_attribution_def Let_def dest: try_send_held split: if_splits)
    (simp add: held_def)

lemma handle_packet_held:
  assumes "handle_packet link_type now frame c = (c', lost)"
  shows "held c' + bag lost = held c + bag (packet_events link_type now frame)"
proof (cases "parse_packet link_type frame")
  case None
  with assms show ?thesis by (simp add: handle_packet_def packet_events_def)
next
  case (Some p)
  obtain c1 lost1 where one: "(case bpf_network_event (fst now) p of None \<Rightarrow> (c, [])
      | Some event \<Rightarrow> (case connection_ports p of
          Some (l, r) \<Rightarrow> enqueue_attribution event l r c | None \<Rightarrow> bpf_try_send event c)) = (c1, lost1)"
    by (rule prod.exhaust)
  obtain c2 lost2 where two: "(case bpf_dns_event (snd now) p of None \<Rightarrow> (c1, [])
      | Some event \<Rightarrow> bpf_try_send event c1) = (c2, lost2)"
    by (rule prod.exhaust)
  have "held c1 + bag lost1 = held c +
      bag (case bpf_network_event (fst now) p of None \<Rightarrow> [] | Some ev \<Rightarrow> [ev])"
    using one by (auto dest: try_send_held enqueue_held split: option.splits)
  moreover have "held c2 + bag lost2 = held c1 +
      bag (case bpf_dns_event (snd now) p of None \<Rightarrow> [] | Some ev \<Rightarrow> [ev])"
    using two by (auto dest: try_send_held split: option.splits)
  moreover have "c' = c2" "lost = lost1 @ lost2"
    using assms Some one two by (simp_all add: handle_packet_def Let_def)
  ultimately show ?thesis using Some by (simp add: packet_events_def ac_simps)
qed

lemma handle_packets_held:
  "handle_packets link_type clock frames c = (c', lost) \<Longrightarrow>
   held c' + bag lost = held c + bag (packets_events link_type clock frames)"
proof (induction frames arbitrary: c c' lost)
  case (Cons frame frames)
  then obtain c1 lost1 lost2 where
    one: "handle_packet link_type (clock (length frames)) frame c = (c1, lost1)"
    and two: "handle_packets link_type clock frames c1 = (c', lost2)" "lost = lost1 @ lost2"
    by (auto split: prod.splits)
  from handle_packet_held [OF one] Cons.IH [OF two(1)] two(2) show ?case
    by (simp add: ac_simps)
qed simp

lemma capture_step_held:
  assumes "capture_run_step link_type c e = (c', lost, got)"
  shows "held c' + bag lost + bag got = held c + bag (step_events link_type e)"
  using assms
proof (cases e)
  case (ReadBuffer buf clock)
  with assms handle_packets_held [of link_type clock "for_each_packet buf 0" c c' lost]
  show ?thesis by (auto simp: step_events_def split: prod.splits)
next
  case (Attribute find_owner)
  with assms show ?thesis
    by (auto simp: step_events_def attribution_worker_def split: prod.splits list.splits
        dest!: try_send_held) (simp_all add: held_def)
next
  case Receive
  with assms show ?thesis
    by (auto simp: step_events_def held_def split: list.splits)
qed

definition dropped :: "(sensor_event list \<times> sensor_event list) list \<Rightarrow> sensor_event list" where
  "dropped outs = concat (map fst outs)"

definition delivered :: "(sensor_event list \<times> sensor_event list) list \<Rightarrow> sensor_event list" where
  "delivered outs = concat (map snd outs)"

lemma capture_run_held:
  "held (fst (run (capture_run_step link_type) c es)) +
     bag (dropped (snd (run (capture_run_step link_type) c es))) +
     bag (delivered (snd (run (capture_run_step link_type) c es))) =
   held c + bag (concat (map (step_events link_type) es))"
proof (induction es arbitrary: c)
  case Nil
  show ?case by (simp add: dropped_def delivered_def)
next
  case (Cons e es)
  obtain c' lost got where step: "capture_run_step link_type c e = (c', lost, got)"
    by (metis prod.exhaust)
  show ?case
    using Cons.IH [of c'] capture_step_held [OF step]
    by (simp add: step dropped_def delivered_def ac_simps)
qed

definition fresh_capture :: "nat \<Rightarrow> bool \<Rightarrow> bool \<Rightarrow> capture" where
  "fresh_capture room is_open worker =
     \<lparr>cp_events = [], cp_room = room, cp_open = is_open, cp_jobs = [], cp_worker = worker\<rparr>"


text \<open>Both queues are bounded, and an event is dropped only at a full or closed channel.\<close>

definition capture_inv :: "capture \<Rightarrow> bool" where
  "capture_inv c \<longleftrightarrow> length (cp_events c) \<le> cp_room c \<and> length (cp_jobs c) \<le> attribution_queue_cap"

lemma try_send_inv: "capture_inv c \<Longrightarrow> capture_inv (fst (bpf_try_send ev c))"
  by (simp add: bpf_try_send_def capture_inv_def)

lemma enqueue_inv: "capture_inv c \<Longrightarrow> capture_inv (fst (enqueue_attribution ev l r c))"
  by (simp add: enqueue_attribution_def Let_def try_send_inv) (simp add: capture_inv_def)

lemma handle_packet_inv: "capture_inv c \<Longrightarrow> capture_inv (fst (handle_packet link_type now frame c))"
  by (simp add: handle_packet_def Let_def case_prod_beta try_send_inv enqueue_inv split: option.split)

lemma handle_packets_inv:
  "capture_inv c \<Longrightarrow> capture_inv (fst (handle_packets link_type clock frames c))"
  by (induction frames arbitrary: c) (simp_all add: handle_packet_inv case_prod_beta)

lemma capture_step_inv: "capture_inv c \<Longrightarrow> capture_inv (fst (capture_run_step link_type c e))"
proof (cases e)
  case (ReadBuffer buf clock)
  assume "capture_inv c"
  with ReadBuffer show ?thesis by (simp add: handle_packets_inv case_prod_beta)
next
  case (Attribute find_owner)
  assume inv: "capture_inv c"
  show ?thesis
  proof (cases "cp_jobs c")
    case (Cons job jobs)
    with inv have "capture_inv (c\<lparr>cp_jobs := jobs\<rparr>)" by (simp add: capture_inv_def)
    with Attribute Cons show ?thesis
      by (simp add: attribution_worker_def case_prod_beta try_send_inv)
  qed (simp add: Attribute attribution_worker_def inv)
qed (auto simp: capture_inv_def split: list.split)

interpretation capture: machine "capture_run_step link_type" capture_inv "\<lambda>_. True"
  by unfold_locales (rule capture_step_inv)

lemma capture_bounded:
  "capture_inv (fst (run (capture_run_step link_type) (fresh_capture room is_open worker) es))"
  by (rule capture.run_inv) (simp_all add: capture_inv_def fresh_capture_def list_all_iff)

end
