(* ===== verification/Paths.thy ===== *)
theory Paths
  imports Text
begin

text \<open>
  \<open>std::path::Path\<close> on Unix: the components of a path, and the operations on path strings that the
  configuration, the rule packs and the reload worker call. A path is a byte string; repeated and
  trailing separators and \<open>.\<close> between names are not components.
\<close>

datatype component = Root_Dir | Cur_Dir | Parent_Dir | Normal string

definition to_component :: "string \<Rightarrow> component" where
  "to_component w = (if w = ''..'' then Parent_Dir else Normal w)"

definition path_pieces :: "string \<Rightarrow> string list" where
  "path_pieces s = filter (\<lambda>w. w \<noteq> [] \<and> w \<noteq> ''.'') (split_by (\<lambda>c. c = CHR ''/'') s)"

definition is_absolute :: "string \<Rightarrow> bool" where
  "is_absolute s = (case s of [] \<Rightarrow> False | c # _ \<Rightarrow> c = CHR ''/'')"

definition path_components :: "string \<Rightarrow> component list" where
  "path_components s =
     (if is_absolute s then [Root_Dir]
      else if hd (split_by (\<lambda>c. c = CHR ''/'') s) = ''.'' then [Cur_Dir] else []) @
     map to_component (path_pieces s)"

definition file_name_of :: "component list \<Rightarrow> string option" where
  "file_name_of cs = (case rev cs of Normal w # _ \<Rightarrow> Some w | _ \<Rightarrow> None)"

definition parent_of :: "component list \<Rightarrow> component list option" where
  "parent_of cs = (case rev cs of [] \<Rightarrow> None | Root_Dir # _ \<Rightarrow> None | _ \<Rightarrow> Some (butlast cs))"

definition path_file_name :: "string \<Rightarrow> string option" where
  "path_file_name s = file_name_of (path_components s)"

text \<open>\<open>Path::join\<close>.\<close>

definition path_join :: "string \<Rightarrow> string \<Rightarrow> string" where
  "path_join a b =
     (if is_absolute b then b
      else if a = [] \<or> last a = CHR ''/'' then a @ b else a @ ''/'' @ b)"

text \<open>
  \<open>Path::parent\<close> as a slice of the text: up to the last component that is left, without the
  separators behind it; \<open>path_start\<close> is the length of the root or of a leading dot.
\<close>

definition path_start :: "string \<Rightarrow> nat" where
  "path_start s =
     (if is_absolute s \<or> hd (split_by (\<lambda>c. c = CHR ''/'') s) = ''.'' then 1 else 0)"

definition trim_pieces :: "string list \<Rightarrow> string list" where
  "trim_pieces ws = rev (dropWhile (\<lambda>w. w = [] \<or> w = ''.'') (rev ws))"

definition path_parent :: "string \<Rightarrow> string option" where
  "path_parent s =
     (let start = path_start s;
          ws = trim_pieces (split_by (\<lambda>c. c = CHR ''/'') (drop start s))
      in if ws = [] then (if start = 1 \<and> \<not> is_absolute s then Some [] else None)
         else Some (take start s @ join ''/'' (trim_pieces (butlast ws))))"

text \<open>\<open>Path::extension\<close>: after the last dot of the file name, if something stands before it.\<close>

definition path_extension :: "string \<Rightarrow> string option" where
  "path_extension s =
     (case path_file_name s of
        None \<Rightarrow> None
      | Some w \<Rightarrow>
          case rsplit_once CHR ''.'' w of
            None \<Rightarrow> None
          | Some (before, after) \<Rightarrow> if before = [] then None else Some after)"

lemma path_pieces_names: "w \<in> set (path_pieces s) \<Longrightarrow> w \<noteq> [] \<and> w \<noteq> ''.'' \<and> CHR ''/'' \<notin> set w"
  using split_by_no_sep [of "\<lambda>c. c = CHR ''/''" s] by (auto simp: path_pieces_def)

lemma split_by_plain: "\<forall>c \<in> set w. \<not> p c \<Longrightarrow> split_by p w = [w]"
  by (induction w) auto

lemma path_pieces_plain:
  "CHR ''/'' \<notin> set w \<Longrightarrow> path_pieces w = (if w = [] \<or> w = ''.'' then [] else [w])"
  by (subst path_pieces_def, subst split_by_plain) auto

lemma split_by_two_pieces:
  "p c \<Longrightarrow> split_by p (a @ c # b) = split_by p a @ split_by p b"
  by (induction a) (auto split: list.splits)

lemma path_pieces_append:
  "path_pieces (a @ CHR ''/'' # b) = path_pieces a @ path_pieces b"
  by (simp add: path_pieces_def split_by_two_pieces)

lemma path_pieces_join:
  assumes "\<not> is_absolute b"
  shows "path_pieces (path_join a b) = path_pieces a @ path_pieces b"
proof (cases "a = []")
  case True
  with assms show ?thesis by (simp add: path_join_def path_pieces_def)
next
  case False
  show ?thesis
  proof (cases "last a = CHR ''/''")
    case True
    with False have a: "a = butlast a @ [CHR ''/'']"
      using append_butlast_last_id [of a] by simp
    have "path_pieces (path_join a b) = path_pieces (butlast a @ CHR ''/'' # b)"
      using assms True False a by (simp add: path_join_def) (metis append.assoc append_Cons append_Nil)
    moreover have "path_pieces a = path_pieces (butlast a)"
      using path_pieces_append [of "butlast a" "[]"] a by (simp add: path_pieces_def)
    ultimately show ?thesis by (simp add: path_pieces_append)
  next
    case last: False
    with assms False show ?thesis by (simp add: path_join_def path_pieces_append)
  qed
qed

end
