(* ===== verification/Esf.thy ===== *)
theory Esf
  imports Paths Normalizer
begin

text \<open>
  \<open>src/sensor/macos/esf.rs\<close>: the events of the macOS Endpoint Security sensor. What the
  \<open>endpoint_sec\<close> crate lets the sensor read of a message is data: the acting process, the time and
  the event; paths are the bytes the framework delivers. The image of a parent process is a system
  call, a parameter; the clock is not read.
\<close>

section \<open>Messages\<close>

record es_process =
  ep_pid :: i32
  ep_ruid :: u32
  ep_path :: "u8 list"

text \<open>The target of an exec also has its parent and its start time, when they are known.\<close>

record es_exec =
  ee_target :: es_process
  ee_ppid :: i32
  ee_start_time :: "int option"
  ee_args :: "u8 list list"
  ee_cwd :: "u8 list option"

datatype es_destination = ExistingFile "u8 list" | NewPath "u8 list" "u8 list" | UnknownDestination

datatype es_event =
  NotifyExec es_exec
| NotifyExit
| NotifyCreate "es_destination option"
| NotifyUnlink "u8 list"
| NotifyRename "u8 list" "es_destination option"
| NotifyClose bool "u8 list"
| NotifyOther

record es_message =
  em_process :: es_process
  em_time :: int
  em_event :: "es_event option"

section \<open>Helpers\<close>

definition osstr_to_string :: "u8 list \<Rightarrow> string" where
  "osstr_to_string value = from_utf8_lossy value"

definition push_path :: "u8 list \<Rightarrow> u8 list \<Rightarrow> string" where
  "push_path directory filename =
     utf8_lossy (path_join (map byte_char directory) (map byte_char filename))"

definition system_time_nanos :: "int \<Rightarrow> u64" where
  "system_time_nanos t = (if t < 0 then 0 else of_int t)"

definition text_of :: "string \<Rightarrow> string option" where
  "text_of s = (if s = [] then None else Some s)"

section \<open>Processes\<close>

record raw_exec =
  rx_pid :: u32
  rx_image :: string
  rx_command_line :: "string option"
  rx_parent_pid :: i32
  rx_parent_image :: "string option"
  rx_current_directory :: "string option"
  rx_user :: string
  rx_start_time :: u64
  rx_event_time :: int

definition process_start_event :: "raw_exec \<Rightarrow> sensor_event" where
  "process_start_event raw =
     (let parent_process_id =
        (if 0 <s rx_parent_pid raw then Some (show_uint (rx_parent_pid raw)) else None)
      in \<lparr>sv_platform = MacOS, sv_provider = ''esf'', sv_action = ActStart, sv_event_id = 1,
        sv_action_code = 1, sv_pid = Some (rx_pid raw), sv_timestamp = rx_event_time raw,
        sv_process_start_key =
          Some \<lparr>sk_pid = rx_pid raw, sk_start_time = rx_start_time raw\<rparr>,
        sv_payload = PayProcess \<lparr>pc_image = Some (rx_image raw), pc_original_file_name = None,
          pc_product = None, pc_description = None, pc_target_image = None,
          pc_command_line = rx_command_line raw, pc_process_id = Some (show_uint (rx_pid raw)),
          pc_process_start_time = Some (rx_start_time raw),
          pc_parent_process_id = parent_process_id, pc_parent_image = rx_parent_image raw,
          pc_parent_command_line = None, pc_current_directory = rx_current_directory raw,
          pc_integrity_level = None, pc_user = Some (rx_user raw), pc_logon_id = None,
          pc_logon_guid = None\<rparr>\<rparr>)"

definition build_exec_event ::
    "(u32 \<Rightarrow> string option) \<Rightarrow> es_message \<Rightarrow> es_exec \<Rightarrow> sensor_event option" where
  "build_exec_event images msg exec =
     (let target = ee_target exec; img = osstr_to_string (ep_path target) in
      if img = [] then None
      else
        let parts = map osstr_to_string (ee_args exec) in
        Some (process_start_event \<lparr>rx_pid = ep_pid target, rx_image = img,
          rx_command_line = (if parts \<noteq> [] then Some (join '' '' parts) else None),
          rx_parent_pid = ee_ppid exec,
          rx_parent_image = (if 0 <s ee_ppid exec then images (ee_ppid exec) else None),
          rx_current_directory =
            Option.bind (map_option osstr_to_string (ee_cwd exec)) text_of,
          rx_user = show_uint (ep_ruid target),
          rx_start_time = (case map_option system_time_nanos (ee_start_time exec) of
            Some t \<Rightarrow> t | None \<Rightarrow> system_time_nanos (em_time msg)),
          rx_event_time = em_time msg\<rparr>))"

definition process_stop_event :: "u32 \<Rightarrow> string \<Rightarrow> int \<Rightarrow> sensor_event" where
  "process_stop_event pid user event_time =
     \<lparr>sv_platform = MacOS, sv_provider = ''esf'', sv_action = ActStop, sv_event_id = 5,
      sv_action_code = 2, sv_pid = Some pid, sv_timestamp = event_time,
      sv_process_start_key = None,
      sv_payload = PayProcess \<lparr>pc_image = None, pc_original_file_name = None, pc_product = None,
        pc_description = None, pc_target_image = None, pc_command_line = None,
        pc_process_id = Some (show_uint pid), pc_process_start_time = None,
        pc_parent_process_id = None, pc_parent_image = None, pc_parent_command_line = None,
        pc_current_directory = None, pc_integrity_level = None, pc_user = Some user,
        pc_logon_id = None, pc_logon_guid = None\<rparr>\<rparr>"

definition build_exit_event :: "es_message \<Rightarrow> sensor_event option" where
  "build_exit_event msg =
     Some (process_stop_event (ep_pid (em_process msg)) (show_uint (ep_ruid (em_process msg)))
       (em_time msg))"

section \<open>Files\<close>

datatype es_file_action = EsCreate | EsDelete | EsRename | EsModify

definition es_normalization :: "es_file_action \<Rightarrow> sensor_action \<times> u16 \<times> u8" where
  "es_normalization a =
     (case a of EsCreate \<Rightarrow> (ActCreate, 11, 64) | EsDelete \<Rightarrow> (ActDelete, 23, 70)
      | EsRename \<Rightarrow> (ActRename, 71, 71) | EsModify \<Rightarrow> (ActModify, 11, 65))"

record raw_file =
  rf_action :: es_file_action
  rf_pid :: u32
  rf_image :: "string option"
  rf_user :: string
  rf_target :: string
  rf_source :: "string option"
  rf_event_time :: int

definition actor :: "es_message \<Rightarrow> u32 \<times> string option \<times> string" where
  "actor msg =
     (let process = em_process msg in
      (ep_pid process, text_of (osstr_to_string (ep_path process)), show_uint (ep_ruid process)))"

definition es_file_event :: "raw_file \<Rightarrow> sensor_event option" where
  "es_file_event raw =
     (if rf_target raw = [] then None
      else
        let (action, event_id, action_code) = es_normalization (rf_action raw) in
        Some \<lparr>sv_platform = MacOS, sv_provider = ''esf'', sv_action = action,
          sv_event_id = event_id, sv_action_code = action_code, sv_pid = Some (rf_pid raw),
          sv_timestamp = rf_event_time raw, sv_process_start_key = None,
          sv_payload = PayFile \<lparr>fe_source_filename = rf_source raw,
            fe_target_filename = Some (rf_target raw),
            fe_process_id = Some (show_uint (rf_pid raw)), fe_image = rf_image raw,
            fe_creation_utc_time = None, fe_previous_creation_utc_time = None,
            fe_user = Some (rf_user raw)\<rparr>\<rparr>)"

text \<open>\<open>create_destination_path\<close> and \<open>rename_destination_path\<close> are the same function on two types.\<close>

definition create_destination_path :: "es_destination \<Rightarrow> string option" where
  "create_destination_path dest =
     (case dest of
        ExistingFile path \<Rightarrow> text_of (osstr_to_string path)
      | NewPath directory filename \<Rightarrow> text_of (push_path directory filename)
      | UnknownDestination \<Rightarrow> None)"

definition rename_destination_path :: "es_destination \<Rightarrow> string option" where
  "rename_destination_path dest =
     (case dest of
        ExistingFile path \<Rightarrow> text_of (osstr_to_string path)
      | NewPath directory filename \<Rightarrow> text_of (push_path directory filename)
      | UnknownDestination \<Rightarrow> None)"

definition raw_file_of ::
    "es_message \<Rightarrow> es_file_action \<Rightarrow> string \<Rightarrow> string option \<Rightarrow> raw_file" where
  "raw_file_of msg action target source =
     (let (pid, img, user) = actor msg in
      \<lparr>rf_action = action, rf_pid = pid, rf_image = img, rf_user = user, rf_target = target,
       rf_source = source, rf_event_time = em_time msg\<rparr>)"

definition build_create_event :: "es_message \<Rightarrow> es_destination option \<Rightarrow> sensor_event option" where
  "build_create_event msg destination =
     (case Option.bind destination create_destination_path of
        None \<Rightarrow> None
      | Some target \<Rightarrow> es_file_event (raw_file_of msg EsCreate target None))"

definition build_unlink_event :: "es_message \<Rightarrow> u8 list \<Rightarrow> sensor_event option" where
  "build_unlink_event msg target =
     es_file_event (raw_file_of msg EsDelete (osstr_to_string target) None)"

definition build_rename_event ::
    "es_message \<Rightarrow> u8 list \<Rightarrow> es_destination option \<Rightarrow> sensor_event option" where
  "build_rename_event msg source destination =
     (case Option.bind destination rename_destination_path of
        None \<Rightarrow> None
      | Some target \<Rightarrow>
          es_file_event (raw_file_of msg EsRename target (text_of (osstr_to_string source))))"

definition build_close_event :: "es_message \<Rightarrow> bool \<Rightarrow> u8 list \<Rightarrow> sensor_event option" where
  "build_close_event msg modified target =
     (if \<not> modified then None
      else es_file_event (raw_file_of msg EsModify (osstr_to_string target) None))"

section \<open>The handler\<close>

definition build_sensor_event ::
    "(u32 \<Rightarrow> string option) \<Rightarrow> es_message \<Rightarrow> sensor_event option" where
  "build_sensor_event images msg =
     (case em_event msg of
        None \<Rightarrow> None
      | Some ev \<Rightarrow>
          case ev of
            NotifyExec exec \<Rightarrow> build_exec_event images msg exec
          | NotifyExit \<Rightarrow> build_exit_event msg
          | NotifyCreate destination \<Rightarrow> build_create_event msg destination
          | NotifyUnlink target \<Rightarrow> build_unlink_event msg target
          | NotifyRename source destination \<Rightarrow> build_rename_event msg source destination
          | NotifyClose modified target \<Rightarrow> build_close_event msg modified target
          | NotifyOther \<Rightarrow> None)"

text \<open>The channel to the pipeline: a bounded queue, or closed.\<close>

record event_channel =
  ec_open :: bool
  ec_room :: nat
  ec_queue :: "sensor_event list"

definition es_try_send :: "sensor_event \<Rightarrow> event_channel \<Rightarrow> event_channel" where
  "es_try_send event tx =
     (if ec_open tx \<and> length (ec_queue tx) < ec_room tx
      then tx\<lparr>ec_queue := ec_queue tx @ [event]\<rparr> else tx)"

text \<open>The conversion is None when it panics, which the handler catches.\<close>

definition es_handler :: "sensor_event option option \<Rightarrow> event_channel \<Rightarrow> event_channel" where
  "es_handler converted tx =
     (case converted of Some (Some event) \<Rightarrow> es_try_send event tx | _ \<Rightarrow> tx)"

section \<open>Lemmas\<close>

lemmas es_build_defs =
  build_exec_event_def build_exit_event_def build_create_event_def build_unlink_event_def
  build_rename_event_def build_close_event_def es_file_event_def raw_file_of_def actor_def

lemma es_file_event_eq:
  "es_file_event raw = Some ev \<Longrightarrow>
   (sv_action ev, sv_event_id ev, sv_action_code ev) = es_normalization (rf_action raw) \<and>
   sv_platform ev = MacOS \<and>
   (\<exists>f. sv_payload ev = PayFile f \<and> fe_process_id f = Some (show_uint (rf_pid raw)))"
  by (auto simp: es_file_event_def case_prod_beta split: if_splits)

text \<open>An event of the sensor is a start or a stop of a process, or an operation on a file.\<close>

lemma built_event_cases:
  assumes "build_sensor_event images msg = Some ev"
  obtains (start) raw where "ev = process_start_event raw"
  | (stop) pid user t where "ev = process_stop_event pid user t"
  | (file_op) raw where "es_file_event raw = Some ev"
  using assms
  by (auto simp: build_sensor_event_def build_exec_event_def build_exit_event_def
      build_create_event_def build_unlink_event_def build_rename_event_def build_close_event_def
      Let_def split: option.splits es_event.splits if_splits)

text \<open>The process an event names is the one in its payload.\<close>

lemma es_pid_agrees:
  "build_sensor_event images msg = Some ev \<Longrightarrow>
   \<exists>pid. sv_pid ev = Some pid \<and> event_pid ev (Some (show_uint pid)) = pid \<and>
     (\<forall>k. sv_process_start_key ev = Some k \<longrightarrow> sk_pid k = pid)"
  by (erule built_event_cases)
    (auto simp: process_start_event_def process_stop_event_def es_file_event_def event_pid_def
      parse_optional_u32_def case_prod_beta Let_def split: if_splits)

text \<open>A file that is only opened for writing and closed unchanged is not reported.\<close>

lemma unmodified_close_is_silent:
  "em_event msg = Some (NotifyClose False target) \<Longrightarrow> build_sensor_event images msg = None"
  by (simp add: build_sensor_event_def build_close_event_def)

end
