(* ===== verification/Lookups.thy ===== *)
theory Lookups
  imports Text Prelude
begin

text \<open>
  \<open>src/utils/pe.rs\<close>: the version information of an executable and its cache; \<open>src/utils/user.rs\<close>:
  the loop around \<open>getpwuid_r\<close>. The parser of executables and the C library are parameters.
\<close>

section \<open>Version information\<close>

record pe_metadata =
  pe_original_filename :: "string option"
  pe_product :: "string option"
  pe_description :: "string option"

text \<open>The callback on one string of a language.\<close>

definition version_string :: "string \<times> string \<Rightarrow> pe_metadata \<Rightarrow> pe_metadata" where
  "version_string kv m =
     (let (key, v) = kv in
      if key = ''OriginalFilename'' \<and> pe_original_filename m = None
      then m\<lparr>pe_original_filename := Some v\<rparr>
      else if key = ''ProductName'' \<and> pe_product m = None then m\<lparr>pe_product := Some v\<rparr>
      else if key = ''FileDescription'' \<and> pe_description m = None
      then m\<lparr>pe_description := Some v\<rparr>
      else m)"

definition complete_metadata :: "pe_metadata \<Rightarrow> bool" where
  "complete_metadata m \<longleftrightarrow>
     pe_original_filename m \<noteq> None \<and> pe_product m \<noteq> None \<and> pe_description m \<noteq> None"

fun version_languages :: "(string \<times> string) list list \<Rightarrow> pe_metadata \<Rightarrow> pe_metadata" where
  "version_languages [] m = m"
| "version_languages (strings # languages) m =
     (let m' = fold version_string strings m in
      if complete_metadata m' then m' else version_languages languages m')"

definition no_metadata :: pe_metadata where
  "no_metadata =
     \<lparr>pe_original_filename = None, pe_product = None, pe_description = None\<rparr>"

text \<open>
  The strings of every language of the version resource, None without one; the functions for 64-bit
  and 32-bit files have the same body.
\<close>

definition extract_version_info :: "(string \<times> string) list list option \<Rightarrow> pe_metadata option" where
  "extract_version_info languages =
     (case languages of
        None \<Rightarrow> None
      | Some ls \<Rightarrow>
          let m = version_languages ls no_metadata in
          if pe_original_filename m \<noteq> None \<or> pe_product m \<noteq> None \<or> pe_description m \<noteq> None
          then Some m else None)"

text \<open>
  What a file is to the \<open>pelite\<close> crate: not mapped, neither kind of executable, or the version
  resource of the 64-bit or else the 32-bit executable.
\<close>

datatype pe_file =
  Unreadable
| Not_Pe
| Pe64 "(string \<times> string) list list option"
| Pe32 "(string \<times> string) list list option"

definition parse_metadata_impl :: "pe_file \<Rightarrow> pe_metadata option" where
  "parse_metadata_impl f =
     (case f of
        Unreadable \<Rightarrow> None
      | Pe64 languages \<Rightarrow> extract_version_info languages
      | Pe32 languages \<Rightarrow> extract_version_info languages
      | Not_Pe \<Rightarrow> None)"

type_synonym pe_cache = "(string, pe_metadata option) hmap"

definition parse_metadata ::
    "(string \<Rightarrow> pe_file) \<Rightarrow> string \<Rightarrow> pe_cache \<Rightarrow> pe_cache \<times> pe_metadata option" where
  "parse_metadata files path cache =
     (case hm_get cache path of
        Some cached \<Rightarrow> (cache, cached)
      | None \<Rightarrow>
          let metadata = parse_metadata_impl (files path)
          in (hm_insert path metadata cache, metadata))"

subsection \<open>Reference\<close>

text \<open>The first value of a key in all the languages.\<close>

definition first_value :: "string \<Rightarrow> (string \<times> string) list \<Rightarrow> string option" where
  "first_value key kvs = map_option snd (find (\<lambda>kv. fst kv = key) kvs)"

definition or_value :: "'a option \<Rightarrow> 'a option \<Rightarrow> 'a option" where
  "or_value a b = (case a of Some x \<Rightarrow> Some x | None \<Rightarrow> b)"

definition first_values :: "(string \<times> string) list \<Rightarrow> pe_metadata \<Rightarrow> pe_metadata" where
  "first_values kvs m =
     \<lparr>pe_original_filename = or_value (pe_original_filename m) (first_value ''OriginalFilename'' kvs),
      pe_product = or_value (pe_product m) (first_value ''ProductName'' kvs),
      pe_description = or_value (pe_description m) (first_value ''FileDescription'' kvs)\<rparr>"

lemma first_value_simps [simp]:
  "first_value key [] = None"
  "first_value key ((k, v) # kvs) = (if k = key then Some v else first_value key kvs)"
  by (simp_all add: first_value_def)

lemma first_value_append:
  "first_value key (a @ b) = or_value (first_value key a) (first_value key b)"
  by (induction a) (auto simp: or_value_def)

lemma or_value_assoc: "or_value (or_value a b) c = or_value a (or_value b c)"
  by (simp add: or_value_def split: option.split)

lemma or_value_simps [simp]: "or_value None b = b" "or_value (Some x) b = Some x" "or_value a None = a"
  by (simp_all add: or_value_def split: option.split)

lemma fold_version_string: "fold version_string kvs m = first_values kvs m"
proof (induction kvs arbitrary: m)
  case Nil
  then show ?case by (cases m) (simp add: first_values_def)
next
  case (Cons kv kvs)
  then show ?case
    by (cases kv; cases "pe_original_filename m"; cases "pe_product m"; cases "pe_description m")
      (auto simp: version_string_def first_values_def)
qed

lemma first_values_append: "first_values (a @ b) m = first_values b (first_values a m)"
  by (simp add: first_values_def first_value_append or_value_assoc)

lemma first_values_complete: "complete_metadata m \<Longrightarrow> first_values kvs m = m"
  by (cases m) (auto simp: first_values_def complete_metadata_def)

lemma version_languages_first: "version_languages ls m = first_values (concat ls) m"
proof (induction ls arbitrary: m)
  case Nil
  then show ?case by (cases m) (simp add: first_values_def)
next
  case (Cons strings ls)
  then show ?case
    by (simp add: Let_def fold_version_string first_values_append first_values_complete)
qed

lemma extract_version_info_first:
  "extract_version_info (Some ls) =
     (let m = first_values (concat ls) no_metadata in if m = no_metadata then None else Some m)"
  by (auto simp: extract_version_info_def version_languages_first no_metadata_def first_values_def
      Let_def)

text \<open>Stopping at the first language that completes the three fields changes nothing.\<close>

lemma version_fields_exact:
  assumes "extract_version_info (Some ls) = Some m"
  shows "pe_original_filename m = first_value ''OriginalFilename'' (concat ls)"
    and "pe_product m = first_value ''ProductName'' (concat ls)"
    and "pe_description m = first_value ''FileDescription'' (concat ls)"
  using assms
  by (auto simp: extract_version_info_first Let_def first_values_def no_metadata_def split: if_splits)

subsection \<open>The cache\<close>

fun metadata_step :: "pe_cache \<Rightarrow> (string \<Rightarrow> pe_file) \<times> string \<Rightarrow> pe_cache \<times> pe_metadata option" where
  "metadata_step cache (files, path) = parse_metadata files path cache"

lemma cached_stays:
  "hm_get cache p = Some r \<Longrightarrow> hm_get (fst (parse_metadata files q cache)) p = Some r"
  by (auto simp: parse_metadata_def Let_def update_conv' split: option.split)

text \<open>
  What was read when a path was first looked up, a failure included, is the answer for that path
  ever after, whatever the file is later.
\<close>

lemma first_look_is_final:
  assumes "hm_get cache p = None"
  shows "snd (parse_metadata files' p (fst (run metadata_step
     (fst (parse_metadata files p cache)) es))) = parse_metadata_impl (files p)"
proof -
  have "hm_get (fst (run metadata_step c es)) p = Some r" if "hm_get c p = Some r" for c es r
    using that
    by (induction es arbitrary: c) (auto simp: run_Cons case_prod_beta cached_stays)
  moreover have "hm_get (fst (parse_metadata files p cache)) p = Some (parse_metadata_impl (files p))"
    using assms by (simp add: parse_metadata_def Let_def update_conv')
  ultimately show ?thesis by (simp add: parse_metadata_def)
qed

section \<open>Account names\<close>

text \<open>
  What a call of \<open>getpwuid_r\<close> with a buffer of the given length ends with: the name, \<open>ERANGE\<close>, or
  another status, success without an entry included.
\<close>

datatype getpw = Pw_Name "u8 list" | Pw_Range | Pw_Other

definition max_passwd_buffer :: nat where
  "max_passwd_buffer = 64 * 1024"

text \<open>
  The loop, which doubles the buffer; the first component of the result is the number of calls. It
  does not return when the buffer has no bytes, so it is a partial function.
\<close>

partial_function (option) lookup_loop ::
    "(nat \<Rightarrow> getpw) \<Rightarrow> nat \<Rightarrow> nat \<Rightarrow> (nat \<times> string option) option" where
  "lookup_loop getpwuid_r calls buf_len =
     (if max_passwd_buffer < buf_len then Some (calls, None)
      else
        case getpwuid_r buf_len of
          Pw_Name name \<Rightarrow>
            (let v = str_trim (from_utf8_lossy name)
             in Some (Suc calls, if v = [] then None else Some v))
        | Pw_Other \<Rightarrow> Some (Suc calls, None)
        | Pw_Range \<Rightarrow> lookup_loop getpwuid_r (Suc calls) (buf_len * 2))"

text \<open>\<open>sysconf\<close> is the limit the C library reports, which may be -1.\<close>

definition passwd_buffer :: "int \<Rightarrow> nat" where
  "passwd_buffer sysconf = (if 0 < sysconf then nat sysconf else 1024)"

definition lookup_username_by_uid ::
    "int \<Rightarrow> (nat \<Rightarrow> getpw) \<Rightarrow> (nat \<times> string option) option" where
  "lookup_username_by_uid sysconf getpwuid_r =
     lookup_loop getpwuid_r 0 (passwd_buffer sysconf)"

text \<open>An account name of Windows, from the two buffers of \<open>LookupAccountSidW\<close> as text.\<close>

definition account_name :: "string \<Rightarrow> string \<Rightarrow> string" where
  "account_name name_buf domain_buf =
     (let name = trim_end_matches_char (CHR 0x00) name_buf;
          domain = trim_end_matches_char (CHR 0x00) domain_buf
      in if domain = [] then name else domain @ [backslash] @ name)"

lemma lookup_loop_doubles:
  assumes "0 < buf_len" and "max_passwd_buffer < buf_len * 2 ^ n"
  shows "\<exists>k r. lookup_loop getpwuid_r calls buf_len = Some (k, r) \<and> k \<le> calls + n"
  using assms
proof (induction n arbitrary: calls buf_len)
  case 0
  then show ?case by (subst lookup_loop.simps) simp
next
  case (Suc n)
  show ?case
  proof (cases "max_passwd_buffer < buf_len")
    case True
    then show ?thesis by (subst lookup_loop.simps) simp
  next
    case False
    from Suc.prems have "0 < buf_len * 2" "max_passwd_buffer < buf_len * 2 * 2 ^ n"
      by (simp_all add: mult.assoc)
    from Suc.IH [OF this, of "Suc calls"] obtain k r where
      "lookup_loop getpwuid_r (Suc calls) (buf_len * 2) = Some (k, r)" "k \<le> Suc calls + n" by blast
    with False show ?thesis
      by (subst lookup_loop.simps) (auto split: getpw.split simp: Let_def)
  qed
qed

text \<open>An empty buffer would keep the loop from returning while the answer is \<open>ERANGE\<close>.\<close>

lemma empty_buffer_diverges:
  assumes "getpwuid_r 0 = Pw_Range"
  shows "lookup_loop getpwuid_r calls 0 = None"
proof -
  have "g 0 = Pw_Range \<longrightarrow> n \<noteq> 0" if "lookup_loop g calls n = Some r" for g calls n r
    using that
    by (rule lookup_loop.raw_induct [where P = "\<lambda>g calls n r. g 0 = Pw_Range \<longrightarrow> n \<noteq> 0", rotated])
      (auto split: if_splits getpw.splits simp: max_passwd_buffer_def intro!: gr0I, blast)
  with assms have "lookup_loop getpwuid_r calls 0 \<noteq> Some r" for r by blast
  then show ?thesis by (cases "lookup_loop getpwuid_r calls 0") auto
qed

text \<open>
  C39: the look-up of an account name returns, after at most 17 calls of \<open>getpwuid_r\<close>, whatever
  limit the C library reports and whatever the calls answer.
\<close>

theorem lookup_username_returns:
  "\<exists>calls name. lookup_username_by_uid sysconf getpwuid_r = Some (calls, name) \<and> calls \<le> 17"
proof -
  have "0 < passwd_buffer sysconf" by (simp add: passwd_buffer_def)
  moreover from this have "max_passwd_buffer < passwd_buffer sysconf * 2 ^ 17"
    by (simp add: max_passwd_buffer_def)
  ultimately show ?thesis
    using lookup_loop_doubles [of "passwd_buffer sysconf" 17 getpwuid_r 0]
    by (simp add: lookup_username_by_uid_def)
qed

end
