(* ===== verification/Etw.thy ===== *)
theory Etw
  imports Lookups Normalizer "HOL-Library.Monad_Syntax"
begin

text \<open>
  \<open>src/sensor/windows/\<close>: the events of the Windows sensor. \<open>etw.rs\<close> routes a record of Event Tracing
  for Windows by its provider and decodes its properties; \<open>field_maps.rs\<close> names the properties;
  \<open>mapper.rs\<close> gives the Sysmon-compatible numbers. The \<open>ferrisetw\<close> crate's record and parser, the
  conversion of device paths (\<open>Path_Map\<close>), the metadata of executables (\<open>Lookups\<close>) and the command
  line of a process are parameters: one reading of each for the record at hand. Windows is
  little-endian.
\<close>

unbundle bit_operations_syntax

section \<open>Records and providers\<close>

type_synonym i64 = "64 word"

text \<open>A GUID as its text in lower case.\<close>

record etw_record =
  er_provider_id :: string
  er_opcode :: u8
  er_event_id :: u16
  er_process_id :: u32
  er_raw_timestamp :: i64

text \<open>\<open>try_parse\<close> at each type the sensor asks for.\<close>

record etw_parser =
  et_string :: "string \<Rightarrow> string option"
  et_u8 :: "string \<Rightarrow> u8 option"
  et_u16 :: "string \<Rightarrow> u16 option"
  et_u32 :: "string \<Rightarrow> u32 option"
  et_u64 :: "string \<Rightarrow> u64 option"
  et_i64 :: "string \<Rightarrow> i64 option"
  et_ip :: "string \<Rightarrow> ip_addr option"

record etw_host =
  eh_to_dos :: "string \<Rightarrow> string"
  eh_metadata :: "string \<Rightarrow> pe_metadata option"
  eh_command_line :: "u32 \<Rightarrow> string option"

record etw_provider =
  ep_guid :: string
  ep_name :: string
  ep_keywords :: u64

definition guid :: "string \<Rightarrow> string" where
  "guid s = to_ascii_lowercase s"

definition file_keywords :: u64 where
  "file_keywords = 0x0010 OR 0x0080 OR 0x0200 OR 0x0400 OR 0x0800"

definition registry_keywords :: u64 where
  "registry_keywords = 0x1000 OR 0x2000 OR 0x4000 OR 0x8000"

definition process_keywords :: u64 where
  "process_keywords = 0x0010 OR 0x0040"

definition network_keywords :: u64 where
  "network_keywords = 0x10 OR 0x20"

definition default_keywords :: u64 where
  "default_keywords = - 1"

definition kernel_process :: etw_provider where
  "kernel_process = \<lparr>ep_guid = guid ''22fb2cd6-0e7b-422b-a0c7-2fad1fd0e716'',
     ep_name = ''Microsoft-Windows-Kernel-Process'', ep_keywords = process_keywords\<rparr>"

definition kernel_network :: etw_provider where
  "kernel_network = \<lparr>ep_guid = guid ''7dd42a49-5329-4832-8dfd-43d979153a88'',
     ep_name = ''Microsoft-Windows-Kernel-Network'', ep_keywords = network_keywords\<rparr>"

definition kernel_file :: etw_provider where
  "kernel_file = \<lparr>ep_guid = guid ''edd08927-9cc4-4e65-b970-c2560fb5c289'',
     ep_name = ''Microsoft-Windows-Kernel-File'', ep_keywords = file_keywords\<rparr>"

definition kernel_registry :: etw_provider where
  "kernel_registry = \<lparr>ep_guid = guid ''70eb4f03-c1de-4f73-a051-33d13d5413bd'',
     ep_name = ''Microsoft-Windows-Kernel-Registry'', ep_keywords = registry_keywords\<rparr>"

definition dns_client :: etw_provider where
  "dns_client = \<lparr>ep_guid = guid ''1c95126e-7eea-49a9-a3fe-a378b03ddb4d'',
     ep_name = ''Microsoft-Windows-DNS-Client'', ep_keywords = default_keywords\<rparr>"

definition powershell :: etw_provider where
  "powershell = \<lparr>ep_guid = guid ''A0C1853B-5C40-4B15-8766-3CF1C58F985A'',
     ep_name = ''Microsoft-Windows-PowerShell'', ep_keywords = default_keywords\<rparr>"

definition wmi_activity :: etw_provider where
  "wmi_activity = \<lparr>ep_guid = guid ''1418EF04-B0B4-4623-BF7E-D74AB47BBDAA'',
     ep_name = ''Microsoft-Windows-WMI-Activity'', ep_keywords = default_keywords\<rparr>"

definition service_control_manager :: etw_provider where
  "service_control_manager = \<lparr>ep_guid = guid ''555908d1-a6d7-4695-8e1e-26931d2012f4'',
     ep_name = ''Microsoft-Windows-Service-Control-Manager'', ep_keywords = default_keywords\<rparr>"

definition task_scheduler :: etw_provider where
  "task_scheduler = \<lparr>ep_guid = guid ''de7b24ea-73c8-4a09-985d-5bdadcfa9017'',
     ep_name = ''Microsoft-Windows-TaskScheduler'', ep_keywords = default_keywords\<rparr>"

definition all_providers :: "etw_provider list" where
  "all_providers = [kernel_process, kernel_network, kernel_file, kernel_registry, dns_client,
     powershell, wmi_activity, service_control_manager, task_scheduler]"

section \<open>Routing\<close>

definition kernel_file_action :: "u16 \<Rightarrow> sensor_action" where
  "kernel_file_action event_id =
     (if event_id = 12 then ActCreate else if event_id = 26 then ActDelete
      else if event_id = 27 then ActRename else ActModify)"

definition kernel_file_path_property :: "u16 \<Rightarrow> string" where
  "kernel_file_path_property event_id =
     (if event_id = 26 \<or> event_id = 27 \<or> event_id = 28 then ''FilePath'' else ''FileName'')"

definition guid_to_category :: "(string, event_category) hmap" where
  "guid_to_category =
     [(ep_guid kernel_network, CatNetwork), (ep_guid kernel_file, CatFile),
      (ep_guid kernel_registry, CatRegistry), (ep_guid dns_client, CatDns),
      (ep_guid powershell, CatScripting), (ep_guid wmi_activity, CatWmi),
      (ep_guid service_control_manager, CatService), (ep_guid task_scheduler, CatTask)]"

definition network_action :: "u16 \<Rightarrow> sensor_action option" where
  "network_action event_id =
     (if event_id = 10 \<or> event_id = 11 then None
      else if event_id = 12 then Some ActConnect
      else if event_id = 13 then Some ActDisconnect
      else if event_id = 14 then Some ActAccept
      else if 15 \<le> event_id then Some ActConnect
      else None)"

definition registry_action :: "u8 \<Rightarrow> sensor_action" where
  "registry_action opcode =
     (if opcode = 36 then ActCreate else if opcode = 38 \<or> opcode = 41 then ActDelete
      else if opcode = 39 then ActSet else ActModify)"

text \<open>The map has no entry with the categories of the first provider, so its arm is never reached.\<close>

definition etw_route :: "etw_record \<Rightarrow> (event_category \<times> sensor_action) option" where
  "etw_route r =
     (if er_provider_id r = ep_guid kernel_process then
        (if er_opcode r = 1 then Some (CatProcess, ActStart)
         else if er_opcode r = 2 then Some (CatProcess, ActStop)
         else if er_opcode r = 10 then Some (CatImageLoad, ActLoad)
         else None)
      else
        case hm_get guid_to_category (er_provider_id r) of
          None \<Rightarrow> None
        | Some category \<Rightarrow>
            map_option (Pair category)
              (case category of
                 CatNetwork \<Rightarrow> network_action (er_event_id r)
               | CatFile \<Rightarrow> Some (kernel_file_action (er_event_id r))
               | CatRegistry \<Rightarrow> Some (registry_action (er_opcode r))
               | CatDns \<Rightarrow> Some ActQuery
               | CatScripting \<Rightarrow> Some ActExecute
               | CatWmi \<Rightarrow> Some ActExecute
               | CatService \<Rightarrow> Some ActRegister
               | CatTask \<Rightarrow> Some ActRegister
               | CatProcess \<Rightarrow> None
               | CatImageLoad \<Rightarrow> None))"

section \<open>Sysmon-compatible numbers\<close>

definition file_action_code :: "sensor_action \<Rightarrow> u8" where
  "file_action_code action =
     (case action of ActCreate \<Rightarrow> 64 | ActDelete \<Rightarrow> 70 | ActRename \<Rightarrow> 71 | ActModify \<Rightarrow> 65 | _ \<Rightarrow> 0)"

definition network_action_code :: "sensor_action \<Rightarrow> u16 \<Rightarrow> u8" where
  "network_action_code action event_id =
     (if event_id = 12 then 12 else if event_id = 13 then 13 else if event_id = 14 then 14
      else if 15 \<le> event_id then 15
      else case action of ActDisconnect \<Rightarrow> 13 | ActAccept \<Rightarrow> 14 | ActConnect \<Rightarrow> 12 | _ \<Rightarrow> 0)"

definition registry_action_code :: "sensor_action \<Rightarrow> u8 \<Rightarrow> u8" where
  "registry_action_code action opcode =
     (if opcode \<in> {36, 38, 39, 41} then opcode
      else case action of ActCreate \<Rightarrow> 36 | ActDelete \<Rightarrow> 38 | ActSet \<Rightarrow> 39 | _ \<Rightarrow> 0)"

definition action_code_for_record :: "event_category \<Rightarrow> sensor_action \<Rightarrow> etw_record \<Rightarrow> u8" where
  "action_code_for_record category action r =
     (case category of
        CatProcess \<Rightarrow> er_opcode r
      | CatImageLoad \<Rightarrow> er_opcode r
      | CatNetwork \<Rightarrow> network_action_code action (er_event_id r)
      | CatFile \<Rightarrow> file_action_code action
      | CatRegistry \<Rightarrow> registry_action_code action (er_opcode r)
      | CatDns \<Rightarrow> 0 | CatScripting \<Rightarrow> 0 | CatWmi \<Rightarrow> 0 | CatService \<Rightarrow> 0 | CatTask \<Rightarrow> 0)"

definition raw_event_id_for_record :: "event_category \<Rightarrow> u8 \<Rightarrow> etw_record \<Rightarrow> u16" where
  "raw_event_id_for_record category action_code r =
     (case category of
        CatFile \<Rightarrow> ucast action_code
      | CatRegistry \<Rightarrow> ucast action_code
      | CatService \<Rightarrow> 7045
      | CatTask \<Rightarrow> 106
      | _ \<Rightarrow> er_event_id r)"

definition map_to_sysmon_id :: "event_category \<Rightarrow> u8 \<Rightarrow> u16 \<Rightarrow> u16" where
  "map_to_sysmon_id category action_code raw_event_id =
     (case category of
        CatProcess \<Rightarrow> if action_code = 1 then 1 else if action_code = 2 then 5
          else if action_code = 10 then 7 else raw_event_id
      | CatImageLoad \<Rightarrow> if action_code = 10 then 7 else raw_event_id
      | CatFile \<Rightarrow> if action_code = 64 \<or> action_code = 65 then 11
          else if action_code = 70 \<or> action_code = 72 then 23 else raw_event_id
      | CatRegistry \<Rightarrow> if action_code = 36 \<or> action_code = 38 \<or> action_code = 41 then 12
          else if action_code = 39 then 13 else raw_event_id
      | CatNetwork \<Rightarrow> if action_code = 12 \<or> action_code = 15 then 3 else raw_event_id
      | CatDns \<Rightarrow> 22
      | CatWmi \<Rightarrow> 19
      | CatScripting \<Rightarrow> 4104
      | CatService \<Rightarrow> 7045
      | CatTask \<Rightarrow> 106)"

definition normalization_for_record ::
    "event_category \<Rightarrow> sensor_action \<Rightarrow> etw_record \<Rightarrow> u16 \<times> u8" where
  "normalization_for_record category action r =
     (let action_code = action_code_for_record category action r;
          raw_event_id = raw_event_id_for_record category action_code r
      in (map_to_sysmon_id category action_code raw_event_id, action_code))"

section \<open>Properties of a record\<close>

definition try_get_string :: "etw_parser \<Rightarrow> string \<Rightarrow> string option" where
  "try_get_string ps name =
     (case et_string ps name of
        None \<Rightarrow> None
      | Some v \<Rightarrow>
          let trimmed = trim_end_matches_char (CHR 0x00) v
          in if trimmed = [] then None else Some trimmed)"

text \<open>The first name that has a value, as a loop or a chain of \<open>or_else\<close>.\<close>

fun first_of :: "(string \<Rightarrow> 'a option) \<Rightarrow> string list \<Rightarrow> 'a option" where
  "first_of get [] = None"
| "first_of get (name # names) =
     (case get name of Some v \<Rightarrow> Some v | None \<Rightarrow> first_of get names)"

definition try_get_string_any :: "etw_parser \<Rightarrow> string list \<Rightarrow> string option" where
  "try_get_string_any ps names = first_of (try_get_string ps) names"

definition try_get_uint :: "etw_parser \<Rightarrow> string \<Rightarrow> string option" where
  "try_get_uint ps name =
     (case et_u32 ps name of Some v \<Rightarrow> Some (show_uint v) | None \<Rightarrow>
      case et_u64 ps name of Some v \<Rightarrow> Some (show_uint v) | None \<Rightarrow>
      case et_u16 ps name of Some v \<Rightarrow> Some (show_uint v) | None \<Rightarrow>
      map_option show_uint (et_u8 ps name))"

definition try_get_uint_as_u64 :: "etw_parser \<Rightarrow> string \<Rightarrow> u64 option" where
  "try_get_uint_as_u64 ps name =
     (case et_u64 ps name of Some v \<Rightarrow> Some v | None \<Rightarrow>
      case et_i64 ps name of Some v \<Rightarrow> Some v | None \<Rightarrow>
      map_option ucast (et_u32 ps name))"

text \<open>\<open>u16::from_be\<close> on a little-endian machine swaps the bytes.\<close>

definition u16_from_be :: "u16 \<Rightarrow> u16" where
  "u16_from_be w = push_bit 8 w OR drop_bit 8 w"

definition try_get_port :: "etw_parser \<Rightarrow> string \<Rightarrow> string option" where
  "try_get_port ps name =
     (case et_u16 ps name of Some v \<Rightarrow> Some (show_uint (u16_from_be v)) | None \<Rightarrow>
      map_option (\<lambda>v. show_uint (u16_from_be (ucast v))) (et_u32 ps name))"

text \<open>An address from the big-endian bytes of a number is the number.\<close>

definition try_get_ip :: "etw_parser \<Rightarrow> string \<Rightarrow> string option" where
  "try_get_ip ps name =
     (case et_ip ps name of Some ip \<Rightarrow> Some (show_ip ip) | None \<Rightarrow>
      case et_u32 ps name of Some addr \<Rightarrow> Some (show_ip (V4 addr)) | None \<Rightarrow>
      try_get_string ps name)"

text \<open>100-nanosecond intervals since 1601; the time in nanoseconds since 1970.\<close>

definition filetime_to_system_time :: "i64 \<Rightarrow> int" where
  "filetime_to_system_time filetime =
     (let saturated = max (- (2 ^ 63)) (sint filetime - 116444736000000000);
          unix_100ns = max saturated 0;
          secs = unix_100ns div 10000000;
          nanos = (unix_100ns mod 10000000) * 100
      in secs * 1000000000 + nanos)"

end
