(* ===== verification/Etw_Decode.thy ===== *)
theory Etw_Decode
  imports Etw
begin

text \<open>
  The decoders of \<open>src/sensor/windows/etw.rs\<close>, with the property names of \<open>field_maps.rs\<close>. A
  look-up that fails leaves the decoder (the operator \<open>?\<close>), so a decoder is a chain in the option
  monad.
\<close>

section \<open>Field maps\<close>

text \<open>Collecting pairs into a hash map keeps the last pair of a key.\<close>

definition field_mapping :: "(string \<times> string) list \<Rightarrow> (string, string) hmap" where
  "field_mapping pairs = fold (\<lambda>(k, v) m. hm_insert k v m) pairs []"

definition get_etw_field :: "(string, string) hmap \<Rightarrow> string \<Rightarrow> string option" where
  "get_etw_field m sigma_field = hm_get m sigma_field"

definition process_creation_mappings :: "(string, string) hmap" where
  "process_creation_mappings = field_mapping
     [(''Image'', ''ImageName''),
      (''OriginalFileName'', ''OriginalFileName''),
      (''TargetImage'', ''ImageName''),
      (''CommandLine'', ''CommandLine''),
      (''ProcessId'', ''ProcessID''),
      (''ParentProcessId'', ''ParentProcessID''),
      (''ParentImage'', ''ParentImageName''),
      (''ParentCommandLine'', ''ParentCommandLine''),
      (''CurrentDirectory'', ''CurrentDirectory''),
      (''IntegrityLevel'', ''IntegrityLevel''),
      (''User'', ''UserName''),
      (''LogonId'', ''LogonID''),
      (''LogonGuid'', ''LogonGUID'')]"

definition file_event_mappings :: "(string, string) hmap" where
  "file_event_mappings = field_mapping
     [(''TargetFilename'', ''FileName''),
      (''ProcessId'', ''ProcessID''),
      (''Image'', ''ImageName''),
      (''CreationUtcTime'', ''CreationTime''),
      (''User'', ''UserName'')]"

definition registry_event_mappings :: "(string, string) hmap" where
  "registry_event_mappings = field_mapping
     [(''Details'', ''ValueName''),
      (''ProcessId'', ''ProcessID''),
      (''Image'', ''ImageName''),
      (''EventType'', ''EventType''),
      (''User'', ''UserName''),
      (''TargetObject'', ''KeyName''),
      (''NewName'', ''NewName'')]"

definition registry_modify_mappings :: "(string, string) hmap" where
  "registry_modify_mappings = field_mapping
     [(''TargetObject'', ''RelativeName''),
      (''Details'', ''ValueName''),
      (''ProcessId'', ''ProcessID''),
      (''Image'', ''ImageName''),
      (''User'', ''UserName'')]"

definition dns_query_mappings :: "(string, string) hmap" where
  "dns_query_mappings = field_mapping
     [(''QueryName'', ''QueryName''),
      (''QueryResults'', ''QueryResults''),
      (''QueryStatus'', ''QueryStatus''),
      (''ProcessId'', ''ProcessID''),
      (''Image'', ''ImageName'')]"

definition network_connection_mappings :: "(string, string) hmap" where
  "network_connection_mappings = field_mapping
     [(''DestinationIp'', ''daddr''),
      (''SourceIp'', ''saddr''),
      (''DestinationPort'', ''dport''),
      (''SourcePort'', ''sport''),
      (''ProcessId'', ''ProcessID''),
      (''Image'', ''ImageName''),
      (''User'', ''UserName''),
      (''DestinationHostname'', ''DestinationHostname'')]"

definition powershell_script_mappings :: "(string, string) hmap" where
  "powershell_script_mappings = field_mapping
     [(''ScriptBlockText'', ''ScriptBlockText''),
      (''ScriptBlockId'', ''ScriptBlockId''),
      (''Path'', ''Path''),
      (''ProcessId'', ''ProcessID''),
      (''Image'', ''ImageName''),
      (''User'', ''UserName'')]"

definition image_load_mappings :: "(string, string) hmap" where
  "image_load_mappings = field_mapping
     [(''ImageLoaded'', ''ImageName''),
      (''ProcessId'', ''ProcessID''),
      (''Image'', ''ParentImageName''),
      (''OriginalFileName'', ''OriginalFileName''),
      (''Signed'', ''Signed''),
      (''Signature'', ''Signature''),
      (''User'', ''UserName'')]"

definition wmi_event_mappings :: "(string, string) hmap" where
  "wmi_event_mappings = field_mapping
     [(''Operation'', ''Operation''),
      (''User'', ''User''),
      (''Query'', ''Query''),
      (''ProcessId'', ''ProcessID''),
      (''Image'', ''ImageName''),
      (''EventNamespace'', ''Namespace''),
      (''EventType'', ''EventType''),
      (''DestinationHostname'', ''DestinationHostname'')]"

definition service_creation_mappings :: "(string, string) hmap" where
  "service_creation_mappings = field_mapping
     [(''ServiceName'', ''ServiceName''),
      (''ServiceFileName'', ''ImagePath''),
      (''ServiceType'', ''ServiceType''),
      (''StartType'', ''StartType''),
      (''AccountName'', ''AccountName''),
      (''User'', ''UserName''),
      (''ProcessId'', ''ProcessID''),
      (''Image'', ''ImageName'')]"

definition task_creation_mappings :: "(string, string) hmap" where
  "task_creation_mappings = field_mapping
     [(''TaskName'', ''TaskName''),
      (''TaskContent'', ''TaskContent''),
      (''UserName'', ''UserContext''),
      (''User'', ''User''),
      (''ProcessId'', ''ProcessID''),
      (''Image'', ''ImageName'')]"

section \<open>Decoders\<close>

record decoded_event =
  dd_pid :: "u32 option"
  dd_start_key :: "process_start_key option"
  dd_payload :: sensor_payload

text \<open>The property of a Sigma field, as text, as a number in text, and as a path.\<close>

definition text_field :: "etw_parser \<Rightarrow> (string, string) hmap \<Rightarrow> string \<Rightarrow> string option option" where
  "text_field ps m key = map_option (try_get_string ps) (get_etw_field m key)"

definition uint_field :: "etw_parser \<Rightarrow> (string, string) hmap \<Rightarrow> string \<Rightarrow> string option option" where
  "uint_field ps m key = map_option (try_get_uint ps) (get_etw_field m key)"

definition path_field ::
    "etw_host \<Rightarrow> etw_parser \<Rightarrow> (string, string) hmap \<Rightarrow> string \<Rightarrow> string option option" where
  "path_field h ps m key = map_option (map_option (eh_to_dos h)) (text_field ps m key)"

text \<open>The pid of the payload when it parses, else the one in the header of the record.\<close>

definition decoded :: "etw_record \<Rightarrow> string option \<Rightarrow> sensor_payload \<Rightarrow> decoded_event" where
  "decoded r process_id pay =
     \<lparr>dd_pid = (case parse_optional_u32 process_id of Some pid \<Rightarrow> Some pid | None \<Rightarrow> Some (er_process_id r)),
      dd_start_key = None, dd_payload = pay\<rparr>"

definition metadata_of :: "etw_host \<Rightarrow> string option \<Rightarrow> pe_metadata" where
  "metadata_of h path =
     (case Option.bind path (eh_metadata h) of Some m \<Rightarrow> m | None \<Rightarrow> no_metadata)"

definition decode_process ::
    "etw_host \<Rightarrow> etw_parser \<Rightarrow> etw_record \<Rightarrow> sensor_action \<Rightarrow> decoded_event option" where
  "decode_process h ps r action = do {
     let m = process_creation_mappings;
     let creation_time = first_of (try_get_uint_as_u64 ps) [''CreateTime'', ''ProcessStartTime''];
     let creation_time_with_fallback =
       (case creation_time of Some t \<Rightarrow> Some t | None \<Rightarrow> try_get_uint_as_u64 ps ''TimeStamp'');
     image_property \<leftarrow> get_etw_field m ''Image'';
     let raw_image = try_get_string_any ps [image_property, ''ImageFileName'', ''ProcessName''];
     parent_property \<leftarrow> get_etw_field m ''ParentImage'';
     let raw_parent_image = try_get_string_any ps [parent_property, ''ParentProcessName''];
     current_directory \<leftarrow> path_field h ps m ''CurrentDirectory'';
     let img = map_option (eh_to_dos h) raw_image;
     let parent_image = map_option (eh_to_dos h) raw_parent_image;
     let pe = (if action = ActStart then metadata_of h img else no_metadata);
     target_image \<leftarrow> path_field h ps m ''TargetImage'';
     command_line \<leftarrow> text_field ps m ''CommandLine'';
     pid_property \<leftarrow> uint_field ps m ''ProcessId'';
     let process_id = (case pid_property of Some v \<Rightarrow> Some v
       | None \<Rightarrow> Some (show_uint (er_process_id r)));
     parent_process_id \<leftarrow> uint_field ps m ''ParentProcessId'';
     parent_command_line \<leftarrow> text_field ps m ''ParentCommandLine'';
     integrity_level \<leftarrow> text_field ps m ''IntegrityLevel'';
     user \<leftarrow> text_field ps m ''User'';
     logon_id \<leftarrow> text_field ps m ''LogonId'';
     logon_guid \<leftarrow> text_field ps m ''LogonGuid'';
     let pid = (case parse_optional_u32 process_id of Some pid \<Rightarrow> pid | None \<Rightarrow> er_process_id r);
     let command_line = (if action = ActStart \<and> command_line = None then eh_command_line h pid
       else command_line);
     Some \<lparr>dd_pid = Some pid,
       dd_start_key = (if action = ActStart \<or> action = ActStop
         then map_option (\<lambda>t. \<lparr>sk_pid = pid, sk_start_time = t\<rparr>) creation_time else None),
       dd_payload = PayProcess \<lparr>pc_image = img, pc_original_file_name = pe_original_filename pe,
         pc_product = pe_product pe, pc_description = pe_description pe,
         pc_target_image = target_image, pc_command_line = command_line,
         pc_process_id = process_id, pc_process_start_time = creation_time_with_fallback,
         pc_parent_process_id = parent_process_id, pc_parent_image = parent_image,
         pc_parent_command_line = parent_command_line,
         pc_current_directory = current_directory, pc_integrity_level = integrity_level,
         pc_user = user, pc_logon_id = logon_id, pc_logon_guid = logon_guid\<rparr>\<rparr>
   }"

definition decode_file :: "etw_host \<Rightarrow> etw_parser \<Rightarrow> etw_record \<Rightarrow> decoded_event option" where
  "decode_file h ps r = do {
     let m = file_event_mappings;
     file_property \<leftarrow> get_etw_field m ''TargetFilename'';
     let target = map_option (eh_to_dos h)
       (try_get_string_any ps [kernel_file_path_property (er_event_id r), file_property]);
     process_id \<leftarrow> uint_field ps m ''ProcessId'';
     img \<leftarrow> path_field h ps m ''Image'';
     creation \<leftarrow> text_field ps m ''CreationUtcTime'';
     user \<leftarrow> text_field ps m ''User'';
     Some (decoded r process_id (PayFile \<lparr>fe_source_filename = None, fe_target_filename = target,
       fe_process_id = process_id, fe_image = img, fe_creation_utc_time = creation,
       fe_previous_creation_utc_time = try_get_string ps ''PreviousCreationTime'',
       fe_user = user\<rparr>))
   }"

definition decode_registry :: "etw_host \<Rightarrow> etw_parser \<Rightarrow> etw_record \<Rightarrow> decoded_event option" where
  "decode_registry h ps r = do {
     let m = registry_event_mappings;
     key_property \<leftarrow> get_etw_field m ''TargetObject'';
     relative_property \<leftarrow> get_etw_field registry_modify_mappings ''TargetObject'';
     details_property \<leftarrow> get_etw_field m ''Details'';
     modify_details_property \<leftarrow> get_etw_field registry_modify_mappings ''Details'';
     process_id \<leftarrow> uint_field ps m ''ProcessId'';
     img \<leftarrow> path_field h ps m ''Image'';
     user \<leftarrow> text_field ps m ''User'';
     Some (decoded r process_id (PayRegistry \<lparr>
       re_target_object = try_get_string_any ps [key_property, relative_property],
       re_details = try_get_string_any ps [details_property, modify_details_property],
       re_process_id = process_id, re_image = img,
       re_event_type = try_get_string ps ''EventType'', re_user = user,
       re_new_name = try_get_string ps ''NewName''\<rparr>))
   }"

definition etw_transport :: "u16 \<Rightarrow> string option" where
  "etw_transport event_id =
     (if 12 \<le> event_id \<and> event_id \<le> 14 then Some ''tcp''
      else if 15 \<le> event_id then Some ''udp'' else None)"

definition decode_network :: "etw_host \<Rightarrow> etw_parser \<Rightarrow> etw_record \<Rightarrow> decoded_event option" where
  "decode_network h ps r = do {
     let m = network_connection_mappings;
     pid_property \<leftarrow> uint_field ps m ''ProcessId'';
     let process_id = (case pid_property of Some v \<Rightarrow> Some v
       | None \<Rightarrow> Some (show_uint (er_process_id r)));
     img \<leftarrow> path_field h ps m ''Image'';
     user \<leftarrow> text_field ps m ''User'';
     hostname \<leftarrow> text_field ps m ''DestinationHostname'';
     Some (decoded r process_id (PayNetwork \<lparr>
       nc_destination_ip = first_of (try_get_ip ps)
         [''daddr'', ''DestinationAddress'', ''RemoteAddress'', ''dstaddr''],
       nc_source_ip = first_of (try_get_ip ps)
         [''saddr'', ''SourceAddress'', ''LocalAddress'', ''srcaddr''],
       nc_destination_port = first_of (try_get_port ps)
         [''dport'', ''DestinationPort'', ''RemotePort'', ''dstport''],
       nc_source_port = first_of (try_get_port ps)
         [''sport'', ''SourcePort'', ''LocalPort'', ''srcport''],
       nc_process_id = process_id, nc_image = img, nc_user = user,
       nc_destination_hostname = hostname, nc_protocol = etw_transport (er_event_id r)\<rparr>))
   }"

definition decode_dns :: "etw_host \<Rightarrow> etw_parser \<Rightarrow> etw_record \<Rightarrow> decoded_event option" where
  "decode_dns h ps r = do {
     let m = dns_query_mappings;
     query_name \<leftarrow> text_field ps m ''QueryName'';
     query_results \<leftarrow> text_field ps m ''QueryResults'';
     query_status \<leftarrow> uint_field ps m ''QueryStatus'';
     process_id \<leftarrow> uint_field ps m ''ProcessId'';
     img \<leftarrow> path_field h ps m ''Image'';
     Some (decoded r process_id (PayDns \<lparr>dq_query_name = query_name,
       dq_query_results = query_results, dq_record_type = None, dq_query_status = query_status,
       dq_process_id = process_id, dq_image = img\<rparr>))
   }"

definition decode_image_load :: "etw_host \<Rightarrow> etw_parser \<Rightarrow> etw_record \<Rightarrow> decoded_event option" where
  "decode_image_load h ps r = do {
     let m = image_load_mappings;
     image_loaded \<leftarrow> path_field h ps m ''ImageLoaded'';
     let pe = metadata_of h image_loaded;
     process_id \<leftarrow> uint_field ps m ''ProcessId'';
     img \<leftarrow> path_field h ps m ''Image'';
     signed \<leftarrow> text_field ps m ''Signed'';
     signature \<leftarrow> text_field ps m ''Signature'';
     user \<leftarrow> text_field ps m ''User'';
     Some (decoded r process_id (PayImageLoad \<lparr>il_image_loaded = image_loaded,
       il_process_id = process_id, il_image = img, il_original_file_name = pe_original_filename pe,
       il_product = pe_product pe, il_description = pe_description pe, il_signed = signed,
       il_signature = signature, il_user = user\<rparr>))
   }"

definition decode_powershell :: "etw_host \<Rightarrow> etw_parser \<Rightarrow> etw_record \<Rightarrow> decoded_event option" where
  "decode_powershell h ps r = do {
     let m = powershell_script_mappings;
     script_block_text \<leftarrow> text_field ps m ''ScriptBlockText'';
     script_block_id \<leftarrow> text_field ps m ''ScriptBlockId'';
     path \<leftarrow> path_field h ps m ''Path'';
     process_id \<leftarrow> uint_field ps m ''ProcessId'';
     img \<leftarrow> path_field h ps m ''Image'';
     user \<leftarrow> text_field ps m ''User'';
     Some (decoded r process_id (PayScripting \<lparr>ps_script_block_text = script_block_text,
       ps_script_block_id = script_block_id, ps_path = path, ps_process_id = process_id,
       ps_image = img, ps_user = user\<rparr>))
   }"

definition decode_wmi :: "etw_host \<Rightarrow> etw_parser \<Rightarrow> etw_record \<Rightarrow> decoded_event option" where
  "decode_wmi h ps r = do {
     let m = wmi_event_mappings;
     operation \<leftarrow> text_field ps m ''Operation'';
     user \<leftarrow> text_field ps m ''User'';
     query \<leftarrow> text_field ps m ''Query'';
     process_id \<leftarrow> uint_field ps m ''ProcessId'';
     img \<leftarrow> path_field h ps m ''Image'';
     event_namespace \<leftarrow> text_field ps m ''EventNamespace'';
     event_type \<leftarrow> text_field ps m ''EventType'';
     hostname \<leftarrow> text_field ps m ''DestinationHostname'';
     Some (decoded r process_id (PayWmi \<lparr>wm_operation = operation, wm_user = user,
       wm_query = query, wm_process_id = process_id, wm_image = img,
       wm_event_namespace = event_namespace, wm_event_type = event_type,
       wm_destination_hostname = hostname\<rparr>))
   }"

definition decode_service :: "etw_host \<Rightarrow> etw_parser \<Rightarrow> etw_record \<Rightarrow> decoded_event option" where
  "decode_service h ps r = do {
     let m = service_creation_mappings;
     service_name \<leftarrow> text_field ps m ''ServiceName'';
     service_file_name \<leftarrow> path_field h ps m ''ServiceFileName'';
     service_type \<leftarrow> uint_field ps m ''ServiceType'';
     start_type \<leftarrow> uint_field ps m ''StartType'';
     account \<leftarrow> text_field ps m ''AccountName'';
     user \<leftarrow> text_field ps m ''User'';
     process_id \<leftarrow> uint_field ps m ''ProcessId'';
     img \<leftarrow> path_field h ps m ''Image'';
     Some (decoded r process_id (PayService \<lparr>sc_service_name = service_name,
       sc_service_file_name = service_file_name, sc_service_type = service_type,
       sc_start_type = start_type, sc_account_name = account, sc_user = user,
       sc_process_id = process_id, sc_image = img\<rparr>))
   }"

definition decode_task :: "etw_host \<Rightarrow> etw_parser \<Rightarrow> etw_record \<Rightarrow> decoded_event option" where
  "decode_task h ps r = do {
     let m = task_creation_mappings;
     task_name \<leftarrow> text_field ps m ''TaskName'';
     task_content \<leftarrow> text_field ps m ''TaskContent'';
     user_name \<leftarrow> text_field ps m ''UserName'';
     user \<leftarrow> text_field ps m ''User'';
     process_id \<leftarrow> uint_field ps m ''ProcessId'';
     img \<leftarrow> path_field h ps m ''Image'';
     Some (decoded r process_id (PayTask \<lparr>tc_task_name = task_name,
       tc_task_content = task_content, tc_user_name = user_name, tc_user = user,
       tc_process_id = process_id, tc_image = img\<rparr>))
   }"

text \<open>The parser is None when the schema of the record cannot be found.\<close>

definition decode_payload ::
    "etw_host \<Rightarrow> etw_parser \<Rightarrow> etw_record \<Rightarrow> event_category \<Rightarrow> sensor_action \<Rightarrow> decoded_event option"
  where
  "decode_payload h ps r category action =
     (case category of
        CatProcess \<Rightarrow> decode_process h ps r action
      | CatNetwork \<Rightarrow> decode_network h ps r
      | CatFile \<Rightarrow> decode_file h ps r
      | CatRegistry \<Rightarrow> decode_registry h ps r
      | CatDns \<Rightarrow> decode_dns h ps r
      | CatImageLoad \<Rightarrow> decode_image_load h ps r
      | CatScripting \<Rightarrow> decode_powershell h ps r
      | CatWmi \<Rightarrow> decode_wmi h ps r
      | CatService \<Rightarrow> decode_service h ps r
      | CatTask \<Rightarrow> decode_task h ps r)"

definition decode_record :: "etw_host \<Rightarrow> etw_parser option \<Rightarrow> etw_record \<Rightarrow> sensor_event option" where
  "decode_record h parser r = do {
     (category, action) \<leftarrow> etw_route r;
     ps \<leftarrow> parser;
     d \<leftarrow> decode_payload h ps r category action;
     let (event_id, action_code) = normalization_for_record category action r;
     Some \<lparr>sv_platform = Windows, sv_provider = ''etw'', sv_action = action,
       sv_event_id = event_id, sv_action_code = action_code, sv_pid = dd_pid d,
       sv_timestamp = filetime_to_system_time (er_raw_timestamp r),
       sv_process_start_key = dd_start_key d, sv_payload = dd_payload d\<rparr>
   }"

text \<open>
  The callback of a provider: the queue of the channel, and the number of events dropped because
  the channel was full, an atomic counter.
\<close>

record etw_sensor =
  ew_open :: bool
  ew_room :: nat
  ew_queue :: "sensor_event list"
  ew_dropped :: u64

definition etw_callback :: "etw_host \<Rightarrow> etw_parser option \<Rightarrow> etw_record \<Rightarrow> etw_sensor \<Rightarrow> etw_sensor" where
  "etw_callback h parser r w =
     (case decode_record h parser r of
        None \<Rightarrow> w
      | Some event \<Rightarrow>
          if \<not> ew_open w then w
          else if length (ew_queue w) < ew_room w then w\<lparr>ew_queue := ew_queue w @ [event]\<rparr>
          else w\<lparr>ew_dropped := ew_dropped w + 1\<rparr>)"

section \<open>Lemmas\<close>

text \<open>The property names the decoders ask for.\<close>

lemma process_creation_names [simp]:
  "get_etw_field process_creation_mappings ''Image'' = Some ''ImageName''"
  "get_etw_field process_creation_mappings ''ParentImage'' = Some ''ParentImageName''"
  "get_etw_field process_creation_mappings ''CurrentDirectory'' = Some ''CurrentDirectory''"
  "get_etw_field process_creation_mappings ''TargetImage'' = Some ''ImageName''"
  "get_etw_field process_creation_mappings ''CommandLine'' = Some ''CommandLine''"
  "get_etw_field process_creation_mappings ''ProcessId'' = Some ''ProcessID''"
  "get_etw_field process_creation_mappings ''ParentProcessId'' = Some ''ParentProcessID''"
  "get_etw_field process_creation_mappings ''ParentCommandLine'' = Some ''ParentCommandLine''"
  "get_etw_field process_creation_mappings ''IntegrityLevel'' = Some ''IntegrityLevel''"
  "get_etw_field process_creation_mappings ''User'' = Some ''UserName''"
  "get_etw_field process_creation_mappings ''LogonId'' = Some ''LogonID''"
  "get_etw_field process_creation_mappings ''LogonGuid'' = Some ''LogonGUID''"
  by code_simp+

lemma file_event_names [simp]:
  "get_etw_field file_event_mappings ''TargetFilename'' = Some ''FileName''"
  "get_etw_field file_event_mappings ''ProcessId'' = Some ''ProcessID''"
  "get_etw_field file_event_mappings ''Image'' = Some ''ImageName''"
  "get_etw_field file_event_mappings ''CreationUtcTime'' = Some ''CreationTime''"
  "get_etw_field file_event_mappings ''User'' = Some ''UserName''"
  by code_simp+

lemma registry_event_names [simp]:
  "get_etw_field registry_event_mappings ''TargetObject'' = Some ''KeyName''"
  "get_etw_field registry_event_mappings ''Details'' = Some ''ValueName''"
  "get_etw_field registry_event_mappings ''ProcessId'' = Some ''ProcessID''"
  "get_etw_field registry_event_mappings ''Image'' = Some ''ImageName''"
  "get_etw_field registry_event_mappings ''User'' = Some ''UserName''"
  by code_simp+

lemma registry_modify_names [simp]:
  "get_etw_field registry_modify_mappings ''TargetObject'' = Some ''RelativeName''"
  "get_etw_field registry_modify_mappings ''Details'' = Some ''ValueName''"
  by code_simp+

lemma dns_query_names [simp]:
  "get_etw_field dns_query_mappings ''QueryName'' = Some ''QueryName''"
  "get_etw_field dns_query_mappings ''QueryResults'' = Some ''QueryResults''"
  "get_etw_field dns_query_mappings ''QueryStatus'' = Some ''QueryStatus''"
  "get_etw_field dns_query_mappings ''ProcessId'' = Some ''ProcessID''"
  "get_etw_field dns_query_mappings ''Image'' = Some ''ImageName''"
  by code_simp+

lemma network_connection_names [simp]:
  "get_etw_field network_connection_mappings ''ProcessId'' = Some ''ProcessID''"
  "get_etw_field network_connection_mappings ''Image'' = Some ''ImageName''"
  "get_etw_field network_connection_mappings ''User'' = Some ''UserName''"
  "get_etw_field network_connection_mappings ''DestinationHostname'' = Some ''DestinationHostname''"
  by code_simp+

lemma powershell_script_names [simp]:
  "get_etw_field powershell_script_mappings ''ScriptBlockText'' = Some ''ScriptBlockText''"
  "get_etw_field powershell_script_mappings ''ScriptBlockId'' = Some ''ScriptBlockId''"
  "get_etw_field powershell_script_mappings ''Path'' = Some ''Path''"
  "get_etw_field powershell_script_mappings ''ProcessId'' = Some ''ProcessID''"
  "get_etw_field powershell_script_mappings ''Image'' = Some ''ImageName''"
  "get_etw_field powershell_script_mappings ''User'' = Some ''UserName''"
  by code_simp+

lemma image_load_names [simp]:
  "get_etw_field image_load_mappings ''ImageLoaded'' = Some ''ImageName''"
  "get_etw_field image_load_mappings ''ProcessId'' = Some ''ProcessID''"
  "get_etw_field image_load_mappings ''Image'' = Some ''ParentImageName''"
  "get_etw_field image_load_mappings ''Signed'' = Some ''Signed''"
  "get_etw_field image_load_mappings ''Signature'' = Some ''Signature''"
  "get_etw_field image_load_mappings ''User'' = Some ''UserName''"
  by code_simp+

lemma wmi_event_names [simp]:
  "get_etw_field wmi_event_mappings ''Operation'' = Some ''Operation''"
  "get_etw_field wmi_event_mappings ''User'' = Some ''User''"
  "get_etw_field wmi_event_mappings ''Query'' = Some ''Query''"
  "get_etw_field wmi_event_mappings ''ProcessId'' = Some ''ProcessID''"
  "get_etw_field wmi_event_mappings ''Image'' = Some ''ImageName''"
  "get_etw_field wmi_event_mappings ''EventNamespace'' = Some ''Namespace''"
  "get_etw_field wmi_event_mappings ''EventType'' = Some ''EventType''"
  "get_etw_field wmi_event_mappings ''DestinationHostname'' = Some ''DestinationHostname''"
  by code_simp+

lemma service_creation_names [simp]:
  "get_etw_field service_creation_mappings ''ServiceName'' = Some ''ServiceName''"
  "get_etw_field service_creation_mappings ''ServiceFileName'' = Some ''ImagePath''"
  "get_etw_field service_creation_mappings ''ServiceType'' = Some ''ServiceType''"
  "get_etw_field service_creation_mappings ''StartType'' = Some ''StartType''"
  "get_etw_field service_creation_mappings ''AccountName'' = Some ''AccountName''"
  "get_etw_field service_creation_mappings ''User'' = Some ''UserName''"
  "get_etw_field service_creation_mappings ''ProcessId'' = Some ''ProcessID''"
  "get_etw_field service_creation_mappings ''Image'' = Some ''ImageName''"
  by code_simp+

lemma task_creation_names [simp]:
  "get_etw_field task_creation_mappings ''TaskName'' = Some ''TaskName''"
  "get_etw_field task_creation_mappings ''TaskContent'' = Some ''TaskContent''"
  "get_etw_field task_creation_mappings ''UserName'' = Some ''UserContext''"
  "get_etw_field task_creation_mappings ''User'' = Some ''User''"
  "get_etw_field task_creation_mappings ''ProcessId'' = Some ''ProcessID''"
  "get_etw_field task_creation_mappings ''Image'' = Some ''ImageName''"
  by code_simp+

lemmas decode_defs =
  text_field_def uint_field_def path_field_def decode_process_def decode_file_def
  decode_registry_def decode_network_def decode_dns_def decode_image_load_def
  decode_powershell_def decode_wmi_def decode_service_def decode_task_def

lemma decode_payload_total: "decode_payload h ps r category action \<noteq> None"
  by (cases category) (simp_all add: decode_payload_def decode_defs Let_def)

lemma decode_payload_category:
  "decode_payload h ps r category action = Some d \<Longrightarrow> payload_category (dd_payload d) = category"
  by (cases category)
    (auto simp: decode_payload_def decode_defs decoded_def payload_category_def Let_def)

end
