(* ===== verification/Attribution.thy ===== *)
theory Attribution
  imports Normalizer
begin

text \<open>
  What the normalizer guarantees: it drops process stops and nothing else, it only fills holes, it
  names the process that acts from the start of that process, and the host name of an address from
  the last DNS answer for it. The first section says what each arm does to each cache.
\<close>

section \<open>The arms and the caches\<close>

lemma fst_normalize: "fst (normalize env event nz) = fst (normalize_payload env event nz)"
  by (simp add: normalize_def case_prod_beta)

lemma complete_process_image [simp]: "pc_image (complete_process env event pid usr f) = pc_image f"
  by (simp add: complete_process_def Let_def split: option.split)

lemma resolve_user_frame:
  assumes "resolve_user_field usr nz = (nz', usr')"
  shows "nz_process nz' = nz_process nz" and "nz_dns nz' = nz_dns nz"
    and "nz_drives nz' = nz_drives nz" and "nz_conn nz' = nz_conn nz"
    and "nz_aggregation_enabled nz' = nz_aggregation_enabled nz"
  using assms by (auto simp: resolve_user_field_def split: option.splits if_splits prod.splits)

lemma cached_image_frame:
  assumes "cached_image env pid nz = (nz', img)"
  shows "nz_dns nz' = nz_dns nz" and "nz_sid nz' = nz_sid nz"
    and "nz_process nz' =
      fst (process_get_image (fst (ne_get env)) (snd (ne_get env)) pid (nz_process nz))"
  using assms by (auto simp: cached_image_def Let_def split: option.splits prod.splits)

lemma complete_image_frame:
  assumes "complete_image env event img0 explicit_pid nz = (nz', img)"
  shows "nz_dns nz' = nz_dns nz" and "nz_sid nz' = nz_sid nz"
    and "nz_process nz' = nz_process nz \<or> nz_process nz' =
      fst (process_get_image (fst (ne_get env)) (snd (ne_get env)) (event_pid event explicit_pid)
        (nz_process nz))"
    and "img0 = Some x \<Longrightarrow> img = Some x"
  using assms by (auto simp: complete_image_def cached_image_frame split: if_splits)

lemma record_connection_frame [simp]:
  "nz_process (record_connection env event f nz) = nz_process nz"
  "nz_dns (record_connection env event f nz) = nz_dns nz"
  "nz_drives (record_connection env event f nz) = nz_drives nz"
  "nz_sid (record_connection env event f nz) = nz_sid nz"
  by (simp_all add: record_connection_def split: option.split)

lemma parent_of_frame:
  assumes "parent_of env ppid nz = (nz', img, cmd)"
  shows "nz_dns nz' = nz_dns nz" and "nz_sid nz' = nz_sid nz" and "nz_drives nz' = nz_drives nz"
    and "nz_process nz' = nz_process nz \<or> (\<exists>pid. nz_process nz' =
      fst (process_get_metadata (fst (ne_get env)) (snd (ne_get env)) pid (nz_process nz)))"
  using assms
  by (auto simp: parent_of_def Let_def split: option.splits prod.splits) (metis fst_conv)+

lemma register_process_frame [simp]:
  "nz_dns (register_process env event pid img ppid f nz) = nz_dns nz"
  "nz_sid (register_process env event pid img ppid f nz) = nz_sid nz"
  "nz_drives (register_process env event pid img ppid f nz) = nz_drives nz"
  by (simp_all add: register_process_def Let_def)

lemma normalize_stop_frame [simp]:
  "nz_dns (normalize_stop env event pid nz) = nz_dns nz"
  "nz_sid (normalize_stop env event pid nz) = nz_sid nz"
  by (simp_all add: normalize_stop_def Let_def split: option.split)

text \<open>Look-ups leave the live processes alone.\<close>

lemma live_cleanup [simp]:
  "live_metadata (cleanup_graveyard_if_needed now won c) = live_metadata c"
  by (rule ext) (simp add: live_metadata_def split: option.split)

lemma live_get_image [simp]: "live_metadata (fst (process_get_image now won pid c)) = live_metadata c"
  by (simp add: process_get_image_def Let_def split: option.split)

lemma live_get_metadata [simp]:
  "live_metadata (fst (process_get_metadata now won pid c)) = live_metadata c"
  by (simp add: process_get_metadata_def Let_def split: option.split)

lemma live_remove_other:
  "p \<noteq> pid \<Longrightarrow> live_metadata (process_remove now won pid ct c) p = live_metadata c p"
  by (simp add: process_remove_def Let_def live_metadata_def hm.get_del split: option.split)

lemma live_add:
  "live_metadata (process_add now won pid ct img cmd usr pp pimg pcmd ofn prd ds cd il li lg c) p =
     (if p = pid then
        Some \<lparr>pm_image_name = img, pm_command_line = cmd, pm_user = usr, pm_creation_time = ct,
          pm_parent_pid = pp, pm_parent_image = pimg, pm_parent_command_line = pcmd,
          pm_original_filename = ofn, pm_product = prd, pm_description = ds,
          pm_current_directory = cd, pm_integrity_level = il, pm_logon_id = li, pm_logon_guid = lg\<rparr>
      else live_metadata c p)"
  by (simp add: process_add_def live_metadata_def hm.get_put split: option.split)

lemmas normalize_arms = normalize_network_def normalize_file_def normalize_dns_def
  normalize_registry_def normalize_image_load_def normalize_powershell_def normalize_wmi_def
  normalize_service_def normalize_task_def

section \<open>Which processes are live\<close>

definition live :: "normalizer \<Rightarrow> u32 \<Rightarrow> process_metadata option" where
  "live nz = live_metadata (nz_process nz)"

lemma live_resolve: "resolve_user_field usr nz = (nz', usr') \<Longrightarrow> live nz' = live nz"
  by (simp add: live_def resolve_user_frame(1))

lemma live_complete: "complete_image env event img0 explicit_pid nz = (nz', img) \<Longrightarrow> live nz' = live nz"
  using complete_image_frame(3) by (fastforce simp: live_def)

lemma live_cached: "cached_image env pid nz = (nz', img) \<Longrightarrow> live nz' = live nz"
  by (simp add: live_def cached_image_frame(3))

lemma live_parent: "parent_of env ppid nz = (nz', img, cmd) \<Longrightarrow> live nz' = live nz"
  using parent_of_frame(4) by (fastforce simp: live_def)

lemma live_dns [simp]: "live (nz\<lparr>nz_dns := d\<rparr>) = live nz"
  by (simp add: live_def)

lemma live_record [simp]: "live (record_connection env event f nz) = live nz"
  by (simp add: live_def)

lemma live_register:
  "pid \<noteq> 0 \<Longrightarrow> map_option pm_image_name (live (register_process env event pid img ppid f nz) pid)
     = Some img"
  "p \<noteq> pid \<Longrightarrow> live (register_process env event pid img ppid f nz) p = live nz p"
  by (simp_all add: live_def register_process_def Let_def live_add)

lemma live_stop: "p \<noteq> pid \<Longrightarrow> live (normalize_stop env event pid nz) p = live nz p"
  by (simp add: live_def normalize_stop_def Let_def live_remove_other split: option.split)

lemmas live_frame = live_resolve live_complete live_cached live_parent

text \<open>The events that start or stop process \<open>pid\<close>.\<close>

definition starts_or_stops :: "u32 \<Rightarrow> sensor_event \<Rightarrow> bool" where
  "starts_or_stops pid event =
     (case sv_payload event of
        PayProcess f \<Rightarrow> sv_action event \<in> {ActStart, ActStop} \<and> event_pid event (pc_process_id f) = pid
      | _ \<Rightarrow> False)"

lemma process_start_state:
  assumes "sv_action event = ActStart" and "pc_image f = Some img"
  obtains ppid f' nz' where "live nz' = live nz" and "nz_dns nz' = nz_dns nz"
    and "nz_drives nz' = nz_drives nz" and "fst (normalize_process env event f nz) =
      register_process env event (event_pid event (pc_process_id f)) img ppid f' nz'"
proof -
  let ?pid = "event_pid event (pc_process_id f)"
  obtain nz1 usr where r: "resolve_user_field (pc_user f) nz = (nz1, usr)" by fastforce
  let ?f3 = "complete_process env event ?pid usr f"
  let ?ppid = "parse_optional_u32 (pc_parent_process_id ?f3)"
  obtain nz2 pimg pcmd where p: "parent_of env ?ppid nz1 = (nz2, pimg, pcmd)" by (metis surj_pair)
  show thesis
    by (rule that [of nz2 ?ppid "complete_parent pimg pcmd ?f3"])
      (use assms r p in \<open>simp_all add: normalize_process_def Let_def live_resolve [OF r] live_parent [OF p]
        resolve_user_frame(2,3) [OF r] parent_of_frame(1,3) [OF p]\<close>)
qed

lemma process_other_state:
  assumes "sv_action event \<noteq> ActStart \<or> pc_image f = None" and "sv_action event \<noteq> ActStop"
  shows "fst (normalize_process env event f nz) = fst (resolve_user_field (pc_user f) nz)"
  using assms by (auto simp: normalize_process_def Let_def split: prod.split option.split)

lemma process_stop_state:
  "sv_action event = ActStop \<Longrightarrow> normalize_process env event f nz =
     (normalize_stop env event (event_pid event (pc_process_id f)) nz, None)"
  by (simp add: normalize_process_def)

lemma live_resolve_fst [simp]: "live (fst (resolve_user_field usr nz)) = live nz"
  by (rule live_resolve) (rule prod.collapse [symmetric])

lemma live_process_event:
  assumes "p \<noteq> event_pid event (pc_process_id f) \<or> sv_action event \<notin> {ActStart, ActStop}"
  shows "live (fst (normalize_process env event f nz)) p = live nz p"
proof -
  consider "sv_action event = ActStop" | img where "sv_action event = ActStart" "pc_image f = Some img"
    | "sv_action event \<noteq> ActStart \<or> pc_image f = None" "sv_action event \<noteq> ActStop"
    by blast
  then show ?thesis
  proof cases
    case 1
    with assms show ?thesis by (simp add: process_stop_state live_stop)
  next
    case 2
    then show ?thesis
      by (rule process_start_state [where env = env and nz = nz])
        (use assms 2 in \<open>simp add: live_register(2)\<close>)
  next
    case 3
    then show ?thesis by (simp add: process_other_state)
  qed
qed

lemma live_normalize:
  assumes "\<not> starts_or_stops pid event"
  shows "live (fst (normalize env event nz)) pid = live nz pid"
proof -
  have "live (fst (normalize_payload env event nz)) pid = live nz pid"
  proof (cases "sv_payload event")
    case (PayProcess f)
    with assms have "live (fst (normalize_process env event f nz)) pid = live nz pid"
      by (intro live_process_event) (auto simp: starts_or_stops_def)
    with PayProcess show ?thesis by (simp add: normalize_payload_def)
  qed (auto simp: normalize_payload_def normalize_arms Let_def live_frame split: prod.split)
  then show ?thesis by (simp add: fst_normalize)
qed

lemma live_normalize_start:
  assumes "sv_payload event = PayProcess f" and "sv_action event = ActStart"
    and "pc_image f = Some img" and "event_pid event (pc_process_id f) = pid" and "pid \<noteq> 0"
  shows "map_option pm_image_name (live (fst (normalize env event nz)) pid) = Some img"
proof -
  from assms(2,3) have "map_option pm_image_name
      (live (fst (normalize_process env event f nz)) pid) = Some img"
    by (rule process_start_state [where env = env and nz = nz])
      (use assms(4,5) in \<open>simp add: live_register(1) del: map_option_eq_Some\<close>)
  then show ?thesis
    using assms(1) by (simp add: fst_normalize normalize_payload_def del: map_option_eq_Some)
qed

section \<open>Runs of the normalizer\<close>

fun normalize_step ::
  "normalizer \<Rightarrow> norm_env \<times> sensor_event \<Rightarrow> normalizer \<times> normalized_event option" where
  "normalize_step nz (env, event) = normalize env event nz"

lemma live_run:
  "\<forall>(env, event) \<in> set evs. \<not> starts_or_stops pid event \<Longrightarrow>
   live (fst (run normalize_step nz evs)) pid = live nz pid"
  by (induction evs arbitrary: nz) (auto simp: live_normalize)

text \<open>The image the cache gives for a live process.\<close>

lemma cached_image_live:
  assumes "map_option pm_image_name (live nz pid) = Some img"
  shows "snd (cached_image env pid nz) =
    Some (snd (convert_nt_to_dos (ne_drive env) img (nz_drives nz)))"
proof -
  obtain m where "live_metadata (nz_process nz) pid = Some m" "pm_image_name m = img"
    using assms by (auto simp: live_def)
  then show ?thesis
    by (simp add: cached_image_def process_get_image_def split: prod.split)
qed

text \<open>The events that take the image of process \<open>pid\<close> from the cache.\<close>

definition wants_image :: "u32 \<Rightarrow> sensor_event \<Rightarrow> bool" where
  "wants_image pid event =
     (case sv_payload event of
        PayFile f \<Rightarrow> event_pid event (fe_process_id f) = pid
      | PayRegistry f \<Rightarrow> re_image f = None \<and> event_pid event (re_process_id f) = pid
      | PayNetwork f \<Rightarrow> nc_image f = None \<and> event_pid event (nc_process_id f) = pid
      | PayDns f \<Rightarrow> dq_image f = None \<and> event_pid event (dq_process_id f) = pid
      | PayService f \<Rightarrow> sc_image f = None \<and> event_pid event (sc_process_id f) = pid
      | PayTask f \<Rightarrow> tc_image f = None \<and> event_pid event (tc_process_id f) = pid
      | _ \<Rightarrow> False)"

lemma complete_hostname_image [simp]: "nc_image (complete_hostname env f nz) = nc_image f"
  by (simp add: complete_hostname_def split: option.split)

lemmas get_field_defs = get_fields_def get_file_field_def get_registry_field_def
  get_network_field_def get_dns_field_def get_service_field_def get_task_field_def match_key_def

lemma normalize_image:
  assumes "wants_image pid event" and "pid \<noteq> 0"
    and "map_option pm_image_name (live nz pid) = Some img"
  obtains fs where "snd (normalize_payload env event nz) = Some fs"
    and "get_fields fs ''Image'' =
      Some (snd (convert_nt_to_dos (ne_drive env) img (nz_drives nz)))"
proof -
  let ?dos = "Some (snd (convert_nt_to_dos (ne_drive env) img (nz_drives nz)))"
  have taken: "img' = ?dos"
    if "resolve_user_field usr nz = (nz1, usr')" "cached_image env pid nz1 = (nz2, img')"
    for usr usr' nz1 nz2 img'
    using cached_image_live [of nz1 pid img env] assms(3) that live_resolve [OF that(1)]
      resolve_user_frame(3) [OF that(1)] by simp
  have direct: "img' = ?dos" if "cached_image env pid nz = (nz2, img')" for nz2 img'
    using cached_image_live [OF assms(3), of env] that by simp
  have "\<exists>fs. snd (normalize_payload env event nz) = Some fs \<and> get_fields fs ''Image'' = ?dos"
    using assms(1,2)
    by (cases "sv_payload event")
      (auto simp: normalize_payload_def wants_image_def normalize_arms complete_image_def Let_def
        get_field_defs split: prod.split dest: taken intro: direct)
  with that show thesis by blast
qed

section \<open>The host-name cache sees the answers\<close>

definition dns_ops :: "norm_env \<times> sensor_event \<Rightarrow> dns_op list" where
  "dns_ops ev =
     (case ev of (env, event) \<Rightarrow>
        (case sv_payload event of
           PayDns f \<Rightarrow>
             map (\<lambda>(i, ip, query_name).
                    DnsUpdate (ne_dns_iter env) (ne_dns_update env i) ip query_name)
               (enumerate 0 (dns_answers_of f))
         | _ \<Rightarrow> []))"

lemma run_dns_updates:
  "fst (run dns_step c (map (\<lambda>(i, ip, q). DnsUpdate it (t i) ip q) xs)) =
   fold (\<lambda>(i, ip, q). dns_update it (t i) ip q) xs c"
  by (induction xs arbitrary: c) (auto split: prod.split)

lemma dns_process_event: "nz_dns (fst (normalize_process env event f nz)) = nz_dns nz"
proof -
  consider "sv_action event = ActStop" | img where "sv_action event = ActStart" "pc_image f = Some img"
    | "sv_action event \<noteq> ActStart \<or> pc_image f = None" "sv_action event \<noteq> ActStop"
    by blast
  then show ?thesis
  proof cases
    case 2
    then show ?thesis by (rule process_start_state [where env = env and nz = nz]) simp
  qed (simp_all add: process_stop_state process_other_state
      resolve_user_frame(2) [OF prod.collapse [symmetric]])
qed

lemma dns_normalize:
  "nz_dns (fst (normalize env event nz)) = fst (run dns_step (nz_dns nz) (dns_ops (env, event)))"
proof (cases "sv_payload event")
  case (PayProcess f)
  then show ?thesis by (simp add: fst_normalize normalize_payload_def dns_ops_def dns_process_event)
next
  case (PayDns f)
  have "dns_answers_of (f\<lparr>dq_image := img\<rparr>) = dns_answers_of f" for img
    by (simp add: dns_answers_of_def)
  with PayDns show ?thesis
    by (auto simp: fst_normalize normalize_payload_def normalize_dns_def dns_ops_def Let_def
        run_dns_updates complete_image_frame(1) split: prod.split)
qed (auto simp: fst_normalize normalize_payload_def normalize_arms dns_ops_def Let_def
    resolve_user_frame(2) cached_image_frame(1) complete_image_frame(1) split: prod.split)

lemma dns_run:
  "nz_dns (fst (run normalize_step nz evs)) =
   fst (run dns_step (nz_dns nz) (concat (map dns_ops evs)))"
  by (induction evs arbitrary: nz) (auto simp: dns_normalize run_append)

lemma dns_ops_ok: "hash_iter (ne_dns_iter env) \<Longrightarrow> list_all dns_ok (dns_ops (env, event))"
  by (auto simp: dns_ops_def list_all_iff split: sensor_payload.split)

lemma dns_ops_run_ok:
  "\<forall>(env, event) \<in> set evs. hash_iter (ne_dns_iter env) \<Longrightarrow>
   list_all dns_ok (concat (map dns_ops evs))"
  by (induction evs) (auto simp: dns_ops_ok)

text \<open>The host name a network event leaves with.\<close>

lemma normalize_hostname:
  assumes "sv_payload event = PayNetwork f" and "nc_destination_hostname f = None"
    and "nc_destination_ip f = Some dest" and "parse_ip dest = Some ip"
  obtains fs where "snd (normalize_payload env event nz) = Some fs"
    and "get_fields fs ''DestinationHostname'' = dns_lookup (ne_dns_lookup env) ip (nz_dns nz)"
proof -
  obtain nz1 usr where r: "resolve_user_field (nc_user f) nz = (nz1, usr)" by fastforce
  obtain nz2 img where c: "complete_image env event (nc_image f) (nc_process_id f) nz1 = (nz2, img)"
    by fastforce
  have "nz_dns nz2 = nz_dns nz"
    using complete_image_frame(1) [OF c] resolve_user_frame(2) [OF r] by simp
  with assms r c show thesis
    by (intro that) (auto simp: normalize_payload_def normalize_network_def complete_hostname_def
        get_field_defs Let_def split: option.split)
qed

section \<open>Nothing the sensor said is lost\<close>

definition fields_of_payload :: "sensor_payload \<Rightarrow> event_fields" where
  "fields_of_payload pay =
     (case pay of PayProcess f \<Rightarrow> ProcessCreation f | PayNetwork f \<Rightarrow> NetworkConnection f
      | PayFile f \<Rightarrow> FileEvent f | PayDns f \<Rightarrow> DnsQuery f | PayRegistry f \<Rightarrow> RegistryEvent f
      | PayImageLoad f \<Rightarrow> ImageLoad f | PayScripting f \<Rightarrow> PowerShellScript f
      | PayWmi f \<Rightarrow> WmiEvent f | PayService f \<Rightarrow> ServiceCreation f
      | PayTask f \<Rightarrow> TaskCreation f)"

lemma payload_of_fields_of_payload: "payload_of_fields (fields_of_payload pay) = Inr pay"
  by (cases pay) (simp_all add: payload_of_fields_def fields_of_payload_def)

text \<open>Only the keys of \<open>open\<close> may lose a value.\<close>

definition arms_kept ::
  "string set \<Rightarrow> (string \<times> string option) list \<Rightarrow> (string \<times> string option) list \<Rightarrow> bool" where
  "arms_kept ks = list_all2 (\<lambda>(k, v) (k', v'). k' = k \<and> (k \<in> ks \<or> v = None \<or> v' = v))"

lemma match_key_kept:
  "arms_kept ks arms arms' \<Longrightarrow> key \<notin> ks \<Longrightarrow> match_key key arms = Some v \<Longrightarrow>
   match_key key arms' = Some v"
  unfolding arms_kept_def
  by (induction rule: list_all2_induct) (auto simp: match_key_def split: if_splits)

lemma arms_kept_simps [simp]:
  "arms_kept ks [] []"
  "arms_kept ks ((k, v) # arms) ((k', v') # arms') \<longleftrightarrow>
     k' = k \<and> (k \<in> ks \<or> v = None \<or> v' = v) \<and> arms_kept ks arms arms'"
  by (simp_all add: arms_kept_def)

definition overwritten :: "sensor_payload \<Rightarrow> string set" where
  "overwritten pay = (case pay of PayFile _ \<Rightarrow> {''User'', ''Image''} | _ \<Rightarrow> {''User''})"

lemma complete_process_kept:
  "get_process_field f key = Some v \<Longrightarrow> key \<notin> {''User''} \<Longrightarrow>
   get_process_field (complete_process env event pid usr f) key = Some v"
  unfolding get_process_field_def
  by (erule match_key_kept [rotated 2]) (auto simp: complete_process_def Let_def split: option.split)

lemma complete_parent_kept:
  "get_process_field f key = Some v \<Longrightarrow>
   get_process_field (complete_parent pimg pcmd f) key = Some v"
  unfolding get_process_field_def
  by (erule match_key_kept [where ks = "{}", rotated 2]) (auto simp: complete_parent_def Let_def)

lemma normalize_process_kept:
  assumes "snd (normalize_process env event f nz) = Some fs"
    and "get_process_field f key = Some v" and "key \<notin> {''User''}"
  shows "get_fields fs key = Some v"
  using assms complete_process_kept [OF assms(2,3)]
    complete_parent_kept [OF complete_process_kept [OF assms(2,3)]]
  by (auto simp: normalize_process_def get_fields_def Let_def
      split: if_splits prod.splits option.splits)

lemma complete_hostname_kept:
  "get_network_field f key = Some v \<Longrightarrow> get_network_field (complete_hostname env f nz) key = Some v"
  unfolding get_network_field_def
  by (erule match_key_kept [where ks = "{}", rotated 2])
    (auto simp: complete_hostname_def split: option.split)

lemma network_kept:
  "get_network_field f key = Some v \<Longrightarrow> key \<notin> {''User''} \<Longrightarrow> nc_image f = None \<or> img = nc_image f \<Longrightarrow>
   get_network_field (f\<lparr>nc_user := usr, nc_image := img\<rparr>) key = Some v"
  unfolding get_network_field_def by (erule match_key_kept [rotated 2]) auto

lemma file_kept:
  "get_file_field f key = Some v \<Longrightarrow> key \<notin> {''User'', ''Image''} \<Longrightarrow>
   get_file_field (f\<lparr>fe_user := usr, fe_image := img\<rparr>) key = Some v"
  unfolding get_file_field_def
  by (erule match_key_kept [where ks = "{''User'', ''Image''}", rotated 2]) auto

lemma file_user_kept:
  "get_file_field f key = Some v \<Longrightarrow> key \<notin> {''User'', ''Image''} \<Longrightarrow>
   get_file_field (f\<lparr>fe_user := usr\<rparr>) key = Some v"
  unfolding get_file_field_def
  by (erule match_key_kept [where ks = "{''User'', ''Image''}", rotated 2]) auto

lemma registry_kept:
  "get_registry_field f key = Some v \<Longrightarrow> key \<notin> {''User''} \<Longrightarrow> re_image f = None \<or> img = re_image f \<Longrightarrow>
   get_registry_field (f\<lparr>re_user := usr, re_image := img\<rparr>) key = Some v"
  unfolding get_registry_field_def by (erule match_key_kept [rotated 2]) auto

lemma dns_kept:
  "get_dns_field f key = Some v \<Longrightarrow> dq_image f = None \<or> img = dq_image f \<Longrightarrow>
   get_dns_field (f\<lparr>dq_image := img\<rparr>) key = Some v"
  unfolding get_dns_field_def by (erule match_key_kept [where ks = "{}", rotated 2]) auto

lemma service_kept:
  "get_service_field f key = Some v \<Longrightarrow> key \<notin> {''User''} \<Longrightarrow> sc_image f = None \<or> img = sc_image f \<Longrightarrow>
   get_service_field (f\<lparr>sc_user := usr, sc_image := img\<rparr>) key = Some v"
  unfolding get_service_field_def by (erule match_key_kept [rotated 2]) auto

lemma task_kept:
  "get_task_field f key = Some v \<Longrightarrow> key \<notin> {''User''} \<Longrightarrow> tc_image f = None \<or> img = tc_image f \<Longrightarrow>
   get_task_field (f\<lparr>tc_user := usr, tc_image := img\<rparr>) key = Some v"
  unfolding get_task_field_def by (erule match_key_kept [rotated 2]) auto

lemma image_load_user_kept:
  "get_image_load_field f key = Some v \<Longrightarrow> key \<notin> {''User''} \<Longrightarrow>
   get_image_load_field (f\<lparr>il_user := usr\<rparr>) key = Some v"
  unfolding get_image_load_field_def by (erule match_key_kept [rotated 2]) auto

lemma script_user_kept:
  "get_script_field f key = Some v \<Longrightarrow> key \<notin> {''User''} \<Longrightarrow>
   get_script_field (f\<lparr>ps_user := usr\<rparr>) key = Some v"
  unfolding get_script_field_def by (erule match_key_kept [rotated 2]) auto

lemma wmi_user_kept:
  "get_wmi_field f key = Some v \<Longrightarrow> key \<notin> {''User''} \<Longrightarrow>
   get_wmi_field (f\<lparr>wm_user := usr\<rparr>) key = Some v"
  unfolding get_wmi_field_def by (erule match_key_kept [rotated 2]) auto

lemma complete_image_kept:
  "complete_image env event img0 pid nz = (nz', img) \<Longrightarrow> img0 = None \<or> img = img0"
  by (auto simp: complete_image_def split: if_splits)

lemmas user_kept = image_load_user_kept script_user_kept wmi_user_kept
  registry_kept [of f key v "re_image f" for f key v, simplified]
  service_kept [of f key v "sc_image f" for f key v, simplified]
  task_kept [of f key v "tc_image f" for f key v, simplified]

lemma normalize_payload_kept:
  assumes "snd (normalize_payload env event nz) = Some fs"
    and "get_fields (fields_of_payload (sv_payload event)) key = Some v"
    and "key \<notin> overwritten (sv_payload event)"
  shows "get_fields fs key = Some v"
proof (cases "sv_payload event")
  case (PayProcess f)
  with assms show ?thesis
    by (intro normalize_process_kept [of env event f nz])
      (simp_all add: normalize_payload_def fields_of_payload_def overwritten_def get_fields_def)
next
  case (PayNetwork f)
  obtain nz1 usr where r: "resolve_user_field (nc_user f) nz = (nz1, usr)" by fastforce
  obtain nz2 img where c: "complete_image env event (nc_image f) (nc_process_id f) nz1 = (nz2, img)"
    by fastforce
  have "get_network_field (f\<lparr>nc_user := usr, nc_image := img\<rparr>) key = Some v"
    using assms(2,3) PayNetwork complete_image_kept [OF c]
    by (intro network_kept) (auto simp: fields_of_payload_def overwritten_def get_fields_def)
  from complete_hostname_kept [OF this, of env nz2] show ?thesis
    using assms(1) PayNetwork r c
    by (auto simp: normalize_payload_def normalize_network_def get_fields_def Let_def)
next
  case (PayFile f)
  with assms show ?thesis
    by (auto simp: normalize_payload_def normalize_file_def fields_of_payload_def
        overwritten_def get_fields_def Let_def split: prod.splits if_splits option.splits
        intro!: file_kept file_user_kept)
qed (use assms in \<open>auto simp: normalize_payload_def normalize_arms fields_of_payload_def
    overwritten_def get_fields_def Let_def split: prod.splits
    intro!: registry_kept dns_kept service_kept task_kept user_kept dest!: complete_image_kept\<close>)

lemma normalize_process_total:
  "snd (normalize_process env event f nz) = None \<longleftrightarrow> sv_action event = ActStop"
  by (simp add: normalize_process_def Let_def split: prod.split option.split)

lemma normalize_total:
  "snd (normalize_payload env event nz) = None \<longleftrightarrow>
   (\<exists>f. sv_payload event = PayProcess f) \<and> sv_action event = ActStop"
  by (cases "sv_payload event")
    (auto simp: normalize_payload_def normalize_arms normalize_process_total Let_def
      split: prod.split)

section \<open>The process context of an alert\<close>

definition fallback_pid :: "sensor_event \<Rightarrow> u32" where
  "fallback_pid event = (case sv_pid event of Some pid \<Rightarrow> pid | None \<Rightarrow> 0)"

lemma context_pid_normalized:
  assumes "wants_image pid event" and "snd (normalize_payload env event nz) = Some fs"
  shows "(case parse_optional_u32 (context_pid_field fs) of
      Some p \<Rightarrow> p | None \<Rightarrow> fallback_pid event) = pid"
    and "\<not> is_process_creation fs"
  using assms
  by (cases "sv_payload event"; auto simp: normalize_payload_def normalize_arms wants_image_def
      event_pid_def fallback_pid_def context_pid_field_def is_process_creation_def
      complete_hostname_def Let_def split: prod.splits option.splits if_splits)+

lemma context_of_live:
  assumes "map_option pm_image_name (live nz pid) = Some img" and "pid \<noteq> 0"
    and "\<not> is_process_creation fs"
    and "(case parse_optional_u32 (context_pid_field fs) of Some p \<Rightarrow> p | None \<Rightarrow> fallback) = pid"
  shows "map_option cx_image (snd (build_process_context env fs fallback nz)) = Some (Some img)"
proof -
  obtain m where "live_metadata (nz_process nz) pid = Some m" "pm_image_name m = img"
    using assms(1) by (auto simp: live_def)
  then show ?thesis
    using assms(2-)
    by (simp add: build_process_context_def process_get_metadata_def context_of_metadata_def)
qed

section \<open>Properties\<close>

definition quiet_env :: norm_env where
  "quiet_env = \<lparr>ne_get = (100, True), ne_put = (100, True), ne_context = (100, True),
     ne_drive = sample_drive_env (map fst), ne_dns_lookup = 130, ne_dns_update = (\<lambda>_. 120),
     ne_dns_iter = map fst, ne_conn = (100, True), ne_conn_iter = map fst,
     ne_command_line = (\<lambda>_. None), ne_format_time = (\<lambda>_. [])\<rparr>"

definition idle_normalizer :: normalizer where
  "idle_normalizer = \<lparr>nz_process = process_cache_new, nz_sid = sid_cache_new True,
     nz_dns = dns_new, nz_conn = conn_new, nz_aggregation_enabled = False, nz_drives = None\<rparr>"
text \<open>
  C6: events are attributed to the process that runs. After the start of process \<open>pid\<close> with an
  image, and any later events among which the process is neither started again nor stopped, a
  registry, network, DNS, service or task event of that process without an image, or a file event of
  it, is normalized to an event whose \<open>Image\<close> is the image of that start as a DOS path; and an
  alert on it gets the image of that start as its process context. This holds whatever the caches
  held before and whatever the clean-ups of the graveyard do.
\<close>

theorem events_name_the_running_process:
  assumes "sv_payload start = PayProcess f" and "sv_action start = ActStart"
    and "pc_image f = Some img" and "event_pid start (pc_process_id f) = pid" and "pid \<noteq> 0"
    and "\<forall>(env', event') \<in> set later. \<not> starts_or_stops pid event'"
    and "nz' = fst (run normalize_step nz ((env0, start) # later))"
    and "wants_image pid event"
  shows "\<exists>out. snd (normalize env event nz') = Some out \<and>
    get_field out ''Image'' = Some (snd (convert_nt_to_dos (ne_drive env) img (nz_drives nz'))) \<and>
    map_option cx_image (ev_process_context (snd (enrich_process_context env (fallback_pid event)
      out (fst (normalize env event nz'))))) = Some (Some img)"
proof -
  have "map_option pm_image_name (live (fst (normalize env0 start nz)) pid) = Some img"
    using assms(1-5) by (rule live_normalize_start)
  then have live: "map_option pm_image_name (live nz' pid) = Some img"
    using assms(6,7) by (simp add: live_run)
  obtain fs where fs: "snd (normalize_payload env event nz') = Some fs"
    and img: "get_fields fs ''Image'' =
      Some (snd (convert_nt_to_dos (ne_drive env) img (nz_drives nz')))"
    by (rule normalize_image [OF assms(8,5) live])
  have "\<not> starts_or_stops pid event"
    using assms(8)
    by (simp add: wants_image_def starts_or_stops_def split: sensor_payload.splits)
  then have live': "map_option pm_image_name (live (fst (normalize env event nz')) pid) = Some img"
    using live by (simp add: live_normalize)
  let ?out = "\<lparr>ev_timestamp = ne_format_time env (sv_timestamp event),
     ev_platform = sv_platform event, ev_provider = sv_provider event,
     ev_category = payload_category (sv_payload event), ev_event_id = sv_event_id event,
     ev_event_id_string = show_uint (sv_event_id event),
     ev_opcode = sv_action_code event, ev_fields = fs, ev_process_context = None\<rparr>"
  have "snd (normalize env event nz') = Some ?out" using fs by (simp add: normalize_def case_prod_beta)
  moreover have "map_option cx_image (ev_process_context (snd (enrich_process_context env
      (fallback_pid event) ?out (fst (normalize env event nz'))))) = Some (Some img)"
    using context_of_live [OF live' assms(5), of fs "fallback_pid event" env]
      context_pid_normalized [OF assms(8) fs]
    by (simp add: enrich_process_context_def case_prod_beta)
  ultimately show ?thesis using img by (simp add: get_field_def)
qed

definition sample_fields :: process_fields where
  "sample_fields = \<lparr>pc_image = Some (device ''HarddiskVolume1'' @ backslash # ''a.exe''),
     pc_original_file_name = None, pc_product = None, pc_description = None,
     pc_target_image = None, pc_command_line = Some ''a'', pc_process_id = Some ''42'',
     pc_process_start_time = None, pc_parent_process_id = None, pc_parent_image = None,
     pc_parent_command_line = None, pc_current_directory = None, pc_integrity_level = None,
     pc_user = None, pc_logon_id = None, pc_logon_guid = None\<rparr>"

definition sample_sensor_event :: "sensor_action \<Rightarrow> sensor_payload \<Rightarrow> sensor_event" where
  "sample_sensor_event action pay = \<lparr>sv_platform = Windows, sv_provider = ''test'',
     sv_action = action, sv_event_id = 1, sv_action_code = 1, sv_pid = Some 42,
     sv_timestamp = 5, sv_process_start_key = None, sv_payload = pay\<rparr>"

definition sample_connection :: network_fields where
  "sample_connection = \<lparr>nc_destination_ip = Some ''10.0.0.7'', nc_source_ip = None,
     nc_destination_port = Some ''443'', nc_source_port = None, nc_process_id = Some ''42'',
     nc_image = None, nc_user = None, nc_destination_hostname = None, nc_protocol = None\<rparr>"

lemma parse_42: "parse_uint ''42'' = (Some 42 :: u32 option)"
proof -
  have "parse_nat 10 ''42'' = Some 42" by code_simp
  then show ?thesis by (simp add: parse_uint_def from_str_radix_def)
qed

lemma event_pid_42 [simp]: "event_pid event (Some ''42'') = 42"
  by (simp add: event_pid_def parse_optional_u32_def parse_42)

theorem events_name_the_running_process_witness:
  "let nz' = fst (run normalize_step idle_normalizer
         [(quiet_env, sample_sensor_event ActStart (PayProcess sample_fields))])
   in get_field (the (snd (normalize quiet_env
        (sample_sensor_event ActConnect (PayNetwork sample_connection)) nz'))) ''Image'' =
      Some (''C:'' @ backslash # ''a.exe'')"
proof -
  let ?nz = "fst (run normalize_step idle_normalizer
      [(quiet_env, sample_sensor_event ActStart (PayProcess sample_fields))])"
  let ?event = "sample_sensor_event ActConnect (PayNetwork sample_connection)"
  let ?img = "device ''HarddiskVolume1'' @ backslash # ''a.exe''"
  have pid: "event_pid (sample_sensor_event ActStart (PayProcess sample_fields))
      (pc_process_id sample_fields) = 42"
    by (simp add: sample_fields_def)
  have "\<exists>out. snd (normalize quiet_env ?event ?nz) = Some out \<and>
      get_field out ''Image'' =
        Some (snd (convert_nt_to_dos (ne_drive quiet_env) ?img (nz_drives ?nz))) \<and>
      map_option cx_image (ev_process_context (snd (enrich_process_context quiet_env
        (fallback_pid ?event) out (fst (normalize quiet_env ?event ?nz))))) = Some (Some ?img)"
  proof (rule events_name_the_running_process [OF _ _ _ pid _ _ refl])
    show "wants_image 42 ?event"
      by (simp add: wants_image_def sample_sensor_event_def sample_connection_def)
  qed (simp_all add: sample_sensor_event_def sample_fields_def)
  moreover have "nz_drives ?nz = None"
    by (rule process_start_state [of "sample_sensor_event ActStart (PayProcess sample_fields)"
          sample_fields ?img idle_normalizer quiet_env])
      (simp_all add: fst_normalize normalize_payload_def sample_sensor_event_def sample_fields_def
        idle_normalizer_def)
  moreover have "snd (convert_nt_to_dos (ne_drive quiet_env) ?img None) =
      ''C:'' @ backslash # ''a.exe''"
    by code_simp
  ultimately show ?thesis by (auto simp only: Let_def option.sel)
qed

text \<open>
  C7: the host name that a network event without one leaves with is the query name of the last DNS
  answer for its destination address that the normalizer has seen, and that answer is less than 900
  seconds old; conversely, as long as the answers name at most 10000 addresses, such an answer is
  found.
\<close>

theorem hostname_is_last_answer:
  assumes "\<forall>(env', event') \<in> set evs. hash_iter (ne_dns_iter env')"
    and "nz_dns nz = dns_new"
    and "sv_payload event = PayNetwork f" and "nc_destination_hostname f = None"
    and "nc_destination_ip f = Some dest" and "parse_ip dest = Some ip"
    and "snd (normalize env event (fst (run normalize_step nz evs))) = Some out"
    and "answer = fresh_answer 900 (ne_dns_lookup env) (last_update ip (concat (map dns_ops evs)))"
  shows "(get_field out ''DestinationHostname'' = Some h \<longrightarrow> answer = Some h) \<and>
    (length (updated_ips (concat (map dns_ops evs))) \<le> 10000 \<longrightarrow>
      get_field out ''DestinationHostname'' = answer)"
proof -
  let ?ops = "concat (map dns_ops evs)" and ?nz = "fst (run normalize_step nz evs)"
  have ok: "list_all dns_ok ?ops" by (rule dns_ops_run_ok [OF assms(1)])
  have dns: "nz_dns ?nz = dns_after 10000 900 ?ops" by (simp add: dns_run assms(2) dns_new_def)
  obtain fs where fs: "snd (normalize_payload env event ?nz) = Some fs"
    and host: "get_fields fs ''DestinationHostname'' =
      dns_lookup (ne_dns_lookup env) ip (nz_dns ?nz)"
    by (rule normalize_hostname [OF assms(3-6)])
  have "get_field out ''DestinationHostname'' =
      dns_lookup (ne_dns_lookup env) ip (dns_after 10000 900 ?ops)"
    using assms(7) fs host by (auto simp: normalize_def case_prod_beta get_field_def dns)
  then show ?thesis
    using dns_lookup_sound [OF ok] dns_lookup_exact [OF ok] assms(8) by auto
qed

definition sample_answer :: "string \<Rightarrow> dns_fields" where
  "sample_answer name = \<lparr>dq_query_name = Some name, dq_query_results = Some ''10.0.0.7;'',
     dq_record_type = None, dq_query_status = None, dq_process_id = Some ''42'', dq_image = None\<rparr>"

theorem hostname_is_last_answer_witness:
  "get_field (the (snd (normalize quiet_env
      (sample_sensor_event ActConnect (PayNetwork sample_connection))
      (fst (run normalize_step idle_normalizer
         [(quiet_env, sample_sensor_event ActQuery (PayDns (sample_answer ''a.example''))),
          (quiet_env, sample_sensor_event ActQuery (PayDns (sample_answer ''b.example'')))])))))
      ''DestinationHostname'' = Some ''b.example''"
proof -
  let ?evs = "[(quiet_env, sample_sensor_event ActQuery (PayDns (sample_answer ''a.example''))),
    (quiet_env, sample_sensor_event ActQuery (PayDns (sample_answer ''b.example'')))]"
  let ?event = "sample_sensor_event ActConnect (PayNetwork sample_connection)"
  let ?nz = "fst (run normalize_step idle_normalizer ?evs)"
  obtain out where out: "snd (normalize quiet_env ?event ?nz) = Some out"
    using normalize_total [of quiet_env ?event ?nz]
    by (auto simp: normalize_def case_prod_beta sample_sensor_event_def)
  have ip: "parse_ip ''10.0.0.7'' = Some (V4 0x0A000007)" by code_simp
  have few: "length (updated_ips (concat (map dns_ops ?evs))) \<le> 10000" by code_simp
  have "(get_field out ''DestinationHostname'' = Some ''b.example'' \<longrightarrow>
      fresh_answer 900 (ne_dns_lookup quiet_env) (last_update (V4 0x0A000007)
        (concat (map dns_ops ?evs))) = Some ''b.example'') \<and>
    (length (updated_ips (concat (map dns_ops ?evs))) \<le> 10000 \<longrightarrow>
      get_field out ''DestinationHostname'' = fresh_answer 900 (ne_dns_lookup quiet_env)
        (last_update (V4 0x0A000007) (concat (map dns_ops ?evs))))"
  proof (rule hostname_is_last_answer [where f = sample_connection, OF _ _ _ _ _ ip out refl])
    show "\<forall>(env', event') \<in> set ?evs. hash_iter (ne_dns_iter env')"
      by (simp add: quiet_env_def stored_order.hash_iter_axioms)
  qed (simp_all add: idle_normalizer_def sample_sensor_event_def sample_connection_def)
  with few have "get_field out ''DestinationHostname'' = fresh_answer 900
      (ne_dns_lookup quiet_env) (last_update (V4 0x0A000007) (concat (map dns_ops ?evs)))"
    by blast
  also have "\<dots> = Some ''b.example''" by code_simp
  finally show ?thesis using out by simp
qed



end
