(* ===== verification/Matcher.thy ===== *)
theory Matcher
  imports Events Addr
begin

text \<open>
  The built-in Sigma matcher: the pattern types and the matching functions of
  \<open>src/engine/matcher.rs\<close>. The crates it calls (regular expressions, CIDR networks, base64) and
  floating-point numbers are the record \<open>crates\<close>, an argument of the functions that use them:
  \<open>'re\<close> is a compiled regular expression, \<open>'net\<close> a network, \<open>'f\<close> an \<open>f64\<close>.
  Nothing is assumed of them.
\<close>

section \<open>Patterns\<close>

record ('re, 'net, 'f) crates =
  regex_new :: "string \<Rightarrow> 're option"
  regex_is_match :: "'re \<Rightarrow> string \<Rightarrow> bool"
  regex_as_str :: "'re \<Rightarrow> string"
  regex_escape :: "string \<Rightarrow> string"
  net_parse :: "string \<Rightarrow> 'net option"
  net_contains :: "'net \<Rightarrow> ip_addr \<Rightarrow> bool"
  net_show :: "'net \<Rightarrow> string"
  f64_parse :: "string \<Rightarrow> 'f option"
  f64_lt :: "'f \<Rightarrow> 'f \<Rightarrow> bool"
  f64_le :: "'f \<Rightarrow> 'f \<Rightarrow> bool"
  f64_show :: "'f \<Rightarrow> string"
  base64_encode :: "string \<Rightarrow> string"

datatype numeric_op = Lt | Gt | Le | Ge

datatype pattern_matcher =
  MatchDefault | MatchContains | MatchStartsWith | MatchEndsWith | MatchAll | MatchBase64Offset

datatype ('re, 'net, 'f) field_pattern =
  Exact string bool
| Contains string bool
| StartsWith string bool
| EndsWith string bool
| Regex 're
| FieldRef string
| OneOf "string list"
| Cidr 'net
| Numeric 'f numeric_op
| NullPattern
| NotNull

record ('re, 'net, 'f) field_criterion =
  fc_field :: string
  fc_patterns :: "('re, 'net, 'f) field_pattern list"
  fc_matcher :: pattern_matcher

record ('re, 'net, 'f) selection =
  sl_field_criteria :: "('re, 'net, 'f) field_criterion list"
  sl_keywords :: "('re, 'net, 'f) field_pattern list"
  sl_alternative_field_criteria :: "('re, 'net, 'f) field_criterion list list"

section \<open>Matching a value\<close>

text \<open>
  The loop over the positions \<open>0..=(value.len() - s.len())\<close> that skips the positions where
  a slice would split a character.
\<close>

definition slice :: "nat \<Rightarrow> nat \<Rightarrow> string \<Rightarrow> string" where
  "slice i n s = take n (drop i s)"

definition contains_ignore_case :: "string \<Rightarrow> string \<Rightarrow> bool" where
  "contains_ignore_case value s =
     (if s = [] then True
      else if length value < length s then False
      else list_ex
        (\<lambda>i. if \<not> is_char_boundary value i \<or> \<not> is_char_boundary value (i + length s) then False
            else eq_ignore_ascii_case (slice i (length s) value) s)
        [0..<Suc (length value - length s)])"

definition starts_with_ignore_case :: "string \<Rightarrow> string \<Rightarrow> bool" where
  "starts_with_ignore_case value s =
     (if length s \<le> length value \<and> is_char_boundary value (length s)
      then eq_ignore_ascii_case (take (length s) value) s else False)"

definition ends_with_ignore_case :: "string \<Rightarrow> string \<Rightarrow> bool" where
  "ends_with_ignore_case value s =
     (let start_index = length value - length s
      in if length s \<le> length value \<and> is_char_boundary value start_index
         then eq_ignore_ascii_case (drop start_index value) s else False)"

definition matches_pattern ::
  "('re, 'net, 'f) crates \<Rightarrow> string \<Rightarrow> ('re, 'net, 'f) field_pattern \<Rightarrow> normalized_event option
   \<Rightarrow> bool" where
  "matches_pattern X value pattern event =
     (case pattern of
        Exact s cased \<Rightarrow> if cased then value = s else eq_ignore_ascii_case value s
      | Contains s cased \<Rightarrow> if cased then str_contains value s else contains_ignore_case value s
      | StartsWith s cased \<Rightarrow>
          if cased then starts_with value s else starts_with_ignore_case value s
      | EndsWith s cased \<Rightarrow> if cased then ends_with value s else ends_with_ignore_case value s
      | Regex re \<Rightarrow> regex_is_match X re value
      | FieldRef other_field \<Rightarrow>
          (case event of
             Some ev \<Rightarrow> (case get_field ev other_field of
                 Some other_val \<Rightarrow> eq_ignore_ascii_case value other_val | None \<Rightarrow> False)
           | None \<Rightarrow> False)
      | OneOf values \<Rightarrow> list_ex (eq_ignore_ascii_case value) values
      | Cidr network \<Rightarrow>
          (case parse_ip value of Some ip \<Rightarrow> net_contains X network ip | None \<Rightarrow> False)
      | Numeric threshold op \<Rightarrow>
          (case f64_parse X value of
             Some num \<Rightarrow> (case op of
                 Lt \<Rightarrow> f64_lt X num threshold
               | Gt \<Rightarrow> f64_lt X threshold num
               | Le \<Rightarrow> f64_le X num threshold
               | Ge \<Rightarrow> f64_le X threshold num)
           | None \<Rightarrow> False)
      | NullPattern \<Rightarrow> False
      | NotNull \<Rightarrow> True)"

fun matches_pattern_null :: "('re, 'net, 'f) field_pattern \<Rightarrow> bool" where
  "matches_pattern_null NullPattern = True"
| "matches_pattern_null _ = False"

section \<open>Criteria and selections\<close>

definition check_field_criterion ::
  "('re, 'net, 'f) crates \<Rightarrow> normalized_event \<Rightarrow> ('re, 'net, 'f) field_criterion \<Rightarrow> bool" where
  "check_field_criterion X event c =
     (case get_field event (fc_field c) of
        None \<Rightarrow> list_ex matches_pattern_null (fc_patterns c)
      | Some value \<Rightarrow>
          (case fc_matcher c of
             MatchAll \<Rightarrow> list_all (\<lambda>p. matches_pattern X value p (Some event)) (fc_patterns c)
           | _ \<Rightarrow> list_ex (\<lambda>p. matches_pattern X value p (Some event)) (fc_patterns c)))"

definition check_field_criteria_group ::
  "('re, 'net, 'f) crates \<Rightarrow> normalized_event \<Rightarrow> ('re, 'net, 'f) field_criterion list \<Rightarrow> bool" where
  "check_field_criteria_group X event criteria = list_all (check_field_criterion X event) criteria"

definition check_keywords ::
  "('re, 'net, 'f) crates \<Rightarrow> normalized_event \<Rightarrow> ('re, 'net, 'f) field_pattern list \<Rightarrow> bool" where
  "check_keywords X event keywords =
     list_ex (\<lambda>p. list_ex (\<lambda>v. matches_pattern X v p None) (all_field_values event)) keywords"

definition check_selection ::
  "('re, 'net, 'f) crates \<Rightarrow> normalized_event \<Rightarrow> ('re, 'net, 'f) selection \<Rightarrow> bool" where
  "check_selection X event s =
     (if sl_keywords s \<noteq> [] \<and> check_keywords X event (sl_keywords s) then True
      else if sl_alternative_field_criteria s \<noteq> [] \<and>
        list_ex (check_field_criteria_group X event) (sl_alternative_field_criteria s) then True
      else if sl_field_criteria s \<noteq> [] \<and> check_field_criteria_group X event (sl_field_criteria s)
        then True
      else False)"

definition evaluate_selections ::
  "('re, 'net, 'f) crates \<Rightarrow> normalized_event \<Rightarrow> (string, ('re, 'net, 'f) selection) hmap
   \<Rightarrow> (string, bool) hmap" where
  "evaluate_selections X event selections =
     map (\<lambda>(selection_id, s). (selection_id, check_selection X event s)) selections"

text \<open>The legacy path, kept in the code and unused.\<close>

definition check_selection_patterns ::
  "('re, 'net, 'f) crates \<Rightarrow> normalized_event
   \<Rightarrow> (string, ('re, 'net, 'f) field_pattern list) hmap \<Rightarrow> bool" where
  "check_selection_patterns X event patterns =
     list_all (\<lambda>(field_name, field_patterns).
        case get_field event field_name of
          None \<Rightarrow> list_ex matches_pattern_null field_patterns
        | Some value \<Rightarrow> list_ex (\<lambda>p. matches_pattern X value p (Some event)) field_patterns)
       patterns"

section \<open>Case-insensitive search is search in lower case\<close>

lemma lower_take [simp]: "to_ascii_lowercase (take n s) = take n (to_ascii_lowercase s)"
  by (simp add: to_ascii_lowercase_def take_map)

lemma lower_drop [simp]: "to_ascii_lowercase (drop n s) = drop n (to_ascii_lowercase s)"
  by (simp add: to_ascii_lowercase_def drop_map)

lemma contains_ignore_case_sound:
  assumes "contains_ignore_case v s"
  shows "str_contains (to_ascii_lowercase v) (to_ascii_lowercase s)"
proof (cases "s = []")
  case False
  with assms obtain i where "take (length s) (drop i (to_ascii_lowercase v)) = to_ascii_lowercase s"
    by (auto simp: contains_ignore_case_def list_ex_iff eq_ignore_ascii_case_def slice_def
        simp del: upt_Suc split: if_splits)
  then have "to_ascii_lowercase v = take i (to_ascii_lowercase v) @ to_ascii_lowercase s @
      drop (length s) (drop i (to_ascii_lowercase v))"
    by (metis append_take_drop_id)
  then show ?thesis unfolding sublist_def by blast
qed (simp add: to_ascii_lowercase_def)

lemma contains_ignore_case_complete:
  assumes "valid_utf8 v" and "valid_utf8 s"
    and "str_contains (to_ascii_lowercase v) (to_ascii_lowercase s)"
  shows "contains_ignore_case v s"
proof (cases "s = []")
  case False
  from assms(3) obtain a b where eq: "to_ascii_lowercase v = a @ to_ascii_lowercase s @ b"
    by (auto simp: sublist_def)
  have "length v = length a + length s + length b" using arg_cong [OF eq, of length] by simp
  moreover have "eq_ignore_ascii_case (slice (length a) (length s) v) s"
    by (simp add: eq_ignore_ascii_case_def slice_def eq)
  ultimately show ?thesis
    using occurrence_boundaries [OF assms(1,2) False eq] False
    by (auto simp: contains_ignore_case_def list_ex_iff simp del: upt_Suc
        intro!: bexI [of _ "length a"])
qed (simp add: contains_ignore_case_def)

lemma starts_with_ignore_case_iff:
  assumes "valid_utf8 v" and "valid_utf8 s"
  shows "starts_with_ignore_case v s \<longleftrightarrow>
    starts_with (to_ascii_lowercase v) (to_ascii_lowercase s)"
proof
  assume "starts_with_ignore_case v s"
  then have "take (length s) (to_ascii_lowercase v) = to_ascii_lowercase s"
    by (simp add: starts_with_ignore_case_def eq_ignore_ascii_case_def split: if_splits)
  then show "starts_with (to_ascii_lowercase v) (to_ascii_lowercase s)"
    by (metis take_is_prefix)
next
  assume "starts_with (to_ascii_lowercase v) (to_ascii_lowercase s)"
  then obtain b where eq: "to_ascii_lowercase v = [] @ to_ascii_lowercase s @ b"
    by (auto simp: prefix_def)
  have "length s \<le> length v" using arg_cong [OF eq, of length] by simp
  moreover have "is_char_boundary v (length s)"
    using occurrence_boundaries(2) [OF assms _ eq] by (cases "s = []") (auto simp: is_char_boundary_def)
  ultimately show "starts_with_ignore_case v s"
    by (simp add: starts_with_ignore_case_def eq_ignore_ascii_case_def eq)
qed

lemma ends_with_ignore_case_iff:
  assumes "valid_utf8 v" and "valid_utf8 s"
  shows "ends_with_ignore_case v s \<longleftrightarrow> ends_with (to_ascii_lowercase v) (to_ascii_lowercase s)"
proof
  assume "ends_with_ignore_case v s"
  then have "drop (length v - length s) (to_ascii_lowercase v) = to_ascii_lowercase s"
    by (simp add: ends_with_ignore_case_def eq_ignore_ascii_case_def Let_def split: if_splits)
  then show "ends_with (to_ascii_lowercase v) (to_ascii_lowercase s)"
    by (metis suffix_drop)
next
  assume "ends_with (to_ascii_lowercase v) (to_ascii_lowercase s)"
  then obtain a where eq: "to_ascii_lowercase v = a @ to_ascii_lowercase s @ []"
    by (auto simp: suffix_def)
  have len: "length v = length a + length s" using arg_cong [OF eq, of length] by simp
  moreover have "is_char_boundary v (length a)"
    using occurrence_boundaries(1) [OF assms _ eq] len
    by (cases "s = []") (auto simp: is_char_boundary_def)
  ultimately show "ends_with_ignore_case v s"
    by (simp add: ends_with_ignore_case_def eq_ignore_ascii_case_def eq)
qed

section \<open>Properties\<close>

text \<open>
  The allocation-free case-insensitive matchers, which compare slices at character boundaries,
  decide exactly the substring, prefix and suffix relation of the
  lower-cased texts, for every well-formed UTF-8 value and pattern: skipping the positions inside
  a character never misses a match.
\<close>

lemma case_insensitive_matching:
  assumes "valid_utf8 value" and "valid_utf8 s"
  shows "(matches_pattern X value (Contains s False) ev \<longleftrightarrow>
      str_contains (to_ascii_lowercase value) (to_ascii_lowercase s)) \<and>
    (matches_pattern X value (StartsWith s False) ev \<longleftrightarrow>
      starts_with (to_ascii_lowercase value) (to_ascii_lowercase s)) \<and>
    (matches_pattern X value (EndsWith s False) ev \<longleftrightarrow>
      ends_with (to_ascii_lowercase value) (to_ascii_lowercase s))"
  using contains_ignore_case_sound contains_ignore_case_complete [OF assms]
    starts_with_ignore_case_iff [OF assms] ends_with_ignore_case_iff [OF assms]
  by (auto simp: matches_pattern_def)

definition no_crates :: "(unit, unit, unit) crates" where
  "no_crates = \<lparr>regex_new = \<lambda>_. None, regex_is_match = \<lambda>_ _. False, regex_as_str = \<lambda>_. [],
     regex_escape = \<lambda>s. s, net_parse = \<lambda>_. None, net_contains = \<lambda>_ _. False, net_show = \<lambda>_. [],
     f64_parse = \<lambda>_. None, f64_lt = \<lambda>_ _. False, f64_le = \<lambda>_ _. False, f64_show = \<lambda>_. [],
     base64_encode = \<lambda>s. s\<rparr>"


text \<open>
  A selection of keywords only matches exactly when some value that \<open>get_field\<close> answers under
  some name matches one of them, so a keyword sees no more and no less than the fields.
\<close>

lemma keywords_search_all_fields:
  assumes "plain_fields (ev_fields e)" and "sl_field_criteria s = []"
    and "sl_alternative_field_criteria s = []"
  shows "check_selection X e s \<longleftrightarrow>
    (\<exists>p \<in> set (sl_keywords s). \<exists>k v. get_field e k = Some v \<and> matches_pattern X v p None)"
proof -
  have "check_selection X e s \<longleftrightarrow>
      (\<exists>p \<in> set (sl_keywords s). \<exists>v \<in> set (all_field_values e). matches_pattern X v p None)"
    using assms(2,3) by (auto simp: check_selection_def check_keywords_def list_ex_iff)
  then show ?thesis using all_field_values_iff(1) [OF assms(1)] by blast
qed


end
