(* ===== verification/Log_Source.thy ===== *)
theory Log_Source
  imports Events
begin

text \<open>
  Sigma log sources: \<open>src/engine/logsource.rs\<close> and the routing of events of
  \<open>src/engine/alert.rs\<close>. A rule is filed under its normalized log source when the engine's
  platform collects it; an event is checked against the rules filed under the log sources that
  describe it. The two sides are written separately in the code; the properties
  show that they agree. Counters are \<open>usize\<close> and bounded by the number of rules, so they are
  \<open>nat\<close> here.
\<close>

section \<open>Log sources\<close>

record log_source =
  so_category :: "string option"
  so_product :: "string option"
  so_service :: "string option"

record log_source_key =
  lk_product :: "string option"
  lk_service :: "string option"
  lk_category :: "string option"

definition normalize_value :: "string option \<Rightarrow> string option" where
  "normalize_value v =
     (case v of None \<Rightarrow> None
      | Some s \<Rightarrow> let t = to_ascii_lowercase (str_trim s) in if t = [] then None else Some t)"

definition from_logsource :: "log_source \<Rightarrow> log_source_key" where
  "from_logsource l =
     \<lparr>lk_product = normalize_value (so_product l), lk_service = normalize_value (so_service l),
      lk_category = normalize_value (so_category l)\<rparr>"

definition from_parts :: "string option \<Rightarrow> string option \<Rightarrow> string option \<Rightarrow> log_source_key" where
  "from_parts product service category =
     \<lparr>lk_product = product, lk_service = service, lk_category = category\<rparr>"

definition key_is_empty :: "log_source_key \<Rightarrow> bool" where
  "key_is_empty k \<longleftrightarrow> lk_product k = None \<and> lk_service k = None \<and> lk_category k = None"

definition matches_tuple :: "log_source_key \<Rightarrow> log_source_key \<Rightarrow> bool" where
  "matches_tuple k t \<longleftrightarrow>
     (case lk_product k of Some v \<Rightarrow> lk_product t = Some v | None \<Rightarrow> True) \<and>
     (case lk_service k of Some v \<Rightarrow> lk_service t = Some v | None \<Rightarrow> True) \<and>
     (case lk_category k of Some v \<Rightarrow> lk_category t = Some v | None \<Rightarrow> True)"

definition key_display :: "log_source_key \<Rightarrow> string" where
  "key_display k =
     (let parts = (case lk_product k of None \<Rightarrow> [] | Some v \<Rightarrow> [''product: '' @ v]) @
          (case lk_service k of None \<Rightarrow> [] | Some v \<Rightarrow> [''service: '' @ v]) @
          (case lk_category k of None \<Rightarrow> [] | Some v \<Rightarrow> [''category: '' @ v])
      in if parts = [] then ''<empty logsource>'' else join '', '' parts)"

section \<open>What a platform collects\<close>

datatype rule_load_decision = Load bool | ProductMismatch | Deferred | Unknown

datatype log_source_status = StatusSupported | StatusProductMismatch | StatusDeferred | StatusUnknown

record log_source_classification =
  lc_status :: log_source_status
  lc_collector_active :: "bool option"

definition platform_product :: "platform \<Rightarrow> string" where
  "platform_product p = (case p of Windows \<Rightarrow> ''windows'' | Linux \<Rightarrow> ''linux'' | MacOS \<Rightarrow> ''macos'')"

definition is_supported_category :: "string \<Rightarrow> bool" where
  "is_supported_category c \<longleftrightarrow> c \<in> set
     [''process_creation'', ''network_connection'', ''file_event'', ''file_create'', ''file_delete'',
      ''file_change'', ''file_rename'', ''registry_event'', ''registry_add'', ''registry_set'',
      ''registry_delete'', ''dns_query'', ''dns'', ''image_load'', ''ps_script'', ''wmi_event'',
      ''service_creation'', ''task_creation'']"

definition is_recognized_windows_service :: "string \<Rightarrow> bool" where
  "is_recognized_windows_service s \<longleftrightarrow> s \<in> set
     [''sysmon'', ''security'', ''system'', ''taskscheduler'', ''task scheduler'', ''powershell'',
      ''powershell-classic'', ''microsoft-windows-powershell'', ''dns-client'', ''dns'', ''wmi'']"

definition is_deferred_linux_service :: "string \<Rightarrow> bool" where
  "is_deferred_linux_service s \<longleftrightarrow> s \<in> set
     [''auditd'', ''auth'', ''sudo'', ''sshd'', ''cron'', ''syslog'', ''clamav'', ''vsftpd'',
      ''guacamole'', ''builtin'']"

definition active_logsource_tuples :: "platform \<Rightarrow> log_source_key list" where
  "active_logsource_tuples p =
     (case p of
        Linux \<Rightarrow>
          [from_parts (Some ''linux'') (Some ''sysmon'') (Some ''process_creation''),
           from_parts (Some ''linux'') (Some ''sysmon'') (Some ''network_connection''),
           from_parts (Some ''linux'') (Some ''sysmon'') (Some ''file_event''),
           from_parts (Some ''linux'') (Some ''sysmon'') (Some ''file_create''),
           from_parts (Some ''linux'') (Some ''sysmon'') (Some ''file_delete''),
           from_parts (Some ''linux'') (Some ''sysmon'') (Some ''file_change''),
           from_parts (Some ''linux'') (Some ''sysmon'') (Some ''file_rename''),
           from_parts (Some ''linux'') (Some ''sysmon'') (Some ''dns_query'')]
      | MacOS \<Rightarrow>
          [from_parts (Some ''macos'') (Some ''sysmon'') (Some ''process_creation''),
           from_parts (Some ''macos'') (Some ''sysmon'') (Some ''network_connection''),
           from_parts (Some ''macos'') (Some ''sysmon'') (Some ''file_event''),
           from_parts (Some ''macos'') (Some ''sysmon'') (Some ''file_create''),
           from_parts (Some ''macos'') (Some ''sysmon'') (Some ''file_delete''),
           from_parts (Some ''macos'') (Some ''sysmon'') (Some ''file_change''),
           from_parts (Some ''macos'') (Some ''sysmon'') (Some ''file_rename''),
           from_parts (Some ''macos'') (Some ''sysmon'') (Some ''dns_query'')]
      | Windows \<Rightarrow>
          [from_parts (Some ''windows'') (Some ''sysmon'') (Some ''process_creation''),
           from_parts (Some ''windows'') (Some ''sysmon'') (Some ''network_connection''),
           from_parts (Some ''windows'') (Some ''sysmon'') (Some ''file_event''),
           from_parts (Some ''windows'') (Some ''sysmon'') (Some ''file_create''),
           from_parts (Some ''windows'') (Some ''sysmon'') (Some ''file_delete''),
           from_parts (Some ''windows'') (Some ''sysmon'') (Some ''file_change''),
           from_parts (Some ''windows'') (Some ''sysmon'') (Some ''file_rename''),
           from_parts (Some ''windows'') (Some ''sysmon'') (Some ''registry_event''),
           from_parts (Some ''windows'') (Some ''sysmon'') (Some ''registry_add''),
           from_parts (Some ''windows'') (Some ''sysmon'') (Some ''registry_set''),
           from_parts (Some ''windows'') (Some ''sysmon'') (Some ''registry_delete''),
           from_parts (Some ''windows'') (Some ''sysmon'') (Some ''image_load''),
           from_parts (Some ''windows'') (Some ''dns-client'') (Some ''dns_query''),
           from_parts (Some ''windows'') (Some ''dns'') (Some ''dns_query''),
           from_parts (Some ''windows'') (Some ''powershell'') (Some ''ps_script''),
           from_parts (Some ''windows'') (Some ''powershell-classic'') (Some ''ps_script''),
           from_parts (Some ''windows'') (Some ''microsoft-windows-powershell'') (Some ''ps_script''),
           from_parts (Some ''windows'') (Some ''wmi'') (Some ''wmi_event''),
           from_parts (Some ''windows'') (Some ''system'') (Some ''service_creation''),
           from_parts (Some ''windows'') (Some ''taskscheduler'') (Some ''task_creation''),
           from_parts (Some ''windows'') (Some ''task scheduler'') (Some ''task_creation'')]) @
     [from_parts None (Some ''connection'') (Some ''network''),
      from_parts None (Some ''dns'') (Some ''network''),
      from_parts None None (Some ''dns'')]"

definition matches_active_logsource :: "platform \<Rightarrow> log_source_key \<Rightarrow> bool" where
  "matches_active_logsource p k \<longleftrightarrow> list_ex (matches_tuple k) (active_logsource_tuples p)"

definition is_known_but_inactive_logsource :: "platform \<Rightarrow> log_source_key \<Rightarrow> bool" where
  "is_known_but_inactive_logsource p k \<longleftrightarrow>
     (case p of
        Windows \<Rightarrow>
          (case lk_service k of Some s \<Rightarrow> is_recognized_windows_service s | None \<Rightarrow> True) \<and>
          (case lk_category k of Some c \<Rightarrow> c = ''network'' \<or> is_supported_category c
           | None \<Rightarrow> True) \<and>
          (case lk_product k of Some v \<Rightarrow> v = ''windows'' | None \<Rightarrow> True)
      | _ \<Rightarrow>
          lk_service k = Some ''dns'' \<and>
          (lk_category k = None \<or> lk_category k = Some ''network'') \<and>
          (case lk_product k of Some v \<Rightarrow> v = platform_product p | None \<Rightarrow> True))"

definition is_deferred_linux_logsource :: "platform \<Rightarrow> log_source_key \<Rightarrow> bool" where
  "is_deferred_linux_logsource p k \<longleftrightarrow>
     (if p \<noteq> Linux \<or> lk_product k \<noteq> Some ''linux'' then False
      else if lk_service k = None \<and> lk_category k = None then True
      else case lk_service k of Some s \<Rightarrow> is_deferred_linux_service s | None \<Rightarrow> False)"

definition rule_load_decision :: "platform \<Rightarrow> log_source_key \<Rightarrow> rule_load_decision" where
  "rule_load_decision p k =
     (if key_is_empty k then Unknown
      else if (case lk_product k of Some v \<Rightarrow> v \<noteq> platform_product p | None \<Rightarrow> False)
        then ProductMismatch
      else if is_deferred_linux_logsource p k then Deferred
      else if matches_active_logsource p k then Load True
      else if is_known_but_inactive_logsource p k then Load False
      else Unknown)"

definition classify_logsource_key :: "platform \<Rightarrow> log_source_key \<Rightarrow> log_source_classification" where
  "classify_logsource_key p k =
     (let decision = rule_load_decision p k
      in \<lparr>lc_status = (case decision of Load _ \<Rightarrow> StatusSupported
            | ProductMismatch \<Rightarrow> StatusProductMismatch | Deferred \<Rightarrow> StatusDeferred
            | Unknown \<Rightarrow> StatusUnknown),
          lc_collector_active = (case decision of Load b \<Rightarrow> Some b | _ \<Rightarrow> None)\<rparr>)"

definition classify_logsource :: "platform \<Rightarrow> log_source \<Rightarrow> log_source_classification" where
  "classify_logsource p l = classify_logsource_key p (from_logsource l)"

section \<open>Skip counters\<close>

record skip_counters =
  sk_product :: nat
  sk_deferred :: nat
  sk_unknown :: nat
  sk_inactive :: nat
  sk_deferred_counts :: "(log_source_key, nat) hmap"
  sk_unknown_counts :: "(log_source_key, nat) hmap"

definition no_skips :: skip_counters where
  "no_skips = \<lparr>sk_product = 0, sk_deferred = 0, sk_unknown = 0, sk_inactive = 0,
     sk_deferred_counts = [], sk_unknown_counts = []\<rparr>"

text \<open>\<open>*map.entry(key).or_default() += 1\<close>\<close>

definition count_key :: "log_source_key \<Rightarrow> (log_source_key, nat) hmap \<Rightarrow> (log_source_key, nat) hmap" where
  "count_key k m = hm_insert k ((case hm_get m k of None \<Rightarrow> 0 | Some n \<Rightarrow> n) + 1) m"

definition record_skip ::
  "rule_load_decision \<Rightarrow> log_source_key \<Rightarrow> skip_counters \<Rightarrow> skip_counters" where
  "record_skip decision k s =
     (case decision of
        ProductMismatch \<Rightarrow> s\<lparr>sk_product := sk_product s + 1\<rparr>
      | Deferred \<Rightarrow> s\<lparr>sk_deferred := sk_deferred s + 1,
                     sk_deferred_counts := count_key k (sk_deferred_counts s)\<rparr>
      | Unknown \<Rightarrow> s\<lparr>sk_unknown := sk_unknown s + 1,
                    sk_unknown_counts := count_key k (sk_unknown_counts s)\<rparr>
      | Load active \<Rightarrow> if active then s else s\<lparr>sk_inactive := sk_inactive s + 1\<rparr>)"

section \<open>Routing of events\<close>

definition sigma_file_categories_for_event :: "normalized_event \<Rightarrow> string list" where
  "sigma_file_categories_for_event e =
     (let i = ev_event_id e; opcode = ev_opcode e in
      if i = 11 then [''file_event'', ''file_create'']
      else if i = 23 then [''file_delete'']
      else if i = 65 then [''file_event'', ''file_change'']
      else if i = 71 then [''file_event'', ''file_rename'']
      else if opcode = 64 then [''file_event'', ''file_create'']
      else if opcode = 65 \<or> opcode = 80 then [''file_event'', ''file_change'']
      else if opcode = 70 \<or> opcode = 72 then [''file_delete'']
      else if opcode = 71 then [''file_event'', ''file_rename'']
      else [''file_event''])"

definition sigma_registry_categories_for_event :: "normalized_event \<Rightarrow> string list" where
  "sigma_registry_categories_for_event e =
     [''registry_event''] @
     (let opcode = ev_opcode e in
      if opcode = 36 then [''registry_add''] else if opcode = 39 then [''registry_set'']
      else if opcode = 38 \<or> opcode = 41 then [''registry_delete''] else [])"

definition concrete_logsource_aliases :: "normalized_event \<Rightarrow> log_source_key list" where
  "concrete_logsource_aliases e =
     (let product = Some (platform_product (ev_platform e)) in
      case ev_category e of
        CatProcess \<Rightarrow> [from_parts product (Some ''sysmon'') (Some ''process_creation'')]
      | CatNetwork \<Rightarrow>
          [from_parts product (Some ''sysmon'') (Some ''network_connection''),
           from_parts None (Some ''connection'') (Some ''network'')]
      | CatFile \<Rightarrow>
          map (\<lambda>c. from_parts product (Some ''sysmon'') (Some c)) (sigma_file_categories_for_event e)
      | CatRegistry \<Rightarrow>
          map (\<lambda>c. from_parts product (Some ''sysmon'') (Some c))
            (sigma_registry_categories_for_event e)
      | CatDns \<Rightarrow>
          (case ev_platform e of
             Windows \<Rightarrow>
               [from_parts (Some ''windows'') (Some ''dns-client'') (Some ''dns_query''),
                from_parts (Some ''windows'') (Some ''dns'') (Some ''dns_query'')]
           | Linux \<Rightarrow> [from_parts (Some ''linux'') (Some ''sysmon'') (Some ''dns_query'')]
           | MacOS \<Rightarrow> [from_parts (Some ''macos'') (Some ''sysmon'') (Some ''dns_query'')]) @
          [from_parts None None (Some ''dns''), from_parts None (Some ''dns'') (Some ''network'')]
      | CatImageLoad \<Rightarrow> [from_parts product (Some ''sysmon'') (Some ''image_load'')]
      | CatScripting \<Rightarrow>
          [from_parts (Some ''windows'') (Some ''powershell'') (Some ''ps_script''),
           from_parts (Some ''windows'') (Some ''powershell-classic'') (Some ''ps_script''),
           from_parts (Some ''windows'') (Some ''microsoft-windows-powershell'') (Some ''ps_script'')]
      | CatWmi \<Rightarrow> [from_parts (Some ''windows'') (Some ''wmi'') (Some ''wmi_event'')]
      | CatService \<Rightarrow> [from_parts (Some ''windows'') (Some ''system'') (Some ''service_creation'')]
      | CatTask \<Rightarrow>
          [from_parts (Some ''windows'') (Some ''taskscheduler'') (Some ''task_creation''),
           from_parts (Some ''windows'') (Some ''task scheduler'') (Some ''task_creation'')])"

text \<open>The seven non-empty masks, most specific first; bit 0 is the product, bit 2 the category.\<close>

definition logsource_subsets :: "log_source_key \<Rightarrow> log_source_key list" where
  "logsource_subsets k =
     map (\<lambda>mask :: nat. from_parts
            (if odd mask then lk_product k else None)
            (if odd (mask div 2) then lk_service k else None)
            (if odd (mask div 4) then lk_category k else None))
       [7, 6, 5, 3, 4, 2, 1]"

text \<open>\<open>seen.insert(candidate)\<close> guards \<open>ordered.push(candidate)\<close>.\<close>

fun push_unseen :: "'a list \<Rightarrow> 'a list \<Rightarrow> 'a list" where
  "push_unseen ordered [] = ordered"
| "push_unseen ordered (x # xs) =
     push_unseen (if x \<in> set ordered then ordered else ordered @ [x]) xs"

definition sigma_logsources_for_event :: "normalized_event \<Rightarrow> log_source_key list" where
  "sigma_logsources_for_event e =
     push_unseen [] (concat (map logsource_subsets (concrete_logsource_aliases e)))"

section \<open>Lemmas\<close>

lemma push_unseen_set [simp]: "set (push_unseen ys xs) = set ys \<union> set xs"
  by (induction ys xs rule: push_unseen.induct) auto

lemma push_unseen_distinct: "distinct ys \<Longrightarrow> distinct (push_unseen ys xs)"
  by (induction ys xs rule: push_unseen.induct) auto

lemma subsets_iff:
  "\<not> key_is_empty k \<Longrightarrow> k \<in> set (logsource_subsets t) \<longleftrightarrow> matches_tuple k t"
  by (cases k; cases t)
    (auto simp: logsource_subsets_def matches_tuple_def from_parts_def key_is_empty_def
      split: option.splits)

lemma routes_distinct: "distinct (sigma_logsources_for_event e)"
  by (simp add: sigma_logsources_for_event_def push_unseen_distinct)

lemma routes_iff:
  "\<not> key_is_empty k \<Longrightarrow> k \<in> set (sigma_logsources_for_event e) \<longleftrightarrow>
     (\<exists>t \<in> set (concrete_logsource_aliases e). matches_tuple k t)"
  by (simp add: sigma_logsources_for_event_def subsets_iff)

text \<open>The categories each platform's collectors report.\<close>

definition collects :: "platform \<Rightarrow> event_category \<Rightarrow> bool" where
  "collects p c \<longleftrightarrow>
     (case p of Windows \<Rightarrow> True | _ \<Rightarrow> c \<in> set [CatProcess, CatNetwork, CatFile, CatDns])"

lemma aliases_collected:
  assumes "collects (ev_platform e) (ev_category e)"
  shows "set (concrete_logsource_aliases e) \<subseteq> set (active_logsource_tuples (ev_platform e))"
  using assms
  by (cases "ev_platform e"; cases "ev_category e")
    (auto simp: collects_def concrete_logsource_aliases_def active_logsource_tuples_def
      platform_product_def sigma_file_categories_for_event_def
      sigma_registry_categories_for_event_def Let_def split: if_splits)

definition probe :: "platform \<Rightarrow> event_category \<Rightarrow> u16 \<Rightarrow> u8 \<Rightarrow> normalized_event" where
  "probe p c event_id opcode =
     \<lparr>ev_timestamp = [], ev_platform = p, ev_provider = [], ev_category = c, ev_event_id = event_id,
      ev_event_id_string = [], ev_opcode = opcode, ev_fields = Generic [], ev_process_context = None\<rparr>"

definition probes :: "platform \<Rightarrow> normalized_event list" where
  "probes p = filter (\<lambda>e. collects p (ev_category e))
     (map (\<lambda>(c, event_id, opcode). probe p c event_id opcode)
       [(CatProcess, 1, 0), (CatNetwork, 3, 0), (CatFile, 11, 0), (CatFile, 23, 0), (CatFile, 65, 0),
        (CatFile, 71, 0), (CatRegistry, 12, 36), (CatRegistry, 13, 39), (CatRegistry, 12, 38),
        (CatDns, 22, 0), (CatImageLoad, 7, 0), (CatScripting, 1, 0), (CatWmi, 1, 0),
        (CatService, 7045, 0), (CatTask, 106, 0)])"

lemma tuples_probed:
  "list_all (\<lambda>t. list_ex (\<lambda>e. t \<in> set (concrete_logsource_aliases e)) (probes p))
     (active_logsource_tuples p)"
  by (cases p; simp only:; code_simp)

lemma probe_collected: "e \<in> set (probes p) \<Longrightarrow> ev_platform e = p \<and> collects p (ev_category e)"
  unfolding probes_def set_filter set_map by (auto simp: probe_def)

lemma active_iff_routed:
  assumes "\<not> key_is_empty k"
  shows "matches_active_logsource p k \<longleftrightarrow>
    (\<exists>e. ev_platform e = p \<and> collects p (ev_category e) \<and> k \<in> set (sigma_logsources_for_event e))"
proof
  assume "matches_active_logsource p k"
  then obtain t where t: "t \<in> set (active_logsource_tuples p)" "matches_tuple k t"
    by (auto simp: matches_active_logsource_def list_ex_iff)
  then obtain e where "e \<in> set (probes p)" "t \<in> set (concrete_logsource_aliases e)"
    using tuples_probed [of p] by (auto simp: list_all_iff list_ex_iff)
  with t probe_collected show "\<exists>e. ev_platform e = p \<and> collects p (ev_category e) \<and>
      k \<in> set (sigma_logsources_for_event e)"
    by (auto simp: routes_iff [OF assms])
next
  assume "\<exists>e. ev_platform e = p \<and> collects p (ev_category e) \<and>
      k \<in> set (sigma_logsources_for_event e)"
  then show "matches_active_logsource p k"
    using aliases_collected
    by (auto simp: routes_iff [OF assms] matches_active_logsource_def list_ex_iff)
qed

lemma active_product:
  assumes "matches_active_logsource p k" and "lk_product k = Some v"
  shows "v = platform_product p"
proof -
  from assms obtain t where "t \<in> set (active_logsource_tuples p)" "lk_product t = Some v"
    by (auto simp: matches_active_logsource_def list_ex_iff matches_tuple_def)
  then show ?thesis
    by (cases p) (auto simp: active_logsource_tuples_def from_parts_def platform_product_def)
qed

section \<open>Properties\<close>


definition load_all :: "platform \<Rightarrow> log_source_key list \<Rightarrow> skip_counters" where
  "load_all p ks = fold (\<lambda>k. record_skip (rule_load_decision p k) k) ks no_skips"

definition tally :: "platform \<Rightarrow> rule_load_decision \<Rightarrow> log_source_key list \<Rightarrow> nat" where
  "tally p d ks = length (filter (\<lambda>k. rule_load_decision p k = d) ks)"

definition some_positive :: "nat \<Rightarrow> nat option" where
  "some_positive n = (if n = 0 then None else Some n)"

lemma hm_get_count_key:
  "hm_get m k = some_positive n \<Longrightarrow>
   hm_get (count_key k' m) k = some_positive (if k' = k then n + 1 else n)"
  by (auto simp: count_key_def hm.get_put some_positive_def split: option.splits if_splits)

text \<open>
  The skip report is exact: after any sequence of rules, every rule is counted once under its
  decision, and the tables of deferred and unknown log sources give for each key the number of
  rules that were skipped for it.
\<close>

lemma skip_report_exact:
  "sk_product (load_all p ks) = tally p ProductMismatch ks \<and>
   sk_deferred (load_all p ks) = tally p Deferred ks \<and>
   sk_unknown (load_all p ks) = tally p Unknown ks \<and>
   sk_inactive (load_all p ks) = tally p (Load False) ks \<and>
   hm_get (sk_deferred_counts (load_all p ks)) k =
     some_positive (tally p Deferred (filter (\<lambda>k'. k' = k) ks)) \<and>
   hm_get (sk_unknown_counts (load_all p ks)) k =
     some_positive (tally p Unknown (filter (\<lambda>k'. k' = k) ks))"
proof (induction ks rule: rev_induct)
  case Nil
  then show ?case by (simp add: load_all_def no_skips_def tally_def some_positive_def)
next
  case (snoc k' ks)
  have "load_all p (ks @ [k']) = record_skip (rule_load_decision p k') k' (load_all p ks)"
    by (simp add: load_all_def)
  with snoc show ?case
    by (cases "rule_load_decision p k'")
      (auto simp: record_skip_def tally_def hm_get_count_key)
qed

end
