(* ===== verification/Sigma_Rules.thy ===== *)
theory Sigma_Rules
  imports Matcher Log_Source
begin

text \<open>
  Sigma rules and their compilation: \<open>src/engine/rule.rs\<close>, the parsing half of
  \<open>src/engine/matcher.rs\<close>, the transpiler of \<open>src/engine/condition.rs\<close> and
  \<open>compile_rule\<close> of \<open>src/engine/loader.rs\<close>. YAML documents come from \<open>serde_yaml\<close>; its numbers
  are a type parameter. The expression evaluator and the two fixed regular expressions
  of the transpiler are the record \<open>rule_crates\<close>.
\<close>

section \<open>Rules\<close>

datatype 'n yaml =
  YNull
| YBool bool
| YNumber 'n
| YString string
| YSequence "'n yaml list"
| YMapping "('n yaml \<times> 'n yaml) list"
| YTagged string "'n yaml"

text \<open>The accessors of \<open>serde_yaml::Value\<close> look through tags.\<close>

fun untag :: "'n yaml \<Rightarrow> 'n yaml" where
  "untag (YTagged t v) = untag v"
| "untag v = v"

definition as_str :: "'n yaml \<Rightarrow> string option" where
  "as_str v = (case untag v of YString s \<Rightarrow> Some s | _ \<Rightarrow> None)"

definition as_bool :: "'n yaml \<Rightarrow> bool option" where
  "as_bool v = (case untag v of YBool b \<Rightarrow> Some b | _ \<Rightarrow> None)"

definition as_sequence :: "'n yaml \<Rightarrow> 'n yaml list option" where
  "as_sequence v = (case untag v of YSequence xs \<Rightarrow> Some xs | _ \<Rightarrow> None)"

definition as_mapping :: "'n yaml \<Rightarrow> ('n yaml \<times> 'n yaml) list option" where
  "as_mapping v = (case untag v of YMapping kvs \<Rightarrow> Some kvs | _ \<Rightarrow> None)"

record 'n detection =
  dt_condition :: "string option"
  dt_selections :: "(string, 'n yaml) hmap"

record 'n sigma_rule =
  sr_title :: string
  sr_id :: "string option"
  sr_description :: "string option"
  sr_status :: "string option"
  sr_author :: "string option"
  sr_references :: "string list"
  sr_logsource :: log_source
  sr_detection :: "'n detection"
  sr_level :: "string option"
  sr_tags :: "string list"

record ('re, 'net, 'f, 'n, 'tree) compiled_rule =
  cr_rule :: "'n sigma_rule"
  cr_patterns :: "(string, ('re, 'net, 'f) field_pattern list) hmap"
  cr_selections :: "(string, ('re, 'net, 'f) selection) hmap"
  cr_logsource :: log_source_key
  cr_transpiled_condition :: "string option"
  cr_condition_tree :: "'tree option"

record ('f, 'n, 'tree) rule_crates =
  num_as_f64 :: "'n \<Rightarrow> 'f option"
  num_show :: "'n \<Rightarrow> string"
  aggregation_captures :: "string \<Rightarrow> (string \<times> string \<times> string) list"
  replace_word :: "string \<Rightarrow> string \<Rightarrow> string \<Rightarrow> string"
  build_operator_tree :: "string \<Rightarrow> 'tree option"
  eval_boolean :: "'tree \<Rightarrow> (string, bool) hmap \<Rightarrow> bool option"

datatype rule_error = UnsupportedModifier string string | BadCondition string string

section \<open>Value transformations\<close>

definition to_wide :: "string \<Rightarrow> string" where
  "to_wide s = concat (map (\<lambda>c. c @ [CHR 0x00]) (chars s))"

definition to_utf16be :: "string \<Rightarrow> string" where
  "to_utf16be s = concat (map (\<lambda>c. CHR 0x00 # c) (chars s))"

fun wildcard_chars :: "(string \<Rightarrow> string) \<Rightarrow> string list \<Rightarrow> string" where
  "wildcard_chars escape [] = []"
| "wildcard_chars escape [c] =
     (if c = [backslash] then [backslash, backslash]
      else if c = ''*'' then ''.*'' else if c = ''?'' then ''.'' else escape c)"
| "wildcard_chars escape (c # d # cs) =
     (if c = [backslash] then
        if d = ''*'' \<or> d = ''?'' then escape d @ wildcard_chars escape cs
        else if d = [backslash] then [backslash, backslash] @ wildcard_chars escape cs
        else [backslash, backslash] @ wildcard_chars escape (d # cs)
      else if c = ''*'' then ''.*'' @ wildcard_chars escape (d # cs)
      else if c = ''?'' then ''.'' @ wildcard_chars escape (d # cs)
      else escape c @ wildcard_chars escape (d # cs))"

definition convert_sigma_wildcard_to_regex :: "('re, 'net, 'f) crates \<Rightarrow> string \<Rightarrow> string" where
  "convert_sigma_wildcard_to_regex X pattern = wildcard_chars (regex_escape X) (chars pattern)"

text \<open>The class of dash, slash, en dash, em dash and horizontal bar, in UTF-8.\<close>

definition dash_set :: string where
  "dash_set = ''[-/'' @
     map (char_of :: nat \<Rightarrow> char) [226, 128, 147, 226, 128, 148, 226, 128, 149] @ '']''"

definition apply_windash :: "('re, 'net, 'f) crates \<Rightarrow> string \<Rightarrow> string" where
  "apply_windash X pattern =
     str_replace ''/'' dash_set
       (str_replace [backslash, CHR ''-''] dash_set (regex_escape X pattern))"

definition to_base64_permutations :: "('re, 'net, 'f) crates \<Rightarrow> string \<Rightarrow> string list" where
  "to_base64_permutations X s =
     (let encoded0 = base64_encode X s;
          encoded1 = base64_encode X (CHR 0x00 # s);
          encoded2 = base64_encode X (CHR 0x00 # CHR 0x00 # s)
      in [encoded0] @ (if 4 < length encoded1 then [drop 4 encoded1] else []) @
         (if 4 < length encoded2 then [drop 4 encoded2] else []))"

section \<open>Modifiers\<close>

definition parse_field_key :: "string \<Rightarrow> string \<times> string list" where
  "parse_field_key key =
     (let parts = split_by (\<lambda>c. c = CHR ''|'') key
      in if length parts = 1 then (hd parts, []) else (hd parts, tl parts))"

fun first_matcher :: "string list \<Rightarrow> pattern_matcher" where
  "first_matcher [] = MatchDefault"
| "first_matcher (m # ms) =
     (if m = ''contains'' then MatchContains
      else if m = ''startswith'' then MatchStartsWith
      else if m = ''endswith'' then MatchEndsWith else first_matcher ms)"

definition get_pattern_matcher :: "string list \<Rightarrow> pattern_matcher" where
  "get_pattern_matcher modifiers =
     (if ''all'' \<in> set modifiers then MatchAll
      else if ''base64offset'' \<in> set modifiers then MatchBase64Offset
      else first_matcher modifiers)"

definition supported_modifiers :: "string list" where
  "supported_modifiers =
     [''contains'', ''startswith'', ''endswith'', ''all'', ''base64offset'', ''cased'', ''re'',
      ''windash'', ''fieldref'', ''exists'', ''cidr'', ''base64'', ''wide'', ''utf16'', ''utf16le'',
      ''utf16be'', ''lt'', ''gt'', ''lte'', ''le'', ''gte'', ''ge'', ''i'', ''m'', ''s'']"

fun validate_modifiers :: "string \<Rightarrow> string list \<Rightarrow> rule_error + unit" where
  "validate_modifiers field_name [] = Inr ()"
| "validate_modifiers field_name (m # ms) =
     (if m \<notin> set supported_modifiers then Inl (UnsupportedModifier m field_name)
      else validate_modifiers field_name ms)"

section \<open>Patterns of a value\<close>

definition parse_string_pattern_with_modifiers ::
  "('re, 'net, 'f) crates \<Rightarrow> string \<Rightarrow> string list \<Rightarrow> bool \<Rightarrow> ('re, 'net, 'f) field_pattern" where
  "parse_string_pattern_with_modifiers X s modifiers is_cased =
     (if str_contains s ''*'' \<or> str_contains s ''?'' then
        let pattern = convert_sigma_wildcard_to_regex X s;
            pre = (if is_cased then [] else ''(?i)'')
        in case regex_new X (pre @ ''^'' @ pattern @ ''$'') of
             Some re \<Rightarrow> Regex re
           | None \<Rightarrow> Contains s is_cased
      else if ''contains'' \<in> set modifiers then Contains s is_cased
      else if ''startswith'' \<in> set modifiers then StartsWith s is_cased
      else if ''endswith'' \<in> set modifiers then EndsWith s is_cased
      else Exact s is_cased)"

definition parse_string_pattern ::
  "('re, 'net, 'f) crates \<Rightarrow> string \<Rightarrow> ('re, 'net, 'f) field_pattern" where
  "parse_string_pattern X s = parse_string_pattern_with_modifiers X s [] False"

definition parse_numeric_op :: "string list \<Rightarrow> numeric_op option" where
  "parse_numeric_op modifiers =
     (if ''lt'' \<in> set modifiers then Some Lt
      else if ''gt'' \<in> set modifiers then Some Gt
      else if ''lte'' \<in> set modifiers \<or> ''le'' \<in> set modifiers then Some Le
      else if ''gte'' \<in> set modifiers \<or> ''ge'' \<in> set modifiers then Some Ge
      else None)"

text \<open>The \<open>String\<close> arm of \<open>append_value_patterns\<close>.\<close>

definition string_patterns ::
  "('re, 'net, 'f) crates \<Rightarrow> string list \<Rightarrow> string \<Rightarrow> ('re, 'net, 'f) field_pattern list" where
  "string_patterns X modifiers s =
     (let is_cased = ''cased'' \<in> set modifiers in
      if s = [] then [NotNull]
      else if ''cidr'' \<in> set modifiers then
        (case net_parse X s of Some network \<Rightarrow> [Cidr network] | None \<Rightarrow> [])
      else case parse_numeric_op modifiers of
        Some op \<Rightarrow> (case f64_parse X s of Some num \<Rightarrow> [Numeric num op] | None \<Rightarrow> [])
      | None \<Rightarrow>
          if ''re'' \<in> set modifiers then
            let flags = (if ''i'' \<in> set modifiers then ''(?i)'' else []) @
                  (if ''m'' \<in> set modifiers then ''(?m)'' else []) @
                  (if ''s'' \<in> set modifiers then ''(?s)'' else [])
            in (case regex_new X (flags @ s) of Some re \<Rightarrow> [Regex re] | None \<Rightarrow> [])
          else if ''windash'' \<in> set modifiers then
            let windash_pattern = apply_windash X s;
                body = (if ''contains'' \<in> set modifiers then windash_pattern
                  else if ''startswith'' \<in> set modifiers then ''^'' @ windash_pattern
                  else if ''endswith'' \<in> set modifiers then windash_pattern @ ''$''
                  else ''^'' @ windash_pattern @ ''$'');
                re_str = (if is_cased then body else ''(?i)'' @ body)
            in (case regex_new X re_str of Some re \<Rightarrow> [Regex re] | None \<Rightarrow> [])
          else
            let values0 = [s];
                values1 = (if ''wide'' \<in> set modifiers \<or> ''utf16le'' \<in> set modifiers \<or>
                    ''utf16'' \<in> set modifiers then map to_wide values0 else values0);
                values2 = (if ''utf16be'' \<in> set modifiers then map to_utf16be values1 else values1);
                values3 = (if ''base64'' \<in> set modifiers then map (base64_encode X) values2
                  else values2);
                values4 = (if ''base64offset'' \<in> set modifiers
                  then concat (map (to_base64_permutations X) values3) else values3)
            in map (\<lambda>v. parse_string_pattern_with_modifiers X v modifiers is_cased) values4)"

definition append_value_patterns ::
  "('re, 'net, 'f) crates \<Rightarrow> ('f, 'n, 'tree) rule_crates \<Rightarrow> string list \<Rightarrow> 'n yaml
   \<Rightarrow> ('re, 'net, 'f) field_pattern list" where
  "append_value_patterns X Y modifiers value =
     (let is_cased = ''cased'' \<in> set modifiers in
      case value of
        YNull \<Rightarrow> [NullPattern]
      | YString s \<Rightarrow> string_patterns X modifiers s
      | YNumber n \<Rightarrow>
          (case num_as_f64 Y n of
             Some f \<Rightarrow> (case parse_numeric_op modifiers of
                 Some op \<Rightarrow> [Numeric f op]
               | None \<Rightarrow> [Exact (num_show Y n) is_cased])
           | None \<Rightarrow> [])
      | YSequence _ \<Rightarrow> []
      | _ \<Rightarrow> (case as_str value of
            Some s \<Rightarrow> [parse_string_pattern_with_modifiers X s modifiers is_cased]
          | None \<Rightarrow> []))"

definition parse_field_value ::
  "('re, 'net, 'f) crates \<Rightarrow> ('f, 'n, 'tree) rule_crates \<Rightarrow> 'n yaml \<Rightarrow> string list
   \<Rightarrow> ('re, 'net, 'f) field_pattern list" where
  "parse_field_value X Y value modifiers =
     (let exists' =
        (if ''exists'' \<in> set modifiers then
           (case as_bool value of
              Some b \<Rightarrow> Some (if b then NotNull else NullPattern)
            | None \<Rightarrow> (case as_str value of
                  Some s \<Rightarrow> if eq_ignore_ascii_case s ''true'' then Some NotNull
                            else if eq_ignore_ascii_case s ''false'' then Some NullPattern else None
                | None \<Rightarrow> None))
         else None)
      in case exists' of
           Some p \<Rightarrow> [p]
         | None \<Rightarrow>
             (case (if ''fieldref'' \<in> set modifiers then as_str value else None) of
                Some s \<Rightarrow> [FieldRef s]
              | None \<Rightarrow>
                  (case value of
                     YSequence items \<Rightarrow> concat (map (append_value_patterns X Y modifiers) items)
                   | _ \<Rightarrow> append_value_patterns X Y modifiers value)))"

section \<open>Compilation\<close>

definition extend_patterns :: "string \<Rightarrow> 'a list \<Rightarrow> (string, 'a list) hmap \<Rightarrow> (string, 'a list) hmap" where
  "extend_patterns field_name ps m =
     hm_insert field_name ((case hm_get m field_name of None \<Rightarrow> [] | Some qs \<Rightarrow> qs) @ ps) m"

fun compile_field_criteria ::
  "('re, 'net, 'f) crates \<Rightarrow> ('f, 'n, 'tree) rule_crates \<Rightarrow> ('n yaml \<times> 'n yaml) list
   \<Rightarrow> (string, ('re, 'net, 'f) field_pattern list) hmap
   \<Rightarrow> rule_error + ('re, 'net, 'f) field_criterion list
        \<times> (string, ('re, 'net, 'f) field_pattern list) hmap" where
  "compile_field_criteria X Y [] patterns = Inr ([], patterns)"
| "compile_field_criteria X Y ((field_key, field_value) # kvs) patterns =
     (case as_str field_key of
        None \<Rightarrow> compile_field_criteria X Y kvs patterns
      | Some key \<Rightarrow>
          let (field_name, modifiers) = parse_field_key key in
          (case validate_modifiers field_name modifiers of
             Inl e \<Rightarrow> Inl e
           | Inr _ \<Rightarrow>
               let field_patterns = parse_field_value X Y field_value modifiers;
                   criterion = \<lparr>fc_field = field_name, fc_patterns = field_patterns,
                     fc_matcher = get_pattern_matcher modifiers\<rparr>
               in (case compile_field_criteria X Y kvs
                          (extend_patterns field_name field_patterns patterns) of
                     Inl e \<Rightarrow> Inl e
                   | Inr (cs, patterns') \<Rightarrow> Inr (criterion # cs, patterns'))))"

fun compile_sequence ::
  "('re, 'net, 'f) crates \<Rightarrow> ('f, 'n, 'tree) rule_crates \<Rightarrow> 'n yaml list
   \<Rightarrow> (string, ('re, 'net, 'f) field_pattern list) hmap
   \<Rightarrow> rule_error + ('re, 'net, 'f) field_pattern list \<times> ('re, 'net, 'f) field_criterion list list
        \<times> (string, ('re, 'net, 'f) field_pattern list) hmap" where
  "compile_sequence X Y [] patterns = Inr ([], [], patterns)"
| "compile_sequence X Y (item # items) patterns =
     (case as_str item of
        Some s \<Rightarrow>
          (case compile_sequence X Y items patterns of
             Inl e \<Rightarrow> Inl e
           | Inr (ks, alts, patterns') \<Rightarrow> Inr (parse_string_pattern X s # ks, alts, patterns'))
      | None \<Rightarrow>
          (case as_mapping item of
             Some kvs \<Rightarrow>
               (case compile_field_criteria X Y kvs patterns of
                  Inl e \<Rightarrow> Inl e
                | Inr (criteria, patterns1) \<Rightarrow>
                    (case compile_sequence X Y items patterns1 of
                       Inl e \<Rightarrow> Inl e
                     | Inr (ks, alts, patterns') \<Rightarrow>
                         Inr (ks, (if criteria \<noteq> [] then [criteria] else []) @ alts, patterns')))
           | None \<Rightarrow> compile_sequence X Y items patterns))"

definition compile_selection ::
  "('re, 'net, 'f) crates \<Rightarrow> ('f, 'n, 'tree) rule_crates \<Rightarrow> 'n yaml
   \<Rightarrow> (string, ('re, 'net, 'f) field_pattern list) hmap
   \<Rightarrow> rule_error + ('re, 'net, 'f) selection
        \<times> (string, ('re, 'net, 'f) field_pattern list) hmap" where
  "compile_selection X Y value patterns =
     (case as_sequence value of
        Some items \<Rightarrow>
          (case compile_sequence X Y items patterns of
             Inl e \<Rightarrow> Inl e
           | Inr (ks, alts, patterns') \<Rightarrow>
               Inr (\<lparr>sl_field_criteria = [], sl_keywords = ks,
                     sl_alternative_field_criteria = alts\<rparr>, patterns'))
      | None \<Rightarrow>
          (case as_mapping value of
             Some kvs \<Rightarrow>
               (case compile_field_criteria X Y kvs patterns of
                  Inl e \<Rightarrow> Inl e
                | Inr (criteria, patterns') \<Rightarrow>
                    Inr (\<lparr>sl_field_criteria = criteria, sl_keywords = [],
                          sl_alternative_field_criteria = []\<rparr>, patterns'))
           | None \<Rightarrow>
               Inr (\<lparr>sl_field_criteria = [], sl_keywords = [],
                     sl_alternative_field_criteria = []\<rparr>, patterns)))"

fun compile_selections ::
  "('re, 'net, 'f) crates \<Rightarrow> ('f, 'n, 'tree) rule_crates \<Rightarrow> (string \<times> 'n yaml) list
   \<Rightarrow> (string, ('re, 'net, 'f) field_pattern list) hmap \<Rightarrow> (string, ('re, 'net, 'f) selection) hmap
   \<Rightarrow> rule_error + (string, ('re, 'net, 'f) field_pattern list) hmap
        \<times> (string, ('re, 'net, 'f) selection) hmap" where
  "compile_selections X Y [] patterns selections = Inr (patterns, selections)"
| "compile_selections X Y ((selection_id, value) # rest) patterns selections =
     (if selection_id = ''condition'' then compile_selections X Y rest patterns selections
      else case compile_selection X Y value patterns of
             Inl e \<Rightarrow> Inl e
           | Inr (s, patterns') \<Rightarrow>
               compile_selections X Y rest patterns' (hm_insert selection_id s selections))"

section \<open>Conditions\<close>

definition parenthesized :: "string \<Rightarrow> string list \<Rightarrow> string" where
  "parenthesized sep ks = ''('' @ join sep ks @ '')''"

definition expand_aggregation ::
  "string list \<Rightarrow> string \<times> string \<times> string \<Rightarrow> string \<Rightarrow> string" where
  "expand_aggregation selection_keys cap result =
     (let (full_match, quantifier, pattern) = cap;
          matching_keys = filter (\<lambda>k. starts_with k pattern) selection_keys
      in if matching_keys \<noteq> [] then
           str_replace full_match
             (parenthesized (if quantifier = ''1'' then '' || '' else '' && '') matching_keys) result
         else result)"

definition transpile_sigma_condition ::
  "('f, 'n, 'tree) rule_crates \<Rightarrow> string \<Rightarrow> string list \<Rightarrow> string" where
  "transpile_sigma_condition Y condition selection_keys =
     (let r1 = (if str_contains condition ''1 of them''
            then str_replace ''1 of them'' (parenthesized '' || '' selection_keys) condition
            else condition);
          r2 = (if str_contains r1 ''all of them''
            then str_replace ''all of them'' (parenthesized '' && '' selection_keys) r1 else r1);
          r3 = fold (expand_aggregation selection_keys) (aggregation_captures Y r2) r2;
          r4 = replace_word Y ''AND'' ''&&'' r3;
          r5 = replace_word Y ''and'' ''&&'' r4;
          r6 = replace_word Y ''OR'' ''||'' r5;
          r7 = replace_word Y ''or'' ''||'' r6;
          r8 = replace_word Y ''NOT'' ''!'' r7
      in replace_word Y ''not'' ''!'' r8)"

definition compile_rule ::
  "('re, 'net, 'f) crates \<Rightarrow> ('f, 'n, 'tree) rule_crates \<Rightarrow> 'n sigma_rule
   \<Rightarrow> rule_error + ('re, 'net, 'f, 'n, 'tree) compiled_rule" where
  "compile_rule X Y rule =
     (case compile_selections X Y (dt_selections (sr_detection rule)) [] [] of
        Inl e \<Rightarrow> Inl e
      | Inr (patterns, selections) \<Rightarrow>
          let build = \<lambda>transpiled tree.
                \<lparr>cr_rule = rule, cr_patterns = patterns, cr_selections = selections,
                 cr_logsource = from_logsource (sr_logsource rule),
                 cr_transpiled_condition = transpiled, cr_condition_tree = tree\<rparr>
          in case dt_condition (sr_detection rule) of
               None \<Rightarrow> Inr (build None None)
             | Some condition \<Rightarrow>
                 let transpiled = transpile_sigma_condition Y condition (map fst selections)
                 in case build_operator_tree Y transpiled of
                      None \<Rightarrow> Inl (BadCondition (sr_title rule) condition)
                    | Some tree \<Rightarrow> Inr (build (Some transpiled) (Some tree)))"

section \<open>Lemmas\<close>

definition key_modifiers :: "'n yaml \<Rightarrow> string list" where
  "key_modifiers k = (case as_str k of None \<Rightarrow> [] | Some key \<Rightarrow> snd (parse_field_key key))"

definition key_field :: "'n yaml \<Rightarrow> string list" where
  "key_field k = (case as_str k of None \<Rightarrow> [] | Some key \<Rightarrow> [fst (parse_field_key key)])"

lemma validate_modifiers_Inr: "validate_modifiers f ms = Inr u \<longleftrightarrow> set ms \<subseteq> set supported_modifiers"
  by (induction ms) simp_all

lemma validate_modifiers_Inl:
  "validate_modifiers f ms = Inl e \<Longrightarrow>
   \<exists>m \<in> set ms. m \<notin> set supported_modifiers \<and> e = UnsupportedModifier m f"
  by (induction ms) (auto split: if_splits)

lemma compile_criteria_ok:
  "compile_field_criteria X Y kvs P = Inr (cs, P') \<Longrightarrow>
   (\<forall>(k, v) \<in> set kvs. set (key_modifiers k) \<subseteq> set supported_modifiers) \<and>
   map fc_field cs = concat (map (\<lambda>(k, v). key_field k) kvs)"
proof (induction kvs arbitrary: P cs)
  case (Cons kv kvs)
  obtain k v where kv: "kv = (k, v)" by (cases kv)
  show ?case
  proof (cases "as_str k")
    case None
    with Cons kv show ?thesis by (simp add: key_modifiers_def key_field_def)
  next
    case (Some key)
    obtain f ms where p: "parse_field_key key = (f, ms)" by (cases "parse_field_key key")
    from Cons.prems kv Some p obtain u where "validate_modifiers f ms = Inr u"
      by (cases "validate_modifiers f ms") auto
    moreover from this Cons.prems kv Some p obtain c cs' where "cs = c # cs'" "fc_field c = f"
      "compile_field_criteria X Y kvs (extend_patterns f (parse_field_value X Y v ms) P)
         = Inr (cs', P')"
      by (auto simp: Let_def split: sum.splits prod.splits)
    ultimately show ?thesis using Cons.IH [of _ cs'] kv Some p
      by (auto simp: key_modifiers_def key_field_def validate_modifiers_Inr)
  qed
qed simp

lemma compile_criteria_error:
  "compile_field_criteria X Y kvs P = Inl e \<Longrightarrow>
   \<exists>(k, v) \<in> set kvs. \<exists>m \<in> set (key_modifiers k). m \<notin> set supported_modifiers \<and>
     (\<exists>f \<in> set (key_field k). e = UnsupportedModifier m f)"
proof (induction kvs arbitrary: P)
  case (Cons kv kvs)
  obtain k v where kv: "kv = (k, v)" by (cases kv)
  show ?case
  proof (cases "as_str k")
    case None
    with Cons kv show ?thesis by auto
  next
    case (Some key)
    obtain f ms where p: "parse_field_key key = (f, ms)" by (cases "parse_field_key key")
    show ?thesis
    proof (cases "validate_modifiers f ms")
      case (Inl e')
      with Cons.prems kv Some p have "e = e'" by simp
      moreover from Inl obtain m where "m \<in> set ms" "m \<notin> set supported_modifiers"
        "e' = UnsupportedModifier m f"
        using validate_modifiers_Inl by blast
      ultimately show ?thesis using kv Some p by (auto simp: key_modifiers_def key_field_def)
    next
      case (Inr u)
      with Cons.prems kv Some p
      have "compile_field_criteria X Y kvs (extend_patterns f (parse_field_value X Y v ms) P) = Inl e"
        by (auto simp: Let_def split: sum.splits prod.splits)
      from Cons.IH [OF this] kv show ?thesis by auto
    qed
  qed
qed simp

section \<open>Properties\<close>

definition no_rule_crates :: "(unit, unit, unit) rule_crates" where
  "no_rule_crates = \<lparr>num_as_f64 = \<lambda>_. None, num_show = \<lambda>_. [], aggregation_captures = \<lambda>_. [],
     replace_word = \<lambda>_ _ s. s, build_operator_tree = \<lambda>_. None, eval_boolean = \<lambda>_ _. None\<rparr>"

text \<open>
  Unknown modifiers are never silently ignored: compiling the fields of a selection succeeds
  exactly when every modifier of every field key is a supported one, yields one criterion per
  field key in order, and otherwise reports an unsupported modifier with its field.
\<close>

lemma unsupported_modifiers_rejected:
  "case compile_field_criteria X Y kvs P of
     Inr (cs, P') \<Rightarrow> (\<forall>(k, v) \<in> set kvs. set (key_modifiers k) \<subseteq> set supported_modifiers) \<and>
       map fc_field cs = concat (map (\<lambda>(k, v). key_field k) kvs)
   | Inl e \<Rightarrow> \<exists>(k, v) \<in> set kvs. \<exists>m \<in> set (key_modifiers k). m \<notin> set supported_modifiers \<and>
       (\<exists>f \<in> set (key_field k). e = UnsupportedModifier m f)"
  using compile_criteria_ok [of X Y kvs P] compile_criteria_error [of X Y kvs P]
  by (cases "compile_field_criteria X Y kvs P") (blast | auto)+


text \<open>
  A boolean value in a rule is dropped: the criterion it compiles to has no pattern and matches no
  event at all, not even one whose field holds the very text of the value.
\<close>

lemma boolean_value_never_matches:
  "\<not> check_field_criterion X e \<lparr>fc_field = f, fc_patterns = parse_field_value X Y (YBool b) [],
     fc_matcher = get_pattern_matcher []\<rparr>"
  by (simp add: check_field_criterion_def parse_field_value_def append_value_patterns_def as_str_def
      get_pattern_matcher_def split: option.split)

text \<open>
  Under \<open>all\<close> an invalid regular expression makes the criterion vacuous: it compiles to
  no pattern, so it matches every event that has the field at all.
\<close>

lemma invalid_regex_under_all_is_vacuous:
  assumes "regex_new X s = None" and "s \<noteq> []"
  shows "check_field_criterion X e \<lparr>fc_field = f,
      fc_patterns = parse_field_value X Y (YString s) [''re'', ''all''],
      fc_matcher = get_pattern_matcher [''re'', ''all'']\<rparr> \<longleftrightarrow> get_field e f \<noteq> None"
  using assms
  by (simp add: check_field_criterion_def parse_field_value_def append_value_patterns_def
      string_patterns_def parse_numeric_op_def get_pattern_matcher_def split: option.split)


text \<open>
  A wildcard in the value overrides the string operator: the pattern of a value with \<open>*\<close> or \<open>?\<close>
  is the same under \<open>contains\<close>, \<open>startswith\<close> and \<open>endswith\<close> as without a modifier, that is,
  a regular expression anchored at both ends.
\<close>

lemma wildcard_overrides_operator:
  assumes "str_contains s ''*'' \<or> str_contains s ''?''"
  shows "parse_string_pattern_with_modifiers X s ms cased =
      (case regex_new X ((if cased then [] else ''(?i)'') @ ''^'' @
              convert_sigma_wildcard_to_regex X s @ ''$'') of
         Some re \<Rightarrow> Regex re | None \<Rightarrow> Contains s cased)"
  using assms by (simp add: parse_string_pattern_with_modifiers_def Let_def)


end
