(* ===== verification/Sigma_Engine.thy ===== *)
theory Sigma_Engine
  imports Sigma_Rules
begin

text \<open>
  The detection engine: its state (\<open>src/engine/mod.rs\<close>), the loading of parsed rule files
  (\<open>src/engine/loader.rs\<close>), the evaluation of compiled conditions (\<open>condition.rs\<close>) and the check of
  an event with the debug details of a match (\<open>alert.rs\<close>). A rule file is its path and what reading and
  parsing it yields, an error message or its rules; the display of a compile error is a parameter.
  Logging is left out.
\<close>

section \<open>State\<close>

definition max_sigma_matches :: nat where "max_sigma_matches = 16"
definition max_sigma_keyword_matches :: nat where "max_sigma_keyword_matches = 8"
definition max_match_value_len :: nat where "max_match_value_len = 160"
definition max_pattern_len :: nat where "max_pattern_len = 160"

record ('re, 'net, 'f, 'n, 'tree) engine =
  en_platform :: platform
  en_rules_by_logsource ::
    "(log_source_key, ('re, 'net, 'f, 'n, 'tree) compiled_rule list) hmap"
  en_rule_count :: nat
  en_rule_files_found :: nat
  en_failed_rules :: "(string \<times> string) list"
  en_skips :: skip_counters
  en_match_debug :: match_debug_level

definition engine_new :: "platform \<Rightarrow> match_debug_level \<Rightarrow> ('re, 'net, 'f, 'n, 'tree) engine" where
  "engine_new p level = \<lparr>en_platform = p, en_rules_by_logsource = [], en_rule_count = 0,
     en_rule_files_found = 0, en_failed_rules = [], en_skips = no_skips, en_match_debug = level\<rparr>"

section \<open>Loading\<close>

definition file_rule ::
  "('re, 'net, 'f, 'n, 'tree) compiled_rule \<Rightarrow> ('re, 'net, 'f, 'n, 'tree) engine
   \<Rightarrow> ('re, 'net, 'f, 'n, 'tree) engine" where
  "file_rule compiled en =
     (let key = cr_logsource compiled;
          rules = (case hm_get (en_rules_by_logsource en) key of None \<Rightarrow> [] | Some rs \<Rightarrow> rs)
      in en\<lparr>en_rules_by_logsource :=
               hm_insert key (rules @ [compiled]) (en_rules_by_logsource en),
            en_rule_count := en_rule_count en + 1\<rparr>)"

text \<open>A rule that does not compile ends the loading of its file.\<close>

fun load_rule_builtin ::
  "('re, 'net, 'f) crates \<Rightarrow> ('f, 'n, 'tree) rule_crates \<Rightarrow> 'n sigma_rule list
   \<Rightarrow> ('re, 'net, 'f, 'n, 'tree) engine
   \<Rightarrow> ('re, 'net, 'f, 'n, 'tree) engine \<times> rule_error option" where
  "load_rule_builtin X Y [] en = (en, None)"
| "load_rule_builtin X Y (rule # rules) en =
     (let logsource = from_logsource (sr_logsource rule);
          decision = rule_load_decision (en_platform en) logsource;
          en1 = en\<lparr>en_skips := record_skip decision logsource (en_skips en)\<rparr>
      in case decision of
           Load _ \<Rightarrow>
             (case compile_rule X Y rule of
                Inl err \<Rightarrow> (en1, Some err)
              | Inr compiled \<Rightarrow> load_rule_builtin X Y rules (file_rule compiled en1))
         | _ \<Rightarrow> load_rule_builtin X Y rules en1)"

definition load_rule_file ::
  "('re, 'net, 'f) crates \<Rightarrow> ('f, 'n, 'tree) rule_crates \<Rightarrow> (rule_error \<Rightarrow> string)
   \<Rightarrow> string \<times> (string + 'n sigma_rule list) \<Rightarrow> ('re, 'net, 'f, 'n, 'tree) engine
   \<Rightarrow> ('re, 'net, 'f, 'n, 'tree) engine" where
  "load_rule_file X Y show_error file en =
     (let en1 = en\<lparr>en_rule_files_found := en_rule_files_found en + 1\<rparr>;
          (en2, failure) = (case snd file of
              Inl message \<Rightarrow> (en1, Some message)
            | Inr rules \<Rightarrow> apsnd (map_option show_error) (load_rule_builtin X Y rules en1))
      in case failure of
           None \<Rightarrow> en2
         | Some message \<Rightarrow>
             en2\<lparr>en_failed_rules := en_failed_rules en2 @ [(fst file, message)]\<rparr>)"

definition load_rules ::
  "('re, 'net, 'f) crates \<Rightarrow> ('f, 'n, 'tree) rule_crates \<Rightarrow> (rule_error \<Rightarrow> string)
   \<Rightarrow> (string \<times> (string + 'n sigma_rule list)) list \<Rightarrow> ('re, 'net, 'f, 'n, 'tree) engine
   \<Rightarrow> ('re, 'net, 'f, 'n, 'tree) engine" where
  "load_rules X Y show_error files en = fold (load_rule_file X Y show_error) files en"

section \<open>Conditions\<close>

definition check_compiled_condition ::
  "('f, 'n, 'tree) rule_crates \<Rightarrow> ('re, 'net, 'f, 'n, 'tree) compiled_rule \<Rightarrow> (string, bool) hmap
   \<Rightarrow> bool" where
  "check_compiled_condition Y compiled results =
     (case cr_condition_tree compiled of
        None \<Rightarrow> False
      | Some tree \<Rightarrow> (case eval_boolean Y tree results of Some val \<Rightarrow> val | None \<Rightarrow> False))"

definition rule_matches ::
  "('re, 'net, 'f) crates \<Rightarrow> ('f, 'n, 'tree) rule_crates \<Rightarrow> normalized_event
   \<Rightarrow> ('re, 'net, 'f, 'n, 'tree) compiled_rule \<Rightarrow> bool" where
  "rule_matches X Y event compiled =
     (let results = evaluate_selections X event (cr_selections compiled)
      in if cr_condition_tree compiled \<noteq> None then check_compiled_condition Y compiled results
         else list_ex snd results)"

section \<open>Match details\<close>

function floor_boundary :: "string \<Rightarrow> nat \<Rightarrow> nat" where
  "floor_boundary s n =
     (if 0 < n \<and> \<not> is_char_boundary s n then floor_boundary s (n - 1) else n)"
  by pat_completeness auto
termination by (relation "measure snd") auto

declare floor_boundary.simps [simp del]

definition truncate_str :: "string \<Rightarrow> nat \<Rightarrow> string \<times> bool" where
  "truncate_str s max_len =
     (if length s \<le> max_len then (s, False)
      else if max_len \<le> 3 then (take (floor_boundary s max_len) s, True)
      else (take (floor_boundary s (max_len - 3)) s @ ''...'', True))"

definition pattern_descriptor ::
  "('re, 'net, 'f) crates \<Rightarrow> ('re, 'net, 'f) field_pattern \<Rightarrow> string \<times> string \<times> bool option" where
  "pattern_descriptor X pattern =
     (case pattern of
        Exact s cased \<Rightarrow> (''exact'', s, Some cased)
      | Contains s cased \<Rightarrow> (''contains'', s, Some cased)
      | StartsWith s cased \<Rightarrow> (''startswith'', s, Some cased)
      | EndsWith s cased \<Rightarrow> (''endswith'', s, Some cased)
      | Regex re \<Rightarrow> (''regex'', regex_as_str X re, None)
      | FieldRef other \<Rightarrow> (''fieldref'', other, None)
      | OneOf values \<Rightarrow> (''one_of'', join '', '' values, None)
      | Cidr net \<Rightarrow> (''cidr'', net_show X net, None)
      | Numeric value op \<Rightarrow>
          (''numeric'',
           (case op of Lt \<Rightarrow> ''<'' | Gt \<Rightarrow> ''>'' | Le \<Rightarrow> ''<='' | Ge \<Rightarrow> ''>='') @ '' '' @ f64_show X value,
           None)
      | NullPattern \<Rightarrow> (''null'', ''null'', None)
      | NotNull \<Rightarrow> (''not_null'', ''not_null'', None))"

text \<open>
  The debug value of a match, and the two accumulators of the collectors: the matches so far and whether
  anything was cut off. A collector that reaches its cap returns early, the last component.
\<close>

definition debug_value :: "match_debug_level \<Rightarrow> string \<Rightarrow> string option \<times> bool" where
  "debug_value level value =
     (if level = DebugFull then
        let (val, val_truncated) = truncate_str value max_match_value_len in (Some val, val_truncated)
      else (None, False))"

fun collect_keyword_values ::
  "('re, 'net, 'f) crates \<Rightarrow> match_debug_level \<Rightarrow> string \<Rightarrow> ('re, 'net, 'f) field_pattern
   \<Rightarrow> string \<times> string \<Rightarrow> (string \<times> string) list \<Rightarrow> sigma_keyword_match list \<Rightarrow> bool
   \<Rightarrow> sigma_keyword_match list \<times> bool \<times> bool" where
  "collect_keyword_values X level selection_id pattern desc [] acc truncated = (acc, truncated, False)"
| "collect_keyword_values X level selection_id pattern desc ((field, value) # values) acc truncated =
     (if \<not> matches_pattern X value pattern None
      then collect_keyword_values X level selection_id pattern desc values acc truncated
      else if max_sigma_keyword_matches \<le> length acc then (acc, True, True)
      else
        let (val, cut) = debug_value level value in
        collect_keyword_values X level selection_id pattern desc values
          (acc @ [\<lparr>km_selection = selection_id, km_pattern_type = fst desc, km_keyword = snd desc,
                   km_field = Some field, km_value = val\<rparr>])
          (truncated \<or> cut))"

fun collect_keyword_matches ::
  "('re, 'net, 'f) crates \<Rightarrow> normalized_event \<Rightarrow> match_debug_level \<Rightarrow> string
   \<Rightarrow> ('re, 'net, 'f) field_pattern list \<Rightarrow> sigma_keyword_match list \<Rightarrow> bool
   \<Rightarrow> sigma_keyword_match list \<times> bool" where
  "collect_keyword_matches X event level selection_id [] acc truncated = (acc, truncated)"
| "collect_keyword_matches X event level selection_id (pattern # patterns) acc truncated =
     (let (pattern_type, full_value, _) = pattern_descriptor X pattern;
          (pattern_value, cut) = truncate_str full_value max_pattern_len;
          (acc', truncated', done') = collect_keyword_values X level selection_id pattern
            (pattern_type, pattern_value) (all_field_values_with_keys event) acc (truncated \<or> cut)
      in if done' then (acc', truncated')
         else collect_keyword_matches X event level selection_id patterns acc' truncated')"

text \<open>One criterion: \<open>value\<close> is the field, and \<open>None\<close> when the event lacks it.\<close>

fun collect_criterion ::
  "('re, 'net, 'f) crates \<Rightarrow> normalized_event \<Rightarrow> match_debug_level \<Rightarrow> string \<Rightarrow> string \<Rightarrow> string
   \<Rightarrow> string option \<Rightarrow> ('re, 'net, 'f) field_pattern list \<Rightarrow> sigma_field_match list \<Rightarrow> bool
   \<Rightarrow> sigma_field_match list \<times> bool \<times> bool" where
  "collect_criterion X event level selection_id field matcher value [] acc truncated =
     (acc, truncated, False)"
| "collect_criterion X event level selection_id field matcher value (pattern # patterns) acc truncated =
     (if \<not> (case value of Some v \<Rightarrow> matches_pattern X v pattern (Some event)
             | None \<Rightarrow> matches_pattern_null pattern)
      then collect_criterion X event level selection_id field matcher value patterns acc truncated
      else if max_sigma_matches \<le> length acc then (acc, True, True)
      else
        let (pattern_type, full_value, case_sensitive) = pattern_descriptor X pattern;
            (pattern_value, cut1) = truncate_str full_value max_pattern_len;
            (val, cut2) = (case value of Some v \<Rightarrow> debug_value level v | None \<Rightarrow> (None, False))
        in collect_criterion X event level selection_id field matcher value patterns
             (acc @ [\<lparr>fm_selection = selection_id, fm_field = field, fm_matcher = matcher,
                      fm_pattern_type = pattern_type, fm_pattern = pattern_value,
                      fm_case_sensitive = case_sensitive, fm_value = val\<rparr>])
             (truncated \<or> cut1 \<or> cut2))"

fun collect_field_matches ::
  "('re, 'net, 'f) crates \<Rightarrow> normalized_event \<Rightarrow> match_debug_level \<Rightarrow> string
   \<Rightarrow> ('re, 'net, 'f) field_criterion list \<Rightarrow> sigma_field_match list \<Rightarrow> bool
   \<Rightarrow> sigma_field_match list \<times> bool" where
  "collect_field_matches X event level selection_id [] acc truncated = (acc, truncated)"
| "collect_field_matches X event level selection_id (c # cs) acc truncated =
     (if max_sigma_matches \<le> length acc then (acc, True)
      else
        let matcher = (if fc_matcher c = MatchAll then ''all'' else ''any'');
            (acc', truncated', done') = collect_criterion X event level selection_id (fc_field c)
              matcher (get_field event (fc_field c)) (fc_patterns c) acc truncated
        in if done' then (acc', truncated')
           else collect_field_matches X event level selection_id cs acc' truncated')"

fun collect_alternatives ::
  "('re, 'net, 'f) crates \<Rightarrow> normalized_event \<Rightarrow> match_debug_level \<Rightarrow> string
   \<Rightarrow> ('re, 'net, 'f) field_criterion list list \<Rightarrow> sigma_field_match list \<Rightarrow> bool
   \<Rightarrow> sigma_field_match list \<times> bool" where
  "collect_alternatives X event level selection_id [] acc truncated = (acc, truncated)"
| "collect_alternatives X event level selection_id (criteria # rest) acc truncated =
     (if check_field_criteria_group X event criteria then
        let (acc', truncated') = collect_field_matches X event level selection_id criteria acc truncated
        in if max_sigma_matches \<le> length acc' then (acc', truncated')
           else collect_alternatives X event level selection_id rest acc' truncated'
      else collect_alternatives X event level selection_id rest acc truncated)"

fun collect_selections ::
  "('re, 'net, 'f) crates \<Rightarrow> normalized_event \<Rightarrow> match_debug_level \<Rightarrow> (string, bool) hmap
   \<Rightarrow> (string \<times> ('re, 'net, 'f) selection) list
   \<Rightarrow> sigma_field_match list \<times> sigma_keyword_match list \<times> bool
   \<Rightarrow> sigma_field_match list \<times> sigma_keyword_match list \<times> bool" where
  "collect_selections X event level results [] acc = acc"
| "collect_selections X event level results ((selection_id, s) # rest) (ms, ks, truncated) =
     (if hm_get results selection_id \<noteq> Some True
      then collect_selections X event level results rest (ms, ks, truncated)
      else
        let (ks', t1) = (if sl_keywords s \<noteq> []
              then collect_keyword_matches X event level selection_id (sl_keywords s) ks truncated
              else (ks, truncated));
            (ms1, t2) = (if sl_alternative_field_criteria s \<noteq> []
              then collect_alternatives X event level selection_id
                     (sl_alternative_field_criteria s) ms t1
              else (ms, t1));
            (ms2, t3) = (if sl_field_criteria s \<noteq> [] \<and>
                check_field_criteria_group X event (sl_field_criteria s)
              then collect_field_matches X event level selection_id (sl_field_criteria s) ms1 t2
              else (ms1, t2))
        in collect_selections X event level results rest (ms2, ks', t3))"

definition build_sigma_summary ::
  "string option \<Rightarrow> match_debug_level \<Rightarrow> sigma_field_match list \<Rightarrow> sigma_keyword_match list \<Rightarrow> bool
   \<Rightarrow> string" where
  "build_sigma_summary condition level ms ks truncated =
     (let (part1, truncated1) = (case condition of
            None \<Rightarrow> ([], truncated)
          | Some c \<Rightarrow>
              let (cond, cut) = truncate_str c max_pattern_len
              in ([''condition matched: '' @ cond], truncated \<or> cut));
          with_value = (\<lambda>value. case value of
              Some v \<Rightarrow> if level = DebugFull then '' with value '' @ [CHR 0x27] @ v @ [CHR 0x27] else []
            | None \<Rightarrow> []);
          part2 = (case ms of
            m # _ \<Rightarrow>
              [fm_selection m @ '' matched '' @ fm_field m @ '' '' @ fm_pattern_type m @ '' '' @
               [CHR 0x27] @ fm_pattern m @ [CHR 0x27] @ with_value (fm_value m)]
          | [] \<Rightarrow> (case ks of
              k # _ \<Rightarrow>
                [km_selection k @ '' keyword '' @ km_pattern_type k @ '' '' @
                 [CHR 0x27] @ km_keyword k @ [CHR 0x27] @
                 (case km_field k of Some f \<Rightarrow> '' in '' @ f | None \<Rightarrow> []) @ with_value (km_value k)]
            | [] \<Rightarrow> []));
          parts = part1 @ part2;
          summary = join ''; '' (if parts = [] then [''rule matched''] else parts)
      in if truncated1 then summary @ '' (truncated)'' else summary)"

definition build_sigma_match_details ::
  "('re, 'net, 'f) crates \<Rightarrow> match_debug_level \<Rightarrow> normalized_event
   \<Rightarrow> ('re, 'net, 'f, 'n, 'tree) compiled_rule \<Rightarrow> (string, bool) hmap \<Rightarrow> match_details option" where
  "build_sigma_match_details X level event compiled results =
     (if level = DebugOff then None
      else
        let (ms, ks, truncated) =
              collect_selections X event level results (cr_selections compiled) ([], [], False);
            condition = dt_condition (sr_detection (cr_rule compiled))
        in Some \<lparr>md_summary = build_sigma_summary condition level ms ks truncated,
                 md_sigma = Some \<lparr>md_condition = condition, md_selection_results = results,
                   md_matches = ms, md_keyword_matches = ks\<rparr>,
                 md_yara = None\<rparr>)"

section \<open>Checking an event\<close>

definition severity_of_level :: "string option \<Rightarrow> alert_severity" where
  "severity_of_level level =
     (if level = Some ''critical'' then Critical else if level = Some ''high'' then High
      else if level = Some ''medium'' then Medium else Low)"

definition sigma_alert ::
  "('re, 'net, 'f) crates \<Rightarrow> match_debug_level \<Rightarrow> normalized_event
   \<Rightarrow> ('re, 'net, 'f, 'n, 'tree) compiled_rule \<Rightarrow> alert" where
  "sigma_alert X level event compiled =
     (let rule = cr_rule compiled in
      \<lparr>al_severity = severity_of_level (sr_level rule), al_rule_name = sr_title rule,
       al_rule_description = sr_description rule,
       al_rule_id = map_option (\<lambda>i. ''sigma::'' @ i) (sr_id rule), al_engine = EngineSigma,
       al_event = event,
       al_match_details = build_sigma_match_details X level event compiled
         (evaluate_selections X event (cr_selections compiled))\<rparr>)"

fun check_rules ::
  "('re, 'net, 'f) crates \<Rightarrow> ('f, 'n, 'tree) rule_crates \<Rightarrow> match_debug_level \<Rightarrow> normalized_event
   \<Rightarrow> ('re, 'net, 'f, 'n, 'tree) compiled_rule list \<Rightarrow> alert option" where
  "check_rules X Y level event [] = None"
| "check_rules X Y level event (compiled # rules) =
     (if rule_matches X Y event compiled then Some (sigma_alert X level event compiled)
      else check_rules X Y level event rules)"

fun check_logsources ::
  "('re, 'net, 'f) crates \<Rightarrow> ('f, 'n, 'tree) rule_crates \<Rightarrow> ('re, 'net, 'f, 'n, 'tree) engine
   \<Rightarrow> normalized_event \<Rightarrow> log_source_key list \<Rightarrow> alert option" where
  "check_logsources X Y en event [] = None"
| "check_logsources X Y en event (logsource # rest) =
     (case hm_get (en_rules_by_logsource en) logsource of
        None \<Rightarrow> check_logsources X Y en event rest
      | Some rules \<Rightarrow>
          (case check_rules X Y (en_match_debug en) event rules of
             Some a \<Rightarrow> Some a
           | None \<Rightarrow> check_logsources X Y en event rest))"

definition check_event_builtin ::
  "('re, 'net, 'f) crates \<Rightarrow> ('f, 'n, 'tree) rule_crates \<Rightarrow> ('re, 'net, 'f, 'n, 'tree) engine
   \<Rightarrow> normalized_event \<Rightarrow> alert option" where
  "check_event_builtin X Y en event =
     check_logsources X Y en event (sigma_logsources_for_event event)"

section \<open>Loading files every acceptable rule\<close>

fun accepted_rules ::
  "('re, 'net, 'f) crates \<Rightarrow> ('f, 'n, 'tree) rule_crates \<Rightarrow> platform \<Rightarrow> 'n sigma_rule list
   \<Rightarrow> ('re, 'net, 'f, 'n, 'tree) compiled_rule list" where
  "accepted_rules X Y p [] = []"
| "accepted_rules X Y p (rule # rules) =
     (case rule_load_decision p (from_logsource (sr_logsource rule)) of
        Load _ \<Rightarrow> (case compile_rule X Y rule of
            Inl _ \<Rightarrow> [] | Inr c \<Rightarrow> c # accepted_rules X Y p rules)
      | _ \<Rightarrow> accepted_rules X Y p rules)"

definition accepted_files ::
  "('re, 'net, 'f) crates \<Rightarrow> ('f, 'n, 'tree) rule_crates \<Rightarrow> platform
   \<Rightarrow> (string \<times> (string + 'n sigma_rule list)) list
   \<Rightarrow> ('re, 'net, 'f, 'n, 'tree) compiled_rule list" where
  "accepted_files X Y p files =
     concat (map (\<lambda>file. case snd file of Inl _ \<Rightarrow> [] | Inr rules \<Rightarrow> accepted_rules X Y p rules) files)"

definition engine_inv ::
  "('re, 'net, 'f, 'n, 'tree) compiled_rule list \<Rightarrow> ('re, 'net, 'f, 'n, 'tree) engine \<Rightarrow> bool" where
  "engine_inv cs en \<longleftrightarrow>
     (\<forall>k. (case hm_get (en_rules_by_logsource en) k of None \<Rightarrow> [] | Some rs \<Rightarrow> rs) =
        filter (\<lambda>c. cr_logsource c = k) cs) \<and>
     en_rule_count en = length cs"

lemma engine_inv_file: "engine_inv cs en \<Longrightarrow> engine_inv (cs @ [c]) (file_rule c en)"
  by (auto simp: engine_inv_def file_rule_def Let_def hm.get_put)

lemma load_rule_platform [simp]:
  "en_platform (fst (load_rule_builtin X Y rules en)) = en_platform en"
  "en_match_debug (fst (load_rule_builtin X Y rules en)) = en_match_debug en"
  by (induction X Y rules en rule: load_rule_builtin.induct)
    (auto simp: Let_def file_rule_def split: rule_load_decision.split sum.split)

lemma load_rule_inv:
  "engine_inv cs en \<Longrightarrow>
   engine_inv (cs @ accepted_rules X Y (en_platform en) rules) (fst (load_rule_builtin X Y rules en))"
proof (induction X Y rules en arbitrary: cs rule: load_rule_builtin.induct)
  case (2 X Y rule rules en)
  let ?k = "from_logsource (sr_logsource rule)"
  let ?d = "rule_load_decision (en_platform en) ?k"
  let ?en = "en\<lparr>en_skips := record_skip ?d ?k (en_skips en)\<rparr>"
  have inv: "engine_inv cs ?en" using "2.prems" by (simp add: engine_inv_def)
  show ?case
  proof (cases ?d)
    case (Load b)
    show ?thesis
    proof (cases "compile_rule X Y rule")
      case (Inl e)
      with Load inv show ?thesis by (simp add: Let_def)
    next
      case (Inr c)
      have "en_platform (file_rule c ?en) = en_platform en" by (simp add: file_rule_def Let_def)
      with 2(1) [OF refl refl refl Load Inr engine_inv_file [OF inv]] Load Inr
      show ?thesis by (simp add: Let_def)
    qed
  qed (use 2 inv in \<open>simp_all add: Let_def\<close>)
qed simp

lemma load_file_inv:
  assumes "engine_inv cs en"
  shows "engine_inv (cs @ accepted_files X Y (en_platform en) [file])
    (load_rule_file X Y sh file en)"
proof -
  have upd: "engine_inv ds (en'\<lparr>en_failed_rules := fr\<rparr>) = engine_inv ds en'"
    "engine_inv ds (en'\<lparr>en_rule_files_found := n\<rparr>) = engine_inv ds en'" for ds en' fr n
    by (simp_all add: engine_inv_def)
  show ?thesis
    using assms load_rule_inv [of cs "en\<lparr>en_rule_files_found := en_rule_files_found en + 1\<rparr>" X Y]
    by (cases "snd file") (auto simp: load_rule_file_def Let_def accepted_files_def upd
        case_prod_unfold split: option.split)
qed

lemma load_file_frame [simp]:
  "en_platform (load_rule_file X Y sh file en) = en_platform en"
  "en_match_debug (load_rule_file X Y sh file en) = en_match_debug en"
  by (cases "snd file"; auto simp: load_rule_file_def Let_def case_prod_unfold split: option.split)+

lemma load_files_inv:
  "engine_inv cs en \<Longrightarrow>
   engine_inv (cs @ accepted_files X Y (en_platform en) files) (load_rules X Y sh files en)"
proof (induction files arbitrary: cs en)
  case (Cons rf files)
  from Cons.IH [OF load_file_inv [OF Cons.prems]] show ?case
    by (simp add: load_rules_def accepted_files_def)
qed (simp add: load_rules_def accepted_files_def)

lemma load_files_frame [simp]:
  "en_platform (load_rules X Y sh files en) = en_platform en"
  "en_match_debug (load_rules X Y sh files en) = en_match_debug en"
  by (induction files arbitrary: en) (simp_all add: load_rules_def)

lemma engine_new_inv: "engine_inv [] (engine_new p level)"
  by (simp add: engine_inv_def engine_new_def)

section \<open>Checking is finding\<close>

lemma check_rules_find:
  "check_rules X Y level e rules = map_option (sigma_alert X level e) (find (rule_matches X Y e) rules)"
  by (induction rules) simp_all

lemma find_append: "find P (xs @ ys) = (case find P xs of None \<Rightarrow> find P ys | Some x \<Rightarrow> Some x)"
  by (induction xs) simp_all

lemma check_logsources_find:
  "check_logsources X Y en e ks =
     map_option (sigma_alert X (en_match_debug en) e) (find (rule_matches X Y e)
       (concat (map (\<lambda>k. case hm_get (en_rules_by_logsource en) k of None \<Rightarrow> [] | Some rs \<Rightarrow> rs) ks)))"
  by (induction ks) (simp_all add: check_rules_find find_append split: option.split)

section \<open>Truncation and caps\<close>

lemma floor_boundary_le: "floor_boundary s n \<le> n"
  by (induction s n rule: floor_boundary.induct) (subst floor_boundary.simps, auto)

lemma floor_boundary_boundary: "is_char_boundary s (floor_boundary s n)"
proof (induction s n rule: floor_boundary.induct)
  case (1 s n)
  then show ?case
    by (cases "0 < n \<and> \<not> is_char_boundary s n")
      (auto simp: floor_boundary.simps [of s n] is_char_boundary_def [of s 0])
qed

lemma collect_keyword_values_cap:
  "length acc \<le> max_sigma_keyword_matches \<Longrightarrow>
   length (fst (collect_keyword_values X level i pt d vs acc t)) \<le> max_sigma_keyword_matches"
proof (induction vs arbitrary: acc t)
  case (Cons v vs)
  then show ?case by (cases v) (simp add: case_prod_unfold Let_def)
qed simp

lemma collect_keyword_matches_cap:
  "length acc \<le> max_sigma_keyword_matches \<Longrightarrow>
   length (fst (collect_keyword_matches X e level i ps acc t)) \<le> max_sigma_keyword_matches"
proof (induction ps arbitrary: acc t)
  case (Cons p ps)
  then show ?case by (simp add: case_prod_unfold Let_def collect_keyword_values_cap)
qed simp

lemma collect_criterion_cap:
  "length acc \<le> max_sigma_matches \<Longrightarrow>
   length (fst (collect_criterion X e level i f m v ps acc t)) \<le> max_sigma_matches"
  by (induction ps arbitrary: acc t) (simp_all add: case_prod_unfold Let_def)

lemma collect_field_matches_cap:
  "length acc \<le> max_sigma_matches \<Longrightarrow>
   length (fst (collect_field_matches X e level i cs acc t)) \<le> max_sigma_matches"
proof (induction cs arbitrary: acc t)
  case (Cons c cs)
  then show ?case by (simp add: case_prod_unfold Let_def collect_criterion_cap)
qed simp

lemma collect_alternatives_cap:
  "length acc \<le> max_sigma_matches \<Longrightarrow>
   length (fst (collect_alternatives X e level i css acc t)) \<le> max_sigma_matches"
proof (induction css arbitrary: acc t)
  case (Cons c cs)
  then show ?case by (simp add: case_prod_unfold Let_def collect_field_matches_cap)
qed simp

lemma collect_selections_cap:
  "length (fst acc) \<le> max_sigma_matches \<Longrightarrow> length (fst (snd acc)) \<le> max_sigma_keyword_matches \<Longrightarrow>
   length (fst (collect_selections X e level results ss acc)) \<le> max_sigma_matches \<and>
   length (fst (snd (collect_selections X e level results ss acc))) \<le> max_sigma_keyword_matches"
proof (induction ss arbitrary: acc)
  case (Cons p ss)
  obtain i s ms ks t where p: "p = (i, s)" "acc = (ms, ks, t)" by (metis prod_cases3 surj_pair)
  from Cons.prems p have "length ms \<le> max_sigma_matches" "length ks \<le> max_sigma_keyword_matches"
    by simp_all
  then show ?case
    unfolding p
    by (simp add: case_prod_unfold Let_def Cons.IH collect_keyword_matches_cap
        collect_alternatives_cap collect_field_matches_cap)
qed simp

section \<open>Properties\<close>

text \<open>
  Checking an event returns the alert of the first matching rule in the order of the event's log sources,
  most specific first, and of loading within a log source; the nested loops skip nothing.
\<close>

lemma check_event_first_match:
  "check_event_builtin X Y en e =
     map_option (sigma_alert X (en_match_debug en) e) (find (rule_matches X Y e)
       (concat (map (\<lambda>k. case hm_get (en_rules_by_logsource en) k of None \<Rightarrow> [] | Some rs \<Rightarrow> rs)
         (sigma_logsources_for_event e))))"
  by (simp add: check_event_builtin_def check_logsources_find)

text \<open>
  C2: end to end, from rule files to alerts: an engine that loaded any list of rule files raises no alert
  for an event exactly when no acceptable rule of the files is both filed under a log source
  of the event and satisfied by it. A rule is acceptable when its log source is loadable and it
  compiles, and no earlier rule of its file failed to compile.
\<close>

theorem detection_complete:
  "check_event_builtin X Y (load_rules X Y sh files (engine_new p level)) e = None \<longleftrightarrow>
     \<not> (\<exists>c \<in> set (accepted_files X Y p files).
          cr_logsource c \<in> set (sigma_logsources_for_event e) \<and> rule_matches X Y e c)"
proof -
  let ?en = "load_rules X Y sh files (engine_new p level)"
  have "engine_inv (accepted_files X Y p files) ?en"
    using load_files_inv [OF engine_new_inv, of X Y p level files sh] by (simp add: engine_new_def)
  then have "set (concat (map (\<lambda>k. case hm_get (en_rules_by_logsource ?en) k of None \<Rightarrow> []
        | Some rs \<Rightarrow> rs) ks)) = {c \<in> set (accepted_files X Y p files). cr_logsource c \<in> set ks}" for ks
    by (auto simp: engine_inv_def)
  then show ?thesis
    by (auto simp: check_event_builtin_def check_logsources_find find_None_iff)
qed

definition loadable :: "platform \<Rightarrow> 'n sigma_rule \<Rightarrow> bool" where
  "loadable p r =
     (case rule_load_decision p (from_logsource (sr_logsource r)) of Load _ \<Rightarrow> True | _ \<Rightarrow> False)"

definition file_fails ::
  "('re, 'net, 'f) crates \<Rightarrow> ('f, 'n, 'tree) rule_crates \<Rightarrow> platform
   \<Rightarrow> string \<times> (string + 'n sigma_rule list) \<Rightarrow> bool" where
  "file_fails X Y p rf =
     (case snd rf of Inl _ \<Rightarrow> True
      | Inr rules \<Rightarrow> list_ex (\<lambda>r. loadable p r \<and> isl (compile_rule X Y r)) rules)"

lemma load_rule_builtin_error:
  "(snd (load_rule_builtin X Y rules en) \<noteq> None) =
     list_ex (\<lambda>r. loadable (en_platform en) r \<and> isl (compile_rule X Y r)) rules"
proof (induction rules arbitrary: en)
  case (Cons r rules)
  show ?case
  proof (cases "rule_load_decision (en_platform en) (from_logsource (sr_logsource r))")
    case (Load b)
    then have "loadable (en_platform en) r" by (simp add: loadable_def)
    with Cons.IH Load show ?thesis
      by (cases "compile_rule X Y r") (simp_all add: Let_def file_rule_def)
  next
    case ProductMismatch
    then have "\<not> loadable (en_platform en) r" by (simp add: loadable_def)
    with Cons.IH ProductMismatch show ?thesis by (simp add: Let_def)
  next
    case Deferred
    then have "\<not> loadable (en_platform en) r" by (simp add: loadable_def)
    with Cons.IH Deferred show ?thesis by (simp add: Let_def)
  next
    case Unknown
    then have "\<not> loadable (en_platform en) r" by (simp add: loadable_def)
    with Cons.IH Unknown show ?thesis by (simp add: Let_def)
  qed
qed simp

lemma load_rule_builtin_frame [simp]:
  "en_failed_rules (fst (load_rule_builtin X Y rules en)) = en_failed_rules en"
  "en_rule_files_found (fst (load_rule_builtin X Y rules en)) = en_rule_files_found en"
  by (induction X Y rules en rule: load_rule_builtin.induct)
    (auto simp: Let_def file_rule_def split: rule_load_decision.split sum.split)

lemma load_file_report:
  "en_rule_files_found (load_rule_file X Y sh rf en) = en_rule_files_found en + 1"
  "map fst (en_failed_rules (load_rule_file X Y sh rf en)) =
     map fst (en_failed_rules en) @ (if file_fails X Y (en_platform en) rf then [fst rf] else [])"
proof -
  show "en_rule_files_found (load_rule_file X Y sh rf en) = en_rule_files_found en + 1"
    by (cases "snd rf") (auto simp: load_rule_file_def Let_def case_prod_unfold split: option.split)
  show "map fst (en_failed_rules (load_rule_file X Y sh rf en)) =
     map fst (en_failed_rules en) @ (if file_fails X Y (en_platform en) rf then [fst rf] else [])"
  proof (cases "snd rf")
    case (Inr rules)
    let ?en = "en\<lparr>en_rule_files_found := en_rule_files_found en + 1\<rparr>"
    from Inr load_rule_builtin_error [of X Y rules ?en] show ?thesis
      by (cases "snd (load_rule_builtin X Y rules ?en)")
        (simp_all add: load_rule_file_def Let_def case_prod_unfold file_fails_def)
  qed (simp add: load_rule_file_def Let_def file_fails_def)
qed

text \<open>
  C32: the load report counts what happened: the rule count is the number of acceptable rules, every
  file is counted as found, and the failure list names, in order, exactly the files that could not
  be read and parsed or had a rule that did not compile.
\<close>

theorem load_report_exact:
  "let en = load_rules X Y sh files (engine_new p level)
   in en_rule_count en = length (accepted_files X Y p files) \<and>
      en_rule_files_found en = length files \<and>
      map fst (en_failed_rules en) = map fst (filter (file_fails X Y p) files)"
proof -
  have "en_rule_files_found (load_rules X Y sh files en) = en_rule_files_found en + length files \<and>
      map fst (en_failed_rules (load_rules X Y sh files en)) =
        map fst (en_failed_rules en) @ map fst (filter (file_fails X Y (en_platform en)) files)" for en
    by (induction files arbitrary: en) (simp_all add: load_rules_def load_file_report)
  then show ?thesis
    using load_files_inv [OF engine_new_inv, of X Y p level files sh]
    by (simp add: Let_def engine_inv_def engine_new_def)
qed

text \<open>
  The debug details of an alert are bounded whatever the rule and the event: at most 16 field
  matches and 8 keyword matches.
\<close>

lemma match_details_bounded:
  "case build_sigma_match_details X level e c results of
     None \<Rightarrow> level = DebugOff
   | Some d \<Rightarrow> (case md_sigma d of None \<Rightarrow> False
       | Some s \<Rightarrow> length (md_matches s) \<le> 16 \<and> length (md_keyword_matches s) \<le> 8)"
  using collect_selections_cap [of "([], [], False)" X e level results "cr_selections c"]
  by (simp add: build_sigma_match_details_def case_prod_unfold Let_def max_sigma_matches_def
      max_sigma_keyword_matches_def)

text \<open>
  Truncation respects the limit and the encoding: the result is at most \<open>max_len\<close> bytes, is the text itself
  exactly when that fits, and is well-formed UTF-8 when the text is: a character is never cut in
  half.
\<close>

lemma truncate_str_safe:
  assumes "valid_utf8 s"
  shows "length (fst (truncate_str s max_len)) \<le> max_len \<and>
    (snd (truncate_str s max_len) \<longleftrightarrow> max_len < length s) \<and>
    (fst (truncate_str s max_len) = s \<longleftrightarrow> length s \<le> max_len) \<and>
    valid_utf8 (fst (truncate_str s max_len))"
proof -
  have t: "valid_utf8 (take (floor_boundary s n) s)" if "n \<le> length s" for n
    using that floor_boundary_le [of s n]
    by (intro valid_utf8_take [OF assms floor_boundary_boundary]) simp
  have dots: "valid_utf8 ''...''" by (simp add: valid_utf8_ascii)
  have len: "length (take (floor_boundary s n) s) \<le> n" for n using floor_boundary_le [of s n] by simp
  show ?thesis
  proof (cases "length s \<le> max_len")
    case True
    then show ?thesis using assms by (simp add: truncate_str_def)
  next
    case False
    define r where "r = fst (truncate_str s max_len)"
    have "length r \<le> max_len"
      using len [of max_len] len [of "max_len - 3"] False by (auto simp: r_def truncate_str_def)
    moreover from this False have "r \<noteq> s" by auto
    moreover have "valid_utf8 r"
      using t [of max_len] valid_utf8_append [OF t dots, of "max_len - 3"] False
      by (simp add: r_def truncate_str_def)
    moreover have "snd (truncate_str s max_len)" using False by (simp add: truncate_str_def)
    ultimately show ?thesis using False by (simp add: r_def)
  qed
qed


end
