(* ===== verification/Ioc.thy ===== *)
theory Ioc
  imports Events Addr Lines
begin

text \<open>
  Indicators of compromise: \<open>src/ioc/types.rs\<close>, \<open>load.rs\<close>, \<open>matchers.rs\<close>, \<open>alert.rs\<close> and \<open>mod.rs\<close>.
  The loaders work on the contents of a file, \<open>None\<close> when it cannot be read. The CIDR and
  regular-expression crates are the record \<open>ioc_crates\<close>; nothing is assumed of them. The
  functions that the code compiles differently for Windows take the platform.
\<close>

section \<open>Types\<close>

datatype ioc_kind = IocMd5 | IocSha1 | IocSha256 | IocIp | IocDomain | IocPathRegex

definition kind_as_str :: "ioc_kind \<Rightarrow> string" where
  "kind_as_str k =
     (case k of IocMd5 \<Rightarrow> ''md5'' | IocSha1 \<Rightarrow> ''sha1'' | IocSha256 \<Rightarrow> ''sha256'' | IocIp \<Rightarrow> ''ip''
      | IocDomain \<Rightarrow> ''domain'' | IocPathRegex \<Rightarrow> ''path_regex'')"

record ioc_match =
  im_kind :: ioc_kind
  im_indicator :: string
  im_observed :: string
  im_comment :: "string option"
  im_source :: string
  im_line :: nat

record ioc_meta =
  me_comment :: "string option"
  me_source :: string
  me_line :: nat

record hash_iocs =
  hi_md5 :: "(string, ioc_meta) hmap"
  hi_sha1 :: "(string, ioc_meta) hmap"
  hi_sha256 :: "(string, ioc_meta) hmap"

record 'net ip_iocs =
  ii_exact :: "(ip_addr, ioc_meta) hmap"
  ii_cidr :: "('net \<times> ioc_meta) list"

record domain_iocs =
  di_exact :: "(string, ioc_meta) hmap"
  di_suffix :: "(string \<times> ioc_meta) list"

record 'set path_iocs =
  pa_regex_set :: "'set option"
  pa_patterns :: "(string \<times> ioc_meta) list"

record ('net, 'set) ioc_crates =
  ic_net_parse :: "string \<Rightarrow> 'net option"
  ic_net_contains :: "'net \<Rightarrow> ip_addr \<Rightarrow> bool"
  ic_net_show :: "'net \<Rightarrow> string"
  ic_regex_valid :: "string \<Rightarrow> bool"
  ic_regex_set :: "string list \<Rightarrow> 'set option"
  ic_set_matches :: "'set \<Rightarrow> string \<Rightarrow> nat list"

section \<open>Loading\<close>

definition parse_severity :: "string \<Rightarrow> alert_severity" where
  "parse_severity value =
     (let v = to_ascii_lowercase (str_trim value)
      in if v = ''critical'' then Critical else if v = ''high'' then High
         else if v = ''medium'' then Medium else if v = ''low'' then Low else High)"

definition split_value_and_comment :: "string \<Rightarrow> string \<times> string option" where
  "split_value_and_comment line =
     (case split_once CHR '';'' line of
        None \<Rightarrow> (str_trim line, None)
      | Some (v, c) \<Rightarrow> (str_trim v, let t = str_trim c in if t = [] then None else Some t))"

definition should_skip_line :: "string \<Rightarrow> bool" where
  "should_skip_line line \<longleftrightarrow> line = [] \<or> starts_with line ''#'' \<or> starts_with line ''//''"

definition read_lines :: "string option \<Rightarrow> (nat \<times> string) list" where
  "read_lines content =
     (case content of None \<Rightarrow> []
      | Some c \<Rightarrow> enumerate 1 (lines_of (split_by (\<lambda>x. x = CHR 0x0A) c)))"

text \<open>
  What the four loaders do with a line before they parse its value: trim, skip blanks and comment
  lines, split off the comment.
\<close>

definition line_entry :: "string \<Rightarrow> nat \<times> string \<Rightarrow> (string \<times> ioc_meta) option" where
  "line_entry source nl =
     (let line = str_trim (snd nl) in
      if should_skip_line line then None
      else
        let (v, comment) = split_value_and_comment line; value = str_trim v
        in if value = [] then None
           else Some (value, \<lparr>me_comment = comment, me_source = source, me_line = fst nl\<rparr>))"

definition file_entries :: "string \<Rightarrow> string option \<Rightarrow> (string \<times> ioc_meta) list" where
  "file_entries source content = List.map_filter (line_entry source) (read_lines content)"

definition is_hex :: "string \<Rightarrow> bool" where
  "is_hex v \<longleftrightarrow> list_all (is_digit 16) v"

definition add_hash :: "string \<times> ioc_meta \<Rightarrow> hash_iocs \<Rightarrow> hash_iocs" where
  "add_hash entry iocs =
     (let normalized = to_ascii_lowercase (fst entry); meta = snd entry in
      if \<not> is_hex normalized then iocs
      else if length normalized = 32 then iocs\<lparr>hi_md5 := hm_insert normalized meta (hi_md5 iocs)\<rparr>
      else if length normalized = 40 then iocs\<lparr>hi_sha1 := hm_insert normalized meta (hi_sha1 iocs)\<rparr>
      else if length normalized = 64
        then iocs\<lparr>hi_sha256 := hm_insert normalized meta (hi_sha256 iocs)\<rparr>
      else iocs)"

definition load_hashes :: "string \<Rightarrow> string option \<Rightarrow> hash_iocs" where
  "load_hashes source content =
     fold add_hash (file_entries source content) \<lparr>hi_md5 = [], hi_sha1 = [], hi_sha256 = []\<rparr>"

definition add_ip ::
  "('net, 'set) ioc_crates \<Rightarrow> string \<times> ioc_meta \<Rightarrow> 'net ip_iocs \<Rightarrow> 'net ip_iocs" where
  "add_ip C entry iocs =
     (if str_contains (fst entry) ''/'' then
        (case ic_net_parse C (fst entry) of
           Some network \<Rightarrow> iocs\<lparr>ii_cidr := ii_cidr iocs @ [(network, snd entry)]\<rparr>
         | None \<Rightarrow> iocs)
      else
        (case parse_ip (fst entry) of
           Some ip \<Rightarrow> iocs\<lparr>ii_exact := hm_insert ip (snd entry) (ii_exact iocs)\<rparr>
         | None \<Rightarrow> iocs))"

definition load_ips :: "('net, 'set) ioc_crates \<Rightarrow> string \<Rightarrow> string option \<Rightarrow> 'net ip_iocs" where
  "load_ips C source content =
     fold (add_ip C) (file_entries source content) \<lparr>ii_exact = [], ii_cidr = []\<rparr>"

definition normalize_domain_ioc :: "string \<Rightarrow> string" where
  "normalize_domain_ioc value =
     (let n = trim_end_matches_char CHR ''.'' (to_ascii_lowercase value)
      in if starts_with n ''*.'' then ''.'' @ trim_start_matches ''*.'' n else n)"

definition add_domain :: "string \<times> ioc_meta \<Rightarrow> domain_iocs \<Rightarrow> domain_iocs" where
  "add_domain entry iocs =
     (let normalized = normalize_domain_ioc (fst entry); meta = snd entry in
      if starts_with normalized ''.'' then
        let suffix' = trim_start_matches_char CHR ''.'' normalized
        in if suffix' \<noteq> [] then iocs\<lparr>di_suffix := di_suffix iocs @ [(suffix', meta)]\<rparr> else iocs
      else iocs\<lparr>di_exact := hm_insert normalized meta (di_exact iocs)\<rparr>)"

definition load_domains :: "string \<Rightarrow> string option \<Rightarrow> domain_iocs" where
  "load_domains source content =
     fold add_domain (file_entries source content) \<lparr>di_exact = [], di_suffix = []\<rparr>"

definition load_path_regexes ::
  "('net, 'set) ioc_crates \<Rightarrow> string \<Rightarrow> string option \<Rightarrow> 'set path_iocs" where
  "load_path_regexes C source content =
     (let kept = filter (\<lambda>e. ic_regex_valid C (fst e)) (file_entries source content);
          patterns = map fst kept
      in \<lparr>pa_regex_set = (if patterns \<noteq> [] then ic_regex_set C patterns else None),
          pa_patterns = kept\<rparr>)"

section \<open>The engine\<close>

record ioc_config =
  cf_enabled :: bool
  cf_default_severity :: string
  cf_hashes_path :: string
  cf_ips_path :: string
  cf_domains_path :: string
  cf_paths_regex_path :: string
  cf_max_file_size_mb :: u64
  cf_hash_allowlist_paths :: "string list"

record ('net, 'set) ioc_engine =
  ie_enabled :: bool
  ie_severity :: alert_severity
  ie_hash_iocs :: hash_iocs
  ie_ip_iocs :: "'net ip_iocs"
  ie_domain_iocs :: domain_iocs
  ie_path_iocs :: "'set path_iocs"
  ie_max_file_size_bytes :: u64
  ie_hash_allowlist_paths :: "string list"

definition normalize_allowlist_path :: "platform \<Rightarrow> string \<Rightarrow> string" where
  "normalize_allowlist_path p path =
     (if p = Windows then to_ascii_lowercase (str_replace ''/'' [backslash] (str_trim path))
      else str_trim path)"

definition ioc_disabled :: "('net, 'set) ioc_engine" where
  "ioc_disabled = \<lparr>ie_enabled = False, ie_severity = Low,
     ie_hash_iocs = \<lparr>hi_md5 = [], hi_sha1 = [], hi_sha256 = []\<rparr>,
     ie_ip_iocs = \<lparr>ii_exact = [], ii_cidr = []\<rparr>,
     ie_domain_iocs = \<lparr>di_exact = [], di_suffix = []\<rparr>,
     ie_path_iocs = \<lparr>pa_regex_set = None, pa_patterns = []\<rparr>,
     ie_max_file_size_bytes = 0, ie_hash_allowlist_paths = []\<rparr>"

definition ioc_load ::
  "('net, 'set) ioc_crates \<Rightarrow> platform \<Rightarrow> (string \<Rightarrow> string option) \<Rightarrow> ioc_config
   \<Rightarrow> ('net, 'set) ioc_engine" where
  "ioc_load C p read cfg =
     (if \<not> cf_enabled cfg then ioc_disabled
      else \<lparr>ie_enabled = True, ie_severity = parse_severity (cf_default_severity cfg),
        ie_hash_iocs = load_hashes (cf_hashes_path cfg) (read (cf_hashes_path cfg)),
        ie_ip_iocs = load_ips C (cf_ips_path cfg) (read (cf_ips_path cfg)),
        ie_domain_iocs = load_domains (cf_domains_path cfg) (read (cf_domains_path cfg)),
        ie_path_iocs = load_path_regexes C (cf_paths_regex_path cfg)
          (read (cf_paths_regex_path cfg)),
        ie_max_file_size_bytes = cf_max_file_size_mb cfg * 1024 * 1024,
        ie_hash_allowlist_paths =
          map (normalize_allowlist_path p) (cf_hash_allowlist_paths cfg)\<rparr>)"

record hash_requirements =
  hr_md5 :: bool
  hr_sha1 :: bool
  hr_sha256 :: bool

record computed_hashes =
  ch_md5 :: "string option"
  ch_sha1 :: "string option"
  ch_sha256 :: "string option"

definition hash_requirements_of :: "('net, 'set) ioc_engine \<Rightarrow> hash_requirements" where
  "hash_requirements_of en =
     \<lparr>hr_md5 = (hi_md5 (ie_hash_iocs en) \<noteq> []), hr_sha1 = (hi_sha1 (ie_hash_iocs en) \<noteq> []),
      hr_sha256 = (hi_sha256 (ie_hash_iocs en) \<noteq> [])\<rparr>"

definition wants_hashing :: "('net, 'set) ioc_engine \<Rightarrow> bool" where
  "wants_hashing en \<longleftrightarrow>
     (let req = hash_requirements_of en in hr_md5 req \<or> hr_sha1 req \<or> hr_sha256 req)"

definition is_hash_allowlisted :: "platform \<Rightarrow> ('net, 'set) ioc_engine \<Rightarrow> string \<Rightarrow> bool" where
  "is_hash_allowlisted p en path =
     list_ex (starts_with (normalize_allowlist_path p path)) (ie_hash_allowlist_paths en)"

section \<open>Matching\<close>

definition build_match :: "ioc_kind \<Rightarrow> string \<Rightarrow> string \<Rightarrow> ioc_meta \<Rightarrow> ioc_match" where
  "build_match kind indicator observed meta =
     \<lparr>im_kind = kind, im_indicator = indicator, im_observed = observed,
      im_comment = me_comment meta, im_source = me_source meta, im_line = me_line meta\<rparr>"

definition match_key_of :: "ioc_match \<Rightarrow> string" where
  "match_key_of m = kind_as_str (im_kind m) @ '':'' @ im_indicator m @ '':'' @ im_observed m @ '':'' @
     im_source m @ '':'' @ show_radix 10 (im_line m)"

text \<open>The matches so far and the keys seen.\<close>

type_synonym match_acc = "ioc_match list \<times> string list"

definition push_match_unique :: "ioc_match \<Rightarrow> match_acc \<Rightarrow> match_acc" where
  "push_match_unique m acc =
     (let key = match_key_of m
      in if key \<in> set (snd acc) then acc else (fst acc @ [m], key # snd acc))"

definition normalize_domain :: "string \<Rightarrow> string option" where
  "normalize_domain value =
     (let host = to_ascii_lowercase (str_trim value) in
      if host = [] then None
      else let host' = trim_end_matches_char CHR ''.'' host
           in if host' = [] then None else Some host')"

text \<open>White space is split off by character, so a token is cut at every encoding of one.\<close>

function ioc_tokens :: "string \<Rightarrow> string \<Rightarrow> string list" where
  "ioc_tokens acc s =
     (if s = [] then [acc]
      else let n = snd (utf8_step s); c = take n s
           in if c \<in> set white_space \<or> c = '','' \<or> c = '';'' then acc # ioc_tokens [] (drop n s)
              else ioc_tokens (acc @ c) (drop n s))"
  by pat_completeness auto
termination
proof (relation "measure (\<lambda>(acc, s). length s)", simp)
  fix s n c acc assume "s \<noteq> []" and "n = snd (utf8_step s)"
  then show "(([], drop n s), acc, s) \<in> measure (\<lambda>(acc, s). length s)"
    using utf8_step_drop [of s] by (simp del: length_drop)
next
  fix s n c acc assume "s \<noteq> []" and "n = snd (utf8_step s)"
  then show "((acc @ c, drop n s), acc, s) \<in> measure (\<lambda>(acc, s). length s)"
    using utf8_step_drop [of s] by (simp del: length_drop)
qed

declare ioc_tokens.simps [simp del]

definition ioc_extract_ips :: "string \<Rightarrow> string list" where
  "ioc_extract_ips value = filter (\<lambda>t. t \<noteq> []) (ioc_tokens [] value)"

definition option_list :: "'a option \<Rightarrow> 'a list" where
  "option_list v = (case v of None \<Rightarrow> [] | Some x \<Rightarrow> [x])"

definition domain_candidates :: "event_fields \<Rightarrow> string list" where
  "domain_candidates fs =
     (case fs of
        DnsQuery f \<Rightarrow> option_list (dq_query_name f)
      | NetworkConnection f \<Rightarrow> option_list (nc_destination_hostname f)
      | WmiEvent f \<Rightarrow> option_list (wm_destination_hostname f)
      | _ \<Rightarrow> [])"

definition ip_candidates :: "event_fields \<Rightarrow> string list" where
  "ip_candidates fs =
     (case fs of
        NetworkConnection f \<Rightarrow> option_list (nc_destination_ip f) @ option_list (nc_source_ip f)
      | DnsQuery f \<Rightarrow> (case dq_query_results f of Some v \<Rightarrow> ioc_extract_ips v | None \<Rightarrow> [])
      | _ \<Rightarrow> [])"

definition path_candidates :: "event_fields \<Rightarrow> string list" where
  "path_candidates fs =
     (case fs of
        ProcessCreation f \<Rightarrow> option_list (pc_image f) @ option_list (pc_target_image f)
      | FileEvent f \<Rightarrow> option_list (fe_target_filename f)
      | ImageLoad f \<Rightarrow> option_list (il_image_loaded f)
      | PowerShellScript f \<Rightarrow> option_list (ps_path f)
      | ServiceCreation f \<Rightarrow> option_list (sc_service_file_name f)
      | _ \<Rightarrow> [])"

text \<open>The matches of one candidate, in the order the code pushes them.\<close>

definition domain_matches :: "domain_iocs \<Rightarrow> string \<Rightarrow> ioc_match list" where
  "domain_matches iocs candidate =
     (case normalize_domain candidate of
        None \<Rightarrow> []
      | Some host \<Rightarrow>
          (case hm_get (di_exact iocs) host of
             Some meta \<Rightarrow> [build_match IocDomain host host meta] | None \<Rightarrow> []) @
          List.map_filter
            (\<lambda>(suffix', meta).
               if host = suffix' \<or> ends_with host (''.'' @ suffix')
               then Some (build_match IocDomain (''.'' @ suffix') host meta) else None)
            (di_suffix iocs))"

definition ip_matches ::
  "('net, 'set) ioc_crates \<Rightarrow> 'net ip_iocs \<Rightarrow> string \<Rightarrow> ioc_match list" where
  "ip_matches C iocs candidate =
     (case parse_ip candidate of
        None \<Rightarrow> []
      | Some ip \<Rightarrow>
          (case hm_get (ii_exact iocs) ip of
             Some meta \<Rightarrow> [build_match IocIp (show_ip ip) candidate meta] | None \<Rightarrow> []) @
          List.map_filter
            (\<lambda>(network, meta).
               if ic_net_contains C network ip
               then Some (build_match IocIp (ic_net_show C network) candidate meta) else None)
            (ii_cidr iocs))"

definition path_matches ::
  "('net, 'set) ioc_crates \<Rightarrow> 'set path_iocs \<Rightarrow> string \<Rightarrow> ioc_match list" where
  "path_matches C iocs candidate =
     (case pa_regex_set iocs of
        None \<Rightarrow> []
      | Some regex_set \<Rightarrow>
          List.map_filter
            (\<lambda>idx. if idx < length (pa_patterns iocs)
                   then let (pattern, meta) = pa_patterns iocs ! idx
                        in Some (build_match IocPathRegex pattern candidate meta)
                   else None)
            (ic_set_matches C regex_set candidate))"

definition ioc_check_event ::
  "('net, 'set) ioc_crates \<Rightarrow> ('net, 'set) ioc_engine \<Rightarrow> normalized_event \<Rightarrow> ioc_match list" where
  "ioc_check_event C en event =
     (if \<not> ie_enabled en then []
      else fst (fold push_match_unique
        (concat (map (domain_matches (ie_domain_iocs en)) (domain_candidates (ev_fields event))) @
         concat (map (ip_matches C (ie_ip_iocs en)) (ip_candidates (ev_fields event))) @
         concat (map (path_matches C (ie_path_iocs en)) (path_candidates (ev_fields event))))
        ([], [])))"

definition hash_match :: "ioc_kind \<Rightarrow> (string, ioc_meta) hmap \<Rightarrow> string option \<Rightarrow> ioc_match list" where
  "hash_match kind m v =
     (case v of None \<Rightarrow> []
      | Some value \<Rightarrow> (case hm_get m value of
            Some meta \<Rightarrow> [build_match kind value value meta] | None \<Rightarrow> []))"

definition match_hashes :: "('net, 'set) ioc_engine \<Rightarrow> computed_hashes \<Rightarrow> ioc_match list" where
  "match_hashes en hashes =
     (if \<not> ie_enabled en then []
      else hash_match IocMd5 (hi_md5 (ie_hash_iocs en)) (ch_md5 hashes) @
        hash_match IocSha1 (hi_sha1 (ie_hash_iocs en)) (ch_sha1 hashes) @
        hash_match IocSha256 (hi_sha256 (ie_hash_iocs en)) (ch_sha256 hashes))"

section \<open>Alerts\<close>

definition ioc_rule_name :: "ioc_match \<Rightarrow> string" where
  "ioc_rule_name m = ''ioc:'' @ kind_as_str (im_kind m) @ '':'' @ im_indicator m"

definition ioc_rule_description :: "ioc_match \<Rightarrow> string option" where
  "ioc_rule_description m =
     Some (join '' | ''
       (option_list (im_comment m) @
        (if im_observed m \<noteq> im_indicator m then [''observed: '' @ im_observed m] else []) @
        [''source: '' @ im_source m]))"

definition build_alert_for_match ::
  "('net, 'set) ioc_engine \<Rightarrow> ioc_match \<Rightarrow> normalized_event \<Rightarrow> alert" where
  "build_alert_for_match en m event =
     \<lparr>al_severity = ie_severity en, al_rule_name = ioc_rule_name m,
      al_rule_description = ioc_rule_description m,
      al_rule_id = Some (''ioc::'' @ kind_as_str (im_kind m) @ ''::'' @ im_indicator m),
      al_engine = EngineIoc, al_event = event, al_match_details = None\<rparr>"

definition build_alert_for_hash_match ::
  "('net, 'set) ioc_engine \<Rightarrow> string \<Rightarrow> ioc_match \<Rightarrow> string \<Rightarrow> u32 \<Rightarrow> platform \<Rightarrow> string \<Rightarrow> alert" where
  "build_alert_for_hash_match en timestamp m path pid p provider =
     build_alert_for_match en m
       \<lparr>ev_timestamp = timestamp, ev_platform = p, ev_provider = provider,
        ev_category = CatProcess, ev_event_id = 1, ev_event_id_string = ''1'', ev_opcode = 1,
        ev_fields = ProcessCreation
          \<lparr>pc_image = Some path, pc_original_file_name = None, pc_product = None,
           pc_description = None, pc_target_image = None, pc_command_line = None,
           pc_process_id = Some (show_uint pid), pc_process_start_time = None,
           pc_parent_process_id = None, pc_parent_image = None, pc_parent_command_line = None,
           pc_current_directory = None, pc_integrity_level = None, pc_user = None,
           pc_logon_id = None, pc_logon_guid = None\<rparr>,
        ev_process_context = None\<rparr>"

section \<open>Domain names as label lists\<close>

text \<open>
  What a domain indicator promises, on the labels of a host name: an exact indicator covers that
  host, an indicator that starts with a dot or with \<open>*.\<close> covers its domain and every subdomain.
\<close>

definition labels :: "string \<Rightarrow> string list" where
  "labels host = split_by (\<lambda>c. c = CHR ''.'') host"

definition covers_host :: "string \<Rightarrow> string \<Rightarrow> bool" where
  "covers_host value host =
     (let n = normalize_domain_ioc value; d = trim_start_matches_char CHR ''.'' n
      in if starts_with n ''.'' then d \<noteq> [] \<and> suffix (labels d) (labels host) else host = n)"

lemma join_append_nonempty:
  "us \<noteq> [] \<Longrightarrow> ws \<noteq> [] \<Longrightarrow> join sep (us @ ws) = join sep us @ sep @ join sep ws"
  by (induction us rule: list_nonempty_induct) (simp_all add: join_Cons)

lemma split_by_append_sep:
  "P c \<Longrightarrow> split_by P (u @ c # v) = split_by P u @ split_by P v"
proof (induction u)
  case (Cons x u)
  then show ?case by (cases "split_by P u") (auto split: list.splits)
qed simp

lemma labels_subdomain:
  "suffix (labels d) (labels host) \<longleftrightarrow> host = d \<or> ends_with host (''.'' @ d)"
proof
  assume "suffix (labels d) (labels host)"
  then obtain us where us: "labels host = us @ labels d" by (auto simp: suffix_def)
  have host: "host = join [CHR ''.''] (labels host)" for host by (simp add: labels_def join_split_by)
  show "host = d \<or> ends_with host (''.'' @ d)"
  proof (cases "us = []")
    case True
    with us host [of host] host [of d] show ?thesis by simp
  next
    case False
    have "host = join [CHR ''.''] (us @ labels d)" using host [of host] us by simp
    also have "\<dots> = join [CHR ''.''] us @ ''.'' @ join [CHR ''.''] (labels d)"
      using False by (intro join_append_nonempty) (simp_all add: labels_def)
    also have "join [CHR ''.''] (labels d) = d" using host [of d] by simp
    finally have "host = join [CHR ''.''] us @ ''.'' @ d" .
    then show ?thesis by (auto simp: suffix_def)
  qed
next
  assume "host = d \<or> ends_with host (''.'' @ d)"
  then consider "host = d" | u where "host = u @ CHR ''.'' # d" by (auto simp: suffix_def)
  then show "suffix (labels d) (labels host)"
    by cases (auto simp: labels_def split_by_append_sep suffix_def)
qed

section \<open>What the loaders keep\<close>

lemma hm_insert_Some_iff:
  "(\<exists>w. hm_get (hm_insert k v m) k' = Some w) \<longleftrightarrow> k = k' \<or> (\<exists>w. hm_get m k' = Some w)"
  by (simp add: update_conv')

definition exact_domain :: "string \<times> ioc_meta \<Rightarrow> string \<Rightarrow> bool" where
  "exact_domain entry host \<longleftrightarrow>
     \<not> starts_with (normalize_domain_ioc (fst entry)) ''.'' \<and> normalize_domain_ioc (fst entry) = host"

definition suffix_domain :: "string \<times> ioc_meta \<Rightarrow> (string \<times> ioc_meta) option" where
  "suffix_domain entry =
     (let d = trim_start_matches_char CHR ''.'' (normalize_domain_ioc (fst entry))
      in if starts_with (normalize_domain_ioc (fst entry)) ''.'' \<and> d \<noteq> [] then Some (d, snd entry)
         else None)"

lemma fold_add_domain_exact:
  "(\<exists>w. hm_get (di_exact (fold add_domain es iocs)) host = Some w) \<longleftrightarrow>
   (\<exists>w. hm_get (di_exact iocs) host = Some w) \<or> (\<exists>e \<in> set es. exact_domain e host)"
proof (induction es arbitrary: iocs)
  case (Cons e es)
  have "(\<exists>w. hm_get (di_exact (add_domain e iocs)) host = Some w) \<longleftrightarrow>
      (\<exists>w. hm_get (di_exact iocs) host = Some w) \<or> exact_domain e host"
    by (auto simp: add_domain_def exact_domain_def Let_def hm_insert_Some_iff)
  with Cons show ?case by auto
qed simp

lemma fold_add_domain_suffix:
  "di_suffix (fold add_domain es iocs) = di_suffix iocs @ List.map_filter suffix_domain es"
  by (induction es arbitrary: iocs)
    (auto simp: add_domain_def suffix_domain_def Let_def List.map_filter_def)

lemma covers_host_cases:
  "covers_host (fst e) host \<longleftrightarrow>
   exact_domain e host \<or>
   (\<exists>d m. suffix_domain e = Some (d, m) \<and> (host = d \<or> ends_with host (''.'' @ d)))"
  by (auto simp: covers_host_def exact_domain_def suffix_domain_def Let_def labels_subdomain)

lemma map_filter_Nil_iff: "List.map_filter f xs = [] \<longleftrightarrow> (\<forall>x \<in> set xs. f x = None)"
  by (auto simp: List.map_filter_def filter_empty_conv)

lemma set_map_filter_iff: "set (List.map_filter f xs) = {y. \<exists>x \<in> set xs. f x = Some y}"
  by (force simp: List.map_filter_def)

lemma domain_matches_kind: "m \<in> set (domain_matches iocs c) \<Longrightarrow> im_kind m = IocDomain"
  by (auto simp: domain_matches_def build_match_def List.map_filter_def
      split: option.splits if_splits)

lemma domain_matches_some:
  "domain_matches (load_domains source content) c \<noteq> [] \<longleftrightarrow>
   (\<exists>host. normalize_domain c = Some host \<and>
     (\<exists>e \<in> set (file_entries source content). covers_host (fst e) host))"
proof (cases "normalize_domain c")
  case (Some host)
  let ?es = "file_entries source content"
  let ?iocs = "load_domains source content"
  have suffixes: "di_suffix ?iocs = List.map_filter suffix_domain ?es"
    by (simp add: load_domains_def fold_add_domain_suffix)
  have exact: "(\<exists>w. hm_get (di_exact ?iocs) host = Some w) \<longleftrightarrow> (\<exists>e \<in> set ?es. exact_domain e host)"
    by (simp add: load_domains_def fold_add_domain_exact)
  have "domain_matches ?iocs c \<noteq> [] \<longleftrightarrow>
      (\<exists>w. hm_get (di_exact ?iocs) host = Some w) \<or>
      (\<exists>d m. (d, m) \<in> set (di_suffix ?iocs) \<and> (host = d \<or> ends_with host (''.'' @ d)))"
    using Some
    by (simp add: domain_matches_def map_filter_Nil_iff split_beta split: option.splits)
      (metis fst_conv prod.collapse)
  also have "\<dots> \<longleftrightarrow> (\<exists>e \<in> set ?es. covers_host (fst e) host)"
    unfolding suffixes exact covers_host_cases set_map_filter_iff by blast
  finally show ?thesis using Some by simp
qed (simp add: domain_matches_def)

lemma ip_matches_kind: "m \<in> set (ip_matches C iocs c) \<Longrightarrow> im_kind m = IocIp"
  by (auto simp: ip_matches_def build_match_def set_map_filter_iff split: option.splits if_splits)

lemma path_matches_kind: "m \<in> set (path_matches C iocs c) \<Longrightarrow> im_kind m = IocPathRegex"
  by (auto simp: path_matches_def build_match_def set_map_filter_iff split_beta
      split: option.splits if_splits)

section \<open>Deduplication by key\<close>

lemma match_key_kind: "match_key_of m = match_key_of n \<Longrightarrow> im_kind m = im_kind n"
  by (cases "im_kind m"; cases "im_kind n") (simp_all add: match_key_of_def kind_as_str_def)

definition acc_ok :: "match_acc \<Rightarrow> bool" where
  "acc_ok acc \<longleftrightarrow> distinct (map match_key_of (fst acc)) \<and> match_key_of ` set (fst acc) = set (snd acc)"

lemma push_match_unique_ok:
  "acc_ok acc \<Longrightarrow>
   acc_ok (push_match_unique m acc) \<and>
   set (snd (push_match_unique m acc)) = insert (match_key_of m) (set (snd acc)) \<and>
   set (fst (push_match_unique m acc)) \<subseteq> insert m (set (fst acc))"
  by (auto simp: push_match_unique_def acc_ok_def Let_def)

lemma push_all:
  "acc_ok acc \<Longrightarrow>
   acc_ok (fold push_match_unique ms acc) \<and>
   set (snd (fold push_match_unique ms acc)) = match_key_of ` set ms \<union> set (snd acc) \<and>
   set (fst (fold push_match_unique ms acc)) \<subseteq> set ms \<union> set (fst acc)"
proof (induction ms arbitrary: acc)
  case (Cons m ms)
  obtain acc' where acc': "push_match_unique m acc = acc'" by blast
  from push_match_unique_ok [OF Cons.prems, of m]
  have step: "acc_ok acc'" "set (snd acc') = insert (match_key_of m) (set (snd acc))"
      "set (fst acc') \<subseteq> insert m (set (fst acc))"
    by (simp_all add: acc')
  from Cons.IH [OF step(1)] step show ?case
    by (auto simp: acc')
qed simp

lemma push_all_start:
  "distinct (map match_key_of (fst (fold push_match_unique ms ([], []))))"
  "match_key_of ` set (fst (fold push_match_unique ms ([], []))) = match_key_of ` set ms"
  "set (fst (fold push_match_unique ms ([], []))) \<subseteq> set ms"
proof -
  note all = push_all [of "([], [])" ms, simplified acc_ok_def [of "([], [])"], simplified]
  then show "distinct (map match_key_of (fst (fold push_match_unique ms ([], []))))"
    and "match_key_of ` set (fst (fold push_match_unique ms ([], []))) = match_key_of ` set ms"
    and "set (fst (fold push_match_unique ms ([], []))) \<subseteq> set ms"
    by (simp_all add: acc_ok_def)
qed

lemma push_all_kind:
  "(\<exists>m \<in> set (fst (fold push_match_unique ms ([], []))). im_kind m = k) \<longleftrightarrow>
   (\<exists>m \<in> set ms. im_kind m = k)"
proof
  assume "\<exists>m \<in> set ms. im_kind m = k"
  then obtain m where m: "m \<in> set ms" "im_kind m = k" by blast
  then have "match_key_of m \<in> match_key_of ` set (fst (fold push_match_unique ms ([], [])))"
    by (simp add: push_all_start(2))
  then obtain n where n: "n \<in> set (fst (fold push_match_unique ms ([], [])))"
    and key: "match_key_of m = match_key_of n" by (rule imageE)
  from match_key_kind [OF key] m(2) n
  show "\<exists>m \<in> set (fst (fold push_match_unique ms ([], []))). im_kind m = k" by metis
qed (use push_all_start(3) in blast)

text \<open>Every match of every candidate, before deduplication.\<close>

definition candidate_matches ::
  "('net, 'set) ioc_crates \<Rightarrow> ('net, 'set) ioc_engine \<Rightarrow> normalized_event \<Rightarrow> ioc_match list" where
  "candidate_matches C en event =
     concat (map (domain_matches (ie_domain_iocs en)) (domain_candidates (ev_fields event))) @
     concat (map (ip_matches C (ie_ip_iocs en)) (ip_candidates (ev_fields event))) @
     concat (map (path_matches C (ie_path_iocs en)) (path_candidates (ev_fields event)))"

lemma check_event_fold:
  "ioc_check_event C en event =
     (if ie_enabled en then fst (fold push_match_unique (candidate_matches C en event) ([], []))
      else [])"
  by (simp add: ioc_check_event_def candidate_matches_def)

lemma candidate_domain_match:
  "(\<exists>m \<in> set (candidate_matches C en event). im_kind m = IocDomain) \<longleftrightarrow>
   (\<exists>c \<in> set (domain_candidates (ev_fields event)). domain_matches (ie_domain_iocs en) c \<noteq> [])"
  (is "?lhs \<longleftrightarrow> ?rhs")
proof
  assume ?lhs
  then obtain m where "m \<in> set (candidate_matches C en event)" "im_kind m = IocDomain" by blast
  then obtain c where "c \<in> set (domain_candidates (ev_fields event))"
    "m \<in> set (domain_matches (ie_domain_iocs en) c)"
    by (auto simp: candidate_matches_def dest: ip_matches_kind path_matches_kind)
  then show ?rhs by force
next
  assume ?rhs
  then obtain c m where c: "c \<in> set (domain_candidates (ev_fields event))"
    and m: "m \<in> set (domain_matches (ie_domain_iocs en) c)" by (meson list.set_sel(1))
  then show ?lhs
    using domain_matches_kind [OF m] by (auto simp: candidate_matches_def)
qed

section \<open>Hash indicators\<close>

definition digest_of :: "ioc_kind \<Rightarrow> computed_hashes \<Rightarrow> string option" where
  "digest_of k hashes =
     (case k of IocMd5 \<Rightarrow> ch_md5 hashes | IocSha1 \<Rightarrow> ch_sha1 hashes | IocSha256 \<Rightarrow> ch_sha256 hashes
      | _ \<Rightarrow> None)"

definition digest_length :: "ioc_kind \<Rightarrow> nat" where
  "digest_length k = (case k of IocMd5 \<Rightarrow> 32 | IocSha1 \<Rightarrow> 40 | IocSha256 \<Rightarrow> 64 | _ \<Rightarrow> 0)"

definition hash_table :: "ioc_kind \<Rightarrow> hash_iocs \<Rightarrow> (string, ioc_meta) hmap" where
  "hash_table k iocs =
     (case k of IocMd5 \<Rightarrow> hi_md5 iocs | IocSha1 \<Rightarrow> hi_sha1 iocs | IocSha256 \<Rightarrow> hi_sha256 iocs
      | _ \<Rightarrow> [])"

definition lists_hash :: "ioc_kind \<Rightarrow> string \<times> ioc_meta \<Rightarrow> string \<Rightarrow> bool" where
  "lists_hash k entry digest \<longleftrightarrow>
     digest_length k \<noteq> 0 \<and> length digest = digest_length k \<and> is_hex digest \<and>
     to_ascii_lowercase (fst entry) = digest"

lemma add_hash_table:
  "(\<exists>w. hm_get (hash_table k (add_hash e iocs)) d = Some w) \<longleftrightarrow>
   (\<exists>w. hm_get (hash_table k iocs) d = Some w) \<or> lists_hash k e d"
  by (cases k)
    (auto simp: add_hash_def hash_table_def lists_hash_def digest_length_def Let_def
      hm_insert_Some_iff)

lemma fold_add_hash_table:
  "(\<exists>w. hm_get (hash_table k (fold add_hash es iocs)) d = Some w) \<longleftrightarrow>
   (\<exists>w. hm_get (hash_table k iocs) d = Some w) \<or> (\<exists>e \<in> set es. lists_hash k e d)"
  by (induction es arbitrary: iocs) (auto simp: add_hash_table)

lemma hash_match_kind:
  "(\<exists>m \<in> set (hash_match k' t v). im_kind m = k) \<longleftrightarrow>
   k = k' \<and> (\<exists>d. v = Some d \<and> (\<exists>w. hm_get t d = Some w))"
  by (cases v; cases "hm_get t (the v)") (auto simp: hash_match_def build_match_def)

lemma hash_match_im_kind: "m \<in> set (hash_match k' t v) \<Longrightarrow> im_kind m = k'"
  by (auto simp: hash_match_def build_match_def split: option.splits if_splits)

lemma match_hashes_kind:
  "(\<exists>m \<in> set (match_hashes en hashes). im_kind m = k) \<longleftrightarrow>
   ie_enabled en \<and>
   (\<exists>d. digest_of k hashes = Some d \<and> (\<exists>w. hm_get (hash_table k (ie_hash_iocs en)) d = Some w))"
proof (cases "ie_enabled en")
  case True
  then have "(\<exists>m \<in> set (match_hashes en hashes). im_kind m = k) \<longleftrightarrow>
      (\<exists>m \<in> set (hash_match IocMd5 (hi_md5 (ie_hash_iocs en)) (ch_md5 hashes)). im_kind m = k) \<or>
      (\<exists>m \<in> set (hash_match IocSha1 (hi_sha1 (ie_hash_iocs en)) (ch_sha1 hashes)). im_kind m = k) \<or>
      (\<exists>m \<in> set (hash_match IocSha256 (hi_sha256 (ie_hash_iocs en)) (ch_sha256 hashes)).
         im_kind m = k)"
    unfolding match_hashes_def by auto
  with True show ?thesis
    unfolding hash_match_kind by (cases k) (simp_all add: digest_of_def hash_table_def)
qed (simp add: match_hashes_def)

lemma match_hashes_observed:
  "m \<in> set (match_hashes en hashes) \<Longrightarrow>
   digest_of (im_kind m) hashes = Some (im_observed m) \<and> im_indicator m = im_observed m"
  by (auto simp: match_hashes_def hash_match_def digest_of_def build_match_def
      split: option.splits if_splits)

section \<open>Properties\<close>

text \<open>
  C36: from the indicator file to the match: an event has a domain match exactly when matching is
  enabled and one of its host names, trimmed, lower-cased and without a final dot, is covered by
  a line of the domain file: it is that domain or, for a dot or star-dot line, has its labels as
  the last labels. An indicator never matches in the middle of a label.
\<close>

theorem domain_ioc_detection:
  "(\<exists>m \<in> set (ioc_check_event C (ioc_load C p read cfg) event). im_kind m = IocDomain) \<longleftrightarrow>
   cf_enabled cfg \<and>
   (\<exists>c \<in> set (domain_candidates (ev_fields event)). \<exists>host. normalize_domain c = Some host \<and>
     (\<exists>e \<in> set (file_entries (cf_domains_path cfg) (read (cf_domains_path cfg))).
        covers_host (fst e) host))"
  (is "?lhs \<longleftrightarrow> ?rhs")
proof (cases "cf_enabled cfg")
  case True
  let ?en = "ioc_load C p read cfg"
  let ?dom = "load_domains (cf_domains_path cfg) (read (cf_domains_path cfg))"
  have en: "ie_enabled ?en" "ie_domain_iocs ?en = ?dom" using True by (simp_all add: ioc_load_def)
  have "?lhs \<longleftrightarrow> (\<exists>c \<in> set (domain_candidates (ev_fields event)). domain_matches ?dom c \<noteq> [])"
    by (simp add: check_event_fold en push_all_kind candidate_domain_match)
  with True show ?thesis by (simp add: domain_matches_some)
qed (simp add: ioc_load_def ioc_check_event_def ioc_disabled_def)

text \<open>
  From the hash file to the match: for each digest kind, the digests of a file match exactly
  when matching is enabled and some line of the hash file, in any letter case, is that digest
  with the kind's length in hexadecimal digits.
\<close>

lemma hash_ioc_detection:
  "(\<exists>m \<in> set (match_hashes (ioc_load C p read cfg) hashes). im_kind m = k) \<longleftrightarrow>
   cf_enabled cfg \<and>
   (\<exists>d. digest_of k hashes = Some d \<and>
     (\<exists>e \<in> set (file_entries (cf_hashes_path cfg) (read (cf_hashes_path cfg))). lists_hash k e d))"
proof (cases "cf_enabled cfg")
  case True
  have empty: "hash_table k \<lparr>hi_md5 = [], hi_sha1 = [], hi_sha256 = []\<rparr> = []"
    by (cases k) (simp_all add: hash_table_def)
  show ?thesis
    unfolding match_hashes_kind using True
    by (simp add: ioc_load_def load_hashes_def fold_add_hash_table empty)
qed (simp add: ioc_load_def match_hashes_def ioc_disabled_def)

text \<open>
  An event's matches never repeat: no two have the same key, each is a match of one of the
  event's candidates, and every candidate's match is represented by one with its key.
\<close>

lemma ioc_matches_distinct:
  "let found = ioc_check_event C en event; candidates = candidate_matches C en event
   in distinct (map match_key_of found) \<and> set found \<subseteq> set candidates \<and>
      match_key_of ` set found = (if ie_enabled en then match_key_of ` set candidates else {})"
  by (simp add: check_event_fold push_all_start)

end
