(* ===== verification/Rate_Limiter.thy ===== *)
theory Rate_Limiter
  imports Text
begin

text \<open>
  \<open>src/utils/log_rate_limiter.rs\<close>: at most one log line per key and window, with the number of
  suppressed ones reported by the next. Instants are nanoseconds, \<open>duration_since\<close> is
  truncated subtraction, and the count saturates.
\<close>

section \<open>State and operation\<close>

record rate_limit_decision =
  rl_should_emit :: bool
  rl_suppressed_since_last_emit :: u64

record limiter_state =
  ls_last_emit :: nat
  ls_suppressed :: u64

record log_rate_limiter =
  lr_window :: nat
  lr_states :: "(string, limiter_state) hmap"

definition rate_limiter_new :: "nat \<Rightarrow> log_rate_limiter" where
  "rate_limiter_new window = \<lparr>lr_window = window, lr_states = []\<rparr>"

definition should_emit ::
  "nat \<Rightarrow> string \<Rightarrow> log_rate_limiter \<Rightarrow> log_rate_limiter \<times> rate_limit_decision" where
  "should_emit now key l =
     (case hm_get (lr_states l) key of
        None \<Rightarrow>
          (l\<lparr>lr_states := hm_insert key \<lparr>ls_last_emit = now, ls_suppressed = 0\<rparr> (lr_states l)\<rparr>,
           \<lparr>rl_should_emit = True, rl_suppressed_since_last_emit = 0\<rparr>)
      | Some st \<Rightarrow>
          if lr_window l \<le> now - ls_last_emit st then
            (l\<lparr>lr_states := hm_insert key \<lparr>ls_last_emit = now, ls_suppressed = 0\<rparr> (lr_states l)\<rparr>,
             \<lparr>rl_should_emit = True, rl_suppressed_since_last_emit = ls_suppressed st\<rparr>)
          else
            (l\<lparr>lr_states := hm_insert key
                 (st\<lparr>ls_suppressed := sat_add (ls_suppressed st) 1\<rparr>) (lr_states l)\<rparr>,
             \<lparr>rl_should_emit = False, rl_suppressed_since_last_emit = 0\<rparr>))"

definition limiter_step ::
  "log_rate_limiter \<Rightarrow> nat \<times> string \<Rightarrow> log_rate_limiter \<times> rate_limit_decision" where
  "limiter_step l call = should_emit (fst call) (snd call) l"

section \<open>Accounting\<close>

definition limiter_inv :: "nat \<Rightarrow> log_rate_limiter \<Rightarrow> bool" where
  "limiter_inv n l \<longleftrightarrow> (\<forall>k st. hm_get (lr_states l) k = Some st \<longrightarrow> unat (ls_suppressed st) \<le> n)"

definition unreported :: "string \<Rightarrow> log_rate_limiter \<Rightarrow> int" where
  "unreported key l = (case hm_get (lr_states l) key of None \<Rightarrow> 0 | Some st \<Rightarrow> int (unat (ls_suppressed st)))"

definition limiter_charge :: "string \<Rightarrow> nat \<times> string \<Rightarrow> rate_limit_decision \<Rightarrow> int" where
  "limiter_charge key call d =
     (if snd call = key
      then (if rl_should_emit d then 0 else 1) - int (unat (rl_suppressed_since_last_emit d)) else 0)"

lemma sat_inc_bounded:
  "unat c \<le> n \<Longrightarrow> n < 2 ^ 64 - 1 \<Longrightarrow> unat (sat_add c 1) = Suc (unat c)" for c :: u64
proof -
  assume "unat c \<le> n" and "n < 2 ^ 64 - 1"
  moreover have "unat (- 1 :: u64) = 2 ^ 64 - 1"
    by (simp add: unsigned_minus_1_eq_mask mask_eq_exp_minus_1)
  ultimately have "c \<noteq> - 1" by auto
  then show ?thesis by (simp add: sat_add_1 unat_inc)
qed

text \<open>The three outcomes of a call.\<close>

lemma limiter_step_new:
  "hm_get (lr_states l) (snd e) = None \<Longrightarrow> limiter_step l e =
     (l\<lparr>lr_states := hm_insert (snd e) \<lparr>ls_last_emit = fst e, ls_suppressed = 0\<rparr> (lr_states l)\<rparr>,
      \<lparr>rl_should_emit = True, rl_suppressed_since_last_emit = 0\<rparr>)"
  by (simp add: limiter_step_def should_emit_def)

lemma limiter_step_open:
  "hm_get (lr_states l) (snd e) = Some st \<Longrightarrow> lr_window l \<le> fst e - ls_last_emit st \<Longrightarrow>
   limiter_step l e =
     (l\<lparr>lr_states := hm_insert (snd e) \<lparr>ls_last_emit = fst e, ls_suppressed = 0\<rparr> (lr_states l)\<rparr>,
      \<lparr>rl_should_emit = True, rl_suppressed_since_last_emit = ls_suppressed st\<rparr>)"
  by (simp add: limiter_step_def should_emit_def)

lemma limiter_step_quiet:
  "hm_get (lr_states l) (snd e) = Some st \<Longrightarrow> \<not> lr_window l \<le> fst e - ls_last_emit st \<Longrightarrow>
   limiter_step l e =
     (l\<lparr>lr_states := hm_insert (snd e)
          (st\<lparr>ls_suppressed := sat_add (ls_suppressed st) 1\<rparr>) (lr_states l)\<rparr>,
      \<lparr>rl_should_emit = False, rl_suppressed_since_last_emit = 0\<rparr>)"
  by (simp add: limiter_step_def should_emit_def)

lemma limiter_step_cases:
  obtains (fresh) "hm_get (lr_states l) (snd e) = None"
  | (elapsed) st where "hm_get (lr_states l) (snd e) = Some st"
      "lr_window l \<le> fst e - ls_last_emit st"
  | (quiet) st where "hm_get (lr_states l) (snd e) = Some st"
      "\<not> lr_window l \<le> fst e - ls_last_emit st"
  by (cases "hm_get (lr_states l) (snd e)") auto

lemma limiter_inv_step:
  assumes inv: "limiter_inv n l" and n: "n < 2 ^ 64 - 1"
  shows "limiter_inv (Suc n) (fst (limiter_step l e))"
proof (cases l e rule: limiter_step_cases)
  case fresh
  with inv show ?thesis by (simp add: limiter_step_new limiter_inv_def hm.get_put le_SucI)
next
  case (elapsed st)
  with inv show ?thesis by (simp add: limiter_step_open limiter_inv_def hm.get_put le_SucI)
next
  case (quiet st)
  with inv have "unat (ls_suppressed st) \<le> n" by (simp add: limiter_inv_def)
  with sat_inc_bounded [OF this n] quiet inv show ?thesis
    by (simp add: limiter_step_quiet limiter_inv_def hm.get_put le_SucI)
qed

lemma limiter_balance_step:
  assumes inv: "limiter_inv n l" and n: "n < 2 ^ 64 - 1"
  shows "unreported key (fst (limiter_step l e)) =
    unreported key l + limiter_charge key e (snd (limiter_step l e))"
proof (cases l e rule: limiter_step_cases)
  case fresh
  then show ?thesis
    by (cases "snd e = key")
      (simp_all add: limiter_step_new unreported_def limiter_charge_def hm.get_put)
next
  case (elapsed st)
  then show ?thesis
    by (cases "snd e = key")
      (simp_all add: limiter_step_open unreported_def limiter_charge_def hm.get_put)
next
  case (quiet st)
  with inv have "unat (ls_suppressed st) \<le> n" by (simp add: limiter_inv_def)
  with sat_inc_bounded [OF this n]
  have "int (unat (sat_add (ls_suppressed st) 1)) = int (unat (ls_suppressed st)) + 1" by simp
  with quiet show ?thesis
    by (cases "snd e = key")
      (simp_all add: limiter_step_quiet unreported_def limiter_charge_def hm.get_put)
qed

interpretation limiter: ledger limiter_step limiter_inv "\<lambda>_. True" "2 ^ 64 - 1" "unreported key"
    "limiter_charge key" for key
  by unfold_locales (simp_all add: limiter_inv_step limiter_balance_step)

lemma limiter_window [simp]: "lr_window (fst (limiter_step l e)) = lr_window l"
  by (simp add: limiter_step_def should_emit_def split: option.split)

lemma limiter_run_window [simp]: "lr_window (fst (run limiter_step l es)) = lr_window l"
  by (induction es arbitrary: l) simp_all

text \<open>The times a run emits a key, and the recorded time of the last one.\<close>

fun emit_times :: "string \<Rightarrow> (nat \<times> string) list \<Rightarrow> rate_limit_decision list \<Rightarrow> nat list" where
  "emit_times key (e # es) (d # ds) =
     (if snd e = key \<and> rl_should_emit d then [fst e] else []) @ emit_times key es ds"
| "emit_times key _ _ = []"

lemma emit_times_spaced:
  assumes "case hm_get (lr_states l) key of None \<Rightarrow> True | Some st \<Rightarrow> ls_last_emit st = t0"
  shows "successively (\<lambda>a b. lr_window l \<le> b - a)
    ((case hm_get (lr_states l) key of None \<Rightarrow> [] | Some _ \<Rightarrow> [t0]) @
     emit_times key es (snd (run limiter_step l es)))"
  using assms
proof (induction es arbitrary: l t0)
  case Nil
  then show ?case by (simp split: option.split)
next
  case (Cons e es)
  let ?l = "fst (limiter_step l e)"
  show ?case
  proof (cases "snd e = key")
    case False
    then have same: "hm_get (lr_states ?l) key = hm_get (lr_states l) key"
      by (simp add: limiter_step_def should_emit_def hm.get_put split: option.split)
    with Cons.prems Cons.IH [where l = ?l and ?t0.0 = t0] False show ?thesis by simp
  next
    case True
    show ?thesis
    proof (cases l e rule: limiter_step_cases)
      case fresh
      with True Cons.IH [where l = ?l and ?t0.0 = "fst e"] show ?thesis
        by (simp add: limiter_step_new hm.get_put)
    next
      case (elapsed st)
      with True Cons.prems Cons.IH [where l = ?l and ?t0.0 = "fst e"] show ?thesis
        by (simp add: limiter_step_open hm.get_put)
    next
      case (quiet st)
      with True Cons.prems Cons.IH [where l = ?l and ?t0.0 = t0] show ?thesis
        by (simp add: limiter_step_quiet hm.get_put)
    qed
  qed
qed

section \<open>Properties\<close>

text \<open>
  Consecutive log lines of one key are at least one window apart, whatever calls for this and other
  keys come in between and even when the clock stands still or goes back.
\<close>

lemma limiter_one_per_window:
  "successively (\<lambda>a b. w \<le> b - a)
     (emit_times key calls (snd (run limiter_step (rate_limiter_new w) calls)))"
  using emit_times_spaced [where l = "rate_limiter_new w"]
  by (simp add: rate_limiter_new_def)

text \<open>
  The reported numbers of suppressed lines are exact: over any history, the calls of a key that were
  not emitted are those reported by its later emissions and those still unreported.
\<close>

lemma limiter_accounting:
  assumes "length calls \<le> 2 ^ 64 - 1"
  shows "unreported key (fst (run limiter_step (rate_limiter_new w) calls)) =
    sum_list (map2 (limiter_charge key) calls (snd (run limiter_step (rate_limiter_new w) calls)))"
proof -
  have inv: "limiter_inv 0 (rate_limiter_new w)" by (simp add: limiter_inv_def rate_limiter_new_def)
  have new: "unreported key (rate_limiter_new w) = 0"
    by (simp add: unreported_def rate_limiter_new_def)
  from limiter.run_balance [OF inv, of calls] assms show ?thesis
    by (simp add: list_all_iff new)
qed


end
