(* ===== verification/Hash_Worker.thy ===== *)
theory Hash_Worker
  imports Ioc Eviction Rate_Limiter
begin

text \<open>
  The file-hash worker: the hash cache of \<open>src/ioc/hash.rs\<close> and the loop of
  \<open>src/runtime/ioc.rs\<close>. A job carries what the worker finds when it takes it: the indicator
  engine then current, the clock readings, the file system and the iteration order of the cache's
  hash map. The digest crates are the record \<open>digests\<close>: the hexadecimal digest of all bytes
  fed to a hasher.
\<close>

section \<open>The file system and the digests\<close>

record digests =
  dg_md5 :: "string \<Rightarrow> string"
  dg_sha1 :: "string \<Rightarrow> string"
  dg_sha256 :: "string \<Rightarrow> string"

text \<open>
  \<open>fs::metadata\<close> as size and modification second, and the successive results of \<open>read\<close>
  on the opened file (\<open>None\<close>: an error), or \<open>None\<close> when it cannot be opened.
\<close>

record file_system =
  fs_metadata :: "string \<Rightarrow> (u64 \<times> u64) option"
  fs_open :: "string \<Rightarrow> string option list option"

record file_identity =
  fi_path :: string
  fi_size :: u64
  fi_mtime :: u64

record hash_cache_entry =
  ce_hashes :: computed_hashes
  ce_timestamp :: u64

type_synonym hash_entries = "(file_identity, hash_cache_entry) hmap"

record hash_cache =
  hc_entries :: hash_entries
  hc_max_entries :: nat
  hc_ttl_secs :: u64

definition hash_cache_new :: hash_cache where
  "hash_cache_new = \<lparr>hc_entries = [], hc_max_entries = 10000, hc_ttl_secs = 6 * 60 * 60\<rparr>"

definition file_identity_of :: "file_system \<Rightarrow> string \<Rightarrow> file_identity option" where
  "file_identity_of fs path =
     (case fs_metadata fs path of
        None \<Rightarrow> None
      | Some (len, mtime) \<Rightarrow> Some \<lparr>fi_path = path, fi_size = len, fi_mtime = mtime\<rparr>)"

text \<open>The read loop: up to the first empty read, every hasher is fed the same bytes.\<close>

fun read_to_end :: "string option list \<Rightarrow> string option" where
  "read_to_end [] = Some []"
| "read_to_end (None # rs) = None"
| "read_to_end (Some bs # rs) =
     (if bs = [] then Some [] else map_option (\<lambda>rest. bs @ rest) (read_to_end rs))"

definition compute_hashes ::
  "digests \<Rightarrow> file_system \<Rightarrow> string \<Rightarrow> hash_requirements \<Rightarrow> computed_hashes option" where
  "compute_hashes D fs path req =
     (case fs_open fs path of
        None \<Rightarrow> None
      | Some reads \<Rightarrow>
          (case read_to_end reads of
             None \<Rightarrow> None
           | Some bytes \<Rightarrow>
               Some \<lparr>ch_md5 = (if hr_md5 req then Some (dg_md5 D bytes) else None),
                     ch_sha1 = (if hr_sha1 req then Some (dg_sha1 D bytes) else None),
                     ch_sha256 = (if hr_sha256 req then Some (dg_sha256 D bytes) else None)\<rparr>))"

definition hash_is_expired :: "u64 \<Rightarrow> hash_cache \<Rightarrow> hash_cache_entry \<Rightarrow> bool" where
  "hash_is_expired now c entry \<longleftrightarrow> hc_ttl_secs c < sat_sub now (ce_timestamp entry)"

definition hash_trim :: "(hash_entries \<Rightarrow> file_identity list) \<Rightarrow> nat \<Rightarrow> hash_entries \<Rightarrow> hash_entries" where
  "hash_trim it cap m = trim_oldest ce_timestamp it cap m"

text \<open>\<open>now\<close> is the clock at the look-up and \<open>now'\<close> at the insertion.\<close>

definition get_or_compute ::
  "digests \<Rightarrow> file_system \<Rightarrow> (hash_entries \<Rightarrow> file_identity list) \<Rightarrow> u64 \<Rightarrow> u64 \<Rightarrow> string
   \<Rightarrow> hash_requirements \<Rightarrow> hash_cache \<Rightarrow> hash_cache \<times> computed_hashes option" where
  "get_or_compute D fs it now now' path req c =
     (let identity = file_identity_of fs path;
          hit = (case identity of
                   None \<Rightarrow> None
                 | Some i \<Rightarrow>
                     (case hm_get (hc_entries c) i of
                        None \<Rightarrow> None
                      | Some entry \<Rightarrow> if hash_is_expired now c entry then None else Some entry))
      in case hit of
           Some entry \<Rightarrow> (c, Some (ce_hashes entry))
         | None \<Rightarrow>
             (case compute_hashes D fs path req of
                None \<Rightarrow> (c, None)
              | Some hashes \<Rightarrow>
                  (case identity of
                     None \<Rightarrow> (c, Some hashes)
                   | Some i \<Rightarrow>
                       (c\<lparr>hc_entries := insert_capped (hash_trim it) (hc_max_entries c) i
                            \<lparr>ce_hashes = hashes, ce_timestamp = now'\<rparr> (hc_entries c)\<rparr>,
                        Some hashes))))"

section \<open>The worker\<close>

record ('net, 'set) hash_job =
  hj_path :: string
  hj_pid :: u32
  hj_engine :: "('net, 'set) ioc_engine"
  hj_fs :: file_system
  hj_iter :: "hash_entries \<Rightarrow> file_identity list"
  hj_now :: u64
  hj_now_insert :: u64
  hj_instant :: nat
  hj_timestamp :: string

record hash_worker =
  hw_cache :: hash_cache
  hw_last_requirements :: hash_requirements
  hw_error_limiter :: log_rate_limiter

definition hash_worker_new :: hash_worker where
  "hash_worker_new =
     \<lparr>hw_cache = hash_cache_new,
      hw_last_requirements = \<lparr>hr_md5 = False, hr_sha1 = False, hr_sha256 = False\<rparr>,
      hw_error_limiter = rate_limiter_new (30 * 10 ^ 9)\<rparr>"

text \<open>The guards before hashing, in two parts: the requirements are reset between them.\<close>

definition job_ignored :: "('net, 'set) hash_job \<Rightarrow> bool" where
  "job_ignored j \<longleftrightarrow>
     hj_path j = [] \<or> \<not> ie_enabled (hj_engine j) \<or> \<not> wants_hashing (hj_engine j)"

definition job_skipped :: "platform \<Rightarrow> ('net, 'set) hash_job \<Rightarrow> bool" where
  "job_skipped p j \<longleftrightarrow>
     is_hash_allowlisted p (hj_engine j) (hj_path j) \<or>
     0 < ie_max_file_size_bytes (hj_engine j) \<and>
     (case fs_metadata (hj_fs j) (hj_path j) of
        None \<Rightarrow> False | Some (len, _) \<Rightarrow> ie_max_file_size_bytes (hj_engine j) < len)"

definition hash_alerts ::
  "platform \<Rightarrow> string \<Rightarrow> ('net, 'set) hash_job \<Rightarrow> computed_hashes \<Rightarrow> alert list" where
  "hash_alerts p provider j hashes =
     map (\<lambda>m. build_alert_for_hash_match (hj_engine j) (hj_timestamp j) m (hj_path j) (hj_pid j) p
            provider)
       (match_hashes (hj_engine j) hashes)"

definition reset_cache :: "hash_requirements \<Rightarrow> hash_worker \<Rightarrow> hash_worker" where
  "reset_cache req w =
     (if req \<noteq> hw_last_requirements w
      then w\<lparr>hw_cache := hash_cache_new, hw_last_requirements := req\<rparr> else w)"

text \<open>One iteration of the loop; the output is the alerts it writes and hands to the response.\<close>

definition hash_worker_step ::
  "digests \<Rightarrow> platform \<Rightarrow> string \<Rightarrow> hash_worker \<Rightarrow> ('net, 'set) hash_job \<Rightarrow> hash_worker \<times> alert list" where
  "hash_worker_step D p provider w j =
     (if job_ignored j then (w, [])
      else
        let req = hash_requirements_of (hj_engine j);
            w1 = reset_cache req w
        in if job_skipped p j then (w1, [])
           else
             let (cache, result) = get_or_compute D (hj_fs j) (hj_iter j) (hj_now j)
                   (hj_now_insert j) (hj_path j) req (hw_cache w1);
                 w2 = w1\<lparr>hw_cache := cache\<rparr>
             in case result of
                  None \<Rightarrow>
                    (w2\<lparr>hw_error_limiter :=
                       fst (should_emit (hj_instant j) ''hash_error'' (hw_error_limiter w2))\<rparr>, [])
                | Some hashes \<Rightarrow> (w2, hash_alerts p provider j hashes))"

section \<open>The worker without a cache\<close>

text \<open>What a job would produce if every file were hashed afresh.\<close>

definition fresh_job :: "digests \<Rightarrow> platform \<Rightarrow> string \<Rightarrow> ('net, 'set) hash_job \<Rightarrow> alert list" where
  "fresh_job D p provider j =
     (if job_ignored j \<or> job_skipped p j then []
      else
        (case compute_hashes D (hj_fs j) (hj_path j) (hash_requirements_of (hj_engine j)) of
           None \<Rightarrow> [] | Some hashes \<Rightarrow> hash_alerts p provider j hashes))"

text \<open>
  \<open>contents\<close> says what the reads of a file with a given identity yield; a job agrees with it.
\<close>

definition job_ok ::
  "(file_identity \<Rightarrow> string option list option) \<Rightarrow> ('net, 'set) hash_job \<Rightarrow> bool" where
  "job_ok contents j \<longleftrightarrow>
     hash_iter (hj_iter j) \<and>
     (case file_identity_of (hj_fs j) (hj_path j) of
        None \<Rightarrow> True | Some i \<Rightarrow> fs_open (hj_fs j) (hj_path j) = contents i)"

definition cached_ok ::
  "digests \<Rightarrow> (file_identity \<Rightarrow> string option list option) \<Rightarrow> hash_requirements \<Rightarrow> hash_entries \<Rightarrow> bool"
where
  "cached_ok D contents req m \<longleftrightarrow>
     (\<forall>i e. hm_get m i = Some e \<longrightarrow>
        compute_hashes D \<lparr>fs_metadata = (\<lambda>_. None), fs_open = (\<lambda>_. contents i)\<rparr> [] req =
          Some (ce_hashes e))"

definition worker_inv ::
  "digests \<Rightarrow> (file_identity \<Rightarrow> string option list option) \<Rightarrow> hash_worker \<Rightarrow> bool" where
  "worker_inv D contents w \<longleftrightarrow>
     hm_wf (hc_entries (hw_cache w)) \<and>
     length (hc_entries (hw_cache w)) \<le> hc_max_entries (hw_cache w) \<and>
     hc_max_entries (hw_cache w) = 10000 \<and>
     cached_ok D contents (hw_last_requirements w) (hc_entries (hw_cache w))"

lemma compute_same_reads:
  "fs_open fs path = fs_open fs' path' \<Longrightarrow>
   compute_hashes D fs path req = compute_hashes D fs' path' req"
  by (simp add: compute_hashes_def)

lemma cached_ok_get:
  "cached_ok D contents req m \<Longrightarrow> hm_get m i = Some e \<Longrightarrow> fs_open fs path = contents i \<Longrightarrow>
   compute_hashes D fs path req = Some (ce_hashes e)"
  by (metis cached_ok_def compute_same_reads file_system.select_convs(2))

lemma cached_ok_insert:
  assumes wf: "hm_wf m" and ok: "cached_ok D contents req m" and it: "hash_iter it"
    and new: "compute_hashes D fs path req = Some hashes" "fs_open fs path = contents i"
  shows "cached_ok D contents req
    (insert_capped (hash_trim it) cap i \<lparr>ce_hashes = hashes, ce_timestamp = t\<rparr> m)"
  unfolding cached_ok_def
proof (intro allI impI)
  have "hash_trim it = trim_oldest ce_timestamp it" by (simp add: fun_eq_iff hash_trim_def)
  with it have ev: "evicting (hash_trim it)"
    by (simp add: stamped_iter.trim_oldest_evicting stamped_iter_def)
  fix i' e
  assume "hm_get (insert_capped (hash_trim it) cap i \<lparr>ce_hashes = hashes, ce_timestamp = t\<rparr> m) i' =
    Some e"
  from evicting.insert_capped_get [OF ev wf this]
  have "if i' = i then e = \<lparr>ce_hashes = hashes, ce_timestamp = t\<rparr> else hm_get m i' = Some e" .
  then show "compute_hashes D \<lparr>fs_metadata = (\<lambda>_. None), fs_open = (\<lambda>_. contents i')\<rparr> [] req =
      Some (ce_hashes e)"
    using new ok compute_same_reads [of _ "[]" fs path]
    by (auto simp: cached_ok_def split: if_splits)
qed

lemma get_or_compute_result:
  assumes ok: "cached_ok D contents req (hc_entries c)"
    and same: "\<And>i. file_identity_of fs path = Some i \<Longrightarrow> fs_open fs path = contents i"
  shows "snd (get_or_compute D fs it now now' path req c) = compute_hashes D fs path req"
proof (cases "file_identity_of fs path")
  case (Some i)
  have "compute_hashes D fs path req = Some (ce_hashes e)"
    if "hm_get (hc_entries c) i = Some e" for e
    by (rule cached_ok_get [OF ok that same [OF Some]])
  with Some show ?thesis by (simp add: get_or_compute_def Let_def split: option.split)
qed (simp add: get_or_compute_def split: option.split)

lemma get_or_compute_keeps:
  fixes c :: hash_cache and now now' :: u64
  assumes ok: "cached_ok D contents req (hc_entries c)" and wf: "hm_wf (hc_entries c)"
    and len: "length (hc_entries c) \<le> hc_max_entries c" and it: "hash_iter it"
    and same: "\<And>i. file_identity_of fs path = Some i \<Longrightarrow> fs_open fs path = contents i"
  defines "c' \<equiv> fst (get_or_compute D fs it now now' path req c)"
  shows "cached_ok D contents req (hc_entries c') \<and> hm_wf (hc_entries c') \<and>
    length (hc_entries c') \<le> hc_max_entries c' \<and> hc_max_entries c' = hc_max_entries c"
proof -
  have "hash_trim it = trim_oldest ce_timestamp it" by (simp add: fun_eq_iff hash_trim_def)
  with it have ev: "evicting (hash_trim it)"
    by (simp add: stamped_iter.trim_oldest_evicting stamped_iter_def)
  have "c' = c \<or> (\<exists>i hashes. file_identity_of fs path = Some i \<and>
      compute_hashes D fs path req = Some hashes \<and>
      c' = c\<lparr>hc_entries := insert_capped (hash_trim it) (hc_max_entries c) i
         \<lparr>ce_hashes = hashes, ce_timestamp = now'\<rparr> (hc_entries c)\<rparr>)"
    unfolding c'_def
    by (cases "file_identity_of fs path"; cases "compute_hashes D fs path req")
      (simp_all add: get_or_compute_def Let_def split: option.split)
  then consider "c' = c" | i hashes where "file_identity_of fs path = Some i"
      "compute_hashes D fs path req = Some hashes"
      "c' = c\<lparr>hc_entries := insert_capped (hash_trim it) (hc_max_entries c) i
         \<lparr>ce_hashes = hashes, ce_timestamp = now'\<rparr> (hc_entries c)\<rparr>"
    by blast
  then show ?thesis
  proof cases
    case 2
    then show ?thesis
      using cached_ok_insert [OF wf ok it 2(2) same [OF 2(1)]]
        evicting.insert_capped_wf [OF ev wf] evicting.insert_capped_length [OF ev wf]
      by simp
  qed (use ok wf len in simp)
qed

lemma reset_cache_keeps:
  "worker_inv D contents w \<Longrightarrow>
   worker_inv D contents (reset_cache req w) \<and> hw_last_requirements (reset_cache req w) = req"
  by (auto simp: reset_cache_def worker_inv_def hash_cache_new_def cached_ok_def)

definition uncached_step ::
  "digests \<Rightarrow> platform \<Rightarrow> string \<Rightarrow> unit \<Rightarrow> ('net, 'set) hash_job \<Rightarrow> unit \<times> alert list" where
  "uncached_step D p provider u j = ((), fresh_job D p provider j)"

lemma uncached_run: "snd (run (uncached_step D p provider) u js) = map (fresh_job D p provider) js"
  by (induction js arbitrary: u) (simp_all add: uncached_step_def)

lemma hash_worker_step_fresh:
  assumes inv: "worker_inv D contents w" and ok: "job_ok contents j"
  shows "worker_inv D contents (fst (hash_worker_step D p provider w j)) \<and>
    snd (hash_worker_step D p provider w j) = fresh_job D p provider j"
proof (cases "job_ignored j")
  case True
  with inv show ?thesis by (simp add: hash_worker_step_def fresh_job_def)
next
  case False
  let ?req = "hash_requirements_of (hj_engine j)"
  let ?w = "reset_cache ?req w"
  let ?res = "get_or_compute D (hj_fs j) (hj_iter j) (hj_now j) (hj_now_insert j) (hj_path j) ?req
    (hw_cache ?w)"
  have w: "worker_inv D contents ?w" "hw_last_requirements ?w = ?req"
    using reset_cache_keeps [OF inv] by simp_all
  have same: "fs_open (hj_fs j) (hj_path j) = contents i"
    if "file_identity_of (hj_fs j) (hj_path j) = Some i" for i
    using ok that by (simp add: job_ok_def)
  have it: "hash_iter (hj_iter j)" using ok by (simp add: job_ok_def)
  have cached: "cached_ok D contents ?req (hc_entries (hw_cache ?w))"
    using w by (simp add: worker_inv_def)
  note keeps = get_or_compute_keeps [OF cached _ _ it same, of "hj_now j" "hj_now_insert j"]
  have inv': "worker_inv D contents (?w\<lparr>hw_cache := fst ?res\<rparr>)"
    using keeps w by (simp add: worker_inv_def)
  have result: "snd ?res = compute_hashes D (hj_fs j) (hj_path j) ?req"
    by (rule get_or_compute_result [OF cached same])
  then obtain cache where res: "?res = (cache, compute_hashes D (hj_fs j) (hj_path j) ?req)"
    by (metis prod.collapse)
  show ?thesis
  proof (cases "job_skipped p j")
    case True
    with False w show ?thesis by (simp add: hash_worker_step_def fresh_job_def Let_def)
  next
    case False': False
    with False inv' res show ?thesis
      by (cases "compute_hashes D (hj_fs j) (hj_path j) ?req")
        (simp_all add: hash_worker_step_def fresh_job_def worker_inv_def Let_def)
  qed
qed

interpretation hash_cache: simulation "hash_worker_step D p provider" "uncached_step D p provider"
  "\<lambda>w u. worker_inv D contents w" "\<lambda>u. job_ok contents" for D p provider contents
  by unfold_locales (simp_all add: hash_worker_step_fresh uncached_step_def)

lemma worker_inv_new: "worker_inv D contents hash_worker_new"
  by (simp add: worker_inv_def hash_worker_new_def hash_cache_new_def cached_ok_def)

lemma jobs_enabled:
  "list_all (job_ok contents) js \<Longrightarrow> enabled (uncached_step D p provider) (\<lambda>u. job_ok contents) u js"
  by (induction js arbitrary: u) simp_all

section \<open>Properties\<close>

text \<open>
  C20: the hash cache is unobservable. Over any sequence of jobs, whatever the clocks, the
  evictions and the reloads of the indicators in between, the worker raises the alerts it would
  raise by hashing every file afresh, and the cache stays within its cap, provided that reading a
  file yields the same bytes whenever path, size and modification second are the same.
\<close>

theorem hash_cache_transparent:
  assumes "list_all (job_ok contents) js"
  shows "snd (run (hash_worker_step D p provider) hash_worker_new js) =
      map (fresh_job D p provider) js \<and>
    length (hc_entries (hw_cache (fst (run (hash_worker_step D p provider) hash_worker_new js))))
      \<le> 10000"
proof -
  note sim = hash_cache.run_simulates [OF worker_inv_new jobs_enabled [OF assms], of D p provider]
  from sim show ?thesis by (simp add: uncached_run worker_inv_def)
qed

definition sample_hash_engine :: "(unit, unit) ioc_engine" where
  "sample_hash_engine =
     (ioc_disabled :: (unit, unit) ioc_engine)
       \<lparr>ie_enabled := True, ie_severity := High,
        ie_hash_iocs := \<lparr>hi_md5 = [], hi_sha1 = [],
          hi_sha256 = [(''bad'', \<lparr>me_comment = None, me_source = ''hashes.txt'', me_line = 1\<rparr>)]\<rparr>\<rparr>"

definition sample_job :: "u64 \<Rightarrow> (unit, unit) hash_job" where
  "sample_job now = \<lparr>hj_path = ''/tmp/evil'', hj_pid = 7, hj_engine = sample_hash_engine,
     hj_fs = \<lparr>fs_metadata = (\<lambda>_. Some (3, 100)), fs_open = (\<lambda>_. Some [Some ''bad'', Some []])\<rparr>,
     hj_iter = map fst, hj_now = now, hj_now_insert = now, hj_instant = 0, hj_timestamp = ''t''\<rparr>"

definition sample_digests :: digests where
  "sample_digests = \<lparr>dg_md5 = (\<lambda>x. x), dg_sha1 = (\<lambda>x. x), dg_sha256 = (\<lambda>x. x)\<rparr>"

theorem hash_cache_transparent_witness:
  "snd (run (hash_worker_step sample_digests Linux ''ebpf'') hash_worker_new [sample_job 5, sample_job 6]) =
     map (fresh_job sample_digests Linux ''ebpf'') [sample_job 5, sample_job 6] \<and>
   length (hc_entries (hw_cache (fst (run (hash_worker_step sample_digests Linux ''ebpf'')
     hash_worker_new [sample_job 5, sample_job 6])))) \<le> 10000"
  by (rule hash_cache_transparent [where contents = "\<lambda>_. Some [Some ''bad'', Some []]"])
    (simp add: job_ok_def sample_job_def stored_order.hash_iter_axioms file_identity_of_def)

lemma sample_job_alerts: "length (fresh_job sample_digests Linux ''ebpf'' (sample_job 5)) = 1"
  by (simp add: fresh_job_def job_ignored_def job_skipped_def wants_hashing_def
      hash_requirements_of_def sample_job_def sample_hash_engine_def ioc_disabled_def
      is_hash_allowlisted_def compute_hashes_def hash_alerts_def match_hashes_def hash_match_def
      sample_digests_def Let_def)

end
