(* ===== verification/Ecs_Values.thy ===== *)
theory Ecs_Values
  imports Events Addr
begin

text \<open>
  The value mappings of the ECS translation: \<open>src/models/ecs/helpers.rs\<close>, \<open>event.rs\<close>,
  \<open>network.rs\<close>, \<open>registry.rs\<close> and the splitting of account names of \<open>user.rs\<close>. The
  library's lexicographic order on byte lists is Rust's order on \<open>String\<close>.
\<close>

section \<open>Helpers\<close>

definition parse_u64 :: "string option \<Rightarrow> u64 option" where
  "parse_u64 v = (case v of None \<Rightarrow> None | Some s \<Rightarrow> parse_uint (str_trim s))"

definition parse_u16 :: "string option \<Rightarrow> u16 option" where
  "parse_u16 v = (case v of None \<Rightarrow> None | Some s \<Rightarrow> parse_uint (str_trim s))"

definition parse_bool :: "string option \<Rightarrow> bool option" where
  "parse_bool v =
     (case v of None \<Rightarrow> None
      | Some s \<Rightarrow>
          let normalized = to_ascii_lowercase (str_trim s)
          in if normalized \<in> set [''true'', ''signed'', ''valid'', ''yes''] then Some True
             else if normalized \<in> set [''false'', ''unsigned'', ''invalid'', ''no''] then Some False
             else None)"

definition path_separator :: "char \<Rightarrow> bool" where
  "path_separator c \<longleftrightarrow> c = backslash \<or> c = CHR ''/''"

definition basename :: "string \<Rightarrow> string option" where
  "basename path =
     (let trimmed = trim_end_matches_char dquote (trim_start_matches_char dquote path);
          name = last (split_by path_separator trimmed)
      in if name = [] then None else Some name)"

definition file_extension_from_path :: "string \<Rightarrow> string option" where
  "file_extension_from_path path =
     (case basename path of None \<Rightarrow> None
      | Some name \<Rightarrow>
          (case rsplit_once CHR ''.'' name of None \<Rightarrow> None
           | Some (_, ext) \<Rightarrow> if ext = [] then None else Some ext))"

section \<open>Event classification\<close>

definition event_module :: string where
  "event_module = ''edr''"

definition alert_severity_to_event_severity :: "alert_severity \<Rightarrow> u8" where
  "alert_severity_to_event_severity s =
     (case s of Low \<Rightarrow> 25 | Medium \<Rightarrow> 50 | High \<Rightarrow> 75 | Critical \<Rightarrow> 100)"

definition ecs_event_category :: "event_category \<Rightarrow> string list" where
  "ecs_event_category c =
     (case c of
        CatProcess \<Rightarrow> [''process''] | CatNetwork \<Rightarrow> [''network''] | CatFile \<Rightarrow> [''file'']
      | CatRegistry \<Rightarrow> [''registry''] | CatDns \<Rightarrow> [''network''] | CatImageLoad \<Rightarrow> [''library'']
      | CatScripting \<Rightarrow> [''process''] | CatWmi \<Rightarrow> [''api''] | CatService \<Rightarrow> [''configuration'']
      | CatTask \<Rightarrow> [''configuration''])"

definition ecs_event_type :: "event_category \<Rightarrow> u8 \<Rightarrow> u16 \<Rightarrow> string list" where
  "ecs_event_type c opcode event_id =
     (case c of
        CatProcess \<Rightarrow> if opcode = 1 then [''start''] else if opcode = 2 then [''end'']
          else [''info'']
      | CatNetwork \<Rightarrow> [''connection'']
      | CatFile \<Rightarrow> if opcode = 64 then [''creation'']
          else if opcode = 70 \<or> opcode = 72 then [''deletion'']
          else if opcode = 71 then [''change''] else [''change'']
      | CatRegistry \<Rightarrow> if opcode = 36 then [''creation'']
          else if opcode = 38 \<or> opcode = 41 then [''deletion'']
          else if opcode = 39 then [''change''] else [''change'']
      | CatDns \<Rightarrow> [''protocol'']
      | CatImageLoad \<Rightarrow> [''start'']
      | CatScripting \<Rightarrow> [''info'']
      | CatWmi \<Rightarrow> [''info'']
      | CatService \<Rightarrow> if event_id = 7045 then [''creation''] else [''change'']
      | CatTask \<Rightarrow> if event_id = 106 then [''creation''] else [''change''])"

definition ecs_event_action :: "event_category \<Rightarrow> u8 \<Rightarrow> u16 \<Rightarrow> string option" where
  "ecs_event_action c opcode event_id = Some
     (case c of
        CatProcess \<Rightarrow> if opcode = 1 then ''process-start'' else if opcode = 2 then ''process-end''
          else ''process-info''
      | CatNetwork \<Rightarrow> ''network-connection''
      | CatFile \<Rightarrow> if opcode = 64 then ''file-create''
          else if opcode = 70 \<or> opcode = 72 then ''file-delete''
          else if opcode = 71 then ''file-rename'' else ''file-change''
      | CatRegistry \<Rightarrow> if opcode = 36 then ''registry-create''
          else if opcode = 38 \<or> opcode = 41 then ''registry-delete''
          else if opcode = 39 then ''registry-set'' else ''registry-change''
      | CatDns \<Rightarrow> ''dns-query''
      | CatImageLoad \<Rightarrow> ''image-load''
      | CatScripting \<Rightarrow> ''powershell-script''
      | CatWmi \<Rightarrow> ''wmi-operation''
      | CatService \<Rightarrow> if event_id = 7045 then ''service-create'' else ''service-change''
      | CatTask \<Rightarrow> if event_id = 106 then ''task-create'' else ''task-change'')"

definition event_dataset :: "event_category \<Rightarrow> string" where
  "event_dataset c = event_module @ ''.'' @
     (case c of
        CatProcess \<Rightarrow> ''process'' | CatNetwork \<Rightarrow> ''network'' | CatFile \<Rightarrow> ''file''
      | CatRegistry \<Rightarrow> ''registry'' | CatDns \<Rightarrow> ''dns'' | CatImageLoad \<Rightarrow> ''library''
      | CatScripting \<Rightarrow> ''scripting'' | CatWmi \<Rightarrow> ''wmi'' | CatService \<Rightarrow> ''service''
      | CatTask \<Rightarrow> ''task'')"

definition host_os_type :: "platform \<Rightarrow> string" where
  "host_os_type p = (case p of Windows \<Rightarrow> ''windows'' | Linux \<Rightarrow> ''linux'' | MacOS \<Rightarrow> ''macos'')"

definition host_os_family :: "platform \<Rightarrow> string" where
  "host_os_family p = (case p of Windows \<Rightarrow> ''windows'' | Linux \<Rightarrow> ''linux'' | MacOS \<Rightarrow> ''darwin'')"

definition network_direction_from_category :: "event_category \<Rightarrow> string option" where
  "network_direction_from_category c =
     (case c of CatNetwork \<Rightarrow> Some ''egress'' | CatDns \<Rightarrow> Some ''egress'' | _ \<Rightarrow> None)"

text \<open>The derived \<open>Debug\<close> format of the severity and of the engine.\<close>

definition debug_severity :: "alert_severity \<Rightarrow> string" where
  "debug_severity s =
     (case s of Low \<Rightarrow> ''Low'' | Medium \<Rightarrow> ''Medium'' | High \<Rightarrow> ''High'' | Critical \<Rightarrow> ''Critical'')"

definition debug_engine :: "detection_engine \<Rightarrow> string" where
  "debug_engine e =
     (case e of EngineSigma \<Rightarrow> ''Sigma'' | EngineYara \<Rightarrow> ''Yara'' | EngineIoc \<Rightarrow> ''Ioc'')"

section \<open>Network values\<close>

definition network_transport_from_opcode :: "u8 \<Rightarrow> string option" where
  "network_transport_from_opcode opcode =
     (if opcode = 12 then Some ''tcp'' else if opcode = 15 then Some ''udp'' else None)"

definition network_type_from_ip :: "string \<Rightarrow> string option" where
  "network_type_from_ip ip =
     (case parse_ip ip of
        Some (V4 _) \<Rightarrow> Some ''ipv4'' | Some (V6 _) \<Rightarrow> Some ''ipv6'' | None \<Rightarrow> None)"

text \<open>\<open>Vec::sort\<close> followed by \<open>Vec::dedup\<close>.\<close>

definition sort_dedup :: "string list \<Rightarrow> string list" where
  "sort_dedup xs = remdups_adj (sort xs)"

definition extract_ips :: "string \<Rightarrow> string list" where
  "extract_ips v =
     (let tokens = split_by (\<lambda>c. \<not> is_digit 16 c \<and> c \<noteq> CHR ''.'' \<and> c \<noteq> CHR '':'') v;
          ips = List.map_filter
            (\<lambda>token. if token = [] then None else map_option show_ip (parse_ip token)) tokens
      in sort_dedup ips)"

section \<open>Registry paths\<close>

definition split_registry_path ::
  "string \<Rightarrow> string option \<Rightarrow> string option \<times> string option \<times> string option" where
  "split_registry_path path event_type =
     (let parts = split_by (\<lambda>c. c = backslash) path;
          hive = hd parts;
          rest = tl parts
      in if rest = [] then (Some hive, None, None)
         else
           let is_value = (case event_type of None \<Rightarrow> False
                 | Some v \<Rightarrow> str_contains (to_ascii_lowercase v) ''value'')
           in if is_value then
                let key = join [backslash] (butlast rest)
                in (Some hive, if key = [] then None else Some key, Some (last rest))
              else
                let key = join [backslash] rest
                in (Some hive, if key = [] then None else Some key, None))"

section \<open>Account names\<close>

definition is_sid :: "string \<Rightarrow> bool" where
  "is_sid v \<longleftrightarrow> starts_with v ''S-1-''"

text \<open>Name, identifier and domain.\<close>

definition split_user ::
  "string \<Rightarrow> string option \<times> string option \<times> string option" where
  "split_user v =
     (if is_sid v then (None, Some v, None)
      else case split_once backslash v of
             Some (domain, name) \<Rightarrow> (Some name, None, Some domain)
           | None \<Rightarrow> (Some v, None, None))"

section \<open>Lemmas\<close>

lemma sort_dedup_set [simp]: "set (sort_dedup xs) = set xs"
  by (simp add: sort_dedup_def)

lemma sort_dedup_Nil_iff [simp]: "sort_dedup xs = [] \<longleftrightarrow> xs = []"
  by (metis sort_dedup_set set_empty)

lemma sort_dedup_sorted: "sorted (sort_dedup xs)"
  by (simp add: sort_dedup_def sorted_remdups_adj)

lemma sorted_distinct_adj: "sorted xs \<Longrightarrow> distinct_adj xs \<Longrightarrow> distinct xs"
proof (induction xs rule: induct_list012)
  case (3 x y zs)
  then have "x \<notin> set (y # zs)" by (auto dest: order_antisym)
  with 3 show ?case by simp
qed simp_all

lemma sort_dedup_distinct: "distinct (sort_dedup xs)"
  by (simp add: sort_dedup_def sorted_distinct_adj)

lemma extract_ips_canonical: "ip \<in> set (extract_ips v) \<Longrightarrow> \<exists>a. ip = show_ip a"
  by (auto simp: extract_ips_def Let_def map_filter_def split: if_splits)

text \<open>What \<open>basename\<close> answers is the last component of the path between the quotes.\<close>

lemma basename_suffix:
  assumes "basename path = Some name"
  shows "name \<noteq> []" and "\<forall>c \<in> set name. \<not> path_separator c"
    and "\<exists>dir. trim_end_matches_char dquote (trim_start_matches_char dquote path) = dir @ name \<and>
      (dir = [] \<or> path_separator (last dir))"
proof -
  let ?t = "trim_end_matches_char dquote (trim_start_matches_char dquote path)"
  from assms have name: "name = last (split_by path_separator ?t)" and "name \<noteq> []"
    by (auto simp: basename_def Let_def split: if_splits)
  then show "name \<noteq> []" by simp
  have "name \<in> set (split_by path_separator ?t)" using name by simp
  then show "\<forall>c \<in> set name. \<not> path_separator c" using split_by_no_sep by blast
  show "\<exists>dir. ?t = dir @ name \<and> (dir = [] \<or> path_separator (last dir))"
    using split_by_last [of ?t path_separator] name by simp
qed

section \<open>Properties\<close>

text \<open>
  Splitting a registry path loses nothing when there is a key: the hive, the key and
  the value joined by backslashes are the path, and neither the hive nor the value has a backslash.
\<close>

lemma registry_split_rejoins:
  assumes "split_registry_path path event_type = (Some hive, Some key, v)"
  shows "path = hive @ backslash # key @ (case v of None \<Rightarrow> [] | Some x \<Rightarrow> backslash # x) \<and>
    backslash \<notin> set hive \<and> (\<forall>x \<in> set_option v. backslash \<notin> set x)"
proof -
  let ?parts = "split_by (\<lambda>c. c = backslash) path"
  obtain h rest where parts: "?parts = h # rest" by (cases ?parts) auto
  have path: "path = join [backslash] (h # rest)"
    using join_split_by [of backslash path] parts by simp
  have no: "backslash \<notin> set w" if "w \<in> set (h # rest)" for w
    using that split_by_no_sep [of "\<lambda>c. c = backslash" path] by (auto simp: parts)
  from assms parts have rest: "rest \<noteq> []" and hive: "hive = h"
    by (auto simp: split_registry_path_def Let_def split: if_splits)
  then have path': "path = h @ backslash # join [backslash] rest"
    using path by (simp add: join_Cons)
  show ?thesis
  proof (cases v)
    case None
    with assms parts rest have "key = join [backslash] rest"
      by (auto simp: split_registry_path_def Let_def split: if_splits)
    with path' hive None no show ?thesis by simp
  next
    case (Some x)
    with assms parts rest have "key = join [backslash] (butlast rest)" "key \<noteq> []" "x = last rest"
      by (auto simp: split_registry_path_def Let_def split: if_splits)
    with path' hive Some no rest show ?thesis by (auto simp: join_butlast_last [of rest])
  qed
qed


text \<open>
  The name derived from a path is never empty, has no separator, and is what the path (without
  surrounding quotes) ends with, right after a separator; the extension derived from the
  path is what that name has after its last dot.
\<close>

lemma file_extension_of_basename:
  assumes "file_extension_from_path path = Some ext"
  shows "\<exists>stem. basename path = Some (stem @ CHR ''.'' # ext) \<and> CHR ''.'' \<notin> set ext \<and> ext \<noteq> [] \<and>
    (\<forall>c \<in> set (stem @ ext). \<not> path_separator c) \<and>
    (\<exists>dir. trim_end_matches_char dquote (trim_start_matches_char dquote path) =
       dir @ stem @ CHR ''.'' # ext \<and> (dir = [] \<or> path_separator (last dir)))"
proof -
  from assms obtain name stem where n: "basename path = Some name"
    and r: "rsplit_once CHR ''.'' name = Some (stem, ext)" and e: "ext \<noteq> []"
    by (auto simp: file_extension_from_path_def split: option.splits if_splits)
  from r have name: "name = stem @ CHR ''.'' # ext" "CHR ''.'' \<notin> set ext"
    by (simp_all add: rsplit_once_Some)
  from basename_suffix [OF n] name e n show ?thesis by auto
qed

end
