(* ===== verification/Ecs.thy ===== *)
theory Ecs
  imports Ecs_Values
begin

text \<open>
  The ECS translation of an alert (\<open>src/models/ecs/mod.rs\<close>, \<open>alert.rs\<close>, \<open>user.rs\<close>): the
  record \<open>EcsAlert\<close>, the arm of the translation for each kind of event, the enrichment from the
  process context, and the derived fields. A field of the record is named
  \<open>ec_\<close> and the name of the source.
\<close>

section \<open>The ECS alert\<close>

record dns_answer =
  da_data :: string

record ecs_alert =
  ec_timestamp :: "string"
  ec_ecs_version :: "string"
  ec_event_count :: "u64 option"
  ec_event_kind :: "string"
  ec_event_category :: "string list"
  ec_event_type :: "string list"
  ec_event_action :: "string option"
  ec_event_code :: "string option"
  ec_event_severity :: "u8 option"
  ec_event_module :: "string"
  ec_event_dataset :: "string"
  ec_event_provider :: "string"
  ec_host_os_type :: "string"
  ec_host_os_family :: "string"
  ec_rule_name :: "string"
  ec_rule_description :: "string option"
  ec_rule_id :: "string option"
  ec_edr_rule_severity :: "string"
  ec_edr_rule_engine :: "string"
  ec_process_executable :: "string option"
  ec_process_name :: "string option"
  ec_process_command_line :: "string option"
  ec_process_pid :: "u64 option"
  ec_process_parent_executable :: "string option"
  ec_process_parent_name :: "string option"
  ec_process_parent_command_line :: "string option"
  ec_process_parent_pid :: "u64 option"
  ec_process_working_directory :: "string option"
  ec_edr_process_integrity_level :: "string option"
  ec_process_original_file_name :: "string option"
  ec_process_product :: "string option"
  ec_process_description :: "string option"
  ec_user_name :: "string option"
  ec_user_id :: "string option"
  ec_user_domain :: "string option"
  ec_winlog_logon_id :: "string option"
  ec_winlog_logon_guid :: "string option"
  ec_destination_ip :: "string option"
  ec_destination_port :: "u16 option"
  ec_source_ip :: "string option"
  ec_source_port :: "u16 option"
  ec_destination_domain :: "string option"
  ec_network_transport :: "string option"
  ec_network_type :: "string option"
  ec_network_protocol :: "string option"
  ec_network_direction :: "string option"
  ec_file_path :: "string option"
  ec_file_name :: "string option"
  ec_file_extension :: "string option"
  ec_file_created :: "string option"
  ec_edr_file_previous_created :: "string option"
  ec_file_original_file_name :: "string option"
  ec_file_product :: "string option"
  ec_file_description :: "string option"
  ec_file_code_signature_exists :: "bool option"
  ec_file_code_signature_subject_name :: "string option"
  ec_dll_name :: "string option"
  ec_dll_path :: "string option"
  ec_registry_path :: "string option"
  ec_registry_hive :: "string option"
  ec_registry_key :: "string option"
  ec_registry_value :: "string option"
  ec_registry_data_strings :: "string list option"
  ec_edr_registry_event_type :: "string option"
  ec_edr_registry_new_name :: "string option"
  ec_dns_query :: "string option"
  ec_dns_answers :: "dns_answer list option"
  ec_dns_response_code :: "string option"
  ec_dns_resolved_ip :: "string list option"
  ec_service_name :: "string option"
  ec_edr_service_executable :: "string option"
  ec_edr_service_type :: "string option"
  ec_edr_service_start_type :: "string option"
  ec_edr_service_account_name :: "string option"
  ec_edr_task_name :: "string option"
  ec_edr_task_content :: "string option"
  ec_edr_task_user_name :: "string option"
  ec_edr_powershell_script_block_text :: "string option"
  ec_edr_powershell_script_block_id :: "string option"
  ec_edr_wmi_operation :: "string option"
  ec_edr_wmi_query :: "string option"
  ec_edr_wmi_namespace :: "string option"
  ec_edr_wmi_event_type :: "string option"
  ec_edr_remote_thread_target_pid :: "u64 option"
  ec_edr_remote_thread_target_image :: "string option"
  ec_edr_remote_thread_start_address :: "string option"
  ec_edr_remote_thread_start_module :: "string option"
  ec_edr_remote_thread_start_function :: "string option"
  ec_edr_process_target_image :: "string option"
  ec_related_ip :: "string list option"
  ec_related_user :: "string list option"
  ec_edr_match :: "match_details option"

definition ecs_version :: string where
  "ecs_version = ''9.4.0''"

definition or_some :: "'a option \<Rightarrow> 'a option \<Rightarrow> 'a option" where
  "or_some a b = (case a of None \<Rightarrow> b | Some v \<Rightarrow> Some v)"

section \<open>Account names\<close>

definition apply_user_fields :: "string option \<Rightarrow> ecs_alert \<Rightarrow> ecs_alert" where
  "apply_user_fields usr ecs =
     (case usr of None \<Rightarrow> ecs
      | Some value \<Rightarrow>
          if value = [] then ecs
          else
            let (name, id', domain) = split_user value;
                ecs1 = (if ec_user_id ecs = None then ecs\<lparr>ec_user_id := id'\<rparr> else ecs);
                ecs2 = (if ec_user_domain ecs1 = None then ecs1\<lparr>ec_user_domain := domain\<rparr> else ecs1)
            in (case name of None \<Rightarrow> ecs2
                | Some n \<Rightarrow>
                    if (case ec_user_name ecs2 of None \<Rightarrow> True | Some u \<Rightarrow> is_sid u)
                    then ecs2\<lparr>ec_user_name := Some n\<rparr> else ecs2))"

lemma apply_user_frame [simp]:
  "ec_process_executable (apply_user_fields u e) = ec_process_executable e"
  "ec_process_name (apply_user_fields u e) = ec_process_name e"
  "ec_process_command_line (apply_user_fields u e) = ec_process_command_line e"
  "ec_process_pid (apply_user_fields u e) = ec_process_pid e"
  "ec_process_parent_executable (apply_user_fields u e) = ec_process_parent_executable e"
  "ec_process_parent_name (apply_user_fields u e) = ec_process_parent_name e"
  "ec_process_parent_command_line (apply_user_fields u e) = ec_process_parent_command_line e"
  "ec_process_parent_pid (apply_user_fields u e) = ec_process_parent_pid e"
  "ec_process_working_directory (apply_user_fields u e) = ec_process_working_directory e"
  "ec_edr_process_integrity_level (apply_user_fields u e) = ec_edr_process_integrity_level e"
  "ec_process_original_file_name (apply_user_fields u e) = ec_process_original_file_name e"
  "ec_process_product (apply_user_fields u e) = ec_process_product e"
  "ec_process_description (apply_user_fields u e) = ec_process_description e"
  "ec_winlog_logon_id (apply_user_fields u e) = ec_winlog_logon_id e"
  "ec_winlog_logon_guid (apply_user_fields u e) = ec_winlog_logon_guid e"
  "ec_source_ip (apply_user_fields u e) = ec_source_ip e"
  "ec_destination_ip (apply_user_fields u e) = ec_destination_ip e"
  "ec_dns_resolved_ip (apply_user_fields u e) = ec_dns_resolved_ip e"
  "ec_related_ip (apply_user_fields u e) = ec_related_ip e"
  "ec_related_user (apply_user_fields u e) = ec_related_user e"
  "ec_file_path (apply_user_fields u e) = ec_file_path e"
  "ec_rule_id (apply_user_fields u e) = ec_rule_id e"
  "ec_rule_name (apply_user_fields u e) = ec_rule_name e"
  "ec_edr_rule_engine (apply_user_fields u e) = ec_edr_rule_engine e"
  by (simp_all add: apply_user_fields_def Let_def split: option.split prod.split)

text \<open>The three account fields depend on nothing but the three account fields.\<close>

definition user_fields :: "ecs_alert \<Rightarrow> string option \<times> string option \<times> string option" where
  "user_fields e = (ec_user_name e, ec_user_id e, ec_user_domain e)"

lemma user_fields_apply:
  "user_fields e = (n, i, d) \<Longrightarrow> v \<noteq> [] \<Longrightarrow> split_user v = (n', i', d') \<Longrightarrow>
   user_fields (apply_user_fields (Some v) e) =
     (case n' of None \<Rightarrow> n
      | Some m \<Rightarrow> (case n of None \<Rightarrow> Some m | Some u \<Rightarrow> if is_sid u then Some m else Some u),
      or_some i i', or_some d d')"
  by (auto simp: user_fields_def apply_user_fields_def or_some_def Let_def split: option.splits)

section \<open>Enrichment from the process context\<close>

definition apply_process_context :: "process_context \<Rightarrow> ecs_alert \<Rightarrow> ecs_alert" where
  "apply_process_context cx ecs =
     (let ecs1 = ecs
          \<lparr>ec_process_executable := or_some (ec_process_executable ecs) (cx_image cx),
           ec_process_command_line := or_some (ec_process_command_line ecs) (cx_command_line cx),
           ec_process_pid := or_some (ec_process_pid ecs) (parse_u64 (cx_process_id cx)),
           ec_process_parent_executable :=
             or_some (ec_process_parent_executable ecs) (cx_parent_image cx),
           ec_process_parent_command_line :=
             or_some (ec_process_parent_command_line ecs) (cx_parent_command_line cx),
           ec_process_parent_pid :=
             or_some (ec_process_parent_pid ecs) (parse_u64 (cx_parent_process_id cx)),
           ec_process_working_directory :=
             or_some (ec_process_working_directory ecs) (cx_current_directory cx),
           ec_edr_process_integrity_level :=
             or_some (ec_edr_process_integrity_level ecs) (cx_integrity_level cx),
           ec_process_original_file_name :=
             or_some (ec_process_original_file_name ecs) (cx_original_file_name cx),
           ec_process_product := or_some (ec_process_product ecs) (cx_product cx),
           ec_process_description := or_some (ec_process_description ecs) (cx_description cx)\<rparr>;
          ecs2 = apply_user_fields (cx_user cx) ecs1;
          ecs3 = ecs2
          \<lparr>ec_winlog_logon_id := or_some (ec_winlog_logon_id ecs2) (cx_logon_id cx),
           ec_winlog_logon_guid := or_some (ec_winlog_logon_guid ecs2) (cx_logon_guid cx)\<rparr>
      in ecs3
          \<lparr>ec_process_name := or_some (ec_process_name ecs3)
             (Option.bind (ec_process_executable ecs3) basename),
           ec_process_parent_name := or_some (ec_process_parent_name ecs3)
             (Option.bind (ec_process_parent_executable ecs3) basename)\<rparr>)"

section \<open>Translation of the event\<close>

definition ecs_initial :: "alert \<Rightarrow> ecs_alert" where
  "ecs_initial a =
     (let e = al_event a in
      \<lparr>ec_timestamp = ev_timestamp e,
        ec_ecs_version = ecs_version,
        ec_event_count = None,
        ec_event_kind = ''alert'',
        ec_event_category = ecs_event_category (ev_category e),
        ec_event_type = ecs_event_type (ev_category e) (ev_opcode e) (ev_event_id e),
        ec_event_action = ecs_event_action (ev_category e) (ev_opcode e) (ev_event_id e),
        ec_event_code = Some (if ev_event_id_string e \<noteq> [] then ev_event_id_string e
          else show_uint (ev_event_id e)),
        ec_event_severity = Some (alert_severity_to_event_severity (al_severity a)),
        ec_event_module = event_module,
        ec_event_dataset = event_dataset (ev_category e),
        ec_event_provider = ev_provider e,
        ec_host_os_type = host_os_type (ev_platform e),
        ec_host_os_family = host_os_family (ev_platform e),
        ec_rule_name = al_rule_name a,
        ec_rule_description = al_rule_description a,
        ec_rule_id = al_rule_id a,
        ec_edr_rule_severity = debug_severity (al_severity a),
        ec_edr_rule_engine = debug_engine (al_engine a),
        ec_process_executable = None,
        ec_process_name = None,
        ec_process_command_line = None,
        ec_process_pid = None,
        ec_process_parent_executable = None,
        ec_process_parent_name = None,
        ec_process_parent_command_line = None,
        ec_process_parent_pid = None,
        ec_process_working_directory = None,
        ec_edr_process_integrity_level = None,
        ec_process_original_file_name = None,
        ec_process_product = None,
        ec_process_description = None,
        ec_user_name = None,
        ec_user_id = None,
        ec_user_domain = None,
        ec_winlog_logon_id = None,
        ec_winlog_logon_guid = None,
        ec_destination_ip = None,
        ec_destination_port = None,
        ec_source_ip = None,
        ec_source_port = None,
        ec_destination_domain = None,
        ec_network_transport = None,
        ec_network_type = None,
        ec_network_protocol = None,
        ec_network_direction = None,
        ec_file_path = None,
        ec_file_name = None,
        ec_file_extension = None,
        ec_file_created = None,
        ec_edr_file_previous_created = None,
        ec_file_original_file_name = None,
        ec_file_product = None,
        ec_file_description = None,
        ec_file_code_signature_exists = None,
        ec_file_code_signature_subject_name = None,
        ec_dll_name = None,
        ec_dll_path = None,
        ec_registry_path = None,
        ec_registry_hive = None,
        ec_registry_key = None,
        ec_registry_value = None,
        ec_registry_data_strings = None,
        ec_edr_registry_event_type = None,
        ec_edr_registry_new_name = None,
        ec_dns_query = None,
        ec_dns_answers = None,
        ec_dns_response_code = None,
        ec_dns_resolved_ip = None,
        ec_service_name = None,
        ec_edr_service_executable = None,
        ec_edr_service_type = None,
        ec_edr_service_start_type = None,
        ec_edr_service_account_name = None,
        ec_edr_task_name = None,
        ec_edr_task_content = None,
        ec_edr_task_user_name = None,
        ec_edr_powershell_script_block_text = None,
        ec_edr_powershell_script_block_id = None,
        ec_edr_wmi_operation = None,
        ec_edr_wmi_query = None,
        ec_edr_wmi_namespace = None,
        ec_edr_wmi_event_type = None,
        ec_edr_remote_thread_target_pid = None,
        ec_edr_remote_thread_target_image = None,
        ec_edr_remote_thread_start_address = None,
        ec_edr_remote_thread_start_module = None,
        ec_edr_remote_thread_start_function = None,
        ec_edr_process_target_image = None,
        ec_related_ip = None,
        ec_related_user = None,
        ec_edr_match = al_match_details a\<rparr>)"

definition ecs_process_creation :: "process_fields \<Rightarrow> ecs_alert \<Rightarrow> ecs_alert" where
  "ecs_process_creation f ecs =
     (apply_user_fields (pc_user f)
        (ecs\<lparr>ec_process_executable := pc_image f,
             ec_process_command_line := pc_command_line f,
             ec_process_pid := parse_u64 (pc_process_id f),
             ec_process_parent_executable := pc_parent_image f,
             ec_process_parent_command_line := pc_parent_command_line f,
             ec_process_parent_pid := parse_u64 (pc_parent_process_id f),
             ec_process_working_directory := pc_current_directory f,
             ec_edr_process_integrity_level := pc_integrity_level f,
             ec_process_original_file_name := pc_original_file_name f,
             ec_process_product := pc_product f,
             ec_process_description := pc_description f\<rparr>))
      \<lparr>ec_winlog_logon_id := pc_logon_id f,
       ec_winlog_logon_guid := pc_logon_guid f,
       ec_edr_process_target_image := pc_target_image f\<rparr>"

definition ecs_network_connection :: "u8 \<Rightarrow> network_fields \<Rightarrow> ecs_alert \<Rightarrow> ecs_alert" where
  "ecs_network_connection opcode f ecs =
     (let ecs1 = ecs
          \<lparr>ec_process_executable := nc_image f,
           ec_process_pid := parse_u64 (nc_process_id f),
           ec_destination_ip := nc_destination_ip f,
           ec_destination_port := parse_u16 (nc_destination_port f),
           ec_source_ip := nc_source_ip f,
           ec_source_port := parse_u16 (nc_source_port f),
           ec_destination_domain := nc_destination_hostname f,
           ec_network_transport := or_some (nc_protocol f) (network_transport_from_opcode opcode)\<rparr>;
          ecs2 = (case or_some (ec_source_ip ecs1) (ec_destination_ip ecs1) of
              None \<Rightarrow> ecs1
            | Some ip \<Rightarrow> ecs1\<lparr>ec_network_type := network_type_from_ip ip\<rparr>)
      in apply_user_fields (nc_user f) ecs2)"

definition ecs_file_event :: "file_fields \<Rightarrow> ecs_alert \<Rightarrow> ecs_alert" where
  "ecs_file_event f ecs =
     apply_user_fields (fe_user f)
       (ecs\<lparr>ec_file_path := fe_target_filename f,
            ec_file_created := fe_creation_utc_time f,
            ec_edr_file_previous_created := fe_previous_creation_utc_time f,
            ec_process_executable := fe_image f,
            ec_process_pid := parse_u64 (fe_process_id f)\<rparr>)"

definition ecs_registry_event :: "registry_fields \<Rightarrow> ecs_alert \<Rightarrow> ecs_alert" where
  "ecs_registry_event f ecs =
     (let ecs1 = ecs\<lparr>ec_registry_path := re_target_object f\<rparr>;
          ecs2 = (case re_target_object f of None \<Rightarrow> ecs1
            | Some path \<Rightarrow>
                let (hive, key, value) = split_registry_path path (re_event_type f)
                in ecs1\<lparr>ec_registry_hive := hive, ec_registry_key := key,
                        ec_registry_value := value\<rparr>);
          ecs3 = apply_user_fields (re_user f)
            (ecs2\<lparr>ec_registry_data_strings := map_option (\<lambda>v. [v]) (re_details f),
                  ec_edr_registry_event_type := re_event_type f,
                  ec_edr_registry_new_name := re_new_name f,
                  ec_process_executable := re_image f,
                  ec_process_pid := parse_u64 (re_process_id f)\<rparr>)
      in case re_event_type f of None \<Rightarrow> ecs3
         | Some event_type \<Rightarrow> ecs3\<lparr>ec_event_action := Some event_type\<rparr>)"

definition ecs_dns_query :: "dns_fields \<Rightarrow> ecs_alert \<Rightarrow> ecs_alert" where
  "ecs_dns_query f ecs =
     (let ecs1 = ecs\<lparr>ec_dns_query := dq_query_name f\<rparr>;
          ecs2 = (case dq_query_results f of None \<Rightarrow> ecs1
            | Some results \<Rightarrow>
                let answered = ecs1\<lparr>ec_dns_answers := Some [\<lparr>da_data = results\<rparr>]\<rparr>;
                    ips = extract_ips results
                in if ips \<noteq> [] then answered\<lparr>ec_dns_resolved_ip := Some ips\<rparr> else answered)
      in ecs2\<lparr>ec_dns_response_code := dq_query_status f,
              ec_network_protocol := Some ''dns'',
              ec_process_executable := dq_image f,
              ec_process_pid := parse_u64 (dq_process_id f)\<rparr>)"

definition ecs_image_load :: "image_load_fields \<Rightarrow> ecs_alert \<Rightarrow> ecs_alert" where
  "ecs_image_load f ecs =
     apply_user_fields (il_user f)
       (ecs\<lparr>ec_file_path := il_image_loaded f,
            ec_file_original_file_name := il_original_file_name f,
            ec_file_product := il_product f,
            ec_file_description := il_description f,
            ec_file_code_signature_exists := parse_bool (il_signed f),
            ec_file_code_signature_subject_name := il_signature f,
            ec_dll_path := il_image_loaded f,
            ec_dll_name := Option.bind (il_image_loaded f) basename,
            ec_process_executable := il_image f,
            ec_process_pid := parse_u64 (il_process_id f)\<rparr>)"

definition ecs_powershell_script :: "script_fields \<Rightarrow> ecs_alert \<Rightarrow> ecs_alert" where
  "ecs_powershell_script f ecs =
     (apply_user_fields (ps_user f)
        (ecs\<lparr>ec_process_executable := ps_image f,
             ec_process_pid := parse_u64 (ps_process_id f)\<rparr>))
      \<lparr>ec_file_path := ps_path f,
       ec_edr_powershell_script_block_text := ps_script_block_text f,
       ec_edr_powershell_script_block_id := ps_script_block_id f\<rparr>"

definition ecs_wmi_event :: "wmi_fields \<Rightarrow> ecs_alert \<Rightarrow> ecs_alert" where
  "ecs_wmi_event f ecs =
     (let ecs1 = (apply_user_fields (wm_user f)
            (ecs\<lparr>ec_process_executable := wm_image f,
                 ec_process_pid := parse_u64 (wm_process_id f)\<rparr>))
          \<lparr>ec_destination_domain := wm_destination_hostname f,
           ec_edr_wmi_operation := wm_operation f,
           ec_edr_wmi_query := wm_query f,
           ec_edr_wmi_namespace := wm_event_namespace f,
           ec_edr_wmi_event_type := wm_event_type f\<rparr>
      in case wm_operation f of None \<Rightarrow> ecs1
         | Some operation \<Rightarrow> ecs1\<lparr>ec_event_action := Some operation\<rparr>)"

definition ecs_service_creation :: "service_fields \<Rightarrow> ecs_alert \<Rightarrow> ecs_alert" where
  "ecs_service_creation f ecs =
     apply_user_fields (sc_user f)
       (ecs\<lparr>ec_service_name := sc_service_name f,
            ec_edr_service_executable := sc_service_file_name f,
            ec_edr_service_type := sc_service_type f,
            ec_edr_service_start_type := sc_start_type f,
            ec_edr_service_account_name := sc_account_name f,
            ec_process_executable := sc_image f,
            ec_process_pid := parse_u64 (sc_process_id f)\<rparr>)"

definition ecs_task_creation :: "task_fields \<Rightarrow> ecs_alert \<Rightarrow> ecs_alert" where
  "ecs_task_creation f ecs =
     apply_user_fields (tc_user f)
       (ecs\<lparr>ec_edr_task_name := tc_task_name f,
            ec_edr_task_content := tc_task_content f,
            ec_edr_task_user_name := tc_user_name f,
            ec_process_executable := tc_image f,
            ec_process_pid := parse_u64 (tc_process_id f)\<rparr>)"

definition ecs_remote_thread :: "remote_thread_fields \<Rightarrow> ecs_alert \<Rightarrow> ecs_alert" where
  "ecs_remote_thread f ecs =
     apply_user_fields (rt_user f)
       (ecs\<lparr>ec_process_executable := rt_source_image f,
            ec_process_pid := parse_u64 (rt_source_process_id f),
            ec_edr_remote_thread_target_pid := parse_u64 (rt_target_process_id f),
            ec_edr_remote_thread_target_image := rt_target_image f,
            ec_edr_remote_thread_start_address := rt_start_address f,
            ec_edr_remote_thread_start_module := rt_start_module f,
            ec_edr_remote_thread_start_function := rt_start_function f\<rparr>)"

definition ecs_event_fields :: "u8 \<Rightarrow> event_fields \<Rightarrow> ecs_alert \<Rightarrow> ecs_alert" where
  "ecs_event_fields opcode fs =
     (case fs of
        ProcessCreation f \<Rightarrow> ecs_process_creation f
      | NetworkConnection f \<Rightarrow> ecs_network_connection opcode f
      | FileEvent f \<Rightarrow> ecs_file_event f
      | RegistryEvent f \<Rightarrow> ecs_registry_event f
      | DnsQuery f \<Rightarrow> ecs_dns_query f
      | ImageLoad f \<Rightarrow> ecs_image_load f
      | PowerShellScript f \<Rightarrow> ecs_powershell_script f
      | WmiEvent f \<Rightarrow> ecs_wmi_event f
      | ServiceCreation f \<Rightarrow> ecs_service_creation f
      | TaskCreation f \<Rightarrow> ecs_task_creation f
      | RemoteThread f \<Rightarrow> ecs_remote_thread f
      | Generic m \<Rightarrow> (\<lambda>ecs. ecs))"

section \<open>Derived fields\<close>

definition ecs_names :: "event_category \<Rightarrow> ecs_alert \<Rightarrow> ecs_alert" where
  "ecs_names category ecs = ecs
     \<lparr>ec_process_name := or_some (ec_process_name ecs)
        (Option.bind (ec_process_executable ecs) basename),
      ec_process_parent_name := or_some (ec_process_parent_name ecs)
        (Option.bind (ec_process_parent_executable ecs) basename),
      ec_network_direction := or_some (ec_network_direction ecs)
        (network_direction_from_category category),
      ec_file_name := or_some (ec_file_name ecs) (Option.bind (ec_file_path ecs) basename),
      ec_file_extension := or_some (ec_file_extension ecs)
        (Option.bind (ec_file_path ecs) file_extension_from_path)\<rparr>"

definition ecs_related :: "ecs_alert \<Rightarrow> ecs_alert" where
  "ecs_related ecs =
     (let related_ips = sort_dedup
            ((case ec_source_ip ecs of None \<Rightarrow> [] | Some ip \<Rightarrow> [ip]) @
             (case ec_destination_ip ecs of None \<Rightarrow> [] | Some ip \<Rightarrow> [ip]) @
             (case ec_dns_resolved_ip ecs of None \<Rightarrow> [] | Some ips \<Rightarrow> ips));
          ecs1 = (if related_ips \<noteq> [] then ecs\<lparr>ec_related_ip := Some related_ips\<rparr> else ecs);
          related_users = sort_dedup
            ((case ec_user_name ecs1 of None \<Rightarrow> [] | Some u \<Rightarrow> [u]) @
             (case ec_user_id ecs1 of None \<Rightarrow> [] | Some u \<Rightarrow> [u]))
      in if related_users \<noteq> [] then ecs1\<lparr>ec_related_user := Some related_users\<rparr> else ecs1)"

definition ecs_from_alert :: "alert \<Rightarrow> ecs_alert" where
  "ecs_from_alert a =
     (let e = al_event a;
          ecs1 = ecs_event_fields (ev_opcode e) (ev_fields e) (ecs_initial a);
          ecs2 = (case ev_process_context e of None \<Rightarrow> ecs1
            | Some context' \<Rightarrow> apply_process_context context' ecs1)
      in ecs_related (ecs_names (ev_category e) ecs2))"

section \<open>Frames\<close>

lemmas ecs_arm_defs = ecs_process_creation_def ecs_network_connection_def ecs_file_event_def
  ecs_registry_event_def ecs_dns_query_def ecs_image_load_def ecs_powershell_script_def
  ecs_wmi_event_def ecs_service_creation_def ecs_task_creation_def ecs_remote_thread_def

lemma or_some_None [simp]: "or_some None b = b" "or_some a None = a"
  by (simp_all add: or_some_def split: option.split)

lemma or_some_assoc: "or_some (or_some a b) c = or_some a (or_some b c)"
  by (simp add: or_some_def split: option.split)

lemma event_fields_frame [simp]:
  "ec_related_ip (ecs_event_fields opcode fs e) = ec_related_ip e"
  "ec_related_user (ecs_event_fields opcode fs e) = ec_related_user e"
  "ec_rule_id (ecs_event_fields opcode fs e) = ec_rule_id e"
  "ec_rule_name (ecs_event_fields opcode fs e) = ec_rule_name e"
  "ec_edr_rule_engine (ecs_event_fields opcode fs e) = ec_edr_rule_engine e"
  by (cases fs; simp add: ecs_event_fields_def ecs_arm_defs Let_def
      split: option.split prod.split)+

lemma process_context_frame [simp]:
  "ec_related_ip (apply_process_context cx e) = ec_related_ip e"
  "ec_related_user (apply_process_context cx e) = ec_related_user e"
  "ec_rule_id (apply_process_context cx e) = ec_rule_id e"
  "ec_rule_name (apply_process_context cx e) = ec_rule_name e"
  "ec_edr_rule_engine (apply_process_context cx e) = ec_edr_rule_engine e"
  by (simp_all add: apply_process_context_def Let_def)

lemma related_frame [simp]:
  "ec_process_executable (ecs_related e) = ec_process_executable e"
  "ec_process_name (ecs_related e) = ec_process_name e"
  "ec_process_command_line (ecs_related e) = ec_process_command_line e"
  "ec_process_pid (ecs_related e) = ec_process_pid e"
  "ec_process_parent_executable (ecs_related e) = ec_process_parent_executable e"
  "ec_process_parent_name (ecs_related e) = ec_process_parent_name e"
  "ec_process_parent_command_line (ecs_related e) = ec_process_parent_command_line e"
  "ec_process_parent_pid (ecs_related e) = ec_process_parent_pid e"
  "ec_process_working_directory (ecs_related e) = ec_process_working_directory e"
  "ec_edr_process_integrity_level (ecs_related e) = ec_edr_process_integrity_level e"
  "ec_process_original_file_name (ecs_related e) = ec_process_original_file_name e"
  "ec_process_product (ecs_related e) = ec_process_product e"
  "ec_process_description (ecs_related e) = ec_process_description e"
  "ec_winlog_logon_id (ecs_related e) = ec_winlog_logon_id e"
  "ec_winlog_logon_guid (ecs_related e) = ec_winlog_logon_guid e"
  "ec_source_ip (ecs_related e) = ec_source_ip e"
  "ec_destination_ip (ecs_related e) = ec_destination_ip e"
  "ec_dns_resolved_ip (ecs_related e) = ec_dns_resolved_ip e"
  "ec_file_path (ecs_related e) = ec_file_path e"
  "ec_rule_id (ecs_related e) = ec_rule_id e"
  "ec_rule_name (ecs_related e) = ec_rule_name e"
  "ec_edr_rule_engine (ecs_related e) = ec_edr_rule_engine e"
  "user_fields (ecs_related e) = user_fields e"
  by (simp_all add: ecs_related_def Let_def user_fields_def)

definition related_set :: "ecs_alert \<Rightarrow> string set" where
  "related_set e = set_option (ec_source_ip e) \<union> set_option (ec_destination_ip e) \<union>
     (\<Union>ips \<in> set_option (ec_dns_resolved_ip e). set ips)"

lemma related_set_related: "related_set (ecs_related e) = related_set e"
  by (simp add: related_set_def)

lemma related_ip_spec:
  assumes "ec_related_ip e = None"
  shows "case ec_related_ip (ecs_related e) of None \<Rightarrow> related_set e = {}
    | Some ips \<Rightarrow> ips \<noteq> [] \<and> set ips = related_set e \<and> sorted ips \<and> distinct ips"
proof -
  define l where "l = (case ec_source_ip e of None \<Rightarrow> [] | Some ip \<Rightarrow> [ip]) @
     (case ec_destination_ip e of None \<Rightarrow> [] | Some ip \<Rightarrow> [ip]) @
     (case ec_dns_resolved_ip e of None \<Rightarrow> [] | Some ips \<Rightarrow> ips)"
  have "set l = related_set e" by (auto simp: l_def related_set_def split: option.splits)
  moreover have "ec_related_ip (ecs_related e) = (if l = [] then None else Some (sort_dedup l))"
    using assms by (simp add: ecs_related_def Let_def l_def [symmetric])
  ultimately show ?thesis by (auto simp: sort_dedup_sorted sort_dedup_distinct)
qed

section \<open>Properties\<close>

text \<open>
  The related addresses of an ECS alert are exactly its source, its destination and
  its resolved addresses, sorted and each once; the field is absent when there is none.
\<close>

lemma ecs_related_ip_exact:
  "case ec_related_ip (ecs_from_alert a) of None \<Rightarrow> related_set (ecs_from_alert a) = {}
   | Some ips \<Rightarrow> ips \<noteq> [] \<and> set ips = related_set (ecs_from_alert a) \<and> sorted ips \<and> distinct ips"
proof -
  let ?e = "ecs_names (ev_category (al_event a))
    (case ev_process_context (al_event a) of
       None \<Rightarrow> ecs_event_fields (ev_opcode (al_event a)) (ev_fields (al_event a)) (ecs_initial a)
     | Some cx \<Rightarrow> apply_process_context cx
         (ecs_event_fields (ev_opcode (al_event a)) (ev_fields (al_event a)) (ecs_initial a)))"
  have "ecs_from_alert a = ecs_related ?e" by (simp add: ecs_from_alert_def Let_def)
  moreover have "ec_related_ip ?e = None"
    by (simp add: ecs_names_def ecs_initial_def Let_def split: option.split)
  ultimately show ?thesis using related_ip_spec [of ?e] by (simp only: related_set_related)
qed

text \<open>
  The process context only fills what the event itself leaves open: in the translated
  alert each process field is the one the alert has without the context, and the context's where
  that is absent.
\<close>

lemma ecs_context_fills_holes:
  "let bare = ecs_from_alert (a\<lparr>al_event := (al_event a)\<lparr>ev_process_context := None\<rparr>\<rparr>);
       full = ecs_from_alert (a\<lparr>al_event := (al_event a)\<lparr>ev_process_context := Some cx\<rparr>\<rparr>)
   in ec_process_executable full = or_some (ec_process_executable bare) (cx_image cx) \<and>
     ec_process_command_line full = or_some (ec_process_command_line bare) (cx_command_line cx) \<and>
     ec_process_pid full = or_some (ec_process_pid bare) (parse_u64 (cx_process_id cx)) \<and>
     ec_process_parent_executable full =
       or_some (ec_process_parent_executable bare) (cx_parent_image cx) \<and>
     ec_process_parent_command_line full =
       or_some (ec_process_parent_command_line bare) (cx_parent_command_line cx) \<and>
     ec_process_parent_pid full =
       or_some (ec_process_parent_pid bare) (parse_u64 (cx_parent_process_id cx)) \<and>
     ec_process_working_directory full =
       or_some (ec_process_working_directory bare) (cx_current_directory cx) \<and>
     ec_process_original_file_name full =
       or_some (ec_process_original_file_name bare) (cx_original_file_name cx) \<and>
     ec_winlog_logon_id full = or_some (ec_winlog_logon_id bare) (cx_logon_id cx) \<and>
     ec_winlog_logon_guid full = or_some (ec_winlog_logon_guid bare) (cx_logon_guid cx)"
proof -
  have i: "ecs_initial (a\<lparr>al_event := (al_event a)\<lparr>ev_process_context := c\<rparr>\<rparr>) = ecs_initial a" for c
    by (simp add: ecs_initial_def Let_def)
  show ?thesis
    by (simp add: ecs_from_alert_def Let_def i ecs_names_def
        apply_process_context_def)
qed

text \<open>
  Account names: when the event names the account by its SID only and the context knows it as
  \<open>DOMAIN\name\<close>, the translated alert has the SID as the identifier, and the name and
  the domain of the context.
\<close>

lemma ecs_sid_completed_by_context:
  assumes "ev_fields (al_event a) = ProcessCreation f" and "pc_user f = Some sid" and "is_sid sid"
    and "ev_process_context (al_event a) = Some cx"
    and "cx_user cx = Some (domain @ backslash # name)" and "backslash \<notin> set domain"
    and "\<not> is_sid (domain @ backslash # name)"
  shows "user_fields (ecs_from_alert a) = (Some name, Some sid, Some domain)"
proof -
  let ?e = "ecs_event_fields (ev_opcode (al_event a)) (ProcessCreation f) (ecs_initial a)"
  have "sid \<noteq> []" using assms(3) by (auto simp: is_sid_def)
  moreover have "split_user sid = (None, Some sid, None)" using assms(3) by (simp add: split_user_def)
  ultimately have e: "user_fields ?e = (None, Some sid, None)"
    using user_fields_apply [of _ None None None sid None "Some sid" None] assms(2)
    by (simp add: ecs_event_fields_def ecs_process_creation_def ecs_initial_def Let_def
        user_fields_def)
  have s: "split_user (domain @ backslash # name) = (Some name, None, Some domain)"
    using assms(6,7) by (simp add: split_user_def split_once_append)
  have c: "user_fields (apply_process_context cx ?e) = (Some name, Some sid, Some domain)"
    using user_fields_apply [OF _ _ s, of _ None "Some sid" None] e assms(5)
    by (simp add: apply_process_context_def Let_def user_fields_def)
  have "user_fields (ecs_from_alert a) = user_fields (apply_process_context cx ?e)"
    using assms(1,4) by (simp add: ecs_from_alert_def Let_def ecs_names_def user_fields_def
        ecs_related_def)
  with c show ?thesis by simp
qed

definition sample_process_fields :: process_fields where
  "sample_process_fields = \<lparr>pc_image = Some (join [backslash] [''C:'', ''a'', ''b.exe'']), pc_original_file_name = None,
     pc_product = None, pc_description = None, pc_target_image = None,
     pc_command_line = Some ''b.exe -x'', pc_process_id = Some ''42'',
     pc_process_start_time = Some 7, pc_parent_process_id = None, pc_parent_image = None,
     pc_parent_command_line = None, pc_current_directory = None, pc_integrity_level = None,
     pc_user = Some ''S-1-5-18'', pc_logon_id = None, pc_logon_guid = None\<rparr>"

definition sample_context :: process_context where
  "sample_context = \<lparr>cx_image = None, cx_command_line = None, cx_process_id = None,
     cx_process_start_time = None, cx_parent_process_id = None, cx_parent_image = None,
     cx_parent_command_line = None, cx_original_file_name = None, cx_product = None,
     cx_description = None, cx_current_directory = None, cx_integrity_level = None,
     cx_user = Some (join [backslash] [''NT AUTHORITY'', ''SYSTEM'']), cx_logon_id = None, cx_logon_guid = None\<rparr>"

definition sample_alert :: alert where
  "sample_alert = \<lparr>al_severity = High, al_rule_name = ''r'', al_rule_description = None,
     al_rule_id = None, al_engine = EngineSigma,
     al_event = \<lparr>ev_timestamp = ''t'', ev_platform = Windows, ev_provider = ''etw'',
       ev_category = CatProcess, ev_event_id = 1, ev_event_id_string = ''1'', ev_opcode = 1,
       ev_fields = ProcessCreation sample_process_fields,
       ev_process_context = Some sample_context\<rparr>,
     al_match_details = None\<rparr>"


end
