(* ===== verification/Dedup.thy ===== *)
theory Dedup
  imports Ecs
begin

text \<open>
  \<open>src/alerts/dedup.rs\<close> and \<open>src/alerts/mod.rs\<close>: the alert sink and its deduplicator. An
  \<open>Instant\<close> is a number of nanoseconds and \<open>duration_since\<close> is truncated subtraction. The sink's
  output is the list of ECS records it writes. \<open>it\<close> is the
  iteration order of the table. Every operation holds the table's lock, so it is one step.
\<close>

section \<open>State\<close>

record dedup_key =
  dk_engine :: string
  dk_rule_id_or_name :: string
  dk_executable :: string
  dk_parent_executable :: string
  dk_user_name :: string

record dedup_entry =
  de_first_seen :: nat
  de_count :: u64
  de_sample :: alert

record deduplicator =
  dd_window :: nat
  dd_max_entries :: nat
  dd_table :: "(dedup_key, dedup_entry) hmap"
  dd_suppressed_total :: u64
  dd_aggregated_total :: u64

type_synonym key_order = "(dedup_key, dedup_entry) hmap \<Rightarrow> dedup_key list"

definition dedup_new :: "u64 \<Rightarrow> nat \<Rightarrow> deduplicator" where
  "dedup_new window_secs max_entries =
     \<lparr>dd_window = unat window_secs * 1000000000, dd_max_entries = max_entries, dd_table = [],
      dd_suppressed_total = 0, dd_aggregated_total = 0\<rparr>"

definition unwrap_or_default :: "string option \<Rightarrow> string" where
  "unwrap_or_default v = (case v of None \<Rightarrow> [] | Some s \<Rightarrow> s)"

definition dedup_key_from_ecs :: "ecs_alert \<Rightarrow> dedup_key" where
  "dedup_key_from_ecs ecs =
     \<lparr>dk_engine = ec_edr_rule_engine ecs,
      dk_rule_id_or_name = (case ec_rule_id ecs of
         Some i \<Rightarrow> i | None \<Rightarrow> ''name::'' @ ec_rule_name ecs),
      dk_executable = unwrap_or_default (ec_process_executable ecs),
      dk_parent_executable = unwrap_or_default (ec_process_parent_executable ecs),
      dk_user_name = unwrap_or_default (ec_user_name ecs)\<rparr>"

definition alert_key :: "alert \<Rightarrow> dedup_key" where
  "alert_key a = dedup_key_from_ecs (ecs_from_alert a)"

section \<open>Operations\<close>

definition dedup_record ::
  "nat \<Rightarrow> ecs_alert \<Rightarrow> alert \<Rightarrow> deduplicator \<Rightarrow> deduplicator \<times> bool" where
  "dedup_record now ecs a d =
     (let key = dedup_key_from_ecs ecs in
      case hm_get (dd_table d) key of
        Some entry \<Rightarrow>
          (d\<lparr>dd_table := hm_insert key (entry\<lparr>de_count := de_count entry + 1\<rparr>) (dd_table d),
             dd_suppressed_total := dd_suppressed_total d + 1\<rparr>, False)
      | None \<Rightarrow>
          if dd_max_entries d \<le> length (dd_table d) then (d, True)
          else (d\<lparr>dd_table := hm_insert key
                    \<lparr>de_first_seen = now, de_count = 1, de_sample = a\<rparr> (dd_table d)\<rparr>, True))"

fun emit_rollups :: "dedup_entry list \<Rightarrow> deduplicator \<Rightarrow> deduplicator \<times> ecs_alert list" where
  "emit_rollups [] d = (d, [])"
| "emit_rollups (entry # entries) d =
     (if de_count entry \<le> 1 then emit_rollups entries d
      else
        let ecs = (ecs_from_alert (de_sample entry))\<lparr>ec_event_count := Some (de_count entry)\<rparr>;
            (d', out) = emit_rollups entries
              (d\<lparr>dd_aggregated_total := dd_aggregated_total d + 1\<rparr>)
        in (d', ecs # out))"

definition drain_expired ::
  "key_order \<Rightarrow> nat \<Rightarrow> deduplicator \<Rightarrow> deduplicator \<times> dedup_entry list" where
  "drain_expired it now d =
     (let expired_keys = filter
            (\<lambda>k. case hm_get (dd_table d) k of None \<Rightarrow> False
                | Some e \<Rightarrow> dd_window d \<le> now - de_first_seen e) (it (dd_table d))
      in (d\<lparr>dd_table := hm_remove_all expired_keys (dd_table d)\<rparr>,
          List.map_filter (hm_get (dd_table d)) expired_keys))"

definition flush_expired ::
  "key_order \<Rightarrow> nat \<Rightarrow> deduplicator \<Rightarrow> deduplicator \<times> ecs_alert list" where
  "flush_expired it now d =
     (let (d', expired) = drain_expired it now d in emit_rollups expired d')"

definition flush_all :: "key_order \<Rightarrow> deduplicator \<Rightarrow> deduplicator \<times> ecs_alert list" where
  "flush_all it d =
     emit_rollups (List.map_filter (hm_get (dd_table d)) (it (dd_table d))) (d\<lparr>dd_table := []\<rparr>)"

text \<open>\<open>AlertSink::write_alert\<close>, without and with a deduplicator attached.\<close>

definition write_alert ::
  "nat \<Rightarrow> alert \<Rightarrow> deduplicator option \<Rightarrow> deduplicator option \<times> ecs_alert list" where
  "write_alert now a sink =
     (let ecs = ecs_from_alert a in
      case sink of
        Some d \<Rightarrow> let (d', emit) = dedup_record now ecs a d
                  in (Some d', if emit then [ecs] else [])
      | None \<Rightarrow> (None, [ecs]))"

text \<open>A tick of the flush worker and the shutdown flush do nothing without a deduplicator.\<close>

datatype sink_op = WriteAlert nat alert | FlushTick key_order nat | Shutdown key_order

fun sink_step :: "deduplicator option \<Rightarrow> sink_op \<Rightarrow> deduplicator option \<times> ecs_alert list" where
  "sink_step sink (WriteAlert now a) = write_alert now a sink"
| "sink_step (Some d) (FlushTick it now) = apfst Some (flush_expired it now d)"
| "sink_step (Some d) (Shutdown it) = apfst Some (flush_all it d)"
| "sink_step None (FlushTick it now) = (None, [])"
| "sink_step None (Shutdown it) = (None, [])"

fun sink_ok :: "sink_op \<Rightarrow> bool" where
  "sink_ok (WriteAlert now a) = True"
| "sink_ok (FlushTick it now) = hash_iter it"
| "sink_ok (Shutdown it) = hash_iter it"

section \<open>Invariant\<close>

text \<open>
  After \<open>n\<close> events: the table is within its bound, an entry's sample alert has the entry's key,
  and an entry has counted at least its first and at most the \<open>n\<close> alerts there were.
\<close>

definition dedup_inv :: "nat \<Rightarrow> deduplicator \<Rightarrow> bool" where
  "dedup_inv n d \<longleftrightarrow>
     hm_wf (dd_table d) \<and> length (dd_table d) \<le> dd_max_entries d \<and>
     (\<forall>k e. hm_get (dd_table d) k = Some e \<longrightarrow>
        alert_key (de_sample e) = k \<and>
        1 \<le> unat (de_count e) \<and> unat (de_count e) \<le> n)"

definition sink_inv :: "nat \<Rightarrow> deduplicator option \<Rightarrow> bool" where
  "sink_inv n sink = (case sink of None \<Rightarrow> True | Some d \<Rightarrow> dedup_inv n d)"

text \<open>
  Book-keeping of the alerts whose key satisfies \<open>K\<close>: how many a written record stands for besides
  those already written, and how many the table still owes.
\<close>

definition stands_for :: "(dedup_key \<Rightarrow> bool) \<Rightarrow> ecs_alert \<Rightarrow> nat" where
  "stands_for K r =
     (if K (dedup_key_from_ecs r)
      then (case ec_event_count r of None \<Rightarrow> 1 | Some c \<Rightarrow> unat c - 1) else 0)"

definition owed :: "(dedup_key \<Rightarrow> bool) \<Rightarrow> dedup_entry \<Rightarrow> nat" where
  "owed K e = (if K (alert_key (de_sample e)) then unat (de_count e) - 1 else 0)"

definition pending :: "(dedup_key \<Rightarrow> bool) \<Rightarrow> deduplicator \<Rightarrow> nat" where
  "pending K d = sum_list (map (\<lambda>p. owed K (snd p)) (dd_table d))"

definition sink_pending :: "(dedup_key \<Rightarrow> bool) \<Rightarrow> deduplicator option \<Rightarrow> int" where
  "sink_pending K sink = (case sink of None \<Rightarrow> 0 | Some d \<Rightarrow> int (pending K d))"

fun writes :: "(dedup_key \<Rightarrow> bool) \<Rightarrow> sink_op \<Rightarrow> bool" where
  "writes K (WriteAlert now a) = K (alert_key a)"
| "writes K _ = False"

definition write_charge :: "(dedup_key \<Rightarrow> bool) \<Rightarrow> sink_op \<Rightarrow> ecs_alert list \<Rightarrow> int" where
  "write_charge K op out =
     (if writes K op then 1 else 0) - int (sum_list (map (stands_for K) out))"

section \<open>Lemmas\<close>

lemma user_event_count [simp]: "ec_event_count (apply_user_fields u e) = ec_event_count e"
  by (simp add: apply_user_fields_def Let_def split: option.split prod.split)

lemma event_fields_event_count [simp]:
  "ec_event_count (ecs_event_fields opcode fs e) = ec_event_count e"
  by (cases fs; simp add: ecs_event_fields_def ecs_arm_defs Let_def split: option.split prod.split)

lemma event_count_frame [simp]:
  "ec_event_count (ecs_related e) = ec_event_count e"
  "ec_event_count (ecs_names c e) = ec_event_count e"
  "ec_event_count (apply_process_context cx e) = ec_event_count e"
  "ec_event_count (ecs_initial a) = None"
  by (simp_all add: ecs_related_def ecs_names_def apply_process_context_def ecs_initial_def Let_def)

lemma ecs_event_count [simp]: "ec_event_count (ecs_from_alert a) = None"
  by (cases "ev_process_context (al_event a)") (simp_all add: ecs_from_alert_def Let_def)

lemma dedup_key_count [simp]: "dedup_key_from_ecs (e\<lparr>ec_event_count := c\<rparr>) = dedup_key_from_ecs e"
  by (simp add: dedup_key_from_ecs_def split: option.split)

lemma stands_for_alert [simp]:
  "stands_for K (ecs_from_alert a) = (if K (alert_key a) then 1 else 0)"
  by (simp add: stands_for_def alert_key_def)

lemma alert_key_rule:
  "dk_rule_id_or_name (alert_key a) =
     (case al_rule_id a of Some i \<Rightarrow> i | None \<Rightarrow> ''name::'' @ al_rule_name a)"
proof -
  have "ec_rule_id (ecs_from_alert a) = al_rule_id a" "ec_rule_name (ecs_from_alert a) = al_rule_name a"
    by (cases "ev_process_context (al_event a)";
        simp add: ecs_from_alert_def ecs_names_def ecs_initial_def Let_def)+
  then show ?thesis by (simp add: alert_key_def dedup_key_from_ecs_def split: option.split)
qed

lemma emit_rollups_table [simp]: "dd_table (fst (emit_rollups es d)) = dd_table d"
  "dd_max_entries (fst (emit_rollups es d)) = dd_max_entries d"
  "dd_window (fst (emit_rollups es d)) = dd_window d"
  by (induction es d rule: emit_rollups.induct) (simp_all add: Let_def case_prod_unfold)

lemma emit_rollups_stands_for:
  "sum_list (map (stands_for K) (snd (emit_rollups es d))) = sum_list (map (owed K) es)"
proof (induction es d rule: emit_rollups.induct)
  case (2 e es d)
  have "unat (de_count e) - 1 = 0" if "de_count e \<le> 1"
    using that by (simp add: word_le_nat_alt)
  with 2 show ?case
    by (simp add: Let_def stands_for_def owed_def alert_key_def case_prod_unfold)
qed simp

lemma sum_hm_remove:
  "hm_wf m \<Longrightarrow> hm_get m k = Some v \<Longrightarrow>
   sum_list (map f m) = f (k, v) + sum_list (map f (hm_remove k m))" for f :: "'a \<times> 'b \<Rightarrow> nat"
proof (induction m)
  case (Cons p m)
  show ?case
  proof (cases "fst p = k")
    case True
    with Cons.prems have "k \<notin> fst ` set m" and "p = (k, v)" by (auto split: if_splits)
    then have "hm_remove k (p # m) = m"
      by (force simp: AList.delete_eq intro!: filter_True)
    with \<open>p = (k, v)\<close> show ?thesis by simp
  next
    case False
    with Cons show ?thesis by (cases p) (auto simp: AList.delete_eq)
  qed
qed simp

lemma sum_hm_insert:
  "hm_wf m \<Longrightarrow> sum_list (map f (hm_insert k v m)) = f (k, v) + sum_list (map f (hm_remove k m))"
  for f :: "'a \<times> 'b \<Rightarrow> nat"
proof -
  assume "hm_wf m"
  then have "hm_wf (hm_insert k v m)" by (rule hm.wf_put)
  moreover have "hm_remove k (hm_insert k v m) = hm_remove k m"
    by (induction m) (auto simp: AList.delete_eq)
  ultimately show ?thesis using sum_hm_remove [of "hm_insert k v m" k v f] by (simp add: hm.get_put)
qed

lemma map_filter_get_keys:
  assumes "hm_wf m"
  shows "List.map_filter (hm_get m) (filter P (map fst m)) = map snd (filter (\<lambda>p. P (fst p)) m)"
proof -
  have "List.map_filter (hm_get m) (map fst xs) = map snd xs" if "set xs \<subseteq> set m" for xs
    using that
    by (induction xs) (auto simp: List.map_filter_simps map_of_is_SomeI [OF assms])
  from this [of "filter (\<lambda>p. P (fst p)) m"] show ?thesis by (simp add: filter_map comp_def)
qed

context hash_iter
begin

text \<open>The entries under the keys one traversal selects, whatever its order.\<close>

lemma mset_selected:
  assumes "hm_wf m"
  shows "mset (List.map_filter (hm_get m) (filter P (it m))) =
    mset (map snd (filter (\<lambda>p. P (fst p)) m))"
proof -
  have mf: "mset (List.map_filter g xs) = image_mset (the \<circ> g) (filter_mset (\<lambda>x. g x \<noteq> None) (mset xs))"
    for g :: "'k \<Rightarrow> 'v option" and xs
    by (simp add: List.map_filter_def)
  have "mset (List.map_filter (hm_get m) (filter P (it m))) =
      mset (List.map_filter (hm_get m) (filter P (map fst m)))"
    by (simp only: mf mset_filter it_keys [OF assms])
  with map_filter_get_keys [OF assms, of P] show ?thesis by simp
qed

lemma sum_selected:
  fixes f :: "'v \<Rightarrow> nat"
  assumes "hm_wf m"
  shows "sum_list (map f (List.map_filter (hm_get m) (filter P (it m)))) =
    sum_list (map (\<lambda>p. f (snd p)) (filter (\<lambda>p. P (fst p)) m))"
proof -
  have "mset (map f (List.map_filter (hm_get m) (filter P (it m)))) =
      mset (map (\<lambda>p. f (snd p)) (filter (\<lambda>p. P (fst p)) m))"
    using mset_selected [OF assms, of P] by (simp add: image_mset.compositionality comp_def)
  then show ?thesis by (metis sum_mset_sum_list)
qed

end

lemma pending_remove:
  "hm_wf (dd_table d) \<Longrightarrow> hm_get (dd_table d) k = Some e \<Longrightarrow>
   pending K d = owed K e + pending K (d\<lparr>dd_table := hm_remove k (dd_table d)\<rparr>)"
  unfolding pending_def by (subst sum_hm_remove [of _ k e]) simp_all

lemma pending_put:
  "hm_wf (dd_table d) \<Longrightarrow> pending K (d\<lparr>dd_table := hm_insert k e (dd_table d)\<rparr>) =
     owed K e + pending K (d\<lparr>dd_table := hm_remove k (dd_table d)\<rparr>)"
  unfolding pending_def by (simp add: sum_hm_insert)

lemma pending_cong [simp]: "pending K (d\<lparr>dd_suppressed_total := x\<rparr>) = pending K d"
  by (simp add: pending_def)

lemma unat_inc_bounded:
  "unat c \<le> n \<Longrightarrow> n < 2 ^ 64 - 1 \<Longrightarrow> unat (c + 1) = Suc (unat c)" for c :: u64
proof -
  assume "unat c \<le> n" and "n < 2 ^ 64 - 1"
  moreover have "unat (- 1 :: u64) = 2 ^ 64 - 1"
    by (simp add: unsigned_minus_1_eq_mask mask_eq_exp_minus_1)
  ultimately have "c \<noteq> - 1" by auto
  then show ?thesis by (simp add: unat_inc)
qed

lemma record_inv:
  assumes inv: "dedup_inv n d" and n: "n < 2 ^ 64 - 1"
  shows "dedup_inv (Suc n) (fst (dedup_record now (ecs_from_alert a) a d))"
proof (cases "hm_get (dd_table d) (alert_key a)")
  case None
  then have "alert_key a \<notin> fst ` set (dd_table d)" by (simp add: map_of_eq_None_iff)
  with None inv show ?thesis
    by (auto simp: dedup_record_def alert_key_def [symmetric] Let_def dedup_inv_def hm.store_laws
        hm_insert_length le_SucI not_le split: if_splits)
next
  case (Some e)
  with inv have "1 \<le> unat (de_count e)" "unat (de_count e) \<le> n" by (simp_all add: dedup_inv_def)
  with unat_inc_bounded [OF _ n] have "unat (de_count e + 1) = Suc (unat (de_count e))" by simp
  with Some inv show ?thesis
    by (auto simp: dedup_record_def alert_key_def [symmetric] Let_def dedup_inv_def hm.store_laws
        hm_insert_length le_SucI dest: hm_get_in_keys split: if_splits)
qed

lemma record_pending:
  assumes inv: "dedup_inv n d" and n: "n < 2 ^ 64 - 1"
  shows "pending K (fst (dedup_record now (ecs_from_alert a) a d)) =
    pending K d +
    (if snd (dedup_record now (ecs_from_alert a) a d) \<or> \<not> K (alert_key a) then 0 else 1)"
proof (cases "hm_get (dd_table d) (alert_key a)")
  case None
  then have "hm_remove (alert_key a) (dd_table d) = dd_table d"
    by (simp add: delete_idem map_of_eq_None_iff)
  with None inv show ?thesis
    by (simp add: dedup_record_def alert_key_def [symmetric] Let_def pending_put dedup_inv_def
        owed_def)
next
  case (Some e)
  have wf: "hm_wf (dd_table d)" using inv by (simp add: dedup_inv_def)
  from inv Some have e: "1 \<le> unat (de_count e)" "unat (de_count e) \<le> n"
    "alert_key (de_sample e) = alert_key a" by (simp_all add: dedup_inv_def)
  with unat_inc_bounded [OF _ n] have "unat (de_count e + 1) = Suc (unat (de_count e))" by simp
  with e Some show ?thesis
    by (simp add: dedup_record_def alert_key_def [symmetric] Let_def pending_put [OF wf]
        pending_remove [OF wf Some] owed_def)
qed

lemma drain_inv: "dedup_inv n d \<Longrightarrow> dedup_inv (Suc n) (fst (drain_expired it now d))"
  by (auto simp: drain_expired_def Let_def dedup_inv_def hm_remove_all_wf hm_get_remove_all
      le_SucI intro: le_trans [OF hm_remove_all_length] split: if_splits)

lemma emit_inv: "dedup_inv n (fst (emit_rollups es d)) \<longleftrightarrow> dedup_inv n d"
  by (simp add: dedup_inv_def)

lemma emit_pending: "pending K (fst (emit_rollups es d)) = pending K d"
  by (simp add: pending_def)

lemma drain_table:
  assumes "hash_iter it" and wf: "hm_wf (dd_table d)"
  shows "dd_table (fst (drain_expired it now d)) =
    filter (\<lambda>(k, e). now - de_first_seen e < dd_window d) (dd_table d)"
proof -
  have "k \<in> set (it (dd_table d)) \<and> hm_get (dd_table d) k = Some e"
    if "(k, e) \<in> set (dd_table d)" for k e
    using that hash_iter.set_it [OF assms] map_of_is_SomeI [OF wf that] by force
  then show ?thesis
    by (auto simp: drain_expired_def Let_def hm_remove_all_filter not_le intro!: filter_cong)
qed

lemma drain_pending:
  assumes "hash_iter it" and wf: "hm_wf (dd_table d)"
  shows "pending K d = pending K (fst (drain_expired it now d)) +
    sum_list (map (owed K) (snd (drain_expired it now d)))"
proof -
  let ?P = "\<lambda>k. case hm_get (dd_table d) k of None \<Rightarrow> False
    | Some e \<Rightarrow> dd_window d \<le> now - de_first_seen e"
  let ?c = "\<lambda>p :: dedup_key \<times> dedup_entry. owed K (snd p)"
  have "?P (fst p) \<longleftrightarrow> \<not> now - de_first_seen (snd p) < dd_window d" if "p \<in> set (dd_table d)" for p
    using map_of_is_SomeI [OF wf, of "fst p" "snd p"] that by (simp add: not_less)
  then have "filter (\<lambda>p. ?P (fst p)) (dd_table d) =
      filter (\<lambda>p. \<not> now - de_first_seen (snd p) < dd_window d) (dd_table d)"
    by (intro filter_cong) simp_all
  then have "sum_list (map (owed K) (snd (drain_expired it now d))) =
      sum_list (map ?c (filter (\<lambda>p. \<not> now - de_first_seen (snd p) < dd_window d) (dd_table d)))"
    by (simp add: drain_expired_def Let_def hash_iter.sum_selected [OF assms])
  moreover have "pending K d =
      sum_list (map ?c (filter (\<lambda>p. now - de_first_seen (snd p) < dd_window d) (dd_table d))) +
      sum_list (map ?c (filter (\<lambda>p. \<not> now - de_first_seen (snd p) < dd_window d) (dd_table d)))"
    by (simp only: pending_def sum_list_map_filter_split)
  ultimately show ?thesis
    by (simp add: pending_def drain_table [OF assms] case_prod_unfold)
qed

lemma flush_expired_ledger:
  assumes "hash_iter it" and "dedup_inv n d"
  shows "pending K d = pending K (fst (flush_expired it now d)) +
    sum_list (map (stands_for K) (snd (flush_expired it now d)))"
  using drain_pending [OF assms(1), of d K now] assms(2)
  by (simp add: flush_expired_def Let_def case_prod_unfold emit_rollups_stands_for emit_pending
      dedup_inv_def)

lemma flush_all_ledger:
  assumes "hash_iter it" and "dedup_inv n d"
  shows "pending K d = sum_list (map (stands_for K) (snd (flush_all it d)))"
    and "pending K (fst (flush_all it d)) = 0"
proof -
  have wf: "hm_wf (dd_table d)" using assms(2) by (simp add: dedup_inv_def)
  show "pending K d = sum_list (map (stands_for K) (snd (flush_all it d)))"
    using hash_iter.sum_selected [OF assms(1) wf, of "owed K" "\<lambda>_. True"]
    by (simp add: flush_all_def emit_rollups_stands_for pending_def)
  show "pending K (fst (flush_all it d)) = 0" by (simp add: flush_all_def emit_pending pending_def)
qed

lemma sink_step_inv:
  "sink_inv n s \<Longrightarrow> n < 2 ^ 64 - 1 \<Longrightarrow> sink_inv (Suc n) (fst (sink_step s e))"
proof (cases s)
  case (Some d)
  assume "sink_inv n s" and n: "n < 2 ^ 64 - 1"
  with Some have d: "dedup_inv n d" by (simp add: sink_inv_def)
  show ?thesis
  proof (cases e)
    case (WriteAlert now a)
    with Some record_inv [OF d n, of now a] show ?thesis
      by (simp add: sink_inv_def write_alert_def Let_def case_prod_unfold)
  next
    case (FlushTick it now)
    with Some drain_inv [OF d, of it now] show ?thesis
      by (simp add: sink_inv_def flush_expired_def Let_def case_prod_unfold emit_inv)
  next
    case (Shutdown it)
    with Some show ?thesis by (simp add: sink_inv_def flush_all_def emit_inv dedup_inv_def)
  qed
next
  case None
  then show ?thesis
    by (cases e) (simp_all add: sink_inv_def write_alert_def Let_def)
qed

interpretation sink: ledger sink_step sink_inv sink_ok "2 ^ 64 - 1" "sink_pending K" "write_charge K"
  for K
proof
  fix n s e
  assume inv: "sink_inv n s" and ok: "sink_ok e" and n: "n < 2 ^ 64 - 1"
  show "sink_inv (Suc n) (fst (sink_step s e))" using inv n by (rule sink_step_inv)
  show "sink_pending K (fst (sink_step s e)) =
    sink_pending K s + write_charge K e (snd (sink_step s e))"
  proof (cases s)
    case None
    then show ?thesis
      by (cases e) (simp_all add: write_alert_def write_charge_def sink_pending_def Let_def)
  next
    case (Some d)
    with inv have d: "dedup_inv n d" by (simp add: sink_inv_def)
    show ?thesis
    proof (cases e)
      case (WriteAlert now a)
      with Some show ?thesis
        using record_pending [OF d n, of K now a]
        by (simp add: write_alert_def write_charge_def sink_pending_def Let_def case_prod_unfold)
    next
      case (FlushTick it now)
      with Some ok show ?thesis
        using flush_expired_ledger [OF _ d, of it K now]
        by (simp add: write_charge_def sink_pending_def)
    next
      case (Shutdown it)
      with Some ok show ?thesis
        using flush_all_ledger [OF _ d, of it K] by (simp add: write_charge_def sink_pending_def)
    qed
  qed
qed

lemma dedup_new_inv: "sink_inv 0 (Some (dedup_new w m))"
  by (simp add: sink_inv_def dedup_inv_def dedup_new_def)

lemma sum_write_charge:
  "length outs = length ops \<Longrightarrow>
   sum_list (map2 (write_charge K) ops outs) =
     int (length (filter (writes K) ops)) - int (sum_list (map (stands_for K) (concat outs)))"
  by (induction outs ops rule: list_induct2) (simp_all add: write_charge_def)

lemma shutdown_pending:
  "sink_inv n s \<Longrightarrow> hash_iter it \<Longrightarrow> sink_pending K (fst (sink_step s (Shutdown it))) = 0"
  by (cases s) (simp_all add: sink_pending_def sink_inv_def flush_all_ledger(2))

text \<open>Only the keys of written alerts are ever in the table.\<close>

definition table_keys :: "deduplicator option \<Rightarrow> dedup_key set" where
  "table_keys s = (case s of None \<Rightarrow> {} | Some d \<Rightarrow> fst ` set (dd_table d))"

lemma table_keys_step:
  "table_keys (fst (sink_step s e)) \<subseteq> table_keys s \<union> {alert_key a |a now. e = WriteAlert now a}"
proof (cases s)
  case (Some d)
  show ?thesis
  proof (cases e)
    case (WriteAlert now a)
    with Some show ?thesis
      by (auto simp: table_keys_def write_alert_def dedup_record_def Let_def dom_update
          alert_key_def [symmetric] split: option.splits if_splits)
  next
    case (FlushTick it now)
    with Some show ?thesis
      by (auto simp: table_keys_def flush_expired_def Let_def case_prod_unfold drain_expired_def
          hm_remove_all_filter)
  next
    case (Shutdown it)
    with Some show ?thesis by (simp add: table_keys_def flush_all_def)
  qed
next
  case None
  then show ?thesis by (cases e) (simp_all add: table_keys_def write_alert_def Let_def)
qed

lemma table_keys_run:
  "table_keys (fst (run sink_step s ops)) \<subseteq>
   table_keys s \<union> {alert_key a |a now. WriteAlert now a \<in> set ops}"
proof (induction ops rule: rev_induct)
  case (snoc e ops)
  have "table_keys (fst (run sink_step s (ops @ [e]))) \<subseteq>
      table_keys (fst (run sink_step s ops)) \<union> {alert_key a |a now. e = WriteAlert now a}"
    using table_keys_step [of "fst (run sink_step s ops)" e] by (simp add: run_append)
  with snoc show ?case by fastforce
qed simp

section \<open>Properties\<close>

text \<open>
  C3: no alert is lost and none is counted twice. For every set \<open>K\<close> of deduplication keys and
  every history that ends with the shutdown flush, the records written to the log stand
  for exactly as many alerts as were handed to the sink: an immediate record for one, a
  roll-up for its count less the one already written. (The counters are 64 bits wide, so the history
  is shorter than that.)
\<close>

theorem alerts_conserved:
  assumes "list_all sink_ok ops" and "hash_iter it" and "length ops < 2 ^ 64 - 1"
  shows "sum_list (map (stands_for K)
      (concat (snd (run sink_step (Some (dedup_new w m)) (ops @ [Shutdown it]))))) =
    length (filter (writes K) ops)"
proof -
  let ?s = "Some (dedup_new w m)" and ?ops = "ops @ [Shutdown it]"
  have ok: "list_all sink_ok ?ops" and len: "0 + length ?ops \<le> 2 ^ 64 - 1"
    and len': "0 + length ops \<le> 2 ^ 64 - 1" using assms by simp_all
  have "sink_pending K (fst (run sink_step ?s ?ops)) = 0"
    using shutdown_pending [OF sink.run_counted [OF dedup_new_inv assms(1) len'] assms(2)]
    by (simp add: run_append)
  moreover have "sink_pending K ?s = 0"
    by (simp add: sink_pending_def pending_def dedup_new_def)
  moreover have "sum_list (map2 (write_charge K) ?ops (snd (run sink_step ?s ?ops))) =
      int (length (filter (writes K) ?ops)) -
      int (sum_list (map (stands_for K) (concat (snd (run sink_step ?s ?ops)))))"
    by (rule sum_write_charge) simp
  ultimately show ?thesis
    using sink.run_balance [OF dedup_new_inv ok len, of K w m] by simp
qed

definition sample_writes :: "sink_op list" where
  "sample_writes = [WriteAlert 0 sample_alert, WriteAlert 1 sample_alert,
     FlushTick (map fst) 5, WriteAlert 6 sample_alert]"

theorem alerts_conserved_witness:
  "sum_list (map (stands_for (\<lambda>_. True))
     (concat (snd (run sink_step (Some (dedup_new 60 10)) (sample_writes @ [Shutdown (map fst)]))))) = 3"
proof -
  have "list_all sink_ok sample_writes"
    by (simp add: sample_writes_def stored_order.hash_iter_axioms)
  moreover have "length sample_writes < 2 ^ 64 - 1" by (simp add: sample_writes_def)
  moreover have "length (filter (writes (\<lambda>_. True)) sample_writes) = 3"
    by (simp add: sample_writes_def)
  ultimately show ?thesis
    using alerts_conserved [OF _ stored_order.hash_iter_axioms, of sample_writes] by metis
qed

text \<open>
  A novel alert is never delayed: if no earlier alert has its key, it is written at
  once, whatever flushes happened and whether or not the table is full.
\<close>

lemma novel_alert_written_at_once:
  assumes "\<forall>now' a'. WriteAlert now' a' \<in> set ops \<longrightarrow> alert_key a' \<noteq> alert_key a"
  shows "snd (sink_step (fst (run sink_step (Some (dedup_new w m)) ops)) (WriteAlert now a)) =
    [ecs_from_alert a]"
proof -
  have "table_keys (Some (dedup_new w m)) = {}" by (simp add: table_keys_def dedup_new_def)
  then have "alert_key a \<notin> table_keys (fst (run sink_step (Some (dedup_new w m)) ops))"
    using table_keys_run [of "Some (dedup_new w m)" ops] assms by fastforce
  then show ?thesis
    by (cases "fst (run sink_step (Some (dedup_new w m)) ops)")
      (auto simp: table_keys_def write_alert_def dedup_record_def Let_def alert_key_def [symmetric]
        map_of_eq_None_iff split: option.split dest: hm_get_in_keys)
qed


definition rollup :: "dedup_entry \<Rightarrow> ecs_alert" where
  "rollup e = (ecs_from_alert (de_sample e))\<lparr>ec_event_count := Some (de_count e)\<rparr>"

lemma emit_rollups_mset:
  "mset (snd (emit_rollups es d)) =
   image_mset rollup (filter_mset (\<lambda>e. 1 < de_count e) (mset es))"
  by (induction es d rule: emit_rollups.induct)
    (auto simp: Let_def case_prod_unfold rollup_def not_le)

lemma rollups_of_expired:
  "image_mset rollup (filter_mset P (mset (map snd (filter (\<lambda>p. Q (snd p)) m)))) =
   mset (map (\<lambda>(k, e). rollup e) (filter (\<lambda>(k, e). Q e \<and> P e) m))"
  by (induction m) auto

text \<open>
  A flush tick closes exactly the windows that have run out: it keeps every entry younger than
  the window, drops the others, and writes one roll-up with the count for each dropped entry
  that counted more than one alert, in whatever order the table is traversed.
\<close>

lemma flush_closes_expired_windows:
  assumes "hash_iter it" and "hm_wf (dd_table d)"
  shows "dd_table (fst (flush_expired it now d)) =
      filter (\<lambda>(k, e). now - de_first_seen e < dd_window d) (dd_table d) \<and>
    mset (snd (flush_expired it now d)) =
      mset (map (\<lambda>(k, e). rollup e) (filter
        (\<lambda>(k, e). dd_window d \<le> now - de_first_seen e \<and> 1 < de_count e) (dd_table d)))"
proof -
  let ?P = "\<lambda>k. case hm_get (dd_table d) k of None \<Rightarrow> False
    | Some e \<Rightarrow> dd_window d \<le> now - de_first_seen e"
  have "filter (\<lambda>p. ?P (fst p)) (dd_table d) =
      filter (\<lambda>p. dd_window d \<le> now - de_first_seen (snd p)) (dd_table d)"
    using map_of_is_SomeI [OF assms(2)] by (intro filter_cong) force+
  then have "mset (snd (drain_expired it now d)) =
      mset (map snd (filter (\<lambda>p. dd_window d \<le> now - de_first_seen (snd p)) (dd_table d)))"
    using hash_iter.mset_selected [OF assms, of ?P] by (simp add: drain_expired_def Let_def)
  then have "mset (snd (flush_expired it now d)) =
      image_mset rollup (filter_mset (\<lambda>e. 1 < de_count e)
        (mset (map snd (filter (\<lambda>p. dd_window d \<le> now - de_first_seen (snd p)) (dd_table d)))))"
    by (simp add: flush_expired_def Let_def case_prod_unfold emit_rollups_mset)
  also have "\<dots> = mset (map (\<lambda>(k, e). rollup e) (filter
        (\<lambda>(k, e). dd_window d \<le> now - de_first_seen e \<and> 1 < de_count e) (dd_table d)))"
    by (rule rollups_of_expired)
  finally show ?thesis
    using drain_table [OF assms, of now]
    by (simp add: flush_expired_def Let_def case_prod_unfold)
qed

definition sample_dedup :: deduplicator where
  "sample_dedup = the (fst (run sink_step (Some (dedup_new 60 10)) (take 2 sample_writes)))"


end
