(* ===== verification/Pipeline.thy ===== *)
theory Pipeline
  imports Attribution Sigma_Engine Hash_Worker Response Dedup
begin

text \<open>
  The detection handler (\<open>src/engine/handler.rs\<close>) and the tasks that run beside it, as one machine:
  a sensor event is normalized, queued for hashing, checked against the Sigma rules and the
  indicators, and every alert is completed with its process context, written to the sink and
  offered to the response. The engines are read anew for each event, because they can be reloaded.
  This is the build without the feature \<open>rsigma-engine\<close>, where \<open>check_event\<close> is the built-in
  check whatever the configured kind.
\<close>

section \<open>One sensor event\<close>

text \<open>
  What handling one event reads from its surroundings; the functions of a number give it for the
  alert of that number.
\<close>

record ('re, 'net, 'f, 'n, 'tree, 'inet, 'set) handler_call =
  ca_event :: sensor_event
  ca_sigma :: "('re, 'net, 'f, 'n, 'tree) engine"
  ca_ioc :: "('inet, 'set) ioc_engine"
  ca_norm :: norm_env
  ca_context :: "nat \<Rightarrow> u64 \<times> bool"
  ca_clock :: "nat \<Rightarrow> nat"

record detection_handler =
  dh_normalizer :: normalizer
  dh_hash_queue :: "(string \<times> u32) list option"
  dh_hash_capacity :: nat
  dh_sink :: "deduplicator option"
  dh_response :: response_engine

definition check_event ::
  "('re, 'net, 'f) crates \<Rightarrow> ('f, 'n, 'tree) rule_crates \<Rightarrow> ('re, 'net, 'f, 'n, 'tree) engine
   \<Rightarrow> normalized_event \<Rightarrow> alert option" where
  "check_event X Y en event = check_event_builtin X Y en event"

text \<open>A process start with an image is offered to the hash worker; a full queue drops it.\<close>

definition hash_job_of :: "sensor_event \<Rightarrow> normalized_event \<Rightarrow> (string \<times> u32) option" where
  "hash_job_of event ev =
     (if payload_category (sv_payload event) = CatProcess \<and> sv_action event = ActStart then
        (case ev_fields ev of
           ProcessCreation f \<Rightarrow>
             (case pc_image f of
                None \<Rightarrow> None
              | Some img \<Rightarrow>
                  Some (img, case parse_optional_u32 (pc_process_id f) of
                    Some pid \<Rightarrow> pid
                  | None \<Rightarrow> (case sv_pid event of Some pid \<Rightarrow> pid | None \<Rightarrow> 0)))
         | _ \<Rightarrow> None)
      else None)"

definition queue_hash_job ::
  "(string \<times> u32) option \<Rightarrow> detection_handler \<Rightarrow> detection_handler" where
  "queue_hash_job job h =
     (case (dh_hash_queue h, job) of
        (Some q, Some j) \<Rightarrow>
          if length q < dh_hash_capacity h then h\<lparr>dh_hash_queue := Some (q @ [j])\<rparr> else h
      | _ \<Rightarrow> h)"

text \<open>One alert: context, sink, response.\<close>

definition raise_alert ::
  "(string \<Rightarrow> string) \<Rightarrow> norm_env \<Rightarrow> nat \<Rightarrow> u32 \<Rightarrow> alert \<Rightarrow> detection_handler
   \<Rightarrow> detection_handler \<times> alert \<times> ecs_alert list" where
  "raise_alert hash env now pid a h =
     (let (nz, ev) = enrich_process_context env pid (al_event a) (dh_normalizer h);
          a' = a\<lparr>al_event := ev\<rparr>;
          (sink, written) = write_alert now a' (dh_sink h)
      in (h\<lparr>dh_normalizer := nz, dh_sink := sink,
            dh_response := handle_alert hash (dh_response h) a'\<rparr>, a', written))"

fun raise_alerts ::
  "(string \<Rightarrow> string) \<Rightarrow> ('re, 'net, 'f, 'n, 'tree, 'inet, 'set) handler_call \<Rightarrow> nat
   \<Rightarrow> alert list \<Rightarrow> detection_handler \<Rightarrow> detection_handler \<times> (alert \<times> ecs_alert list) list" where
  "raise_alerts hash call i [] h = (h, [])"
| "raise_alerts hash call i (a # as) h =
     (let (h1, out) = raise_alert hash ((ca_norm call)\<lparr>ne_context := ca_context call i\<rparr>)
            (ca_clock call i) (fallback_pid (ca_event call)) a h;
          (h2, outs) = raise_alerts hash call (i + 1) as h1
      in (h2, out # outs))"

definition handle_event ::
  "('re, 'net, 'f) crates \<Rightarrow> ('f, 'n, 'tree) rule_crates \<Rightarrow> ('inet, 'set) ioc_crates
   \<Rightarrow> (string \<Rightarrow> string) \<Rightarrow> ('re, 'net, 'f, 'n, 'tree, 'inet, 'set) handler_call
   \<Rightarrow> detection_handler \<Rightarrow> detection_handler \<times> (alert \<times> ecs_alert list) list" where
  "handle_event X Y C hash call h =
     (let (nz, normalized) = normalize (ca_norm call) (ca_event call) (dh_normalizer h);
          h1 = h\<lparr>dh_normalizer := nz\<rparr>
      in case normalized of
           None \<Rightarrow> (h1, [])
         | Some ev \<Rightarrow>
             let h2 = queue_hash_job (hash_job_of (ca_event call) ev) h1;
                 sigma = (case check_event X Y (ca_sigma call) ev of None \<Rightarrow> [] | Some a \<Rightarrow> [a]);
                 (h3, outs1) = raise_alerts hash call 0 sigma h2;
                 iocs = map (\<lambda>m. build_alert_for_match (ca_ioc call) m ev)
                   (ioc_check_event C (ca_ioc call) ev);
                 (h4, outs2) = raise_alerts hash call (length sigma) iocs h3
             in (h4, outs1 @ outs2))"

section \<open>The machine\<close>

record pipeline =
  pl_platform :: platform
  pl_provider :: string
  pl_handler :: detection_handler
  pl_hash_worker :: hash_worker

text \<open>
  A step is a sensor event, an iteration of the hash worker (which takes the path and the pid from
  the queue and the rest from the step), an iteration of the response worker, or a tick of the
  flush worker.
\<close>

datatype ('re, 'net, 'f, 'n, 'tree, 'inet, 'set) pipeline_op =
  Sensor "('re, 'net, 'f, 'n, 'tree, 'inet, 'set) handler_call"
| HashWork "('inet, 'set) hash_job" "nat \<Rightarrow> nat"
| Respond os
| Flush key_order nat

text \<open>The hash worker writes its alerts and offers them to the response, without a context.\<close>

fun deliver_alerts ::
  "(string \<Rightarrow> string) \<Rightarrow> (nat \<Rightarrow> nat) \<Rightarrow> nat \<Rightarrow> alert list \<Rightarrow> detection_handler
   \<Rightarrow> detection_handler \<times> (alert \<times> ecs_alert list) list" where
  "deliver_alerts hash clock i [] h = (h, [])"
| "deliver_alerts hash clock i (a # as) h =
     (let (sink, written) = write_alert (clock i) a (dh_sink h);
          h1 = h\<lparr>dh_sink := sink, dh_response := handle_alert hash (dh_response h) a\<rparr>;
          (h2, outs) = deliver_alerts hash clock (i + 1) as h1
      in (h2, (a, written) # outs))"

definition hash_work ::
  "digests \<Rightarrow> (string \<Rightarrow> string) \<Rightarrow> ('inet, 'set) hash_job \<Rightarrow> (nat \<Rightarrow> nat) \<Rightarrow> pipeline
   \<Rightarrow> pipeline \<times> (alert \<times> ecs_alert list) list" where
  "hash_work D hash job clock p =
     (case dh_hash_queue (pl_handler p) of
        Some ((path, pid) # rest) \<Rightarrow>
          let (w, alerts) = hash_worker_step D (pl_platform p) (pl_provider p) (pl_hash_worker p)
                (job\<lparr>hj_path := path, hj_pid := pid\<rparr>);
              (h, outs) = deliver_alerts hash clock 0 alerts
                ((pl_handler p)\<lparr>dh_hash_queue := Some rest\<rparr>)
          in (p\<lparr>pl_handler := h, pl_hash_worker := w\<rparr>, outs)
      | _ \<Rightarrow> (p, []))"

text \<open>The output: the alerts with what was written for each, and the process terminated, if any.\<close>

fun pipeline_step ::
  "('re, 'net, 'f) crates \<Rightarrow> ('f, 'n, 'tree) rule_crates \<Rightarrow> ('inet, 'set) ioc_crates \<Rightarrow> digests
   \<Rightarrow> (string \<Rightarrow> string) \<Rightarrow> pipeline
   \<Rightarrow> ('re, 'net, 'f, 'n, 'tree, 'inet, 'set) pipeline_op
   \<Rightarrow> pipeline \<times> (alert \<times> ecs_alert list) list \<times> u32 option" where
  "pipeline_step X Y C D hash p (Sensor call) =
     (let (h, outs) = handle_event X Y C hash call (pl_handler p)
      in (p\<lparr>pl_handler := h\<rparr>, outs, None))"
| "pipeline_step X Y C D hash p (HashWork job clock) =
     (let (p', outs) = hash_work D hash job clock p in (p', outs, None))"
| "pipeline_step X Y C D hash p (Respond os) =
     (let (r, killed) = response_step hash (dh_response (pl_handler p)) (Work os)
      in (p\<lparr>pl_handler := (pl_handler p)\<lparr>dh_response := r\<rparr>\<rparr>, [], killed))"
| "pipeline_step X Y C D hash p (Flush it now) =
     (p\<lparr>pl_handler := (pl_handler p)\<lparr>dh_sink := fst (sink_step (dh_sink (pl_handler p))
          (FlushTick it now))\<rparr>\<rparr>, [], None)"

section \<open>What one event raises\<close>

text \<open>An alert with the process context it leaves with.\<close>

definition with_context :: "process_context option \<Rightarrow> alert \<Rightarrow> alert" where
  "with_context cx a = a\<lparr>al_event := (al_event a)\<lparr>ev_process_context := cx\<rparr>\<rparr>"

definition raw_alerts ::
  "('re, 'net, 'f) crates \<Rightarrow> ('f, 'n, 'tree) rule_crates \<Rightarrow> ('inet, 'set) ioc_crates
   \<Rightarrow> ('re, 'net, 'f, 'n, 'tree) engine \<Rightarrow> ('inet, 'set) ioc_engine \<Rightarrow> normalized_event \<Rightarrow> alert list"
where
  "raw_alerts X Y C en ioc ev =
     (case check_event X Y en ev of None \<Rightarrow> [] | Some a \<Rightarrow> [a]) @
     map (\<lambda>m. build_alert_for_match ioc m ev) (ioc_check_event C ioc ev)"

lemma raise_alerts_append:
  "raise_alerts hash call i (as @ bs) h =
     (let (h1, outs1) = raise_alerts hash call i as h;
          (h2, outs2) = raise_alerts hash call (i + length as) bs h1
      in (h2, outs1 @ outs2))"
  by (induction as arbitrary: i h) (simp_all add: case_prod_beta Let_def)

lemma handle_event_raises:
  "handle_event X Y C hash call h =
     (let (nz, normalized) = normalize (ca_norm call) (ca_event call) (dh_normalizer h)
      in case normalized of
           None \<Rightarrow> (h\<lparr>dh_normalizer := nz\<rparr>, [])
         | Some ev \<Rightarrow>
             raise_alerts hash call 0 (raw_alerts X Y C (ca_sigma call) (ca_ioc call) ev)
               (queue_hash_job (hash_job_of (ca_event call) ev) (h\<lparr>dh_normalizer := nz\<rparr>)))"
  by (simp add: handle_event_def raw_alerts_def raise_alerts_append case_prod_beta Let_def
      split: option.split)

lemma raw_alerts_event:
  assumes "a \<in> set (raw_alerts X Y C en ioc ev)"
  shows "al_event a = ev"
proof -
  have "al_event a = ev" if "check_event X Y en ev = Some a"
    using that by (auto simp: check_event_def check_event_builtin_def check_logsources_find
        sigma_alert_def Let_def)
  then show ?thesis
    using assms by (auto simp: raw_alerts_def build_alert_for_match_def split: option.splits)
qed

text \<open>The context an alert leaves with is that of the process its event names, if any.\<close>

definition proper_context :: "normalized_event \<Rightarrow> u32 \<Rightarrow> process_context option \<Rightarrow> bool" where
  "proper_context ev fallback cx \<longleftrightarrow>
     (case cx of None \<Rightarrow> True
      | Some c \<Rightarrow> \<not> is_process_creation (ev_fields ev) \<and>
          (\<exists>m. c = context_of_metadata
             (case parse_optional_u32 (context_pid_field (ev_fields ev)) of
                Some pid \<Rightarrow> pid | None \<Rightarrow> fallback) m))"

lemma proper_context_update [simp]:
  "proper_context (ev\<lparr>ev_process_context := c\<rparr>) fallback cx = proper_context ev fallback cx"
  by (cases cx) (simp_all add: proper_context_def)

lemma build_context_proper:
  "proper_context ev fallback (snd (build_process_context env (ev_fields ev) fallback nz))"
  by (auto simp: build_process_context_def proper_context_def case_prod_beta Let_def
      split: option.split)

lemma enrich_proper:
  assumes "ev_process_context ev = None"
  shows "\<exists>cx. snd (enrich_process_context env fallback ev nz) = ev\<lparr>ev_process_context := cx\<rparr> \<and>
    proper_context ev fallback cx"
  using assms build_context_proper [of ev fallback env nz]
  by (auto simp: enrich_process_context_def case_prod_beta)

lemma raise_alert_out:
  assumes "ev_process_context (al_event a) = None"
  shows "\<exists>cx. fst (snd (raise_alert hash env now pid a h)) = with_context cx a \<and>
    proper_context (al_event a) pid cx"
proof -
  obtain cx where "snd (enrich_process_context env pid (al_event a) (dh_normalizer h)) =
      (al_event a)\<lparr>ev_process_context := cx\<rparr>" "proper_context (al_event a) pid cx"
    using enrich_proper [OF assms] by blast
  then show ?thesis
    by (intro exI [of _ cx]) (simp add: raise_alert_def case_prod_beta Let_def with_context_def)
qed

lemma raise_alerts_out:
  assumes "\<forall>a \<in> set as. ev_process_context (al_event a) = None"
  shows "list_all2 (\<lambda>a out. \<exists>cx. fst out = with_context cx a \<and>
      proper_context (al_event a) (fallback_pid (ca_event call)) cx)
    as (snd (raise_alerts hash call i as h))"
  using assms by (induction as arbitrary: i h) (simp_all add: case_prod_beta Let_def raise_alert_out)

lemma normalized_without_context:
  "snd (normalize env event nz) = Some ev \<Longrightarrow> ev_process_context ev = None"
  by (auto simp: normalize_def case_prod_beta)

section \<open>The response sees the alerts\<close>

lemma raise_alert_response:
  "dh_response (fst (raise_alert hash env now pid a h)) =
     handle_alert hash (dh_response h) (fst (snd (raise_alert hash env now pid a h)))"
  by (simp add: raise_alert_def case_prod_beta Let_def)

lemma raise_alerts_response:
  "dh_response (fst (raise_alerts hash call i as h)) =
     fst (run (response_step hash) (dh_response h)
       (map (\<lambda>out. HandleAlert (fst out)) (snd (raise_alerts hash call i as h))))"
  by (induction as arbitrary: i h) (simp_all add: case_prod_beta Let_def raise_alert_response)

lemma deliver_alerts_response:
  "dh_response (fst (deliver_alerts hash clock i as h)) =
     fst (run (response_step hash) (dh_response h) (map HandleAlert as))"
  by (induction as arbitrary: i h) (simp_all add: case_prod_beta Let_def)

lemma deliver_alerts_out: "map fst (snd (deliver_alerts hash clock i as h)) = as"
  by (induction as arbitrary: i h) (simp_all add: case_prod_beta Let_def)

lemma queue_hash_job_frame [simp]:
  "dh_response (queue_hash_job job h) = dh_response h"
  "dh_sink (queue_hash_job job h) = dh_sink h"
  "dh_normalizer (queue_hash_job job h) = dh_normalizer h"
  by (simp_all add: queue_hash_job_def split: option.split)

fun response_ops ::
  "('re, 'net, 'f, 'n, 'tree, 'inet, 'set) pipeline_op \<Rightarrow> (alert \<times> ecs_alert list) list
   \<Rightarrow> response_op list" where
  "response_ops (Respond os) outs = [Work os]"
| "response_ops (Sensor call) outs = map (\<lambda>out. HandleAlert (fst out)) outs"
| "response_ops (HashWork job clock) outs = map (\<lambda>out. HandleAlert (fst out)) outs"
| "response_ops (Flush it now) outs = []"

lemma pipeline_step_response:
  "dh_response (pl_handler (fst (pipeline_step X Y C D hash p op))) =
     fst (run (response_step hash) (dh_response (pl_handler p))
       (response_ops op (fst (snd (pipeline_step X Y C D hash p op)))))"
proof (cases op)
  case (Sensor call)
  then show ?thesis
    by (simp add: handle_event_raises case_prod_beta Let_def raise_alerts_response split: option.split)
next
  case (HashWork job clock)
  have outs: "map (\<lambda>out. HandleAlert (fst out)) (snd (deliver_alerts hash clock 0 as h)) =
      map HandleAlert as" for as h
  proof -
    have "map HandleAlert (map fst (snd (deliver_alerts hash clock 0 as h))) = map HandleAlert as"
      by (simp only: deliver_alerts_out)
    then show ?thesis by (simp add: comp_def)
  qed
  from HashWork show ?thesis
    by (simp add: hash_work_def case_prod_beta Let_def deliver_alerts_response outs
        split: option.split list.split)
qed (simp_all add: case_prod_beta)

lemma pipeline_response:
  "dh_response (pl_handler (fst (run (pipeline_step X Y C D hash) p ops))) =
     fst (run (response_step hash) (dh_response (pl_handler p))
       (concat (map2 (\<lambda>op out. response_ops op (fst out)) ops
          (snd (run (pipeline_step X Y C D hash) p ops)))))"
  by (induction ops arbitrary: p) (simp_all add: run_append pipeline_step_response)

section \<open>The identity an alert carries\<close>

definition payload_pid :: "sensor_payload \<Rightarrow> string option" where
  "payload_pid pay =
     (case pay of PayProcess f \<Rightarrow> pc_process_id f | PayNetwork f \<Rightarrow> nc_process_id f
      | PayFile f \<Rightarrow> fe_process_id f | PayDns f \<Rightarrow> dq_process_id f
      | PayRegistry f \<Rightarrow> re_process_id f | PayImageLoad f \<Rightarrow> il_process_id f
      | PayScripting f \<Rightarrow> ps_process_id f | PayWmi f \<Rightarrow> wm_process_id f
      | PayService f \<Rightarrow> sc_process_id f | PayTask f \<Rightarrow> tc_process_id f)"

text \<open>
  The sensors print a pid in decimal. The normalizer and the response parse it with two functions,
  which agree on such a text.
\<close>

definition plain_pid :: "sensor_payload \<Rightarrow> bool" where
  "plain_pid pay \<longleftrightarrow> (\<forall>v. payload_pid pay = Some v \<longrightarrow> parse_pid (Some v) = parse_uint v)"

lemma parse_pid_show [simp]: "parse_pid (Some (show_uint w)) = parse_uint (show_uint w)"
proof -
  have digits: "\<And>c. c \<in> set (show_uint w) \<Longrightarrow> 48 \<le> byte c \<and> byte c \<le> 57"
    by (rule show_uint_digits)
  have ends: "48 \<le> byte (hd (show_uint w)) \<and> byte (hd (show_uint w)) \<le> 57"
    "48 \<le> byte (last (show_uint w)) \<and> byte (last (show_uint w)) \<le> 57"
    by (rule digits, simp)+
  have "str_trim (show_uint w) = show_uint w" by (rule trim_printable) (use ends in auto)
  moreover have "\<not> starts_with (show_uint w) ''0x''" "\<not> starts_with (show_uint w) ''0X''"
    using digits [of "CHR ''x''"] digits [of "CHR ''X''"] by (auto simp: prefix_def)
  ultimately show ?thesis by (simp add: parse_pid_def strip_prefix_def)
qed

lemma plain_pid_decimal: "payload_pid pay = Some (show_uint w) \<Longrightarrow> plain_pid pay"
  by (simp add: plain_pid_def)

lemma normalized_pid:
  assumes "snd (normalize_payload env event nz) = Some fs" and "\<not> is_process_creation fs"
  shows "fst (event_process_info fs) = parse_pid (payload_pid (sv_payload event)) \<and>
    context_pid_field fs = payload_pid (sv_payload event)"
  using assms
  by (cases "sv_payload event"; auto simp: normalize_payload_def normalize_process_def normalize_arms
      payload_pid_def event_process_info_def is_process_creation_def context_pid_field_def
      complete_hostname_def Let_def split: prod.splits option.splits if_splits)

definition identity_consistent :: "(string \<Rightarrow> string) \<Rightarrow> alert \<Rightarrow> bool" where
  "identity_consistent hash a \<longleftrightarrow>
     (\<forall>identity. extract_process_identity hash a = Some identity \<longrightarrow>
        fst (extract_process_info a) = Some (pi_pid identity))"

lemma process_consistent:
  "is_process_creation (ev_fields (al_event a)) \<Longrightarrow> identity_consistent hash a"
  by (auto simp: identity_consistent_def is_process_creation_def extract_process_identity_def
      extract_process_info_def event_process_info_def split: event_fields.splits option.splits)

lemma context_consistent:
  assumes "\<not> is_process_creation (ev_fields (al_event a))"
    and "fst (event_process_info (ev_fields (al_event a))) = parse_pid pid_text"
    and "context_pid_field (ev_fields (al_event a)) = pid_text"
    and "\<And>v. pid_text = Some v \<Longrightarrow> parse_pid (Some v) = parse_uint v"
    and "proper_context (al_event a) fallback (ev_process_context (al_event a))"
  shows "identity_consistent hash a"
proof (cases "ev_process_context (al_event a)")
  case None
  then show ?thesis using assms(1)
    by (auto simp: identity_consistent_def extract_process_identity_def context_pid_def
        is_process_creation_def split: event_fields.splits)
next
  case (Some c)
  let ?pid = "case parse_optional_u32 pid_text of Some pid \<Rightarrow> pid | None \<Rightarrow> fallback"
  obtain m where c: "c = context_of_metadata ?pid m"
    using assms(3,5) Some by (auto simp: proper_context_def)
  have ctx: "context_pid a = Some ?pid"
    by (simp add: context_pid_def Some c context_of_metadata_def)
  have "fst (extract_process_info a) = Some ?pid"
    using assms(2,4) ctx
    by (cases pid_text) (auto simp: extract_process_info_def case_prod_beta parse_optional_u32_def
        parse_pid_def [of None] split: option.split)
  moreover have "pi_pid identity = ?pid" if "extract_process_identity hash a = Some identity"
    for identity
    using that assms(1) ctx
    by (auto simp: extract_process_identity_def is_process_creation_def
        split: event_fields.splits option.splits)
  ultimately show ?thesis by (simp add: identity_consistent_def)
qed

lemma list_all2_right: "list_all2 P xs ys \<Longrightarrow> y \<in> set ys \<Longrightarrow> \<exists>x \<in> set xs. P x y"
  by (induction rule: list_all2_induct) auto

lemma sensor_alerts_consistent:
  assumes "plain_pid (sv_payload (ca_event call))"
    and "out \<in> set (snd (handle_event X Y C hash call h))"
  shows "identity_consistent hash (fst out)"
proof (cases "snd (normalize (ca_norm call) (ca_event call) (dh_normalizer h))")
  case None
  with assms(2) show ?thesis by (simp add: handle_event_raises case_prod_beta)
next
  case (Some ev)
  let ?raw = "raw_alerts X Y C (ca_sigma call) (ca_ioc call) ev"
  from Some have none: "ev_process_context ev = None" by (rule normalized_without_context)
  have raw: "\<forall>a \<in> set ?raw. al_event a = ev" by (simp add: raw_alerts_event)
  let ?h = "queue_hash_job (hash_job_of (ca_event call) ev)
    (h\<lparr>dh_normalizer := fst (normalize (ca_norm call) (ca_event call) (dh_normalizer h))\<rparr>)"
  have "out \<in> set (snd (raise_alerts hash call 0 ?raw ?h))"
    using assms(2) Some by (simp add: handle_event_raises case_prod_beta)
  moreover have "list_all2 (\<lambda>a out. \<exists>cx. fst out = with_context cx a \<and>
      proper_context (al_event a) (fallback_pid (ca_event call)) cx) ?raw
      (snd (raise_alerts hash call 0 ?raw ?h))"
    using raw none by (intro raise_alerts_out) simp
  ultimately have "\<exists>a \<in> set ?raw. \<exists>cx. fst out = with_context cx a \<and>
      proper_context (al_event a) (fallback_pid (ca_event call)) cx"
    by (rule list_all2_right [rotated])
  then obtain a cx where a: "a \<in> set ?raw" "fst out = with_context cx a"
    "proper_context (al_event a) (fallback_pid (ca_event call)) cx"
    by blast
  then have out: "al_event (fst out) = ev\<lparr>ev_process_context := cx\<rparr>"
    and cx: "proper_context ev (fallback_pid (ca_event call)) cx"
    using raw by (simp_all add: with_context_def)
  have fs: "snd (normalize_payload (ca_norm call) (ca_event call) (dh_normalizer h)) =
      Some (ev_fields ev)"
    using Some by (auto simp: normalize_def case_prod_beta)
  show ?thesis
  proof (cases "is_process_creation (ev_fields ev)")
    case True
    then show ?thesis by (intro process_consistent) (simp add: out)
  next
    case False
    from normalized_pid [OF fs False] show ?thesis
      using False assms(1) cx
      by (intro context_consistent [where pid_text = "payload_pid (sv_payload (ca_event call))"
            and fallback = "fallback_pid (ca_event call)"])
        (auto simp: out plain_pid_def)
  qed
qed

lemma hash_alerts_consistent:
  assumes "a \<in> set (snd (hash_worker_step D plat provider w j))"
  shows "identity_consistent hash a"
proof -
  have "a \<in> set (hash_alerts plat provider j hs) \<Longrightarrow> is_process_creation (ev_fields (al_event a))" for hs
    by (auto simp: hash_alerts_def build_alert_for_hash_match_def build_alert_for_match_def
        is_process_creation_def)
  moreover have "\<exists>hs. a \<in> set (hash_alerts plat provider j hs)"
    using assms by (auto simp: hash_worker_step_def Let_def case_prod_beta split: if_splits option.splits)
  ultimately show ?thesis by (auto intro: process_consistent)
qed

fun plain_op :: "('re, 'net, 'f, 'n, 'tree, 'inet, 'set) pipeline_op \<Rightarrow> bool" where
  "plain_op (Sensor call) = plain_pid (sv_payload (ca_event call))"
| "plain_op _ = True"

lemma step_alerts_consistent:
  assumes "plain_op op" and "out \<in> set (fst (snd (pipeline_step X Y C D hash p op)))"
  shows "identity_consistent hash (fst out)"
proof (cases op)
  case (Sensor call)
  with assms show ?thesis
    by (intro sensor_alerts_consistent [of call out X Y C hash "pl_handler p"])
      (simp_all add: case_prod_beta)
next
  case (HashWork job clock)
  have "fst out \<in> set as" if "out \<in> set (snd (deliver_alerts hash clock 0 as h))" for as h
    using that by (metis deliver_alerts_out image_eqI set_map)
  with assms(2) HashWork show ?thesis
    by (auto simp: hash_work_def case_prod_beta split: option.splits list.splits
        intro: hash_alerts_consistent)
qed (use assms(2) in \<open>simp_all add: case_prod_beta\<close>)

lemma response_ops_alert:
  "HandleAlert a \<in> set (response_ops op outs) \<Longrightarrow> a \<in> fst ` set outs"
  by (cases op) auto

text \<open>The alerts the response has seen come from earlier steps.\<close>

lemma seen_alert:
  assumes "i \<le> length ops" and "outs = snd (run (pipeline_step X Y C D hash) start ops)"
    and "HandleAlert a \<in> set (concat (map2 (\<lambda>op out. response_ops op (fst out))
      (take i ops) (take i outs)))"
  shows "\<exists>j < i. a \<in> fst ` set (fst (outs ! j))"
proof -
  obtain j where "j < i" "HandleAlert a \<in> set (response_ops (ops ! j) (fst (outs ! j)))"
    using assms by (auto simp: set_zip) (metis fst_conv)
  then show ?thesis by (meson response_ops_alert)
qed

lemma seen_alert_consistent:
  assumes "list_all plain_op ops" and "j < length ops"
    and "a \<in> fst ` set (fst (snd (run (pipeline_step X Y C D hash) start ops) ! j))"
  shows "identity_consistent hash a"
  using assms(3) step_alerts_consistent [of "ops ! j"] assms(1,2)
  by (auto simp: run_nth list_all_iff)

section \<open>Properties\<close>


text \<open>
  C1: end to end, the process that dies is the process an alert was about. Whatever sensor events
  with decimal pids arrive, whatever rules and indicators are loaded, and however the workers
  interleave, a process is terminated only by the response worker, after an alert raised at an
  earlier step that the configuration allows to act on; at that moment the system reports a
  process at that pid with the image of the alert (the same path up to case and separators, or the
  same file), with the start time seen if both are known, and with a command line of the hash seen
  if both are known.
\<close>

theorem pipeline_kills_the_observed_process:
  assumes "dh_response (pl_handler start) = response_new plat self cfg"
    and "list_all plain_op ops"
    and "outs = snd (run (pipeline_step X Y C D hash) start ops)"
    and "i < length ops" and "snd (outs ! i) = Some pid"
  shows "\<exists>os j a current expected. ops ! i = Respond os \<and> j < i \<and> a \<in> fst ` set (fst (outs ! j)) \<and>
     eligible plat self cfg a pid \<and> plat \<noteq> MacOS \<and> os_query os pid = Some current \<and>
     (extract_process_identity hash a = Some expected \<or>
      extract_process_identity hash a = None \<and>
      Some (pi_image expected) = snd (extract_process_info a)) \<and>
     same_process_image plat os (pi_image expected) (pi_image current) \<and>
     (pi_start_time expected = None \<or> pi_start_time current = None \<or>
      pi_start_time expected = pi_start_time current) \<and>
     (pi_command_line_hash expected = None \<or> pi_command_line_hash current = None \<or>
      pi_command_line_hash expected = pi_command_line_hash current)"
proof -
  let ?step = "pipeline_step X Y C D hash" and ?start = "response_new plat self cfg"
  define p where "p = fst (run ?step start (take i ops))"
  define rops where "rops = concat (map2 (\<lambda>op out. response_ops op (fst out)) (take i ops) (take i outs))"
  have split: "outs = snd (run ?step start (take i ops)) @ snd (run ?step p (drop i ops))"
    unfolding assms(3) p_def run_append(2) [symmetric] append_take_drop_id ..
  have "take i outs = snd (run ?step start (take i ops))"
    using assms(4) by (subst split) simp
  then have resp: "dh_response (pl_handler p) = fst (run (response_step hash) ?start rops)"
    unfolding p_def rops_def assms(1) [symmetric] by (simp only: pipeline_response)
  have out: "outs ! i = snd (?step p (ops ! i))"
    unfolding assms(3) p_def by (rule run_nth [OF assms(4)])
  with assms(5) obtain os where os: "ops ! i = Respond os"
    by (cases "ops ! i") (auto simp: case_prod_beta)
  have "snd (response_step hash (dh_response (pl_handler p)) (Work os)) = Some pid"
    using assms(5) out os by (simp add: case_prod_beta)
  then have "snd (run (response_step hash) ?start (rops @ [Work os])) ! length rops = Some pid"
    by (simp add: run_append nth_append resp)
  moreover have "length rops < length (rops @ [Work os])" by simp
  moreover have earlier: "\<exists>j < i. a \<in> fst ` set (fst (outs ! j))"
    if "HandleAlert a \<in> set rops" for a
    using seen_alert [OF _ assms(3)] assms(4) that by (simp add: rops_def)
  moreover have "identity_consistent hash a" if "HandleAlert a \<in> set (rops @ [Work os])" for a
  proof -
    have "HandleAlert a \<in> set rops" using that by simp
    from earlier [OF this] obtain j where "j < i" "a \<in> fst ` set (fst (outs ! j))" by blast
    with assms(3,4) show ?thesis
      by (intro seen_alert_consistent [OF assms(2), of j a X Y C D hash start]) simp_all
  qed
  ultimately obtain os' a current expected where
    "(rops @ [Work os]) ! length rops = Work os'" "HandleAlert a \<in> set rops"
    and rest: "eligible plat self cfg a pid \<and> plat \<noteq> MacOS \<and> os_query os' pid = Some current \<and>
     (extract_process_identity hash a = Some expected \<or>
      extract_process_identity hash a = None \<and>
      Some (pi_image expected) = snd (extract_process_info a)) \<and>
     same_process_image plat os' (pi_image expected) (pi_image current) \<and>
     (pi_start_time expected = None \<or> pi_start_time current = None \<or>
      pi_start_time expected = pi_start_time current) \<and>
     (pi_command_line_hash expected = None \<or> pi_command_line_hash current = None \<or>
      pi_command_line_hash expected = pi_command_line_hash current)"
    using response_observed [of "length rops" "rops @ [Work os]" hash plat self cfg pid]
    by (auto simp: identity_consistent_def)
  then show ?thesis using earlier [of a] os by auto
qed

definition evil_pipeline :: pipeline where
  "evil_pipeline = \<lparr>pl_platform = Linux, pl_provider = ''ebpf'',
     pl_handler = \<lparr>dh_normalizer = idle_normalizer, dh_hash_queue = Some [(''/tmp/evil'', 77)],
       dh_hash_capacity = 8, dh_sink = None,
       dh_response = response_new Linux 1 response_sample_config\<rparr>,
     pl_hash_worker = hash_worker_new\<rparr>"

definition evil_alert :: alert where
  "evil_alert = build_alert_for_hash_match sample_hash_engine ''t''
     (build_match IocSha256 ''bad'' ''bad'' \<lparr>me_comment = None, me_source = ''hashes.txt'', me_line = 1\<rparr>)
     ''/tmp/evil'' 77 Linux ''ebpf''"

lemma evil_hash_work:
  "snd (hash_worker_step sample_digests Linux ''ebpf'' hash_worker_new
     (sample_job 5\<lparr>hj_path := ''/tmp/evil'', hj_pid := 77\<rparr>)) = [evil_alert]"
  by (simp add: hash_worker_step_def job_ignored_def job_skipped_def wants_hashing_def
      hash_requirements_of_def sample_job_def sample_hash_engine_def ioc_disabled_def
      is_hash_allowlisted_def get_or_compute_def compute_hashes_def hash_alerts_def match_hashes_def
      hash_match_def sample_digests_def reset_cache_def hash_worker_new_def hash_cache_new_def
      file_identity_of_def evil_alert_def Let_def)

text \<open>The alert is eligible and names the process that runs.\<close>

lemma evil_alert_info:
  "extract_process_info evil_alert = (Some 77, Some ''/tmp/evil'')"
  "extract_process_identity hash evil_alert = Some \<lparr>pi_pid = 77, pi_image = ''/tmp/evil'',
     pi_start_time = None, pi_command_line_hash = None\<rparr>"
  "effective_alert_severity evil_alert = High"
  by (simp_all add: evil_alert_def build_alert_for_hash_match_def build_alert_for_match_def
      extract_process_info_def event_process_info_def extract_process_identity_def
      effective_alert_severity_def sample_hash_engine_def)

lemma evil_step:
  "dh_response (pl_handler (fst (pipeline_step X Y C sample_digests hash evil_pipeline
      (HashWork (sample_job 5) clock)))) =
     handle_alert hash (response_new Linux 1 response_sample_config) evil_alert"
  "snd (pipeline_step X Y C sample_digests hash evil_pipeline (HashWork (sample_job 5) clock)) =
     ([(evil_alert, [ecs_from_alert evil_alert])], None)"
  using evil_hash_work
  by (simp_all add: hash_work_def evil_pipeline_def case_prod_beta Let_def write_alert_def)

lemma eligible_acts:
  assumes "eligible plat self cfg a pid"
  shows "acts_on (decision_for_alert (response_new plat self cfg) a)"
    and "snd (extract_process_info a) = Some m \<Longrightarrow>
      decide_with (response_new plat self cfg) (Some pid) (Some m) = Terminate pid m"
  using assms
  by (auto simp: eligible_def decision_for_alert_def severity_at_least_iff case_prod_beta Let_def
      decide_with_def decide_acts decide_terminates)

lemma handle_alert_grows:
  "\<exists>q. rs_queue (handle_alert hash en a) = rs_queue en @ q"
  by (simp add: handle_alert_def)

lemma handled_grow:
  "\<exists>q. rs_queue (fst (run (response_step hash) en (map HandleAlert as))) = rs_queue en @ q"
proof (induction as arbitrary: en)
  case (Cons a as)
  from Cons.IH [of "handle_alert hash en a"] handle_alert_grows [of hash en a] show ?case by auto
qed simp

lemma settings_handle: "settings_of (handle_alert hash en a) = settings_of en"
  by (simp add: handle_alert_def settings_queue)

lemma settings_handled:
  "settings_of (fst (run (response_step hash) en (map HandleAlert as))) = settings_of en"
  by (induction as arbitrary: en) (simp_all add: settings_handle)

lemma task_of_fields:
  "tk_pid (task_of hash a) = fst (extract_process_info a)"
  "tk_image (task_of hash a) = snd (extract_process_info a)"
  by (simp_all add: task_of_def case_prod_beta)


lemma evil_validates:
  "validate_process_identity Linux evil_os (expected_identity (task_of hash evil_alert) 77 m) =
     Inr \<lparr>pi_pid = 77, pi_image = ''/tmp/Evil'', pi_start_time = Some 5, pi_command_line_hash = None\<rparr>"
  by (simp add: validate_process_identity_def query_process_identity_def identity_matches_def
      expected_identity_def task_of_def case_prod_beta evil_alert_info evil_query evil_facts)

lemma evil_eligible: "eligible Linux 1 response_sample_config evil_alert 77"
  by (simp add: eligible_def evil_alert_info response_sample_config_def evil_facts)


definition evil_steps :: "(unit, unit, unit, unit, unit, unit, unit) pipeline_op list" where
  "evil_steps = [HashWork (sample_job 5) (\<lambda>_. 0), Respond evil_os]"

definition evil_outs :: "((alert \<times> ecs_alert list) list \<times> u32 option) list" where
  "evil_outs = [([(evil_alert, [ecs_from_alert evil_alert])], None), ([], Some 77)]"

lemma evil_pipeline_run:
  "evil_outs = snd (run (pipeline_step X Y C sample_digests (\<lambda>x. x)) evil_pipeline evil_steps)"
proof -
  let ?en = "handle_alert (\<lambda>x. x) (response_new Linux 1 response_sample_config) evil_alert"
  have "snd (response_step (\<lambda>x. x) ?en (Work evil_os)) = Some 77"
    by (simp add: handle_alert_def decision_for_alert_def evil_alert_info response_new_def
        response_sample_config_def evil_facts severity_at_least_def severity_rank_def decide_with_def
        decide_response_def acts_on_def handle_task_def task_of_fields evil_validates)
  then show ?thesis
    by (simp add: evil_steps_def evil_outs_def evil_step case_prod_beta
        del: response_step.simps pipeline_step.simps(2))
qed

theorem pipeline_kills_the_observed_process_witness:
  "\<exists>os j a. evil_steps ! 1 = Respond os \<and> j < 1 \<and> a \<in> fst ` set (fst (evil_outs ! j)) \<and>
     eligible Linux 1 response_sample_config a 77"
  using pipeline_kills_the_observed_process [where start = evil_pipeline and ops = evil_steps
      and D = sample_digests and i = 1 and pid = 77 and plat = Linux and self = 1
      and cfg = response_sample_config, OF _ _ evil_pipeline_run]
  by (fastforce simp: evil_pipeline_def evil_steps_def evil_outs_def)

text \<open>A DNS query for a listed domain.\<close>

definition dns_call :: "(unit, unit, unit, unit, unit, unit, unit) handler_call" where
  "dns_call = \<lparr>ca_event = sample_sensor_event ActQuery 
       (PayDns (sample_answer ''a.example''\<lparr>dq_query_results := None\<rparr>)),
     ca_sigma = engine_new Windows DebugOff,
     ca_ioc = sample_hash_engine\<lparr>ie_domain_iocs := \<lparr>di_exact = [(''a.example'',
       \<lparr>me_comment = None, me_source = ''domains.txt'', me_line = 1\<rparr>)], di_suffix = []\<rparr>\<rparr>,
     ca_norm = quiet_env, ca_context = (\<lambda>_. (100, True)), ca_clock = (\<lambda>_. 0)\<rparr>"

lemma concat_Nils: "concat (map (\<lambda>k. []) ks) = []"
  by (induction ks) simp_all

lemma dns_call_raw:
  assumes "ev_fields ev = DnsQuery f" and "dq_query_name f = Some ''a.example''"
    and "dq_query_results f = None"
  shows "length (raw_alerts X Y C (ca_sigma dns_call) (ca_ioc dns_call) ev) = 1"
proof -
  have "to_ascii_lowercase ''a.example'' = ''a.example''"
    "trim_end_matches_char CHR ''.'' ''a.example'' = ''a.example''" by code_simp+
  then have "normalize_domain ''a.example'' = Some ''a.example''"
    by (simp add: normalize_domain_def trim_printable)
  then show ?thesis
    using assms
    by (simp add: raw_alerts_def check_event_def check_event_builtin_def check_logsources_find concat_Nils
        dns_call_def engine_new_def ioc_check_event_def sample_hash_engine_def ioc_disabled_def
        domain_candidates_def ip_candidates_def path_candidates_def option_list_def
        domain_matches_def push_match_unique_def)
qed

lemma normalize_dns_fields:
  "\<exists>img. snd (normalize_dns env event f nz) = Some (DnsQuery (f\<lparr>dq_image := img\<rparr>))"
  by (auto simp: normalize_dns_def Let_def split: prod.split)


end
