(* ===== verification/Sensors.thy ===== *)
theory Sensors
  imports Linux_Path Bpf_Sensor Esf Etw_Decode Pipeline
begin

text \<open>
  The sensors and the parts that rely on them: the pids the pipeline parses, and the process
  identity the response validates.
\<close>

section \<open>Pids\<close>

lemma build_process_plain: "build_process_event pf users now raw = Some ev \<Longrightarrow> plain_pid (sv_payload ev)"
  by (rule plain_pid_decimal [of _ "pr_pid raw"])
    (auto simp: build_process_event_def linux_process_start_def linux_process_stop_def payload_pid_def
      Let_def split: if_splits option.splits)

lemma build_network_plain:
  "build_network_event pf users now raw = Returns (Some ev) \<Longrightarrow> plain_pid (sv_payload ev)"
  by (rule plain_pid_decimal [of _ "nr_pid raw"])
    (auto simp: build_network_event_def linux_network_event_def payload_pid_def
      split: if_splits option.splits outcome.splits)

lemma build_file_plain: "build_file_event users now raw = Some ev \<Longrightarrow> plain_pid (sv_payload ev)"
  by (rule plain_pid_decimal [of _ "fr_pid raw"])
    (auto simp: build_file_event_def payload_pid_def Let_def split: if_splits)

lemma build_dns_plain: "build_dns_event now raw = Some ev \<Longrightarrow> plain_pid (sv_payload ev)"
  by (rule plain_pid_decimal [of _ "dr_pid raw"])
    (auto simp: build_dns_event_def payload_pid_def Let_def split: if_splits)

lemma drained:
  "ev \<in> set (drain_ring parse build items) \<Longrightarrow> \<exists>now raw. build now raw = Some ev"
  by (auto simp: drain_ring_def map_filter_def split: option.splits bind_splits) blast

lemma drained_network:
  "ev \<in> set (fst (drain_network_ring pf users items)) \<Longrightarrow>
   \<exists>now raw. build_network_event pf users now raw = Returns (Some ev)"
proof (induction pf users items rule: drain_network_ring.induct)
  case (2 pf users now bytes items)
  then show ?case
    by (auto simp: case_prod_beta split: option.splits outcome.splits)
qed simp

lemma no_pid_plain: "payload_pid pay = None \<Longrightarrow> plain_pid pay"
  by (simp add: plain_pid_def)

lemma bpf_plain:
  "bpf_network_event now p = Some ev \<Longrightarrow> plain_pid (sv_payload ev)"
  "bpf_dns_event now p = Some ev \<Longrightarrow> plain_pid (sv_payload ev)"
  by (rule no_pid_plain, auto simp: bpf_network_event_def bpf_dns_event_def payload_pid_def
      split: transport.splits if_splits option.splits)+

lemma bpf_attributed_plain:
  assumes "bpf_network_event now p = Some ev"
  shows "plain_pid (sv_payload (apply_socket_owner find_owner ev l r))"
proof (cases "find_owner l r")
  case None
  with assms show ?thesis by (simp add: apply_socket_owner_def bpf_plain)
next
  case (Some owner)
  then show ?thesis
    by (intro plain_pid_decimal [of _ "so_pid owner"])
      (use assms in \<open>auto simp: apply_socket_owner_def payload_pid_def bpf_network_event_def
        split: transport.splits if_splits\<close>)
qed

text \<open>What the threads of the capture hand to the pipeline keeps it too.\<close>

definition capture_plain :: "capture \<Rightarrow> bool" where
  "capture_plain c \<longleftrightarrow>
     (\<forall>ev \<in> set (cp_events c). plain_pid (sv_payload ev)) \<and>
     (\<forall>job \<in> set (cp_jobs c). \<exists>now p. bpf_network_event now p = Some (aj_event job))"

lemma try_send_plain:
  "capture_plain c \<Longrightarrow> plain_pid (sv_payload ev) \<Longrightarrow> capture_plain (fst (bpf_try_send ev c))"
  by (auto simp: bpf_try_send_def capture_plain_def)

lemma enqueue_plain:
  "capture_plain c \<Longrightarrow> bpf_network_event now p = Some ev \<Longrightarrow>
   capture_plain (fst (enqueue_attribution ev l r c))"
  by (auto simp: enqueue_attribution_def Let_def bpf_plain try_send_plain)
    (auto simp: capture_plain_def)

lemma handle_packet_plain: "capture_plain c \<Longrightarrow> capture_plain (fst (handle_packet link_type now frame c))"
  by (auto simp: handle_packet_def Let_def case_prod_beta bpf_plain
      intro!: try_send_plain enqueue_plain split: option.split)

lemma handle_packets_plain:
  "capture_plain c \<Longrightarrow> capture_plain (fst (handle_packets link_type clock frames c))"
  by (induction frames arbitrary: c) (simp_all add: handle_packet_plain case_prod_beta)

lemma capture_step_plain: "capture_plain c \<Longrightarrow> capture_plain (fst (capture_run_step link_type c e))"
proof (cases e)
  case (ReadBuffer buf clock)
  assume "capture_plain c"
  with ReadBuffer show ?thesis by (simp add: handle_packets_plain case_prod_beta)
next
  case (Attribute find_owner)
  assume plain: "capture_plain c"
  show ?thesis
  proof (cases "cp_jobs c")
    case (Cons job jobs)
    with plain obtain now p where job: "bpf_network_event now p = Some (aj_event job)"
      by (auto simp: capture_plain_def)
    from plain Cons have "capture_plain (c\<lparr>cp_jobs := jobs\<rparr>)" by (auto simp: capture_plain_def)
    from try_send_plain [OF this bpf_attributed_plain [OF job]] show ?thesis
      by (simp add: Attribute Cons attribution_worker_def case_prod_beta)
  qed (simp add: Attribute attribution_worker_def plain)
qed (auto simp: capture_plain_def split: list.split)

interpretation capture_pids: machine "capture_run_step link_type" capture_plain "\<lambda>_. True"
  by unfold_locales (rule capture_step_plain)

lemma delivered_plain:
  "capture_plain c \<Longrightarrow> ev \<in> set (delivered (snd (run (capture_run_step link_type) c es))) \<Longrightarrow>
   plain_pid (sv_payload ev)"
proof (induction es arbitrary: c)
  case (Cons e es)
  have "capture_plain (fst (capture_run_step link_type c e))"
    by (rule capture_step_plain [OF Cons.prems(1)])
  moreover have "plain_pid (sv_payload ev)" if "ev \<in> set (snd (snd (capture_run_step link_type c e)))"
    using that Cons.prems(1)
    by (cases e) (auto simp: case_prod_beta capture_plain_def split: list.splits)
  ultimately show ?case using Cons by (auto simp: delivered_def)
qed (simp add: delivered_def)

lemma esf_plain: "build_sensor_event images msg = Some ev \<Longrightarrow> plain_pid (sv_payload ev)"
proof (erule built_event_cases)
  fix raw assume "ev = process_start_event raw"
  then show ?thesis
    by (intro plain_pid_decimal [of _ "rx_pid raw"])
      (simp add: process_start_event_def payload_pid_def Let_def)
next
  fix pid user t assume "ev = process_stop_event pid user t"
  then show ?thesis
    by (intro plain_pid_decimal [of _ pid]) (simp add: process_stop_event_def payload_pid_def)
next
  fix raw assume "es_file_event raw = Some ev"
  then show ?thesis
    by (intro plain_pid_decimal [of _ "rf_pid raw"]) (auto simp: payload_pid_def dest!: es_file_event_eq)
qed

lemma try_get_uint_plain:
  "payload_pid pay = try_get_uint ps name \<Longrightarrow> plain_pid pay"
  "payload_pid pay = (case try_get_uint ps name of Some v \<Rightarrow> Some v | None \<Rightarrow> Some (show_uint pid)) \<Longrightarrow>
   plain_pid pay"
  by (auto simp: try_get_uint_def plain_pid_def split: option.splits)

lemma decode_payload_plain:
  "decode_payload h ps r category action = Some d \<Longrightarrow> plain_pid (dd_payload d)"
  by (cases category)
    (auto simp: decode_payload_def decode_defs decoded_def Let_def payload_pid_def
      intro: try_get_uint_plain)

lemma etw_plain: "decode_record h parser r = Some ev \<Longrightarrow> plain_pid (sv_payload ev)"
  by (auto simp: decode_record_def bind_eq_Some_conv case_prod_beta Let_def decode_payload_plain)

text \<open>The events a sensor hands to the pipeline.\<close>

inductive sensed :: "sensor_event \<Rightarrow> bool" where
  sensed_process: "ev \<in> set (drain_process_ring pf users items) \<Longrightarrow> sensed ev"
| sensed_network: "ev \<in> set (fst (drain_network_ring pf users items)) \<Longrightarrow> sensed ev"
| sensed_file: "ev \<in> set (drain_file_ring users items) \<Longrightarrow> sensed ev"
| sensed_dns: "ev \<in> set (drain_dns_ring items) \<Longrightarrow> sensed ev"
| sensed_bpf: "ev \<in> set (delivered (snd (run (capture_run_step link_type)
    (fresh_capture room is_open worker) es))) \<Longrightarrow> sensed ev"
| sensed_esf: "build_sensor_event images msg = Some ev \<Longrightarrow> sensed ev"
| sensed_etw: "decode_record h parser r = Some ev \<Longrightarrow> sensed ev"

lemma sensed_plain: "sensed ev \<Longrightarrow> plain_pid (sv_payload ev)"
proof (induction rule: sensed.induct)
  case (sensed_bpf ev link_type room is_open worker es)
  then show ?case
    by (intro delivered_plain) (simp_all add: capture_plain_def fresh_capture_def)
qed (auto simp: drain_process_ring_def drain_file_ring_def drain_dns_ring_def
    dest!: drained drained_network build_process_plain build_network_plain build_file_plain build_dns_plain
    esf_plain etw_plain)

text \<open>
  C17: every event of the sensors of Linux, macOS and Windows names its process, if at all,
  by a decimal pid that the normalizer and the response read alike; so an operation of the
  pipeline on such an event meets the condition under which the pipeline kills only the process
  that was observed.
\<close>

theorem sensed_events_are_plain_operations:
  assumes "sensed (ca_event call)"
  shows "plain_op (Sensor call)"
  using sensed_plain [OF assms] by simp

definition exit_raw :: process_raw where
  "exit_raw = \<lparr>pr_kind = 2, pr_pid = 7, pr_uid = 0, pr_pad = 0, pr_comm = replicate 16 0,
     pr_image = replicate 128 0\<rparr>"

theorem sensed_events_are_plain_operations_witness:
  "plain_op (Sensor (dns_call\<lparr>ca_event := linux_process_stop (\<lambda>_. None) 0 exit_raw\<rparr>))"
proof (rule sensed_events_are_plain_operations)
  have "parse_process_event (process_bytes exit_raw) = Some exit_raw"
    by (rule process_roundtrip) (simp add: process_raw_ok_def exit_raw_def)
  then have "drain_process_ring pf (\<lambda>_. None) [(0, process_bytes exit_raw)] =
      [linux_process_stop (\<lambda>_. None) 0 exit_raw]" for pf
    by (simp add: drain_process_ring_def drain_ring_def map_filter_simps build_process_event_def)
      (simp add: exit_raw_def)
  from sensed_process [of _ _ "\<lambda>_. None" "[(0, process_bytes exit_raw)]"] this
  show "sensed (ca_event (dns_call\<lparr>ca_event := linux_process_stop (\<lambda>_. None) 0 exit_raw\<rparr>))"
    by simp
qed

section \<open>A start time taken from the clock\<close>

text \<open>
  When \<open>/proc/<pid>/stat\<close> cannot be read as text at the exec, the event carries the clock as the
  start time of the process.
\<close>

lemma start_key_from_clock:
  assumes "read_proc_stat pf (pr_pid raw) = None" and "linux_process_start pf users now raw = Some ev"
  shows "start_time_of ev = Some (unix_epoch_nanos now)"
proof -
  have "Option.bind (query_process_details pf (pr_pid raw)) pd_start_time = None"
    using assms(1) by (auto simp: query_process_details_def Let_def bind_eq_None_conv)
  with assms(2) show ?thesis
    by (auto simp: linux_process_start_def start_time_of_def Let_def split: option.splits)
qed

definition unreadable_stat :: "u8 list \<Rightarrow> bool" where
  "unreadable_stat bytes \<longleftrightarrow> \<not> valid_utf8 (map byte_char bytes)"

text \<open>
  C27: a process that starts a program under a name that is not UTF-8, and changes the name
  later, is not terminated: the start time in its event is the clock in nanoseconds, the one
  read when the response validates the process is in clock ticks since boot, and the validation
  of the very same process fails.
\<close>

theorem clock_start_time_refused:
  assumes "pf_read pf (proc_path (pr_pid raw) ''stat'') = Some bytes" and "unreadable_stat bytes"
    and "linux_process_start pf users now raw = Some ev"
    and "pi_pid expected = pr_pid raw" and "pi_start_time expected = start_time_of ev"
    and "os_query os = linux_process_identity pf' hash"
    and "read_to_string pf' (proc_path (pr_pid raw) ''stat'') = Some (stat_line (pr_pid raw) comm ws)"
    and "stat_words ppid ticks ws" and "ticks \<noteq> unix_epoch_nanos now"
    and "os_query os (pr_pid raw) = Some current"
    and "same_process_image Linux os (pi_image expected) (pi_image current)"
  shows "validate_process_identity Linux os expected =
    Inl (StartTimeChanged (unix_epoch_nanos now) ticks)"
proof -
  have "read_proc_stat pf (pr_pid raw) = None"
    using assms(1,2) by (simp add: read_proc_stat_def read_to_string_def unreadable_stat_def)
  with assms(3,5) have expected: "pi_start_time expected = Some (unix_epoch_nanos now)"
    by (simp add: start_key_from_clock)
  have "pi_pid current = pr_pid raw \<and> pi_start_time current = Some ticks"
    using assms(6,10) stat_line_parses [OF assms(7,8)]
    by (auto simp: linux_process_identity_def query_process_details_def Let_def
        split: option.splits if_splits)
  with expected assms(4,9,10,11) show ?thesis
    by (simp add: validate_process_identity_def query_process_identity_def identity_matches_def)
qed

definition odd_raw :: process_raw where
  "odd_raw = \<lparr>pr_kind = 1, pr_pid = 7, pr_uid = 0, pr_pad = 0, pr_comm = c_array 16 [0xFF],
     pr_image = c_array 128 [0x2F, 0x61]\<rparr>"

definition odd_procfs :: procfs where
  "odd_procfs = \<lparr>pf_read = (\<lambda>path. if path = proc_path 7 ''stat'' then Some [0xFF] else None),
     pf_link = (\<lambda>_. None)\<rparr>"

definition later_words :: "string list" where
  "later_words = [''S'', show_uint (1 :: u32)] @ replicate 17 ''0'' @ [show_uint (100 :: u64)]"

definition later_procfs :: procfs where
  "later_procfs = \<lparr>pf_read = (\<lambda>path. if path = proc_path 7 ''stat''
       then Some (proc_text (stat_line 7 ''x'' later_words)) else None),
     pf_link = (\<lambda>path. if path = proc_path 7 ''exe'' then Some [0x2F, 0x61] else None)\<rparr>"

lemma later_stat: "read_to_string later_procfs (proc_path 7 ''stat'') = Some (stat_line 7 ''x'' later_words)"
proof (rule read_proc_text)
  have dec: "c \<in> set (show_uint w) \<Longrightarrow> byte c < 128" for c :: char and w :: "'a::len word"
    using show_uint_digits [of c w] by simp
  show "valid_utf8 (stat_line 7 ''x'' later_words)"
    by (rule valid_utf8_ascii)
      (auto simp: stat_line_def later_words_def numeral_eq_Suc dest: dec)
qed (simp add: later_procfs_def)

lemma later_stat_words: "stat_words 1 100 later_words"
  using show_uint_digits [of "CHR '')''" "1 :: u32"] show_uint_digits [of "CHR '')''" "100 :: u64"]
  by (auto simp: stat_words_def later_words_def printable_show_uint list_all_iff nth_append)
    (simp_all add: printable_def)

definition later_os :: os where
  "later_os = \<lparr>os_query = linux_process_identity later_procfs id, os_canonicalize = Some,
     os_terminate = (\<lambda>_. True)\<rparr>"

definition odd_identity :: process_identity where
  "odd_identity = \<lparr>pi_pid = 7, pi_image = ''/a'', pi_start_time = Some (unix_epoch_nanos 1000),
     pi_command_line_hash = None\<rparr>"

lemma slash_a: "from_utf8_lossy [0x2F, 0x61] = ''/a''"
  by code_simp

lemma later_identity:
  "linux_process_identity later_procfs id 7 = Some \<lparr>pi_pid = 7, pi_image = ''/a'',
     pi_start_time = Some 100, pi_command_line_hash = None\<rparr>"
proof -
  have "read_proc_stat later_procfs 7 = Some \<lparr>st_parent_process_id = Some 1, st_start_time = Some 100\<rparr>"
    by (rule stat_line_parses [OF later_stat later_stat_words])
  moreover have "read_proc_link later_procfs 7 ''exe'' = Some ''/a''"
    by (simp add: read_proc_link_def later_procfs_def slash_a)
  moreover have "read_proc_cmdline later_procfs 7 = None"
    by (simp add: read_proc_cmdline_def later_procfs_def proc_path_def)
  ultimately show ?thesis
    by (simp add: linux_process_identity_def query_process_details_def Let_def)
qed

theorem clock_start_time_refused_witness:
  "validate_process_identity Linux later_os odd_identity =
    Inl (StartTimeChanged (unix_epoch_nanos 1000) 100)"
proof (rule clock_start_time_refused [where pf = odd_procfs and raw = odd_raw and bytes = "[0xFF]"
      and users = "\<lambda>_. None" and pf' = later_procfs and hash = id and comm = "''x''"
      and ws = later_words and ppid = 1])
  let ?ev = "the (linux_process_start odd_procfs (\<lambda>_. None) 1000 odd_raw)"
  have "valid_utf8 (map byte_char [0x2F, 0x61])" "map byte_char [0x2F, 0x61] = ''/a''" by code_simp+
  then have img: "bytes_to_string (pr_image odd_raw) = ''/a''"
    using bytes_to_string_c_array [of "[0x2F, 0x61]" 128] by (simp add: odd_raw_def)
  have bad: "\<not> valid_utf8 (map byte_char [0xFF])" by code_simp
  then show "unreadable_stat [0xFF]" by (simp add: unreadable_stat_def)
  show start: "linux_process_start odd_procfs (\<lambda>_. None) 1000 odd_raw = Some ?ev"
    by (simp add: linux_process_start_def img nonempty_def Let_def)
  have "read_proc_stat odd_procfs (pr_pid odd_raw) = None"
    using bad by (simp add: read_proc_stat_def read_to_string_def odd_procfs_def odd_raw_def)
  from start_key_from_clock [OF this start]
  show "pi_start_time odd_identity = start_time_of ?ev" by (simp add: odd_identity_def)
  show "os_query later_os (pr_pid odd_raw) = Some \<lparr>pi_pid = 7, pi_image = ''/a'',
     pi_start_time = Some 100, pi_command_line_hash = None\<rparr>"
    by (simp add: later_os_def odd_raw_def later_identity)
qed (simp_all add: odd_procfs_def odd_raw_def odd_identity_def later_os_def later_stat
    later_stat_words same_process_image_def unix_epoch_nanos_def)

end
