(* ===== verification/Platforms.thy ===== *)
theory Platforms
  imports Sensors
begin

text \<open>
  The sensors of the three platforms side by side: what a Windows record becomes, the numbers the
  file operations carry, and what follows for the log sources of a rule.
\<close>

section \<open>Windows records\<close>

lemma decoded_simps [simp]:
  "dd_pid (decoded r v pay) =
     Some (case parse_optional_u32 v of Some pid \<Rightarrow> pid | None \<Rightarrow> er_process_id r)"
  "dd_payload (decoded r v pay) = pay" "dd_start_key (decoded r v pay) = None"
  by (simp_all add: decoded_def split: option.split)

lemma decoded_pid:
  "decode_payload h ps r category action = Some d \<Longrightarrow>
   dd_pid d = Some (case parse_optional_u32 (payload_pid (dd_payload d)) of
     Some pid \<Rightarrow> pid | None \<Rightarrow> er_process_id r)"
  by (cases category)
    (clarsimp simp: decode_payload_def decode_defs payload_pid_def Let_def)+

lemma decoded_start_key:
  "decode_payload h ps r category action = Some d \<Longrightarrow> dd_start_key d = Some k \<Longrightarrow>
   dd_pid d = Some (sk_pid k) \<and> category = CatProcess \<and>
   first_of (try_get_uint_as_u64 ps) [''CreateTime'', ''ProcessStartTime''] = Some (sk_start_time k)"
  by (cases category)
    (auto simp: decode_payload_def decode_defs Let_def simp del: first_of.simps split: if_splits)

text \<open>
  C29: a record that is routed and whose schema is known becomes exactly one event: its payload is
  of the routed category, its action the routed one, its pid the one the normalizer reads from the
  payload or, when that does not parse, the one in the header; a start key names that pid and the
  creation time of the record, never the time stamp.
\<close>

theorem windows_records_decoded:
  assumes "etw_route r = Some (category, action)"
  shows "\<exists>ev. decode_record h (Some ps) r = Some ev \<and>
    payload_category (sv_payload ev) = category \<and> sv_action ev = action \<and>
    (sv_event_id ev, sv_action_code ev) = normalization_for_record category action r \<and>
    sv_pid ev = Some (event_pid ev (payload_pid (sv_payload ev))) \<and>
    (parse_optional_u32 (payload_pid (sv_payload ev)) = None \<longrightarrow> sv_pid ev = Some (er_process_id r)) \<and>
    (\<forall>k. sv_process_start_key ev = Some k \<longrightarrow> sv_pid ev = Some (sk_pid k) \<and>
       first_of (try_get_uint_as_u64 ps) [''CreateTime'', ''ProcessStartTime''] = Some (sk_start_time k))"
proof -
  obtain d where d: "decode_payload h ps r category action = Some d"
    using decode_payload_total by blast
  show ?thesis
    using decode_payload_category [OF d] decoded_pid [OF d] decoded_start_key [OF d]
    by (auto simp: decode_record_def assms d case_prod_beta Let_def event_pid_def split: option.splits)
qed

definition quiet_parser :: etw_parser where
  "quiet_parser = \<lparr>et_string = (\<lambda>_. None), et_u8 = (\<lambda>_. None), et_u16 = (\<lambda>_. None),
     et_u32 = (\<lambda>_. None), et_u64 = (\<lambda>_. None), et_i64 = (\<lambda>_. None), et_ip = (\<lambda>_. None)\<rparr>"

definition quiet_host :: etw_host where
  "quiet_host = \<lparr>eh_to_dos = id, eh_metadata = (\<lambda>_. None), eh_command_line = (\<lambda>_. None)\<rparr>"

definition windows_record :: "string \<Rightarrow> u16 \<Rightarrow> etw_record" where
  "windows_record provider event_id = \<lparr>er_provider_id = provider, er_opcode = 0,
     er_event_id = event_id, er_process_id = 42, er_raw_timestamp = 0\<rparr>"

lemma file_record_routed:
  "etw_route (windows_record (ep_guid kernel_file) 16) = Some (CatFile, ActModify)"
  by code_simp

theorem windows_records_decoded_witness:
  "\<exists>ev. decode_record quiet_host (Some quiet_parser) (windows_record (ep_guid kernel_file) 16) = Some ev \<and>
    payload_category (sv_payload ev) = CatFile \<and> sv_pid ev \<noteq> None"
  using windows_records_decoded [OF file_record_routed, of quiet_host quiet_parser] by blast

text \<open>
  A port is taken to be in network byte order, an address that comes as a number in host byte order:
  of the connection to 127.0.0.1:80, both in network byte order, the address is reported reversed.
\<close>

lemma address_order_differs:
  assumes "et_u16 ps ''dport'' = Some 0x5000"
    and "et_ip ps ''daddr'' = None" and "et_u32 ps ''daddr'' = Some 0x0100007F"
  shows "try_get_port ps ''dport'' = Some ''80'' \<and> try_get_ip ps ''daddr'' = Some ''1.0.0.127''"
proof
  have "show_uint (u16_from_be 0x5000) = ''80''" by code_simp
  with assms(1) show "try_get_port ps ''dport'' = Some ''80''" by (simp add: try_get_port_def)
  have "show_ip (V4 0x0100007F) = ''1.0.0.127''" by code_simp
  with assms(2,3) show "try_get_ip ps ''daddr'' = Some ''1.0.0.127''" by (simp add: try_get_ip_def)
qed

section \<open>The numbers of file operations\<close>

definition file_numbers :: "platform \<Rightarrow> sensor_action \<Rightarrow> u16 \<times> u8" where
  "file_numbers p action =
     (case action of
        ActCreate \<Rightarrow> (11, 64) | ActDelete \<Rightarrow> (23, 70) | ActRename \<Rightarrow> (71, 71)
      | _ \<Rightarrow> (if p = Linux then 65 else 11, 65))"

definition file_action :: "sensor_action \<Rightarrow> bool" where
  "file_action a \<longleftrightarrow> a = ActCreate \<or> a = ActDelete \<or> a = ActRename \<or> a = ActModify"

abbreviation file_numbered :: "sensor_event \<Rightarrow> bool" where
  "file_numbered ev \<equiv> file_action (sv_action ev) \<and>
     (sv_event_id ev, sv_action_code ev) = file_numbers (sv_platform ev) (sv_action ev)"

definition file_payload :: "sensor_payload \<Rightarrow> bool" where
  "file_payload pay \<longleftrightarrow> payload_category pay = CatFile"

lemmas file_number_defs = file_numbers_def file_action_def file_payload_def payload_category_def

lemma linux_file_numbered: "build_file_event users now raw = Some ev \<Longrightarrow> file_numbered ev"
  by (auto simp: build_file_event_def file_number_defs Let_def split: if_splits)

lemma esf_file_numbered:
  assumes "build_sensor_event images msg = Some ev" and "file_payload (sv_payload ev)"
  shows "file_numbered ev"
proof (use assms(1) in \<open>cases rule: built_event_cases\<close>)
  case (file_op raw)
  with es_file_event_eq [OF file_op] show ?thesis
    by (cases "rf_action raw") (auto simp: file_number_defs es_normalization_def)
qed (use assms(2) in \<open>auto simp: file_number_defs process_start_event_def process_stop_event_def Let_def\<close>)

lemma routed_file_action:
  "etw_route r = Some (CatFile, action) \<Longrightarrow> file_action action"
  by (auto simp: etw_route_def kernel_file_action_def file_action_def split: if_splits option.splits
      event_category.splits)

lemma etw_file_numbered:
  assumes "decode_record h parser r = Some ev" and "file_payload (sv_payload ev)"
  shows "file_numbered ev"
proof -
  from assms(1) obtain category action ps d where
    "etw_route r = Some (category, action)" "decode_payload h ps r category action = Some d"
    and ev: "sv_payload ev = dd_payload d" "sv_action ev = action" "sv_platform ev = Windows"
      "(sv_event_id ev, sv_action_code ev) = normalization_for_record category action r"
    by (auto simp: decode_record_def bind_eq_Some_conv case_prod_beta Let_def)
  with assms(2) decode_payload_category have "file_action action" "category = CatFile"
    by (auto simp: file_payload_def dest: routed_file_action)
  with ev show ?thesis
    by (auto simp: file_number_defs normalization_for_record_def action_code_for_record_def
        raw_event_id_for_record_def map_to_sysmon_id_def file_action_code_def Let_def)
qed

lemma other_payloads:
  "build_process_event pf users now raw1 = Some ev \<Longrightarrow> \<not> file_payload (sv_payload ev)"
  "build_network_event pf users now raw2 = Returns (Some ev) \<Longrightarrow> \<not> file_payload (sv_payload ev)"
  "build_dns_event now raw3 = Some ev \<Longrightarrow> \<not> file_payload (sv_payload ev)"
  by (auto simp: build_process_event_def linux_process_start_def linux_process_stop_def
      build_network_event_def linux_network_event_def build_dns_event_def file_payload_def
      payload_category_def Let_def split: if_splits option.splits outcome.splits)

text \<open>What the pipeline receives of the packet sensor is, up to the process, what the packets gave rise to.\<close>

lemma packet_event_built:
  "ev \<in> set (concat (map (step_events link_type) es)) \<Longrightarrow>
   \<exists>now p. bpf_network_event now p = Some ev \<or> bpf_dns_event now p = Some ev"
proof -
  have "\<exists>now p. bpf_network_event now p = Some ev \<or> bpf_dns_event now p = Some ev"
    if "ev \<in> set (packets_events link_type clock frames)" for clock frames
    using that
    by (induction frames) (auto simp: packet_events_def split: option.splits, blast+)
  then show "ev \<in> set (concat (map (step_events link_type) es)) \<Longrightarrow>
      \<exists>now p. bpf_network_event now p = Some ev \<or> bpf_dns_event now p = Some ev"
    by (auto simp: step_events_def split: capture_step.splits)
qed

lemma delivered_built:
  assumes "ev \<in> set (delivered (snd (run (capture_run_step link_type)
    (fresh_capture room is_open worker) es)))"
  shows "\<exists>now p ev'. (bpf_network_event now p = Some ev' \<or> bpf_dns_event now p = Some ev') \<and>
    unattributed ev = unattributed ev'"
proof -
  let ?out = "run (capture_run_step link_type) (fresh_capture room is_open worker) es"
  from assms have "unattributed ev \<in># bag (delivered (snd ?out))" by (simp add: bag_def)
  then have "unattributed ev \<in># held (fst ?out) + bag (dropped (snd ?out)) + bag (delivered (snd ?out))"
    by simp
  moreover have "held (fresh_capture room is_open worker) = {#}"
    by (simp add: held_def fresh_capture_def)
  ultimately have "unattributed ev \<in># bag (concat (map (step_events link_type) es))"
    by (simp add: capture_run_held del: union_iff)
  then obtain ev' where "ev' \<in> set (concat (map (step_events link_type) es))"
      "unattributed ev = unattributed ev'"
    by (auto simp: bag_def)
  with packet_event_built show ?thesis by blast
qed

lemma bpf_not_file:
  assumes "ev \<in> set (delivered (snd (run (capture_run_step link_type)
    (fresh_capture room is_open worker) es)))"
  shows "\<not> file_payload (sv_payload ev)"
proof -
  have same: "file_payload (sv_payload (unattributed e)) = file_payload (sv_payload e)" for e
    by (simp add: unattributed_def file_payload_def payload_category_def split: sensor_payload.split)
  from delivered_built [OF assms] obtain now p ev' where
    built: "bpf_network_event now p = Some ev' \<or> bpf_dns_event now p = Some ev'"
    and "unattributed ev = unattributed ev'" by blast
  then have "file_payload (sv_payload ev) = file_payload (sv_payload ev')" by (metis same)
  also have "\<not> file_payload (sv_payload ev')"
    using built by (auto simp: bpf_network_event_def bpf_dns_event_def file_payload_def payload_category_def
        split: transport.splits if_splits option.splits)
  finally show ?thesis by simp
qed

lemma sensed_file_numbered:
  assumes "sensed ev" and "file_payload (sv_payload ev)"
  shows "file_numbered ev"
  using assms
proof (induction rule: sensed.induct)
  case (sensed_process ev pf users items)
  then show ?case
    by (auto simp: drain_process_ring_def dest!: drained other_payloads)
next
  case (sensed_network ev pf users items)
  then show ?case by (auto dest!: drained_network other_payloads)
next
  case (sensed_file ev users items)
  then show ?case by (auto simp: drain_file_ring_def dest!: drained linux_file_numbered)
next
  case (sensed_dns ev items)
  then show ?case by (auto simp: drain_dns_ring_def dest!: drained other_payloads)
next
  case (sensed_bpf ev link_type room is_open worker es)
  then show ?case using bpf_not_file by blast
next
  case (sensed_esf images msg ev)
  then show ?case by (rule esf_file_numbered)
next
  case (sensed_etw h parser r ev)
  then show ?case by (rule etw_file_numbered)
qed

text \<open>
  C30: a file operation carries the same event id and action code on every platform, with one
  exception: a modification has event id 65 on Linux and 11, the id of a creation, on macOS and
  Windows.
\<close>

theorem file_events_numbered_alike:
  assumes "sensed ev" and "payload_category (sv_payload ev) = CatFile"
  shows "file_action (sv_action ev) \<and>
    (sv_event_id ev, sv_action_code ev) = file_numbers (sv_platform ev) (sv_action ev)"
  using assms by (intro sensed_file_numbered) (simp_all add: file_payload_def)

definition modified_record :: etw_record where
  "modified_record = windows_record (ep_guid kernel_file) 16"

definition modified_event :: sensor_event where
  "modified_event = the (decode_record quiet_host (Some quiet_parser) modified_record)"

lemma quiet_properties:
  "try_get_string quiet_parser name = None" "try_get_uint quiet_parser name = None"
  "try_get_string_any quiet_parser names = None"
proof -
  show no_text: "try_get_string quiet_parser name = None" for name
    by (simp add: try_get_string_def quiet_parser_def)
  show "try_get_uint quiet_parser name = None" by (simp add: try_get_uint_def quiet_parser_def)
  show "try_get_string_any quiet_parser names = None"
    by (simp add: try_get_string_any_def) (induction names; simp add: no_text)
qed

lemma modified_event_decoded:
  "decode_record quiet_host (Some quiet_parser) modified_record = Some modified_event"
  "sv_payload modified_event = PayFile \<lparr>fe_source_filename = None, fe_target_filename = None,
     fe_process_id = None, fe_image = None, fe_creation_utc_time = None,
     fe_previous_creation_utc_time = None, fe_user = None\<rparr>"
  "sv_action modified_event = ActModify" "sv_platform modified_event = Windows"
  "sv_event_id modified_event = 11" "sv_action_code modified_event = 65"
  by (simp_all add: modified_event_def modified_record_def decode_record_def file_record_routed
      decode_payload_def decode_file_def uint_field_def text_field_def path_field_def
      quiet_properties decoded_def parse_optional_u32_def normalization_for_record_def
      action_code_for_record_def raw_event_id_for_record_def map_to_sysmon_id_def
      file_action_code_def)

theorem file_events_numbered_alike_witness:
  "sensed modified_event \<and> file_numbered modified_event"
proof -
  have sensed: "sensed modified_event" by (rule sensed_etw [OF modified_event_decoded(1)])
  moreover have "payload_category (sv_payload modified_event) = CatFile"
    by (simp add: modified_event_decoded(2) payload_category_def)
  ultimately show ?thesis using file_events_numbered_alike [of modified_event] by blast
qed

section \<open>Rules on file changes\<close>

lemma routed_category:
  "k \<in> set (sigma_logsources_for_event e) \<Longrightarrow>
   lk_category k = None \<or> (\<exists>t \<in> set (concrete_logsource_aliases e). lk_category k = lk_category t)"
  by (auto simp: sigma_logsources_for_event_def logsource_subsets_def from_parts_def)

lemma alias_file_change:
  "t \<in> set (concrete_logsource_aliases e) \<Longrightarrow> lk_category t = Some ''file_change'' \<Longrightarrow>
   ev_category e = CatFile \<and> ''file_change'' \<in> set (sigma_file_categories_for_event e)"
  by (auto simp: concrete_logsource_aliases_def from_parts_def sigma_registry_categories_for_event_def
      Let_def split: event_category.splits platform.splits if_splits)

lemma normalize_keeps:
  "normalize env ev nz = (nz', Some e) \<Longrightarrow>
   ev_category e = payload_category (sv_payload ev) \<and> ev_event_id e = sv_event_id ev \<and>
   ev_opcode e = sv_action_code ev \<and> ev_platform e = sv_platform ev"
  by (auto simp: normalize_def split: prod.splits)

lemma modified_is_created:
  assumes "sensed ev" and "sv_platform ev \<noteq> Linux" and "normalize env ev nz = (nz', Some e)"
    and "ev_category e = CatFile"
  shows "''file_change'' \<notin> set (sigma_file_categories_for_event e)"
    and "sv_action ev = ActModify \<Longrightarrow>
      sigma_file_categories_for_event e = [''file_event'', ''file_create'']"
proof -
  note kept = normalize_keeps [OF assms(3)]
  from kept assms(4) have "file_payload (sv_payload ev)" by (simp add: file_payload_def)
  with assms(1) have "file_numbered ev" by (rule sensed_file_numbered)
  then show "''file_change'' \<notin> set (sigma_file_categories_for_event e)"
    and "sv_action ev = ActModify \<Longrightarrow>
      sigma_file_categories_for_event e = [''file_event'', ''file_create'']"
    using kept assms(2)
    by (auto simp: file_numbers_def file_action_def sigma_file_categories_for_event_def Let_def)
qed

text \<open>
  C28: rules of the category \<open>file_change\<close> never fire on macOS and Windows. Such a rule is accepted
  there as active, with any of the services it may name, but no event of a sensor of these platforms
  is checked against it: a modification carries the event id of a creation, and the id is looked
  at before the action code.
\<close>

theorem file_change_rules_never_fire:
  assumes "sensed ev" and "sv_platform ev \<noteq> Linux" and "normalize env ev nz = (nz', Some e)"
    and "service = None \<or> service = Some ''sysmon''"
    and "k = from_parts product service (Some ''file_change'')"
    and "product = None \<or> product = Some (platform_product (sv_platform ev))"
  shows "rule_load_decision (sv_platform ev) k = Load True \<and> k \<notin> set (sigma_logsources_for_event e)"
proof
  show "rule_load_decision (sv_platform ev) k = Load True"
    using assms(2,4-6)
    by (cases "sv_platform ev")
      (auto simp: rule_load_decision_def from_parts_def key_is_empty_def platform_product_def
        is_deferred_linux_logsource_def matches_active_logsource_def active_logsource_tuples_def
        matches_tuple_def)
  show "k \<notin> set (sigma_logsources_for_event e)"
  proof
    assume "k \<in> set (sigma_logsources_for_event e)"
    moreover have "lk_category k = Some ''file_change''" by (simp add: assms(5) from_parts_def)
    ultimately obtain t where "t \<in> set (concrete_logsource_aliases e)" "lk_category t = Some ''file_change''"
      using routed_category [of k e] by auto
    then have "ev_category e = CatFile \<and> ''file_change'' \<in> set (sigma_file_categories_for_event e)"
      by (rule alias_file_change)
    with modified_is_created(1) [OF assms(1-3)] show False by blast
  qed
qed

theorem file_change_rules_never_fire_witness:
  "rule_load_decision Windows (from_parts (Some ''windows'') None (Some ''file_change'')) = Load True \<and>
   (\<exists>nz e. normalize quiet_env modified_event idle_normalizer = (nz, Some e) \<and>
      ev_opcode e = 65 \<and>
      from_parts (Some ''windows'') None (Some ''file_change'') \<notin> set (sigma_logsources_for_event e))"
proof -
  have "snd (normalize quiet_env modified_event idle_normalizer) \<noteq> None"
    by (simp add: normalize_def normalize_payload_def modified_event_decoded normalize_file_def
        resolve_user_field_def case_prod_beta Let_def)
  then obtain nz e where n: "normalize quiet_env modified_event idle_normalizer = (nz, Some e)"
    by (cases "normalize quiet_env modified_event idle_normalizer") auto
  have w: "sv_platform modified_event = Windows" by (rule modified_event_decoded)
  have "rule_load_decision (sv_platform modified_event) (from_parts (Some ''windows'') None (Some ''file_change'')) =
      Load True \<and>
    from_parts (Some ''windows'') None (Some ''file_change'') \<notin> set (sigma_logsources_for_event e)"
    by (rule file_change_rules_never_fire [OF sensed_etw [OF modified_event_decoded(1)] _ n,
        where service = None and product = "Some ''windows''"])
      (auto simp: w platform_product_def)
  moreover have "ev_opcode e = 65" using normalize_keeps [OF n] by (simp add: modified_event_decoded)
  ultimately show ?thesis using n by (simp add: w)
qed

text \<open>On Linux the same rule is checked against every modification.\<close>

lemma linux_modification_is_change:
  assumes "build_file_event users now raw = Some ev" and "sv_action ev = ActModify"
    and "normalize env ev nz = (nz', Some e)"
  shows "from_parts (Some ''linux'') None (Some ''file_change'') \<in> set (sigma_logsources_for_event e)"
proof -
  have "sv_event_id ev = 65" "sv_platform ev = Linux" "payload_category (sv_payload ev) = CatFile"
    using assms(1,2) by (auto simp: build_file_event_def payload_category_def Let_def split: if_splits)
  with normalize_keeps [OF assms(3)] show ?thesis
    by (subst routes_iff)
      (auto simp: key_is_empty_def from_parts_def concrete_logsource_aliases_def matches_tuple_def
        platform_product_def sigma_file_categories_for_event_def Let_def)
qed

end
