(* ===== verification/Disk.thy ===== *)
theory Disk
  imports Bytes
begin

text \<open>
  The file system as the modules that install rule packs and reload rules use it.
  \<^item> \<open>node\<close>: a file with its bytes, or a directory; a \<open>path\<close> is the list of the names from the
    root, \<open>node_at\<close> looks a path up and \<open>graft\<close> replaces or removes what is there.
  \<^item> \<open>world\<close>: the tree, the number of calls made so far and the \<open>faults\<close>: for every call, whether
    it fails for a reason outside the tree (permissions, a full disk) and what a failed call leaves
    behind. Nothing is assumed of them. Symbolic links are not modelled.
  \<^item> The calls of \<open>std::fs\<close> the sources make, as functions of the world, and their composition
    \<open>io_bind\<close>, which is the \<open>?\<close> operator.
  \<^item> \<open>confined\<close>: a composition of calls that changes nothing off a directory, with a rule for every
    call, and what \<open>mkdirs\<close> and \<open>graft\<close> do to other paths.
\<close>

section \<open>The tree\<close>

datatype node = File "u8 list" | Dir "(string \<times> node) list"

type_synonym path = "string list"

fun node_at :: "node \<Rightarrow> path \<Rightarrow> node option" where
  "node_at n [] = Some n"
| "node_at (File b) (c # p) = None"
| "node_at (Dir cs) (c # p) = (case hm_get cs c of None \<Rightarrow> None | Some n \<Rightarrow> node_at n p)"

fun graft :: "path \<Rightarrow> node option \<Rightarrow> node \<Rightarrow> node" where
  "graft [] v n = (case v of None \<Rightarrow> n | Some m \<Rightarrow> m)"
| "graft (c # p) v (File b) = File b"
| "graft (c # p) v (Dir cs) =
     (if p = [] then Dir (case v of None \<Rightarrow> hm_remove c cs | Some m \<Rightarrow> hm_insert c m cs)
      else case hm_get cs c of
             None \<Rightarrow> Dir cs
           | Some n \<Rightarrow> Dir (hm_insert c (graft p v n) cs))"

definition is_dir :: "node \<Rightarrow> path \<Rightarrow> bool" where
  "is_dir t p = (case node_at t p of Some (Dir _) \<Rightarrow> True | _ \<Rightarrow> False)"

definition is_file :: "node \<Rightarrow> path \<Rightarrow> bool" where
  "is_file t p = (case node_at t p of Some (File _) \<Rightarrow> True | _ \<Rightarrow> False)"

definition path_exists :: "node \<Rightarrow> path \<Rightarrow> bool" where
  "path_exists t p = (node_at t p \<noteq> None)"

text \<open>The directories of \<open>create_dir_all\<close>, from the root down; a file on the way stops it.\<close>

fun mkdirs_from :: "path \<Rightarrow> path \<Rightarrow> node \<Rightarrow> node option" where
  "mkdirs_from p [] t = Some t"
| "mkdirs_from p (c # cs) t =
     (case node_at t (p @ [c]) of
        None \<Rightarrow> mkdirs_from (p @ [c]) cs (graft (p @ [c]) (Some (Dir [])) t)
      | Some (Dir _) \<Rightarrow> mkdirs_from (p @ [c]) cs t
      | Some (File _) \<Rightarrow> None)"

abbreviation mkdirs :: "path \<Rightarrow> node \<Rightarrow> node option" where
  "mkdirs \<equiv> mkdirs_from []"

section \<open>Calls\<close>

datatype call = Create_Dir_All path | Remove_Dir_All path | Remove_File path
  | Rename path path | Create path | Write path "u8 list" | Read path | Copy path path

record faults =
  fl_fails :: "nat \<Rightarrow> call \<Rightarrow> bool"
  fl_depth :: "nat \<Rightarrow> nat"
  fl_left :: "nat \<Rightarrow> node option"
  fl_torn :: "nat \<Rightarrow> u8 list option"

record world =
  wd_tree :: node
  wd_calls :: nat
  wd_faults :: faults

type_synonym ('e, 'a) io = "world \<Rightarrow> ('e + 'a) \<times> world"

definition io_ret :: "'a \<Rightarrow> ('e, 'a) io" where
  "io_ret x w = (Inr x, w)"

definition io_fail :: "'e \<Rightarrow> ('e, 'a) io" where
  "io_fail e w = (Inl e, w)"

definition io_bind :: "('e, 'a) io \<Rightarrow> ('a \<Rightarrow> ('e, 'b) io) \<Rightarrow> ('e, 'b) io" where
  "io_bind m k w = (case m w of (Inl e, w') \<Rightarrow> (Inl e, w') | (Inr x, w') \<Rightarrow> k x w')"

text \<open>\<open>let _ = \<dots>\<close>: the outcome of the call is dropped.\<close>

definition io_ignore :: "('e, 'a) io \<Rightarrow> ('f, unit) io" where
  "io_ignore m w = (Inr (), snd (m w))"

definition io_context :: "('e \<Rightarrow> 'f) \<Rightarrow> ('e, 'a) io \<Rightarrow> ('f, 'a) io" where
  "io_context f m w = (case m w of (Inl e, w') \<Rightarrow> (Inl (f e), w') | (Inr x, w') \<Rightarrow> (Inr x, w'))"

definition io_tree :: "(node \<Rightarrow> 'a) \<Rightarrow> ('e, 'a) io" where
  "io_tree f w = (Inr (f (wd_tree w)), w)"

text \<open>
  One call: it fails when the fault plan says so, with what a failure leaves, or when the tree
  does not allow it, without an effect.
\<close>

definition system_call ::
    "call \<Rightarrow> (node \<Rightarrow> (node \<times> 'a) option) \<Rightarrow> (faults \<Rightarrow> nat \<Rightarrow> node \<Rightarrow> node) \<Rightarrow> (call, 'a) io" where
  "system_call c run_call spoil w =
     (let n = wd_calls w; w' = w\<lparr>wd_calls := Suc n\<rparr> in
      if fl_fails (wd_faults w) n c
      then (Inl c, w'\<lparr>wd_tree := spoil (wd_faults w) n (wd_tree w)\<rparr>)
      else case run_call (wd_tree w) of
             None \<Rightarrow> (Inl c, w')
           | Some (t, x) \<Rightarrow> (Inr x, w'\<lparr>wd_tree := t\<rparr>))"

definition unspoilt :: "faults \<Rightarrow> nat \<Rightarrow> node \<Rightarrow> node" where
  "unspoilt f n t = t"

definition spoil_file :: "path \<Rightarrow> faults \<Rightarrow> nat \<Rightarrow> node \<Rightarrow> node" where
  "spoil_file p f n t =
     (case fl_torn f n of
        Some b \<Rightarrow> if is_dir t (butlast p) \<and> \<not> is_dir t p then graft p (Some (File b)) t else t
      | None \<Rightarrow> t)"

definition fs_create_dir_all :: "path \<Rightarrow> (call, unit) io" where
  "fs_create_dir_all p = system_call (Create_Dir_All p)
     (\<lambda>t. map_option (\<lambda>t'. (t', ())) (mkdirs p t))
     (\<lambda>f n t. case mkdirs (take (fl_depth f n) p) t of None \<Rightarrow> t | Some t' \<Rightarrow> t')"

definition fs_remove_dir_all :: "path \<Rightarrow> (call, unit) io" where
  "fs_remove_dir_all p = system_call (Remove_Dir_All p)
     (\<lambda>t. if is_dir t p then Some (graft p None t, ()) else None)
     (\<lambda>f n t. if is_dir t p then graft p (fl_left f n) t else t)"

definition fs_remove_file :: "path \<Rightarrow> (call, unit) io" where
  "fs_remove_file p = system_call (Remove_File p)
     (\<lambda>t. if is_file t p then Some (graft p None t, ()) else None) unspoilt"

text \<open>
  \<open>rename\<close> replaces a file by a file and an empty directory by a directory, and moves nothing below
  itself; it is atomic, a failed one has no effect.
\<close>

definition may_replace :: "node \<Rightarrow> node option \<Rightarrow> bool" where
  "may_replace n old =
     (case old of
        None \<Rightarrow> True
      | Some (File _) \<Rightarrow> (case n of File _ \<Rightarrow> True | Dir _ \<Rightarrow> False)
      | Some (Dir cs) \<Rightarrow> (case n of File _ \<Rightarrow> False | Dir _ \<Rightarrow> cs = []))"

definition fs_rename :: "path \<Rightarrow> path \<Rightarrow> (call, unit) io" where
  "fs_rename a b = system_call (Rename a b)
     (\<lambda>t. case node_at t a of
            None \<Rightarrow> None
          | Some n \<Rightarrow>
              if take (length a) b \<noteq> a \<and> is_dir t (butlast b) \<and> may_replace n (node_at t b)
              then Some (graft b (Some n) (graft a None t), ()) else None) unspoilt"

text \<open>\<open>File::create\<close> followed by the copy of the bytes, \<open>fs::write\<close>, \<open>fs::read\<close>, \<open>fs::copy\<close>.\<close>

definition put_file :: "path \<Rightarrow> u8 list \<Rightarrow> node \<Rightarrow> (node \<times> unit) option" where
  "put_file p b t =
     (if is_dir t (butlast p) \<and> \<not> is_dir t p then Some (graft p (Some (File b)) t, ()) else None)"

definition fs_create :: "path \<Rightarrow> (call, unit) io" where
  "fs_create p = system_call (Create p) (put_file p []) (spoil_file p)"

definition fs_write :: "path \<Rightarrow> u8 list \<Rightarrow> (call, unit) io" where
  "fs_write p b = system_call (Write p b) (put_file p b) (spoil_file p)"

definition fs_read :: "path \<Rightarrow> (call, u8 list) io" where
  "fs_read p = system_call (Read p)
     (\<lambda>t. case node_at t p of Some (File b) \<Rightarrow> Some (t, b) | _ \<Rightarrow> None) unspoilt"

definition fs_copy :: "path \<Rightarrow> path \<Rightarrow> (call, unit) io" where
  "fs_copy a b = system_call (Copy a b)
     (\<lambda>t. case node_at t a of Some (File c) \<Rightarrow> put_file b c t | _ \<Rightarrow> None) (spoil_file b)"

section \<open>Lookups after an update\<close>

lemma node_at_append:
  "node_at t (p @ q) = (case node_at t p of None \<Rightarrow> None | Some n \<Rightarrow> node_at n q)"
  by (induction t p rule: node_at.induct) (auto split: option.splits)

lemma node_at_None_below: "prefix p q \<Longrightarrow> node_at t p = None \<Longrightarrow> node_at t q = None"
  by (auto simp: prefix_def node_at_append)

lemma is_dir_prefix: "node_at t (p @ c # q) = Some n \<Longrightarrow> is_dir t p"
  by (auto simp: node_at_append is_dir_def split: option.splits node.splits elim: node_at.elims)

lemma is_dir_Cons:
  "is_dir (Dir cs) (c # p) = (case hm_get cs c of None \<Rightarrow> False | Some n \<Rightarrow> is_dir n p)"
  by (simp add: is_dir_def split: option.splits)

lemma parallel_Cons [simp]: "c # p \<parallel> d # q \<longleftrightarrow> c \<noteq> d \<or> p \<parallel> q"
  by (auto simp: parallel_def)

lemma not_parallel_Nil [simp]: "\<not> p \<parallel> []" "\<not> [] \<parallel> p"
  by (auto simp: parallel_def)

lemma node_at_graft_same:
  "p \<noteq> [] \<Longrightarrow> is_dir t (butlast p) \<Longrightarrow> node_at (graft p v t) p = v"
proof (induction p v t rule: graft.induct)
  case (3 c p v cs)
  show ?case
  proof (cases "p = []")
    case True
    then show ?thesis by (simp add: update_conv delete_conv split: option.splits)
  next
    case False
    with 3 show ?thesis by (auto simp: is_dir_Cons update_conv split: option.splits)
  qed
qed (auto simp: is_dir_def neq_Nil_conv split: if_splits)

lemma node_at_graft_other: "p \<parallel> q \<Longrightarrow> node_at (graft p v t) q = node_at t q"
proof (induction p v t arbitrary: q rule: graft.induct)
  case (3 c p v cs)
  then obtain d q' where q: "q = d # q'" by (cases q) auto
  consider "c \<noteq> d" | "c = d" "p \<noteq> []" "p \<parallel> q'" using 3(2) q by (cases "p = []") auto
  then show ?case
  proof cases
    case 1
    with q show ?thesis by (cases "hm_get cs c"; cases v) (simp_all add: update_conv delete_conv)
  next
    case 2
    with q 3(1) show ?thesis by (cases "hm_get cs c") (simp_all add: update_conv)
  qed
qed simp_all

lemma is_dir_graft_above: "strict_prefix q p \<Longrightarrow> is_dir (graft p v t) q = is_dir t q"
proof (induction p v t arbitrary: q rule: graft.induct)
  case (3 c p v cs)
  show ?case
  proof (cases q)
    case Nil
    then show ?thesis by (auto simp: is_dir_def split: option.splits)
  next
    case (Cons d q')
    with 3 show ?thesis
      by (auto simp: is_dir_Cons update_conv delete_conv split: option.splits)
  qed
qed auto

lemma mkdirs_from_is_dir:
  "mkdirs_from p cs t = Some t' \<Longrightarrow> is_dir t p \<Longrightarrow> is_dir t' (p @ cs)"
proof (induction p cs t rule: mkdirs_from.induct)
  case (2 p c cs t)
  then show ?case
    by (auto simp: is_dir_def node_at_graft_same split: option.splits node.splits)
qed simp

lemma node_at_graft_empty:
  assumes "node_at t p = None" and "p \<noteq> []" and "is_dir t (butlast p)" and "q \<noteq> p"
    and "\<not> strict_prefix q p"
  shows "node_at (graft p (Some (Dir [])) t) q = node_at t q"
proof (cases "prefix p q")
  case True
  then obtain r where r: "q = p @ r" by (auto elim: prefixE)
  with assms(4) obtain x xs where "r = x # xs" by (cases r) auto
  with r assms(1-3) show ?thesis by (simp add: node_at_append node_at_graft_same)
next
  case False
  then have "p \<parallel> q"
    using assms(4,5) by (auto simp: parallel_def strict_prefix_def)
  then show ?thesis by (rule node_at_graft_other)
qed

lemma not_prefix_longer:
  assumes "\<not> prefix q (p @ c # cs)"
  shows "q \<noteq> p @ [c]" and "\<not> strict_prefix q (p @ [c])"
proof -
  have "prefix (p @ [c]) (p @ c # cs)" by simp
  with assms show "q \<noteq> p @ [c]" and "\<not> strict_prefix q (p @ [c])"
    by (metis prefix_order.less_imp_le prefix_order.trans)+
qed

lemma mkdirs_from_other:
  "mkdirs_from p cs t = Some t' \<Longrightarrow> \<not> prefix q (p @ cs) \<Longrightarrow> is_dir t p \<Longrightarrow>
   node_at t' q = node_at t q"
proof (induction p cs t rule: mkdirs_from.induct)
  case (2 p c cs t)
  note q = not_prefix_longer [OF "2.prems"(2)]
  show ?case
  proof (cases "node_at t (p @ [c])")
    case None
    have "is_dir (graft (p @ [c]) (Some (Dir [])) t) (p @ [c])"
      using "2.prems"(3) by (simp add: is_dir_def node_at_graft_same)
    with None 2 q show ?thesis by (simp add: node_at_graft_empty)
  next
    case (Some n)
    with 2 show ?thesis by (cases n) (simp_all add: is_dir_def)
  qed
qed simp

lemma mkdirs_from_keeps_dirs:
  "mkdirs_from p cs t = Some t' \<Longrightarrow> is_dir t q \<Longrightarrow> is_dir t' q"
proof (induction p cs t rule: mkdirs_from.induct)
  case (2 p c cs t)
  have keep: "is_dir (graft (p @ [c]) (Some (Dir [])) t) q" if "node_at t (p @ [c]) = None"
  proof (cases "prefix (p @ [c]) q")
    case True
    then have "node_at t q = None" using that by (rule node_at_None_below)
    with "2.prems"(2) show ?thesis by (simp add: is_dir_def)
  next
    case False
    consider "strict_prefix q (p @ [c])" | "p @ [c] \<parallel> q"
      using False by (auto simp: parallel_def strict_prefix_def)
    then show ?thesis
      using "2.prems"(2)
      by cases (simp add: is_dir_graft_above, simp add: is_dir_def node_at_graft_other)
  qed
  show ?case
    using 2 keep by (auto split: option.splits node.splits)
qed simp

lemma mkdirs_is_dir: "mkdirs p t = Some t' \<Longrightarrow> is_dir t [] \<Longrightarrow> is_dir t' p"
  using mkdirs_from_is_dir [of "[]" p t t'] by simp

lemma mkdirs_other:
  "mkdirs p t = Some t' \<Longrightarrow> \<not> prefix q p \<Longrightarrow> is_dir t [] \<Longrightarrow> node_at t' q = node_at t q"
  using mkdirs_from_other [of "[]" p t t' q] by simp

lemma mkdirs_keeps_dirs: "mkdirs p t = Some t' \<Longrightarrow> is_dir t q \<Longrightarrow> is_dir t' q"
  by (rule mkdirs_from_keeps_dirs)

section \<open>Changes confined to a directory\<close>

text \<open>
  A change of the tree below the directory \<open>d\<close>: paths off \<open>d\<close> keep what they hold, the directories
  down to \<open>d\<close> stay directories.
\<close>

definition kept_off :: "path \<Rightarrow> node \<Rightarrow> node \<Rightarrow> bool" where
  "kept_off d t t' \<longleftrightarrow>
     (\<forall>q. q \<parallel> d \<longrightarrow> node_at t' q = node_at t q) \<and> (\<forall>q. prefix q d \<longrightarrow> is_dir t q \<longrightarrow> is_dir t' q)"

definition confined :: "path \<Rightarrow> ('e, 'a) io \<Rightarrow> bool" where
  "confined d m \<longleftrightarrow>
     (\<forall>w. is_dir (wd_tree w) [] \<longrightarrow> wd_faults (snd (m w)) = wd_faults w \<and>
        kept_off d (wd_tree w) (wd_tree (snd (m w))))"

named_theorems confined_intros

lemma kept_off_refl [simp]: "kept_off d t t"
  by (simp add: kept_off_def)

lemma kept_off_trans: "kept_off d t t' \<Longrightarrow> kept_off d t' t'' \<Longrightarrow> kept_off d t t''"
  by (simp add: kept_off_def)

lemma kept_off_root: "kept_off d t t' \<Longrightarrow> is_dir t [] \<Longrightarrow> is_dir t' []"
  by (simp add: kept_off_def)

lemma kept_off_graft: "strict_prefix d p \<Longrightarrow> kept_off d t (graft p v t)"
proof -
  assume d: "strict_prefix d p"
  have "p \<parallel> q" if "q \<parallel> d" for q
    using that d unfolding parallel_def
    by (metis prefix_order.less_imp_le prefix_order.trans prefix_same_cases)
  moreover have "strict_prefix q p" if "prefix q d" for q
    using that d by (rule prefix_order.le_less_trans)
  ultimately show ?thesis
    by (simp add: kept_off_def node_at_graft_other is_dir_graft_above)
qed

lemma kept_off_mkdirs:
  assumes "mkdirs p t = Some t'" and "is_dir t []" and "\<And>q. q \<parallel> d \<Longrightarrow> \<not> prefix q p"
  shows "kept_off d t t'"
  using assms by (simp add: kept_off_def mkdirs_other mkdirs_keeps_dirs)

lemma parallel_not_prefix: "q \<parallel> d \<Longrightarrow> prefix d p \<Longrightarrow> \<not> prefix q p"
  unfolding parallel_def by (metis prefix_same_cases)

lemma confined_ret [confined_intros]: "confined d (io_ret x)"
  by (simp add: confined_def io_ret_def)

lemma confined_fail [confined_intros]: "confined d (io_fail e)"
  by (simp add: confined_def io_fail_def)

lemma confined_tree [confined_intros]: "confined d (io_tree f)"
  by (simp add: confined_def io_tree_def)

lemma confined_bind_run:
  assumes "confined d m" and "\<And>x w w'. m w = (Inr x, w') \<Longrightarrow> confined d (k x)"
  shows "confined d (io_bind m k)"
  unfolding confined_def
proof (intro allI impI)
  fix w :: world assume w: "is_dir (wd_tree w) []"
  obtain r w' where m: "m w = (r, w')" by (cases "m w")
  with assms(1) w have step: "wd_faults w' = wd_faults w" "kept_off d (wd_tree w) (wd_tree w')"
    by (auto simp: confined_def dest: spec [of _ w])
  then have "is_dir (wd_tree w') []" using w by (blast intro: kept_off_root)
  then have "wd_faults (snd (k x w')) = wd_faults w' \<and>
      kept_off d (wd_tree w') (wd_tree (snd (k x w')))" if "r = Inr x" for x
    using assms(2) m that by (simp add: confined_def)
  with step m show "wd_faults (snd (io_bind m k w)) = wd_faults w \<and>
      kept_off d (wd_tree w) (wd_tree (snd (io_bind m k w)))"
    by (cases r) (auto simp: io_bind_def intro: kept_off_trans)
qed

lemma confined_bind [confined_intros]:
  "confined d m \<Longrightarrow> (\<And>x. confined d (k x)) \<Longrightarrow> confined d (io_bind m k)"
  by (rule confined_bind_run)

lemma kept_off_mono: "kept_off e t t' \<Longrightarrow> prefix d e \<Longrightarrow> kept_off d t t'"
  unfolding kept_off_def parallel_def
  by (metis prefix_order.trans prefix_same_cases)

lemma confined_mono: "confined e m \<Longrightarrow> prefix d e \<Longrightarrow> confined d m"
  by (auto simp: confined_def intro: kept_off_mono)

lemma confined_ignore [confined_intros]: "confined d m \<Longrightarrow> confined d (io_ignore m)"
  by (simp add: confined_def io_ignore_def)

lemma confined_context [confined_intros]: "confined d m \<Longrightarrow> confined d (io_context f m)"
  by (simp add: confined_def io_context_def split: prod.split sum.split) (metis snd_conv)

lemma confined_system_call:
  assumes "\<And>t t' x. is_dir t [] \<Longrightarrow> run_call t = Some (t', x) \<Longrightarrow> kept_off d t t'"
    and "\<And>f n t. is_dir t [] \<Longrightarrow> kept_off d t (spoil f n t)"
  shows "confined d (system_call c run_call spoil)"
  using assms by (auto simp: confined_def system_call_def Let_def split: option.splits)

lemma kept_off_spoil_file: "strict_prefix d p \<Longrightarrow> kept_off d t (spoil_file p f n t)"
  by (simp add: spoil_file_def kept_off_graft split: option.split)

lemma kept_off_put_file: "strict_prefix d p \<Longrightarrow> put_file p b t = Some (t', u) \<Longrightarrow> kept_off d t t'"
  by (auto simp: put_file_def kept_off_graft split: if_splits)

lemma confined_create_dir_all [confined_intros]:
  assumes "prefix d p"
  shows "confined d (fs_create_dir_all p)"
  unfolding fs_create_dir_all_def
proof (rule confined_system_call)
  fix t t' u assume "is_dir t []" "map_option (\<lambda>t'. (t', ())) (mkdirs p t) = Some (t', u)"
  then show "kept_off d t t'"
    using assms by (intro kept_off_mkdirs [of p]) (auto simp: parallel_not_prefix)
next
  fix f n t assume t: "is_dir t []"
  have "\<not> prefix q (take (fl_depth f n) p)" if "q \<parallel> d" for q
    using parallel_not_prefix [OF that assms] take_is_prefix [of "fl_depth f n" p]
    by (blast intro: prefix_order.trans)
  then show "kept_off d t (case mkdirs (take (fl_depth f n) p) t of None \<Rightarrow> t | Some t' \<Rightarrow> t')"
    using t by (auto split: option.split intro: kept_off_mkdirs)
qed

lemma confined_remove_dir_all [confined_intros]:
  "strict_prefix d p \<Longrightarrow> confined d (fs_remove_dir_all p)"
  unfolding fs_remove_dir_all_def
  by (rule confined_system_call) (auto simp: kept_off_graft split: if_splits)

lemma confined_remove_file [confined_intros]:
  "strict_prefix d p \<Longrightarrow> confined d (fs_remove_file p)"
  unfolding fs_remove_file_def
  by (rule confined_system_call) (auto simp: kept_off_graft unspoilt_def split: if_splits)

lemma confined_rename [confined_intros]:
  "strict_prefix d a \<Longrightarrow> strict_prefix d b \<Longrightarrow> confined d (fs_rename a b)"
  unfolding fs_rename_def
  by (rule confined_system_call)
    (auto simp: unspoilt_def split: option.splits if_splits
      intro: kept_off_graft kept_off_trans [OF kept_off_graft])

lemma confined_create [confined_intros]: "strict_prefix d p \<Longrightarrow> confined d (fs_create p)"
  unfolding fs_create_def
  by (rule confined_system_call) (auto intro: kept_off_put_file kept_off_spoil_file)

lemma confined_write [confined_intros]: "strict_prefix d p \<Longrightarrow> confined d (fs_write p b)"
  unfolding fs_write_def
  by (rule confined_system_call) (auto intro: kept_off_put_file kept_off_spoil_file)

lemma confined_read [confined_intros]: "confined d (fs_read p)"
  unfolding fs_read_def
  by (rule confined_system_call) (auto simp: unspoilt_def split: option.splits node.splits)

lemma confined_copy [confined_intros]: "strict_prefix d b \<Longrightarrow> confined d (fs_copy a b)"
  unfolding fs_copy_def
  by (rule confined_system_call)
    (auto split: option.splits node.splits intro: kept_off_put_file kept_off_spoil_file)

section \<open>Calls on places\<close>

text \<open>
  A procedure that moves whole subtrees between some places is reasoned about on what the places
  hold. The places \<open>ps\<close> are paths none of which is below another, their parents are directories.
  \<open>holds ps f P m Q\<close>: run under the fault plan \<open>f\<close> from places satisfying \<open>P\<close>, \<open>m\<close> yields a result
  and places satisfying \<open>Q\<close>.
\<close>

type_synonym places = "path \<Rightarrow> node option"

definition apart :: "path list \<Rightarrow> bool" where
  "apart ps \<longleftrightarrow> (\<forall>p \<in> set ps. p \<noteq> [] \<and> (\<forall>q \<in> set ps. p \<noteq> q \<longrightarrow> p \<parallel> q))"

definition at_places :: "path list \<Rightarrow> node \<Rightarrow> places \<Rightarrow> bool" where
  "at_places ps t s \<longleftrightarrow>
     is_dir t [] \<and> (\<forall>p \<in> set ps. is_dir t (butlast p) \<and> node_at t p = s p)"

definition holds ::
    "path list \<Rightarrow> faults \<Rightarrow> (places \<Rightarrow> bool) \<Rightarrow> ('e, 'a) io \<Rightarrow> ('e + 'a \<Rightarrow> places \<Rightarrow> bool) \<Rightarrow> bool"
  where
  "holds ps f P m Q \<longleftrightarrow>
     (\<forall>w s. wd_faults w = f \<longrightarrow> at_places ps (wd_tree w) s \<longrightarrow> P s \<longrightarrow>
        wd_faults (snd (m w)) = f \<and>
        (\<exists>s'. at_places ps (wd_tree (snd (m w))) s' \<and> Q (fst (m w)) s'))"

lemma parallel_same_front [simp]: "r @ p \<parallel> r @ q \<longleftrightarrow> p \<parallel> q"
  by (induction r) auto

lemma strict_prefix_butlast: "p \<noteq> [] \<Longrightarrow> strict_prefix (butlast p) p"
  by (simp add: strict_prefix_def prefixeq_butlast) (metis append_butlast_last_id not_Cons_self2 self_append_conv)

lemma parent_kept:
  assumes "apart ps" "p \<in> set ps" "q \<in> set ps" "is_dir t (butlast q)"
  shows "is_dir (graft p v t) (butlast q)"
proof (cases "strict_prefix (butlast q) p")
  case True
  with assms(4) show ?thesis by (simp add: is_dir_graft_above)
next
  case False
  have "\<not> prefix p (butlast q)"
    using assms strict_prefix_butlast [of q] unfolding apart_def parallel_def
    by (metis prefix_order.le_less_trans prefix_order.less_imp_le prefix_order.less_irrefl)
  with False have "p \<parallel> butlast q" by (auto simp: parallel_def strict_prefix_def)
  with assms(4) show ?thesis by (simp add: is_dir_def node_at_graft_other)
qed

lemma at_places_graft:
  assumes "apart ps" "p \<in> set ps" "at_places ps t s"
  shows "at_places ps (graft p v t) (s(p := v))"
  unfolding at_places_def
proof (intro conjI ballI)
  have "strict_prefix [] p" using assms(1,2) by (auto simp: apart_def strict_prefix_def)
  then show "is_dir (graft p v t) []" using assms(3) by (simp add: is_dir_graft_above at_places_def)
  fix q assume q: "q \<in> set ps"
  then show "is_dir (graft p v t) (butlast q)"
    using assms parent_kept [OF assms(1,2) q] by (simp add: at_places_def)
  show "node_at (graft p v t) q = (s(p := v)) q"
    using assms q by (auto simp: at_places_def apart_def node_at_graft_same node_at_graft_other)
qed

lemma holds_ret: "(\<And>s. P s \<Longrightarrow> Q (Inr x) s) \<Longrightarrow> holds ps f P (io_ret x) Q"
  by (auto simp: holds_def io_ret_def)

lemma holds_run:
  assumes "holds ps f P m Q" and "m w = (r, w')" and "wd_faults w = f" and "at_places ps (wd_tree w) s"
    and "P s"
  shows "\<exists>s'. at_places ps (wd_tree w') s' \<and> Q r s'"
  using assms(1) [unfolded holds_def, rule_format, OF assms(3-5)] assms(2) by simp

lemma holds_pre: "holds ps f P m Q \<Longrightarrow> (\<And>s. P' s \<Longrightarrow> P s) \<Longrightarrow> holds ps f P' m Q"
  by (simp add: holds_def)

lemma holds_post:
  "holds ps f P m Q \<Longrightarrow> (\<And>r s. Q r s \<Longrightarrow> Q' r s) \<Longrightarrow> holds ps f P m Q'"
  unfolding holds_def by blast

lemma holds_bind:
  assumes m: "holds ps f P m (\<lambda>r s. case r of Inl e \<Rightarrow> R (Inl e) s | Inr x \<Rightarrow> Q x s)"
    and k: "\<And>x. holds ps f (Q x) (k x) R"
  shows "holds ps f P (io_bind m k) R"
  unfolding holds_def
proof (intro allI impI)
  fix w :: world and s assume w: "wd_faults w = f" "at_places ps (wd_tree w) s" "P s"
  obtain r w' where r: "m w = (r, w')" by (cases "m w")
  with m w obtain s' where s': "wd_faults w' = f" "at_places ps (wd_tree w') s'"
    "case r of Inl e \<Rightarrow> R (Inl e) s' | Inr x \<Rightarrow> Q x s'"
    unfolding holds_def by fastforce
  show "wd_faults (snd (io_bind m k w)) = f \<and>
    (\<exists>s'. at_places ps (wd_tree (snd (io_bind m k w))) s' \<and> R (fst (io_bind m k w)) s')"
  proof (cases r)
    case (Inl e)
    with r s' show ?thesis by (auto simp: io_bind_def)
  next
    case (Inr x)
    with r s' k [of x] show ?thesis unfolding holds_def by (auto simp: io_bind_def)
  qed
qed

lemma holds_ignore:
  "holds ps f P m (\<lambda>r s. Q (Inr ()) s) \<Longrightarrow> holds ps f P (io_ignore m) Q"
  by (simp add: holds_def io_ignore_def)

lemma holds_context:
  assumes "holds ps f P m (\<lambda>r s. case r of Inl e \<Rightarrow> Q (Inl (g e)) s | Inr x \<Rightarrow> Q (Inr x) s)"
  shows "holds ps f P (io_context g m) Q"
  unfolding holds_def
proof (intro allI impI)
  fix w :: world and s assume w: "wd_faults w = f" "at_places ps (wd_tree w) s" "P s"
  obtain r w' where r: "m w = (r, w')" by (cases "m w")
  with assms w show "wd_faults (snd (io_context g m w)) = f \<and>
    (\<exists>s'. at_places ps (wd_tree (snd (io_context g m w))) s' \<and> Q (fst (io_context g m w)) s')"
    unfolding holds_def io_context_def by (cases r) fastforce+
qed

lemma holds_tree_bind:
  assumes "p \<in> set ps"
    and "holds ps f (\<lambda>s. P s \<and> s p \<noteq> None) (k True) Q"
    and "holds ps f (\<lambda>s. P s \<and> s p = None) (k False) Q"
  shows "holds ps f P (io_bind (io_tree (\<lambda>t. path_exists t p)) k) Q"
  unfolding holds_def
proof (intro allI impI)
  fix w :: world and s assume w: "wd_faults w = f" "at_places ps (wd_tree w) s" "P s"
  have run: "io_bind (io_tree (\<lambda>t. path_exists t p)) k w = k (s p \<noteq> None) w"
    using w(2) assms(1) by (simp add: io_bind_def io_tree_def path_exists_def at_places_def)
  show "wd_faults (snd (io_bind (io_tree (\<lambda>t. path_exists t p)) k w)) = f \<and>
    (\<exists>s'. at_places ps (wd_tree (snd (io_bind (io_tree (\<lambda>t. path_exists t p)) k w))) s' \<and>
      Q (fst (io_bind (io_tree (\<lambda>t. path_exists t p)) k w)) s')"
  proof (cases "s p = None")
    case True
    with assms(3) w run show ?thesis unfolding holds_def by simp
  next
    case False
    with assms(2) w run show ?thesis unfolding holds_def by simp
  qed
qed

lemma holds_rename:
  assumes "apart ps" "a \<in> set ps" "b \<in> set ps" "a \<noteq> b"
    and "\<And>s. P s \<Longrightarrow> s a = None \<or> s b \<noteq> None \<or> (\<exists>n. fl_fails f n (Rename a b)) \<Longrightarrow>
      Q (Inl (Rename a b)) s"
    and "\<And>s. P s \<Longrightarrow> s a \<noteq> None \<Longrightarrow> \<exists>n. \<not> fl_fails f n (Rename a b) \<Longrightarrow>
      Q (Inr ()) (s(a := None, b := s a))"
  shows "holds ps f P (fs_rename a b) Q"
  unfolding holds_def
proof (intro allI impI)
  fix w :: world and s assume w: "wd_faults w = f" "at_places ps (wd_tree w) s" "P s"
  have "a \<parallel> b" and ne: "a \<noteq> []" "b \<noteq> []" using assms(1-4) by (simp_all add: apart_def)
  then have "\<not> prefix a b" by (simp add: parallel_def)
  then have off: "take (length a) b \<noteq> a" "a \<noteq> []" "b \<noteq> []"
    using ne take_is_prefix [of "length a" b] by auto
  have at: "node_at (wd_tree w) a = s a" "node_at (wd_tree w) b = s b"
    "is_dir (wd_tree w) (butlast b)"
    using w(2) assms(2,3) by (auto simp: at_places_def)
  have moved: "at_places ps (graft b v (graft a None (wd_tree w))) (s(a := None, b := v))" for v
    using assms(1-3) w(2) by (intro at_places_graft)
  show "wd_faults (snd (fs_rename a b w)) = f \<and>
    (\<exists>s'. at_places ps (wd_tree (snd (fs_rename a b w))) s' \<and> Q (fst (fs_rename a b w)) s')"
  proof (cases "fst (fs_rename a b w)")
    case (Inl c)
    then have "c = Rename a b" "wd_tree (snd (fs_rename a b w)) = wd_tree w"
      "wd_faults (snd (fs_rename a b w)) = wd_faults w"
      "s a = None \<or> s b \<noteq> None \<or> (\<exists>n. fl_fails f n (Rename a b))"
      using at off w(1)
      by (auto simp: fs_rename_def system_call_def unspoilt_def Let_def may_replace_def
          split: if_splits option.splits)
    with Inl w assms(5) [OF w(3)] show ?thesis by auto
  next
    case (Inr u)
    then obtain n where n: "s a = Some n" "\<not> fl_fails f (wd_calls w) (Rename a b)"
      "wd_tree (snd (fs_rename a b w)) = graft b (Some n) (graft a None (wd_tree w))"
      "wd_faults (snd (fs_rename a b w)) = wd_faults w"
      using at off w(1)
      by (auto simp: fs_rename_def system_call_def Let_def split: if_splits option.splits)
    with Inr w(1) assms(6) [OF w(3)] moved [of "Some n"] show ?thesis by auto
  qed
qed

lemma holds_remove_dir_all:
  assumes "apart ps" "a \<in> set ps"
    and "\<And>s v. P s \<Longrightarrow> (\<exists>n. fl_fails f n (Remove_Dir_All a)) \<Longrightarrow>
      Q (Inl (Remove_Dir_All a)) (s(a := v))"
    and "\<And>s. P s \<Longrightarrow> (\<nexists>cs. s a = Some (Dir cs)) \<Longrightarrow> Q (Inl (Remove_Dir_All a)) s"
    and "\<And>s. P s \<Longrightarrow> Q (Inr ()) (s(a := None))"
  shows "holds ps f P (fs_remove_dir_all a) Q"
  unfolding holds_def
proof (intro allI impI)
  fix w :: world and s assume w: "wd_faults w = f" "at_places ps (wd_tree w) s" "P s"
  note grafted = at_places_graft [OF assms(1,2) w(2)]
  have at: "node_at (wd_tree w) a = s a" using w(2) assms(2) by (simp add: at_places_def)
  consider "\<exists>n. fl_fails f n (Remove_Dir_All a)" "fl_fails f (wd_calls w) (Remove_Dir_All a)"
    | "\<not> fl_fails f (wd_calls w) (Remove_Dir_All a)" by blast
  then show "wd_faults (snd (fs_remove_dir_all a w)) = f \<and>
    (\<exists>s'. at_places ps (wd_tree (snd (fs_remove_dir_all a w))) s' \<and> Q (fst (fs_remove_dir_all a w)) s')"
  proof cases
    case 1
    let ?v = "if is_dir (wd_tree w) a then fl_left f (wd_calls w) else s a"
    have "at_places ps (wd_tree (snd (fs_remove_dir_all a w))) (s(a := ?v))"
      using w(1,2) 1(2) grafted by (auto simp: fs_remove_dir_all_def system_call_def Let_def)
    with 1 w(1) assms(3) [OF w(3) 1(1), of ?v] show ?thesis
      by (auto simp: fs_remove_dir_all_def system_call_def Let_def)
  next
    case 2
    then show ?thesis
      using w at assms(4,5) [OF w(3)] grafted
      by (auto simp: fs_remove_dir_all_def system_call_def Let_def is_dir_def
          split: option.splits node.splits)
  qed
qed

lemma holds_remove_file:
  assumes "apart ps" "a \<in> set ps"
    and "\<And>s. P s \<Longrightarrow> (\<exists>n. fl_fails f n (Remove_File a)) \<or> (\<nexists>b. s a = Some (File b)) \<Longrightarrow>
      Q (Inl (Remove_File a)) s"
    and "\<And>s. P s \<Longrightarrow> Q (Inr ()) (s(a := None))"
  shows "holds ps f P (fs_remove_file a) Q"
  unfolding holds_def
proof (intro allI impI)
  fix w :: world and s assume w: "wd_faults w = f" "at_places ps (wd_tree w) s" "P s"
  have at: "node_at (wd_tree w) a = s a" using w(2) assms(2) by (simp add: at_places_def)
  show "wd_faults (snd (fs_remove_file a w)) = f \<and>
    (\<exists>s'. at_places ps (wd_tree (snd (fs_remove_file a w))) s' \<and> Q (fst (fs_remove_file a w)) s')"
    using w at assms(3,4) [OF w(3)] at_places_graft [OF assms(1,2) w(2)]
    by (auto simp: fs_remove_file_def system_call_def Let_def unspoilt_def is_file_def
        split: option.splits node.splits)
qed

section \<open>Successful calls\<close>

named_theorems io_success

lemma io_bind_success [io_success]:
  "io_bind m k w = (Inr y, w'') \<longleftrightarrow> (\<exists>x w'. m w = (Inr x, w') \<and> k x w' = (Inr y, w''))"
  by (auto simp: io_bind_def split: prod.splits sum.splits)

lemma io_context_success [io_success]: "io_context g m w = (Inr y, w') \<longleftrightarrow> m w = (Inr y, w')"
  by (auto simp: io_context_def split: prod.splits sum.splits)

lemma io_ret_success [io_success]: "io_ret x w = (Inr y, w') \<longleftrightarrow> x = y \<and> w' = w"
  by (auto simp: io_ret_def)

lemma io_fail_success [io_success]: "io_fail e w \<noteq> (Inr y, w')"
  by (simp add: io_fail_def)

lemma io_tree_success [io_success]: "io_tree f w = (Inr y, w') \<longleftrightarrow> y = f (wd_tree w) \<and> w' = w"
  by (auto simp: io_tree_def)

lemma io_option_success [io_success]:
  "(case v of None \<Rightarrow> io_fail e | Some x \<Rightarrow> k x) w = (Inr y, w') \<longleftrightarrow>
   (\<exists>x. v = Some x \<and> k x w = (Inr y, w'))"
  by (cases v) (simp_all add: io_fail_success)

lemma io_absent_success [io_success]:
  "(case v of None \<Rightarrow> m | Some x \<Rightarrow> io_fail (e x)) w = (Inr y, w') \<longleftrightarrow>
   v = None \<and> m w = (Inr y, w')"
  by (cases v) (simp_all add: io_fail_success)

lemma io_sum_success [io_success]:
  "(case r of Inl e \<Rightarrow> io_fail e | Inr x \<Rightarrow> k x) w = (Inr y, w') \<longleftrightarrow>
   (\<exists>x. r = Inr x \<and> k x w = (Inr y, w'))"
  by (cases r) (simp_all add: io_fail_success)

lemma system_call_success:
  "system_call c run_call spoil w = (Inr x, w') \<Longrightarrow>
   run_call (wd_tree w) = Some (wd_tree w', x) \<and> wd_faults w' = wd_faults w"
  by (auto simp: system_call_def Let_def split: if_splits option.splits)

lemma fs_read_success:
  assumes "fs_read p w = (Inr b, w')"
  shows "wd_tree w' = wd_tree w" and "node_at (wd_tree w) p = Some (File b)"
  using system_call_success [OF assms [unfolded fs_read_def]]
  by (auto split: option.splits node.splits)

lemma put_file_success:
  assumes "put_file p b t = Some (t', u)" and "p \<noteq> []"
  shows "node_at t' p = Some (File b)" and "q \<parallel> p \<Longrightarrow> node_at t' q = node_at t q"
  using assms by (auto simp: put_file_def node_at_graft_same node_at_graft_other parallel_commute
      split: if_splits)

lemma fs_write_success:
  assumes "fs_write p b w = (Inr u, w')" and "p \<noteq> []"
  shows "node_at (wd_tree w') p = Some (File b)"
    and "q \<parallel> p \<Longrightarrow> node_at (wd_tree w') q = node_at (wd_tree w) q"
  using system_call_success [OF assms(1) [unfolded fs_write_def]] assms(2)
  by (auto intro: put_file_success)

lemma fs_copy_success:
  assumes "fs_copy a p w = (Inr u, w')" and "p \<noteq> []"
  shows "\<exists>b. node_at (wd_tree w) a = Some (File b) \<and> node_at (wd_tree w') p = Some (File b)"
    and "q \<parallel> p \<Longrightarrow> node_at (wd_tree w') q = node_at (wd_tree w) q"
  using system_call_success [OF assms(1) [unfolded fs_copy_def]] assms(2)
  by (auto split: option.splits node.splits intro: put_file_success)

lemma fs_rename_success:
  assumes "fs_rename a b w = (Inr u, w')" and "a \<parallel> b"
  shows "node_at (wd_tree w') b = node_at (wd_tree w) a"
    and "q \<parallel> a \<Longrightarrow> q \<parallel> b \<Longrightarrow> node_at (wd_tree w') q = node_at (wd_tree w) q"
proof -
  obtain n where n: "node_at (wd_tree w) a = Some n" "is_dir (wd_tree w) (butlast b)"
    "wd_tree w' = graft b (Some n) (graft a None (wd_tree w))"
    using system_call_success [OF assms(1) [unfolded fs_rename_def]]
    by (auto split: option.splits if_splits)
  have "b \<noteq> []" using assms(2) by auto
  have "is_dir (graft a None (wd_tree w)) (butlast b)"
  proof (cases "strict_prefix (butlast b) a")
    case True
    with n(2) show ?thesis by (simp add: is_dir_graft_above)
  next
    case False
    moreover have "\<not> prefix a (butlast b)"
      using assms(2) strict_prefix_butlast [OF \<open>b \<noteq> []\<close>] unfolding parallel_def
      by (metis prefix_order.le_less_trans prefix_order.less_imp_le)
    ultimately have "a \<parallel> butlast b" by (auto simp: parallel_def strict_prefix_def)
    with n(2) show ?thesis by (simp add: is_dir_def node_at_graft_other)
  qed
  with n \<open>b \<noteq> []\<close> show "node_at (wd_tree w') b = node_at (wd_tree w) a"
    by (simp add: node_at_graft_same)
  show "node_at (wd_tree w') q = node_at (wd_tree w) q" if "q \<parallel> a" "q \<parallel> b"
    using that n(3) by (simp add: node_at_graft_other parallel_commute)
qed

lemma fs_create_dir_all_success:
  assumes "fs_create_dir_all p w = (Inr u, w')" and "is_dir (wd_tree w) []"
  shows "is_dir (wd_tree w') p"
    and "\<not> prefix q p \<Longrightarrow> node_at (wd_tree w') q = node_at (wd_tree w) q"
    and "is_dir (wd_tree w) q \<Longrightarrow> is_dir (wd_tree w') q"
  using system_call_success [OF assms(1) [unfolded fs_create_dir_all_def]] assms(2)
  by (auto intro: mkdirs_is_dir mkdirs_other mkdirs_keeps_dirs)

lemma is_dir_above: "is_dir t (p @ q) \<Longrightarrow> is_dir t p"
  by (cases q) (auto simp: is_dir_def dest: is_dir_prefix split: option.splits node.splits)

text \<open>Calls that leave a path alone, whether they succeed or not.\<close>

definition leaves :: "path \<Rightarrow> ('e, 'a) io \<Rightarrow> bool" where
  "leaves q m \<longleftrightarrow>
     (\<forall>w. is_dir (wd_tree w) [] \<longrightarrow> wd_faults (snd (m w)) = wd_faults w \<and>
        is_dir (wd_tree (snd (m w))) [] \<and>
        node_at (wd_tree (snd (m w))) q = node_at (wd_tree w) q)"

lemma confined_leaves: "confined d m \<Longrightarrow> q \<parallel> d \<Longrightarrow> leaves q m"
  by (auto simp: leaves_def confined_def kept_off_def)

lemma leaves_bind:
  assumes "leaves q m" and "\<And>x. leaves q (k x)"
  shows "leaves q (io_bind m k)"
  unfolding leaves_def
proof (intro allI impI)
  fix w :: world assume w: "is_dir (wd_tree w) []"
  obtain r w' where m: "m w = (r, w')" by (cases "m w")
  from assms(1) w have "wd_faults (snd (m w)) = wd_faults w \<and> is_dir (wd_tree (snd (m w))) [] \<and>
      node_at (wd_tree (snd (m w))) q = node_at (wd_tree w) q"
    unfolding leaves_def by simp
  with m have step: "wd_faults w' = wd_faults w" "is_dir (wd_tree w') []"
    "node_at (wd_tree w') q = node_at (wd_tree w) q"
    by simp_all
  from assms(2) step(2) have "wd_faults (snd (k x w')) = wd_faults w' \<and>
      is_dir (wd_tree (snd (k x w'))) [] \<and>
      node_at (wd_tree (snd (k x w'))) q = node_at (wd_tree w') q" for x
    unfolding leaves_def by simp
  with m step show "wd_faults (snd (io_bind m k w)) = wd_faults w \<and>
      is_dir (wd_tree (snd (io_bind m k w))) [] \<and>
      node_at (wd_tree (snd (io_bind m k w))) q = node_at (wd_tree w) q"
    by (cases r) (simp_all add: io_bind_def)
qed

lemma leaves_context: "leaves q m \<Longrightarrow> leaves q (io_context g m)"
  by (simp add: leaves_def io_context_def split: prod.split sum.split) (metis snd_conv)

lemma leaves_create_dir_all:
  assumes "\<not> prefix q p"
  shows "leaves q (fs_create_dir_all p)"
proof -
  have "\<not> prefix q (take k p)" for k
    using assms take_is_prefix [of k p] by (blast intro: prefix_order.trans)
  with assms show ?thesis
    unfolding leaves_def fs_create_dir_all_def system_call_def
    by (auto simp: Let_def mkdirs_other mkdirs_keeps_dirs split: option.split)
qed

lemma leaves_remove_dir_all:
  "q \<parallel> p \<Longrightarrow> leaves q (fs_remove_dir_all p)"
proof -
  assume q: "q \<parallel> p"
  then have "strict_prefix [] p" by (cases p) (auto simp: strict_prefix_def)
  with q show ?thesis
    unfolding leaves_def fs_remove_dir_all_def system_call_def
    by (auto simp: Let_def node_at_graft_other is_dir_graft_above parallel_commute
        split: option.split)
qed

lemma leaves_ret: "leaves q (io_ret x)"
  by (simp add: leaves_def io_ret_def)

lemma leaves_tree: "leaves q (io_tree f)"
  by (simp add: leaves_def io_tree_def)

lemma leaves_run:
  assumes "leaves q m" and "m w = (r, w')" and "is_dir (wd_tree w) []"
  shows "wd_faults w' = wd_faults w" and "is_dir (wd_tree w') []"
    and "node_at (wd_tree w') q = node_at (wd_tree w) q"
proof -
  from assms(1,3) have "wd_faults (snd (m w)) = wd_faults w \<and> is_dir (wd_tree (snd (m w))) [] \<and>
      node_at (wd_tree (snd (m w))) q = node_at (wd_tree w) q"
    unfolding leaves_def by simp
  with assms(2) show "wd_faults w' = wd_faults w" and "is_dir (wd_tree w') []"
    and "node_at (wd_tree w') q = node_at (wd_tree w) q"
    by simp_all
qed

lemma confined_run:
  assumes "confined d m" and "m w = (r, w')" and "is_dir (wd_tree w) []"
  shows "wd_faults w' = wd_faults w" and "kept_off d (wd_tree w) (wd_tree w')"
proof -
  from assms(1,3) have "wd_faults (snd (m w)) = wd_faults w \<and>
      kept_off d (wd_tree w) (wd_tree (snd (m w)))"
    unfolding confined_def by simp
  with assms(2) show "wd_faults w' = wd_faults w" and "kept_off d (wd_tree w) (wd_tree w')"
    by simp_all
qed

end
