(* ===== verification/Rule_Packs.thy ===== *)
theory Rule_Packs
  imports Paths Disk
begin

text \<open>
  \<open>src/rules.rs\<close>: the catalog of rule packs, and the installation of a downloaded pack into the
  rules directory (\<open>install_pack_archive_bytes\<close>), on the file system of \<open>Disk\<close>.

  The crates are the record \<open>pack_crates\<close>: \<open>zip\<close>, \<open>sha2\<close>, \<open>hex\<close>, \<open>semver\<close>, \<open>serde_yaml\<close> and
  \<open>serde_json\<close>; nothing is assumed of them. An archive is the list of the results of
  \<open>by_index\<close>; an entry has the sizes and the mode it declares and the bytes that reading it yields,
  which need not agree. The network, and the printing of the list, are not modelled.
\<close>

section \<open>Data\<close>

record catalog_engine =
  ce_sigma_rules_path :: string
  ce_yara_rules_path :: string
  ce_hashes_path :: string
  ce_ips_path :: string
  ce_domains_path :: string
  ce_paths_regex_path :: string

record catalog_pack =
  pk_id :: string
  pk_name :: string
  pk_os :: string
  pk_level :: string
  pk_version :: string
  pk_default :: bool
  pk_requires_rustinel :: string
  pk_status :: string
  pk_rule_count :: u32
  pk_ioc_count :: u32
  pk_artifact :: string
  pk_sha256 :: string
  pk_engine :: "catalog_engine option"

record catalog =
  ct_schema :: string
  ct_release_version :: string
  ct_packs :: "catalog_pack list"

record pack_manifest =
  mf_name :: string
  mf_id :: string
  mf_description :: string
  mf_os :: string
  mf_level :: string
  mf_pack_schema_version :: u32
  mf_requires_rustinel :: string
  mf_default :: bool
  mf_status :: string
  mf_extends :: "string list"

record rules_state =
  rs_pack_id :: string
  rs_version :: string
  rs_sha256 :: string
  rs_installed_at :: string

record install_outcome =
  io_pack_id :: string
  io_version :: string
  io_current_dir :: path

record zip_entry =
  ze_name :: string
  ze_mode :: "u32 option"
  ze_size :: u64
  ze_is_dir :: bool
  ze_bytes :: "u8 list"
  ze_read_fails :: bool

record ('req, 'ver) pack_crates =
  pc_zip_open :: "u8 list \<Rightarrow> zip_entry option list option"
  pc_sha256 :: "u8 list \<Rightarrow> u8 list"
  pc_hex_decode :: "string \<Rightarrow> u8 list option"
  pc_version_req :: "string \<Rightarrow> 'req option"
  pc_version :: "string \<Rightarrow> 'ver option"
  pc_req_matches :: "'req \<Rightarrow> 'ver \<Rightarrow> bool"
  pc_is_release :: "'ver \<Rightarrow> bool"
  pc_release_of :: "'ver \<Rightarrow> 'ver"
  pc_manifest :: "u8 list \<Rightarrow> pack_manifest option"
  pc_state_json :: "rules_state \<Rightarrow> u8 list option"

datatype rules_error = Bad_Catalog string | Bad_Pack string string | Unsafe_Path string
  | Unsafe_Engine_Path string string | Wrong_Suffix string string | Pack_Not_Found string
  | Artifact_Too_Large | Wrong_Os string | Bad_Requirement string | Bad_Version
  | Requires_Other_Version string | Bad_Sha256 string | Sha256_Mismatch | Bad_Zip | Bad_Zip_Entry
  | Zip_Symlink string | Zip_Size_Overflow | Zip_Too_Large | Zip_Read string
  | Bad_Manifest string | Missing_Directory path | Missing_File path | Bad_State | Io call

definition index_schema :: string where
  "index_schema = ''rustinel-rules/index@1''"

definition supported_pack_schema_versions :: "u32 list" where
  "supported_pack_schema_versions = [1, 2]"

definition max_artifact_bytes :: nat where
  "max_artifact_bytes = 50 * 1024 * 1024"

definition max_extracted_bytes :: u64 where
  "max_extracted_bytes = 250 * 1024 * 1024"

section \<open>The catalog\<close>

text \<open>The names of a path all of whose components are names.\<close>

fun normal_names :: "component list \<Rightarrow> string list option" where
  "normal_names [] = Some []"
| "normal_names (Normal w # cs) = map_option (Cons w) (normal_names cs)"
| "normal_names (_ # cs) = None"

definition safe_catalog_path :: "string \<Rightarrow> path option" where
  "safe_catalog_path value =
     (if value = [] \<or> CHR 0x5C \<in> set value then None
      else case normal_names (path_components value) of
             None \<Rightarrow> None
           | Some names \<Rightarrow> if names = [] then None else Some names)"

definition parse_sha256 :: "('r, 'v) pack_crates \<Rightarrow> string \<Rightarrow> u8 list option" where
  "parse_sha256 X value =
     (case pc_hex_decode X value of
        None \<Rightarrow> None
      | Some bytes \<Rightarrow> if length bytes \<noteq> 32 then None else Some bytes)"

definition engine_paths :: "catalog_engine \<Rightarrow> (string \<times> string list) list" where
  "engine_paths e =
     [(ce_sigma_rules_path e, [''sigma'']),
      (ce_yara_rules_path e, [''yara'']),
      (ce_hashes_path e, [''ioc'', ''hashes.txt'']),
      (ce_ips_path e, [''ioc'', ''ips.txt'']),
      (ce_domains_path e, [''ioc'', ''domains.txt'']),
      (ce_paths_regex_path e, [''ioc'', ''paths_regex.txt''])]"

fun validate_paths :: "string \<Rightarrow> (string \<times> string list) list \<Rightarrow> rules_error + unit" where
  "validate_paths i [] = Inr ()"
| "validate_paths i ((value, suf) # rest) =
     (case safe_catalog_path value of
        None \<Rightarrow> Inl (Unsafe_Engine_Path i value)
      | Some names \<Rightarrow>
          if length names < length suf \<or> drop (length names - length suf) names \<noteq> suf
          then Inl (Wrong_Suffix i value)
          else validate_paths i rest)"

definition validate_engine_paths :: "string \<Rightarrow> catalog_engine \<Rightarrow> rules_error + unit" where
  "validate_engine_paths i e = validate_paths i (engine_paths e)"

definition validate_catalog_pack ::
    "('r, 'v) pack_crates \<Rightarrow> catalog_pack \<Rightarrow> rules_error + unit" where
  "validate_catalog_pack X pack =
     (if str_trim (pk_id pack) = [] then Inl (Bad_Pack (pk_id pack) ''empty id'')
      else if str_trim (pk_name pack) = [] then Inl (Bad_Pack (pk_id pack) ''empty name'')
      else if pk_os pack \<notin> {''windows'', ''linux'', ''macos''}
      then Inl (Bad_Pack (pk_id pack) ''unsupported os'')
      else if str_trim (pk_artifact pack) = []
      then Inl (Bad_Pack (pk_id pack) ''empty artifact'')
      else if parse_sha256 X (pk_sha256 pack) = None
      then Inl (Bad_Pack (pk_id pack) ''invalid sha256'')
      else case pc_version_req X (pk_requires_rustinel pack) of
             None \<Rightarrow> Inl (Bad_Pack (pk_id pack) ''invalid requires_rustinel'')
           | Some _ \<Rightarrow>
               case pk_engine pack of
                 None \<Rightarrow> Inr ()
               | Some e \<Rightarrow> validate_engine_paths (pk_id pack) e)"

fun validate_packs :: "('r, 'v) pack_crates \<Rightarrow> catalog_pack list \<Rightarrow> rules_error + unit" where
  "validate_packs X [] = Inr ()"
| "validate_packs X (pack # packs) =
     (case validate_catalog_pack X pack of
        Inl e \<Rightarrow> Inl e
      | Inr _ \<Rightarrow> validate_packs X packs)"

definition validate_catalog :: "('r, 'v) pack_crates \<Rightarrow> catalog \<Rightarrow> rules_error + unit" where
  "validate_catalog X c =
     (if ct_schema c \<noteq> index_schema then Inl (Bad_Catalog ''schema'')
      else if str_trim (ct_release_version c) = [] then Inl (Bad_Catalog ''release_version'')
      else if ct_packs c = [] then Inl (Bad_Catalog ''no packs'')
      else validate_packs X (ct_packs c))"

definition catalog_from_slice ::
    "('r, 'v) pack_crates \<Rightarrow> (u8 list \<Rightarrow> catalog option) \<Rightarrow> u8 list \<Rightarrow> rules_error + catalog" where
  "catalog_from_slice X parse bytes =
     (case parse bytes of
        None \<Rightarrow> Inl (Bad_Catalog ''parse'')
      | Some c \<Rightarrow> (case validate_catalog X c of Inl e \<Rightarrow> Inl e | Inr _ \<Rightarrow> Inr c))"

definition compatible_packs :: "string \<Rightarrow> catalog \<Rightarrow> catalog_pack list" where
  "compatible_packs current_os c = filter (\<lambda>pack. pk_os pack = current_os) (ct_packs c)"

definition find_pack :: "string \<Rightarrow> catalog \<Rightarrow> catalog_pack option" where
  "find_pack i c = List.find (\<lambda>pack. pk_id pack = i) (ct_packs c)"

section \<open>What may be installed\<close>

definition rustinel_version_matches_requirement ::
    "('r, 'v) pack_crates \<Rightarrow> 'r \<Rightarrow> 'v \<Rightarrow> bool" where
  "rustinel_version_matches_requirement X req current =
     (if pc_req_matches X req current then True
      else if pc_is_release X current then False
      else pc_req_matches X req (pc_release_of X current))"

definition validate_pack_installable ::
    "('r, 'v) pack_crates \<Rightarrow> string \<Rightarrow> string \<Rightarrow> catalog_pack \<Rightarrow> rules_error + unit" where
  "validate_pack_installable X current_os pkg_version pack =
     (if pk_os pack \<noteq> current_os then Inl (Wrong_Os (pk_os pack))
      else case pc_version_req X (pk_requires_rustinel pack) of
             None \<Rightarrow> Inl (Bad_Requirement (pk_requires_rustinel pack))
           | Some req \<Rightarrow>
               case pc_version X (trim_start_matches_char CHR ''v'' pkg_version) of
                 None \<Rightarrow> Inl Bad_Version
               | Some current \<Rightarrow>
                   if rustinel_version_matches_requirement X req current then Inr ()
                   else Inl (Requires_Other_Version (pk_requires_rustinel pack)))"

definition verify_sha256 :: "('r, 'v) pack_crates \<Rightarrow> u8 list \<Rightarrow> string \<Rightarrow> rules_error + unit" where
  "verify_sha256 X bytes expected =
     (case parse_sha256 X expected of
        None \<Rightarrow> Inl (Bad_Sha256 expected)
      | Some digest \<Rightarrow> if digest \<noteq> pc_sha256 X bytes then Inl Sha256_Mismatch else Inr ())"

definition validate_manifest :: "pack_manifest \<Rightarrow> catalog_pack \<Rightarrow> rules_error + unit" where
  "validate_manifest m pack =
     (if mf_pack_schema_version m \<notin> set supported_pack_schema_versions
      then Inl (Bad_Manifest ''schema'')
      else if mf_id m \<noteq> pk_id pack then Inl (Bad_Manifest ''id'')
      else if mf_os m \<noteq> pk_os pack then Inl (Bad_Manifest ''os'')
      else if mf_requires_rustinel m \<noteq> pk_requires_rustinel pack
      then Inl (Bad_Manifest ''requires_rustinel'')
      else if str_trim (mf_name m) = [] \<or> str_trim (mf_description m) = [] \<or>
        str_trim (mf_level m) = [] \<or> str_trim (mf_status m) = []
      then Inl (Bad_Manifest ''empty'')
      else Inr ())"

section \<open>Unpacking\<close>

definition safe_zip_path :: "string \<Rightarrow> path option" where
  "safe_zip_path name =
     (if name = [] \<or> CHR 0x5C \<in> set name then None
      else case normal_names (path_components name) of
             None \<Rightarrow> None
           | Some names \<Rightarrow> if names = [] then None else Some names)"

definition is_symlink_entry :: "u32 option \<Rightarrow> bool" where
  "is_symlink_entry mode =
     (case mode of None \<Rightarrow> False | Some m \<Rightarrow> m AND 0xF000 = 0xA000)"

definition checked_add :: "u64 \<Rightarrow> u64 \<Rightarrow> u64 option" where
  "checked_add a b = (if a + b < a then None else Some (a + b))"

text \<open>One entry: a directory, or a file that is created and then copied into.\<close>

definition extract_entry :: "path \<Rightarrow> zip_entry \<Rightarrow> (rules_error, unit) io" where
  "extract_entry output_path e =
     (if ze_is_dir e then io_context Io (fs_create_dir_all output_path)
      else
        io_bind (io_context Io (fs_create_dir_all (butlast output_path))) (\<lambda>_.
        io_bind (io_context Io (fs_create output_path)) (\<lambda>_.
        io_bind (io_context Io (fs_write output_path (ze_bytes e))) (\<lambda>_.
        if ze_read_fails e then io_fail (Zip_Read (ze_name e)) else io_ret ()))))"

fun extract_entries :: "path \<Rightarrow> u64 \<Rightarrow> zip_entry option list \<Rightarrow> (rules_error, unit) io" where
  "extract_entries destination total_size [] = io_ret ()"
| "extract_entries destination total_size (None # es) = io_fail Bad_Zip_Entry"
| "extract_entries destination total_size (Some e # es) =
     (case safe_zip_path (ze_name e) of
        None \<Rightarrow> io_fail (Unsafe_Path (ze_name e))
      | Some relative \<Rightarrow>
          if is_symlink_entry (ze_mode e) then io_fail (Zip_Symlink (ze_name e))
          else case checked_add total_size (ze_size e) of
                 None \<Rightarrow> io_fail Zip_Size_Overflow
               | Some total_size' \<Rightarrow>
                   if max_extracted_bytes < total_size' then io_fail Zip_Too_Large
                   else io_bind (extract_entry (destination @ relative) e) (\<lambda>_.
                          extract_entries destination total_size' es))"

definition extract_zip_safely ::
    "('r, 'v) pack_crates \<Rightarrow> path \<Rightarrow> path \<Rightarrow> (rules_error, unit) io" where
  "extract_zip_safely X archive_path destination =
     io_bind (io_context Io (fs_read archive_path)) (\<lambda>bytes.
       case pc_zip_open X bytes of
         None \<Rightarrow> io_fail Bad_Zip
       | Some es \<Rightarrow> extract_entries destination 0 es)"

section \<open>The unpacked pack\<close>

definition rules_dirs :: "string list" where
  "rules_dirs = [''sigma'', ''yara'', ''ioc'']"

definition ioc_names :: "string list" where
  "ioc_names = [''hashes.txt'', ''ips.txt'', ''domains.txt'', ''paths_regex.txt'']"

definition locate_pack_rules_root :: "path \<Rightarrow> (rules_error, path) io" where
  "locate_pack_rules_root extracted_dir =
     io_bind (io_tree (\<lambda>t. List.find (\<lambda>root. \<forall>d \<in> set rules_dirs. is_dir t (root @ [d]))
       [extracted_dir, extracted_dir @ [''rules'']])) (\<lambda>found.
     case found of
       None \<Rightarrow> io_fail (Missing_Directory (extracted_dir @ [''sigma'']))
     | Some root \<Rightarrow> io_ret root)"

definition validate_extracted_pack ::
    "('r, 'v) pack_crates \<Rightarrow> path \<Rightarrow> catalog_pack \<Rightarrow> (rules_error, unit) io" where
  "validate_extracted_pack X extracted_dir pack =
     io_bind (io_context Io (fs_read (extracted_dir @ [''pack.yml'']))) (\<lambda>bytes.
     case pc_manifest X bytes of
       None \<Rightarrow> io_fail (Bad_Manifest ''parse'')
     | Some m \<Rightarrow>
         (case validate_manifest m pack of
            Inl e \<Rightarrow> io_fail e
          | Inr _ \<Rightarrow>
              io_bind (locate_pack_rules_root extracted_dir) (\<lambda>rules_root.
              io_bind (io_tree (\<lambda>t. List.find (\<lambda>d. \<not> is_dir t (rules_root @ [d])) rules_dirs)) (\<lambda>missing.
              case missing of
                Some d \<Rightarrow> io_fail (Missing_Directory (rules_root @ [d]))
              | None \<Rightarrow>
                  io_bind (io_tree (\<lambda>t. List.find
                    (\<lambda>f. \<not> is_file t (rules_root @ [''ioc'', f])) ioc_names)) (\<lambda>missing.
                  case missing of
                    Some f \<Rightarrow> io_fail (Missing_File (rules_root @ [''ioc'', f]))
                  | None \<Rightarrow> io_ret ())))))"

definition recreate_dir :: "path \<Rightarrow> (rules_error, unit) io" where
  "recreate_dir p =
     io_bind (io_tree (\<lambda>t. path_exists t p)) (\<lambda>present.
     io_bind (if present then io_context Io (fs_remove_dir_all p) else io_ret ()) (\<lambda>_.
     io_context Io (fs_create_dir_all p)))"

fun rename_dirs :: "path \<Rightarrow> path \<Rightarrow> string list \<Rightarrow> (rules_error, unit) io" where
  "rename_dirs rules_root next_current [] = io_ret ()"
| "rename_dirs rules_root next_current (d # ds) =
     io_bind (io_context Io (fs_rename (rules_root @ [d]) (next_current @ [d]))) (\<lambda>_.
       rename_dirs rules_root next_current ds)"

definition prepare_current_dir :: "path \<Rightarrow> path \<Rightarrow> (rules_error, unit) io" where
  "prepare_current_dir extracted_dir next_current =
     io_bind (locate_pack_rules_root extracted_dir) (\<lambda>rules_root.
     io_bind (recreate_dir next_current) (\<lambda>_.
     io_bind (io_context Io
       (fs_copy (extracted_dir @ [''pack.yml'']) (next_current @ [''pack.yml'']))) (\<lambda>_.
     rename_dirs rules_root next_current rules_dirs)))"

section \<open>Activation\<close>

definition current_of :: "path \<Rightarrow> path" where
  "current_of rules_dir = rules_dir @ [''current'']"

definition state_of :: "path \<Rightarrow> path" where
  "state_of rules_dir = rules_dir @ [''state.json'']"

definition previous_current :: "path \<Rightarrow> path" where
  "previous_current staging_dir = staging_dir @ [''previous-current'']"

definition previous_state :: "path \<Rightarrow> path" where
  "previous_state staging_dir = staging_dir @ [''previous-state.json'']"

definition rename_if_exists :: "path \<Rightarrow> path \<Rightarrow> (call, unit) io" where
  "rename_if_exists a b =
     io_bind (io_tree (\<lambda>t. path_exists t a)) (\<lambda>present.
       if present then fs_rename a b else io_ret ())"

definition restore_previous :: "path \<Rightarrow> path \<Rightarrow> path \<Rightarrow> path \<Rightarrow> (rules_error, unit) io" where
  "restore_previous current state prev_current prev_state =
     io_bind (io_ignore (rename_if_exists prev_current current)) (\<lambda>_.
     io_ignore (rename_if_exists prev_state state))"

definition io_on_error :: "(call, unit) io \<Rightarrow> (rules_error, unit) io \<Rightarrow> (rules_error, unit) io" where
  "io_on_error m undo w =
     (case m w of
        (Inr x, w') \<Rightarrow> (Inr x, w')
      | (Inl c, w') \<Rightarrow> (Inl (Io c), snd (undo w')))"

definition atomic_replace_active ::
    "path \<Rightarrow> path \<Rightarrow> path \<Rightarrow> path \<Rightarrow> (rules_error, unit) io" where
  "atomic_replace_active rules_dir staging_dir next_current next_state =
     (let current = current_of rules_dir; state = state_of rules_dir;
          prev_current = previous_current staging_dir; prev_state = previous_state staging_dir;
          restore = restore_previous current state prev_current prev_state in
      io_bind (io_ignore (fs_remove_dir_all prev_current)) (\<lambda>_.
      io_bind (io_ignore (fs_remove_file prev_state)) (\<lambda>_.
      io_bind (io_context Io (rename_if_exists current prev_current)) (\<lambda>_.
      io_bind (io_context Io (rename_if_exists state prev_state)) (\<lambda>_.
      io_bind (io_on_error (fs_rename next_current current) restore) (\<lambda>_.
      io_bind (io_on_error (fs_rename next_state state)
        (io_bind (io_ignore (fs_remove_dir_all current)) (\<lambda>_. restore))) (\<lambda>_.
      io_bind (io_ignore (fs_remove_dir_all prev_current)) (\<lambda>_.
      io_ignore (fs_remove_file prev_state)))))))))"

section \<open>Installation\<close>

text \<open>A guard that is dropped on every way out, which removes the work directory.\<close>

definition io_finally :: "('e, 'a) io \<Rightarrow> ('f, 'b) io \<Rightarrow> ('e, 'a) io" where
  "io_finally m c w = (let (r, w') = m w in (r, snd (c w')))"

definition io_check :: "('e + 'a) \<Rightarrow> ('e, 'a) io" where
  "io_check r w = (r, w)"

definition work_dir_of :: "path \<Rightarrow> string \<Rightarrow> path" where
  "work_dir_of staging_dir stamp = staging_dir @ [''install-'' @ stamp]"

text \<open>The part that runs with a work directory: staging the pack, then activating it.\<close>

definition stage_pack ::
    "('r, 'v) pack_crates \<Rightarrow> string \<Rightarrow> catalog_pack \<Rightarrow> path \<Rightarrow> u8 list \<Rightarrow> (rules_error, unit) io" where
  "stage_pack X now pack work_dir archive =
     (let archive_path = work_dir @ [''artifact.zip''];
          extracted_dir = work_dir @ [''extracted''];
          next_current = work_dir @ [''current-next''];
          state_next = work_dir @ [''state-next.json''] in
      io_bind (io_context Io (fs_write archive_path archive)) (\<lambda>_.
      io_bind (io_context Io (fs_create_dir_all extracted_dir)) (\<lambda>_.
      io_bind (extract_zip_safely X archive_path extracted_dir) (\<lambda>_.
      io_bind (validate_extracted_pack X extracted_dir pack) (\<lambda>_.
      io_bind (prepare_current_dir extracted_dir next_current) (\<lambda>_.
      case pc_state_json X \<lparr>rs_pack_id = pk_id pack, rs_version = pk_version pack,
             rs_sha256 = pk_sha256 pack, rs_installed_at = now\<rparr> of
        None \<Rightarrow> io_fail Bad_State
      | Some json \<Rightarrow> io_context Io (fs_write state_next json)))))))"

definition install_in_work_dir ::
    "('r, 'v) pack_crates \<Rightarrow> string \<Rightarrow> catalog_pack \<Rightarrow> path \<Rightarrow> path \<Rightarrow> path \<Rightarrow> u8 list \<Rightarrow>
     (rules_error, install_outcome) io" where
  "install_in_work_dir X now pack rules_dir staging_dir work_dir archive =
     io_bind (stage_pack X now pack work_dir archive) (\<lambda>_.
     io_bind (atomic_replace_active rules_dir staging_dir (work_dir @ [''current-next''])
       (work_dir @ [''state-next.json''])) (\<lambda>_.
     io_ret \<lparr>io_pack_id = pk_id pack, io_version = pk_version pack,
       io_current_dir = current_of rules_dir\<rparr>))"

definition install_pack_archive_bytes ::
    "('r, 'v) pack_crates \<Rightarrow> string \<Rightarrow> string \<Rightarrow> string \<Rightarrow> string \<Rightarrow> catalog \<Rightarrow> string \<Rightarrow> path \<Rightarrow>
     u8 list \<Rightarrow> (rules_error, install_outcome) io" where
  "install_pack_archive_bytes X current_os pkg_version stamp now c pack_id rules_dir archive =
     (if max_artifact_bytes < length archive then io_fail Artifact_Too_Large
      else case find_pack pack_id c of
        None \<Rightarrow> io_fail (Pack_Not_Found pack_id)
      | Some pack \<Rightarrow>
          let staging_dir = rules_dir @ [''staging''];
              work_dir = work_dir_of staging_dir stamp in
          io_bind (io_check (validate_pack_installable X current_os pkg_version pack)) (\<lambda>_.
          io_bind (io_check (verify_sha256 X archive (pk_sha256 pack))) (\<lambda>_.
          io_bind (io_context Io (fs_create_dir_all rules_dir)) (\<lambda>_.
          io_bind (io_context Io (fs_create_dir_all staging_dir)) (\<lambda>_.
          io_bind (recreate_dir work_dir) (\<lambda>_.
          io_finally
            (install_in_work_dir X now pack rules_dir staging_dir work_dir archive)
            (fs_remove_dir_all work_dir)))))))"

section \<open>Release URLs\<close>

record url =
  url_scheme :: string
  url_host :: "string option"
  url_path :: string

definition validate_release_url :: "url \<Rightarrow> bool" where
  "validate_release_url u \<longleftrightarrow>
     url_scheme u = ''https'' \<and> url_host u = Some ''github.com'' \<and> sublist ''/releases/'' (url_path u)"

text \<open>
  A download: the announced length is checked before the body is read, and the body is read at most
  one byte past the limit.
\<close>

definition fetch_url_bytes :: "nat \<Rightarrow> u64 option \<Rightarrow> u8 list \<Rightarrow> u8 list option" where
  "fetch_url_bytes max_bytes content_length body =
     (if (case content_length of None \<Rightarrow> False | Some n \<Rightarrow> max_bytes < unat n) then None
      else let bytes = take (max_bytes + 1) body in
           if max_bytes < length bytes then None else Some bytes)"

definition read_state :: "(u8 list \<Rightarrow> rules_state option) \<Rightarrow> path \<Rightarrow> world \<Rightarrow> rules_state option" where
  "read_state parse rules_dir w =
     (case fst (fs_read (state_of rules_dir) w) of Inl e \<Rightarrow> None | Inr bytes \<Rightarrow> parse bytes)"

text \<open>The rules directory that the configured Sigma directory belongs to.\<close>

definition infer_rules_dir :: "string \<Rightarrow> component list" where
  "infer_rules_dir sigma_rules_path =
     (let cs = path_components sigma_rules_path in
      if file_name_of cs = Some ''sigma'' then
        (case parent_of cs of
           None \<Rightarrow> path_components ''rules''
         | Some parent \<Rightarrow>
             if file_name_of parent = Some ''current'' then
               (case parent_of parent of None \<Rightarrow> parent | Some root \<Rightarrow> root)
             else parent)
      else path_components ''rules'')"

lemma fetch_url_bytes_exact:
  "fetch_url_bytes m l body = Some bytes \<Longrightarrow> bytes = body \<and> length body \<le> m"
  by (auto simp: fetch_url_bytes_def Let_def split: if_splits)

section \<open>Names inside an archive\<close>

lemma normal_names_Some: "normal_names cs = Some ws \<longleftrightarrow> cs = map Normal ws"
  by (induction cs arbitrary: ws rule: normal_names.induct) (auto simp: Cons_eq_map_conv)

lemma normal_path_names:
  assumes "normal_names (path_components s) = Some ws"
  shows "ws = path_pieces s" and "\<not> is_absolute s" and "''..'' \<notin> set ws"
proof -
  have c: "path_components s = map Normal ws" using assms by (simp add: normal_names_Some)
  then have rel: "\<not> is_absolute s" and "hd (split_by (\<lambda>c. c = CHR ''/'') s) \<noteq> ''.''"
    by (auto simp: path_components_def split: if_splits)
  with c have p: "map to_component (path_pieces s) = map Normal ws"
    by (simp add: path_components_def)
  show "\<not> is_absolute s" by (rule rel)
  have "\<forall>w \<in> set (path_pieces s). to_component w = Normal w"
  proof
    fix w assume "w \<in> set (path_pieces s)"
    then have "to_component w \<in> set (map Normal ws)" unfolding p [symmetric] by simp
    then show "to_component w = Normal w" by (auto simp: to_component_def split: if_splits)
  qed
  then have q: "map to_component (path_pieces s) = map Normal (path_pieces s)" by simp
  with p show ws: "ws = path_pieces s"
    by (metis component.inject inj_map_eq_map inj_on_def)
  with \<open>\<forall>w \<in> set (path_pieces s). to_component w = Normal w\<close> show "''..'' \<notin> set ws"
    by (auto simp: to_component_def)
qed

lemma safe_zip_path_Some:
  "safe_zip_path name = Some names \<Longrightarrow>
   names \<noteq> [] \<and> names = path_pieces name \<and> ''..'' \<notin> set names \<and> \<not> is_absolute name"
  using normal_path_names [of name] by (auto simp: safe_zip_path_def split: if_splits option.splits)

lemma confined_extract_entry:
  assumes "rel \<noteq> []"
  shows "confined d (extract_entry (d @ rel) e)"
proof -
  have "strict_prefix d (d @ rel)" "prefix d (butlast (d @ rel))"
    using assms by (auto simp: strict_prefix_def butlast_append)
  then show ?thesis
    using assms by (auto simp: extract_entry_def intro!: confined_intros)
qed

lemma confined_extract_entries: "confined d (extract_entries d n es)"
proof (induction es arbitrary: n)
  case Nil
  show ?case by (simp add: confined_intros)
next
  case (Cons e es)
  show ?case
  proof (cases e)
    case None
    then show ?thesis by (simp add: confined_intros)
  next
    case (Some x)
    show ?thesis
      using safe_zip_path_Some [of "ze_name x"] Cons.IH unfolding Some
      by (auto intro!: confined_intros confined_extract_entry split: option.split)
  qed
qed

lemma confined_extract: "confined d (extract_zip_safely X archive_path d)"
  unfolding extract_zip_safely_def
  by (auto intro!: confined_intros confined_extract_entries split: option.split)

section \<open>Replacing the active pack\<close>

text \<open>
  The calls that put the previous pack back, and the renaming that moves the previous state away:
  under \<open>undo_reliable\<close> none of them fails for an outside reason.
\<close>

definition undo_reliable :: "path \<Rightarrow> faults \<Rightarrow> bool" where
  "undo_reliable rules_dir f \<longleftrightarrow>
     (let current = current_of rules_dir; state = state_of rules_dir;
          prev_current = previous_current (rules_dir @ [''staging'']);
          prev_state = previous_state (rules_dir @ [''staging'']) in
      \<forall>n. \<not> fl_fails f n (Remove_Dir_All prev_current) \<and> \<not> fl_fails f n (Remove_File prev_state) \<and>
        \<not> fl_fails f n (Rename state prev_state) \<and> \<not> fl_fails f n (Remove_Dir_All current) \<and>
        \<not> fl_fails f n (Rename prev_current current) \<and> \<not> fl_fails f n (Rename prev_state state))"

lemma restore_steps:
  fixes x y :: "node option"
  assumes ap: "apart [C, S, PC, PS, NC, NS]" and dist: "distinct [C, S, PC, PS, NC, NS]"
    and ok: "\<And>n. \<not> fl_fails f n (Remove_Dir_All PC)" "\<And>n. \<not> fl_fails f n (Remove_File PS)"
      "\<And>n. \<not> fl_fails f n (Rename S PS)" "\<And>n. \<not> fl_fails f n (Remove_Dir_All C)"
      "\<And>n. \<not> fl_fails f n (Rename PC C)" "\<And>n. \<not> fl_fails f n (Rename PS S)"
  defines "ps \<equiv> [C, S, PC, PS, NC, NS]"
    and "restore \<equiv> restore_previous C S PC PS"
  shows "holds ps f
      (\<lambda>s. s C = None \<and> s S = None \<and> s PC = x \<and> s PS = y) restore
      (\<lambda>r s. s C = x \<and> s S = y)"
proof -
  have 1: "holds ps f (\<lambda>s. s C = None \<and> s S = None \<and> s PC = x \<and> s PS = y)
      (io_ignore (rename_if_exists PC C) :: (rules_error, unit) io)
      (\<lambda>r s. case r of Inl e \<Rightarrow> s C = x \<and> s S = y | Inr u \<Rightarrow> s C = x \<and> s S = None \<and> s PS = y)"
    unfolding rename_if_exists_def ps_def
    by (rule holds_ignore, rule holds_tree_bind)
      (use ap dist ok in \<open>auto intro!: holds_rename holds_ret\<close>)
  have 2: "holds ps f (\<lambda>s. s C = x \<and> s S = None \<and> s PS = y)
      (io_ignore (rename_if_exists PS S) :: (rules_error, unit) io) (\<lambda>r s. s C = x \<and> s S = y)"
    unfolding rename_if_exists_def ps_def
    by (rule holds_ignore, rule holds_tree_bind)
      (use ap dist ok in \<open>auto intro!: holds_rename holds_ret\<close>)
  show ?thesis
    unfolding restore_def restore_previous_def by (rule holds_bind [OF 1 2])
qed

lemma holds_on_error:
  assumes "holds ps f P m (\<lambda>r s. case r of Inl c \<Rightarrow> E s | Inr u \<Rightarrow> R (Inr u) s)"
    and "holds ps f E undo (\<lambda>r s. \<forall>c. R (Inl (Io c)) s)"
  shows "holds ps f P (io_on_error m undo) R"
  unfolding holds_def
proof (intro allI impI)
  fix w :: world and s assume w: "wd_faults w = f" "at_places ps (wd_tree w) s" "P s"
  obtain r w' where r: "m w = (r, w')" by (cases "m w")
  with assms(1) w have step: "wd_faults w' = f \<and>
      (\<exists>s'. at_places ps (wd_tree w') s' \<and> (case r of Inl c \<Rightarrow> E s' | Inr u \<Rightarrow> R (Inr u) s'))"
    unfolding holds_def by fastforce
  show "wd_faults (snd (io_on_error m undo w)) = f \<and>
    (\<exists>s'. at_places ps (wd_tree (snd (io_on_error m undo w))) s' \<and> R (fst (io_on_error m undo w)) s')"
  proof (cases r)
    case (Inl c)
    with step obtain s' where "wd_faults w' = f" "at_places ps (wd_tree w') s'" "E s'" by auto
    with assms(2) have "wd_faults (snd (undo w')) = f \<and>
        (\<exists>s''. at_places ps (wd_tree (snd (undo w'))) s'' \<and> R (Inl (Io c)) s'')"
      unfolding holds_def by blast
    with r Inl show ?thesis by (simp add: io_on_error_def)
  next
    case (Inr u)
    with r step show ?thesis by (auto simp: io_on_error_def)
  qed
qed

lemma no_node: "\<forall>b. v \<noteq> Some (File b) \<Longrightarrow> \<forall>cs. v \<noteq> Some (Dir cs) \<Longrightarrow> v = None"
  by (metis node.exhaust option.exhaust)

lemma replace_steps:
  fixes x y m :: "node option" and cs :: "(string \<times> node) list"
  assumes ap: "apart [C, S, PC, PS, NC, NS]" and dist: "distinct [C, S, PC, PS, NC, NS]"
    and ok: "\<And>n. \<not> fl_fails f n (Remove_Dir_All PC)" "\<And>n. \<not> fl_fails f n (Remove_File PS)"
      "\<And>n. \<not> fl_fails f n (Rename S PS)" "\<And>n. \<not> fl_fails f n (Remove_Dir_All C)"
      "\<And>n. \<not> fl_fails f n (Rename PC C)" "\<And>n. \<not> fl_fails f n (Rename PS S)"
  defines "ps \<equiv> [C, S, PC, PS, NC, NS]"
    and "restore \<equiv> restore_previous C S PC PS"
    and "R \<equiv> \<lambda>r s. case r of Inl (e :: rules_error) \<Rightarrow> s C = x \<and> s S = y
        | Inr (u :: unit) \<Rightarrow> s C = Some (Dir cs) \<and> s S = m \<and> m \<noteq> None"
  shows "holds ps f
    (\<lambda>s. s C = x \<and> s S = y \<and> (s NC = Some (Dir cs) \<and> s NS = m) \<and>
      (\<forall>b. s PC \<noteq> Some (File b)) \<and> (\<forall>cs. s PS \<noteq> Some (Dir cs)))
    (io_bind (io_ignore (fs_remove_dir_all PC)) (\<lambda>_.
      io_bind (io_ignore (fs_remove_file PS)) (\<lambda>_.
      io_bind (io_context Io (rename_if_exists C PC)) (\<lambda>_.
      io_bind (io_context Io (rename_if_exists S PS)) (\<lambda>_.
      io_bind (io_on_error (fs_rename NC C) restore) (\<lambda>_.
      io_bind (io_on_error (fs_rename NS S)
        (io_bind (io_ignore (fs_remove_dir_all C)) (\<lambda>_. restore))) (\<lambda>_.
      io_bind (io_ignore (fs_remove_dir_all PC)) (\<lambda>_.
      io_ignore (fs_remove_file PS))))))))) R"
proof -
  note restore = restore_steps [OF ap dist ok, folded ps_def restore_def]
  let ?new = "\<lambda>s. s NC = Some (Dir cs) \<and> s NS = m"
  let ?P1 = "\<lambda>s. s C = x \<and> s S = y \<and> ?new s \<and> s PC = None \<and> (\<forall>cs. s PS \<noteq> Some (Dir cs))"
  let ?P2 = "\<lambda>s. s C = x \<and> s S = y \<and> ?new s \<and> s PC = None \<and> s PS = None"
  let ?P3 = "\<lambda>s. s C = None \<and> s S = y \<and> ?new s \<and> s PC = x \<and> s PS = None"
  let ?P4 = "\<lambda>s. s C = None \<and> s S = None \<and> ?new s \<and> s PC = x \<and> s PS = y"
  let ?P5 = "\<lambda>s. s C = Some (Dir cs) \<and> s S = None \<and> s NS = m \<and> s PC = x \<and> s PS = y"
  let ?P6 = "\<lambda>s. s C = Some (Dir cs) \<and> s S = m \<and> m \<noteq> None"
  have 1: "holds ps f (\<lambda>s. s C = x \<and> s S = y \<and> ?new s \<and>
      (\<forall>b. s PC \<noteq> Some (File b)) \<and> (\<forall>cs. s PS \<noteq> Some (Dir cs)))
      (io_ignore (fs_remove_dir_all PC)) (\<lambda>r s. case r of Inl e \<Rightarrow> R (Inl e) s | Inr (u::unit) \<Rightarrow> ?P1 s)"
    unfolding ps_def
    by (rule holds_ignore, rule holds_remove_dir_all)
      (use ap dist ok in \<open>auto intro: no_node\<close>)
  have 2: "holds ps f ?P1 (io_ignore (fs_remove_file PS))
      (\<lambda>r s. case r of Inl e \<Rightarrow> R (Inl e) s | Inr (u::unit) \<Rightarrow> ?P2 s)"
    unfolding ps_def
    by (rule holds_ignore, rule holds_remove_file)
      (use ap dist ok in \<open>auto intro: no_node\<close>)
  have 3: "holds ps f ?P2 (io_context Io (rename_if_exists C PC))
      (\<lambda>r s. case r of Inl e \<Rightarrow> R (Inl e) s | Inr (u::unit) \<Rightarrow> ?P3 s)"
    unfolding ps_def rename_if_exists_def
    by (rule holds_context, rule holds_tree_bind)
      (use ap dist ok in \<open>auto simp: R_def intro!: holds_rename holds_ret\<close>)
  have 4: "holds ps f ?P3 (io_context Io (rename_if_exists S PS))
      (\<lambda>r s. case r of Inl e \<Rightarrow> R (Inl e) s | Inr (u::unit) \<Rightarrow> ?P4 s)"
    unfolding ps_def rename_if_exists_def
    by (rule holds_context, rule holds_tree_bind)
      (use ap dist ok in \<open>auto simp: R_def intro!: holds_rename holds_ret\<close>)
  have 5: "holds ps f ?P4 (io_on_error (fs_rename NC C) restore)
      (\<lambda>r s. case r of Inl e \<Rightarrow> R (Inl e) s | Inr (u::unit) \<Rightarrow> ?P5 s)"
  proof (rule holds_on_error [where E = ?P4])
    show "holds ps f ?P4 (fs_rename NC C) (\<lambda>r s. case r of Inl c \<Rightarrow> ?P4 s
        | Inr u \<Rightarrow> (case Inr u of Inl e \<Rightarrow> R (Inl e) s | Inr u \<Rightarrow> ?P5 s))"
      unfolding ps_def by (rule holds_rename) (use ap dist in auto)
    show "holds ps f ?P4 restore
        (\<lambda>r s. \<forall>c. case Inl (Io c) of Inl e \<Rightarrow> R (Inl e) s | Inr u \<Rightarrow> ?P5 s)"
      by (rule holds_post [OF holds_pre [OF restore]]) (simp_all add: R_def)
  qed
  have undo: "holds ps f ?P5 (io_bind (io_ignore (fs_remove_dir_all C)) (\<lambda>_. restore))
      (\<lambda>r s. s C = x \<and> s S = y)"
    unfolding ps_def
    by (rule holds_bind [OF _ restore [unfolded ps_def]], rule holds_ignore, rule holds_remove_dir_all)
      (use ap dist ok in auto)
  have 6: "holds ps f ?P5 (io_on_error (fs_rename NS S)
        (io_bind (io_ignore (fs_remove_dir_all C)) (\<lambda>_. restore)))
      (\<lambda>r s. case r of Inl e \<Rightarrow> R (Inl e) s | Inr (u::unit) \<Rightarrow> ?P6 s)"
  proof (rule holds_on_error [where E = ?P5])
    show "holds ps f ?P5 (fs_rename NS S) (\<lambda>r s. case r of Inl c \<Rightarrow> ?P5 s
        | Inr u \<Rightarrow> (case Inr u of Inl e \<Rightarrow> R (Inl e) s | Inr u \<Rightarrow> ?P6 s))"
      unfolding ps_def by (rule holds_rename) (use ap dist in auto)
    show "holds ps f ?P5 (io_bind (io_ignore (fs_remove_dir_all C)) (\<lambda>_. restore))
        (\<lambda>r s. \<forall>c. case Inl (Io c) of Inl e \<Rightarrow> R (Inl e) s | Inr u \<Rightarrow> ?P6 s)"
      by (rule holds_post [OF undo]) (simp add: R_def)
  qed
  have 7: "holds ps f ?P6 (io_ignore (fs_remove_dir_all PC))
      (\<lambda>r s. case r of Inl e \<Rightarrow> R (Inl e) s | Inr (u::unit) \<Rightarrow> ?P6 s)"
    unfolding ps_def
    by (rule holds_ignore, rule holds_remove_dir_all) (use ap dist in auto)
  have 8: "holds ps f ?P6 (io_ignore (fs_remove_file PS)) R"
    unfolding ps_def
    by (rule holds_ignore, rule holds_remove_file) (use ap dist in \<open>auto simp: R_def\<close>)
  show ?thesis
    by (rule holds_bind, rule 1, rule holds_bind, rule 2, rule holds_bind, rule 3,
        rule holds_bind, rule 4, rule holds_bind, rule 5, rule holds_bind, rule 6,
        rule holds_bind, rule 7, rule 8)
qed


definition install_places :: "path \<Rightarrow> string \<Rightarrow> path list" where
  "install_places rules_dir name =
     [current_of rules_dir, state_of rules_dir, previous_current (rules_dir @ [''staging'']),
      previous_state (rules_dir @ [''staging'']),
      rules_dir @ [''staging'', name, ''current-next''],
      rules_dir @ [''staging'', name, ''state-next.json'']]"

lemma install_places:
  assumes "name \<noteq> ''previous-current''" "name \<noteq> ''previous-state.json''"
  shows "apart (install_places rules_dir name)" and "distinct (install_places rules_dir name)"
  using assms by (simp_all add: install_places_def apart_def current_of_def state_of_def
      previous_current_def previous_state_def)

lemma atomic_replace:
  fixes x y m :: "node option" and cs :: "(string \<times> node) list"
  assumes name: "name \<noteq> ''previous-current''" "name \<noteq> ''previous-state.json''"
    and reliable: "undo_reliable rules_dir f"
  shows "holds (install_places rules_dir name) f
    (\<lambda>s. s (current_of rules_dir) = x \<and> s (state_of rules_dir) = y \<and>
      (s (rules_dir @ [''staging'', name, ''current-next'']) = Some (Dir cs) \<and>
       s (rules_dir @ [''staging'', name, ''state-next.json'']) = m) \<and>
      (\<forall>b. s (previous_current (rules_dir @ [''staging''])) \<noteq> Some (File b)) \<and>
      (\<forall>cs. s (previous_state (rules_dir @ [''staging''])) \<noteq> Some (Dir cs)))
    (atomic_replace_active rules_dir (rules_dir @ [''staging''])
      (rules_dir @ [''staging'', name, ''current-next''])
      (rules_dir @ [''staging'', name, ''state-next.json'']))
    (\<lambda>r s. case r of
       Inl (e :: rules_error) \<Rightarrow> s (current_of rules_dir) = x \<and> s (state_of rules_dir) = y
     | Inr (u :: unit) \<Rightarrow> s (current_of rules_dir) = Some (Dir cs) \<and>
         s (state_of rules_dir) = m \<and> m \<noteq> None)"
  unfolding atomic_replace_active_def Let_def install_places_def
  by (rule replace_steps)
    (use install_places [OF name, of rules_dir] reliable
      in \<open>simp_all add: install_places_def undo_reliable_def Let_def\<close>)


end
