(* ===== verification/Rule_Install.thy ===== *)
theory Rule_Install
  imports Rule_Packs
begin

text \<open>
  What an installation does to the rules directory.
  \<^item> Staging works below its own directory; when it succeeds, the staged pack is complete, its
    manifest is the one of the catalog entry, and the staged state is written.
  \<^item> \<open>install_all_or_nothing\<close>: the active pack and its state are either both the old or both
    the new ones, whichever call fails, as long as the calls that undo the replacement work. The
    proof is a Hoare logic of worlds (\<open>triple\<close>) around the one of places of \<open>Disk\<close>.
  \<^item> \<open>state_move_failure_loses_pack\<close>: the one call whose failure is not undone.
  \<^item> \<open>extraction_stays_inside\<close>: no archive writes off the directory it is unpacked to.
\<close>

section \<open>Staging\<close>

lemma rename_dirs_success:
  assumes "rename_dirs r nc ds w = (Inr u, w')" and "r \<parallel> nc" and "distinct ds"
  shows "(\<forall>d \<in> set ds. node_at (wd_tree w') (nc @ [d]) = node_at (wd_tree w) (r @ [d])) \<and>
    (\<forall>c. c \<notin> set ds \<longrightarrow> node_at (wd_tree w') (nc @ [c]) = node_at (wd_tree w) (nc @ [c]))"
  using assms
proof (induction ds arbitrary: w)
  case Nil
  then show ?case by (simp add: io_ret_def)
next
  case (Cons d ds)
  then obtain x w1 where 1: "fs_rename (r @ [d]) (nc @ [d]) w = (Inr x, w1)"
    and 2: "rename_dirs r nc ds w1 = (Inr u, w')"
    by (auto simp: io_success)
  have par: "r @ xs \<parallel> nc @ ys" for xs ys
    using Cons.prems(2) by (rule parallel_append)
  have off: "nc @ [c] \<parallel> nc @ [d] \<and> r @ [c] \<parallel> r @ [d]" if "c \<noteq> d" for c
    using that by simp
  have "nc @ xs \<parallel> r @ ys" for xs ys using par by (simp add: parallel_commute)
  with fs_rename_success [OF 1 par] par off
  have step: "node_at (wd_tree w1) (nc @ [d]) = node_at (wd_tree w) (r @ [d])"
    "\<And>c. c \<noteq> d \<Longrightarrow> node_at (wd_tree w1) (nc @ [c]) = node_at (wd_tree w) (nc @ [c])"
    "\<And>c. c \<noteq> d \<Longrightarrow> node_at (wd_tree w1) (r @ [c]) = node_at (wd_tree w) (r @ [c])"
    by blast+
  have "c \<noteq> d" if "c \<in> set ds" for c using that Cons.prems(3) by auto
  with Cons.IH [OF 2 Cons.prems(2)] Cons.prems(3) step(3)
  have "\<forall>c \<in> set ds. node_at (wd_tree w') (nc @ [c]) = node_at (wd_tree w) (r @ [c])" by simp
  with Cons.IH [OF 2 Cons.prems(2)] Cons.prems(3) step(1,2) show ?case by auto
qed

lemma locate_success:
  assumes "locate_pack_rules_root ex w = (Inr root, w')"
  shows "w' = w" and "root = ex \<or> root = ex @ [''rules'']"
    and "\<forall>d \<in> set rules_dirs. is_dir (wd_tree w) (root @ [d])"
  using assms by (auto simp: locate_pack_rules_root_def io_success split: option.splits if_splits)

definition rules_root :: "node \<Rightarrow> path \<Rightarrow> path option" where
  "rules_root t ex = List.find (\<lambda>root. \<forall>d \<in> set rules_dirs. is_dir t (root @ [d])) [ex, ex @ [''rules'']]"

lemma locate_root: "locate_pack_rules_root ex w = (Inr root, w') \<Longrightarrow> rules_root (wd_tree w) ex = Some root"
  unfolding locate_pack_rules_root_def rules_root_def
  by (auto simp: io_success split: option.splits)

lemma leaves_recreate_dir: "q \<parallel> p \<Longrightarrow> leaves q (recreate_dir p)"
  unfolding recreate_dir_def
  by (auto simp: parallel_def intro!: leaves_bind leaves_tree leaves_context leaves_create_dir_all
      leaves_ret leaves_remove_dir_all)

lemma recreate_dir_success:
  assumes "recreate_dir p w = (Inr u, w')" and "is_dir (wd_tree w) []" and "p \<noteq> []"
  shows "is_dir (wd_tree w') p" and "is_dir (wd_tree w') []"
proof -
  obtain w1 where 1: "(if path_exists (wd_tree w) p then io_context Io (fs_remove_dir_all p)
      else io_ret ()) w = (Inr (), w1)" and 2: "fs_create_dir_all p w1 = (Inr u, w')"
    using assms(1) by (auto simp: recreate_dir_def io_success)
  obtain q where q: "q \<parallel> p"
  proof (cases "hd p = []")
    case True
    with assms(3) have "[''a''] \<parallel> p" by (cases p) auto
    then show ?thesis by (rule that)
  next
    case False
    with assms(3) have "[[]] \<parallel> p" by (cases p) auto
    then show ?thesis by (rule that)
  qed
  then have "leaves q (if path_exists (wd_tree w) p then io_context Io (fs_remove_dir_all p)
      else io_ret ())"
    by (auto intro: leaves_context leaves_ret leaves_remove_dir_all)
  from leaves_run(2) [OF this 1 assms(2)] have "is_dir (wd_tree w1) []" .
  then show "is_dir (wd_tree w') p" and "is_dir (wd_tree w') []"
    using fs_create_dir_all_success [OF 2] by auto
qed

text \<open>A pack directory as it is put in place: its manifest, the three rule directories, the indicator files.\<close>

definition pack_in_place :: "('r, 'v) pack_crates \<Rightarrow> catalog_pack \<Rightarrow> node \<Rightarrow> path \<Rightarrow> bool" where
  "pack_in_place X pack t p \<longleftrightarrow>
     (case node_at t (p @ [''pack.yml'']) of
        Some (File b) \<Rightarrow> (case pc_manifest X b of None \<Rightarrow> False | Some m \<Rightarrow> validate_manifest m pack = Inr ())
      | _ \<Rightarrow> False) \<and>
     (\<forall>d \<in> set rules_dirs. is_dir t (p @ [d])) \<and>
     (\<forall>f \<in> set ioc_names. is_file t (p @ [''ioc'', f]))"

lemma validate_success:
  assumes "validate_extracted_pack X ex pack w = (Inr u, w')"
  shows "wd_tree w' = wd_tree w" and "wd_faults w' = wd_faults w"
    and "\<exists>b m. node_at (wd_tree w) (ex @ [''pack.yml'']) = Some (File b) \<and> pc_manifest X b = Some m \<and>
      validate_manifest m pack = Inr ()"
    and "\<exists>root. rules_root (wd_tree w) ex = Some root \<and>
      (\<forall>f \<in> set ioc_names. is_file (wd_tree w) (root @ [''ioc'', f]))"
proof -
  obtain b m w1 root w2 where 1: "fs_read (ex @ [''pack.yml'']) w = (Inr b, w1)"
    and m: "pc_manifest X b = Some m" "validate_manifest m pack = Inr ()"
    and 2: "locate_pack_rules_root ex w1 = (Inr root, w2)" and w': "w' = w2"
    and 3: "List.find (\<lambda>f. \<not> is_file (wd_tree w2) (root @ [''ioc'', f])) ioc_names = None"
    using assms by (auto simp: validate_extracted_pack_def io_success)
  have "w' = w1" using locate_success(1) [OF 2] w' by simp
  then show "wd_tree w' = wd_tree w" and "wd_faults w' = wd_faults w"
    using fs_read_success [OF 1] system_call_success [OF 1 [unfolded fs_read_def]] by simp_all
  show "\<exists>b m. node_at (wd_tree w) (ex @ [''pack.yml'']) = Some (File b) \<and> pc_manifest X b = Some m \<and>
      validate_manifest m pack = Inr ()"
    using m fs_read_success [OF 1] by blast
  show "\<exists>root. rules_root (wd_tree w) ex = Some root \<and>
      (\<forall>f \<in> set ioc_names. is_file (wd_tree w) (root @ [''ioc'', f]))"
    using locate_root [OF 2] locate_success(1) [OF 2] 3 fs_read_success(1) [OF 1]
    by (auto simp: find_None_iff)
qed

lemma prepare_success:
  assumes "prepare_current_dir ex nc w = (Inr u, w')" and "is_dir (wd_tree w) []"
    and "ex \<parallel> nc"
  shows "\<exists>b. node_at (wd_tree w) (ex @ [''pack.yml'']) = Some (File b) \<and>
      node_at (wd_tree w') (nc @ [''pack.yml'']) = Some (File b)"
    and "\<forall>d \<in> set rules_dirs. is_dir (wd_tree w') (nc @ [d])"
    and "rules_root (wd_tree w) ex = Some r \<Longrightarrow> d \<in> set rules_dirs \<Longrightarrow>
      node_at (wd_tree w') (nc @ [d]) = node_at (wd_tree w) (r @ [d])"
proof -
  obtain root w1 w2 where root: "locate_pack_rules_root ex w = (Inr root, w)"
    and 1: "recreate_dir nc w = (Inr (), w1)"
    and 2: "fs_copy (ex @ [''pack.yml'']) (nc @ [''pack.yml'']) w1 = (Inr (), w2)"
    and 3: "rename_dirs root nc rules_dirs w2 = (Inr (), w')"
    using assms(1) locate_success(1) by (fastforce simp: prepare_current_dir_def io_success)
  note loc = locate_success(2,3) [OF root]
  have rpar: "root \<parallel> nc" using loc(1) assms(3) parallel_append [of ex nc _ "[]"] by auto
  have par: "ex @ xs \<parallel> nc" "root @ xs \<parallel> nc" "root @ xs \<parallel> nc @ ys" for xs ys
    using assms(3) rpar parallel_append [of _ _ _ "[]"] parallel_append by auto
  have d: "distinct rules_dirs" "''pack.yml'' \<notin> set rules_dirs" by (auto simp: rules_dirs_def)
  note moved = rename_dirs_success [OF 3 rpar d(1)]
  have keep1: "node_at (wd_tree w1) q = node_at (wd_tree w) q" if "q \<parallel> nc" for q
    using leaves_run(3) [OF leaves_recreate_dir [OF that] 1 assms(2)] .
  obtain b where b: "node_at (wd_tree w1) (ex @ [''pack.yml'']) = Some (File b)"
    "node_at (wd_tree w2) (nc @ [''pack.yml'']) = Some (File b)"
    using fs_copy_success(1) [OF 2] by auto
  have keep2: "node_at (wd_tree w2) (root @ xs) = node_at (wd_tree w1) (root @ xs)" for xs
    using fs_copy_success(2) [OF 2] par(3) by auto
  show "\<exists>b. node_at (wd_tree w) (ex @ [''pack.yml'']) = Some (File b) \<and>
      node_at (wd_tree w') (nc @ [''pack.yml'']) = Some (File b)"
    using b moved d(2) keep1 [OF par(1)] by auto
  show "\<forall>d \<in> set rules_dirs. is_dir (wd_tree w') (nc @ [d])"
    using moved keep2 keep1 [OF par(2)] loc(2) by (auto simp: is_dir_def)
  show "node_at (wd_tree w') (nc @ [d]) = node_at (wd_tree w) (r @ [d])"
    if "rules_root (wd_tree w) ex = Some r" "d \<in> set rules_dirs"
    using moved keep2 keep1 [OF par(2)] locate_root [OF root] that by auto
qed

lemma confined_recreate_dir:
  "strict_prefix d p \<Longrightarrow> confined d (recreate_dir p)"
  unfolding recreate_dir_def
  by (auto intro!: confined_intros dest: prefix_order.less_imp_le)

lemma confined_rename_dirs:
  "prefix d r \<Longrightarrow> prefix d nc \<Longrightarrow> confined d (rename_dirs r nc ds)"
proof (induction ds)
  case (Cons x ds)
  have "strict_prefix d (r @ [x])" "strict_prefix d (nc @ [x])"
    using Cons.prems by (auto simp: strict_prefix_def prefix_def)
  with Cons show ?case by (auto intro!: confined_intros)
qed (simp add: confined_intros)

lemma confined_stage_pack: "confined d (stage_pack X now pack d archive)"
proof -
  have sp: "strict_prefix d (d @ c # q)" for c q by (simp add: strict_prefix_def)
  have ex: "confined d (extract_zip_safely X a (d @ [''extracted'']))" for a
    by (rule confined_mono [OF confined_extract]) simp
  have val: "confined d (validate_extracted_pack X e pack)" for e
    unfolding validate_extracted_pack_def locate_pack_rules_root_def
    by (auto intro!: confined_intros split: option.split sum.split)
  have prep: "confined d (prepare_current_dir (d @ [''extracted'']) (d @ [''current-next'']))"
    unfolding prepare_current_dir_def
  proof (rule confined_bind_run)
    show "confined d (locate_pack_rules_root (d @ [''extracted'']))"
      unfolding locate_pack_rules_root_def by (auto intro!: confined_intros split: option.split)
    fix root w w' assume "locate_pack_rules_root (d @ [''extracted'']) w = (Inr root, w')"
    then have "prefix d root" using locate_success(2) by fastforce
    then show "confined d (io_bind (recreate_dir (d @ [''current-next''])) (\<lambda>_.
        io_bind (io_context Io (fs_copy ((d @ [''extracted'']) @ [''pack.yml''])
          ((d @ [''current-next'']) @ [''pack.yml'']))) (\<lambda>_.
        rename_dirs root (d @ [''current-next'']) rules_dirs)))"
      by (auto intro!: confined_bind confined_context confined_recreate_dir confined_copy
          confined_rename_dirs simp: strict_prefix_def)
  qed
  show ?thesis
    unfolding stage_pack_def Let_def
    by (auto intro!: confined_intros ex val prep sp split: option.split)
qed

lemma stage_success:
  assumes "stage_pack X now pack d archive w = (Inr u, w')" and "is_dir (wd_tree w) []"
  shows "\<exists>json. pc_state_json X \<lparr>rs_pack_id = pk_id pack, rs_version = pk_version pack,
        rs_sha256 = pk_sha256 pack, rs_installed_at = now\<rparr> = Some json \<and>
      node_at (wd_tree w') (d @ [''state-next.json'']) = Some (File json)"
    and "pack_in_place X pack (wd_tree w') (d @ [''current-next''])"
proof -
  let ?ex = "d @ [''extracted'']" let ?nc = "d @ [''current-next'']"
  obtain w1 w2 w3 w4 w5 json where 1: "fs_write (d @ [''artifact.zip'']) archive w = (Inr (), w1)"
    and 2: "fs_create_dir_all ?ex w1 = (Inr (), w2)"
    and 3: "extract_zip_safely X (d @ [''artifact.zip'']) ?ex w2 = (Inr (), w3)"
    and 4: "validate_extracted_pack X ?ex pack w3 = (Inr (), w4)"
    and 5: "prepare_current_dir ?ex ?nc w4 = (Inr (), w5)"
    and json: "pc_state_json X \<lparr>rs_pack_id = pk_id pack, rs_version = pk_version pack,
        rs_sha256 = pk_sha256 pack, rs_installed_at = now\<rparr> = Some json"
    and 6: "fs_write (d @ [''state-next.json'']) json w5 = (Inr (), w')"
    using assms(1) by (auto simp: stage_pack_def Let_def io_success)
  have root: "is_dir (wd_tree w4) []"
  proof -
    have "is_dir (wd_tree w1) []"
      using confined_run(2) [OF confined_write 1 assms(2), of d] assms(2)
      by (auto intro: kept_off_root simp: strict_prefix_def)
    then have "is_dir (wd_tree w2) []" using fs_create_dir_all_success(3) [OF 2] by auto
    then have "is_dir (wd_tree w3) []"
      using confined_run(2) [OF confined_extract 3] by (auto intro: kept_off_root)
    then show ?thesis using validate_success(1) [OF 4] by simp
  qed
  have written: "node_at (wd_tree w') (d @ [''state-next.json'']) = Some (File json)"
    "node_at (wd_tree w') (?nc @ q) = node_at (wd_tree w5) (?nc @ q)" for q
    using fs_write_success [OF 6] by simp_all
  from json written(1) show "\<exists>json. pc_state_json X \<lparr>rs_pack_id = pk_id pack,
        rs_version = pk_version pack, rs_sha256 = pk_sha256 pack, rs_installed_at = now\<rparr> = Some json \<and>
      node_at (wd_tree w') (d @ [''state-next.json'']) = Some (File json)"
    by blast
  have "?ex \<parallel> ?nc" by simp
  note prepared = prepare_success [OF 5 root this]
  obtain r where r: "rules_root (wd_tree w4) ?ex = Some r"
    "\<forall>f \<in> set ioc_names. is_file (wd_tree w4) (r @ [''ioc'', f])"
    using validate_success(1,4) [OF 4] by auto
  have "node_at (wd_tree w5) (?nc @ [''ioc'', f]) = node_at (wd_tree w4) (r @ [''ioc'', f])" for f
    using prepared(3) [OF r(1), of "''ioc''"] node_at_append [of _ _ "[f]"]
    by (simp add: rules_dirs_def) (metis append_Cons append_Nil append_assoc)
  with r(2) have "\<forall>f \<in> set ioc_names. is_file (wd_tree w5) (?nc @ [''ioc'', f])"
    by (simp add: is_file_def)
  with prepared(1,2) validate_success(1,3) [OF 4] written(2)
  show "pack_in_place X pack (wd_tree w') ?nc"
    by (auto simp: pack_in_place_def is_dir_def is_file_def)
qed

section \<open>Installing\<close>

definition triple :: "(world \<Rightarrow> bool) \<Rightarrow> ('e, 'a) io \<Rightarrow> ('e + 'a \<Rightarrow> world \<Rightarrow> bool) \<Rightarrow> bool" where
  "triple P m R \<longleftrightarrow> (\<forall>w. P w \<longrightarrow> R (fst (m w)) (snd (m w)))"

lemma triple_bind:
  assumes "triple P m (\<lambda>r w. case r of Inl e \<Rightarrow> R (Inl e) w | Inr x \<Rightarrow> M x w)"
    and "\<And>x. triple (M x) (k x) R"
  shows "triple P (io_bind m k) R"
  unfolding triple_def
proof (intro allI impI)
  fix w assume "P w"
  then have "case fst (m w) of Inl e \<Rightarrow> R (Inl e) (snd (m w)) | Inr x \<Rightarrow> M x (snd (m w))"
    using assms(1) by (simp add: triple_def)
  then show "R (fst (io_bind m k w)) (snd (io_bind m k w))"
    using assms(2) by (cases "m w"; cases "fst (m w)") (auto simp: io_bind_def triple_def)
qed

lemma triple_finally:
  assumes "triple P m R'" and "\<And>r. triple (R' r) c (\<lambda>_ w. R r w)"
  shows "triple P (io_finally m c) R"
  using assms by (simp add: triple_def io_finally_def split: prod.split) (metis fst_conv snd_conv)

lemma triple_context:
  "triple P m (\<lambda>r w. case r of Inl e \<Rightarrow> R (Inl (g e)) w | Inr x \<Rightarrow> R (Inr x) w) \<Longrightarrow>
   triple P (io_context g m) R"
  unfolding triple_def io_context_def by (fastforce split: prod.splits sum.splits)

definition same_at :: "path list \<Rightarrow> world \<Rightarrow> world \<Rightarrow> bool" where
  "same_at qs w0 w \<longleftrightarrow> wd_faults w = wd_faults w0 \<and> is_dir (wd_tree w) [] \<and>
     (\<forall>q \<in> set qs. node_at (wd_tree w) q = node_at (wd_tree w0) q)"

lemma same_at_run:
  assumes "\<forall>q \<in> set qs. leaves q m" and "qs \<noteq> []" and "same_at qs w0 w" and "m w = (r, w')"
  shows "same_at qs w0 w'"
proof -
  have root: "is_dir (wd_tree w) []" using assms(3) by (simp add: same_at_def)
  have "wd_faults w' = wd_faults w \<and> is_dir (wd_tree w') [] \<and>
      node_at (wd_tree w') q = node_at (wd_tree w) q" if "q \<in> set qs" for q
    using leaves_run [where m = m and q = q and w = w and w' = w' and r = r] assms(1,4) root that by simp
  moreover obtain q where "q \<in> set qs" using assms(2) by (cases qs) auto
  ultimately show ?thesis using assms(3) by (auto simp: same_at_def)
qed

abbreviation kept_places :: "path \<Rightarrow> path list" where
  "kept_places rules_dir \<equiv> [current_of rules_dir, state_of rules_dir,
     previous_current (rules_dir @ [''staging'']), previous_state (rules_dir @ [''staging''])]"

definition install_result ::
    "('r, 'v) pack_crates \<Rightarrow> string \<Rightarrow> catalog_pack \<Rightarrow> path \<Rightarrow> world \<Rightarrow> rules_error + install_outcome \<Rightarrow> world \<Rightarrow> bool" where
  "install_result X now pack rules_dir w0 r w \<longleftrightarrow>
     (case r of
        Inl e \<Rightarrow> node_at (wd_tree w) (current_of rules_dir) = node_at (wd_tree w0) (current_of rules_dir) \<and>
          node_at (wd_tree w) (state_of rules_dir) = node_at (wd_tree w0) (state_of rules_dir)
      | Inr out \<Rightarrow> pack_in_place X pack (wd_tree w) (current_of rules_dir) \<and>
          (\<exists>json. pc_state_json X \<lparr>rs_pack_id = pk_id pack, rs_version = pk_version pack,
             rs_sha256 = pk_sha256 pack, rs_installed_at = now\<rparr> = Some json \<and>
             node_at (wd_tree w) (state_of rules_dir) = Some (File json)))"

lemma same_at_result: "same_at (kept_places rules_dir) w0 w \<Longrightarrow> install_result X now pack rules_dir w0 (Inl e) w"
  by (simp add: install_result_def same_at_def)

lemma pack_in_place_cong:
  "node_at t p = node_at t' p' \<Longrightarrow> pack_in_place X pack t p = pack_in_place X pack t' p'"
  by (simp add: pack_in_place_def is_dir_def is_file_def node_at_append)

lemma install_in_work_dir_result:
  fixes rules_dir :: path
  defines "st \<equiv> rules_dir @ [''staging'']"
  assumes reliable: "undo_reliable rules_dir (wd_faults w0)"
    and left: "\<not> is_file (wd_tree w0) (previous_current st)" "\<not> is_dir (wd_tree w0) (previous_state st)"
  shows "triple (\<lambda>w. same_at (kept_places rules_dir) w0 w \<and> is_dir (wd_tree w) (work_dir_of st stamp))
    (install_in_work_dir X now pack rules_dir st (work_dir_of st stamp) archive)
    (\<lambda>r w. is_dir (wd_tree w) [] \<and> install_result X now pack rules_dir w0 r w)"
  unfolding triple_def
proof (intro allI impI)
  let ?wd = "work_dir_of st stamp" let ?name = "''install-'' @ stamp"
  fix w assume w: "same_at (kept_places rules_dir) w0 w \<and> is_dir (wd_tree w) ?wd"
  then have root: "is_dir (wd_tree w) []" by (simp add: same_at_def)
  obtain r w1 where stage: "stage_pack X now pack ?wd archive w = (r, w1)"
    by (cases "stage_pack X now pack ?wd archive w")
  have name: "?name \<noteq> ''previous-current''" "?name \<noteq> ''previous-state.json''" by simp_all
  have wd: "?wd = rules_dir @ [''staging'', ?name]" by (simp add: work_dir_of_def st_def)
  have off: "\<forall>q \<in> set (kept_places rules_dir). q \<parallel> ?wd"
    by (simp add: wd current_of_def state_of_def previous_current_def previous_state_def)
  have kept: "kept_off ?wd (wd_tree w) (wd_tree w1)"
    using confined_run(2) [OF confined_stage_pack stage root] .
  have lv: "\<forall>q \<in> set (kept_places rules_dir). leaves q (stage_pack X now pack ?wd archive)"
    using off confined_leaves [OF confined_stage_pack [of ?wd X now pack archive]] by blast
  have same: "same_at (kept_places rules_dir) w0 w1"
    by (rule same_at_run [OF lv, where w = w and r = r]) (use w stage in simp_all)
  have dirs: "is_dir (wd_tree w1) (rules_dir @ [''staging'', ?name])"
    unfolding wd [symmetric] using kept w by (simp add: kept_off_def)
  have up: "is_dir (wd_tree w1) rules_dir" "is_dir (wd_tree w1) (rules_dir @ [''staging''])"
    using is_dir_above [of _ rules_dir] is_dir_above [of _ "rules_dir @ [''staging'']" "[?name]"] dirs by auto
  let ?run = "install_in_work_dir X now pack rules_dir st ?wd archive w"
  show "is_dir (wd_tree (snd ?run)) [] \<and>
      install_result X now pack rules_dir w0 (fst ?run) (snd ?run)"
  proof (cases r)
    case (Inl e)
    then show ?thesis
      using stage same same_at_result [OF same]
      by (simp add: install_in_work_dir_def io_bind_def same_at_def)
  next
    case (Inr u)
    note staged = stage_success [OF stage [unfolded Inr] root]
    obtain json where json: "pc_state_json X \<lparr>rs_pack_id = pk_id pack, rs_version = pk_version pack,
        rs_sha256 = pk_sha256 pack, rs_installed_at = now\<rparr> = Some json"
      "node_at (wd_tree w1) (?wd @ [''state-next.json'']) = Some (File json)"
      using staged(1) by blast
    have "is_dir (wd_tree w1) (?wd @ [''current-next''])"
      using staged(2) is_dir_above [of "wd_tree w1" "?wd @ [''current-next'']" "[''sigma'']"]
      by (auto simp: pack_in_place_def rules_dirs_def)
    then obtain cs where cs: "node_at (wd_tree w1) (?wd @ [''current-next'']) = Some (Dir cs)"
      by (auto simp: is_dir_def split: option.splits node.splits)
    let ?places = "install_places rules_dir ?name"
    have at: "at_places ?places (wd_tree w1) (node_at (wd_tree w1))"
      using same up dirs by (auto simp: at_places_def install_places_def same_at_def current_of_def
          state_of_def previous_current_def previous_state_def butlast_append)
    obtain r2 w2 where act: "atomic_replace_active rules_dir st (?wd @ [''current-next''])
        (?wd @ [''state-next.json'']) w1 = (r2, w2)"
      by (cases "atomic_replace_active rules_dir st (?wd @ [''current-next''])
        (?wd @ [''state-next.json'']) w1")
    have "undo_reliable rules_dir (wd_faults w1)" using reliable same by (simp add: same_at_def)
    note holds = atomic_replace [OF name this, of "node_at (wd_tree w1) (current_of rules_dir)"
        "node_at (wd_tree w1) (state_of rules_dir)" cs "Some (File json)"]
    have "node_at (wd_tree w1) (previous_current st) = node_at (wd_tree w0) (previous_current st)"
      "node_at (wd_tree w1) (previous_state st) = node_at (wd_tree w0) (previous_state st)"
      using same by (simp_all add: same_at_def st_def)
    then have old: "\<forall>b. node_at (wd_tree w1) (previous_current st) \<noteq> Some (File b)"
      "\<forall>cs. node_at (wd_tree w1) (previous_state st) \<noteq> Some (Dir cs)"
      using left by (auto simp: is_file_def is_dir_def)
    have new: "node_at (wd_tree w1) (rules_dir @ [''staging'', ?name, ''current-next'']) = Some (Dir cs)"
      "node_at (wd_tree w1) (rules_dir @ [''staging'', ?name, ''state-next.json'']) = Some (File json)"
      using cs json(2) unfolding wd by simp_all
    have "\<exists>s'. at_places ?places (wd_tree w2) s' \<and>
      (case r2 of
         Inl e \<Rightarrow> s' (current_of rules_dir) = node_at (wd_tree w1) (current_of rules_dir) \<and>
           s' (state_of rules_dir) = node_at (wd_tree w1) (state_of rules_dir)
       | Inr u \<Rightarrow> s' (current_of rules_dir) = Some (Dir cs) \<and>
           s' (state_of rules_dir) = Some (File json) \<and> Some (File json) \<noteq> None)"
    proof (rule holds_run [OF holds])
      show "atomic_replace_active rules_dir (rules_dir @ [''staging''])
          (rules_dir @ [''staging'', ?name, ''current-next''])
          (rules_dir @ [''staging'', ?name, ''state-next.json'']) w1 = (r2, w2)"
        using act unfolding wd unfolding st_def by simp
      show "wd_faults w1 = wd_faults w1" ..
      show "at_places ?places (wd_tree w1) (node_at (wd_tree w1))" by (rule at)
    qed (use new old [unfolded st_def] in simp_all)
    then obtain s' where s': "at_places ?places (wd_tree w2) s'" "case r2 of
         Inl e \<Rightarrow> s' (current_of rules_dir) = node_at (wd_tree w1) (current_of rules_dir) \<and>
           s' (state_of rules_dir) = node_at (wd_tree w1) (state_of rules_dir)
       | Inr u \<Rightarrow> s' (current_of rules_dir) = Some (Dir cs) \<and>
           s' (state_of rules_dir) = Some (File json) \<and> Some (File json) \<noteq> None"
      by blast
    have "node_at (wd_tree w2) (current_of rules_dir) = s' (current_of rules_dir)"
      "node_at (wd_tree w2) (state_of rules_dir) = s' (state_of rules_dir)" "is_dir (wd_tree w2) []"
      using s'(1) by (simp_all add: at_places_def install_places_def)
    with s'(2) have res: "is_dir (wd_tree w2) []"
      "case r2 of
         Inl e \<Rightarrow> node_at (wd_tree w2) (current_of rules_dir) = node_at (wd_tree w1) (current_of rules_dir) \<and>
           node_at (wd_tree w2) (state_of rules_dir) = node_at (wd_tree w1) (state_of rules_dir)
       | Inr u \<Rightarrow> node_at (wd_tree w2) (current_of rules_dir) = Some (Dir cs) \<and>
           node_at (wd_tree w2) (state_of rules_dir) = Some (File json)"
      by (simp_all split: sum.splits)
    have run: "fst ?run = (case r2 of Inl e \<Rightarrow> Inl e | Inr _ \<Rightarrow> Inr \<lparr>io_pack_id = pk_id pack,
        io_version = pk_version pack, io_current_dir = current_of rules_dir\<rparr>)" "snd ?run = w2"
      using stage act Inr by (auto simp: install_in_work_dir_def io_bind_def io_ret_def split: sum.split)
    show ?thesis
    proof (cases r2)
      case (Inl e)
      with res run same show ?thesis by (simp add: install_result_def same_at_def)
    next
      case (Inr v)
      then have "node_at (wd_tree w2) (current_of rules_dir) =
          node_at (wd_tree w1) (?wd @ [''current-next''])" using res cs by simp
      then have "pack_in_place X pack (wd_tree w2) (current_of rules_dir)"
        using staged(2) pack_in_place_cong [of _ _ _ _ X pack] by blast
      with Inr res run json show ?thesis by (simp add: install_result_def)
    qed
  qed
qed

lemma triple_context_same:
  assumes "triple (same_at qs w0) m (\<lambda>r w. same_at qs w0 w \<and> (\<forall>x. r = Inr x \<longrightarrow> M w))"
    and "\<And>e w. same_at qs w0 w \<Longrightarrow> R (Inl e) w"
  shows "triple (same_at qs w0) (io_context g m)
    (\<lambda>r w. case r of Inl e \<Rightarrow> R (Inl e) w | Inr x \<Rightarrow> same_at qs w0 w \<and> M w)"
  unfolding triple_def
proof (intro allI impI)
  fix w assume "same_at qs w0 w"
  then have "same_at qs w0 (snd (m w)) \<and> (\<forall>x. fst (m w) = Inr x \<longrightarrow> M (snd (m w)))"
    using assms(1) by (simp add: triple_def)
  then show "case fst (io_context g m w) of Inl e \<Rightarrow> R (Inl e) (snd (io_context g m w))
      | Inr x \<Rightarrow> same_at qs w0 (snd (io_context g m w)) \<and> M (snd (io_context g m w))"
    using assms(2) by (auto simp: io_context_def split: prod.split sum.split)
qed

lemma triple_same:
  assumes "\<forall>q \<in> set qs. leaves q m" and "qs \<noteq> []"
    and "\<And>x w w'. is_dir (wd_tree w) [] \<Longrightarrow> m w = (Inr x, w') \<Longrightarrow> M w'"
  shows "triple (same_at qs w0) m (\<lambda>r w. same_at qs w0 w \<and> (\<forall>x. r = Inr x \<longrightarrow> M w))"
  unfolding triple_def
proof (intro allI impI)
  fix w assume w: "same_at qs w0 w"
  then have "is_dir (wd_tree w) []" by (simp add: same_at_def)
  with same_at_run [OF assms(1,2) w, of "fst (m w)" "snd (m w)"] assms(3) [of w _ "snd (m w)"]
  show "same_at qs w0 (snd (m w)) \<and> (\<forall>x. fst (m w) = Inr x \<longrightarrow> M (snd (m w)))"
    by (metis prod.collapse)
qed

lemma triple_check:
  assumes "\<And>e w. same_at qs w0 w \<Longrightarrow> R (Inl e) w"
  shows "triple (same_at qs w0) (io_check v)
    (\<lambda>r w. case r of Inl e \<Rightarrow> R (Inl e) w | Inr x \<Rightarrow> same_at qs w0 w \<and> v = Inr x)"
  using assms by (auto simp: triple_def io_check_def split: sum.split)

lemma triple_guard: "(c \<Longrightarrow> triple P m R) \<Longrightarrow> triple (\<lambda>w. P w \<and> c) m R"
  by (auto simp: triple_def)

lemma triple_pre: "triple P m R \<Longrightarrow> (\<And>w. P' w \<Longrightarrow> P w) \<Longrightarrow> triple P' m R"
  by (simp add: triple_def)

lemma triple_post: "triple P m R \<Longrightarrow> (\<And>r w. R r w \<Longrightarrow> R' r w) \<Longrightarrow> triple P m R'"
  by (simp add: triple_def)

lemma install_result_cleanup:
  "triple (\<lambda>w. is_dir (wd_tree w) [] \<and> install_result X now pack rules_dir w0 r w)
    (fs_remove_dir_all (work_dir_of (rules_dir @ [''staging'']) stamp))
    (\<lambda>_ w. install_result X now pack rules_dir w0 r w)"
  unfolding triple_def
proof (intro allI impI)
  let ?wd = "work_dir_of (rules_dir @ [''staging'']) stamp"
  fix w assume w: "is_dir (wd_tree w) [] \<and> install_result X now pack rules_dir w0 r w"
  let ?w = "snd (fs_remove_dir_all ?wd w)"
  have "current_of rules_dir \<parallel> ?wd" "state_of rules_dir \<parallel> ?wd"
    by (simp_all add: current_of_def state_of_def work_dir_of_def)
  then have "node_at (wd_tree ?w) (current_of rules_dir) = node_at (wd_tree w) (current_of rules_dir)"
    "node_at (wd_tree ?w) (state_of rules_dir) = node_at (wd_tree w) (state_of rules_dir)"
    using leaves_remove_dir_all w unfolding leaves_def by blast+
  with w pack_in_place_cong [OF this(1), of X pack] show "install_result X now pack rules_dir w0 r ?w"
    by (simp add: install_result_def split: sum.splits)
qed

lemma install_checked:
  fixes rules_dir :: path
  defines "st \<equiv> rules_dir @ [''staging'']"
  assumes root: "is_dir (wd_tree w0) []" and reliable: "undo_reliable rules_dir (wd_faults w0)"
    and left: "\<not> is_file (wd_tree w0) (previous_current st)" "\<not> is_dir (wd_tree w0) (previous_state st)"
    and pack: "find_pack pack_id c = Some pack" and size: "length archive \<le> max_artifact_bytes"
  shows "triple (same_at (kept_places rules_dir) w0)
    (install_pack_archive_bytes X current_os pkg_version stamp now c pack_id rules_dir archive)
    (\<lambda>r w. install_result X now pack rules_dir w0 r w \<and>
       (\<forall>out. r = Inr out \<longrightarrow> validate_pack_installable X current_os pkg_version pack = Inr () \<and>
          verify_sha256 X archive (pk_sha256 pack) = Inr ()))"
proof -
  let ?qs = "kept_places rules_dir" let ?wd = "work_dir_of st stamp"
  let ?R = "\<lambda>r w. install_result X now pack rules_dir w0 r w \<and>
       (\<forall>out. r = Inr out \<longrightarrow> validate_pack_installable X current_os pkg_version pack = Inr () \<and>
          verify_sha256 X archive (pk_sha256 pack) = Inr ())"
  have fail: "?R (Inl e) w" if "same_at ?qs w0 w" for e w
    using same_at_result [OF that] by simp
  have dirs: "\<forall>q \<in> set ?qs. leaves q (fs_create_dir_all rules_dir)"
    "\<forall>q \<in> set ?qs. leaves q (fs_create_dir_all st)" "\<forall>q \<in> set ?qs. leaves q (recreate_dir ?wd)"
    by (auto simp: current_of_def state_of_def previous_current_def previous_state_def st_def
        work_dir_of_def intro!: leaves_create_dir_all leaves_recreate_dir)
  have io: "install_pack_archive_bytes X current_os pkg_version stamp now c pack_id rules_dir archive =
      io_bind (io_check (validate_pack_installable X current_os pkg_version pack)) (\<lambda>_.
      io_bind (io_check (verify_sha256 X archive (pk_sha256 pack))) (\<lambda>_.
      io_bind (io_context Io (fs_create_dir_all rules_dir)) (\<lambda>_.
      io_bind (io_context Io (fs_create_dir_all st)) (\<lambda>_.
      io_bind (recreate_dir ?wd) (\<lambda>_.
      io_finally (install_in_work_dir X now pack rules_dir st ?wd archive) (fs_remove_dir_all ?wd))))))"
    using pack size by (simp add: install_pack_archive_bytes_def Let_def st_def not_less)
  have made: "triple (same_at ?qs w0) (io_context Io m) (\<lambda>r w. case r of Inl e \<Rightarrow> ?R (Inl e) w
      | Inr x \<Rightarrow> same_at ?qs w0 w)" if "\<forall>q \<in> set ?qs. leaves q m" for m :: "(call, unit) io"
  proof -
    have "triple (same_at ?qs w0) m (\<lambda>r w. same_at ?qs w0 w \<and> (\<forall>x. r = Inr x \<longrightarrow> True))"
      by (rule triple_same [OF that]) simp_all
    from triple_context_same [OF this, of ?R Io, OF fail] show ?thesis
      by (rule triple_post) (auto split: sum.splits)
  qed
  have recreate: "triple (same_at ?qs w0) (recreate_dir ?wd) (\<lambda>r w. case r of Inl e \<Rightarrow> ?R (Inl e) w
      | Inr x \<Rightarrow> same_at ?qs w0 w \<and> is_dir (wd_tree w) ?wd)"
    by (rule triple_post [OF triple_same [where M = "\<lambda>w. is_dir (wd_tree w) ?wd", OF dirs(3)]])
      (use fail in \<open>auto split: sum.split intro: recreate_dir_success(1) simp: work_dir_of_def\<close>)
  have inner: "triple (\<lambda>w. same_at ?qs w0 w \<and> is_dir (wd_tree w) ?wd)
      (io_finally (install_in_work_dir X now pack rules_dir st ?wd archive) (fs_remove_dir_all ?wd))
      (install_result X now pack rules_dir w0)"
    unfolding st_def
    by (rule triple_finally, rule install_in_work_dir_result [OF reliable left [unfolded st_def]],
        rule install_result_cleanup)
  show ?thesis
    unfolding io
  proof (rule triple_bind, rule triple_check, rule fail, assumption, rule triple_guard,
      rule triple_bind, rule triple_check, rule fail, assumption, rule triple_guard)
    fix u v :: unit
    assume ok: "validate_pack_installable X current_os pkg_version pack = Inr u"
      "verify_sha256 X archive (pk_sha256 pack) = Inr v"
    show "triple (same_at ?qs w0) (io_bind (io_context Io (fs_create_dir_all rules_dir)) (\<lambda>_.
      io_bind (io_context Io (fs_create_dir_all st)) (\<lambda>_.
      io_bind (recreate_dir ?wd) (\<lambda>_.
      io_finally (install_in_work_dir X now pack rules_dir st ?wd archive) (fs_remove_dir_all ?wd))))) ?R"
      by (rule triple_bind, rule made [OF dirs(1)], rule triple_bind, rule made [OF dirs(2)],
          rule triple_bind, rule recreate, rule triple_post [OF inner])
        (use ok in simp)
  qed
qed

text \<open>
  C10: Installing a rule pack is all or nothing. Whatever the archive holds and whichever call to
  the file system fails, as long as the calls that undo the replacement (and the one that moves the
  old state away) do not, the active pack and its state are after an error what they were before;
  and after a success the catalog has the pack for this operating system, the SHA-256 of the archive
  is the one of the catalog, the active directory is a complete pack whose manifest is the one of
  the catalog entry, and the state file is the record of this pack.
\<close>

theorem install_all_or_nothing:
  assumes root: "is_dir (wd_tree w) []" and reliable: "undo_reliable rules_dir (wd_faults w)"
    and left: "\<not> is_file (wd_tree w) (previous_current (rules_dir @ [''staging'']))"
      "\<not> is_dir (wd_tree w) (previous_state (rules_dir @ [''staging'']))"
    and run: "install_pack_archive_bytes X current_os pkg_version stamp now c pack_id rules_dir archive w
      = (r, w')"
  shows "case r of
      Inl e \<Rightarrow>
        node_at (wd_tree w') (current_of rules_dir) = node_at (wd_tree w) (current_of rules_dir) \<and>
        node_at (wd_tree w') (state_of rules_dir) = node_at (wd_tree w) (state_of rules_dir)
    | Inr out \<Rightarrow> (\<exists>pack json. find_pack pack_id c = Some pack \<and> pk_os pack = current_os \<and>
        pc_hex_decode X (pk_sha256 pack) = Some (pc_sha256 X archive) \<and>
        pack_in_place X pack (wd_tree w') (current_of rules_dir) \<and>
        pc_state_json X \<lparr>rs_pack_id = pk_id pack, rs_version = pk_version pack,
          rs_sha256 = pk_sha256 pack, rs_installed_at = now\<rparr> = Some json \<and>
        node_at (wd_tree w') (state_of rules_dir) = Some (File json))"
proof (cases "length archive \<le> max_artifact_bytes \<and> find_pack pack_id c \<noteq> None")
  case True
  then obtain pack where pack: "find_pack pack_id c = Some pack" and "length archive \<le> max_artifact_bytes"
    by auto
  have "same_at (kept_places rules_dir) w w" using root by (simp add: same_at_def)
  from install_checked [OF root reliable left \<open>find_pack pack_id c = Some pack\<close>
      \<open>length archive \<le> max_artifact_bytes\<close>, of X current_os pkg_version stamp now,
      unfolded triple_def, rule_format, OF this]
  have "install_result X now pack rules_dir w r w' \<and>
      (\<forall>out. r = Inr out \<longrightarrow> validate_pack_installable X current_os pkg_version pack = Inr () \<and>
        verify_sha256 X archive (pk_sha256 pack) = Inr ())"
    using run by simp
  with pack show ?thesis
    by (auto simp: install_result_def validate_pack_installable_def verify_sha256_def parse_sha256_def
        split: sum.splits option.splits if_splits)
next
  case False
  with run show ?thesis
    by (auto simp: install_pack_archive_bytes_def io_fail_def split: option.splits if_splits)
qed

text \<open>
  If moving the old state file away fails, after the active pack was moved away, the
  installation returns the error without putting the pack back: no rules are active any more.
\<close>

lemma state_move_failure_loses_pack:
  assumes dirs: "is_dir (wd_tree w) []" "is_dir (wd_tree w) (rules_dir @ [''staging''])"
    and pre: "node_at (wd_tree w) (current_of rules_dir) \<noteq> None"
      "node_at (wd_tree w) (state_of rules_dir) \<noteq> None"
      "node_at (wd_tree w) (previous_current (rules_dir @ [''staging''])) = None"
    and fails: "\<And>n c. fl_fails (wd_faults w) n c \<longleftrightarrow>
      c = Rename (state_of rules_dir) (previous_state (rules_dir @ [''staging'']))"
    and run: "atomic_replace_active rules_dir (rules_dir @ [''staging'']) next_current next_state w = (r, w')"
  shows "r = Inl (Io (Rename (state_of rules_dir) (previous_state (rules_dir @ [''staging''])))) \<and>
    node_at (wd_tree w') (current_of rules_dir) = None"
proof -
  let ?C = "current_of rules_dir" let ?S = "state_of rules_dir"
  let ?PC = "previous_current (rules_dir @ [''staging''])"
  let ?PS = "previous_state (rules_dir @ [''staging''])"
  let ?ps = "[?C, ?S, ?PC, ?PS]" let ?f = "wd_faults w"
  let ?P = "\<lambda>s. s ?C \<noteq> None \<and> s ?S \<noteq> None \<and> s ?PC = None"
  let ?R = "\<lambda>r s. r = Inl (Io (Rename ?S ?PS)) \<and> s ?C = None"
  have ap: "apart ?ps" "distinct ?ps"
    by (simp_all add: apart_def current_of_def state_of_def previous_current_def previous_state_def)
  have 1: "holds ?ps ?f ?P (io_ignore (fs_remove_dir_all ?PC))
      (\<lambda>r s. case r of Inl e \<Rightarrow> ?R (Inl e) s | Inr (u::unit) \<Rightarrow> ?P s)"
    by (rule holds_ignore, rule holds_remove_dir_all) (use ap fails in auto)
  have 2: "holds ?ps ?f ?P (io_ignore (fs_remove_file ?PS))
      (\<lambda>r s. case r of Inl e \<Rightarrow> ?R (Inl e) s | Inr (u::unit) \<Rightarrow> ?P s)"
    by (rule holds_ignore, rule holds_remove_file) (use ap fails in auto)
  have 3: "holds ?ps ?f ?P (io_context Io (rename_if_exists ?C ?PC))
      (\<lambda>r s. case r of Inl e \<Rightarrow> ?R (Inl e) s | Inr (u::unit) \<Rightarrow> s ?C = None \<and> s ?S \<noteq> None)"
    unfolding rename_if_exists_def
    by (rule holds_context, rule holds_tree_bind)
      (use ap fails in \<open>auto intro!: holds_rename holds_ret\<close>)
  have 4: "holds ?ps ?f (\<lambda>s. s ?C = None \<and> s ?S \<noteq> None) (io_context Io (rename_if_exists ?S ?PS))
      (\<lambda>r s. case r of Inl e \<Rightarrow> ?R (Inl e) s | Inr (u::unit) \<Rightarrow> False)"
    unfolding rename_if_exists_def
    by (rule holds_context, rule holds_tree_bind)
      (use ap fails in \<open>auto intro!: holds_rename holds_ret\<close>)
  have none: "holds ?ps ?f (\<lambda>s. False) m Q" for m :: "(rules_error, unit) io" and Q
    by (simp add: holds_def)
  have replace: "holds ?ps ?f ?P
      (atomic_replace_active rules_dir (rules_dir @ [''staging'']) next_current next_state) ?R"
    unfolding atomic_replace_active_def Let_def
    by (rule holds_bind, rule 1, rule holds_bind, rule 2, rule holds_bind, rule 3,
        rule holds_bind, rule 4, rule none)
  have "is_dir (wd_tree w) rules_dir" using dirs(2) by (rule is_dir_above)
  then have at: "at_places ?ps (wd_tree w) (node_at (wd_tree w))"
    using dirs by (simp add: at_places_def current_of_def state_of_def previous_current_def
        previous_state_def butlast_append)
  from holds_run [OF replace run refl at] pre
  have "\<exists>s'. at_places ?ps (wd_tree w') s' \<and> ?R r s'" by blast
  then show ?thesis by (auto simp: at_places_def)
qed

text \<open>
  C40: Unpacking an archive changes nothing off the directory it is unpacked to, whatever the
  names, modes and sizes of its entries, and whichever call fails.
\<close>

theorem extraction_stays_inside:
  assumes "is_dir (wd_tree w) []" and "q \<parallel> destination"
  shows "node_at (wd_tree (snd (extract_zip_safely X archive_path destination w))) q =
    node_at (wd_tree w) q"
  using confined_leaves [OF confined_extract assms(2), of X archive_path] assms(1)
  by (simp add: leaves_def)

section \<open>Examples\<close>

text \<open>
  A small pack and the archive that carries it. The crates answer as the real ones do on it: the
  archive has one format, the digest is thirty-two zero bytes, every requirement is met.
\<close>

definition demo_entry :: "string \<Rightarrow> bool \<Rightarrow> zip_entry" where
  "demo_entry name d = \<lparr>ze_name = name, ze_mode = None, ze_size = 1, ze_is_dir = d,
     ze_bytes = (if d then [] else [7]), ze_read_fails = False\<rparr>"

definition demo_archive :: "zip_entry option list" where
  "demo_archive = map Some ([demo_entry ''pack.yml'' False, demo_entry ''sigma/'' True,
     demo_entry ''yara/'' True] @ map (\<lambda>f. demo_entry (''ioc/'' @ f) False) ioc_names)"

definition demo_manifest :: pack_manifest where
  "demo_manifest = \<lparr>mf_name = ''n'', mf_id = ''p'', mf_description = ''d'', mf_os = ''linux'',
     mf_level = ''l'', mf_pack_schema_version = 1, mf_requires_rustinel = ''*'', mf_default = False,
     mf_status = ''s'', mf_extends = []\<rparr>"

definition demo_pack :: catalog_pack where
  "demo_pack = \<lparr>pk_id = ''p'', pk_name = ''n'', pk_os = ''linux'', pk_level = ''l'',
     pk_version = ''1'', pk_default = False, pk_requires_rustinel = ''*'', pk_status = ''s'',
     pk_rule_count = 0, pk_ioc_count = 0, pk_artifact = ''a'', pk_sha256 = ''00'',
     pk_engine = None\<rparr>"

definition demo_crates :: "(unit, unit) pack_crates" where
  "demo_crates = \<lparr>pc_zip_open = (\<lambda>b. Some demo_archive), pc_sha256 = (\<lambda>b. replicate 32 0),
     pc_hex_decode = (\<lambda>s. Some (replicate 32 0)), pc_version_req = (\<lambda>s. Some ()),
     pc_version = (\<lambda>s. Some ()), pc_req_matches = (\<lambda>r v. True), pc_is_release = (\<lambda>v. True),
     pc_release_of = (\<lambda>v. v), pc_manifest = (\<lambda>b. Some demo_manifest),
     pc_state_json = (\<lambda>s. Some [1])\<rparr>"

definition no_faults :: faults where
  "no_faults = \<lparr>fl_fails = (\<lambda>n c. False), fl_depth = (\<lambda>n. 0), fl_left = (\<lambda>n. None),
     fl_torn = (\<lambda>n. None)\<rparr>"

definition demo_world :: world where
  "demo_world = \<lparr>wd_tree = Dir [], wd_calls = 0, wd_faults = no_faults\<rparr>"

definition demo_catalog :: catalog where
  "demo_catalog = \<lparr>ct_schema = index_schema, ct_release_version = ''1'', ct_packs = [demo_pack]\<rparr>"

lemma str_trim_code [code]:
  "str_trim s = (if s \<noteq> [] \<and> 33 \<le> byte (hd s) \<and> byte (hd s) \<le> 126 \<and> 33 \<le> byte (last s) \<and>
       byte (last s) \<le> 126 then s else trim_end (trim_start s))"
  using trim_printable [of s] by (auto simp: str_trim_def)

lemma demo_manifest_valid: "validate_manifest demo_manifest demo_pack = Inr ()"
  by code_simp

lemma demo_size: "\<not> max_artifact_bytes < length [9 :: u8]"
  by (simp add: max_artifact_bytes_def)

lemma demo_install:
  "\<not> isl (fst (install_pack_archive_bytes demo_crates ''linux'' ''1'' ''0'' ''t'' demo_catalog ''p''
     [''r''] [9] demo_world))"
  unfolding install_pack_archive_bytes_def if_not_P [OF demo_size]
  by code_simp

theorem install_all_or_nothing_witness:
  "\<exists>w' out. install_pack_archive_bytes demo_crates ''linux'' ''1'' ''0'' ''t'' demo_catalog ''p''
      [''r''] [9] demo_world = (Inr out, w') \<and>
    pack_in_place demo_crates demo_pack (wd_tree w') (current_of [''r'']) \<and>
    node_at (wd_tree w') (state_of [''r'']) = Some (File [1])"
proof -
  obtain r w' where run: "install_pack_archive_bytes demo_crates ''linux'' ''1'' ''0'' ''t'' demo_catalog
      ''p'' [''r''] [9] demo_world = (r, w')"
    by (cases "install_pack_archive_bytes demo_crates ''linux'' ''1'' ''0'' ''t'' demo_catalog
      ''p'' [''r''] [9] demo_world")
  with demo_install obtain out where "r = Inr out" by (cases r) auto
  moreover have "is_dir (wd_tree demo_world) []" "undo_reliable [''r''] (wd_faults demo_world)"
    "\<not> is_file (wd_tree demo_world) (previous_current ([''r''] @ [''staging'']))"
    "\<not> is_dir (wd_tree demo_world) (previous_state ([''r''] @ [''staging'']))"
    by (simp_all add: demo_world_def is_dir_def is_file_def undo_reliable_def no_faults_def Let_def
        previous_current_def previous_state_def)
  note install_all_or_nothing [OF this run]
  moreover have "find_pack ''p'' demo_catalog = Some demo_pack"
    by (simp add: find_pack_def demo_catalog_def demo_pack_def)
  moreover have "pc_state_json demo_crates st = Some [1]" for st by (simp add: demo_crates_def)
  ultimately show ?thesis using run by auto
qed

definition demo_state_fault :: world where
  "demo_state_fault = \<lparr>
     wd_tree = Dir [(''r'', Dir [(''current'', Dir [(''pack.yml'', File [1])]), (''state.json'', File [2]),
       (''staging'', Dir [])])],
     wd_calls = 0,
     wd_faults = no_faults\<lparr>fl_fails := \<lambda>n c. c = Rename [''r'', ''state.json'']
       [''r'', ''staging'', ''previous-state.json'']\<rparr>\<rparr>"


definition demo_escape :: world where
  "demo_escape = \<lparr>wd_tree = Dir [(''a.zip'', File [9]), (''d'', Dir []), (''evil'', File [1])],
     wd_calls = 0, wd_faults = no_faults\<rparr>"

theorem extraction_stays_inside_witness:
  "fst (extract_zip_safely
       (demo_crates\<lparr>pc_zip_open := \<lambda>b. Some [Some (demo_entry ''x'' False), Some (demo_entry ''../evil'' False)]\<rparr>)
       [''a.zip''] [''d''] demo_escape) = Inl (Unsafe_Path ''../evil'') \<and>
   node_at (wd_tree (snd (extract_zip_safely
       (demo_crates\<lparr>pc_zip_open := \<lambda>b. Some [Some (demo_entry ''x'' False), Some (demo_entry ''../evil'' False)]\<rparr>)
       [''a.zip''] [''d''] demo_escape))) [''evil''] = Some (File [1])"
proof
  show "fst (extract_zip_safely
       (demo_crates\<lparr>pc_zip_open := \<lambda>b. Some [Some (demo_entry ''x'' False), Some (demo_entry ''../evil'' False)]\<rparr>)
       [''a.zip''] [''d''] demo_escape) = Inl (Unsafe_Path ''../evil'')"
    by (simp add: extract_zip_safely_def demo_crates_def demo_escape_def demo_entry_def io_bind_def
        io_context_def fs_read_def system_call_def no_faults_def) code_simp
  have "is_dir (wd_tree demo_escape) []" "[''evil''] \<parallel> [''d'']"
    by (simp_all add: demo_escape_def is_dir_def)
  from extraction_stays_inside [OF this, of
      "demo_crates\<lparr>pc_zip_open := \<lambda>b. Some [Some (demo_entry ''x'' False), Some (demo_entry ''../evil'' False)]\<rparr>"
      "[''a.zip'']"]
  show "node_at (wd_tree (snd (extract_zip_safely
       (demo_crates\<lparr>pc_zip_open := \<lambda>b. Some [Some (demo_entry ''x'' False), Some (demo_entry ''../evil'' False)]\<rparr>)
       [''a.zip''] [''d''] demo_escape))) [''evil''] = Some (File [1])"
    by (simp add: demo_escape_def)
qed

text \<open>The limit is on the sizes the entries declare; what is copied is not counted.\<close>

lemma extraction_not_bounded_by_copied_bytes:
  "fst (extract_entries [''d''] max_extracted_bytes
       [Some \<lparr>ze_name = ''x'', ze_mode = None, ze_size = 0, ze_is_dir = False, ze_bytes = [1, 2, 3],
          ze_read_fails = False\<rparr>] demo_escape) = Inr () \<and>
   node_at (wd_tree (snd (extract_entries [''d''] max_extracted_bytes
       [Some \<lparr>ze_name = ''x'', ze_mode = None, ze_size = 0, ze_is_dir = False, ze_bytes = [1, 2, 3],
          ze_read_fails = False\<rparr>] demo_escape))) [''d'', ''x''] = Some (File [1, 2, 3])"
  by code_simp

end
