(* ===== verification/Config.thy ===== *)
theory Config
  imports Rule_Packs Response Ioc "HOL-Library.Monad_Syntax"
begin

text \<open>
  \<open>src/config.rs\<close>: the settings, their defaults, the choice of the file, and what is done to the
  paths and allowlists after loading.
  \<^item> The \<open>config\<close> crate is the record \<open>config_crate\<close>: how a default is given, the table that defaults,
    file and environment make together (keys with dots, None when the file cannot be read), and
    how a value is read as a Boolean, a number, a text or a list of texts.
  \<^item> The process environment is \<open>env_set\<close> (which variables exist), \<open>cwd\<close> and \<open>exists\<close>.
  \<^item> Paths are those of Unix.
\<close>

section \<open>Settings\<close>

record scanner_config =
  sc_sigma_enabled :: bool
  sc_sigma_rules_path :: string
  sc_sigma_engine :: string
  sc_yara_enabled :: bool
  sc_yara_rules_path :: string
  sc_yara_allowlist_paths :: "string list"
  sc_yara_memory_enabled :: bool
  sc_yara_memory_queue_capacity :: nat
  sc_yara_memory_delay_ms :: u64
  sc_yara_memory_max_process_mb :: u64
  sc_yara_memory_max_region_mb :: u64
  sc_yara_memory_include_private :: bool
  sc_yara_memory_include_image :: bool
  sc_yara_memory_include_mapped :: bool

record log_config =
  lg_level :: string
  lg_filter :: "string option"
  lg_directory :: string
  lg_filename :: string
  lg_console_output :: bool

record alert_config =
  al_directory :: string
  al_filename :: string
  al_match_debug :: match_debug_level

record network_config =
  nw_aggregation_enabled :: bool
  nw_aggregation_max_entries :: nat
  nw_aggregation_window_secs :: u64
  nw_aggregation_interval_buffer_size :: nat

record reload_settings =
  rd_enabled :: bool
  rd_debounce_ms :: u64
  rd_fallback_poll_interval_ms :: u64

record dedup_config =
  dc_enabled :: bool
  dc_window_secs :: u64
  dc_max_entries :: nat

text \<open>\<open>ResponseConfig\<close> and \<open>IocConfig\<close> are the records of \<open>Response\<close> and \<open>Ioc\<close>.\<close>

record app_config =
  ac_scanner :: scanner_config
  ac_logging :: log_config
  ac_alerts :: alert_config
  ac_allowlist :: "string list"
  ac_response :: response_config
  ac_network :: network_config
  ac_ioc :: ioc_config
  ac_reload :: reload_settings
  ac_dedup :: dedup_config

definition win_path :: "string list \<Rightarrow> string" where
  "win_path names = join [backslash] names"

definition default_allowlist_paths :: "platform \<Rightarrow> string list" where
  "default_allowlist_paths p = (case p of
     Windows \<Rightarrow> [win_path [''C:'', ''Windows'', []], win_path [''C:'', ''Program Files'', []],
       win_path [''C:'', ''Program Files (x86)'', []]]
   | MacOS \<Rightarrow> [''/usr/bin/'', ''/usr/sbin/'', ''/usr/libexec/'', ''/bin/'', ''/sbin/'', ''/System/'']
   | Linux \<Rightarrow> [''/usr/bin/'', ''/usr/sbin/'', ''/usr/lib/'', ''/usr/lib64/'', ''/usr/libexec/'', ''/bin/'',
       ''/sbin/'', ''/lib/'', ''/lib64/''])"

section \<open>After loading\<close>

definition apply_allowlist_fallbacks :: "app_config \<Rightarrow> app_config" where
  "apply_allowlist_fallbacks cfg =
     (let global = ac_allowlist cfg;
          r = ac_response cfg; i = ac_ioc cfg; s = ac_scanner cfg
      in cfg\<lparr>
        ac_response := (if rc_allowlist_paths r = [] then r\<lparr>rc_allowlist_paths := global\<rparr> else r),
        ac_ioc := (if cf_hash_allowlist_paths i = [] then i\<lparr>cf_hash_allowlist_paths := global\<rparr> else i),
        ac_scanner := (if sc_yara_allowlist_paths s = [] then s\<lparr>sc_yara_allowlist_paths := global\<rparr>
                       else s)\<rparr>)"

definition resolve_path :: "string \<Rightarrow> string \<Rightarrow> string" where
  "resolve_path base_dir path = (if is_absolute path then path else path_join base_dir path)"

definition overridden :: "(string \<Rightarrow> bool) \<Rightarrow> string \<Rightarrow> bool" where
  "overridden env_set env_key = env_set (''EDR__'' @ env_key)"

definition resolve_path_from_config ::
    "(string \<Rightarrow> bool) \<Rightarrow> string \<Rightarrow> string \<Rightarrow> string \<Rightarrow> string" where
  "resolve_path_from_config env_set base_dir env_key path =
     (if overridden env_set env_key then path else resolve_path base_dir path)"

definition resolve_path_list :: "string \<Rightarrow> string list \<Rightarrow> string list" where
  "resolve_path_list base_dir paths = map (resolve_path base_dir) paths"

definition resolve_path_list_from_config ::
    "(string \<Rightarrow> bool) \<Rightarrow> string \<Rightarrow> string \<Rightarrow> string list \<Rightarrow> string list" where
  "resolve_path_list_from_config env_set base_dir env_key paths =
     (if overridden env_set env_key then paths else resolve_path_list base_dir paths)"

definition resolve_relative_paths :: "(string \<Rightarrow> bool) \<Rightarrow> string \<Rightarrow> app_config \<Rightarrow> app_config" where
  "resolve_relative_paths env_set base_dir cfg =
     (let one = resolve_path_from_config env_set base_dir;
          many = resolve_path_list_from_config env_set base_dir;
          s = ac_scanner cfg; l = ac_logging cfg; a = ac_alerts cfg; i = ac_ioc cfg; r = ac_response cfg
      in cfg\<lparr>
        ac_scanner := s\<lparr>
          sc_sigma_rules_path := one ''SCANNER__SIGMA_RULES_PATH'' (sc_sigma_rules_path s),
          sc_yara_rules_path := one ''SCANNER__YARA_RULES_PATH'' (sc_yara_rules_path s),
          sc_yara_allowlist_paths := many ''SCANNER__YARA_ALLOWLIST_PATHS'' (sc_yara_allowlist_paths s)\<rparr>,
        ac_logging := l\<lparr>lg_directory := one ''LOGGING__DIRECTORY'' (lg_directory l)\<rparr>,
        ac_alerts := a\<lparr>al_directory := one ''ALERTS__DIRECTORY'' (al_directory a)\<rparr>,
        ac_ioc := i\<lparr>
          cf_hashes_path := one ''IOC__HASHES_PATH'' (cf_hashes_path i),
          cf_ips_path := one ''IOC__IPS_PATH'' (cf_ips_path i),
          cf_domains_path := one ''IOC__DOMAINS_PATH'' (cf_domains_path i),
          cf_paths_regex_path := one ''IOC__PATHS_REGEX_PATH'' (cf_paths_regex_path i),
          cf_hash_allowlist_paths := many ''IOC__HASH_ALLOWLIST_PATHS'' (cf_hash_allowlist_paths i)\<rparr>,
        ac_allowlist := many ''ALLOWLIST__PATHS'' (ac_allowlist cfg),
        ac_response := r\<lparr>
          rc_allowlist_paths := many ''RESPONSE__ALLOWLIST_PATHS'' (rc_allowlist_paths r)\<rparr>\<rparr>)"

section \<open>Defaults\<close>

definition default_settings :: "platform \<Rightarrow> app_config" where
  "default_settings p = \<lparr>
     ac_scanner = \<lparr>
       sc_sigma_enabled = True, sc_sigma_rules_path = ''rules/current/sigma'',
       sc_sigma_engine = ''builtin'', sc_yara_enabled = True,
       sc_yara_rules_path = ''rules/current/yara'', sc_yara_allowlist_paths = [],
       sc_yara_memory_enabled = False, sc_yara_memory_queue_capacity = 64,
       sc_yara_memory_delay_ms = 750, sc_yara_memory_max_process_mb = 64,
       sc_yara_memory_max_region_mb = 8, sc_yara_memory_include_private = True,
       sc_yara_memory_include_image = False, sc_yara_memory_include_mapped = False\<rparr>,
     ac_logging = \<lparr>
       lg_level = ''info'', lg_filter = None, lg_directory = ''logs'', lg_filename = ''rustinel.log'',
       lg_console_output = False\<rparr>,
     ac_alerts = \<lparr>
       al_directory = ''logs'', al_filename = ''alerts.json'', al_match_debug = DebugOff\<rparr>,
     ac_allowlist = default_allowlist_paths p,
     ac_response = \<lparr>
       rc_enabled = False, rc_prevention_enabled = False, rc_min_severity = ''critical'',
       rc_channel_capacity = 128, rc_allowlist_images = [], rc_allowlist_paths = []\<rparr>,
     ac_network = \<lparr>
       nw_aggregation_enabled = True, nw_aggregation_max_entries = 20000,
       nw_aggregation_window_secs = 60, nw_aggregation_interval_buffer_size = 50\<rparr>,
     ac_ioc = \<lparr>
       cf_enabled = True, cf_default_severity = ''high'',
       cf_hashes_path = ''rules/current/ioc/hashes.txt'', cf_ips_path = ''rules/current/ioc/ips.txt'',
       cf_domains_path = ''rules/current/ioc/domains.txt'',
       cf_paths_regex_path = ''rules/current/ioc/paths_regex.txt'', cf_max_file_size_mb = 50,
       cf_hash_allowlist_paths = []\<rparr>,
     ac_reload = \<lparr>rd_enabled = True, rd_debounce_ms = 2000, rd_fallback_poll_interval_ms = 60000\<rparr>,
     ac_dedup = \<lparr>dc_enabled = True, dc_window_secs = 60, dc_max_entries = 10000\<rparr>\<rparr>"

definition default_config :: "platform \<Rightarrow> app_config" where
  "default_config p = apply_allowlist_fallbacks (default_settings p)"

record 'v config_crate =
  cc_bool :: "bool \<Rightarrow> 'v"
  cc_int :: "int \<Rightarrow> 'v"
  cc_text :: "string \<Rightarrow> 'v"
  cc_list :: "string list \<Rightarrow> 'v"
  cc_build :: "(string \<times> 'v) list \<Rightarrow> string option \<Rightarrow> (string \<Rightarrow> 'v option) option"
  cc_as_bool :: "'v \<Rightarrow> bool option"
  cc_as_int :: "'v \<Rightarrow> int option"
  cc_as_text :: "'v \<Rightarrow> string option"
  cc_as_list :: "'v \<Rightarrow> string list option"
  cc_as_variant :: "string list \<Rightarrow> 'v \<Rightarrow> string option"

definition config_defaults :: "'v config_crate \<Rightarrow> platform \<Rightarrow> (string \<times> 'v) list" where
  "config_defaults C p = [
     (''scanner.sigma_enabled'', cc_bool C True),
     (''scanner.sigma_rules_path'', cc_text C ''rules/current/sigma''),
     (''scanner.sigma_engine'', cc_text C ''builtin''),
     (''scanner.yara_enabled'', cc_bool C True),
     (''scanner.yara_rules_path'', cc_text C ''rules/current/yara''),
     (''scanner.yara_allowlist_paths'', cc_list C []),
     (''scanner.yara_memory_enabled'', cc_bool C False),
     (''scanner.yara_memory_queue_capacity'', cc_int C 64),
     (''scanner.yara_memory_delay_ms'', cc_int C 750),
     (''scanner.yara_memory_max_process_mb'', cc_int C 64),
     (''scanner.yara_memory_max_region_mb'', cc_int C 8),
     (''scanner.yara_memory_include_private'', cc_bool C True),
     (''scanner.yara_memory_include_image'', cc_bool C False),
     (''scanner.yara_memory_include_mapped'', cc_bool C False),
     (''logging.level'', cc_text C ''info''),
     (''logging.directory'', cc_text C ''logs''),
     (''logging.filename'', cc_text C ''rustinel.log''),
     (''logging.console_output'', cc_bool C False),
     (''alerts.directory'', cc_text C ''logs''),
     (''alerts.filename'', cc_text C ''alerts.json''),
     (''alerts.match_debug'', cc_text C ''off''),
     (''allowlist.paths'', cc_list C (default_allowlist_paths p)),
     (''response.enabled'', cc_bool C False),
     (''response.prevention_enabled'', cc_bool C False),
     (''response.min_severity'', cc_text C ''critical''),
     (''response.channel_capacity'', cc_int C 128),
     (''response.allowlist_images'', cc_list C []),
     (''response.allowlist_paths'', cc_list C []),
     (''network.aggregation_enabled'', cc_bool C True),
     (''network.aggregation_max_entries'', cc_int C 20000),
     (''network.aggregation_window_secs'', cc_int C 60),
     (''network.aggregation_interval_buffer_size'', cc_int C 50),
     (''ioc.enabled'', cc_bool C True),
     (''ioc.hashes_path'', cc_text C ''rules/current/ioc/hashes.txt''),
     (''ioc.ips_path'', cc_text C ''rules/current/ioc/ips.txt''),
     (''ioc.domains_path'', cc_text C ''rules/current/ioc/domains.txt''),
     (''ioc.paths_regex_path'', cc_text C ''rules/current/ioc/paths_regex.txt''),
     (''ioc.default_severity'', cc_text C ''high''),
     (''ioc.max_file_size_mb'', cc_int C 50),
     (''ioc.hash_allowlist_paths'', cc_list C []),
     (''reload.enabled'', cc_bool C True),
     (''reload.debounce_ms'', cc_int C 2000),
     (''reload.fallback_poll_interval_ms'', cc_int C 60000),
     (''dedup.enabled'', cc_bool C True),
     (''dedup.window_secs'', cc_int C 60),
     (''dedup.max_entries'', cc_int C 10000)]"

section \<open>Reading the settings\<close>

text \<open>
  The derived \<open>Deserialize\<close>: a missing or ill-typed setting is an error, except the optional filter;
  an unsigned number must fit.
\<close>

definition setting :: "(string \<Rightarrow> 'v option) \<Rightarrow> ('v \<Rightarrow> 'a option) \<Rightarrow> string \<Rightarrow> 'a option" where
  "setting tbl as_kind key = (case tbl key of None \<Rightarrow> None | Some v \<Rightarrow> as_kind v)"

definition as_nat :: "'v config_crate \<Rightarrow> 'v \<Rightarrow> nat option" where
  "as_nat C v = (case cc_as_int C v of
     None \<Rightarrow> None | Some n \<Rightarrow> if 0 \<le> n \<and> n < 2 ^ 64 then Some (nat n) else None)"

definition as_u64 :: "'v config_crate \<Rightarrow> 'v \<Rightarrow> u64 option" where
  "as_u64 C v = map_option of_nat (as_nat C v)"

definition match_debug_of :: "string \<Rightarrow> match_debug_level option" where
  "match_debug_of w =
     (if w = ''off'' then Some DebugOff else if w = ''summary'' then Some DebugSummary
      else if w = ''full'' then Some DebugFull else None)"

definition as_match_debug :: "'v config_crate \<Rightarrow> 'v \<Rightarrow> match_debug_level option" where
  "as_match_debug C v =
     (case cc_as_variant C [''off'', ''summary'', ''full''] v of
        None \<Rightarrow> None | Some w \<Rightarrow> match_debug_of w)"

definition read_scanner :: "'v config_crate \<Rightarrow> (string \<Rightarrow> 'v option) \<Rightarrow> scanner_config option" where
  "read_scanner C tbl = do {
     sigma_on \<leftarrow> setting tbl (cc_as_bool C) ''scanner.sigma_enabled'';
     sigma_path \<leftarrow> setting tbl (cc_as_text C) ''scanner.sigma_rules_path'';
     sigma_engine \<leftarrow> setting tbl (cc_as_text C) ''scanner.sigma_engine'';
     yara_on \<leftarrow> setting tbl (cc_as_bool C) ''scanner.yara_enabled'';
     yara_path \<leftarrow> setting tbl (cc_as_text C) ''scanner.yara_rules_path'';
     yara_paths \<leftarrow> setting tbl (cc_as_list C) ''scanner.yara_allowlist_paths'';
     memory_on \<leftarrow> setting tbl (cc_as_bool C) ''scanner.yara_memory_enabled'';
     memory_queue \<leftarrow> setting tbl (as_nat C) ''scanner.yara_memory_queue_capacity'';
     memory_delay \<leftarrow> setting tbl (as_u64 C) ''scanner.yara_memory_delay_ms'';
     memory_process \<leftarrow> setting tbl (as_u64 C) ''scanner.yara_memory_max_process_mb'';
     memory_region \<leftarrow> setting tbl (as_u64 C) ''scanner.yara_memory_max_region_mb'';
     memory_private \<leftarrow> setting tbl (cc_as_bool C) ''scanner.yara_memory_include_private'';
     memory_image \<leftarrow> setting tbl (cc_as_bool C) ''scanner.yara_memory_include_image'';
     memory_mapped \<leftarrow> setting tbl (cc_as_bool C) ''scanner.yara_memory_include_mapped'';
     Some \<lparr>sc_sigma_enabled = sigma_on, sc_sigma_rules_path = sigma_path,
       sc_sigma_engine = sigma_engine, sc_yara_enabled = yara_on, sc_yara_rules_path = yara_path,
       sc_yara_allowlist_paths = yara_paths, sc_yara_memory_enabled = memory_on,
       sc_yara_memory_queue_capacity = memory_queue, sc_yara_memory_delay_ms = memory_delay,
       sc_yara_memory_max_process_mb = memory_process, sc_yara_memory_max_region_mb = memory_region,
       sc_yara_memory_include_private = memory_private, sc_yara_memory_include_image = memory_image,
       sc_yara_memory_include_mapped = memory_mapped\<rparr> }"

definition read_logging :: "'v config_crate \<Rightarrow> (string \<Rightarrow> 'v option) \<Rightarrow> log_config option" where
  "read_logging C tbl = do {
     level \<leftarrow> setting tbl (cc_as_text C) ''logging.level'';
     directives \<leftarrow> (case tbl ''logging.filter'' of
       None \<Rightarrow> Some None | Some v \<Rightarrow> map_option Some (cc_as_text C v));
     dir \<leftarrow> setting tbl (cc_as_text C) ''logging.directory'';
     filename \<leftarrow> setting tbl (cc_as_text C) ''logging.filename'';
     console \<leftarrow> setting tbl (cc_as_bool C) ''logging.console_output'';
     Some \<lparr>lg_level = level, lg_filter = directives, lg_directory = dir, lg_filename = filename,
       lg_console_output = console\<rparr> }"

definition read_alerts :: "'v config_crate \<Rightarrow> (string \<Rightarrow> 'v option) \<Rightarrow> alert_config option" where
  "read_alerts C tbl = do {
     dir \<leftarrow> setting tbl (cc_as_text C) ''alerts.directory'';
     filename \<leftarrow> setting tbl (cc_as_text C) ''alerts.filename'';
     debug \<leftarrow> setting tbl (as_match_debug C) ''alerts.match_debug'';
     Some \<lparr>al_directory = dir, al_filename = filename, al_match_debug = debug\<rparr> }"

definition read_response :: "'v config_crate \<Rightarrow> (string \<Rightarrow> 'v option) \<Rightarrow> response_config option" where
  "read_response C tbl = do {
     on \<leftarrow> setting tbl (cc_as_bool C) ''response.enabled'';
     prevention \<leftarrow> setting tbl (cc_as_bool C) ''response.prevention_enabled'';
     severity \<leftarrow> setting tbl (cc_as_text C) ''response.min_severity'';
     capacity \<leftarrow> setting tbl (as_nat C) ''response.channel_capacity'';
     images \<leftarrow> setting tbl (cc_as_list C) ''response.allowlist_images'';
     paths \<leftarrow> setting tbl (cc_as_list C) ''response.allowlist_paths'';
     Some \<lparr>rc_enabled = on, rc_prevention_enabled = prevention, rc_min_severity = severity,
       rc_channel_capacity = capacity, rc_allowlist_images = images, rc_allowlist_paths = paths\<rparr> }"

definition read_network :: "'v config_crate \<Rightarrow> (string \<Rightarrow> 'v option) \<Rightarrow> network_config option" where
  "read_network C tbl = do {
     on \<leftarrow> setting tbl (cc_as_bool C) ''network.aggregation_enabled'';
     entries \<leftarrow> setting tbl (as_nat C) ''network.aggregation_max_entries'';
     window \<leftarrow> setting tbl (as_u64 C) ''network.aggregation_window_secs'';
     buffer \<leftarrow> setting tbl (as_nat C) ''network.aggregation_interval_buffer_size'';
     Some \<lparr>nw_aggregation_enabled = on, nw_aggregation_max_entries = entries,
       nw_aggregation_window_secs = window, nw_aggregation_interval_buffer_size = buffer\<rparr> }"

definition read_ioc :: "'v config_crate \<Rightarrow> (string \<Rightarrow> 'v option) \<Rightarrow> ioc_config option" where
  "read_ioc C tbl = do {
     on \<leftarrow> setting tbl (cc_as_bool C) ''ioc.enabled'';
     hashes \<leftarrow> setting tbl (cc_as_text C) ''ioc.hashes_path'';
     ips \<leftarrow> setting tbl (cc_as_text C) ''ioc.ips_path'';
     domains \<leftarrow> setting tbl (cc_as_text C) ''ioc.domains_path'';
     regexes \<leftarrow> setting tbl (cc_as_text C) ''ioc.paths_regex_path'';
     severity \<leftarrow> setting tbl (cc_as_text C) ''ioc.default_severity'';
     max_size \<leftarrow> setting tbl (as_u64 C) ''ioc.max_file_size_mb'';
     paths \<leftarrow> setting tbl (cc_as_list C) ''ioc.hash_allowlist_paths'';
     Some \<lparr>cf_enabled = on, cf_default_severity = severity, cf_hashes_path = hashes,
       cf_ips_path = ips, cf_domains_path = domains, cf_paths_regex_path = regexes,
       cf_max_file_size_mb = max_size, cf_hash_allowlist_paths = paths\<rparr> }"

definition read_reload :: "'v config_crate \<Rightarrow> (string \<Rightarrow> 'v option) \<Rightarrow> reload_settings option" where
  "read_reload C tbl = do {
     on \<leftarrow> setting tbl (cc_as_bool C) ''reload.enabled'';
     debounce \<leftarrow> setting tbl (as_u64 C) ''reload.debounce_ms'';
     interval \<leftarrow> setting tbl (as_u64 C) ''reload.fallback_poll_interval_ms'';
     Some \<lparr>rd_enabled = on, rd_debounce_ms = debounce, rd_fallback_poll_interval_ms = interval\<rparr> }"

definition read_dedup :: "'v config_crate \<Rightarrow> (string \<Rightarrow> 'v option) \<Rightarrow> dedup_config option" where
  "read_dedup C tbl = do {
     on \<leftarrow> setting tbl (cc_as_bool C) ''dedup.enabled'';
     window \<leftarrow> setting tbl (as_u64 C) ''dedup.window_secs'';
     entries \<leftarrow> setting tbl (as_nat C) ''dedup.max_entries'';
     Some \<lparr>dc_enabled = on, dc_window_secs = window, dc_max_entries = entries\<rparr> }"

definition read_config :: "'v config_crate \<Rightarrow> (string \<Rightarrow> 'v option) \<Rightarrow> app_config option" where
  "read_config C tbl = do {
     scanner \<leftarrow> read_scanner C tbl;
     logging \<leftarrow> read_logging C tbl;
     alerts \<leftarrow> read_alerts C tbl;
     allowlist \<leftarrow> setting tbl (cc_as_list C) ''allowlist.paths'';
     response \<leftarrow> read_response C tbl;
     network \<leftarrow> read_network C tbl;
     ioc \<leftarrow> read_ioc C tbl;
     reload \<leftarrow> read_reload C tbl;
     dedup \<leftarrow> read_dedup C tbl;
     Some \<lparr>ac_scanner = scanner, ac_logging = logging, ac_alerts = alerts, ac_allowlist = allowlist,
       ac_response = response, ac_network = network, ac_ioc = ioc, ac_reload = reload,
       ac_dedup = dedup\<rparr> }"

section \<open>Choosing the file\<close>

record config_load_options =
  lo_explicit_config :: "string option"
  lo_env_config :: "string option"
  lo_managed_config :: string
  lo_exe_config :: "string option"
  lo_cwd_config :: string

datatype config_source = Explicit | Environment | Managed | Executable | Current_Directory

definition selected_config ::
    "(string \<Rightarrow> bool) \<Rightarrow> config_load_options \<Rightarrow> (config_source \<times> string) option" where
  "selected_config exists opts =
     (case lo_explicit_config opts of
        Some path \<Rightarrow> Some (Explicit, path)
      | None \<Rightarrow>
     (case lo_env_config opts of
        Some path \<Rightarrow> Some (Environment, path)
      | None \<Rightarrow>
     (if exists (lo_managed_config opts) then Some (Managed, lo_managed_config opts)
      else
        case (case lo_exe_config opts of
                Some path \<Rightarrow> if exists path then Some (Executable, path) else None
              | None \<Rightarrow> None) of
          Some selected \<Rightarrow> Some selected
        | None \<Rightarrow>
            if exists (lo_cwd_config opts) then Some (Current_Directory, lo_cwd_config opts)
            else None)))"

definition absolute_config_path :: "string option \<Rightarrow> string \<Rightarrow> string" where
  "absolute_config_path cwd path =
     (if is_absolute path then path
      else case cwd of Some d \<Rightarrow> path_join d path | None \<Rightarrow> path)"

definition from_options ::
    "'v config_crate \<Rightarrow> platform \<Rightarrow> (string \<Rightarrow> bool) \<Rightarrow> (string \<Rightarrow> bool) \<Rightarrow> string option \<Rightarrow>
     config_load_options \<Rightarrow> app_config option" where
  "from_options C p exists env_set cwd opts =
     (let selected = map_option (\<lambda>(source, path). absolute_config_path cwd path)
            (selected_config exists opts);
          config_dir = Option.bind selected path_parent
      in do {
        tbl \<leftarrow> cc_build C (config_defaults C p) selected;
        cfg \<leftarrow> read_config C tbl;
        Some (apply_allowlist_fallbacks
          (case config_dir of
             Some d \<Rightarrow> resolve_relative_paths env_set d cfg
           | None \<Rightarrow> cfg)) })"

section \<open>Layouts\<close>

record install_layout =
  il_platform :: platform
  il_config_file :: string
  il_rules_dir :: string
  il_sigma_rules_dir :: string
  il_yara_rules_dir :: string
  il_ioc_dir :: string
  il_logs_dir :: string
  il_alerts_dir :: string

definition layout_join :: "platform \<Rightarrow> string \<Rightarrow> string \<Rightarrow> string" where
  "layout_join p base child =
     rev (dropWhile (\<lambda>c. c = CHR ''/'' \<or> c = backslash) (rev base)) @
     (case p of Windows \<Rightarrow> [backslash] | _ \<Rightarrow> ''/'') @ child"

definition from_roots :: "platform \<Rightarrow> string \<Rightarrow> string \<Rightarrow> string \<Rightarrow> install_layout" where
  "from_roots p config_file rules_dir logs_dir =
     (let current_dir = layout_join p rules_dir ''current'' in
      \<lparr>il_platform = p, il_config_file = config_file, il_rules_dir = rules_dir,
       il_sigma_rules_dir = layout_join p current_dir ''sigma'',
       il_yara_rules_dir = layout_join p current_dir ''yara'',
       il_ioc_dir = layout_join p current_dir ''ioc'',
       il_logs_dir = logs_dir, il_alerts_dir = logs_dir\<rparr>)"

definition managed_layout :: "platform \<Rightarrow> install_layout" where
  "managed_layout p = (case p of
     Windows \<Rightarrow>
       (let d = [''C:'', ''ProgramData'', ''Rustinel''] in
        \<lparr>il_platform = p, il_config_file = win_path (d @ [''config.toml'']),
         il_rules_dir = win_path (d @ [''rules'']),
         il_sigma_rules_dir = win_path (d @ [''rules'', ''current'', ''sigma'']),
         il_yara_rules_dir = win_path (d @ [''rules'', ''current'', ''yara'']),
         il_ioc_dir = win_path (d @ [''rules'', ''current'', ''ioc'']),
         il_logs_dir = win_path (d @ [''logs'']), il_alerts_dir = win_path (d @ [''logs''])\<rparr>)
   | Linux \<Rightarrow> from_roots p ''/etc/rustinel/config.toml'' ''/var/lib/rustinel/rules'' ''/var/log/rustinel''
   | MacOS \<Rightarrow> from_roots p ''/Library/Application Support/Rustinel/config.toml''
       ''/Library/Application Support/Rustinel/rules'' ''/Library/Logs/Rustinel'')"

definition portable_layout :: "platform \<Rightarrow> string \<Rightarrow> install_layout" where
  "portable_layout p root =
     (let rules_dir = path_join root ''rules''; logs_dir = path_join root ''logs'' in
      \<lparr>il_platform = p, il_config_file = path_join root ''config.toml'', il_rules_dir = rules_dir,
       il_sigma_rules_dir = path_join rules_dir ''sigma'',
       il_yara_rules_dir = path_join rules_dir ''yara'', il_ioc_dir = path_join rules_dir ''ioc'',
       il_logs_dir = logs_dir, il_alerts_dir = logs_dir\<rparr>)"

definition managed_config :: "install_layout \<Rightarrow> app_config" where
  "managed_config l =
     (let cfg = default_config (il_platform l);
          f = layout_join (il_platform l) (il_ioc_dir l)
      in cfg\<lparr>
        ac_scanner := (ac_scanner cfg)\<lparr>sc_sigma_rules_path := il_sigma_rules_dir l,
          sc_yara_rules_path := il_yara_rules_dir l\<rparr>,
        ac_logging := (ac_logging cfg)\<lparr>lg_directory := il_logs_dir l\<rparr>,
        ac_alerts := (ac_alerts cfg)\<lparr>al_directory := il_alerts_dir l\<rparr>,
        ac_ioc := (ac_ioc cfg)\<lparr>cf_hashes_path := f ''hashes.txt'', cf_ips_path := f ''ips.txt'',
          cf_domains_path := f ''domains.txt'', cf_paths_regex_path := f ''paths_regex.txt''\<rparr>\<rparr>)"

definition from_runtime ::
    "platform \<Rightarrow> string option \<Rightarrow> string option \<Rightarrow> string option \<Rightarrow> config_load_options" where
  "from_runtime p env_config exe explicit_config = \<lparr>
     lo_explicit_config = explicit_config, lo_env_config = env_config,
     lo_managed_config = il_config_file (managed_layout p),
     lo_exe_config = map_option (\<lambda>d. path_join d ''config'' @ ''.toml'') (Option.bind exe path_parent),
     lo_cwd_config = ''config.toml''\<rparr>"

section \<open>Properties\<close>

text \<open>What the \<open>config\<close> crate does with defaults alone, and with values of its own kinds.\<close>

definition plain_values :: "'v config_crate \<Rightarrow> bool" where
  "plain_values C \<longleftrightarrow>
     (\<forall>b. cc_as_bool C (cc_bool C b) = Some b) \<and> (\<forall>n. cc_as_int C (cc_int C n) = Some n) \<and>
     (\<forall>w. cc_as_text C (cc_text C w) = Some w) \<and> (\<forall>ws. cc_as_list C (cc_list C ws) = Some ws) \<and>
     (\<forall>w vs. w \<in> set vs \<longrightarrow> cc_as_variant C vs (cc_text C w) = Some w)"

definition plain_build :: "'v config_crate \<Rightarrow> bool" where
  "plain_build C \<longleftrightarrow>
     (\<forall>ds. distinct (map fst ds) \<longrightarrow> cc_build C ds None = Some (map_of ds))"

lemma default_keys_distinct: "distinct (map fst (config_defaults C p))"
  by (simp add: config_defaults_def)

lemma plain_reads:
  assumes "plain_values C"
  shows "cc_as_bool C (cc_bool C b) = Some b" and "cc_as_text C (cc_text C w) = Some w"
    and "cc_as_list C (cc_list C ws) = Some ws"
    and "0 \<le> n \<Longrightarrow> n < 2 ^ 64 \<Longrightarrow> as_nat C (cc_int C n) = Some (nat n)"
    and "0 \<le> n \<Longrightarrow> n < 2 ^ 64 \<Longrightarrow> as_u64 C (cc_int C n) = Some (of_nat (nat n))"
    and "as_match_debug C (cc_text C ''off'') = Some DebugOff"
proof -
  have "cc_as_variant C [''off'', ''summary'', ''full''] (cc_text C ''off'') = Some ''off''"
    using assms by (simp add: plain_values_def)
  then show "as_match_debug C (cc_text C ''off'') = Some DebugOff"
    by (simp add: as_match_debug_def match_debug_of_def)
qed (use assms in \<open>simp_all add: plain_values_def as_nat_def as_u64_def\<close>)

lemma bind_default:
  assumes "config_defaults C p = ds" and "(k, v) \<in> set ds" and "kind v = Some x" and "f x = r"
  shows "Option.bind (setting (map_of (config_defaults C p)) kind k) f = r"
  using assms map_of_is_SomeI [OF default_keys_distinct [of C p], of k v] by (simp add: setting_def)

lemma bind_unset: "f None = r \<Longrightarrow> Option.bind (Some None) f = r"
  by simp

lemma no_default_filter: "map_of (config_defaults C p) ''logging.filter'' = None"
  by (simp add: map_of_eq_None_iff config_defaults_def)

lemma read_default_sections:
  assumes "plain_values C"
  defines "tbl \<equiv> \<lambda>p. map_of (config_defaults C p)"
  shows "read_scanner C (tbl p) = Some (ac_scanner (default_settings p))"
    and "read_logging C (tbl p) = Some (ac_logging (default_settings p))"
    and "read_alerts C (tbl p) = Some (ac_alerts (default_settings p))"
    and "setting (tbl p) (cc_as_list C) ''allowlist.paths'' = Some (ac_allowlist (default_settings p))"
    and "read_response C (tbl p) = Some (ac_response (default_settings p))"
    and "read_network C (tbl p) = Some (ac_network (default_settings p))"
    and "read_ioc C (tbl p) = Some (ac_ioc (default_settings p))"
    and "read_reload C (tbl p) = Some (ac_reload (default_settings p))"
    and "read_dedup C (tbl p) = Some (ac_dedup (default_settings p))"
proof -
  note reads = plain_reads [OF assms(1)]
  show "read_scanner C (tbl p) = Some (ac_scanner (default_settings p))"
    unfolding tbl_def read_scanner_def
    by ((rule bind_default [OF config_defaults_def], (rule list.set_intros)+, (rule reads; simp))+,
        simp add: default_settings_def)
  show "read_logging C (tbl p) = Some (ac_logging (default_settings p))"
    unfolding tbl_def read_logging_def no_default_filter option.case
    by ((rule bind_default [OF config_defaults_def], (rule list.set_intros)+, (rule reads; simp)
          | rule bind_unset)+,
        simp add: default_settings_def)
  show "read_alerts C (tbl p) = Some (ac_alerts (default_settings p))"
    unfolding tbl_def read_alerts_def
    by ((rule bind_default [OF config_defaults_def], (rule list.set_intros)+, (rule reads; simp))+,
        simp add: default_settings_def)
  show "read_response C (tbl p) = Some (ac_response (default_settings p))"
    unfolding tbl_def read_response_def
    by ((rule bind_default [OF config_defaults_def], (rule list.set_intros)+, (rule reads; simp))+,
        simp add: default_settings_def)
  show "read_network C (tbl p) = Some (ac_network (default_settings p))"
    unfolding tbl_def read_network_def
    by ((rule bind_default [OF config_defaults_def], (rule list.set_intros)+, (rule reads; simp))+,
        simp add: default_settings_def)
  show "read_ioc C (tbl p) = Some (ac_ioc (default_settings p))"
    unfolding tbl_def read_ioc_def
    by ((rule bind_default [OF config_defaults_def], (rule list.set_intros)+, (rule reads; simp))+,
        simp add: default_settings_def)
  show "read_reload C (tbl p) = Some (ac_reload (default_settings p))"
    unfolding tbl_def read_reload_def
    by ((rule bind_default [OF config_defaults_def], (rule list.set_intros)+, (rule reads; simp))+,
        simp add: default_settings_def)
  show "read_dedup C (tbl p) = Some (ac_dedup (default_settings p))"
    unfolding tbl_def read_dedup_def
    by ((rule bind_default [OF config_defaults_def], (rule list.set_intros)+, (rule reads; simp))+,
        simp add: default_settings_def)
  show "setting (tbl p) (cc_as_list C) ''allowlist.paths'' = Some (ac_allowlist (default_settings p))"
    unfolding tbl_def
    by (rule trans [OF Option.bind_runit [symmetric]], rule bind_default [OF config_defaults_def],
        (rule list.set_intros)+, (rule reads; simp), simp add: default_settings_def)
qed

lemma read_default_config:
  "plain_values C \<Longrightarrow> read_config C (map_of (config_defaults C p)) = Some (default_settings p)"
  by (cases "default_settings p") (simp add: read_config_def read_default_sections)

text \<open>
  C14: the two lists of defaults agree. Without a file and without environment variables the loaded
  configuration is \<open>AppConfig::default\<close>, field by field, and the allowlists of the modules are the
  global one.
\<close>

theorem config_defaults_agree:
  assumes "plain_values C" and "plain_build C" and "selected_config exists opts = None"
  shows "from_options C p exists env_set cwd opts = Some (default_config p)"
proof -
  have "cc_build C (config_defaults C p) None = Some (map_of (config_defaults C p))"
    using assms(2) default_keys_distinct [of C p] by (simp add: plain_build_def)
  then show ?thesis
    using assms(3) by (simp add: from_options_def read_default_config [OF assms(1)] default_config_def)
qed

text \<open>
  The path settings, each with the environment variables that switch its resolution off; an empty
  allowlist of a module stands for the global one.
\<close>

definition config_paths :: "app_config \<Rightarrow> (string list \<times> string) list" where
  "config_paths cfg = [
     ([''SCANNER__SIGMA_RULES_PATH''], sc_sigma_rules_path (ac_scanner cfg)),
     ([''SCANNER__YARA_RULES_PATH''], sc_yara_rules_path (ac_scanner cfg)),
     ([''LOGGING__DIRECTORY''], lg_directory (ac_logging cfg)),
     ([''ALERTS__DIRECTORY''], al_directory (ac_alerts cfg)),
     ([''IOC__HASHES_PATH''], cf_hashes_path (ac_ioc cfg)),
     ([''IOC__IPS_PATH''], cf_ips_path (ac_ioc cfg)),
     ([''IOC__DOMAINS_PATH''], cf_domains_path (ac_ioc cfg)),
     ([''IOC__PATHS_REGEX_PATH''], cf_paths_regex_path (ac_ioc cfg))] @
     map (\<lambda>q. ([''ALLOWLIST__PATHS''], q)) (ac_allowlist cfg) @
     map (\<lambda>q. ([''RESPONSE__ALLOWLIST_PATHS'', ''ALLOWLIST__PATHS''], q)) (rc_allowlist_paths (ac_response cfg)) @
     map (\<lambda>q. ([''SCANNER__YARA_ALLOWLIST_PATHS'', ''ALLOWLIST__PATHS''], q)) (sc_yara_allowlist_paths (ac_scanner cfg)) @
     map (\<lambda>q. ([''IOC__HASH_ALLOWLIST_PATHS'', ''ALLOWLIST__PATHS''], q)) (cf_hash_allowlist_paths (ac_ioc cfg))"

lemma path_join_absolute: "is_absolute a \<Longrightarrow> is_absolute (path_join a b)"
  by (cases a) (auto simp: path_join_def is_absolute_def)

lemma resolved_absolute:
  "is_absolute d \<Longrightarrow> \<not> overridden env_set k \<Longrightarrow> is_absolute (resolve_path_from_config env_set d k q)"
  "is_absolute d \<Longrightarrow> \<not> overridden env_set k \<Longrightarrow>
     q \<in> set (resolve_path_list_from_config env_set d k qs) \<Longrightarrow> is_absolute q"
  by (auto simp: resolve_path_from_config_def resolve_path_list_from_config_def resolve_path_list_def
      resolve_path_def path_join_absolute)

lemma resolve_relative_paths_fields:
  "sc_sigma_rules_path (ac_scanner (resolve_relative_paths e d cfg)) =
     resolve_path_from_config e d ''SCANNER__SIGMA_RULES_PATH'' (sc_sigma_rules_path (ac_scanner cfg))"
  "sc_yara_rules_path (ac_scanner (resolve_relative_paths e d cfg)) =
     resolve_path_from_config e d ''SCANNER__YARA_RULES_PATH'' (sc_yara_rules_path (ac_scanner cfg))"
  "lg_directory (ac_logging (resolve_relative_paths e d cfg)) =
     resolve_path_from_config e d ''LOGGING__DIRECTORY'' (lg_directory (ac_logging cfg))"
  "al_directory (ac_alerts (resolve_relative_paths e d cfg)) =
     resolve_path_from_config e d ''ALERTS__DIRECTORY'' (al_directory (ac_alerts cfg))"
  "cf_hashes_path (ac_ioc (resolve_relative_paths e d cfg)) =
     resolve_path_from_config e d ''IOC__HASHES_PATH'' (cf_hashes_path (ac_ioc cfg))"
  "cf_ips_path (ac_ioc (resolve_relative_paths e d cfg)) =
     resolve_path_from_config e d ''IOC__IPS_PATH'' (cf_ips_path (ac_ioc cfg))"
  "cf_domains_path (ac_ioc (resolve_relative_paths e d cfg)) =
     resolve_path_from_config e d ''IOC__DOMAINS_PATH'' (cf_domains_path (ac_ioc cfg))"
  "cf_paths_regex_path (ac_ioc (resolve_relative_paths e d cfg)) =
     resolve_path_from_config e d ''IOC__PATHS_REGEX_PATH'' (cf_paths_regex_path (ac_ioc cfg))"
  "ac_allowlist (resolve_relative_paths e d cfg) =
     resolve_path_list_from_config e d ''ALLOWLIST__PATHS'' (ac_allowlist cfg)"
  "rc_allowlist_paths (ac_response (resolve_relative_paths e d cfg)) =
     resolve_path_list_from_config e d ''RESPONSE__ALLOWLIST_PATHS'' (rc_allowlist_paths (ac_response cfg))"
  "sc_yara_allowlist_paths (ac_scanner (resolve_relative_paths e d cfg)) =
     resolve_path_list_from_config e d ''SCANNER__YARA_ALLOWLIST_PATHS'' (sc_yara_allowlist_paths (ac_scanner cfg))"
  "cf_hash_allowlist_paths (ac_ioc (resolve_relative_paths e d cfg)) =
     resolve_path_list_from_config e d ''IOC__HASH_ALLOWLIST_PATHS'' (cf_hash_allowlist_paths (ac_ioc cfg))"
  by (simp_all add: resolve_relative_paths_def Let_def)

lemma fallback_fields [simp]:
  "sc_sigma_rules_path (ac_scanner (apply_allowlist_fallbacks cfg)) = sc_sigma_rules_path (ac_scanner cfg)"
  "sc_yara_rules_path (ac_scanner (apply_allowlist_fallbacks cfg)) = sc_yara_rules_path (ac_scanner cfg)"
  "ac_logging (apply_allowlist_fallbacks cfg) = ac_logging cfg"
  "ac_alerts (apply_allowlist_fallbacks cfg) = ac_alerts cfg"
  "ac_allowlist (apply_allowlist_fallbacks cfg) = ac_allowlist cfg"
  "cf_hashes_path (ac_ioc (apply_allowlist_fallbacks cfg)) = cf_hashes_path (ac_ioc cfg)"
  "cf_ips_path (ac_ioc (apply_allowlist_fallbacks cfg)) = cf_ips_path (ac_ioc cfg)"
  "cf_domains_path (ac_ioc (apply_allowlist_fallbacks cfg)) = cf_domains_path (ac_ioc cfg)"
  "cf_paths_regex_path (ac_ioc (apply_allowlist_fallbacks cfg)) = cf_paths_regex_path (ac_ioc cfg)"
  "rc_allowlist_paths (ac_response (apply_allowlist_fallbacks cfg)) =
     (if rc_allowlist_paths (ac_response cfg) = [] then ac_allowlist cfg
      else rc_allowlist_paths (ac_response cfg))"
  "sc_yara_allowlist_paths (ac_scanner (apply_allowlist_fallbacks cfg)) =
     (if sc_yara_allowlist_paths (ac_scanner cfg) = [] then ac_allowlist cfg
      else sc_yara_allowlist_paths (ac_scanner cfg))"
  "cf_hash_allowlist_paths (ac_ioc (apply_allowlist_fallbacks cfg)) =
     (if cf_hash_allowlist_paths (ac_ioc cfg) = [] then ac_allowlist cfg
      else cf_hash_allowlist_paths (ac_ioc cfg))"
  by (simp_all add: apply_allowlist_fallbacks_def Let_def)

lemma path_parent_absolute: "is_absolute s \<Longrightarrow> path_parent s = Some d \<Longrightarrow> is_absolute d"
  by (cases s) (auto simp: path_parent_def path_start_def is_absolute_def Let_def split: if_splits)

lemma rooted_after_resolution:
  assumes "is_absolute d"
    and "(ks, q) \<in> set (config_paths (apply_allowlist_fallbacks (resolve_relative_paths env_set d cfg)))"
    and "\<forall>k \<in> set ks. \<not> overridden env_set k"
  shows "is_absolute q"
proof -
  define good where "good = (\<lambda>(ks, q). (\<forall>k \<in> set ks. \<not> overridden env_set k) \<longrightarrow> is_absolute q)"
  have one: "good ([k], resolve_path_from_config env_set d k q)" for k q
    using assms(1) by (simp add: good_def resolved_absolute)
  have many: "good (ks, q)" if "q \<in> set (resolve_path_list_from_config env_set d k qs)" "k \<in> set ks" for ks k q qs
    using assms(1) that resolved_absolute(2) [of d env_set k q qs] by (auto simp: good_def)
  have "\<forall>x \<in> set (config_paths (apply_allowlist_fallbacks (resolve_relative_paths env_set d cfg))). good x"
    unfolding config_paths_def fallback_fields resolve_relative_paths_fields
    by (auto simp: one intro: many split: if_splits)
  with assms(2,3) show ?thesis by (auto simp: good_def)
qed


lemma trim_end_keeps:
  assumes "\<forall>w \<in> set white_space. c \<notin> set w"
  shows "\<exists>r'. trim_end (a @ c # r) = a @ c # r'"
proof (induction "a @ c # r" arbitrary: r rule: trim_end.induct)
  case 1
  show ?case
  proof (cases "find (ends_with (a @ c # r)) white_space")
    case None
    then show ?thesis by (simp add: trim_end.simps [of "a @ c # r"])
  next
    case (Some w)
    then have w: "w \<in> set white_space" "suffix w (a @ c # r)"
      by (auto simp: find_Some_iff dest: nth_mem)
    with assms have c: "c \<notin> set w" by blast
    have "suffix r ((a @ [c]) @ r)" by (rule suffixI) simp
    with w(2) have "suffix w r \<or> suffix r w" using suffix_same_cases [of w "(a @ [c]) @ r" r] by simp
    moreover have "suffix w r" if "suffix r w"
    proof -
      from that obtain z where z: "w = z @ r" by (auto simp: suffix_def)
      with w(2) have "suffix (z @ r) ((a @ [c]) @ r)" by simp
      then have "suffix z (a @ [c])" by (simp only: same_suffix_suffix)
      with c z have "z = []" by (auto simp: suffix_snoc)
      with z show ?thesis by simp
    qed
    ultimately have "suffix w r" by blast
    then obtain r0 where "r = r0 @ w" by (auto simp: suffix_def)
    then have "take (length (a @ c # r) - length w) (a @ c # r) = a @ c # r0" by simp
    with Some 1 [OF Some, of r0] show ?thesis by (simp add: trim_end.simps [of "a @ c # r"])
  qed
qed

lemma trim_keeps_prefix:
  assumes "d \<noteq> []" and "byte (hd d) \<in> {33..126}" and "byte (last d) \<in> {33..126}"
    and "\<forall>w \<in> set white_space. last d \<notin> set w"
  shows "prefix d (str_trim (d @ rest))"
proof -
  have "\<not> starts_with (d @ rest) w" if w: "w \<in> set white_space" for w
  proof -
    have "hd d \<noteq> hd w" using white_space_ends [OF w] assms(2) by auto
    then show ?thesis using white_space_not_Nil [OF w] assms(1) by (cases d; cases w) auto
  qed
  then have "find (starts_with (d @ rest)) white_space = None" by (auto simp: find_None_space)
  then have "trim_start (d @ rest) = d @ rest" by (simp add: trim_start.simps [of "d @ rest"])
  moreover obtain r' where "trim_end (butlast d @ last d # rest) = butlast d @ last d # r'"
    using trim_end_keeps [OF assms(4)] by blast
  moreover have "d = butlast d @ [last d]" using assms(1) by simp
  ultimately show ?thesis by (metis append.assoc append_Cons append_Nil prefixI str_trim_def)
qed

lemma str_replace_char: "str_replace [c] t s = concat (map (\<lambda>x. if x = c then t else [x]) s)"
proof (induction s)
  case (Cons a s)
  then show ?case by (auto simp: str_replace.simps [of "[c]" t "a # s"])
qed (simp add: str_replace.simps)

lemma normalized_prefix:
  assumes "prefix d (str_trim (d @ rest))" and "str_trim d = d"
  shows "prefix (normalize_path_for_comparison p d) (normalize_path_for_comparison p (d @ rest))"
  using assms by (auto simp: normalize_path_for_comparison_def str_replace_char prefix_def)

lemma separator_no_space: "w \<in> set white_space \<Longrightarrow> path_sep p \<notin> set w"
proof -
  have "\<forall>w \<in> set white_space. CHR ''/'' \<notin> set w \<and> backslash \<notin> set w" by code_simp
  then show "w \<in> set white_space \<Longrightarrow> path_sep p \<notin> set w" by (auto simp: path_sep_def)
qed

lemma normalized_separator:
  assumes "str_trim d = d" and "d \<noteq> []" and "last d = path_sep p"
  shows "ends_with (normalize_path_for_comparison p d) [path_sep p]"
proof -
  have "d = butlast d @ [path_sep p]" using assms(2,3) by (metis append_butlast_last_id)
  then obtain b where d: "d = b @ [path_sep p]" by blast
  show ?thesis
    using assms(1) by (auto simp: d normalize_path_for_comparison_def str_replace_char path_sep_def
        to_ascii_lowercase_def ascii_lower_def suffix_def)
qed

lemma default_paths_plain:
  "d \<in> set (default_allowlist_paths p) \<Longrightarrow>
     d \<noteq> [] \<and> byte (hd d) \<in> {33..126} \<and> last d = path_sep p"
  by (cases p) (auto simp: default_allowlist_paths_def win_path_def path_sep_def)

text \<open>
  C13: the programs of the system are safe from the response by default. With no allowlist configured,
  no alert whose process image lies below one of the default trusted directories is ever acted on,
  on any platform, whatever the other settings of the response are.
\<close>

theorem system_programs_never_terminated:
  assumes "ac_allowlist raw = default_allowlist_paths p" and "rc_allowlist_paths (ac_response raw) = []"
    and "dir \<in> set (default_allowlist_paths p)"
  shows "\<not> acts_on (decide_with (response_new p self (ac_response (apply_allowlist_fallbacks raw)))
    pid (Some (dir @ rest)))"
proof -
  have d: "dir \<noteq> []" "byte (hd dir) \<in> {33..126}" "last dir = path_sep p"
    using default_paths_plain [OF assms(3)] by blast+
  have last: "byte (last dir) \<in> {33..126}" by (simp add: d(3) path_sep_def)
  have space: "\<forall>w \<in> set white_space. last dir \<notin> set w" by (simp add: d(3) separator_no_space)
  have trim: "str_trim dir = dir" by (rule trim_printable [OF d(1,2) last])
  have trusted: "prefix (normalize_path_for_comparison p dir) (normalize_path_for_comparison p (dir @ rest))"
    by (rule normalized_prefix [OF trim_keeps_prefix [OF d(1,2) last space] trim])
  have "normalize_path_for_comparison p dir \<in> set (normalize_allowlist_paths p (default_allowlist_paths p))"
    using assms(3) d(1) trim normalized_separator [OF trim d(1,3)]
    by (force simp: normalize_allowlist_paths_def)
  with trusted have "is_allowlisted p (dir @ rest) imgs (normalize_allowlist_paths p (default_allowlist_paths p))" for imgs
    by (auto simp: is_allowlisted_def list_ex_iff Let_def)
  then show ?thesis
    using assms(1,2) by (simp add: decide_with_def decide_acts response_new_def)
qed

text \<open>
  An empty entry of an allowlist is dropped by the response; but when a file is chosen it is resolved
  first, and then trusts everything below the directory of the configuration.
\<close>

lemma blank_entry_trusts_config_dir:
  "normalize_allowlist_paths Linux [[]] = []"
  "normalize_allowlist_paths Linux (resolve_path_list ''/etc/rustinel'' [[]]) = [''/etc/rustinel/'']"
proof -
  have trim: "str_trim [] = []" "str_trim ''/etc/rustinel/'' = ''/etc/rustinel/''"
    by (code_simp, rule trim_printable) simp_all
  show "normalize_allowlist_paths Linux [[]] = []" by (simp add: normalize_allowlist_paths_def trim)
  have "normalize_path_for_comparison Linux ''/etc/rustinel/'' = ''/etc/rustinel/''"
    unfolding normalize_path_for_comparison_def trim by code_simp
  then show "normalize_allowlist_paths Linux (resolve_path_list ''/etc/rustinel'' [[]]) = [''/etc/rustinel/'']"
    by (simp add: normalize_allowlist_paths_def trim resolve_path_list_def resolve_path_def is_absolute_def
        path_join_def path_sep_def suffix_def)
qed

text \<open>
  A managed installation reads the rules where a pack is installed. The configuration file of the
  portable packages (\<open>config.toml\<close>) does not: a pack is installed into \<open>rules/current\<close>, the agent reads
  \<open>rules/sigma\<close>.
\<close>

lemma managed_reads_installed_pack:
  "p \<in> {Linux, MacOS} \<Longrightarrow>
     infer_rules_dir (il_sigma_rules_dir (managed_layout p)) = path_components (il_rules_dir (managed_layout p)) \<and>
     path_components (il_sigma_rules_dir (managed_layout p)) =
       path_components (il_rules_dir (managed_layout p)) @ [Normal ''current'', Normal ''sigma''] \<and>
     sc_sigma_rules_path (ac_scanner (managed_config (managed_layout p))) = il_sigma_rules_dir (managed_layout p)"
proof -
  have "\<forall>p \<in> {Linux, MacOS}.
     infer_rules_dir (il_sigma_rules_dir (managed_layout p)) = path_components (il_rules_dir (managed_layout p)) \<and>
     path_components (il_sigma_rules_dir (managed_layout p)) =
       path_components (il_rules_dir (managed_layout p)) @ [Normal ''current'', Normal ''sigma'']"
    by code_simp
  then show ?thesis if "p \<in> {Linux, MacOS}" using that by (auto simp: managed_config_def Let_def)
qed

lemma shipped_config_misses_pack:
  "path_components ''rules/sigma'' \<noteq> infer_rules_dir ''rules/sigma'' @ [Normal ''current'', Normal ''sigma'']"
  by code_simp

section \<open>Concrete instances\<close>

datatype demo_value = V_Bool bool | V_Int int | V_Text string | V_List "string list"

definition demo_format :: "demo_value config_crate" where
  "demo_format = \<lparr>cc_bool = V_Bool, cc_int = V_Int, cc_text = V_Text, cc_list = V_List,
     cc_build = (\<lambda>ds path. Some (map_of ds)),
     cc_as_bool = (\<lambda>v. case v of V_Bool b \<Rightarrow> Some b | _ \<Rightarrow> None),
     cc_as_int = (\<lambda>v. case v of V_Int n \<Rightarrow> Some n | _ \<Rightarrow> None),
     cc_as_text = (\<lambda>v. case v of V_Text w \<Rightarrow> Some w | _ \<Rightarrow> None),
     cc_as_list = (\<lambda>v. case v of V_List ws \<Rightarrow> Some ws | _ \<Rightarrow> None),
     cc_as_variant = (\<lambda>ws v. case v of V_Text w \<Rightarrow> if w \<in> set ws then Some w else None | _ \<Rightarrow> None)\<rparr>"

lemma demo_format_plain: "plain_values demo_format" "plain_build demo_format"
  by (simp_all add: demo_format_def plain_values_def plain_build_def)

lemma config_defaults_agree_witness:
  "from_options demo_format Linux (\<lambda>p. False) (\<lambda>k. False) (Some ''/'') (from_runtime Linux None None None) =
     Some (default_config Linux)"
  by (rule config_defaults_agree [OF demo_format_plain]) (simp add: selected_config_def from_runtime_def)


lemma system_programs_never_terminated_witness:
  "\<not> acts_on (decide_with (response_new Linux 100 (ac_response
     (apply_allowlist_fallbacks (default_settings Linux)))) (Some 77) (Some (''/usr/sbin/'' @ ''sshd'')))"
  by (rule system_programs_never_terminated) (simp_all add: default_settings_def default_allowlist_paths_def)

end
