(* ===== verification/Sigma_Load.thy ===== *)
theory Sigma_Load
  imports Sigma_Engine Paths Disk
begin

text \<open>
  From a directory of rule files to an engine.
  \<^item> \<open>src/engine/mod.rs\<close>: the names of the backends and how one is chosen, the constructors, the
    dispatch of \<open>check_event\<close>. The rsigma backend is a parameter of the dispatch.
  \<^item> \<open>src/engine/loader.rs\<close>: the walk over the directory tree and the splitting of a file into rule
    documents. YAML values are the record \<open>yaml\<close> of the operations of \<open>serde_yaml\<close> that are used.
  \<^item> \<open>src/engine/stats.rs\<close>: the statistics.
\<close>

section \<open>Backends\<close>

datatype sigma_engine_kind = Builtin | Rsigma

definition parse_engine_kind :: "string \<Rightarrow> sigma_engine_kind option" where
  "parse_engine_kind value =
     (let v = to_ascii_lowercase (str_trim value) in
      if v \<in> {''builtin'', ''built-in'', ''default''} then Some Builtin
      else if v = ''rsigma'' then Some Rsigma
      else None)"

definition is_available :: "bool \<Rightarrow> sigma_engine_kind \<Rightarrow> bool" where
  "is_available rsigma_feature kind = (case kind of Builtin \<Rightarrow> True | Rsigma \<Rightarrow> rsigma_feature)"

definition engine_kind_str :: "sigma_engine_kind \<Rightarrow> string" where
  "engine_kind_str kind = (case kind of Builtin \<Rightarrow> ''builtin'' | Rsigma \<Rightarrow> ''rsigma'')"

definition resolve_engine_kind ::
    "bool \<Rightarrow> sigma_engine_kind option \<Rightarrow> string \<Rightarrow> sigma_engine_kind option" where
  "resolve_engine_kind rsigma_feature cli configured =
     (case (case cli of Some kind \<Rightarrow> Some kind | None \<Rightarrow> parse_engine_kind configured) of
        None \<Rightarrow> None
      | Some kind \<Rightarrow> if is_available rsigma_feature kind then Some kind else None)"

datatype rule_logic_error_log_level = Log_Off | Log_Debug | Log_Warn

definition from_logging_level :: "string \<Rightarrow> rule_logic_error_log_level" where
  "from_logging_level level =
     (let v = to_ascii_lowercase (str_trim level) in
      if v \<in> {''debug'', ''trace''} then Log_Debug
      else if v \<in> {''warn'', ''warning''} then Log_Warn
      else Log_Off)"

text \<open>Without the feature the dispatch falls back to the built-in matcher.\<close>

definition check_event_of ::
    "sigma_engine_kind \<Rightarrow> ('ev \<Rightarrow> 'a option) option \<Rightarrow> ('ev \<Rightarrow> 'a option) \<Rightarrow> 'ev \<Rightarrow> 'a option" where
  "check_event_of kind check_rsigma check_builtin event =
     (case kind of
        Builtin \<Rightarrow> check_builtin event
      | Rsigma \<Rightarrow> (case check_rsigma of Some f \<Rightarrow> f event | None \<Rightarrow> check_builtin event))"

section \<open>Documents\<close>

record ('y, 'n) yaml =
  ya_documents :: "string \<Rightarrow> 'y option list"
  ya_is_null :: "'y \<Rightarrow> bool"
  ya_get :: "'y \<Rightarrow> string \<Rightarrow> 'y option"
  ya_as_str :: "'y \<Rightarrow> string option"
  ya_set :: "string \<Rightarrow> 'y \<Rightarrow> 'y \<Rightarrow> 'y"
  ya_remove :: "string \<Rightarrow> 'y \<Rightarrow> 'y"
  ya_rule :: "'y \<Rightarrow> 'n sigma_rule option"

datatype document_error = Bad_Document nat | No_Documents | Bad_Sub_Rule nat
  | Unsupported_Action string nat

fun read_documents ::
    "('y, 'n) yaml \<Rightarrow> nat \<Rightarrow> 'y option list \<Rightarrow> document_error + (nat \<times> 'y) list" where
  "read_documents Y i [] = Inr []"
| "read_documents Y i (None # docs) = Inl (Bad_Document (i + 1))"
| "read_documents Y i (Some v # docs) =
     (case read_documents Y (i + 1) docs of
        Inl e \<Rightarrow> Inl e
      | Inr rest \<Rightarrow> Inr (if ya_is_null Y v then rest else (i + 1, v) # rest))"

definition doc_action :: "('y, 'n) yaml \<Rightarrow> 'y \<Rightarrow> string option" where
  "doc_action Y doc = (case ya_get Y doc ''action'' of None \<Rightarrow> None | Some v \<Rightarrow> ya_as_str Y v)"

definition merge_global :: "('y, 'n) yaml \<Rightarrow> 'y \<Rightarrow> 'y \<Rightarrow> 'y" where
  "merge_global Y global_metadata doc =
     (let merged = global_metadata;
          merged = (case ya_get Y doc ''logsource'' of
              Some v \<Rightarrow> ya_set Y ''logsource'' v merged | None \<Rightarrow> merged);
          merged = (case ya_get Y doc ''detection'' of
              Some v \<Rightarrow> ya_set Y ''detection'' v merged | None \<Rightarrow> merged)
      in ya_remove Y ''action'' merged)"

fun sub_rules ::
    "('y, 'n) yaml \<Rightarrow> 'y \<Rightarrow> (nat \<times> 'y) list \<Rightarrow> document_error + 'n sigma_rule list" where
  "sub_rules Y g [] = Inr []"
| "sub_rules Y g ((i, doc) # docs) =
     (case ya_rule Y (merge_global Y g doc) of
        None \<Rightarrow> Inl (Bad_Sub_Rule i)
      | Some rule \<Rightarrow> (case sub_rules Y g docs of Inl e \<Rightarrow> Inl e | Inr rules \<Rightarrow> Inr (rule # rules)))"

fun plain_rules ::
    "('y, 'n) yaml \<Rightarrow> (nat \<times> 'y) list \<Rightarrow> document_error + 'n sigma_rule list" where
  "plain_rules Y [] = Inr []"
| "plain_rules Y ((i, doc) # docs) =
     (case doc_action Y doc of
        Some action \<Rightarrow> Inl (Unsupported_Action action i)
      | None \<Rightarrow>
          case ya_rule Y doc of
            None \<Rightarrow> Inl (Bad_Document i)
          | Some rule \<Rightarrow> (case plain_rules Y docs of Inl e \<Rightarrow> Inl e | Inr rules \<Rightarrow> Inr (rule # rules)))"

definition parse_rule_documents ::
    "('y, 'n) yaml \<Rightarrow> string \<Rightarrow> document_error + 'n sigma_rule list" where
  "parse_rule_documents Y content =
     (case read_documents Y 0 (ya_documents Y content) of
        Inl e \<Rightarrow> Inl e
      | Inr [] \<Rightarrow> Inl No_Documents
      | Inr ((i, first) # rest) \<Rightarrow>
          if doc_action Y first = Some ''global'' \<and> rest \<noteq> [] then sub_rules Y first rest
          else plain_rules Y ((i, first) # rest))"

section \<open>The directory\<close>

text \<open>\<open>Path::extension\<close> of the last name of a path.\<close>

definition name_extension :: "string \<Rightarrow> string option" where
  "name_extension w =
     (case rsplit_once CHR ''.'' w of
        None \<Rightarrow> None
      | Some (before, after) \<Rightarrow> if before = [] then None else Some after)"

definition is_rule_file :: "string \<Rightarrow> bool" where
  "is_rule_file w = (name_extension w = Some ''yml'' \<or> name_extension w = Some ''yaml'')"

text \<open>
  \<open>readable p\<close> says whether \<open>read_dir\<close> works on the directory \<open>p\<close>, and \<open>load p bytes\<close> is
  the loading of one file into the engine, which counts the file and records its failure. The walk
  stops at the first directory that cannot be read.
\<close>

fun load_entries ::
    "(path \<Rightarrow> bool) \<Rightarrow> (path \<Rightarrow> u8 list \<Rightarrow> 'en \<Rightarrow> 'en) \<Rightarrow> path \<Rightarrow> (string \<times> node) list \<Rightarrow> 'en \<Rightarrow> path + 'en"
  where
  "load_entries readable load p [] en = Inr en"
| "load_entries readable load p ((c, Dir cs) # es) en =
     (if \<not> readable (p @ [c]) then Inl (p @ [c])
      else case load_entries readable load (p @ [c]) cs en of
             Inl e \<Rightarrow> Inl e
           | Inr en' \<Rightarrow> load_entries readable load p es en')"
| "load_entries readable load p ((c, File b) # es) en =
     load_entries readable load p es (if is_rule_file c then load (p @ [c]) b en else en)"

definition load_rules_recursive ::
    "(path \<Rightarrow> bool) \<Rightarrow> (path \<Rightarrow> u8 list \<Rightarrow> 'en \<Rightarrow> 'en) \<Rightarrow> path \<Rightarrow> node \<Rightarrow> 'en \<Rightarrow> path + 'en" where
  "load_rules_recursive readable load p n en =
     (case n of
        File b \<Rightarrow> Inl p
      | Dir cs \<Rightarrow> if readable p then load_entries readable load p cs en else Inl p)"

text \<open>\<open>load_rules\<close>: a directory that does not exist is an empty one.\<close>

definition load_rules_dir ::
    "(path \<Rightarrow> bool) \<Rightarrow> (path \<Rightarrow> u8 list \<Rightarrow> 'en \<Rightarrow> 'en) \<Rightarrow> node \<Rightarrow> path \<Rightarrow> 'en \<Rightarrow> path + 'en" where
  "load_rules_dir readable load t p en =
     (case node_at t p of
        None \<Rightarrow> Inr en
      | Some n \<Rightarrow> load_rules_recursive readable load p n en)"

text \<open>One file: its bytes as UTF-8 text, its documents, its rules.\<close>

definition read_rule_file ::
    "('y, 'n) yaml \<Rightarrow> (u8 list \<Rightarrow> string option) \<Rightarrow> (document_error \<Rightarrow> string) \<Rightarrow> string \<Rightarrow>
     u8 list \<Rightarrow> string + 'n sigma_rule list" where
  "read_rule_file Y as_text show_document unreadable b =
     (case as_text b of
        None \<Rightarrow> Inl unreadable
      | Some content \<Rightarrow>
          (case parse_rule_documents Y content of
             Inl e \<Rightarrow> Inl (show_document e)
           | Inr rules \<Rightarrow> Inr rules))"

definition load_one ::
    "('re, 'net, 'f) crates \<Rightarrow> ('f, 'n, 'tree) rule_crates \<Rightarrow> (rule_error \<Rightarrow> string) \<Rightarrow>
     (path \<Rightarrow> string) \<Rightarrow> (u8 list \<Rightarrow> string + 'n sigma_rule list) \<Rightarrow> path \<Rightarrow> u8 list \<Rightarrow>
     ('re, 'net, 'f, 'n, 'tree) engine \<Rightarrow> ('re, 'net, 'f, 'n, 'tree) engine" where
  "load_one X Y show_error show_path parse p b = load_rule_file X Y show_error (show_path p, parse b)"

section \<open>Statistics\<close>

record engine_stats =
  st_total_rules :: nat
  st_rule_files_found :: nat
  st_rules_by_category :: "(string, nat) hmap"
  st_rules_by_logsource :: "(string, nat) hmap"
  st_deferred_logsource_rules :: "(string, nat) hmap"
  st_unknown_logsource_rules :: "(string, nat) hmap"
  st_failed_rules :: "(string \<times> string) list"
  st_skipped_product_rules :: nat
  st_skipped_deferred_rules :: nat
  st_skipped_unknown_logsource_rules :: nat
  st_inactive_collector_rules :: nat

definition category_of :: "log_source_key \<Rightarrow> string" where
  "category_of k = (case lk_category k of None \<Rightarrow> ''<none>'' | Some c \<Rightarrow> c)"

definition add_count :: "string \<Rightarrow> nat \<Rightarrow> (string, nat) hmap \<Rightarrow> (string, nat) hmap" where
  "add_count c n m = hm_insert c ((case hm_get m c of None \<Rightarrow> 0 | Some k \<Rightarrow> k) + n) m"

definition count_by_category :: "(log_source_key, 'r list) hmap \<Rightarrow> (string, nat) hmap" where
  "count_by_category m = fold (\<lambda>(k, rules). add_count (category_of k) (length rules)) m []"

text \<open>\<open>collect\<close> into a \<open>HashMap\<close>: a later entry of the same key wins.\<close>

definition collect_map :: "(string \<times> 'v) list \<Rightarrow> (string, 'v) hmap" where
  "collect_map kvs = fold (\<lambda>(k, v). hm_insert k v) kvs []"

definition engine_stats_of :: "('re, 'net, 'f, 'n, 'tree) engine \<Rightarrow> engine_stats" where
  "engine_stats_of en = \<lparr>
     st_total_rules = en_rule_count en,
     st_rule_files_found = en_rule_files_found en,
     st_rules_by_category = count_by_category (en_rules_by_logsource en),
     st_rules_by_logsource =
       collect_map (map (\<lambda>(k, rules). (key_display k, length rules)) (en_rules_by_logsource en)),
     st_deferred_logsource_rules =
       collect_map (map (\<lambda>(k, n). (key_display k, n)) (sk_deferred_counts (en_skips en))),
     st_unknown_logsource_rules =
       collect_map (map (\<lambda>(k, n). (key_display k, n)) (sk_unknown_counts (en_skips en))),
     st_failed_rules = en_failed_rules en,
     st_skipped_product_rules = sk_product (en_skips en),
     st_skipped_deferred_rules = sk_deferred (en_skips en),
     st_skipped_unknown_logsource_rules = sk_unknown (en_skips en),
     st_inactive_collector_rules = sk_inactive (en_skips en)\<rparr>"

section \<open>What a directory contributes\<close>

fun rule_files :: "path \<Rightarrow> (string \<times> node) list \<Rightarrow> (path \<times> u8 list) list" where
  "rule_files p [] = []"
| "rule_files p ((c, Dir cs) # es) = rule_files (p @ [c]) cs @ rule_files p es"
| "rule_files p ((c, File b) # es) =
     (if is_rule_file c then [(p @ [c], b)] else []) @ rule_files p es"

lemma load_entries_fold:
  "(\<And>q. readable q) \<Longrightarrow>
   load_entries readable load p es en = Inr (fold (\<lambda>(q, b). load q b) (rule_files p es) en)"
  by (induction readable load p es en rule: load_entries.induct) simp_all

text \<open>The names in a directory are distinct, as in every real file system.\<close>

fun names_distinct :: "(string \<times> node) list \<Rightarrow> bool" where
  "names_distinct [] = True"
| "names_distinct ((c, Dir cs) # es) \<longleftrightarrow>
     c \<notin> fst ` set es \<and> names_distinct cs \<and> names_distinct es"
| "names_distinct ((c, File b) # es) \<longleftrightarrow> c \<notin> fst ` set es \<and> names_distinct es"

lemma rule_files_below: "(q, b) \<in> set (rule_files p es) \<Longrightarrow> \<exists>c r. q = p @ c # r \<and> c \<in> fst ` set es"
  by (induction p es rule: rule_files.induct) (force split: if_splits)+

lemma rule_files_exact:
  "names_distinct es \<Longrightarrow>
   (q, b) \<in> set (rule_files p es) \<longleftrightarrow>
     (\<exists>r. r \<noteq> [] \<and> q = p @ r \<and> node_at (Dir es) r = Some (File b) \<and> is_rule_file (last r))"
proof (induction p es arbitrary: q rule: rule_files.induct)
  case (1 p)
  then show ?case by (auto simp: neq_Nil_conv)
next
  case (2 p c cs es)
  have here: "(q, b) \<in> set (rule_files (p @ [c]) cs) \<longleftrightarrow>
      (\<exists>r. r \<noteq> [] \<and> q = p @ c # r \<and> node_at (Dir cs) r = Some (File b) \<and> is_rule_file (last r))"
    using 2 by simp
  have there: "(q, b) \<in> set (rule_files p es) \<longleftrightarrow>
      (\<exists>r. r \<noteq> [] \<and> q = p @ r \<and> node_at (Dir es) r = Some (File b) \<and> is_rule_file (last r))"
    using 2 by simp
  have fresh: "hm_get es c = None" using 2 by (simp add: map_of_eq_None_iff)
  show ?case
  proof
    assume "(q, b) \<in> set (rule_files p ((c, Dir cs) # es))"
    then consider "(q, b) \<in> set (rule_files (p @ [c]) cs)" | "(q, b) \<in> set (rule_files p es)" by auto
    then show "\<exists>r. r \<noteq> [] \<and> q = p @ r \<and> node_at (Dir ((c, Dir cs) # es)) r = Some (File b) \<and>
        is_rule_file (last r)"
    proof cases
      case 1
      then obtain r where "r \<noteq> []" "q = p @ c # r" "node_at (Dir cs) r = Some (File b)"
        "is_rule_file (last r)" using here by blast
      then show ?thesis by (intro exI [of _ "c # r"]) simp
    next
      case 2
      then obtain r where r: "r \<noteq> []" "q = p @ r" "node_at (Dir es) r = Some (File b)"
        "is_rule_file (last r)" using there by blast
      then obtain d r' where "r = d # r'" by (cases r) auto
      with r fresh show ?thesis by (intro exI [of _ r]) (auto split: option.splits)
    qed
  next
    assume "\<exists>r. r \<noteq> [] \<and> q = p @ r \<and> node_at (Dir ((c, Dir cs) # es)) r = Some (File b) \<and>
        is_rule_file (last r)"
    then obtain d r where r: "q = p @ d # r" "node_at (Dir ((c, Dir cs) # es)) (d # r) = Some (File b)"
      "is_rule_file (last (d # r))" by (auto simp: neq_Nil_conv)
    show "(q, b) \<in> set (rule_files p ((c, Dir cs) # es))"
    proof (cases "d = c")
      case True
      with r have "r \<noteq> []" by (cases r) auto
      with r True here show ?thesis by auto
    next
      case False
      with r have "node_at (Dir es) (d # r) = Some (File b)" by simp
      with r there show ?thesis by auto
    qed
  qed
next
  case (3 p c d es)
  have there: "(q, b) \<in> set (rule_files p es) \<longleftrightarrow>
      (\<exists>r. r \<noteq> [] \<and> q = p @ r \<and> node_at (Dir es) r = Some (File b) \<and> is_rule_file (last r))"
    using 3 by simp
  have fresh: "hm_get es c = None" using 3 by (simp add: map_of_eq_None_iff)
  show ?case
  proof
    assume "(q, b) \<in> set (rule_files p ((c, File d) # es))"
    then consider "is_rule_file c" "q = p @ [c]" "b = d" | "(q, b) \<in> set (rule_files p es)"
      by (auto split: if_splits)
    then show "\<exists>r. r \<noteq> [] \<and> q = p @ r \<and> node_at (Dir ((c, File d) # es)) r = Some (File b) \<and>
        is_rule_file (last r)"
    proof cases
      case 1
      then show ?thesis by (intro exI [of _ "[c]"]) simp
    next
      case 2
      then obtain r where r: "r \<noteq> []" "q = p @ r" "node_at (Dir es) r = Some (File b)"
        "is_rule_file (last r)" using there by blast
      then obtain d' r' where "r = d' # r'" by (cases r) auto
      with r fresh show ?thesis by (intro exI [of _ r]) (auto split: option.splits)
    qed
  next
    assume "\<exists>r. r \<noteq> [] \<and> q = p @ r \<and> node_at (Dir ((c, File d) # es)) r = Some (File b) \<and>
        is_rule_file (last r)"
    then obtain e r where r: "q = p @ e # r" "node_at (Dir ((c, File d) # es)) (e # r) = Some (File b)"
      "is_rule_file (last (e # r))" by (auto simp: neq_Nil_conv)
    show "(q, b) \<in> set (rule_files p ((c, File d) # es))"
    proof (cases "e = c")
      case True
      with r have "r = []" by (cases r) auto
      with r True show ?thesis by auto
    next
      case False
      with r have "node_at (Dir es) (e # r) = Some (File b)" by simp
      with r there show ?thesis by auto
    qed
  qed
qed

lemma rule_files_distinct: "names_distinct es \<Longrightarrow> distinct (map fst (rule_files p es))"
proof (induction p es rule: rule_files.induct)
  case (2 p c cs es)
  have "q \<notin> fst ` set (rule_files p es)" if "q \<in> fst ` set (rule_files (p @ [c]) cs)" for q
    using that rule_files_below [of q _ "p @ [c]" cs] rule_files_below [of q _ p es] 2(3) by fastforce
  with 2 show ?case by auto
next
  case (3 p c d es)
  have "p @ [c] \<notin> fst ` set (rule_files p es)"
    using rule_files_below [of "p @ [c]" _ p es] 3(2) by fastforce
  with 3 show ?case by auto
qed simp

text \<open>
  C31: a rules directory contributes exactly its rule files. When every directory below it can be
  read, loading it is loading, one after the other, the files at any depth whose extension is yml
  or yaml, each once; a directory that does not exist contributes nothing, and one that cannot be
  read is an error.
\<close>

theorem rule_directory_loaded_exactly:
  "(node_at t p = None \<longrightarrow>
      load_rules_dir readable (load_one X Y se sp parse) t p en = Inr en) \<and>
   (\<forall>cs. node_at t p = Some (Dir cs) \<and> \<not> readable p \<longrightarrow>
      load_rules_dir readable (load_one X Y se sp parse) t p en = Inl p) \<and>
   (\<forall>cs. node_at t p = Some (Dir cs) \<and> (\<forall>q. readable q) \<and> names_distinct cs \<longrightarrow>
      (\<exists>files. load_rules_dir readable (load_one X Y se sp parse) t p en =
          Inr (load_rules X Y se (map (\<lambda>(q, b). (sp q, parse b)) files) en) \<and>
        distinct (map fst files) \<and>
        (\<forall>q b. (q, b) \<in> set files \<longleftrightarrow> node_at t q = Some (File b) \<and> strict_prefix p q \<and>
          is_rule_file (last q))))"
proof (intro conjI allI impI)
  fix cs assume a: "node_at t p = Some (Dir cs) \<and> (\<forall>q. readable q) \<and> names_distinct cs"
  let ?files = "rule_files p cs"
  have "load_rules_dir readable (load_one X Y se sp parse) t p en =
      Inr (fold (\<lambda>(q, b). load_one X Y se sp parse q b) ?files en)"
    using a load_entries_fold [of readable] by (simp add: load_rules_dir_def load_rules_recursive_def)
  also have "fold (\<lambda>(q, b). load_one X Y se sp parse q b) fs en' =
      load_rules X Y se (map (\<lambda>(q, b). (sp q, parse b)) fs) en'" for fs en'
    by (induction fs arbitrary: en') (auto simp: load_rules_def load_one_def)
  finally have 1: "load_rules_dir readable (load_one X Y se sp parse) t p en =
      Inr (load_rules X Y se (map (\<lambda>(q, b). (sp q, parse b)) ?files) en)" .
  have 2: "(q, b) \<in> set ?files \<longleftrightarrow> node_at t q = Some (File b) \<and> strict_prefix p q \<and>
      is_rule_file (last q)" for q b
    using a by (auto simp: rule_files_exact strict_prefix_def prefix_def node_at_append)
  show "\<exists>files. load_rules_dir readable (load_one X Y se sp parse) t p en =
          Inr (load_rules X Y se (map (\<lambda>(q, b). (sp q, parse b)) files) en) \<and>
        distinct (map fst files) \<and>
        (\<forall>q b. (q, b) \<in> set files \<longleftrightarrow> node_at t q = Some (File b) \<and> strict_prefix p q \<and>
          is_rule_file (last q))"
    using 1 2 a rule_files_distinct by blast
qed (auto simp: load_rules_dir_def load_rules_recursive_def)

definition demo_rules :: node where
  "demo_rules = Dir [(''r'', Dir [(''a.yml'', File [1]), (''b.txt'', File [2]),
     (''sub'', Dir [(''c.yaml'', File [3])])])]"

theorem rule_directory_loaded_exactly_witness:
  "\<forall>X Y se sp parse en. \<exists>files.
     load_rules_dir (\<lambda>q. True) (load_one X Y se sp parse) demo_rules [''r''] en =
       Inr (load_rules X Y se (map (\<lambda>(q, b). (sp q, parse b)) files) en) \<and>
     ([''r'', ''a.yml''], [1]) \<in> set files \<and> ([''r'', ''sub'', ''c.yaml''], [3]) \<in> set files \<and>
     ([''r'', ''b.txt''], [2]) \<notin> set files"
proof (intro allI)
  fix X Y se sp parse en
  have "node_at demo_rules [''r''] = Some (Dir [(''a.yml'', File [1]), (''b.txt'', File [2]),
      (''sub'', Dir [(''c.yaml'', File [3])])])"
    by (simp add: demo_rules_def)
  moreover have "names_distinct [(''a.yml'', File [1]), (''b.txt'', File [2]),
      (''sub'', Dir [(''c.yaml'', File [3])])]" by simp
  ultimately obtain files where f: "load_rules_dir (\<lambda>q. True) (load_one X Y se sp parse) demo_rules [''r''] en =
       Inr (load_rules X Y se (map (\<lambda>(q, b). (sp q, parse b)) files) en)"
    "\<forall>q b. (q, b) \<in> set files \<longleftrightarrow> node_at demo_rules q = Some (File b) \<and> strict_prefix [''r''] q \<and>
      is_rule_file (last q)"
    using rule_directory_loaded_exactly [of demo_rules "[''r'']" "\<lambda>q. True" X Y se sp parse en] by blast
  moreover have "is_rule_file ''a.yml''" "is_rule_file ''c.yaml''" "\<not> is_rule_file ''b.txt''"
    by (simp_all add: is_rule_file_def name_extension_def rsplit_once_def)
  ultimately show "\<exists>files.
     load_rules_dir (\<lambda>q. True) (load_one X Y se sp parse) demo_rules [''r''] en =
       Inr (load_rules X Y se (map (\<lambda>(q, b). (sp q, parse b)) files) en) \<and>
     ([''r'', ''a.yml''], [1]) \<in> set files \<and> ([''r'', ''sub'', ''c.yaml''], [3]) \<in> set files \<and>
     ([''r'', ''b.txt''], [2]) \<notin> set files"
    by (intro exI [of _ files]) (simp add: demo_rules_def strict_prefix_def)
qed

lemma sub_rules_length: "sub_rules Y g docs = Inr rules \<Longrightarrow> length rules = length docs"
  by (induction docs arbitrary: rules) (auto split: option.splits sum.splits)

lemma plain_rules_length: "plain_rules Y docs = Inr rules \<Longrightarrow> length rules = length docs"
  by (induction docs arbitrary: rules) (auto split: option.splits sum.splits)

text \<open>A file yields at least one rule, and at most one for each of its documents.\<close>

lemma parse_rule_documents_count:
  assumes "parse_rule_documents Y content = Inr rules"
  shows "0 < length rules \<and> length rules \<le> length (ya_documents Y content)"
proof -
  have read: "read_documents Y i docs = Inr ds \<Longrightarrow> length ds \<le> length docs" for i docs ds
    by (induction Y i docs arbitrary: ds rule: read_documents.induct)
      (fastforce split: sum.splits if_splits)+
  from assms obtain i first rest where d: "read_documents Y 0 (ya_documents Y content) = Inr ((i, first) # rest)"
    by (auto simp: parse_rule_documents_def split: sum.splits list.splits)
  with assms show ?thesis
    using read [OF d] sub_rules_length [of Y first rest rules] plain_rules_length [of Y "(i, first) # rest" rules]
    by (auto simp: parse_rule_documents_def split: if_splits)
qed

end
