(* ===== verification/Reload.thy ===== *)
theory Reload
  imports Sigma_Load Ioc
begin

text \<open>
  \<open>src/reload/mod.rs\<close>: the store of the detectors in use, the worker that reloads them and the poller
  that notices changed files.
  \<^item> A detector is swapped as a whole; a reader takes the pointer once for each event.
  \<^item> \<open>loaders\<close> are the three ways to build a detector from the files: the built-in Sigma engine of
    \<open>Sigma_Load\<close> and the indicator engine of \<open>Ioc\<close> are \<open>sigma_loader\<close> and \<open>ioc_loader\<close>; the YARA
    compiler is a crate.
  \<^item> The disk is the tree of \<open>Disk\<close> with the metadata of its files. Paths are canonical. The hash of
    the standard library is a parameter. The file watcher only decides when a poll happens.
\<close>

section \<open>Fingerprints\<close>

record disk =
  dk_tree :: node
  dk_meta :: "path \<Rightarrow> (u64 \<times> nat) option"
  dk_readable :: "path \<Rightarrow> bool"

datatype hash_item = Hash_Path path | Hash_U64 u64 | Hash_Nanos nat | Hash_Bool bool

record fingerprint =
  fp_digest :: u64
  fp_file_count :: u64
  fp_exists :: bool

definition matches_extension :: "string list \<Rightarrow> string \<Rightarrow> bool" where
  "matches_extension extensions w =
     (case name_extension w of
        None \<Rightarrow> False
      | Some ext \<Rightarrow> to_ascii_lowercase ext \<in> set extensions)"

fun sub_dirs :: "path \<Rightarrow> (string \<times> node) list \<Rightarrow> (path \<times> (string \<times> node) list) list" where
  "sub_dirs p [] = []"
| "sub_dirs p ((c, Dir cs) # es) = (p @ [c], cs) # sub_dirs p es"
| "sub_dirs p ((c, File b) # es) = sub_dirs p es"

fun file_items ::
    "(path \<Rightarrow> (u64 \<times> nat) option) \<Rightarrow> string list \<Rightarrow> path \<Rightarrow> (string \<times> node) list \<Rightarrow>
     (path \<times> u64 \<times> nat) list" where
  "file_items meta exts p [] = []"
| "file_items meta exts p ((c, Dir cs) # es) = file_items meta exts p es"
| "file_items meta exts p ((c, File b) # es) =
     (if matches_extension exts c then
        case meta (p @ [c]) of None \<Rightarrow> [] | Some (len, nanos) \<Rightarrow> [(p @ [c], len, nanos)]
      else []) @ file_items meta exts p es"

fun dir_count :: "(string \<times> node) list \<Rightarrow> nat" where
  "dir_count [] = 0"
| "dir_count ((c, Dir cs) # es) = Suc (dir_count cs + dir_count es)"
| "dir_count ((c, File b) # es) = dir_count es"

definition queue_size :: "(path \<times> (string \<times> node) list) list \<Rightarrow> nat" where
  "queue_size q = sum_list (map (\<lambda>(p, cs). Suc (dir_count cs)) q)"

lemma queue_size_sub_dirs: "queue_size (sub_dirs p es) = dir_count es"
  by (induction p es rule: sub_dirs.induct) (simp_all add: queue_size_def)

lemma queue_size_simps [simp]:
  "queue_size [] = 0" "queue_size ((p, cs) # q) = Suc (dir_count cs + queue_size q)"
  "queue_size (q @ r) = queue_size q + queue_size r"
  by (simp_all add: queue_size_def)

text \<open>The queue of directories still to be read.\<close>

function walk_dirs ::
    "disk \<Rightarrow> string list \<Rightarrow> (path \<times> (string \<times> node) list) list \<Rightarrow> (path \<times> u64 \<times> nat) list" where
  "walk_dirs d exts [] = []"
| "walk_dirs d exts ((p, cs) # queue) =
     (if \<not> dk_readable d p then walk_dirs d exts queue
      else file_items (dk_meta d) exts p cs @ walk_dirs d exts (queue @ sub_dirs p cs))"
  by pat_completeness auto
termination
  by (relation "measure (\<lambda>(d, exts, q). queue_size q)") (auto simp: queue_size_sub_dirs)

definition fingerprint_dir ::
    "(hash_item list \<Rightarrow> u64) \<Rightarrow> disk \<Rightarrow> path \<Rightarrow> string list \<Rightarrow> fingerprint" where
  "fingerprint_dir H d root extensions =
     (case node_at (dk_tree d) root of
        Some (Dir cs) \<Rightarrow>
          let files = walk_dirs d extensions [(root, cs)] in
          \<lparr>fp_digest = H (Hash_Path root # concat (map (\<lambda>(p, len, nanos).
             [Hash_Path p, Hash_U64 len, Hash_Nanos nanos]) files)),
           fp_file_count = of_nat (length files), fp_exists = True\<rparr>
      | _ \<Rightarrow> \<lparr>fp_digest = H [Hash_Path root], fp_file_count = 0, fp_exists = False\<rparr>)"

definition fingerprint_file :: "(hash_item list \<Rightarrow> u64) \<Rightarrow> disk \<Rightarrow> path \<Rightarrow> fingerprint" where
  "fingerprint_file H d p =
     (case dk_meta d p of
        Some (len, nanos) \<Rightarrow>
          \<lparr>fp_digest = H [Hash_Path p, Hash_U64 len, Hash_Nanos nanos], fp_file_count = 1,
           fp_exists = True\<rparr>
      | None \<Rightarrow> \<lparr>fp_digest = H [Hash_Path p], fp_file_count = 0, fp_exists = False\<rparr>)"

definition fingerprint_ioc_files ::
    "(hash_item list \<Rightarrow> u64) \<Rightarrow> disk \<Rightarrow> path list \<Rightarrow> fingerprint" where
  "fingerprint_ioc_files H d paths =
     (let fps = map (fingerprint_file H d) paths in
      \<lparr>fp_digest = H (concat (map (\<lambda>(p, fp). [Hash_Path p, Hash_U64 (fp_digest fp),
         Hash_U64 (fp_file_count fp), Hash_Bool (fp_exists fp)]) (zip paths fps))),
       fp_file_count = sum_list (map fp_file_count fps),
       fp_exists = (\<exists>fp \<in> set fps. fp_exists fp)\<rparr>)"

section \<open>The detectors\<close>

datatype reload_target = Reload_Sigma | Reload_Yara | Reload_Ioc

record ('s, 'y, 'i) detector_store =
  ds_sigma :: 's
  ds_yara :: 'y
  ds_ioc :: 'i

record ('s, 'y, 'i) loaders =
  ld_sigma :: "disk \<Rightarrow> path + 's"
  ld_sigma_stats :: "'s \<Rightarrow> engine_stats"
  ld_yara :: "disk \<Rightarrow> string + 'y"
  ld_yara_found :: "'y \<Rightarrow> nat"
  ld_yara_compiled :: "'y \<Rightarrow> nat"
  ld_ioc :: "disk \<Rightarrow> 'i"
  ld_ioc_total :: "'i \<Rightarrow> nat"

record reload_config =
  rg_enabled :: bool
  rg_sigma_enabled :: bool
  rg_yara_enabled :: bool
  rg_ioc_enabled :: bool
  rg_sigma_rules_path :: path
  rg_yara_rules_path :: path
  rg_ioc_paths :: "path list"
  rg_debounce_ms :: u64
  rg_fallback_poll_interval_ms :: u64

text \<open>\<open>IocEngine::stats\<close>, and the sum the worker takes of it.\<close>

record ioc_stats =
  is_md5 :: nat
  is_sha1 :: nat
  is_sha256 :: nat
  is_ip :: nat
  is_cidr :: nat
  is_domain_exact :: nat
  is_domain_suffix :: nat
  is_path_regex :: nat

definition ioc_stats_of :: "('net, 'set) ioc_engine \<Rightarrow> ioc_stats" where
  "ioc_stats_of e = \<lparr>
     is_md5 = length (hi_md5 (ie_hash_iocs e)), is_sha1 = length (hi_sha1 (ie_hash_iocs e)),
     is_sha256 = length (hi_sha256 (ie_hash_iocs e)), is_ip = length (ii_exact (ie_ip_iocs e)),
     is_cidr = length (ii_cidr (ie_ip_iocs e)),
     is_domain_exact = length (di_exact (ie_domain_iocs e)),
     is_domain_suffix = length (di_suffix (ie_domain_iocs e)),
     is_path_regex = length (pa_patterns (ie_path_iocs e))\<rparr>"

definition ioc_total :: "ioc_stats \<Rightarrow> nat" where
  "ioc_total s = is_md5 s + is_sha1 s + is_sha256 s + is_ip s + is_cidr s + is_domain_exact s +
     is_domain_suffix s + is_path_regex s"

definition sigma_loader ::
    "('re, 'net, 'f) crates \<Rightarrow> ('f, 'n, 'tree) rule_crates \<Rightarrow> (rule_error \<Rightarrow> string) \<Rightarrow>
     (path \<Rightarrow> string) \<Rightarrow> (u8 list \<Rightarrow> string + 'n sigma_rule list) \<Rightarrow> platform \<Rightarrow> match_debug_level \<Rightarrow>
     path \<Rightarrow> disk \<Rightarrow> path + ('re, 'net, 'f, 'n, 'tree) engine" where
  "sigma_loader X Y show_error show_path parse p level root d =
     load_rules_dir (dk_readable d) (load_one X Y show_error show_path parse) (dk_tree d) root
       (engine_new p level)"

definition ioc_loader ::
    "('net, 'set) ioc_crates \<Rightarrow> platform \<Rightarrow> (u8 list \<Rightarrow> string option) \<Rightarrow> (string \<Rightarrow> path) \<Rightarrow>
     ioc_config \<Rightarrow> disk \<Rightarrow> ('net, 'set) ioc_engine" where
  "ioc_loader C p as_text to_path cfg d = ioc_load C p
     (\<lambda>s. case node_at (dk_tree d) (to_path s) of Some (File b) \<Rightarrow> as_text b | _ \<Rightarrow> None) cfg"

section \<open>The worker\<close>

definition reload_sigma ::
    "('s, 'y, 'i) loaders \<Rightarrow> bool \<Rightarrow> disk \<Rightarrow> ('s, 'y, 'i) detector_store \<Rightarrow> ('s, 'y, 'i) detector_store"
  where
  "reload_sigma L sigma_enabled d st =
     (if \<not> sigma_enabled then st
      else case ld_sigma L d of
             Inl err \<Rightarrow> st
           | Inr engine \<Rightarrow>
               let stats = ld_sigma_stats L engine in
               if 0 < st_rule_files_found stats \<and> st_total_rules stats = 0 then st
               else st\<lparr>ds_sigma := engine\<rparr>)"

definition reload_yara ::
    "('s, 'y, 'i) loaders \<Rightarrow> bool \<Rightarrow> disk \<Rightarrow> ('s, 'y, 'i) detector_store \<Rightarrow> ('s, 'y, 'i) detector_store"
  where
  "reload_yara L yara_enabled d st =
     (if \<not> yara_enabled then st
      else case ld_yara L d of
             Inl err \<Rightarrow> st
           | Inr compiled \<Rightarrow>
               if 0 < ld_yara_found L compiled \<and> ld_yara_compiled L compiled = 0 then st
               else st\<lparr>ds_yara := compiled\<rparr>)"

definition reload_ioc ::
    "('s, 'y, 'i) loaders \<Rightarrow> bool \<Rightarrow> disk \<Rightarrow> ('s, 'y, 'i) detector_store \<Rightarrow> ('s, 'y, 'i) detector_store"
  where
  "reload_ioc L ioc_enabled d st =
     (if \<not> ioc_enabled then st
      else let ioc = ld_ioc L d in
           if ld_ioc_total L ioc = 0 then st else st\<lparr>ds_ioc := ioc\<rparr>)"

definition reload_one ::
    "('s, 'y, 'i) loaders \<Rightarrow> reload_config \<Rightarrow> (reload_target \<Rightarrow> disk) \<Rightarrow> reload_target \<Rightarrow>
     ('s, 'y, 'i) detector_store \<Rightarrow> ('s, 'y, 'i) detector_store" where
  "reload_one L cfg disk_at target st =
     (case target of
        Reload_Sigma \<Rightarrow> reload_sigma L (rg_sigma_enabled cfg) (disk_at target) st
      | Reload_Yara \<Rightarrow> reload_yara L (rg_yara_enabled cfg) (disk_at target) st
      | Reload_Ioc \<Rightarrow> reload_ioc L (rg_ioc_enabled cfg) (disk_at target) st)"

definition target_key :: "reload_target \<Rightarrow> nat" where
  "target_key t = (case t of Reload_Sigma \<Rightarrow> 0 | Reload_Yara \<Rightarrow> 1 | Reload_Ioc \<Rightarrow> 2)"

text \<open>
  The messages that arrive until the debounce timer fires, as a set, sorted; \<open>disk_at\<close> is the disk
  at the moment the target is loaded.
\<close>

definition pending_targets :: "reload_target list \<Rightarrow> reload_target list" where
  "pending_targets messages = sort_key target_key (remdups messages)"

definition reload_round ::
    "('s, 'y, 'i) loaders \<Rightarrow> reload_config \<Rightarrow> (reload_target \<Rightarrow> disk) \<Rightarrow> reload_target list \<Rightarrow>
     ('s, 'y, 'i) detector_store \<Rightarrow> ('s, 'y, 'i) detector_store" where
  "reload_round L cfg disk_at messages st =
     fold (reload_one L cfg disk_at) (pending_targets messages) st"

text \<open>
  The worker, on the batches it receives; a batch without a message is the closed channel, and the
  flag of a batch says that the channel closed while the timer ran.
\<close>

fun reload_worker ::
    "('s, 'y, 'i) loaders \<Rightarrow> reload_config \<Rightarrow> ((reload_target \<Rightarrow> disk) \<times> reload_target list \<times> bool) list \<Rightarrow>
     ('s, 'y, 'i) detector_store \<Rightarrow> ('s, 'y, 'i) detector_store" where
  "reload_worker L cfg [] st = st"
| "reload_worker L cfg ((disk_at, messages, channel_closed) # batches) st =
     (if \<not> rg_enabled cfg \<or> messages = [] then st
      else let st' = reload_round L cfg disk_at messages st in
           if channel_closed then st' else reload_worker L cfg batches st')"

definition worker_debounce :: "reload_config \<Rightarrow> u64" where
  "worker_debounce cfg = max (rg_debounce_ms cfg) 100"

section \<open>The poller\<close>

record fingerprints =
  fs_sigma :: "fingerprint option"
  fs_yara :: "fingerprint option"
  fs_ioc :: "fingerprint option"

definition sigma_fingerprint :: "(hash_item list \<Rightarrow> u64) \<Rightarrow> reload_config \<Rightarrow> disk \<Rightarrow> fingerprint" where
  "sigma_fingerprint H cfg d = fingerprint_dir H d (rg_sigma_rules_path cfg) [''yml'', ''yaml'']"

definition yara_fingerprint :: "(hash_item list \<Rightarrow> u64) \<Rightarrow> reload_config \<Rightarrow> disk \<Rightarrow> fingerprint" where
  "yara_fingerprint H cfg d = fingerprint_dir H d (rg_yara_rules_path cfg) [''yar'', ''yara'']"

definition ioc_fingerprint :: "(hash_item list \<Rightarrow> u64) \<Rightarrow> reload_config \<Rightarrow> disk \<Rightarrow> fingerprint" where
  "ioc_fingerprint H cfg d = fingerprint_ioc_files H d (rg_ioc_paths cfg)"

definition poller_start :: "(hash_item list \<Rightarrow> u64) \<Rightarrow> reload_config \<Rightarrow> disk \<Rightarrow> fingerprints" where
  "poller_start H cfg d = \<lparr>
     fs_sigma = (if rg_sigma_enabled cfg then Some (sigma_fingerprint H cfg d) else None),
     fs_yara = (if rg_yara_enabled cfg then Some (yara_fingerprint H cfg d) else None),
     fs_ioc = (if rg_ioc_enabled cfg then Some (ioc_fingerprint H cfg d) else None)\<rparr>"

text \<open>One comparison: the recorded fingerprint after it, and whether a message is sent.\<close>

definition compare_fingerprint ::
    "bool \<Rightarrow> fingerprint \<Rightarrow> fingerprint option \<Rightarrow> fingerprint option \<times> bool" where
  "compare_fingerprint on next old =
     (if on \<and> old \<noteq> Some next then (Some next, True) else (old, False))"

text \<open>A round of the loop with a live receiver: the fingerprints and the messages sent.\<close>

definition poll_round ::
    "(hash_item list \<Rightarrow> u64) \<Rightarrow> reload_config \<Rightarrow> disk \<Rightarrow> fingerprints \<Rightarrow> fingerprints \<times> reload_target list"
  where
  "poll_round H cfg d fs =
     (let (sigma, s) = compare_fingerprint (rg_sigma_enabled cfg) (sigma_fingerprint H cfg d) (fs_sigma fs);
          (yara, y) = compare_fingerprint (rg_yara_enabled cfg) (yara_fingerprint H cfg d) (fs_yara fs);
          (ioc, i) = compare_fingerprint (rg_ioc_enabled cfg) (ioc_fingerprint H cfg d) (fs_ioc fs)
      in (\<lparr>fs_sigma = sigma, fs_yara = yara, fs_ioc = ioc\<rparr>,
          (if s then [Reload_Sigma] else []) @ (if y then [Reload_Yara] else []) @
          (if i then [Reload_Ioc] else [])))"

section \<open>Properties of a round\<close>

lemma pending_targets_eq:
  "pending_targets messages = filter (\<lambda>t. t \<in> set messages) [Reload_Sigma, Reload_Yara, Reload_Ioc]"
proof -
  let ?f = "filter (\<lambda>t. t \<in> set messages) [Reload_Sigma, Reload_Yara, Reload_Ioc]"
  have inj: "inj target_key" by (rule injI) (auto simp: target_key_def split: reload_target.splits)
  have same: "set (pending_targets messages) = set ?f"
  proof (rule set_eqI)
    fix t show "t \<in> set (pending_targets messages) \<longleftrightarrow> t \<in> set ?f"
      by (cases t) (simp_all add: pending_targets_def)
  qed
  have "map target_key (pending_targets messages) = map target_key ?f"
  proof (rule sorted_distinct_set_unique)
    show "sorted (map target_key (pending_targets messages))" by (simp add: pending_targets_def)
    show "distinct (map target_key (pending_targets messages))"
      using inj by (simp add: pending_targets_def distinct_map inj_on_def)
    show "sorted (map target_key ?f)" "distinct (map target_key ?f)"
      by (simp_all add: target_key_def)
    show "set (map target_key (pending_targets messages)) = set (map target_key ?f)"
      by (simp only: set_map same)
  qed
  then show ?thesis using inj by (simp only: inj_map_eq_map)
qed

definition accepted_sigma :: "('s, 'y, 'i) loaders \<Rightarrow> disk \<Rightarrow> 's option" where
  "accepted_sigma L d = (case ld_sigma L d of Inl _ \<Rightarrow> None
     | Inr en \<Rightarrow> if 0 < st_rule_files_found (ld_sigma_stats L en) \<and>
         st_total_rules (ld_sigma_stats L en) = 0 then None else Some en)"

definition accepted_yara :: "('s, 'y, 'i) loaders \<Rightarrow> disk \<Rightarrow> 'y option" where
  "accepted_yara L d = (case ld_yara L d of Inl _ \<Rightarrow> None
     | Inr sc \<Rightarrow> if 0 < ld_yara_found L sc \<and> ld_yara_compiled L sc = 0 then None else Some sc)"

definition accepted_ioc :: "('s, 'y, 'i) loaders \<Rightarrow> disk \<Rightarrow> 'i option" where
  "accepted_ioc L d = (if ld_ioc_total L (ld_ioc L d) = 0 then None else Some (ld_ioc L d))"

definition keep_or :: "'a \<Rightarrow> 'a option \<Rightarrow> 'a" where
  "keep_or old new = (case new of None \<Rightarrow> old | Some v \<Rightarrow> v)"

lemma reload_round_stores:
  "ds_sigma (reload_round L cfg disk_at ms st) =
     (if Reload_Sigma \<in> set ms \<and> rg_sigma_enabled cfg
      then keep_or (ds_sigma st) (accepted_sigma L (disk_at Reload_Sigma)) else ds_sigma st)"
  "ds_yara (reload_round L cfg disk_at ms st) =
     (if Reload_Yara \<in> set ms \<and> rg_yara_enabled cfg
      then keep_or (ds_yara st) (accepted_yara L (disk_at Reload_Yara)) else ds_yara st)"
  "ds_ioc (reload_round L cfg disk_at ms st) =
     (if Reload_Ioc \<in> set ms \<and> rg_ioc_enabled cfg
      then keep_or (ds_ioc st) (accepted_ioc L (disk_at Reload_Ioc)) else ds_ioc st)"
  by (simp_all add: reload_round_def pending_targets_eq reload_one_def reload_sigma_def
      reload_yara_def reload_ioc_def accepted_sigma_def accepted_yara_def accepted_ioc_def
      keep_or_def Let_def split: sum.split)

section \<open>The whole mechanism\<close>

record ('s, 'y, 'i) reload_state =
  rl_disk :: disk
  rl_recorded :: fingerprints
  rl_channel :: "reload_target list"
  rl_store :: "('s, 'y, 'i) detector_store"

text \<open>
  An edit of the files is \<open>noticeable\<close> when, for every detector, it either leaves what is loaded
  and its fingerprint alone or gives a fingerprint other than the one the poller has recorded. Since
  a fingerprint covers the modification times, this fails only if files return to an earlier state
  together with their times, or by a collision of the hash.
\<close>

definition unnoticed :: "bool \<Rightarrow> (disk \<Rightarrow> fingerprint) \<Rightarrow> (disk \<Rightarrow> 'a) \<Rightarrow> fingerprint option \<Rightarrow> disk \<Rightarrow> disk \<Rightarrow> bool" where
  "unnoticed on fp ld recorded d d' \<longleftrightarrow>
     on \<and> recorded = Some (fp d') \<and> \<not> (fp d = fp d' \<and> ld d = ld d')"

definition noticeable ::
    "(hash_item list \<Rightarrow> u64) \<Rightarrow> ('s, 'y, 'i) loaders \<Rightarrow> reload_config \<Rightarrow> fingerprints \<Rightarrow> disk \<Rightarrow> disk \<Rightarrow> bool"
  where
  "noticeable H L cfg fs d d' \<longleftrightarrow>
     \<not> unnoticed (rg_sigma_enabled cfg) (sigma_fingerprint H cfg) (ld_sigma L) (fs_sigma fs) d d' \<and>
     \<not> unnoticed (rg_yara_enabled cfg) (yara_fingerprint H cfg) (ld_yara L) (fs_yara fs) d d' \<and>
     \<not> unnoticed (rg_ioc_enabled cfg) (ioc_fingerprint H cfg) (ld_ioc L) (fs_ioc fs) d d'"

definition poll_step ::
    "(hash_item list \<Rightarrow> u64) \<Rightarrow> reload_config \<Rightarrow> ('s, 'y, 'i) reload_state \<Rightarrow> ('s, 'y, 'i) reload_state" where
  "poll_step H cfg s =
     (let (fs, ms) = poll_round H cfg (rl_disk s) (rl_recorded s) in
      s\<lparr>rl_recorded := fs, rl_channel := rl_channel s @ ms\<rparr>)"

definition work_step ::
    "('s, 'y, 'i) loaders \<Rightarrow> reload_config \<Rightarrow> ('s, 'y, 'i) reload_state \<Rightarrow> ('s, 'y, 'i) reload_state" where
  "work_step L cfg s =
     s\<lparr>rl_channel := [],
       rl_store := reload_round L cfg (\<lambda>t. rl_disk s) (rl_channel s) (rl_store s)\<rparr>"

inductive reload_step ::
    "(hash_item list \<Rightarrow> u64) \<Rightarrow> ('s, 'y, 'i) loaders \<Rightarrow> reload_config \<Rightarrow>
     ('s, 'y, 'i) reload_state \<Rightarrow> ('s, 'y, 'i) reload_state \<Rightarrow> bool"
  for H L cfg where
  edit: "noticeable H L cfg (rl_recorded s) (rl_disk s) d \<Longrightarrow> reload_step H L cfg s (s\<lparr>rl_disk := d\<rparr>)"
| poll: "reload_step H L cfg s (poll_step H cfg s)"
| work: "rl_channel s \<noteq> [] \<Longrightarrow> reload_step H L cfg s (work_step L cfg s)"

inductive_cases reload_stepE: "reload_step H L cfg s s'"

text \<open>The detectors in use are those of the files, except where loading the files is rejected.\<close>

definition current :: "bool \<Rightarrow> 'a \<Rightarrow> 'a option \<Rightarrow> bool" where
  "current on inuse new \<longleftrightarrow> (on \<longrightarrow> new \<noteq> None \<longrightarrow> new = Some inuse)"

definition up_to_date :: "('s, 'y, 'i) loaders \<Rightarrow> reload_config \<Rightarrow> disk \<Rightarrow> ('s, 'y, 'i) detector_store \<Rightarrow> bool" where
  "up_to_date L cfg d st \<longleftrightarrow>
     current (rg_sigma_enabled cfg) (ds_sigma st) (accepted_sigma L d) \<and>
     current (rg_yara_enabled cfg) (ds_yara st) (accepted_yara L d) \<and>
     current (rg_ioc_enabled cfg) (ds_ioc st) (accepted_ioc L d)"

text \<open>The invariant of one detector: unless a message or a changed fingerprint is pending, it is current.\<close>

definition tracked :: "bool \<Rightarrow> bool \<Rightarrow> fingerprint option \<Rightarrow> fingerprint \<Rightarrow> 'a \<Rightarrow> 'a option \<Rightarrow> bool" where
  "tracked on pending recorded fp inuse new \<longleftrightarrow>
     pending \<or> recorded \<noteq> Some fp \<or> current on inuse new"

definition reload_inv ::
    "(hash_item list \<Rightarrow> u64) \<Rightarrow> ('s, 'y, 'i) loaders \<Rightarrow> reload_config \<Rightarrow> ('s, 'y, 'i) reload_state \<Rightarrow> bool" where
  "reload_inv H L cfg s \<longleftrightarrow>
     (let d = rl_disk s; fs = rl_recorded s; ch = set (rl_channel s); st = rl_store s in
      tracked (rg_sigma_enabled cfg) (Reload_Sigma \<in> ch) (fs_sigma fs) (sigma_fingerprint H cfg d)
        (ds_sigma st) (accepted_sigma L d) \<and>
      tracked (rg_yara_enabled cfg) (Reload_Yara \<in> ch) (fs_yara fs) (yara_fingerprint H cfg d)
        (ds_yara st) (accepted_yara L d) \<and>
      tracked (rg_ioc_enabled cfg) (Reload_Ioc \<in> ch) (fs_ioc fs) (ioc_fingerprint H cfg d)
        (ds_ioc st) (accepted_ioc L d))"

lemma tracked_edit:
  assumes "tracked on pending recorded (fp d) inuse (acc d)"
    and "\<not> unnoticed on fp ld recorded d d'" and "ld d = ld d' \<Longrightarrow> acc d = acc d'"
  shows "tracked on pending recorded (fp d') inuse (acc d')"
  using assms unfolding tracked_def unnoticed_def current_def by metis

lemma tracked_compare:
  assumes "tracked on pending recorded fp inuse new"
    and "compare_fingerprint on fp recorded = (recorded', sent)"
  shows "tracked on (pending \<or> sent) recorded' fp inuse new"
  using assms by (auto simp: tracked_def compare_fingerprint_def current_def split: if_splits)

lemma tracked_round:
  assumes "tracked on pending recorded fp inuse new"
  shows "tracked on False recorded fp (if pending \<and> on then keep_or inuse new else inuse) new"
  using assms by (auto simp: tracked_def current_def keep_or_def split: option.splits)

lemma accepted_cong:
  "ld_sigma L d = ld_sigma L d' \<Longrightarrow> accepted_sigma L d = accepted_sigma L d'"
  "ld_yara L d = ld_yara L d' \<Longrightarrow> accepted_yara L d = accepted_yara L d'"
  "ld_ioc L d = ld_ioc L d' \<Longrightarrow> accepted_ioc L d = accepted_ioc L d'"
  by (simp_all add: accepted_sigma_def accepted_yara_def accepted_ioc_def)

lemma reload_inv_step:
  assumes "reload_inv H L cfg s" and "reload_step H L cfg s s'"
  shows "reload_inv H L cfg s'"
  using assms(2)
proof (cases rule: reload_step.cases)
  case (edit d)
  then have quiet:
    "\<not> unnoticed (rg_sigma_enabled cfg) (sigma_fingerprint H cfg) (ld_sigma L) (fs_sigma (rl_recorded s)) (rl_disk s) d"
    "\<not> unnoticed (rg_yara_enabled cfg) (yara_fingerprint H cfg) (ld_yara L) (fs_yara (rl_recorded s)) (rl_disk s) d"
    "\<not> unnoticed (rg_ioc_enabled cfg) (ioc_fingerprint H cfg) (ld_ioc L) (fs_ioc (rl_recorded s)) (rl_disk s) d"
    by (simp_all add: noticeable_def)
  show ?thesis
    using assms(1) tracked_edit [where acc = "accepted_sigma L", OF _ quiet(1) accepted_cong(1)]
      tracked_edit [where acc = "accepted_yara L", OF _ quiet(2) accepted_cong(2)]
      tracked_edit [where acc = "accepted_ioc L", OF _ quiet(3) accepted_cong(3)]
    by (simp add: edit(1) reload_inv_def Let_def)
next
  case poll
  obtain sg a where sg: "compare_fingerprint (rg_sigma_enabled cfg)
      (sigma_fingerprint H cfg (rl_disk s)) (fs_sigma (rl_recorded s)) = (sg, a)" by fastforce
  obtain yr b where yr: "compare_fingerprint (rg_yara_enabled cfg)
      (yara_fingerprint H cfg (rl_disk s)) (fs_yara (rl_recorded s)) = (yr, b)" by fastforce
  obtain ic c where ic: "compare_fingerprint (rg_ioc_enabled cfg)
      (ioc_fingerprint H cfg (rl_disk s)) (fs_ioc (rl_recorded s)) = (ic, c)" by fastforce
  have s': "s' = s\<lparr>rl_recorded := \<lparr>fs_sigma = sg, fs_yara = yr, fs_ioc = ic\<rparr>,
      rl_channel := rl_channel s @ (if a then [Reload_Sigma] else []) @
        (if b then [Reload_Yara] else []) @ (if c then [Reload_Ioc] else [])\<rparr>"
    using poll sg yr ic by (simp add: poll_step_def poll_round_def)
  show ?thesis
    using assms(1)
    by (simp add: s' reload_inv_def Let_def tracked_compare [OF _ sg] tracked_compare [OF _ yr]
        tracked_compare [OF _ ic])
next
  case work
  with assms(1) show ?thesis
    by (simp add: reload_inv_def Let_def work_step_def reload_round_stores tracked_round
        split del: if_split)
qed

lemma reachable_inv:
  "(reload_step H L cfg)\<^sup>*\<^sup>* s s' \<Longrightarrow> reload_inv H L cfg s \<Longrightarrow> reload_inv H L cfg s'"
  by (induction rule: rtranclp_induct) (auto intro: reload_inv_step)

lemma poll_step_records:
  "rg_sigma_enabled cfg \<Longrightarrow> fs_sigma (rl_recorded (poll_step H cfg s)) = Some (sigma_fingerprint H cfg (rl_disk s))"
  "rg_yara_enabled cfg \<Longrightarrow> fs_yara (rl_recorded (poll_step H cfg s)) = Some (yara_fingerprint H cfg (rl_disk s))"
  "rg_ioc_enabled cfg \<Longrightarrow> fs_ioc (rl_recorded (poll_step H cfg s)) = Some (ioc_fingerprint H cfg (rl_disk s))"
  by (auto simp: poll_step_def poll_round_def compare_fingerprint_def case_prod_unfold)

lemma poll_step_keeps [simp]:
  "rl_disk (poll_step H cfg s) = rl_disk s" "rl_store (poll_step H cfg s) = rl_store s"
  by (simp_all add: poll_step_def case_prod_unfold Let_def)

lemma work_step_store:
  "rl_store (work_step L cfg s) = reload_round L cfg (\<lambda>t. rl_disk s) (rl_channel s) (rl_store s)"
  by (simp add: work_step_def)

lemma tracked_current:
  assumes "tracked on pending recorded fp inuse new" and "on \<Longrightarrow> recorded = Some fp"
  shows "current on (if pending \<and> on then keep_or inuse new else inuse) new"
  using assms by (auto simp: tracked_def current_def keep_or_def split: option.splits)


definition usable :: "('s, 'y, 'i) loaders \<Rightarrow> ('s, 'y, 'i) detector_store \<Rightarrow> bool" where
  "usable L st \<longleftrightarrow>
     \<not> (0 < st_rule_files_found (ld_sigma_stats L (ds_sigma st)) \<and>
        st_total_rules (ld_sigma_stats L (ds_sigma st)) = 0) \<and>
     \<not> (0 < ld_yara_found L (ds_yara st) \<and> ld_yara_compiled L (ds_yara st) = 0) \<and>
     ld_ioc_total L (ds_ioc st) \<noteq> 0"

text \<open>
  C22: a reload never breaks detection. Whatever the files become, the Sigma and YARA detectors in use
  never come from rule files none of which could be loaded, and the indicator set in use is never
  empty, once this holds; and a detector whose reload fails or is rejected stays the very same.
\<close>

theorem reload_never_breaks:
  assumes "(reload_step H L cfg)\<^sup>*\<^sup>* s0 s" and "usable L (rl_store s0)"
  shows "usable L (rl_store s) \<and>
    (accepted_sigma L (rl_disk s) = None \<longrightarrow> ds_sigma (rl_store (work_step L cfg s)) = ds_sigma (rl_store s)) \<and>
    (accepted_yara L (rl_disk s) = None \<longrightarrow> ds_yara (rl_store (work_step L cfg s)) = ds_yara (rl_store s)) \<and>
    (accepted_ioc L (rl_disk s) = None \<longrightarrow> ds_ioc (rl_store (work_step L cfg s)) = ds_ioc (rl_store s))"
proof -
  have round: "usable L (reload_round L cfg d ms st)" if "usable L st" for d ms st
    using that by (auto simp: usable_def reload_round_stores keep_or_def accepted_sigma_def
        accepted_yara_def accepted_ioc_def split: option.splits sum.splits if_splits)
  have "usable L (rl_store s)"
    using assms
  proof (induction rule: rtranclp_induct)
    case (step s1 s2)
    from step(2) step(3) [OF step(4)] show ?case
      by (cases rule: reload_step.cases) (simp_all add: round work_step_def)
  qed
  then show ?thesis by (simp add: work_step_def reload_round_stores keep_or_def)
qed

text \<open>Concrete loaders: the number of files in a directory, an error without one.\<close>

definition demo_files :: "disk \<Rightarrow> nat" where
  "demo_files d = (case dk_tree d of Dir cs \<Rightarrow> length cs | File b \<Rightarrow> 0)"

definition demo_loaders :: "(nat, nat, nat) loaders" where
  "demo_loaders = \<lparr>
     ld_sigma = (\<lambda>d. if demo_files d = 0 then Inl [] else Inr (demo_files d)),
     ld_sigma_stats = (\<lambda>n. \<lparr>st_total_rules = n, st_rule_files_found = n, st_rules_by_category = [],
       st_rules_by_logsource = [], st_deferred_logsource_rules = [], st_unknown_logsource_rules = [],
       st_failed_rules = [], st_skipped_product_rules = 0, st_skipped_deferred_rules = 0,
       st_skipped_unknown_logsource_rules = 0, st_inactive_collector_rules = 0\<rparr>),
     ld_yara = (\<lambda>d. Inr (demo_files d)), ld_yara_found = (\<lambda>n. n), ld_yara_compiled = (\<lambda>n. n),
     ld_ioc = demo_files, ld_ioc_total = (\<lambda>n. n)\<rparr>"

definition demo_config :: reload_config where
  "demo_config = \<lparr>rg_enabled = True, rg_sigma_enabled = True, rg_yara_enabled = True,
     rg_ioc_enabled = True, rg_sigma_rules_path = [], rg_yara_rules_path = [], rg_ioc_paths = [[''i.txt'']],
     rg_debounce_ms = 0, rg_fallback_poll_interval_ms = 1000\<rparr>"

definition demo_disk :: "string list \<Rightarrow> disk" where
  "demo_disk names = \<lparr>dk_tree = Dir (map (\<lambda>n. (n, File [])) names),
     dk_meta = (\<lambda>p. if \<exists>n \<in> set names. p = [n] then Some (1, 1) else None),
     dk_readable = (\<lambda>p. True)\<rparr>"

definition demo_hash :: "hash_item list \<Rightarrow> u64" where
  "demo_hash items = of_nat (length items)"

abbreviation demo_start :: "(nat, nat, nat) reload_state" where
  "demo_start \<equiv> \<lparr>rl_disk = demo_disk [''a.yml'', ''a.yar''],
     rl_recorded = poller_start demo_hash demo_config (demo_disk [''a.yml'', ''a.yar'']),
     rl_channel = [], rl_store = \<lparr>ds_sigma = 2, ds_yara = 2, ds_ioc = 2\<rparr>\<rparr>"

abbreviation demo_edited :: "(nat, nat, nat) reload_state" where
  "demo_edited \<equiv> demo_start\<lparr>rl_disk := demo_disk [''a.yml'', ''b.yml'', ''a.yar'', ''b.yar'', ''i.txt'']\<rparr>"

lemmas demo_defs = demo_config_def demo_disk_def demo_hash_def demo_loaders_def demo_files_def

lemma demo_edit:
  "(reload_step demo_hash demo_loaders demo_config)\<^sup>*\<^sup>* demo_start demo_edited"
proof (rule r_into_rtranclp, rule reload_step.edit)
  show "noticeable demo_hash demo_loaders demo_config (rl_recorded demo_start) (rl_disk demo_start)
    (demo_disk [''a.yml'', ''b.yml'', ''a.yar'', ''b.yar'', ''i.txt''])"
    by code_simp
qed


lemma reload_never_breaks_witness: "usable demo_loaders (rl_store demo_edited)"
proof -
  have "usable demo_loaders (rl_store demo_start)" by code_simp
  from reload_never_breaks [OF demo_edit this] show ?thesis by (rule conjunct1)
qed

text \<open>
  A change of the files after the detectors were loaded and before the poller took its first
  fingerprints is never noticed: the poller compares with the changed files from the start.
\<close>

lemma startup_edit_unnoticed:
  assumes "rl_recorded s = poller_start H cfg (rl_disk s)"
  shows "poll_step H cfg s = s"
  using assms by (simp add: poll_step_def poll_round_def poller_start_def compare_fingerprint_def)

text \<open>Some broken rule files do not reject a reload, as long as one rule can be loaded.\<close>

lemma partly_broken_reload_accepted:
  assumes "ld_sigma L d = Inr en" and "0 < st_total_rules (ld_sigma_stats L en)"
  shows "ds_sigma (reload_sigma L True d st) = en"
  using assms by (simp add: reload_sigma_def)

text \<open>
  Rules that are all for another platform look like broken ones: their files are found, none is
  loaded, and the reload is rejected.
\<close>

lemma skipped_rules_reject_reload:
  assumes "ld_sigma L d = Inr en" and "0 < st_rule_files_found (ld_sigma_stats L en)"
    and "st_total_rules (ld_sigma_stats L en) = 0" and "st_failed_rules (ld_sigma_stats L en) = []"
  shows "reload_sigma L on d st = st"
  using assms by (simp add: reload_sigma_def)

end
