(* ===== verification/Yara.thy ===== *)
theory Yara
  imports Pipeline Reload
begin

text \<open>
  The YARA path.
  \<^item> \<open>src/scanner/mod.rs\<close>: loading the rule files, the scan cache, what a match reports, and the handler
    of process starts that fills the two bounded queues.
  \<^item> \<open>src/runtime/yara.rs\<close>: the alerts, and the workers for files and for process memory.
  \<^item> The \<open>yara_x\<close> crate is the record \<open>yara_crate\<close>: adding a source to a compiler, and the rules that
    match some bytes (None when the scan fails). What a scan meets at the operating system is the
    record \<open>scan_env\<close>.
\<close>

section \<open>Paths\<close>

text \<open>\<open>to_dos\<close> is \<open>convert_nt_to_dos\<close> of \<open>Path_Map\<close> with the drive map of the moment.\<close>

definition normalize_yara_path :: "platform \<Rightarrow> (string \<Rightarrow> string) \<Rightarrow> string \<Rightarrow> string" where
  "normalize_yara_path p to_dos path =
     (if p = Windows then
        to_dos (case strip_prefix path [backslash, CHR ''?'', CHR ''?'', backslash] of
          Some rest \<Rightarrow> rest | None \<Rightarrow> path)
      else path)"

definition normalize_path_for_allowlist :: "platform \<Rightarrow> string \<Rightarrow> string" where
  "normalize_path_for_allowlist p path =
     (if p = Windows then to_ascii_lowercase (str_replace ''/'' [backslash] (str_trim path))
      else str_trim path)"

definition yara_allowlist_paths :: "platform \<Rightarrow> string list \<Rightarrow> string list" where
  "yara_allowlist_paths p values =
     map (\<lambda>v. let n = normalize_path_for_allowlist p v;
               sep = (if p = Windows then backslash else CHR ''/'')
           in if ends_with n [sep] then n else n @ [sep])
       (filter (\<lambda>v. str_trim v \<noteq> []) values)"

definition is_path_allowlisted :: "platform \<Rightarrow> string \<Rightarrow> string list \<Rightarrow> bool" where
  "is_path_allowlisted p path allowlist_paths \<longleftrightarrow>
     (if allowlist_paths = [] then False
      else list_ex (starts_with (normalize_path_for_allowlist p path)) allowlist_paths)"

section \<open>Matches\<close>

text \<open>
  A matching rule as the crate shows it: its patterns with the offset and the bytes of each of their
  matches, and its metadata, where a value that is not a text is None.
\<close>

record yara_hit =
  yh_identifier :: string
  yh_tags :: "string list"
  yh_namespace :: string
  yh_patterns :: "(string \<times> (u64 \<times> u8 list) list) list"
  yh_metadata :: "(string \<times> string option) list"

definition max_yara_strings_per_rule :: nat where "max_yara_strings_per_rule = 8"
definition max_yara_snippet_len :: nat where "max_yara_snippet_len = 80"

fun collect_pattern ::
    "string \<Rightarrow> (u64 \<times> u8 list) list \<Rightarrow> yara_string_match list \<Rightarrow> yara_string_match list" where
  "collect_pattern pattern_id [] strings = strings"
| "collect_pattern pattern_id ((offset, data) # ms) strings =
     (if max_yara_strings_per_rule \<le> length strings then strings
      else collect_pattern pattern_id ms (strings @
        [\<lparr>ys_id = pattern_id, ys_offset = Some offset,
          ys_snippet = Some (fst (truncate_str (from_utf8_lossy data) max_yara_snippet_len))\<rparr>]))"

fun collect_strings ::
    "(string \<times> (u64 \<times> u8 list) list) list \<Rightarrow> yara_string_match list \<Rightarrow> yara_string_match list" where
  "collect_strings [] strings = strings"
| "collect_strings ((pattern_id, ms) # patterns) strings =
     (let strings = collect_pattern pattern_id ms strings in
      if max_yara_strings_per_rule \<le> length strings then strings
      else collect_strings patterns strings)"

definition metadata_id :: "(string \<times> string option) list \<Rightarrow> string option" where
  "metadata_id kvs = fold (\<lambda>(identifier, value) acc.
     if identifier = ''id'' then (case value of Some s \<Rightarrow> Some s | None \<Rightarrow> acc) else acc) kvs None"

definition collect_yara_matches :: "match_debug_level \<Rightarrow> yara_hit list \<Rightarrow> yara_rule_match list" where
  "collect_yara_matches dbg hits = map (\<lambda>h. \<lparr>
     yr_rule = yh_identifier h,
     yr_metadata_id = metadata_id (yh_metadata h),
     yr_tags = (if dbg \<noteq> DebugOff then yh_tags h else []),
     yr_namespace = (if dbg \<noteq> DebugOff then Some (yh_namespace h) else None),
     yr_strings = (if dbg = DebugFull then collect_strings (yh_patterns h) [] else [])\<rparr>) hits"

section \<open>The scan cache\<close>

record yara_identity =
  yi_path :: string
  yi_size :: u64
  yi_mtime_nanos :: nat
  yi_match_debug :: match_debug_level

record yara_cache_entry =
  yc_matches :: "yara_rule_match list"
  yc_timestamp :: u64

type_synonym yara_entries = "(yara_identity, yara_cache_entry) hmap"

record yara_cache =
  yk_entries :: yara_entries
  yk_max_entries :: nat
  yk_ttl_secs :: u64

definition yara_cache_new :: yara_cache where
  "yara_cache_new = \<lparr>yk_entries = [], yk_max_entries = 10000, yk_ttl_secs = 6 * 60 * 60\<rparr>"

definition yara_is_expired :: "u64 \<Rightarrow> yara_cache \<Rightarrow> yara_cache_entry \<Rightarrow> bool" where
  "yara_is_expired now c entry \<longleftrightarrow> yk_ttl_secs c < sat_sub now (yc_timestamp entry)"

definition yara_cache_get ::
    "u64 \<Rightarrow> yara_identity \<Rightarrow> yara_cache \<Rightarrow> yara_cache \<times> yara_rule_match list option" where
  "yara_cache_get now identity c =
     (case hm_get (yk_entries c) identity of
        None \<Rightarrow> (c, None)
      | Some entry \<Rightarrow>
          if yara_is_expired now c entry
          then (c\<lparr>yk_entries := hm_remove identity (yk_entries c)\<rparr>, None)
          else (c, Some (yc_matches entry)))"

definition yara_trim :: "(yara_entries \<Rightarrow> yara_identity list) \<Rightarrow> nat \<Rightarrow> yara_entries \<Rightarrow> yara_entries" where
  "yara_trim it cap m = trim_oldest yc_timestamp it cap m"

definition yara_cache_insert ::
    "(yara_entries \<Rightarrow> yara_identity list) \<Rightarrow> u64 \<Rightarrow> yara_identity \<Rightarrow> yara_rule_match list \<Rightarrow>
     yara_cache \<Rightarrow> yara_cache" where
  "yara_cache_insert it now identity matches c =
     c\<lparr>yk_entries := insert_capped (yara_trim it) (yk_max_entries c) identity
         \<lparr>yc_matches = matches, yc_timestamp = now\<rparr> (yk_entries c)\<rparr>"

section \<open>The scanner\<close>

record 'c yara_crate =
  yx_new :: 'c
  yx_add_source :: "string \<Rightarrow> 'c \<Rightarrow> 'c \<times> bool"
  yx_scan :: "'c \<Rightarrow> u8 list \<Rightarrow> yara_hit list option"

record 'c yara_scanner =
  yn_rules :: 'c
  yn_compiled_files :: nat
  yn_files_found :: nat
  yn_failed_files :: nat
  yn_cache :: yara_cache

definition yara_empty :: "'c yara_crate \<Rightarrow> 'c yara_scanner" where
  "yara_empty Y = \<lparr>yn_rules = yx_new Y, yn_compiled_files = 0, yn_files_found = 0,
     yn_failed_files = 0, yn_cache = yara_cache_new\<rparr>"

definition add_rule_source :: "'c yara_crate \<Rightarrow> string \<Rightarrow> 'c yara_scanner \<Rightarrow> 'c yara_scanner" where
  "add_rule_source Y src s =
     (let (rules, ok) = yx_add_source Y src (yn_rules s);
          s = s\<lparr>yn_rules := rules, yn_files_found := yn_files_found s + 1\<rparr>
      in if ok then s\<lparr>yn_compiled_files := yn_compiled_files s + 1\<rparr>
         else s\<lparr>yn_failed_files := yn_failed_files s + 1\<rparr>)"

text \<open>
  One directory: the files in order, with the compiler and the counts; a rule file that is not text
  ends the loading with its path.
\<close>

fun load_yara_files ::
    "'c yara_crate \<Rightarrow> (u8 list \<Rightarrow> string option) \<Rightarrow> path \<Rightarrow> (string \<times> node) list \<Rightarrow>
     'c yara_scanner \<Rightarrow> path + 'c yara_scanner" where
  "load_yara_files Y as_text p [] s = Inr s"
| "load_yara_files Y as_text p ((c, Dir cs) # es) s = load_yara_files Y as_text p es s"
| "load_yara_files Y as_text p ((c, File b) # es) s =
     (if name_extension c \<in> {Some ''yar'', Some ''yara''} then
        (case as_text b of
           None \<Rightarrow> Inl (p @ [c])
         | Some src \<Rightarrow> load_yara_files Y as_text p es (add_rule_source Y src s))
      else load_yara_files Y as_text p es s)"

function load_yara_dirs ::
    "'c yara_crate \<Rightarrow> (u8 list \<Rightarrow> string option) \<Rightarrow> (path \<Rightarrow> bool) \<Rightarrow>
     (path \<times> (string \<times> node) list) list \<Rightarrow> 'c yara_scanner \<Rightarrow> path + 'c yara_scanner" where
  "load_yara_dirs Y as_text readable [] s = Inr s"
| "load_yara_dirs Y as_text readable ((p, cs) # queue) s =
     (if \<not> readable p then Inl p
      else case load_yara_files Y as_text p cs s of
             Inl e \<Rightarrow> Inl e
           | Inr s' \<Rightarrow> load_yara_dirs Y as_text readable (queue @ sub_dirs p cs) s')"
  by pat_completeness auto
termination
  by (relation "measure (\<lambda>(Y, as_text, readable, q, s). queue_size q)")
    (auto simp: queue_size_sub_dirs)

definition yara_scanner_new ::
    "'c yara_crate \<Rightarrow> (u8 list \<Rightarrow> string option) \<Rightarrow> path \<Rightarrow> disk \<Rightarrow> path + 'c yara_scanner" where
  "yara_scanner_new Y as_text rules_dir d =
     (case node_at (dk_tree d) rules_dir of
        Some (Dir cs) \<Rightarrow>
          load_yara_dirs Y as_text (dk_readable d) [(rules_dir, cs)] (yara_empty Y)
      | _ \<Rightarrow> Inr (yara_empty Y))"

text \<open>
  One scan: size and modification time of the file, its bytes (None: cannot be read), the clock at the
  look-up and at the insertion, and the iteration order of the cache.
\<close>

record scan_env =
  se_metadata :: "string \<Rightarrow> (u64 \<times> nat) option"
  se_read :: "string \<Rightarrow> u8 list option"
  se_now :: u64
  se_now_insert :: u64
  se_iter :: "yara_entries \<Rightarrow> yara_identity list"

definition yara_file_identity ::
    "platform \<Rightarrow> scan_env \<Rightarrow> string \<Rightarrow> match_debug_level \<Rightarrow> yara_identity option" where
  "yara_file_identity p env path dbg =
     (case se_metadata env path of
        None \<Rightarrow> None
      | Some (len, mtime_nanos) \<Rightarrow>
          Some \<lparr>yi_path = normalize_path_for_allowlist p path, yi_size = len,
            yi_mtime_nanos = mtime_nanos, yi_match_debug = dbg\<rparr>)"

definition scan_path ::
    "'c yara_crate \<Rightarrow> scan_env \<Rightarrow> 'c \<Rightarrow> string \<Rightarrow> match_debug_level \<Rightarrow> yara_rule_match list option" where
  "scan_path Y env rules path dbg =
     (case se_read env path of
        None \<Rightarrow> None
      | Some bytes \<Rightarrow> map_option (collect_yara_matches dbg) (yx_scan Y rules bytes))"

definition scan_file ::
    "'c yara_crate \<Rightarrow> platform \<Rightarrow> (string \<Rightarrow> string) \<Rightarrow> scan_env \<Rightarrow> string \<Rightarrow> match_debug_level \<Rightarrow>
     'c yara_scanner \<Rightarrow> 'c yara_scanner \<times> yara_rule_match list" where
  "scan_file Y p to_dos env path dbg s =
     (if yn_compiled_files s = 0 then (s, [])
      else
        let path = normalize_yara_path p to_dos path;
            identity = yara_file_identity p env path dbg;
            (cache, hit) = (case identity of
                None \<Rightarrow> (yn_cache s, None)
              | Some i \<Rightarrow> yara_cache_get (se_now env) i (yn_cache s));
            s = s\<lparr>yn_cache := cache\<rparr>
        in case hit of
             Some matches \<Rightarrow> (s, matches)
           | None \<Rightarrow>
               (case scan_path Y env (yn_rules s) path dbg of
                  None \<Rightarrow> (s, [])
                | Some matches \<Rightarrow>
                    (case identity of
                       None \<Rightarrow> s
                     | Some i \<Rightarrow> s\<lparr>yn_cache :=
                         yara_cache_insert (se_iter env) (se_now_insert env) i matches (yn_cache s)\<rparr>,
                     matches)))"

definition scan_bytes ::
    "'c yara_crate \<Rightarrow> u8 list \<Rightarrow> match_debug_level \<Rightarrow> 'c yara_scanner \<Rightarrow> yara_rule_match list" where
  "scan_bytes Y bytes dbg s =
     (if yn_compiled_files s = 0 then []
      else case yx_scan Y (yn_rules s) bytes of
             None \<Rightarrow> []
           | Some hits \<Rightarrow> collect_yara_matches dbg hits)"

section \<open>Alerts\<close>

definition build_yara_match_details :: "match_debug_level \<Rightarrow> yara_rule_match \<Rightarrow> match_details option" where
  "build_yara_match_details dbg m =
     (if dbg = DebugOff then None
      else
        let plain = ''matched YARA rule '' @ yr_rule m;
            summary =
              (if dbg = DebugFull then
                 (case yr_strings m of
                    [] \<Rightarrow> plain
                  | first # _ \<Rightarrow>
                      (case ys_offset first of
                         Some offset \<Rightarrow>
                           plain @ '' via '' @ ys_id first @ '' at 0x'' @ show_radix 16 (unat offset)
                       | None \<Rightarrow> plain @ '' via '' @ ys_id first))
               else plain);
            rule = (if dbg \<noteq> DebugFull then m\<lparr>yr_strings := []\<rparr> else m)
        in Some \<lparr>md_summary = summary, md_sigma = None, md_yara = Some [rule]\<rparr>)"

text \<open>\<open>build_yara_alert\<close> and \<open>build_yara_memory_alert\<close> have the same body.\<close>

definition build_yara_alert ::
    "string \<Rightarrow> string \<Rightarrow> string option \<Rightarrow> string \<Rightarrow> u32 \<Rightarrow> match_details option \<Rightarrow> platform \<Rightarrow> string \<Rightarrow> alert"
  where
  "build_yara_alert timestamp rule_name meta_id path pid details p provider = \<lparr>
     al_severity = Critical,
     al_rule_name = rule_name,
     al_rule_description = None,
     al_rule_id = map_option (\<lambda>i. ''yara::'' @ i) meta_id,
     al_engine = EngineYara,
     al_event = \<lparr>
       ev_timestamp = timestamp, ev_platform = p, ev_provider = provider, ev_category = CatProcess,
       ev_event_id = 1, ev_event_id_string = ''1'', ev_opcode = 1,
       ev_fields = ProcessCreation \<lparr>
         pc_image = Some path, pc_original_file_name = None, pc_product = None, pc_description = None,
         pc_target_image = None, pc_command_line = None, pc_process_id = Some (show_uint pid),
         pc_process_start_time = None, pc_parent_process_id = None, pc_parent_image = None,
         pc_parent_command_line = None, pc_current_directory = None, pc_integrity_level = None,
         pc_user = None, pc_logon_id = None, pc_logon_guid = None\<rparr>,
       ev_process_context = None\<rparr>,
     al_match_details = details\<rparr>"

section \<open>Process starts\<close>

record yara_handler =
  yq_files :: "(string \<times> u32) list"
  yq_capacity :: nat
  yq_memory :: "process_identity list option"
  yq_memory_capacity :: nat
  yq_allowlist :: "string list"

definition capture_process_identity ::
    "platform \<Rightarrow> os \<Rightarrow> (string \<Rightarrow> string) \<Rightarrow> sensor_event \<Rightarrow> process_fields \<Rightarrow> u32 \<Rightarrow> string \<Rightarrow>
     process_identity" where
  "capture_process_identity p os hash event fs pid img =
     (let queried = query_process_identity p os pid;
          event_start = (case sv_process_start_key event of
            Some key \<Rightarrow> if sk_pid key = pid then Some (sk_start_time key) else None | None \<Rightarrow> None);
          start_time = (case event_start of
            Some t \<Rightarrow> Some t
          | None \<Rightarrow> (case Option.bind queried pi_start_time of
              Some t \<Rightarrow> Some t | None \<Rightarrow> pc_process_start_time fs));
          command_line_hash = (case map_option hash (pc_command_line fs) of
            Some h \<Rightarrow> Some h | None \<Rightarrow> Option.bind queried pi_command_line_hash)
      in \<lparr>pi_pid = pid, pi_image = img, pi_start_time = start_time,
          pi_command_line_hash = command_line_hash\<rparr>)"

text \<open>\<open>try_send\<close> on a full queue drops the job.\<close>

definition yara_try_send :: "nat \<Rightarrow> 'a \<Rightarrow> 'a list \<Rightarrow> 'a list" where
  "yara_try_send capacity job queue = (if length queue < capacity then queue @ [job] else queue)"

definition yara_handle_event ::
    "platform \<Rightarrow> os \<Rightarrow> (string \<Rightarrow> string) \<Rightarrow> sensor_event \<Rightarrow> yara_handler \<Rightarrow> yara_handler" where
  "yara_handle_event p os hash event h =
     (if sv_action event \<noteq> ActStart then h
      else case sv_payload event of
        PayProcess fs \<Rightarrow>
          (case pc_image fs of
             None \<Rightarrow> h
           | Some path \<Rightarrow>
               let pid = (case parse_optional_u32 (pc_process_id fs) of
                     Some pid \<Rightarrow> pid
                   | None \<Rightarrow> (case sv_pid event of Some pid \<Rightarrow> pid | None \<Rightarrow> 0))
               in if is_path_allowlisted p path (yq_allowlist h) then h
                  else
                    let h = h\<lparr>yq_files := yara_try_send (yq_capacity h) (path, pid) (yq_files h)\<rparr>
                    in case yq_memory h of
                         None \<Rightarrow> h
                       | Some queue \<Rightarrow>
                           h\<lparr>yq_memory := Some (yara_try_send (yq_memory_capacity h)
                               (capture_process_identity p os hash event fs pid path) queue)\<rparr>)
      | _ \<Rightarrow> h)"

section \<open>The workers\<close>

text \<open>
  One job of the file worker with the scanner current at that moment. \<open>timestamp i\<close> and
  \<open>clock i\<close> are the time readings for the alert of number \<open>i\<close>; the alerts go to the sink and the
  response as those of the hash worker do.
\<close>

definition yara_alerts ::
    "(nat \<Rightarrow> string) \<Rightarrow> match_debug_level \<Rightarrow> string \<Rightarrow> u32 \<Rightarrow> platform \<Rightarrow> string \<Rightarrow>
     yara_rule_match list \<Rightarrow> alert list" where
  "yara_alerts timestamp dbg path pid p provider matches =
     map (\<lambda>(i, m). build_yara_alert (timestamp i) (yr_rule m) (yr_metadata_id m) path pid
            (build_yara_match_details dbg m) p provider) (enumerate 0 matches)"

definition yara_file_work ::
    "'c yara_crate \<Rightarrow> platform \<Rightarrow> string \<Rightarrow> (string \<Rightarrow> string) \<Rightarrow> string list \<Rightarrow> match_debug_level \<Rightarrow>
     (string \<Rightarrow> string) \<Rightarrow> scan_env \<Rightarrow> (nat \<Rightarrow> string) \<Rightarrow> (nat \<Rightarrow> nat) \<Rightarrow> string \<times> u32 \<Rightarrow>
     'c yara_scanner \<Rightarrow> detection_handler \<Rightarrow>
     'c yara_scanner \<times> detection_handler \<times> (alert \<times> ecs_alert list) list" where
  "yara_file_work Y p provider to_dos allowlist dbg hash env timestamp clock job s h =
     (let (path, pid) = job in
      if is_path_allowlisted p path allowlist then (s, h, [])
      else
        let (s, matches) = scan_file Y p to_dos env path dbg s;
            (h, outs) = deliver_alerts hash clock 0
              (yara_alerts timestamp dbg path pid p provider matches) h
        in (s, h, outs))"

section \<open>What the cache relies on\<close>

text \<open>A job of a scanner: its surroundings, the path and the level of detail.\<close>

type_synonym scan_job = "scan_env \<times> string \<times> match_debug_level"

definition scan_step ::
    "'c yara_crate \<Rightarrow> platform \<Rightarrow> (string \<Rightarrow> string) \<Rightarrow> 'c yara_scanner \<Rightarrow> scan_job \<Rightarrow>
     'c yara_scanner \<times> yara_rule_match list" where
  "scan_step Y p to_dos s j = (case j of (env, path, dbg) \<Rightarrow> scan_file Y p to_dos env path dbg s)"

definition fresh_scan ::
    "'c yara_crate \<Rightarrow> platform \<Rightarrow> (string \<Rightarrow> string) \<Rightarrow> 'c \<Rightarrow> scan_job \<Rightarrow> yara_rule_match list" where
  "fresh_scan Y p to_dos rules j =
     (case j of (env, path, dbg) \<Rightarrow>
        case scan_path Y env rules (normalize_yara_path p to_dos path) dbg of
          None \<Rightarrow> [] | Some matches \<Rightarrow> matches)"

definition uncached_scan ::
    "'c yara_crate \<Rightarrow> platform \<Rightarrow> (string \<Rightarrow> string) \<Rightarrow> 'c \<Rightarrow> unit \<Rightarrow> scan_job \<Rightarrow> unit \<times> yara_rule_match list"
  where
  "uncached_scan Y p to_dos rules u j = ((), fresh_scan Y p to_dos rules j)"

lemma uncached_scans:
  "snd (run (uncached_scan Y p to_dos rules) u js) = map (fresh_scan Y p to_dos rules) js"
  by (induction js arbitrary: u) (simp_all add: uncached_scan_def)

definition scan_job_ok ::
    "platform \<Rightarrow> (string \<Rightarrow> string) \<Rightarrow> (yara_identity \<Rightarrow> u8 list option) \<Rightarrow> scan_job \<Rightarrow> bool" where
  "scan_job_ok p to_dos contents j \<longleftrightarrow>
     (case j of (env, path, dbg) \<Rightarrow>
        hash_iter (se_iter env) \<and>
        (case yara_file_identity p env (normalize_yara_path p to_dos path) dbg of
           None \<Rightarrow> True
         | Some i \<Rightarrow> se_read env (normalize_yara_path p to_dos path) = contents i))"

definition cached_scans ::
    "'c yara_crate \<Rightarrow> 'c \<Rightarrow> (yara_identity \<Rightarrow> u8 list option) \<Rightarrow> yara_entries \<Rightarrow> bool" where
  "cached_scans Y rules contents m \<longleftrightarrow>
     (\<forall>i e. hm_get m i = Some e \<longrightarrow>
        Option.bind (contents i) (\<lambda>bytes. map_option (collect_yara_matches (yi_match_debug i))
          (yx_scan Y rules bytes)) = Some (yc_matches e))"

definition scanner_inv ::
    "'c yara_crate \<Rightarrow> 'c \<Rightarrow> (yara_identity \<Rightarrow> u8 list option) \<Rightarrow> 'c yara_scanner \<Rightarrow> bool" where
  "scanner_inv Y rules contents s \<longleftrightarrow>
     yn_compiled_files s \<noteq> 0 \<and> yn_rules s = rules \<and> yk_max_entries (yn_cache s) = 10000 \<and>
     hm_wf (yk_entries (yn_cache s)) \<and> length (yk_entries (yn_cache s)) \<le> 10000 \<and>
     cached_scans Y rules contents (yk_entries (yn_cache s))"

lemma yara_trim_evicting: "hash_iter it \<Longrightarrow> evicting (yara_trim it)"
proof -
  assume "hash_iter it"
  moreover have "yara_trim it = trim_oldest yc_timestamp it" by (simp add: fun_eq_iff yara_trim_def)
  ultimately show ?thesis by (simp add: stamped_iter.trim_oldest_evicting stamped_iter_def)
qed

lemma cached_scans_remove:
  "hm_wf m \<Longrightarrow> cached_scans Y rules contents m \<Longrightarrow> cached_scans Y rules contents (hm_remove i m)"
  by (auto simp: cached_scans_def delete_conv' split: if_splits)

lemma yara_cache_insert_keeps:
  assumes inv: "scanner_inv Y rules contents s" and it: "hash_iter it"
    and new: "Option.bind (contents i) (\<lambda>bytes. map_option (collect_yara_matches (yi_match_debug i))
      (yx_scan Y rules bytes)) = Some ms"
  shows "scanner_inv Y rules contents (s\<lparr>yn_cache := yara_cache_insert it now i ms (yn_cache s)\<rparr>)"
proof -
  note ev = yara_trim_evicting [OF it]
  have wf: "hm_wf (yk_entries (yn_cache s))" using inv by (simp add: scanner_inv_def)
  note keeps = evicting.insert_capped_wf [OF ev wf] evicting.insert_capped_length [OF ev wf]
  have "cached_scans Y rules contents (insert_capped (yara_trim it) 10000 i
      \<lparr>yc_matches = ms, yc_timestamp = now\<rparr> (yk_entries (yn_cache s)))"
    unfolding cached_scans_def
  proof (intro allI impI)
    fix i' e
    assume "hm_get (insert_capped (yara_trim it) 10000 i \<lparr>yc_matches = ms, yc_timestamp = now\<rparr>
      (yk_entries (yn_cache s))) i' = Some e"
    from evicting.insert_capped_get [OF ev wf this] new inv
    show "Option.bind (contents i') (\<lambda>bytes. map_option (collect_yara_matches (yi_match_debug i'))
        (yx_scan Y rules bytes)) = Some (yc_matches e)"
      by (auto simp: scanner_inv_def cached_scans_def split: if_splits)
  qed
  with inv keeps show ?thesis by (simp add: scanner_inv_def yara_cache_insert_def)
qed

lemma yara_cache_get_keeps:
  assumes inv: "scanner_inv Y rules contents s" and get: "yara_cache_get now i (yn_cache s) = (c, hit)"
  shows "scanner_inv Y rules contents (s\<lparr>yn_cache := c\<rparr>)"
    and "hit = Some ms \<Longrightarrow> Option.bind (contents i) (\<lambda>bytes. map_option
      (collect_yara_matches (yi_match_debug i)) (yx_scan Y rules bytes)) = Some ms"
proof -
  let ?m = "yk_entries (yn_cache s)"
  have m: "hm_wf ?m" "length ?m \<le> 10000" "cached_scans Y rules contents ?m"
    using inv by (simp_all add: scanner_inv_def)
  have "hm_wf (hm_remove i ?m)" "length (hm_remove i ?m) \<le> 10000"
    using m(1,2) length_delete_le [of i ?m] by (simp_all add: distinct_delete)
  with inv get cached_scans_remove [OF m(1,3)]
  show "scanner_inv Y rules contents (s\<lparr>yn_cache := c\<rparr>)"
    by (auto simp: yara_cache_get_def scanner_inv_def split: option.splits if_splits)
  show "hit = Some ms \<Longrightarrow> Option.bind (contents i) (\<lambda>bytes. map_option
      (collect_yara_matches (yi_match_debug i)) (yx_scan Y rules bytes)) = Some ms"
    using get m(3) by (auto simp: yara_cache_get_def cached_scans_def split: option.splits if_splits)
qed

lemma scan_step_fresh:
  assumes inv: "scanner_inv Y rules contents s" and ok: "scan_job_ok p to_dos contents j"
  shows "scanner_inv Y rules contents (fst (scan_step Y p to_dos s j)) \<and>
    snd (scan_step Y p to_dos s j) = fresh_scan Y p to_dos rules j"
proof -
  obtain env path dbg where j: "j = (env, path, dbg)" by (metis prod_cases3)
  let ?path = "normalize_yara_path p to_dos path"
  have s: "yn_compiled_files s \<noteq> 0" "yn_rules s = rules" using inv by (simp_all add: scanner_inv_def)
  show ?thesis
  proof (cases "yara_file_identity p env ?path dbg")
    case None
    with inv s show ?thesis
      by (auto simp: j scan_step_def scan_file_def fresh_scan_def Let_def split: option.split)
  next
    case (Some i)
    then have dbg: "yi_match_debug i = dbg"
      by (auto simp: yara_file_identity_def split: option.splits)
    have read: "se_read env ?path = contents i" and it: "hash_iter (se_iter env)"
      using ok Some by (simp_all add: j scan_job_ok_def)
    have scan: "scan_path Y env rules ?path dbg = Option.bind (contents i) (\<lambda>bytes. map_option
        (collect_yara_matches (yi_match_debug i)) (yx_scan Y rules bytes))"
      by (simp add: scan_path_def read dbg split: option.split)
    obtain c hit where get: "yara_cache_get (se_now env) i (yn_cache s) = (c, hit)" by fastforce
    note keeps = yara_cache_get_keeps [OF inv get]
    show ?thesis
    proof (cases hit)
      case None
      with keeps(1) yara_cache_insert_keeps [OF keeps(1) it] s Some get scan show ?thesis
        by (auto simp: j scan_step_def scan_file_def fresh_scan_def Let_def split: option.split)
    next
      case (Some ms)
      with keeps s get scan \<open>yara_file_identity p env ?path dbg = Some i\<close> show ?thesis
        by (simp add: j scan_step_def scan_file_def fresh_scan_def Let_def)
    qed
  qed
qed

interpretation yara_cache: simulation "scan_step Y p to_dos" "uncached_scan Y p to_dos rules"
  "\<lambda>s u. scanner_inv Y rules contents s" "\<lambda>u. scan_job_ok p to_dos contents"
  for Y p to_dos rules contents
  by unfold_locales (simp_all add: scan_step_fresh uncached_scan_def)

lemma scan_jobs_enabled:
  "list_all (scan_job_ok p to_dos contents) js \<Longrightarrow>
   enabled (uncached_scan Y p to_dos rules) (\<lambda>u. scan_job_ok p to_dos contents) u js"
  by (induction js arbitrary: u) simp_all

text \<open>
  C19: the scan cache is unobservable. Over any sequence of scans of any paths, whatever the clock, the
  expiry and the evictions in between, a scanner with an empty cache reports for every file what
  scanning it afresh would report, and the cache stays within its cap, provided that a file has the
  same bytes whenever path, size and modification time are the same.
\<close>

theorem scan_cache_transparent:
  assumes "list_all (scan_job_ok p to_dos contents) js"
    and "yn_compiled_files s \<noteq> 0" and "yn_cache s = yara_cache_new"
  shows "snd (run (scan_step Y p to_dos) s js) = map (fresh_scan Y p to_dos (yn_rules s)) js \<and>
    length (yk_entries (yn_cache (fst (run (scan_step Y p to_dos) s js)))) \<le> 10000"
proof -
  have "scanner_inv Y (yn_rules s) contents s"
    using assms(2,3) by (simp add: scanner_inv_def yara_cache_new_def cached_scans_def)
  note sim = yara_cache.run_simulates [OF this scan_jobs_enabled [OF assms(1)]]
  from sim show ?thesis by (simp add: uncached_scans scanner_inv_def)
qed

section \<open>From a process start to its alerts\<close>

lemma yara_alert_identity:
  "extract_process_identity hash (build_yara_alert ts r i path pid d p provider) =
     Some \<lparr>pi_pid = pid, pi_image = path, pi_start_time = None, pi_command_line_hash = None\<rparr>"
  "extract_process_info (build_yara_alert ts r i path pid d p provider) = (Some pid, Some path)"
  by (simp_all add: build_yara_alert_def extract_process_identity_def extract_process_info_def
      event_process_info_def)

lemma yara_alert_decision:
  "decision_for_alert en (build_yara_alert ts r i path pid d p provider) =
     (if rs_enabled en then decide_with en (Some pid) (Some path) else Disabled)"
proof -
  let ?a = "build_yara_alert ts r i path pid d p provider"
  have "effective_alert_severity ?a = Critical"
    by (simp add: build_yara_alert_def effective_alert_severity_def)
  moreover have "severity_at_least Critical m" for m by (cases m) (simp_all add: severity_at_least_def severity_rank_def)
  ultimately show ?thesis by (simp add: decision_for_alert_def yara_alert_identity(2))
qed

lemma yara_alerts_map:
  "map (\<lambda>a. (al_rule_name a, al_engine a, decision_for_alert en a))
     (yara_alerts timestamp dbg path pid p provider ms) =
   map (\<lambda>m. (yr_rule m, EngineYara,
     if rs_enabled en then decide_with en (Some pid) (Some path) else Disabled)) ms"
proof -
  have names: "al_rule_name (build_yara_alert ts r i path pid d p provider) = r"
    "al_engine (build_yara_alert ts r i path pid d p provider) = EngineYara" for ts r i d
    by (simp_all add: build_yara_alert_def)
  define f where "f = (\<lambda>m :: yara_rule_match. (yr_rule m, EngineYara,
    if rs_enabled en then decide_with en (Some pid) (Some path) else Disabled))"
  have "map (\<lambda>a. (al_rule_name a, al_engine a, decision_for_alert en a))
      (yara_alerts timestamp dbg path pid p provider ms) = map (\<lambda>im. f (snd im)) (enumerate 0 ms)"
    by (simp add: yara_alerts_def names yara_alert_decision case_prod_unfold f_def)
  also have "\<dots> = map f (map snd (enumerate 0 ms))" by (simp only: map_map comp_def)
  finally show ?thesis by (simp only: map_snd_enumerate f_def)
qed


section \<open>What is lost on the way\<close>

text \<open>
  One rule file that is not text ends the loading; a rule file that does not compile is only counted.
\<close>

lemma load_yara_files_text:
  "load_yara_files Y as_text p es s = Inr s' \<Longrightarrow> (c, File b) \<in> set es \<Longrightarrow>
     name_extension c \<in> {Some ''yar'', Some ''yara''} \<Longrightarrow> as_text b \<noteq> None"
  by (induction Y as_text p es s rule: load_yara_files.induct) (auto split: if_splits option.splits)

lemma add_rule_source_counts:
  "yn_files_found s = yn_compiled_files s + yn_failed_files s \<Longrightarrow>
     yn_files_found (add_rule_source Y src s) =
       yn_compiled_files (add_rule_source Y src s) + yn_failed_files (add_rule_source Y src s)"
  by (simp add: add_rule_source_def Let_def case_prod_unfold)

lemma load_yara_files_counts:
  "load_yara_files Y as_text p es s = Inr s' \<Longrightarrow>
     yn_files_found s = yn_compiled_files s + yn_failed_files s \<Longrightarrow>
     yn_files_found s' = yn_compiled_files s' + yn_failed_files s'"
proof (induction Y as_text p es s rule: load_yara_files.induct)
  case (3 Y as_text p c b es s)
  show ?case
  proof (cases "name_extension c \<in> {Some ''yar'', Some ''yara''}")
    case True
    with "3.prems"(1) obtain src where src: "as_text b = Some src"
      and rest: "load_yara_files Y as_text p es (add_rule_source Y src s) = Inr s'"
      by (auto split: option.splits)
    show ?thesis by (rule "3.IH"(1) [OF True src rest add_rule_source_counts [OF "3.prems"(2)]])
  next
    case False
    with "3.prems" have "load_yara_files Y as_text p es s = Inr s'" by simp
    from "3.IH"(2) [OF False this "3.prems"(2)] show ?thesis .
  qed
qed simp_all

lemma load_yara_dirs_counts:
  "load_yara_dirs Y as_text readable q s = Inr s' \<Longrightarrow>
     yn_files_found s = yn_compiled_files s + yn_failed_files s \<Longrightarrow>
     yn_files_found s' = yn_compiled_files s' + yn_failed_files s'"
proof (induction Y as_text readable q s rule: load_yara_dirs.induct)
  case (2 Y as_text readable p cs queue s)
  from "2.prems"(1) obtain s1 where r: "readable p" and s1: "load_yara_files Y as_text p cs s = Inr s1"
    and rest: "load_yara_dirs Y as_text readable (queue @ sub_dirs p cs) s1 = Inr s'"
    by (auto split: if_splits sum.splits)
  show ?case
    by (rule "2.IH" [OF _ s1 rest load_yara_files_counts [OF s1 "2.prems"(2)]]) (simp add: r)
qed simp

lemma one_unreadable_rule_disables_yara:
  assumes "node_at (dk_tree d) root = Some (Dir cs)" and "(c, File b) \<in> set cs"
    and "name_extension c \<in> {Some ''yar'', Some ''yara''}" and "as_text b = None"
  shows "\<exists>e. yara_scanner_new Y as_text root d = Inl e"
proof (cases "load_yara_files Y as_text root cs (yara_empty Y)")
  case (Inl e)
  with assms(1) show ?thesis by (simp add: yara_scanner_new_def)
next
  case (Inr s')
  from load_yara_files_text [OF this assms(2,3)] assms(4) show ?thesis by simp
qed

text \<open>
  The memory worker validates the identity it captured, with the start time; the alert it raises carries
  only pid and image. When the pid now belongs to a later run of the same image, the captured identity
  is refused, and the response that acts on the alert terminates that later run.
\<close>

lemma yara_alert_forgets_start_time:
  assumes "p \<noteq> MacOS" and "rs_platform en = p"
    and "decide_with en (Some pid) (Some img) = Terminate pid img"
    and "os_query os pid = Some \<lparr>pi_pid = pid, pi_image = img, pi_start_time = Some now, pi_command_line_hash = c\<rparr>"
    and "seen \<noteq> now"
  shows "validate_process_identity p os
      \<lparr>pi_pid = pid, pi_image = img, pi_start_time = Some seen, pi_command_line_hash = None\<rparr> =
      Inl (StartTimeChanged seen now) \<and>
    snd (handle_task os en (task_of hash (build_yara_alert ts r i img pid d p provider))) = Some pid"
proof -
  have "same_process_image p os img img" by (simp add: same_process_image_def)
  with assms show ?thesis
    by (simp add: validate_process_identity_def query_process_identity_def identity_matches_def
        handle_task_def task_of_def yara_alert_identity expected_identity_def)
qed

section \<open>Concrete instances\<close>

text \<open>One rule, which matches the file with the single byte 77.\<close>

definition sample_crate :: "unit yara_crate" where
  "sample_crate = \<lparr>yx_new = (), yx_add_source = (\<lambda>src c. ((), True)),
     yx_scan = (\<lambda>c bytes. Some (if bytes = [77] then
       [\<lparr>yh_identifier = ''evil'', yh_tags = [], yh_namespace = ''default'', yh_patterns = [],
         yh_metadata = []\<rparr>] else []))\<rparr>"

definition sample_scanner :: "unit yara_scanner" where
  "sample_scanner = \<lparr>yn_rules = (), yn_compiled_files = 1, yn_files_found = 1, yn_failed_files = 0,
     yn_cache = yara_cache_new\<rparr>"

definition sample_scan_env :: "u64 \<Rightarrow> scan_env" where
  "sample_scan_env now = \<lparr>se_metadata = (\<lambda>_. Some (1, 100)), se_read = (\<lambda>_. Some [77]), se_now = now,
     se_now_insert = now, se_iter = map fst\<rparr>"

theorem scan_cache_transparent_witness:
  "snd (run (scan_step sample_crate Linux id) sample_scanner
     [(sample_scan_env 5, ''/tmp/x'', DebugOff), (sample_scan_env 6, ''/tmp/x'', DebugOff)]) =
     map (fresh_scan sample_crate Linux id ()) 
       [(sample_scan_env 5, ''/tmp/x'', DebugOff), (sample_scan_env 6, ''/tmp/x'', DebugOff)] \<and>
   fresh_scan sample_crate Linux id () (sample_scan_env 6, ''/tmp/x'', DebugOff) \<noteq> []"
proof -
  have "list_all (scan_job_ok Linux id (\<lambda>_. Some [77]))
      [(sample_scan_env 5, ''/tmp/x'', DebugOff), (sample_scan_env 6, ''/tmp/x'', DebugOff)]"
    by (simp add: scan_job_ok_def sample_scan_env_def stored_order.hash_iter_axioms
        yara_file_identity_def)
  from scan_cache_transparent [OF this, of sample_scanner sample_crate]
  show ?thesis
    by (simp add: sample_scanner_def fresh_scan_def scan_path_def sample_scan_env_def sample_crate_def
        collect_yara_matches_def)
qed

definition sample_start :: process_fields where
  "sample_start = sample_fields\<lparr>pc_image := Some ''/tmp/x''\<rparr>"

definition sample_yara_handler :: yara_handler where
  "sample_yara_handler = \<lparr>yq_files = [], yq_capacity = 1, yq_memory = None, yq_memory_capacity = 0,
     yq_allowlist = [''/usr/bin/'']\<rparr>"


end
