(* ===== verification/Yara_Memory.thy ===== *)
theory Yara_Memory
  imports Yara
begin

text \<open>
  Scanning the memory of a process.
  \<^item> \<open>src/memory/types.rs\<close> and \<open>src/memory/linux.rs\<close>: the lines of \<open>/proc/<pid>/maps\<close>, which regions are
    read, and the limits on what is read. \<open>read start n\<close> is the result of seeking to \<open>start\<close> in
    \<open>/proc/<pid>/mem\<close> and reading into a buffer of \<open>n\<close> bytes, None when either fails.
  \<^item> \<open>src/runtime/yara.rs\<close>: the memory worker. The release build is modelled, where the difference of the
    ends of a region wraps.
\<close>

section \<open>Regions\<close>

record memory_scan_config =
  ms_max_process_bytes :: nat
  ms_max_region_bytes :: nat
  ms_include_private :: bool
  ms_include_image :: bool
  ms_include_mapped :: bool
  ms_delay_ms :: u64

datatype memory_region_kind = Region_Private | Region_Image | Region_Mapped | Region_Other

record memory_region =
  mr_base :: u64
  mr_size :: nat
  mr_readable :: bool
  mr_writable :: bool
  mr_executable :: bool
  mr_kind :: memory_region_kind

record memory_chunk =
  ch_base :: u64
  ch_bytes :: "u8 list"
  ch_region :: memory_region

record maps_entry =
  me_start :: u64
  me_end :: u64
  me_readable :: bool
  me_writable :: bool
  me_executable :: bool
  me_private :: bool
  me_path :: "string option"

text \<open>\<open>splitn(n, ' ')\<close>.\<close>

fun split_first :: "nat \<Rightarrow> string \<Rightarrow> string list" where
  "split_first 0 s = []"
| "split_first (Suc 0) s = [s]"
| "split_first (Suc (Suc n)) s =
     (case split_once CHR '' '' s of
        None \<Rightarrow> [s]
      | Some (w, rest) \<Rightarrow> w # split_first (Suc n) rest)"

definition perm_at :: "string \<Rightarrow> nat \<Rightarrow> char \<Rightarrow> bool" where
  "perm_at perms i c \<longleftrightarrow> i < length perms \<and> perms ! i = c"

definition parse_maps_line :: "string \<Rightarrow> maps_entry option" where
  "parse_maps_line line =
     (case split_first 6 line of
        addr_range # perms # off # dev # inode # others \<Rightarrow>
          let path = (case others of
                [] \<Rightarrow> None
              | s # _ \<Rightarrow> if str_trim s = [] then None else Some (str_trim s))
          in (case split_once CHR ''-'' addr_range of
                None \<Rightarrow> None
              | Some (start_str, end_str) \<Rightarrow>
                  (case (from_str_radix 16 start_str, from_str_radix 16 end_str) of
                     (Some start, Some stop) \<Rightarrow>
                       Some \<lparr>me_start = start, me_end = stop,
                         me_readable = starts_with perms ''r'',
                         me_writable = perm_at perms 1 CHR ''w'',
                         me_executable = perm_at perms 2 CHR ''x'',
                         me_private = perm_at perms 3 CHR ''p'', me_path = path\<rparr>
                   | _ \<Rightarrow> None))
      | _ \<Rightarrow> None)"

definition classify_region :: "string option \<Rightarrow> memory_region_kind" where
  "classify_region path =
     (case path of
        None \<Rightarrow> Region_Private
      | Some w \<Rightarrow>
          if w = [] then Region_Private
          else if starts_with w ''['' then Region_Other
          else Region_Mapped)"

definition region_kind :: "maps_entry \<Rightarrow> memory_region_kind" where
  "region_kind e =
     (if me_private e \<and> me_path e = None then Region_Private else classify_region (me_path e))"

definition included :: "memory_scan_config \<Rightarrow> memory_region_kind \<Rightarrow> bool" where
  "included cfg kind =
     (case kind of
        Region_Private \<Rightarrow> ms_include_private cfg
      | Region_Image \<Rightarrow> ms_include_image cfg
      | Region_Mapped \<Rightarrow> ms_include_mapped cfg
      | Region_Other \<Rightarrow> False)"

definition region_wanted :: "memory_scan_config \<Rightarrow> maps_entry \<Rightarrow> bool" where
  "region_wanted cfg e \<longleftrightarrow>
     me_readable e \<and>
     (case me_path e of Some w \<Rightarrow> w \<notin> {''[vvar]'', ''[vdso]'', ''[vsyscall]''} | None \<Rightarrow> True) \<and>
     included cfg (region_kind e)"

fun read_regions ::
    "memory_scan_config \<Rightarrow> (u64 \<Rightarrow> nat \<Rightarrow> u8 list option) \<Rightarrow> string list \<Rightarrow> nat \<Rightarrow> memory_chunk list" where
  "read_regions cfg read [] total_bytes = []"
| "read_regions cfg read (line # lines) total_bytes =
     (if ms_max_process_bytes cfg \<le> total_bytes then []
      else case parse_maps_line line of
        None \<Rightarrow> read_regions cfg read lines total_bytes
      | Some e \<Rightarrow>
          if \<not> region_wanted cfg e then read_regions cfg read lines total_bytes
          else
            let region_size = unat (me_end e - me_start e);
                read_size = min (min region_size (ms_max_region_bytes cfg))
                  (ms_max_process_bytes cfg - total_bytes)
            in if read_size = 0 then []
               else case read (me_start e) read_size of
                 None \<Rightarrow> read_regions cfg read lines total_bytes
               | Some bytes \<Rightarrow>
                   if bytes = [] then read_regions cfg read lines total_bytes
                   else
                     \<lparr>ch_base = me_start e, ch_bytes = bytes,
                      ch_region = \<lparr>mr_base = me_start e, mr_size = region_size, mr_readable = True,
                        mr_writable = me_writable e, mr_executable = me_executable e,
                        mr_kind = region_kind e\<rparr>\<rparr>
                     # read_regions cfg read lines (total_bytes + length bytes))"

text \<open>\<open>maps\<close> and \<open>mem\<close> are None when the file cannot be read or opened; then nothing is scanned.\<close>

definition read_process_memory_chunks ::
    "memory_scan_config \<Rightarrow> string option \<Rightarrow> (u64 \<Rightarrow> nat \<Rightarrow> u8 list option) option \<Rightarrow> memory_chunk list"
  where
  "read_process_memory_chunks cfg maps mem =
     (case (maps, mem) of
        (Some content, Some read) \<Rightarrow> read_regions cfg read (str_lines content) 0
      | _ \<Rightarrow> [])"

section \<open>The worker\<close>

definition region_kind_str :: "memory_region_kind \<Rightarrow> string" where
  "region_kind_str k =
     (case k of Region_Private \<Rightarrow> ''Private'' | Region_Image \<Rightarrow> ''Image'' | Region_Mapped \<Rightarrow> ''Mapped''
      | Region_Other \<Rightarrow> ''Other'')"

definition build_yara_memory_match_details ::
    "match_debug_level \<Rightarrow> yara_rule_match \<Rightarrow> memory_chunk \<Rightarrow> match_details option" where
  "build_yara_memory_match_details dbg m chunk =
     (if dbg = DebugOff then None
      else
        let r = ch_region chunk;
            summary = ''matched YARA rule '' @ yr_rule m @ '' in process memory at 0x'' @
              show_radix 16 (unat (ch_base chunk)) @ '' '' @ region_kind_str (mr_kind r) @ '' '' @
              (if mr_readable r then ''r'' else ''-'') @ (if mr_writable r then ''w'' else ''-'') @
              (if mr_executable r then ''x'' else ''-'');
            rule = (if dbg \<noteq> DebugFull then m\<lparr>yr_strings := []\<rparr> else m)
        in Some \<lparr>md_summary = summary, md_sigma = None, md_yara = Some [rule]\<rparr>)"

definition build_yara_memory_alert ::
    "string \<Rightarrow> string \<Rightarrow> string option \<Rightarrow> string \<Rightarrow> u32 \<Rightarrow> match_details option \<Rightarrow> platform \<Rightarrow> string \<Rightarrow> alert"
  where
  "build_yara_memory_alert timestamp rule_name meta_id img pid details p provider =
     build_yara_alert timestamp rule_name meta_id img pid details p provider"

text \<open>
  One job: \<open>os\<close> is the process table after the delay, \<open>chunks\<close> what the reader returns (None: its
  error on the other platforms), \<open>timestamp i\<close> and \<open>clock i\<close> the time readings for alert number \<open>i\<close>.
\<close>

definition chunk_matches ::
    "'c yara_crate \<Rightarrow> match_debug_level \<Rightarrow> 'c yara_scanner \<Rightarrow> memory_chunk list \<Rightarrow>
     (memory_chunk \<times> yara_rule_match) list" where
  "chunk_matches Y dbg s chunks =
     concat (map (\<lambda>c. map (\<lambda>m. (c, m)) (scan_bytes Y (ch_bytes c) dbg s)) chunks)"

definition yara_memory_alerts ::
    "(nat \<Rightarrow> string) \<Rightarrow> match_debug_level \<Rightarrow> process_identity \<Rightarrow> platform \<Rightarrow> string \<Rightarrow>
     (memory_chunk \<times> yara_rule_match) list \<Rightarrow> alert list" where
  "yara_memory_alerts timestamp dbg identity p provider cms =
     map (\<lambda>(i, c, m). build_yara_memory_alert (timestamp i) (yr_rule m) (yr_metadata_id m)
            (pi_image identity) (pi_pid identity) (build_yara_memory_match_details dbg m c) p provider)
       (enumerate 0 cms)"

definition yara_memory_work ::
    "'c yara_crate \<Rightarrow> platform \<Rightarrow> string \<Rightarrow> match_debug_level \<Rightarrow> (string \<Rightarrow> string) \<Rightarrow> os \<Rightarrow>
     memory_chunk list option \<Rightarrow> (nat \<Rightarrow> string) \<Rightarrow> (nat \<Rightarrow> nat) \<Rightarrow> process_identity \<Rightarrow>
     'c yara_scanner \<Rightarrow> detection_handler \<Rightarrow> detection_handler \<times> (alert \<times> ecs_alert list) list" where
  "yara_memory_work Y p provider dbg hash os chunks timestamp clock identity s h =
     (case validate_process_identity p os identity of
        Inl err \<Rightarrow> (h, [])
      | Inr queried \<Rightarrow>
          (case chunks of
             None \<Rightarrow> (h, [])
           | Some cs \<Rightarrow>
               deliver_alerts hash clock 0
                 (yara_memory_alerts timestamp dbg identity p provider (chunk_matches Y dbg s cs)) h))"

section \<open>Limits\<close>

text \<open>One step of the loop: the rest of the lines with the same total, or the end, or a chunk.\<close>

definition chunk_ok :: "memory_scan_config \<Rightarrow> memory_chunk \<Rightarrow> bool" where
  "chunk_ok cfg c \<longleftrightarrow>
     ch_bytes c \<noteq> [] \<and> length (ch_bytes c) \<le> ms_max_region_bytes cfg \<and>
     length (ch_bytes c) \<le> mr_size (ch_region c) \<and> ch_base c = mr_base (ch_region c) \<and>
     mr_readable (ch_region c) \<and> included cfg (mr_kind (ch_region c))"

abbreviation chunk_sum :: "memory_chunk list \<Rightarrow> nat" where
  "chunk_sum cs \<equiv> sum_list (map (\<lambda>c. length (ch_bytes c)) cs)"

lemma read_regions_limits:
  assumes "\<And>a n bytes. read a n = Some bytes \<Longrightarrow> length bytes \<le> n" and "total_bytes \<le> ms_max_process_bytes cfg"
  shows "total_bytes + chunk_sum (read_regions cfg read lines total_bytes) \<le> ms_max_process_bytes cfg \<and>
    (\<forall>c \<in> set (read_regions cfg read lines total_bytes). chunk_ok cfg c)"
  using assms(2)
proof (induction lines arbitrary: total_bytes)
  case (Cons line lines)
  show ?case
  proof (cases "\<exists>e bytes. parse_maps_line line = Some e \<and> region_wanted cfg e \<and> bytes \<noteq> [] \<and>
      read (me_start e) (min (min (unat (me_end e - me_start e)) (ms_max_region_bytes cfg))
        (ms_max_process_bytes cfg - total_bytes)) = Some bytes")
    case False
    then have "read_regions cfg read (line # lines) total_bytes = [] \<or>
        read_regions cfg read (line # lines) total_bytes = read_regions cfg read lines total_bytes"
      by (auto simp: Let_def split: option.split)
    with Cons show ?thesis by (elim disjE) simp_all
  next
    case True
    then obtain e bytes where e: "parse_maps_line line = Some e" "region_wanted cfg e" "bytes \<noteq> []"
      and r: "read (me_start e) (min (min (unat (me_end e - me_start e)) (ms_max_region_bytes cfg))
        (ms_max_process_bytes cfg - total_bytes)) = Some bytes" by blast
    define n where "n = min (min (unat (me_end e - me_start e)) (ms_max_region_bytes cfg))
        (ms_max_process_bytes cfg - total_bytes)"
    have n: "n \<le> unat (me_end e - me_start e)" "n \<le> ms_max_region_bytes cfg"
      "n \<le> ms_max_process_bytes cfg - total_bytes" by (simp_all add: n_def)
    have len: "length bytes \<le> n" using assms(1) r by (simp only: n_def)
    have "0 < length bytes" using e(3) by simp
    with len n(3) have room: "n \<noteq> 0" "\<not> ms_max_process_bytes cfg \<le> total_bytes" by linarith+
    let ?rest = "read_regions cfg read lines (total_bytes + length bytes)"
    from len n(3) Cons.prems have "total_bytes + length bytes \<le> ms_max_process_bytes cfg" by linarith
    then have rest: "total_bytes + length bytes + chunk_sum ?rest \<le> ms_max_process_bytes cfg"
      "\<forall>c \<in> set ?rest. chunk_ok cfg c" using Cons.IH by blast+
    obtain c where c: "read_regions cfg read (line # lines) total_bytes = c # ?rest"
      "ch_bytes c = bytes" "ch_base c = mr_base (ch_region c)" "mr_size (ch_region c) = unat (me_end e - me_start e)"
      "mr_readable (ch_region c)" "mr_kind (ch_region c) = region_kind e"
      using e r room by (simp add: n_def [symmetric] del: min.absorb1 min.absorb2 min_less_iff_conj)
    have "length bytes \<le> ms_max_region_bytes cfg" "length bytes \<le> unat (me_end e - me_start e)"
      using len n by linarith+
    with c e have "chunk_ok cfg c" by (simp add: chunk_ok_def region_wanted_def)
    with c rest show ?thesis by (simp add: add.assoc)
  qed
qed simp


definition sample_memory_config :: memory_scan_config where
  "sample_memory_config = \<lparr>ms_max_process_bytes = 6, ms_max_region_bytes = 4, ms_include_private = True,
     ms_include_image = False, ms_include_mapped = False, ms_delay_ms = 0\<rparr>"


text \<open>
  On Linux no region is ever classified as an image, so \<open>yara_memory_include_image\<close> selects nothing, and
  a private region with a name in brackets (the heap, the stack, or one the process named itself) is
  never scanned.
\<close>

lemma linux_never_image: "region_kind e \<noteq> Region_Image"
  by (simp add: region_kind_def classify_region_def split: option.split)

lemma named_private_memory_skipped:
  "me_path e = Some (CHR ''['' # w) \<Longrightarrow> \<not> region_wanted cfg e"
  by (simp add: region_wanted_def region_kind_def classify_region_def included_def)

end
