(* ===== verification/Service.thy ===== *)
theory Service
  imports Config
begin

text \<open>
  \<open>src/service.rs\<close> and the service parts of \<open>src/platform/\<close>: the native service of a managed
  installation.
  \<^item> \<open>host\<close>: the disk and the service manager, whose programs (\<open>systemctl\<close>, \<open>launchctl\<close>, the
    Windows service manager) are parameters; nothing is assumed of them but that they leave the disk
    alone. A command that could be run has succeeded or not, and has an output.
  \<^item> \<open>service_backend\<close> is the trait \<open>ServiceBackend\<close>; the three backends are its instances.
  \<^item> \<open>service_follows_its_file\<close>: what the actions do to the service definition on disk.
  Error messages are left out, an error says which step failed.
\<close>

section \<open>Steps with an error\<close>

type_synonym ('s, 'e, 'a) act = "'s \<Rightarrow> ('e + 'a) \<times> 's"

definition act_ret :: "'a \<Rightarrow> ('s, 'e, 'a) act" where
  "act_ret x s = (Inr x, s)"

definition act_fail :: "'e \<Rightarrow> ('s, 'e, 'a) act" where
  "act_fail e s = (Inl e, s)"

definition act_bind :: "('s, 'e, 'a) act \<Rightarrow> ('a \<Rightarrow> ('s, 'e, 'b) act) \<Rightarrow> ('s, 'e, 'b) act" where
  "act_bind m k s = (case m s of (Inl e, s') \<Rightarrow> (Inl e, s') | (Inr x, s') \<Rightarrow> k x s')"

definition act_ignore :: "('s, 'e, 'a) act \<Rightarrow> ('s, 'f, unit) act" where
  "act_ignore m s = (Inr (), snd (m s))"

definition act_get :: "('s \<Rightarrow> 'a) \<Rightarrow> ('s, 'e, 'a) act" where
  "act_get f s = (Inr (f s), s)"

definition act_try :: "('s, 'e, 'a) act \<Rightarrow> ('s, 'f, 'e + 'a) act" where
  "act_try m s = (let (r, s') = m s in (Inr r, s'))"

text \<open>The successful runs of a composition.\<close>

lemma act_success:
  "act_ret x s = (Inr y, s') \<longleftrightarrow> x = y \<and> s = s'"
  "act_fail e s = (Inr y, s') \<longleftrightarrow> False"
  "act_get f s = (Inr y, s') \<longleftrightarrow> y = f s \<and> s = s'"
  "act_bind m k s = (Inr z, s') \<longleftrightarrow> (\<exists>x s1. m s = (Inr x, s1) \<and> k x s1 = (Inr z, s'))"
  "act_ignore m s = (Inr u, s') \<longleftrightarrow> s' = snd (m s)"
  "act_try m s = (Inr r, s') \<longleftrightarrow> m s = (r, s')"
  by (auto simp: act_ret_def act_fail_def act_get_def act_bind_def act_ignore_def act_try_def Let_def
      split: prod.splits sum.splits)

lemma act_bind_ret [simp]: "act_bind (act_ret x) k = k x"
  by (simp add: act_bind_def act_ret_def fun_eq_iff)

section \<open>The service and its status\<close>

definition windows_service_name :: string where
  "windows_service_name = ''Rustinel''"

definition systemd_service_name :: string where
  "systemd_service_name = ''rustinel''"

definition systemd_unit_name :: string where
  "systemd_unit_name = ''rustinel.service''"

definition launchd_label :: string where
  "launchd_label = ''com.rustinel.agent''"

datatype service_status = Not_Installed | Stopped | Starting | Running | Failed_Status | Unknown_Status

definition service_status_str :: "service_status \<Rightarrow> string" where
  "service_status_str s = (case s of
     Not_Installed \<Rightarrow> ''not-installed'' | Stopped \<Rightarrow> ''stopped'' | Starting \<Rightarrow> ''starting''
   | Running \<Rightarrow> ''running'' | Failed_Status \<Rightarrow> ''failed'' | Unknown_Status \<Rightarrow> ''unknown'')"

definition systemd_status_from_state :: "string \<Rightarrow> service_status" where
  "systemd_status_from_state state =
     (let s = str_trim state in
      if s = ''active'' then Running
      else if s = ''activating'' then Starting
      else if s = ''inactive'' \<or> s = ''deactivating'' then Stopped
      else if s = ''failed'' then Failed_Status
      else Unknown_Status)"

definition launchd_status_from_output :: "string \<Rightarrow> service_status" where
  "launchd_status_from_output out =
     (if str_contains out ''state = running'' then Running
      else if str_contains out ''state = spawning'' then Starting
      else if str_contains out ''state = waiting'' \<or> str_contains out ''state = exited'' \<or>
        str_contains out ''last exit code = 0'' then Stopped
      else if str_contains out ''last exit code ='' then Failed_Status
      else Unknown_Status)"

record managed_service_paths =
  sp_platform :: platform
  sp_binary_path :: string
  sp_config_path :: string
  sp_working_dir :: string
  sp_systemd_unit_path :: "string option"
  sp_launchd_plist_path :: "string option"
  sp_logs_dir :: string

definition service_paths_for :: "platform \<Rightarrow> managed_service_paths" where
  "service_paths_for p =
     (let layout = managed_layout p in
      case p of
        Windows \<Rightarrow>
          \<lparr>sp_platform = p,
           sp_binary_path = win_path [''C:'', ''Program Files'', ''Rustinel'', ''rustinel.exe''],
           sp_config_path = il_config_file layout,
           sp_working_dir = win_path [''C:'', ''Program Files'', ''Rustinel''],
           sp_systemd_unit_path = None, sp_launchd_plist_path = None,
           sp_logs_dir = il_logs_dir layout\<rparr>
      | Linux \<Rightarrow>
          \<lparr>sp_platform = p, sp_binary_path = ''/opt/rustinel/rustinel'',
           sp_config_path = il_config_file layout, sp_working_dir = ''/opt/rustinel'',
           sp_systemd_unit_path = Some ''/etc/systemd/system/rustinel.service'',
           sp_launchd_plist_path = None, sp_logs_dir = il_logs_dir layout\<rparr>
      | MacOS \<Rightarrow>
          \<lparr>sp_platform = p,
           sp_binary_path = ''/usr/local/var/rustinel/Rustinel.app/Contents/MacOS/rustinel'',
           sp_config_path = il_config_file layout, sp_working_dir = ''/usr/local/var/rustinel'',
           sp_systemd_unit_path = None,
           sp_launchd_plist_path = Some ''/Library/LaunchDaemons/com.rustinel.agent.plist'',
           sp_logs_dir = il_logs_dir layout\<rparr>)"

section \<open>The definitions on disk\<close>

definition xml_escape :: "string \<Rightarrow> string" where
  "xml_escape v =
     str_replace [CHR 0x27] ''&apos;''
       (str_replace [dquote] ''&quot;''
         (str_replace ''>'' ''&gt;''
           (str_replace ''<'' ''&lt;''
             (str_replace ''&'' ''&amp;'' v))))"

definition systemd_contents :: "managed_service_paths \<Rightarrow> string" where
  "systemd_contents paths = unlines [
     ''[Unit]'',
     ''Description=Rustinel endpoint detection agent'',
     ''Documentation=https://github.com/Karib0u/rustinel'',
     ''After=network.target'',
     '''',
     ''[Service]'',
     ''Type=simple'',
     ''ExecStart='' @ sp_binary_path paths @ '' run --config '' @ sp_config_path paths @ '' --no-console'',
     ''WorkingDirectory='' @ sp_working_dir paths,
     ''Restart=on-failure'',
     ''RestartSec=5s'',
     ''User=root'',
     ''AmbientCapabilities=CAP_BPF CAP_PERFMON CAP_NET_ADMIN CAP_SYS_RESOURCE'',
     ''CapabilityBoundingSet=CAP_BPF CAP_PERFMON CAP_NET_ADMIN CAP_SYS_RESOURCE'',
     ''NoNewPrivileges=true'',
     ''StandardOutput=journal'',
     ''StandardError=journal'',
     ''SyslogIdentifier=rustinel'',
     '''',
     ''[Install]'',
     ''WantedBy=multi-user.target'']"

definition quoted :: "string \<Rightarrow> string" where
  "quoted s = [dquote] @ s @ [dquote]"

definition xml_string :: "string \<Rightarrow> string" where
  "xml_string v = ''<string>'' @ xml_escape v @ ''</string>''"

definition launchd_contents :: "managed_service_paths \<Rightarrow> string" where
  "launchd_contents paths =
     (let stdout_path = layout_join (sp_platform paths) (sp_logs_dir paths) ''launchd.out.log'';
          stderr_path = layout_join (sp_platform paths) (sp_logs_dir paths) ''launchd.err.log'' in
      unlines [
        ''<?xml version='' @ quoted ''1.0'' @ '' encoding='' @ quoted ''UTF-8'' @ ''?>'',
        ''<!DOCTYPE plist PUBLIC '' @ quoted ''-//Apple//DTD PLIST 1.0//EN'' @ '' '' @
          quoted ''http://www.apple.com/DTDs/PropertyList-1.0.dtd'' @ ''>'',
        ''<plist version='' @ quoted ''1.0'' @ ''>'',
        ''<dict>'',
        ''<key>Label</key>'', xml_string launchd_label,
        ''<key>ProgramArguments</key>'',
        ''<array>'',
        xml_string (sp_binary_path paths),
        ''<string>run</string>'',
        ''<string>--config</string>'',
        xml_string (sp_config_path paths),
        ''<string>--no-console</string>'',
        ''</array>'',
        ''<key>WorkingDirectory</key>'', xml_string (sp_working_dir paths),
        ''<key>RunAtLoad</key>'', ''<true/>'',
        ''<key>KeepAlive</key>'', ''<true/>'',
        ''<key>ProcessType</key>'', ''<string>Interactive</string>'',
        ''<key>StandardOutPath</key>'', xml_string stdout_path,
        ''<key>StandardErrorPath</key>'', xml_string stderr_path,
        ''</dict>'',
        ''</plist>''])"

section \<open>Backends\<close>

datatype service_action = Install_Service | Uninstall_Service | Start_Service | Stop_Service
  | Restart_Service | Status_Service

datatype service_command_result = No_Status | Status service_status

record ('s, 'e) service_backend =
  sb_name :: string
  sb_install :: "('s, 'e, unit) act"
  sb_uninstall :: "('s, 'e, unit) act"
  sb_start :: "('s, 'e, unit) act"
  sb_stop :: "('s, 'e, unit) act"
  sb_status :: "('s, 'e, service_status) act"

definition run_backend_action ::
    "('s, 'e) service_backend \<Rightarrow> service_action \<Rightarrow> ('s, 'e, service_command_result) act" where
  "run_backend_action b action =
     (case action of
        Install_Service \<Rightarrow> act_bind (sb_install b) (\<lambda>_. act_ret No_Status)
      | Uninstall_Service \<Rightarrow> act_bind (sb_uninstall b) (\<lambda>_. act_ret No_Status)
      | Start_Service \<Rightarrow> act_bind (sb_start b) (\<lambda>_. act_ret No_Status)
      | Stop_Service \<Rightarrow> act_bind (sb_stop b) (\<lambda>_. act_ret No_Status)
      | Restart_Service \<Rightarrow>
          act_bind (act_try (sb_status b)) (\<lambda>r.
          act_bind (case (case r of Inr s \<Rightarrow> s | Inl _ \<Rightarrow> Unknown_Status) of
              Not_Installed \<Rightarrow> sb_start b
            | Stopped \<Rightarrow> sb_start b
            | _ \<Rightarrow> act_bind (sb_stop b) (\<lambda>_. sb_start b)) (\<lambda>_.
          act_ret No_Status))
      | Status_Service \<Rightarrow> act_bind (sb_status b) (\<lambda>s. act_ret (Status s)))"

definition action_verb :: "service_action \<Rightarrow> string" where
  "action_verb action = (case action of
     Install_Service \<Rightarrow> ''installed'' | Uninstall_Service \<Rightarrow> ''uninstalled''
   | Start_Service \<Rightarrow> ''started'' | Stop_Service \<Rightarrow> ''stopped'' | Restart_Service \<Rightarrow> ''restarted''
   | Status_Service \<Rightarrow> ''status'')"

text \<open>The line that the command prints.\<close>

definition execute_backend_action ::
    "('s, 'e) service_backend \<Rightarrow> service_action \<Rightarrow> ('s, 'e, string) act" where
  "execute_backend_action b action =
     act_bind (run_backend_action b action) (\<lambda>result. act_ret
       (case result of
          No_Status \<Rightarrow> ''Service '' @ [CHR 0x27] @ sb_name b @ [CHR 0x27] @ '' '' @ action_verb action @ ''.''
        | Status s \<Rightarrow> service_status_str s))"

section \<open>The host\<close>

record 'm host =
  ho_disk :: world
  ho_manager :: 'm

type_synonym 'm service_program = "string list \<Rightarrow> 'm \<Rightarrow> (bool \<times> string) option \<times> 'm"

datatype winapi_error = Winapi "int option" | Other_Winapi

datatype service_error = Missing_Input string | Missing_Service_Path | Service_Disk call
  | Cannot_Run "string list" | Command_Failed "string list" | Daemon_Not_Installed string
  | Service_Manager winapi_error

text \<open>The path of an absolute name without \<open>..\<close>.\<close>

definition disk_path :: "string \<Rightarrow> path" where
  "disk_path s = path_pieces s"

definition text_bytes :: "string \<Rightarrow> u8 list" where
  "text_bytes s = map (\<lambda>c. of_nat (byte c)) s"

definition on_disk :: "('f \<Rightarrow> 'e) \<Rightarrow> ('f, 'a) io \<Rightarrow> ('m host, 'e, 'a) act" where
  "on_disk f m h =
     (let (r, w) = m (ho_disk h) in
      (case r of Inl c \<Rightarrow> Inl (f c) | Inr x \<Rightarrow> Inr x, h\<lparr>ho_disk := w\<rparr>))"

abbreviation file_exists :: "string \<Rightarrow> 'm host \<Rightarrow> bool" where
  "file_exists p h \<equiv> path_exists (wd_tree (ho_disk h)) (disk_path p)"

definition ensure_regular_file :: "string \<Rightarrow> ('m host, service_error, unit) act" where
  "ensure_regular_file p h =
     (if is_file (wd_tree (ho_disk h)) (disk_path p) then Inr () else Inl (Missing_Input p), h)"

definition validate_install_inputs :: "managed_service_paths \<Rightarrow> ('m host, service_error, unit) act" where
  "validate_install_inputs paths =
     act_bind (ensure_regular_file (sp_binary_path paths)) (\<lambda>_.
     ensure_regular_file (sp_config_path paths))"

definition service_path :: "string option \<Rightarrow> ('m host, service_error, string) act" where
  "service_path p = (case p of Some s \<Rightarrow> act_ret s | None \<Rightarrow> act_fail Missing_Service_Path)"

definition command_output ::
    "'m service_program \<Rightarrow> string list \<Rightarrow> ('m host, service_error, bool \<times> string) act" where
  "command_output ctl args h =
     (let (r, m) = ctl args (ho_manager h) in
      (case r of None \<Rightarrow> Inl (Cannot_Run args) | Some out \<Rightarrow> Inr out, h\<lparr>ho_manager := m\<rparr>))"

definition command ::
    "'m service_program \<Rightarrow> string list \<Rightarrow> ('m host, service_error, unit) act" where
  "command ctl args =
     act_bind (command_output ctl args) (\<lambda>(success, out).
     if success then act_ret () else act_fail (Command_Failed args))"

text \<open>The definition is written unless the file already has the same contents.\<close>

definition write_definition :: "string \<Rightarrow> string \<Rightarrow> ('m host, service_error, unit) act" where
  "write_definition p contents =
     act_bind (on_disk Service_Disk (fs_create_dir_all (butlast (disk_path p)))) (\<lambda>_.
     act_bind (act_try (on_disk Service_Disk (fs_read (disk_path p)))) (\<lambda>existing.
     if existing = Inr (text_bytes contents) then act_ret ()
     else on_disk Service_Disk (fs_write (disk_path p) (text_bytes contents))))"

section \<open>systemd\<close>

definition systemd_install ::
    "'m service_program \<Rightarrow> managed_service_paths \<Rightarrow> ('m host, service_error, unit) act" where
  "systemd_install ctl paths =
     act_bind (validate_install_inputs paths) (\<lambda>_.
     act_bind (service_path (sp_systemd_unit_path paths)) (\<lambda>unit_path.
     act_bind (write_definition unit_path (systemd_contents paths)) (\<lambda>_.
     act_bind (command ctl [''daemon-reload'']) (\<lambda>_.
     command ctl [''enable'', systemd_unit_name]))))"

definition systemd_uninstall ::
    "'m service_program \<Rightarrow> managed_service_paths \<Rightarrow> ('m host, service_error, unit) act" where
  "systemd_uninstall ctl paths =
     act_bind (service_path (sp_systemd_unit_path paths)) (\<lambda>unit_path.
     act_bind (act_get (file_exists unit_path)) (\<lambda>installed.
     if installed then
       act_bind (act_ignore (command ctl [''stop'', systemd_unit_name])) (\<lambda>_.
       act_bind (act_ignore (command ctl [''disable'', systemd_unit_name])) (\<lambda>_.
       act_bind (on_disk Service_Disk (fs_remove_file (disk_path unit_path))) (\<lambda>_.
       command ctl [''daemon-reload''])))
     else act_ret ()))"

definition systemd_status ::
    "'m service_program \<Rightarrow> managed_service_paths \<Rightarrow> ('m host, service_error, service_status) act" where
  "systemd_status ctl paths =
     act_bind (service_path (sp_systemd_unit_path paths)) (\<lambda>unit_path.
     act_bind (act_get (file_exists unit_path)) (\<lambda>installed.
     if \<not> installed then act_ret Not_Installed
     else act_bind (command_output ctl [''is-active'', systemd_unit_name]) (\<lambda>(success, out).
       act_ret (systemd_status_from_state out))))"

definition systemd_backend ::
    "'m service_program \<Rightarrow> managed_service_paths \<Rightarrow> ('m host, service_error) service_backend" where
  "systemd_backend ctl paths = \<lparr>
     sb_name = systemd_service_name,
     sb_install = systemd_install ctl paths,
     sb_uninstall = systemd_uninstall ctl paths,
     sb_start = command ctl [''start'', systemd_unit_name],
     sb_stop = command ctl [''stop'', systemd_unit_name],
     sb_status = systemd_status ctl paths\<rparr>"

section \<open>launchd\<close>

definition service_target :: string where
  "service_target = ''system/'' @ launchd_label"

definition print_service ::
    "'m service_program \<Rightarrow> ('m host, service_error, bool \<times> string) act" where
  "print_service ctl = command_output ctl [''print'', service_target]"

definition launchd_install ::
    "'m service_program \<Rightarrow> managed_service_paths \<Rightarrow> ('m host, service_error, unit) act" where
  "launchd_install ctl paths =
     act_bind (validate_install_inputs paths) (\<lambda>_.
     act_bind (service_path (sp_launchd_plist_path paths)) (\<lambda>plist_path.
     act_bind (write_definition plist_path (launchd_contents paths)) (\<lambda>_.
     act_bind (print_service ctl) (\<lambda>(success, out).
     if success then command ctl [''enable'', service_target]
     else
       act_bind (command ctl [''bootstrap'', ''system'', plist_path]) (\<lambda>_.
       command ctl [''enable'', service_target])))))"

definition launchd_uninstall ::
    "'m service_program \<Rightarrow> managed_service_paths \<Rightarrow> ('m host, service_error, unit) act" where
  "launchd_uninstall ctl paths =
     act_bind (service_path (sp_launchd_plist_path paths)) (\<lambda>plist_path.
     act_bind (act_get (file_exists plist_path)) (\<lambda>installed.
     if installed then
       act_bind (act_ignore (command ctl [''bootout'', ''system'', plist_path])) (\<lambda>_.
       on_disk Service_Disk (fs_remove_file (disk_path plist_path)))
     else act_ret ()))"

definition launchd_start ::
    "'m service_program \<Rightarrow> managed_service_paths \<Rightarrow> ('m host, service_error, unit) act" where
  "launchd_start ctl paths =
     act_bind (service_path (sp_launchd_plist_path paths)) (\<lambda>plist_path.
     act_bind (act_get (file_exists plist_path)) (\<lambda>installed.
     if \<not> installed then act_fail (Daemon_Not_Installed plist_path)
     else
       act_bind (print_service ctl) (\<lambda>(success, out).
       act_bind (if success then act_ret ()
         else command ctl [''bootstrap'', ''system'', plist_path]) (\<lambda>_.
       command ctl [''kickstart'', ''-k'', service_target]))))"

definition launchd_stop ::
    "'m service_program \<Rightarrow> managed_service_paths \<Rightarrow> ('m host, service_error, unit) act" where
  "launchd_stop ctl paths =
     act_bind (service_path (sp_launchd_plist_path paths)) (\<lambda>plist_path.
     act_bind (act_get (file_exists plist_path)) (\<lambda>installed.
     if \<not> installed then act_ret ()
     else act_ignore (command ctl [''bootout'', ''system'', plist_path])))"

definition launchd_status ::
    "'m service_program \<Rightarrow> managed_service_paths \<Rightarrow> ('m host, service_error, service_status) act" where
  "launchd_status ctl paths =
     act_bind (service_path (sp_launchd_plist_path paths)) (\<lambda>plist_path.
     act_bind (act_get (file_exists plist_path)) (\<lambda>installed.
     if \<not> installed then act_ret Not_Installed
     else
       act_bind (print_service ctl) (\<lambda>(success, out).
       if \<not> success then act_ret Stopped else act_ret (launchd_status_from_output out))))"

definition launchd_backend ::
    "'m service_program \<Rightarrow> managed_service_paths \<Rightarrow> ('m host, service_error) service_backend" where
  "launchd_backend ctl paths = \<lparr>
     sb_name = launchd_label,
     sb_install = launchd_install ctl paths,
     sb_uninstall = launchd_uninstall ctl paths,
     sb_start = launchd_start ctl paths,
     sb_stop = launchd_stop ctl paths,
     sb_status = launchd_status ctl paths\<rparr>"

section \<open>The Windows service manager\<close>

text \<open>
  The calls of the \<open>windows_service\<close> crate. A service has its own process, starts automatically and
  reports errors normally; \<open>service_info\<close> keeps the rest.
\<close>

datatype service_access = Query_Config | Change_Config | Query_Status | Access_Start | Access_Stop
  | Access_Delete

datatype service_state = State_Stopped | State_Start_Pending | State_Stop_Pending | State_Running
  | State_Continue_Pending | State_Pause_Pending | State_Paused

record service_info =
  si_name :: string
  si_display_name :: string
  si_executable_path :: string
  si_launch_arguments :: "string list"

record 'm scm_crate =
  wc_local_computer :: "bool \<Rightarrow> ('m, winapi_error, unit) act"
  wc_open_service :: "service_access list \<Rightarrow> ('m, winapi_error, unit) act"
  wc_create_service :: "service_info \<Rightarrow> service_access list \<Rightarrow> ('m, winapi_error, unit) act"
  wc_change_config :: "service_info \<Rightarrow> ('m, winapi_error, unit) act"
  wc_set_description :: "string \<Rightarrow> ('m, winapi_error, unit) act"
  wc_query_status :: "('m, winapi_error, service_state) act"
  wc_start :: "('m, winapi_error, unit) act"
  wc_stop :: "('m, winapi_error, unit) act"
  wc_delete :: "('m, winapi_error, unit) act"

definition on_manager :: "('m, winapi_error, 'a) act \<Rightarrow> ('m host, service_error, 'a) act" where
  "on_manager a h =
     (let (r, m) = a (ho_manager h) in
      (case r of Inl e \<Rightarrow> Inl (Service_Manager e) | Inr x \<Rightarrow> Inr x, h\<lparr>ho_manager := m\<rparr>))"

definition service_info_of :: "managed_service_paths \<Rightarrow> service_info" where
  "service_info_of paths = \<lparr>
     si_name = windows_service_name, si_display_name = ''Rustinel ETW Sentinel'',
     si_executable_path = sp_binary_path paths,
     si_launch_arguments = [''run'', ''--config'', sp_config_path paths, ''--no-console'']\<rparr>"

definition service_description :: string where
  "service_description = ''High-performance endpoint detection agent''"

definition is_not_installed :: "service_error \<Rightarrow> bool" where
  "is_not_installed e =
     (case e of Service_Manager (Winapi code) \<Rightarrow> code = Some 1060 | _ \<Rightarrow> False)"

definition windows_status :: "service_state \<Rightarrow> service_status" where
  "windows_status s = (case s of
     State_Stopped \<Rightarrow> Stopped | State_Paused \<Rightarrow> Stopped
   | State_Start_Pending \<Rightarrow> Starting | State_Continue_Pending \<Rightarrow> Starting
   | State_Running \<Rightarrow> Running
   | State_Stop_Pending \<Rightarrow> Stopped | State_Pause_Pending \<Rightarrow> Stopped)"

definition windows_install ::
    "'m scm_crate \<Rightarrow> managed_service_paths \<Rightarrow> ('m host, service_error, unit) act" where
  "windows_install W paths =
     (let i = service_info_of paths; access = [Query_Config, Change_Config];
          describe = on_manager (wc_set_description W service_description) in
      act_bind (validate_install_inputs paths) (\<lambda>_.
      act_bind (on_manager (wc_local_computer W True)) (\<lambda>_.
      act_bind (act_try (on_manager (wc_open_service W access))) (\<lambda>opened.
      case opened of
        Inr _ \<Rightarrow> act_bind (on_manager (wc_change_config W i)) (\<lambda>_. describe)
      | Inl e \<Rightarrow>
          if is_not_installed e
          then act_bind (on_manager (wc_create_service W i access)) (\<lambda>_. describe)
          else act_fail e))))"

definition windows_uninstall :: "'m scm_crate \<Rightarrow> ('m host, service_error, unit) act" where
  "windows_uninstall W =
     act_bind (on_manager (wc_local_computer W False)) (\<lambda>_.
     act_bind (act_try (on_manager (wc_open_service W [Query_Status, Access_Stop, Access_Delete]))) (\<lambda>opened.
     case opened of
       Inr _ \<Rightarrow>
         act_bind (on_manager (wc_query_status W)) (\<lambda>state.
         act_bind (if windows_status state = Running then act_ignore (on_manager (wc_stop W))
           else act_ret ()) (\<lambda>_.
         on_manager (wc_delete W)))
     | Inl e \<Rightarrow> if is_not_installed e then act_ret () else act_fail e))"

definition windows_control ::
    "'m scm_crate \<Rightarrow> service_access \<Rightarrow> ('m, winapi_error, unit) act \<Rightarrow> ('m host, service_error, unit) act" where
  "windows_control W access run_it =
     act_bind (on_manager (wc_local_computer W False)) (\<lambda>_.
     act_bind (on_manager (wc_open_service W [access])) (\<lambda>_.
     on_manager run_it))"

definition windows_query :: "'m scm_crate \<Rightarrow> ('m host, service_error, service_status) act" where
  "windows_query W =
     act_bind (on_manager (wc_local_computer W False)) (\<lambda>_.
     act_bind (act_try (on_manager (wc_open_service W [Query_Status]))) (\<lambda>opened.
     case opened of
       Inr _ \<Rightarrow> act_bind (on_manager (wc_query_status W)) (\<lambda>state. act_ret (windows_status state))
     | Inl e \<Rightarrow> if is_not_installed e then act_ret Not_Installed else act_fail e))"

definition windows_backend ::
    "'m scm_crate \<Rightarrow> managed_service_paths \<Rightarrow> ('m host, service_error) service_backend" where
  "windows_backend W paths = \<lparr>
     sb_name = windows_service_name,
     sb_install = windows_install W paths,
     sb_uninstall = windows_uninstall W,
     sb_start = windows_control W Access_Start (wc_start W),
     sb_stop = windows_control W Access_Stop (wc_stop W),
     sb_status = windows_query W\<rparr>"


section \<open>Escaping\<close>

text \<open>The five replacements, one after the other, are one pass over the characters.\<close>

definition xml_char :: "char \<Rightarrow> string" where
  "xml_char c =
     (if c = CHR ''&'' then ''&amp;'' else if c = CHR ''<'' then ''&lt;''
      else if c = CHR ''>'' then ''&gt;'' else if c = dquote then ''&quot;''
      else if c = CHR 0x27 then ''&apos;'' else [c])"

lemma xml_escape_chars: "xml_escape s = concat (map xml_char s)"
  by (induction s) (simp_all add: xml_escape_def str_replace_char xml_char_def)

text \<open>What reading the element gives back.\<close>

function xml_unescape :: "string \<Rightarrow> string" where
  "xml_unescape s =
     (if s = [] then []
      else if starts_with s ''&amp;'' then CHR ''&'' # xml_unescape (drop 5 s)
      else if starts_with s ''&lt;'' then CHR ''<'' # xml_unescape (drop 4 s)
      else if starts_with s ''&gt;'' then CHR ''>'' # xml_unescape (drop 4 s)
      else if starts_with s ''&quot;'' then dquote # xml_unescape (drop 6 s)
      else if starts_with s ''&apos;'' then CHR 0x27 # xml_unescape (drop 6 s)
      else hd s # xml_unescape (tl s))"
  by pat_completeness auto
termination by (relation "measure length") (auto dest: prefix_length_le)

declare xml_unescape.simps [simp del]

lemma xml_unescape_char: "xml_unescape (xml_char c @ s) = c # xml_unescape s"
  by (subst xml_unescape.simps) (simp add: xml_char_def)

lemma xml_escape_roundtrip: "xml_unescape (xml_escape s) = s"
  by (induction s) (simp_all add: xml_escape_chars xml_unescape.simps [of "[]"] xml_unescape_char)

lemma xml_escape_no_markup: "CHR ''<'' \<notin> set (xml_escape s)" "CHR ''>'' \<notin> set (xml_escape s)"
  by (auto simp: xml_escape_chars xml_char_def split: if_splits)

section \<open>The service follows its file\<close>

definition unix_backend ::
    "platform \<Rightarrow> 'm service_program \<Rightarrow> managed_service_paths \<Rightarrow> ('m host, service_error) service_backend" where
  "unix_backend p ctl paths =
     (if p = MacOS then launchd_backend ctl paths else systemd_backend ctl paths)"

definition definition_path :: "platform \<Rightarrow> managed_service_paths \<Rightarrow> string option" where
  "definition_path p paths =
     (if p = MacOS then sp_launchd_plist_path paths else sp_systemd_unit_path paths)"

definition definition_contents :: "platform \<Rightarrow> managed_service_paths \<Rightarrow> string" where
  "definition_contents p paths =
     (if p = MacOS then launchd_contents paths else systemd_contents paths)"

text \<open>Steps that do not touch the disk.\<close>

definition same_disk :: "('m host, 'e, 'a) act \<Rightarrow> bool" where
  "same_disk m \<longleftrightarrow> (\<forall>h. ho_disk (snd (m h)) = ho_disk h)"

named_theorems same_disk_intros

lemma same_disk_run: "same_disk m \<Longrightarrow> m h = (r, h') \<Longrightarrow> ho_disk h' = ho_disk h"
  unfolding same_disk_def by (metis snd_conv)

lemma same_disk_bind [same_disk_intros]:
  "same_disk m \<Longrightarrow> (\<And>x. same_disk (k x)) \<Longrightarrow> same_disk (act_bind m k)"
  by (simp add: same_disk_def act_bind_def split: prod.split sum.split) (metis snd_conv)

lemma same_disk_basic [same_disk_intros]:
  "same_disk (act_ret x)" "same_disk (act_fail e)" "same_disk (act_get f)"
  "same_disk (service_path p)" "same_disk (command_output ctl args)"
  by (simp_all add: same_disk_def act_ret_def act_fail_def act_get_def service_path_def
      command_output_def Let_def split: prod.split option.split)

lemma same_disk_ignore [same_disk_intros]: "same_disk m \<Longrightarrow> same_disk (act_ignore m)"
  by (simp add: same_disk_def act_ignore_def)

lemma same_disk_split [same_disk_intros]: "(\<And>a b. same_disk (k a b)) \<Longrightarrow> same_disk (case x of (a, b) \<Rightarrow> k a b)"
  by (cases x) simp

lemma same_disk_command [same_disk_intros]: "same_disk (command ctl args)"
  unfolding command_def by (auto intro!: same_disk_intros)

lemma on_disk_success:
  "on_disk f m h = (Inr x, h') \<longleftrightarrow> (\<exists>w. m (ho_disk h) = (Inr x, w) \<and> h' = h\<lparr>ho_disk := w\<rparr>)"
  "on_disk f m h = (Inl e, h') \<longleftrightarrow> (\<exists>c w. m (ho_disk h) = (Inl c, w) \<and> e = f c \<and> h' = h\<lparr>ho_disk := w\<rparr>)"
  by (auto simp: on_disk_def Let_def split: prod.splits sum.splits)

lemma validate_disk:
  "validate_install_inputs paths h = (Inr u, h') \<Longrightarrow> h' = h"
  by (auto simp: validate_install_inputs_def ensure_regular_file_def act_success split: if_splits)

lemma write_definition_success:
  assumes "write_definition p contents h = (Inr u, h')" and "disk_path p \<noteq> []"
  shows "node_at (wd_tree (ho_disk h')) (disk_path p) = Some (File (text_bytes contents))"
proof -
  obtain h1 r h2 where 2: "on_disk Service_Disk (fs_read (disk_path p)) h1 = (r, h2)"
    and 3: "(if r = Inr (text_bytes contents) then act_ret ()
      else on_disk Service_Disk (fs_write (disk_path p) (text_bytes contents))) h2 = (Inr u, h')"
    using assms(1) by (auto simp: write_definition_def act_success)
  show ?thesis
  proof (cases "r = Inr (text_bytes contents)")
    case True
    with 2 3 obtain w where "fs_read (disk_path p) (ho_disk h1) = (Inr (text_bytes contents), w)"
      and "ho_disk h' = w"
      by (auto simp: on_disk_success act_success)
    with fs_read_success [OF this(1)] show ?thesis by simp
  next
    case False
    with 3 obtain w where "fs_write (disk_path p) (text_bytes contents) (ho_disk h2) = (Inr u, w)"
      and "ho_disk h' = w"
      by (auto simp: on_disk_success)
    with fs_write_success(1) [OF this(1) assms(2)] show ?thesis by simp
  qed
qed

lemma fs_remove_file_success:
  assumes "fs_remove_file p w = (Inr u, w')" and "p \<noteq> []"
  shows "node_at (wd_tree w') p = None"
proof -
  have "is_file (wd_tree w) p" and t: "wd_tree w' = graft p None (wd_tree w)"
    using system_call_success [OF assms(1) [unfolded fs_remove_file_def]] by (auto split: if_splits)
  then obtain n where "node_at (wd_tree w) (butlast p @ [last p]) = Some n"
    using assms(2) by (auto simp: is_file_def split: option.splits)
  then have "is_dir (wd_tree w) (butlast p)" by (rule is_dir_prefix)
  with t assms(2) show ?thesis by (simp add: node_at_graft_same)
qed

lemma install_writes_definition:
  assumes "definition_path p paths = Some s" and "disk_path s \<noteq> []"
    and "sb_install (unix_backend p ctl paths) h = (Inr u, h')"
  shows "node_at (wd_tree (ho_disk h')) (disk_path s) =
    Some (File (text_bytes (definition_contents p paths)))"
proof -
  define rest where "rest =
    (if p = MacOS then act_bind (print_service ctl) (\<lambda>(success, out).
       if success then command ctl [''enable'', service_target]
       else act_bind (command ctl [''bootstrap'', ''system'', s]) (\<lambda>_.
         command ctl [''enable'', service_target]))
     else act_bind (command ctl [''daemon-reload'']) (\<lambda>_.
       command ctl [''enable'', systemd_unit_name]))"
  have "sb_install (unix_backend p ctl paths) = act_bind (validate_install_inputs paths) (\<lambda>_.
      act_bind (write_definition s (definition_contents p paths)) (\<lambda>_. rest))"
    using assms(1)
    by (cases "p = MacOS")
      (simp_all add: unix_backend_def launchd_backend_def systemd_backend_def launchd_install_def
        systemd_install_def definition_path_def definition_contents_def service_path_def rest_def)
  then obtain h1 h2 where "write_definition s (definition_contents p paths) h1 = (Inr (), h2)"
    and "rest h2 = (Inr u, h')"
    using assms(3) by (auto simp: act_success)
  moreover have "same_disk rest"
    by (auto simp: rest_def print_service_def intro!: same_disk_intros)
  ultimately show ?thesis
    using write_definition_success [OF _ assms(2)] by (metis same_disk_run)
qed

lemma uninstall_removes_definition:
  assumes "definition_path p paths = Some s" and "disk_path s \<noteq> []"
    and "sb_uninstall (unix_backend p ctl paths) h = (Inr u, h')"
  shows "node_at (wd_tree (ho_disk h')) (disk_path s) = None"
proof (cases "file_exists s h")
  case False
  with assms(1,3) show ?thesis
    by (cases "p = MacOS")
      (auto simp: unix_backend_def launchd_backend_def systemd_backend_def launchd_uninstall_def
        systemd_uninstall_def definition_path_def service_path_def act_success path_exists_def)
next
  case True
  have "\<exists>w. fs_remove_file (disk_path s) w = (Inr (), ho_disk h')"
  proof (cases "p = MacOS")
    case mac: True
    with assms(1,3) True show ?thesis
      by (auto simp: unix_backend_def launchd_backend_def launchd_uninstall_def definition_path_def
          service_path_def act_success on_disk_success) blast
  next
    case False
    with assms(1,3) True obtain h1 w h2 where "fs_remove_file (disk_path s) (ho_disk h1) = (Inr (), w)"
      and "h2 = h1\<lparr>ho_disk := w\<rparr>" and "command ctl [''daemon-reload''] h2 = (Inr u, h')"
      by (auto simp: unix_backend_def systemd_backend_def systemd_uninstall_def definition_path_def
          service_path_def act_success on_disk_success)
    then show ?thesis using same_disk_run [OF same_disk_command] by fastforce
  qed
  with fs_remove_file_success assms(2) show ?thesis by metis
qed

lemma status_follows_definition:
  assumes "definition_path p paths = Some s"
  shows "fst (sb_status (unix_backend p ctl paths) h) = Inr Not_Installed \<longleftrightarrow> \<not> file_exists s h"
proof -
  have "systemd_status_from_state out \<noteq> Not_Installed" "launchd_status_from_output out \<noteq> Not_Installed" for out
    by (simp_all add: systemd_status_from_state_def launchd_status_from_output_def Let_def)
  then show ?thesis
    using assms
    by (auto simp: unix_backend_def launchd_backend_def systemd_backend_def launchd_status_def
        systemd_status_def definition_path_def service_path_def act_bind_def act_ret_def act_get_def
        print_service_def split: prod.splits sum.splits if_splits)
qed

lemma control_keeps_disk:
  "same_disk (sb_start (unix_backend p ctl paths))" "same_disk (sb_stop (unix_backend p ctl paths))"
  "same_disk (sb_status (unix_backend p ctl paths))"
  by (auto simp: unix_backend_def launchd_backend_def systemd_backend_def launchd_start_def
      launchd_stop_def launchd_status_def systemd_status_def print_service_def intro!: same_disk_intros)

lemma status_action:
  assumes "definition_path p paths = Some s"
  shows "fst (run_backend_action (unix_backend p ctl paths) Status_Service h) = Inr (Status Not_Installed)
    \<longleftrightarrow> \<not> file_exists s h"
  using status_follows_definition [OF assms, of ctl h]
  by (auto simp: run_backend_action_def act_bind_def act_ret_def split: prod.splits sum.splits)

lemma control_action_keeps_disk:
  assumes "action \<in> {Start_Service, Stop_Service, Restart_Service, Status_Service}"
  shows "same_disk (run_backend_action (unix_backend p ctl paths) action)"
proof -
  have "same_disk (act_try (sb_status (unix_backend p ctl paths)))"
    using control_keeps_disk(3) [of p ctl paths]
    by (simp add: same_disk_def act_try_def Let_def split: prod.split) (metis snd_conv)
  with assms show ?thesis
    by (auto simp: run_backend_action_def control_keeps_disk split: service_status.split
        intro!: same_disk_intros)
qed

text \<open>
  C25: the native service follows its file. Installing it leaves the current definition in the file,
  whatever stood there before; then, and after any starting, stopping or querying, the status is not
  \<open>not-installed\<close>, even when the manager cannot be asked; and after an uninstallation that reports
  success it is \<open>not-installed\<close>, whatever the commands of the manager did.
\<close>

theorem service_follows_its_file:
  fixes ctl :: "'m service_program"
  assumes "p \<noteq> Windows"
  defines "b \<equiv> unix_backend p ctl (service_paths_for p)"
    and "f \<equiv> disk_path (the (definition_path p (service_paths_for p)))"
  assumes "action \<in> {Start_Service, Stop_Service, Restart_Service, Status_Service}"
  shows "(\<forall>r h1. run_backend_action b Install_Service h = (Inr r, h1) \<longrightarrow>
      node_at (wd_tree (ho_disk h1)) f = Some (File (text_bytes (definition_contents p (service_paths_for p)))) \<and>
      fst (run_backend_action b Status_Service (snd (run_backend_action b action h1))) \<noteq>
        Inr (Status Not_Installed)) \<and>
    (\<forall>r h1. run_backend_action b Uninstall_Service h = (Inr r, h1) \<longrightarrow>
      fst (run_backend_action b Status_Service h1) = Inr (Status Not_Installed))"
proof -
  obtain s where s: "definition_path p (service_paths_for p) = Some s" "f = disk_path s" "disk_path s \<noteq> []"
  proof -
    have "disk_path ''/Library/LaunchDaemons/com.rustinel.agent.plist'' \<noteq> []"
      "disk_path ''/etc/systemd/system/rustinel.service'' \<noteq> []" by code_simp+
    with assms(1) that show thesis
      by (cases p) (auto simp: f_def definition_path_def service_paths_for_def Let_def)
  qed
  note status = status_action [OF s(1), of ctl, folded b_def]
  have same: "same_disk (run_backend_action b action)"
    unfolding b_def by (rule control_action_keeps_disk [OF assms(4)])
  have "node_at (wd_tree (ho_disk h1)) f = Some (File (text_bytes (definition_contents p (service_paths_for p)))) \<and>
      fst (run_backend_action b Status_Service (snd (run_backend_action b action h1))) \<noteq>
        Inr (Status Not_Installed)"
    if "run_backend_action b Install_Service h = (Inr r, h1)" for r h1
  proof -
    from that have "sb_install b h = (Inr (), h1)" by (simp add: run_backend_action_def act_success)
    then have "node_at (wd_tree (ho_disk h1)) (disk_path s) =
        Some (File (text_bytes (definition_contents p (service_paths_for p))))"
      unfolding b_def by (rule install_writes_definition [OF s(1,3)])
    moreover have "ho_disk (snd (run_backend_action b action h1)) = ho_disk h1"
      using same by (simp add: same_disk_def)
    ultimately show ?thesis using status s(2) by (simp add: path_exists_def)
  qed
  moreover have "fst (run_backend_action b Status_Service h2) = Inr (Status Not_Installed)"
    if "run_backend_action b Uninstall_Service h = (Inr r, h2)" for r h2
  proof -
    from that have "sb_uninstall b h = (Inr (), h2)" by (simp add: run_backend_action_def act_success)
    then have "node_at (wd_tree (ho_disk h2)) (disk_path s) = None"
      unfolding b_def by (rule uninstall_removes_definition [OF s(1,3)])
    then show ?thesis using status by (simp add: path_exists_def)
  qed
  ultimately show ?thesis by blast
qed

text \<open>A host without a service, on which every command succeeds without an effect.\<close>

definition demo_manager :: "unit service_program" where
  "demo_manager args m = (Some (True, []), m)"

definition demo_host :: "unit host" where
  "demo_host = \<lparr>ho_disk = \<lparr>wd_tree = Dir [(''opt'', Dir [(''rustinel'', Dir [(''rustinel'', File [1])])]),
       (''etc'', Dir [(''rustinel'', Dir [(''config.toml'', File [2])])])],
     wd_calls = 0,
     wd_faults = \<lparr>fl_fails = (\<lambda>n c. False), fl_depth = (\<lambda>n. 0), fl_left = (\<lambda>n. None), fl_torn = (\<lambda>n. None)\<rparr>\<rparr>,
     ho_manager = ()\<rparr>"

lemma demo_paths:
  "disk_path ''/opt/rustinel/rustinel'' = [''opt'', ''rustinel'', ''rustinel'']"
  "disk_path ''/etc/rustinel/config.toml'' = [''etc'', ''rustinel'', ''config.toml'']"
  "disk_path ''/etc/systemd/system/rustinel.service'' = [''etc'', ''systemd'', ''system'', ''rustinel.service'']"
  by code_simp+

theorem service_follows_its_file_witness:
  "let b = unix_backend Linux demo_manager (service_paths_for Linux);
       h1 = snd (run_backend_action b Install_Service demo_host)
   in fst (run_backend_action b Install_Service demo_host) = Inr No_Status \<and>
      fst (run_backend_action b Status_Service (snd (run_backend_action b Stop_Service h1))) \<noteq>
        Inr (Status Not_Installed)"
proof -
  have "fst (run_backend_action (unix_backend Linux demo_manager (service_paths_for Linux)) Install_Service
      demo_host) = Inr No_Status"
    by (simp add: unix_backend_def systemd_backend_def systemd_install_def run_backend_action_def
        act_bind_def act_ret_def validate_install_inputs_def ensure_regular_file_def service_path_def
        service_paths_for_def managed_layout_def from_roots_def Let_def demo_host_def is_file_def
        is_dir_def demo_paths write_definition_def on_disk_def act_try_def fs_create_dir_all_def
        fs_read_def fs_write_def system_call_def put_file_def command_def command_output_def
        demo_manager_def)
  moreover from this have "run_backend_action (unix_backend Linux demo_manager (service_paths_for Linux))
      Install_Service demo_host = (Inr No_Status, snd (run_backend_action
        (unix_backend Linux demo_manager (service_paths_for Linux)) Install_Service demo_host))"
    by (metis prod.collapse)
  ultimately show ?thesis
    using service_follows_its_file [of Linux Stop_Service demo_manager demo_host] by (simp add: Let_def)
qed

end
