(* ===== verification/Doctor.thy ===== *)
theory Doctor
  imports Rule_Install Service Sigma_Load Yara
begin

text \<open>
  \<open>src/doctor/\<close>: the checks of \<open>rustinel doctor\<close>. A result keeps the name of its check and its
  status; the message, the detail and the advice are text for the user and left out, and so is
  the printed report. What the operating system says of a path and what its tools print are
  parameters.
\<close>

unbundle bit_operations_syntax

section \<open>Results\<close>

datatype diagnostic_status = Pass | Warn | Fail

record diagnostic =
  dg_id :: string
  dg_status :: diagnostic_status

definition pass :: "string \<Rightarrow> diagnostic" where
  "pass i = \<lparr>dg_id = i, dg_status = Pass\<rparr>"

definition warn :: "string \<Rightarrow> diagnostic" where
  "warn i = \<lparr>dg_id = i, dg_status = Warn\<rparr>"

definition fail :: "string \<Rightarrow> diagnostic" where
  "fail i = \<lparr>dg_id = i, dg_status = Fail\<rparr>"

definition exit_code :: "diagnostic_status \<Rightarrow> nat" where
  "exit_code s = (case s of Pass \<Rightarrow> 0 | Warn \<Rightarrow> 1 | Fail \<Rightarrow> 2)"

definition aggregate_status :: "diagnostic list \<Rightarrow> diagnostic_status" where
  "aggregate_status results =
     (if list_ex (\<lambda>r. dg_status r = Fail) results then Fail
      else if list_ex (\<lambda>r. dg_status r = Warn) results then Warn
      else Pass)"

instantiation diagnostic_status :: linorder
begin

definition less_eq_diagnostic_status :: "diagnostic_status \<Rightarrow> diagnostic_status \<Rightarrow> bool" where
  "less_eq_diagnostic_status a b \<longleftrightarrow> exit_code a \<le> exit_code b"

definition less_diagnostic_status :: "diagnostic_status \<Rightarrow> diagnostic_status \<Rightarrow> bool" where
  "less_diagnostic_status a b \<longleftrightarrow> exit_code a < exit_code b"

instance
  by standard
    (auto simp: less_eq_diagnostic_status_def less_diagnostic_status_def exit_code_def
      split: diagnostic_status.splits)

end

section \<open>The configuration\<close>

datatype install_mode = Portable_Mode | Managed_Mode

definition detect_mode ::
    "(string \<Rightarrow> bool) \<Rightarrow> string option \<Rightarrow> config_load_options \<Rightarrow> config_source option \<Rightarrow> install_mode"
  where
  "detect_mode exists cwd opts source =
     (if source = Some Managed then Managed_Mode
      else
        let managed = absolute_config_path cwd (lo_managed_config opts);
            selected = map_option (\<lambda>(s, path). absolute_config_path cwd path)
              (selected_config exists opts)
        in if selected = Some managed then Managed_Mode else Portable_Mode)"

definition config_discovery_result :: "(config_source \<times> string) option \<Rightarrow> diagnostic" where
  "config_discovery_result selected =
     (case selected of Some _ \<Rightarrow> pass ''config_discovery'' | None \<Rightarrow> warn ''config_discovery'')"

definition platform_support_result :: "string \<Rightarrow> string \<Rightarrow> diagnostic" where
  "platform_support_result p arch =
     (if p \<in> {''linux'', ''windows'', ''macos''} then
        if arch \<in> {''x86_64'', ''aarch64''} then pass ''platform_support''
        else warn ''platform_support''
      else fail ''platform_support'')"

definition config_safety_results :: "bool \<Rightarrow> app_config \<Rightarrow> diagnostic list" where
  "config_safety_results rsigma_feature cfg =
     (let r = ac_response cfg; severity = to_ascii_lowercase (str_trim (rc_min_severity r)) in
      [case resolve_engine_kind rsigma_feature None (sc_sigma_engine (ac_scanner cfg)) of
         Some _ \<Rightarrow> pass ''sigma_engine'' | None \<Rightarrow> fail ''sigma_engine'',
       if severity \<in> {''critical'', ''high'', ''medium'', ''low''}
       then pass ''active_response_safety'' else fail ''active_response_safety'',
       if rc_enabled r \<and> rc_allowlist_paths r = [] then fail ''active_response_allowlist''
       else if rc_enabled r \<and> rc_prevention_enabled r then pass ''active_response_allowlist''
       else if rc_enabled r then warn ''active_response_mode''
       else pass ''active_response_mode''])"

section \<open>Paths\<close>

text \<open>What \<open>metadata\<close> and \<open>open\<close> say of a path.\<close>

datatype path_metadata = Metadata_Missing | Metadata_Error | Metadata bool bool u32

datatype open_result = Opened | Open_Missing | Open_Error

definition owner_writable :: "platform \<Rightarrow> u32 \<Rightarrow> bool" where
  "owner_writable p mode = (if p = Windows then True else mode AND 0x80 \<noteq> 0)"

definition directory_check ::
    "platform \<Rightarrow> (string \<Rightarrow> path_metadata) \<Rightarrow> string \<Rightarrow> string \<Rightarrow> diagnostic" where
  "directory_check p meta i path =
     (case meta path of
        Metadata is_directory readonly mode \<Rightarrow>
          if \<not> is_directory then fail i
          else if readonly then warn i
          else if \<not> owner_writable p mode then warn i
          else pass i
      | Metadata_Missing \<Rightarrow> warn i
      | Metadata_Error \<Rightarrow> fail i)"

definition directory_exists_check :: "(string \<Rightarrow> path_metadata) \<Rightarrow> string \<Rightarrow> string \<Rightarrow> diagnostic" where
  "directory_exists_check meta i path =
     (case meta path of
        Metadata is_directory _ _ \<Rightarrow> if is_directory then pass i else fail i
      | Metadata_Missing \<Rightarrow> fail i
      | Metadata_Error \<Rightarrow> fail i)"

definition file_readable_check :: "(string \<Rightarrow> open_result) \<Rightarrow> string \<Rightarrow> string \<Rightarrow> diagnostic" where
  "file_readable_check opened i path =
     (case opened path of Opened \<Rightarrow> pass i | Open_Missing \<Rightarrow> warn i | Open_Error \<Rightarrow> fail i)"

record resolved_paths =
  rp_config_file :: "string option"
  rp_sigma_rules :: string
  rp_yara_rules :: string
  rp_ioc_hashes :: string
  rp_ioc_ips :: string
  rp_ioc_domains :: string
  rp_ioc_paths_regex :: string
  rp_logs_dir :: string
  rp_alerts_dir :: string

definition resolved_from_config :: "app_config \<Rightarrow> string option \<Rightarrow> resolved_paths" where
  "resolved_from_config cfg config_file = \<lparr>
     rp_config_file = config_file,
     rp_sigma_rules = sc_sigma_rules_path (ac_scanner cfg),
     rp_yara_rules = sc_yara_rules_path (ac_scanner cfg),
     rp_ioc_hashes = cf_hashes_path (ac_ioc cfg),
     rp_ioc_ips = cf_ips_path (ac_ioc cfg),
     rp_ioc_domains = cf_domains_path (ac_ioc cfg),
     rp_ioc_paths_regex = cf_paths_regex_path (ac_ioc cfg),
     rp_logs_dir = lg_directory (ac_logging cfg),
     rp_alerts_dir = al_directory (ac_alerts cfg)\<rparr>"

definition path_results ::
    "platform \<Rightarrow> (string \<Rightarrow> path_metadata) \<Rightarrow> (string \<Rightarrow> open_result) \<Rightarrow> app_config \<Rightarrow> resolved_paths \<Rightarrow>
     diagnostic list" where
  "path_results p meta opened cfg paths =
     [directory_check p meta ''logs_writable'' (rp_logs_dir paths),
      directory_check p meta ''alerts_writable'' (rp_alerts_dir paths)] @
     [if sc_sigma_enabled (ac_scanner cfg)
      then directory_exists_check meta ''sigma_rules_dir'' (rp_sigma_rules paths)
      else pass ''sigma_rules_dir''] @
     [if sc_yara_enabled (ac_scanner cfg)
      then directory_exists_check meta ''yara_rules_dir'' (rp_yara_rules paths)
      else pass ''yara_rules_dir''] @
     (if cf_enabled (ac_ioc cfg) then
        [file_readable_check opened ''ioc_hashes'' (rp_ioc_hashes paths),
         file_readable_check opened ''ioc_ips'' (rp_ioc_ips paths),
         file_readable_check opened ''ioc_domains'' (rp_ioc_domains paths),
         file_readable_check opened ''ioc_paths_regex'' (rp_ioc_paths_regex paths)]
      else [pass ''ioc_files''])"

section \<open>Rules\<close>

text \<open>What loading the Sigma rules and the YARA rules ends with.\<close>

definition validate_sigma_rules ::
    "bool \<Rightarrow> (sigma_engine_kind \<Rightarrow> engine_stats option) \<Rightarrow> app_config \<Rightarrow> diagnostic" where
  "validate_sigma_rules rsigma_feature load cfg =
     (case resolve_engine_kind rsigma_feature None (sc_sigma_engine (ac_scanner cfg)) of
        None \<Rightarrow> fail ''sigma_rules_parse''
      | Some kind \<Rightarrow>
          case load kind of
            None \<Rightarrow> fail ''sigma_rules_parse''
          | Some stats \<Rightarrow>
              if st_failed_rules stats \<noteq> [] then fail ''sigma_rules_parse''
              else if st_total_rules stats = 0 then warn ''sigma_rules_parse''
              else pass ''sigma_rules_parse'')"

definition validate_yara_rules :: "path + 'c yara_scanner \<Rightarrow> diagnostic" where
  "validate_yara_rules loaded =
     (case loaded of
        Inl _ \<Rightarrow> fail ''yara_rules_parse''
      | Inr scanner \<Rightarrow>
          if 0 < yn_failed_files scanner then fail ''yara_rules_parse''
          else if yn_files_found scanner = 0 then warn ''yara_rules_parse''
          else pass ''yara_rules_parse'')"

datatype file_content = Content string | Content_Missing | Content_Error

definition line_value :: "string \<Rightarrow> string" where
  "line_value line =
     str_trim (case split_once CHR '';'' line of Some (v, _) \<Rightarrow> v | None \<Rightarrow> line)"

definition checked_values :: "string \<Rightarrow> string list" where
  "checked_values content =
     filter (\<lambda>v. \<not> (v = [] \<or> starts_with v ''#'' \<or> starts_with v ''//''))
       (map line_value (str_lines content))"

definition validate_ioc_lines :: "file_content \<Rightarrow> string \<Rightarrow> (string \<Rightarrow> bool) \<Rightarrow> diagnostic" where
  "validate_ioc_lines content i valid =
     (case content of
        Content_Missing \<Rightarrow> warn i
      | Content_Error \<Rightarrow> fail i
      | Content s \<Rightarrow> if filter (\<lambda>v. \<not> valid v) (checked_values s) \<noteq> [] then fail i else pass i)"

definition valid_hash :: "string \<Rightarrow> bool" where
  "valid_hash v \<longleftrightarrow> list_all (is_digit 16) v \<and> length v \<in> {32, 40, 64}"

definition valid_ip :: "('net, 'set) ioc_crates \<Rightarrow> string \<Rightarrow> bool" where
  "valid_ip C v \<longleftrightarrow>
     (if str_contains v ''/'' then ic_net_parse C v \<noteq> None else parse_ip v \<noteq> None)"

definition valid_domain :: "string \<Rightarrow> bool" where
  "valid_domain v \<longleftrightarrow>
     \<not> list_ex (str_contains v) white_space \<and>
     trim_end_matches_char (CHR ''.'') (trim_start_matches_char (CHR ''.'') v) \<noteq> []"

definition validate_ioc_files ::
    "('net, 'set) ioc_crates \<Rightarrow> (string \<Rightarrow> file_content) \<Rightarrow> ioc_config \<Rightarrow> diagnostic list" where
  "validate_ioc_files C read cfg =
     [validate_ioc_lines (read (cf_hashes_path cfg)) ''ioc_hashes_parse'' valid_hash,
      validate_ioc_lines (read (cf_ips_path cfg)) ''ioc_ips_parse'' (valid_ip C),
      validate_ioc_lines (read (cf_domains_path cfg)) ''ioc_domains_parse'' valid_domain,
      validate_ioc_lines (read (cf_paths_regex_path cfg)) ''ioc_paths_regex_parse''
        (ic_regex_valid C)]"

definition rule_validation_results ::
    "bool \<Rightarrow> (sigma_engine_kind \<Rightarrow> engine_stats option) \<Rightarrow> path + 'c yara_scanner \<Rightarrow>
     ('net, 'set) ioc_crates \<Rightarrow> (string \<Rightarrow> file_content) \<Rightarrow> app_config \<Rightarrow> diagnostic list" where
  "rule_validation_results rsigma_feature load scanner C read cfg =
     [if sc_sigma_enabled (ac_scanner cfg) then validate_sigma_rules rsigma_feature load cfg
      else pass ''sigma_rules_parse'',
      if sc_yara_enabled (ac_scanner cfg) then validate_yara_rules scanner
      else pass ''yara_rules_parse''] @
     (if cf_enabled (ac_ioc cfg) then validate_ioc_files C read (ac_ioc cfg)
      else [pass ''ioc_parse''])"

section \<open>The rule pack\<close>

text \<open>What the doctor reads of a manifest, and what it reports of the pack.\<close>

record doctor_manifest =
  dm_id :: string
  dm_pack_schema_version :: u32
  dm_requires_rustinel :: string

record rule_pack_diagnostic =
  rd_rules_dir :: path
  rd_state_path :: path
  rd_pack_id :: string
  rd_version :: string
  rd_sha256 :: string
  rd_manifest_path :: "path option"

definition doctor_schema_versions :: "u32 list" where
  "doctor_schema_versions = [1, 2]"

definition is_sha256_hex :: "string \<Rightarrow> bool" where
  "is_sha256_hex v \<longleftrightarrow> length v = 64 \<and> list_all (is_digit 16) v"

definition doctor_rules_dir :: "resolved_paths \<Rightarrow> component list" where
  "doctor_rules_dir paths = infer_rules_dir (rp_sigma_rules paths)"

text \<open>\<open>content\<close> is what reading the manifest gave; the results, and whether the manifest counts.\<close>

definition validate_pack_manifest ::
    "('r, 'v) pack_crates \<Rightarrow> (u8 list \<Rightarrow> doctor_manifest option) \<Rightarrow> string \<Rightarrow> u8 list option \<Rightarrow>
     rules_state \<Rightarrow> diagnostic list \<times> bool" where
  "validate_pack_manifest X parse_manifest pkg_version content state =
     (case content of
        None \<Rightarrow> ([fail ''rules_pack_manifest''], False)
      | Some bytes \<Rightarrow>
     (case parse_manifest bytes of
        None \<Rightarrow> ([fail ''rules_pack_manifest''], False)
      | Some m \<Rightarrow>
          if dm_id m \<noteq> rs_pack_id state then ([fail ''rules_pack_manifest''], False)
          else if dm_pack_schema_version m \<notin> set doctor_schema_versions
          then ([fail ''rules_pack_schema''], False)
          else
            case pc_version_req X (dm_requires_rustinel m) of
              None \<Rightarrow> ([fail ''rules_pack_compatibility''], False)
            | Some req \<Rightarrow>
                (case pc_version X (trim_start_matches_char CHR ''v'' pkg_version) of
                   Some version \<Rightarrow>
                     if rustinel_version_matches_requirement X req version
                     then ([pass ''rules_pack_compatibility''], True)
                     else ([fail ''rules_pack_compatibility''], True)
                 | None \<Rightarrow> ([fail ''rules_pack_compatibility''], True))))"

definition inspect_rule_pack ::
    "('r, 'v) pack_crates \<Rightarrow> (u8 list \<Rightarrow> rules_state option) \<Rightarrow> (u8 list \<Rightarrow> doctor_manifest option) \<Rightarrow>
     string \<Rightarrow> path \<Rightarrow> world \<Rightarrow> diagnostic list \<times> rule_pack_diagnostic option" where
  "inspect_rule_pack X parse_state parse_manifest pkg_version rules_dir w =
     (case read_state parse_state rules_dir w of
        None \<Rightarrow> ([warn ''rules_pack_state''], None)
      | Some state \<Rightarrow>
          let checksum = (if is_sha256_hex (rs_sha256 state) then pass ''rules_pack_checksum''
                else fail ''rules_pack_checksum'');
              manifest_path = current_of rules_dir @ [''pack.yml''];
              content = (case fst (fs_read manifest_path (snd (fs_read (state_of rules_dir) w))) of
                Inl _ \<Rightarrow> None | Inr bytes \<Rightarrow> Some bytes);
              (results, counts) = validate_pack_manifest X parse_manifest pkg_version content state
          in ([checksum, pass ''rules_pack_state''] @ results,
              Some \<lparr>rd_rules_dir = rules_dir, rd_state_path = state_of rules_dir,
                rd_pack_id = rs_pack_id state, rd_version = rs_version state,
                rd_sha256 = rs_sha256 state,
                rd_manifest_path = (if counts then Some manifest_path else None)\<rparr>))"

section \<open>The service\<close>

definition doctor_systemd_status ::
    "'m service_program \<Rightarrow> managed_service_paths \<Rightarrow> 'm host \<Rightarrow> service_status \<times> 'm host" where
  "doctor_systemd_status ctl paths h =
     (case sp_systemd_unit_path paths of
        None \<Rightarrow> (Unknown_Status, h)
      | Some unit_path \<Rightarrow>
          if \<not> file_exists unit_path h then (Not_Installed, h)
          else case command_output ctl [''is-active'', systemd_unit_name] h of
                 (Inr (success, out), h') \<Rightarrow> (systemd_status_from_state out, h')
               | (Inl _, h') \<Rightarrow> (Unknown_Status, h'))"

definition doctor_launchd_status ::
    "'m service_program \<Rightarrow> managed_service_paths \<Rightarrow> 'm host \<Rightarrow> service_status \<times> 'm host" where
  "doctor_launchd_status ctl paths h =
     (case sp_launchd_plist_path paths of
        None \<Rightarrow> (Unknown_Status, h)
      | Some plist_path \<Rightarrow>
          if \<not> file_exists plist_path h then (Not_Installed, h)
          else case command_output ctl [''print'', ''system/'' @ launchd_label] h of
                 (Inr (success, out), h') \<Rightarrow>
                   (if success then launchd_status_from_output out else Stopped, h')
               | (Inl _, h') \<Rightarrow> (Unknown_Status, h'))"

definition sc_status :: "(bool \<times> string) option \<Rightarrow> service_status" where
  "sc_status out =
     (case out of
        None \<Rightarrow> Unknown_Status
      | Some (success, stdout) \<Rightarrow>
          if \<not> success then Not_Installed
          else if str_contains stdout ''RUNNING'' then Running
          else if str_contains stdout ''START_PENDING'' then Starting
          else if str_contains stdout ''STOPPED'' then Stopped
          else Unknown_Status)"

definition doctor_windows_status :: "'m service_program \<Rightarrow> 'm host \<Rightarrow> service_status \<times> 'm host" where
  "doctor_windows_status ctl h =
     (let (out, m) = ctl [''query'', windows_service_name] (ho_manager h)
      in (sc_status out, h\<lparr>ho_manager := m\<rparr>))"

definition read_service_status ::
    "platform \<Rightarrow> 'm service_program \<Rightarrow> managed_service_paths \<Rightarrow> 'm host \<Rightarrow> service_status \<times> 'm host" where
  "read_service_status p ctl paths =
     (case p of
        Linux \<Rightarrow> doctor_systemd_status ctl paths
      | MacOS \<Rightarrow> doctor_launchd_status ctl paths
      | Windows \<Rightarrow> doctor_windows_status ctl)"

definition native_service_result :: "install_mode \<Rightarrow> string \<Rightarrow> diagnostic" where
  "native_service_result mode status =
     (case mode of
        Portable_Mode \<Rightarrow> pass ''native_service''
      | Managed_Mode \<Rightarrow>
          if status = ''running'' then pass ''native_service''
          else if status = ''not-installed'' then fail ''native_service''
          else warn ''native_service'')"

section \<open>Prerequisites\<close>

text \<open>
  What the checks ask of the machine: the effective user, files and their texts, the path of the
  program, the answer of \<open>codesign\<close> (None: it could not be run) and, on Windows, whether the token
  is elevated (None: it could not be inspected).
\<close>

record prerequisite_env =
  pq_euid :: u32
  pq_read :: "string \<Rightarrow> string option"
  pq_is_file :: "string \<Rightarrow> bool"
  pq_is_dir :: "string \<Rightarrow> bool"
  pq_exists :: "string \<Rightarrow> bool"
  pq_exe :: "string option"
  pq_codesign :: "(bool \<times> string) option"
  pq_elevated :: "bool option"

definition linux_kernel_result :: "prerequisite_env \<Rightarrow> diagnostic" where
  "linux_kernel_result Q =
     (case pq_read Q ''/proc/sys/kernel/osrelease'' of
        Some _ \<Rightarrow> pass ''linux_kernel'' | None \<Rightarrow> warn ''linux_kernel'')"

definition effective_capabilities :: "prerequisite_env \<Rightarrow> u64 option" where
  "effective_capabilities Q =
     Option.bind (pq_read Q ''/proc/self/status'') (\<lambda>status.
     Option.bind (List.find (\<lambda>l. starts_with l ''CapEff:'') (str_lines status)) (\<lambda>line.
     Option.bind (strip_prefix line ''CapEff:'') (\<lambda>rest.
     from_str_radix 16 (str_trim rest))))"

definition has_cap :: "u64 \<Rightarrow> nat \<Rightarrow> bool" where
  "has_cap caps b \<longleftrightarrow> caps AND push_bit b 1 \<noteq> 0"

definition linux_privilege_result :: "prerequisite_env \<Rightarrow> diagnostic" where
  "linux_privilege_result Q =
     (if pq_euid Q = 0 then pass ''required_privileges''
      else
        let has_needed = (case effective_capabilities Q of
              Some caps \<Rightarrow> has_cap caps 12 \<and> has_cap caps 24 \<and> has_cap caps 38 \<and> has_cap caps 39
            | None \<Rightarrow> False)
        in if has_needed then pass ''required_privileges'' else fail ''required_privileges'')"

definition linux_btf_result :: "prerequisite_env \<Rightarrow> diagnostic" where
  "linux_btf_result Q =
     (if pq_is_file Q ''/sys/kernel/btf/vmlinux'' then pass ''linux_btf'' else fail ''linux_btf'')"

definition tracefs_line :: "string \<Rightarrow> bool" where
  "tracefs_line line =
     (case split_whitespace line of
        source # target # fs_type # rest \<Rightarrow>
          target = ''/sys/kernel/tracing'' \<and> fs_type = ''tracefs'' \<or>
          target = ''/sys/kernel/debug/tracing'' \<and> fs_type \<in> {''tracefs'', ''debugfs''}
      | _ \<Rightarrow> False)"

definition linux_tracefs_result :: "prerequisite_env \<Rightarrow> diagnostic" where
  "linux_tracefs_result Q =
     (let mounts = (case pq_read Q ''/proc/mounts'' of Some t \<Rightarrow> t | None \<Rightarrow> []) in
      if list_ex tracefs_line (str_lines mounts) then pass ''linux_tracefs'' else fail ''linux_tracefs'')"

definition linux_systemd_result :: "prerequisite_env \<Rightarrow> diagnostic" where
  "linux_systemd_result Q =
     (if pq_is_dir Q ''/run/systemd/system'' then pass ''linux_systemd'' else warn ''linux_systemd'')"

definition linux_prerequisite_results :: "prerequisite_env \<Rightarrow> diagnostic list" where
  "linux_prerequisite_results Q =
     [linux_kernel_result Q, linux_privilege_result Q, linux_btf_result Q, linux_tracefs_result Q,
      linux_systemd_result Q, pass ''linux_dns_hooks'', pass ''telemetry_prerequisites'']"

definition macos_privilege_result :: "prerequisite_env \<Rightarrow> diagnostic" where
  "macos_privilege_result Q =
     (if pq_euid Q = 0 then pass ''required_privileges'' else fail ''required_privileges'')"

definition macos_app_location_result :: "prerequisite_env \<Rightarrow> diagnostic" where
  "macos_app_location_result Q =
     (case pq_exe Q of
        Some exe \<Rightarrow>
          if prefix (path_components (sp_working_dir (service_paths_for MacOS))) (path_components exe)
          then pass ''macos_app_location'' else warn ''macos_app_location''
      | None \<Rightarrow> warn ''macos_app_location'')"

definition macos_endpoint_security_result :: "prerequisite_env \<Rightarrow> diagnostic" where
  "macos_endpoint_security_result Q =
     (case pq_exe Q of
        None \<Rightarrow> warn ''macos_endpoint_security''
      | Some exe \<Rightarrow>
          case pq_codesign Q of
            Some (success, stdout) \<Rightarrow>
              if success then
                if str_contains stdout ''com.apple.developer.endpoint-security.client''
                then pass ''macos_endpoint_security'' else fail ''macos_endpoint_security''
              else warn ''macos_endpoint_security''
          | None \<Rightarrow> warn ''macos_endpoint_security'')"

definition macos_bpf_result :: "prerequisite_env \<Rightarrow> diagnostic" where
  "macos_bpf_result Q =
     (if list_ex (\<lambda>i. pq_exists Q (''/dev/bpf'' @ [i])) ''01234567''
      then pass ''macos_bpf'' else fail ''macos_bpf'')"

definition macos_prerequisite_results :: "prerequisite_env \<Rightarrow> diagnostic list" where
  "macos_prerequisite_results Q =
     [macos_privilege_result Q, macos_app_location_result Q, macos_endpoint_security_result Q,
      macos_bpf_result Q, warn ''macos_full_disk_access'', pass ''telemetry_prerequisites'']"

definition windows_admin_result :: "prerequisite_env \<Rightarrow> diagnostic" where
  "windows_admin_result Q =
     (case pq_elevated Q of
        None \<Rightarrow> warn ''required_privileges''
      | Some e \<Rightarrow> if e then pass ''required_privileges'' else fail ''required_privileges'')"

definition windows_prerequisite_results :: "prerequisite_env \<Rightarrow> diagnostic list" where
  "windows_prerequisite_results Q =
     [windows_admin_result Q, pass ''windows_etw'', pass ''telemetry_prerequisites'']"

definition platform_prerequisite_results :: "platform \<Rightarrow> prerequisite_env \<Rightarrow> diagnostic list" where
  "platform_prerequisite_results p Q =
     (case p of
        Linux \<Rightarrow> linux_prerequisite_results Q
      | MacOS \<Rightarrow> macos_prerequisite_results Q
      | Windows \<Rightarrow> windows_prerequisite_results Q)"

section \<open>The report\<close>

text \<open>
  The surroundings of a run: the platform and its architecture, the prerequisites, the status of the
  service, and the outcomes of the loaders for a configuration.
\<close>

record ('net, 'set, 'c) doctor_env =
  de_platform :: platform
  de_arch :: string
  de_rsigma_feature :: bool
  de_prerequisites :: prerequisite_env
  de_service_status :: service_status
  de_metadata :: "string \<Rightarrow> path_metadata"
  de_open :: "string \<Rightarrow> open_result"
  de_read :: "string \<Rightarrow> file_content"
  de_sigma :: "app_config \<Rightarrow> sigma_engine_kind \<Rightarrow> engine_stats option"
  de_yara :: "app_config \<Rightarrow> path + 'c yara_scanner"
  de_crates :: "('net, 'set) ioc_crates"
  de_rule_pack :: "component list \<Rightarrow> diagnostic list \<times> rule_pack_diagnostic option"

definition doctor_results ::
    "('net, 'set, 'c) doctor_env \<Rightarrow> (config_source \<times> string) option \<Rightarrow> install_mode \<Rightarrow> string option \<Rightarrow>
     app_config option \<Rightarrow> diagnostic list" where
  "doctor_results E selected mode selected_path cfg =
     [platform_support_result (platform_product (de_platform E)) (de_arch E), pass ''version'',
      pass ''install_mode'', config_discovery_result selected] @
     (case cfg of
        Some cfg \<Rightarrow>
          let paths = resolved_from_config cfg selected_path in
          [pass ''config_parse''] @
          config_safety_results (de_rsigma_feature E) cfg @
          path_results (de_platform E) (de_metadata E) (de_open E) cfg paths @
          rule_validation_results (de_rsigma_feature E) (de_sigma E cfg) (de_yara E cfg)
            (de_crates E) (de_read E) cfg @
          platform_prerequisite_results (de_platform E) (de_prerequisites E) @
          fst (de_rule_pack E (doctor_rules_dir paths))
      | None \<Rightarrow> [fail ''config_parse''] @
          platform_prerequisite_results (de_platform E) (de_prerequisites E)) @
     [native_service_result mode (service_status_str (de_service_status E))]"

definition doctor_status ::
    "'v config_crate \<Rightarrow> ('net, 'set, 'c) doctor_env \<Rightarrow> (string \<Rightarrow> bool) \<Rightarrow> (string \<Rightarrow> bool) \<Rightarrow> string option \<Rightarrow>
     config_load_options \<Rightarrow> diagnostic_status" where
  "doctor_status C E exists env_set cwd opts =
     (let selected = selected_config exists opts;
          selected_path = map_option (\<lambda>(s, path). absolute_config_path cwd path) selected;
          mode = detect_mode exists cwd opts (map_option fst selected);
          cfg = from_options C (de_platform E) exists env_set cwd opts
      in aggregate_status (doctor_results E selected mode selected_path cfg))"

definition doctor_exit_code ::
    "'v config_crate \<Rightarrow> ('net, 'set, 'c) doctor_env \<Rightarrow> (string \<Rightarrow> bool) \<Rightarrow> (string \<Rightarrow> bool) \<Rightarrow> string option \<Rightarrow>
     config_load_options \<Rightarrow> nat" where
  "doctor_exit_code C E exists env_set cwd opts = exit_code (doctor_status C E exists env_set cwd opts)"

section \<open>The status of the service\<close>

text \<open>
  The doctor asks the service manager itself; where the service command has an answer, it has the
  same one on Linux and macOS. On Windows it takes every failure of \<open>sc\<close> for a service that is not
  installed, and does not know the pending states.
\<close>

lemma doctor_status_agrees:
  assumes "p \<noteq> Windows" and "sb_status (unix_backend p ctl (service_paths_for p)) h = (Inr s, h')"
  shows "read_service_status p ctl (service_paths_for p) h = (s, h')"
  using assms
  by (cases p)
    (auto simp: unix_backend_def systemd_backend_def launchd_backend_def systemd_status_def
      launchd_status_def read_service_status_def doctor_systemd_status_def doctor_launchd_status_def
      service_paths_for_def service_path_def act_success print_service_def service_target_def Let_def
      split: if_splits)

lemma windows_status_differs:
  "sc_status (Some (False, out)) = Not_Installed"
  "sc_status (Some (True, ''STATE : 3 STOP_PENDING'')) = Unknown_Status"
  "windows_status State_Stop_Pending = Stopped"
proof -
  show "sc_status (Some (True, ''STATE : 3 STOP_PENDING'')) = Unknown_Status" by code_simp
qed (simp_all add: sc_status_def windows_status_def)

section \<open>The exit code\<close>

lemma status_cases: "s \<le> Fail" "Pass \<le> s" "Pass < Warn" "Warn < Fail" for s :: diagnostic_status
  by (cases s; simp add: less_eq_diagnostic_status_def less_diagnostic_status_def exit_code_def)+

text \<open>The status of a report is the worst of its results.\<close>

lemma aggregate_status_worst: "aggregate_status rs = Max (insert Pass (dg_status ` set rs))"
proof -
  let ?S = "insert Pass (dg_status ` set rs)"
  have "Max ?S = Fail" if "Fail \<in> ?S"
    using that by (intro Max_eqI) (simp_all add: status_cases)
  moreover have "Max ?S = Warn" if "Fail \<notin> ?S" "Warn \<in> ?S"
  proof (intro Max_eqI)
    fix s assume "s \<in> ?S"
    with that(1) show "s \<le> Warn"
      by (cases s) (auto simp: less_eq_diagnostic_status_def exit_code_def)
  qed (use that in simp_all)
  moreover have "Max ?S = Pass" if "Fail \<notin> ?S" "Warn \<notin> ?S"
  proof (intro Max_eqI)
    fix s assume "s \<in> ?S"
    with that show "s \<le> Pass" by (cases s) auto
  qed simp_all
  moreover have "aggregate_status rs =
      (if Fail \<in> ?S then Fail else if Warn \<in> ?S then Warn else Pass)"
    by (auto simp: aggregate_status_def list_ex_iff) (metis image_eqI)+
  ultimately show ?thesis by (cases "Fail \<in> ?S"; cases "Warn \<in> ?S") simp_all
qed

section \<open>The doctor and the loaders read the same lines\<close>

text \<open>White space has no printable byte, so trimming works on the two sides of one.\<close>

abbreviation printable_char :: "char \<Rightarrow> bool" where
  "printable_char c \<equiv> byte c \<in> {33..126}"

lemma white_space_unprintable: "printable_char c \<Longrightarrow> w \<in> set white_space \<Longrightarrow> c \<notin> set w"
  by (auto simp: white_space_def)

lemma prefix_cut: "c \<notin> set w \<Longrightarrow> prefix w (a @ c # b) \<longleftrightarrow> prefix w a"
  by (auto simp: prefix_def append_eq_append_conv2 Cons_eq_append_conv append_eq_Cons_conv)

lemma suffix_cut: "c \<notin> set w \<Longrightarrow> suffix w (a @ c # b) \<longleftrightarrow> suffix w b"
  using prefix_cut [of c "rev w" "rev b" "rev a"] by (simp add: suffix_to_prefix)

lemma trim_start_cut:
  assumes "printable_char c"
  shows "trim_start (a @ c # b) = trim_start a @ c # b"
proof (induction a rule: trim_start.induct)
  case (1 a)
  have same: "find (starts_with (a @ c # b)) white_space = find (starts_with a) white_space"
    by (rule find_cong) (simp_all add: prefix_cut white_space_unprintable [OF assms])
  show ?case
  proof (cases "find (starts_with a) white_space")
    case None
    with same show ?thesis by (simp add: trim_start.simps [of a] trim_start.simps [of "a @ c # b"])
  next
    case (Some w)
    then have "length w \<le> length a" by (auto simp: find_Some_iff dest: prefix_length_le)
    with 1 Some same show ?thesis
      by (simp add: trim_start.simps [of a] trim_start.simps [of "a @ c # b"])
  qed
qed

lemma trim_end_cut:
  assumes "printable_char c"
  shows "trim_end (a @ c # b) = a @ c # trim_end b"
proof (induction b rule: trim_end.induct)
  case (1 b)
  have same: "find (ends_with (a @ c # b)) white_space = find (ends_with b) white_space"
    by (rule find_cong) (simp_all add: suffix_cut white_space_unprintable [OF assms])
  show ?case
  proof (cases "find (ends_with b) white_space")
    case None
    with same show ?thesis by (simp add: trim_end.simps [of b] trim_end.simps [of "a @ c # b"])
  next
    case (Some w)
    then have "length w \<le> length b" by (auto simp: find_Some_iff dest: suffix_length_le)
    with 1 Some same show ?thesis
      by (simp add: trim_end.simps [of b] trim_end.simps [of "a @ c # b"] Suc_diff_le)
  qed
qed

lemma trim_start_suffix: "suffix (trim_start s) s"
proof (induction s rule: trim_start.induct)
  case (1 s)
  show ?case
  proof (cases "find (starts_with s) white_space")
    case None
    then show ?thesis by (simp add: trim_start.simps [of s])
  next
    case (Some v)
    with 1 have "suffix (trim_start (drop (length v) s)) (drop (length v) s)" by simp
    with Some show ?thesis
      by (simp add: trim_start.simps [of s]) (metis suffix_drop suffix_order.trans)
  qed
qed

lemma set_trim: "set (trim_start s) \<subseteq> set s" "set (str_trim s) \<subseteq> set s"
proof -
  show start: "set (trim_start s) \<subseteq> set s" by (rule set_mono_suffix [OF trim_start_suffix])
  have "set (str_trim s) \<subseteq> set (trim_start s)"
    unfolding str_trim_def by (rule set_mono_prefix [OF trim_end_prefix])
  with start show "set (str_trim s) \<subseteq> set s" by blast
qed

lemma split_once_None: "split_once c s = None \<longleftrightarrow> c \<notin> set s"
  by (induction s) auto

lemma trim_start_idem: "trim_start (trim_start s) = trim_start s"
proof -
  have "find (starts_with (trim_start s)) white_space = None"
    by (simp add: find_None_space trim_start_no_space)
  then show ?thesis by (simp add: trim_start.simps [of "trim_start s"])
qed

definition skipped_value :: "string \<Rightarrow> bool" where
  "skipped_value v \<longleftrightarrow> v = [] \<or> starts_with v ''#'' \<or> starts_with v ''//''"

text \<open>A comment mark survives the trimming of what follows it.\<close>

lemma trim_end_mark:
  "starts_with (trim_end s) ''#'' \<longleftrightarrow> starts_with s ''#''"
  "starts_with (trim_end s) ''//'' \<longleftrightarrow> starts_with s ''//''"
proof -
  have one: "trim_end (c # r) = c # trim_end r" if "printable_char c" for c r
    using trim_end_cut [OF that, of "[]" r] by simp
  have sub: "starts_with s w" if "starts_with (trim_end s) w" for w
    using that trim_end_prefix prefix_order.trans by blast
  have "starts_with (trim_end s) ''#''" if "starts_with s ''#''"
    using that by (auto simp: prefix_def one)
  with sub show "starts_with (trim_end s) ''#'' \<longleftrightarrow> starts_with s ''#''" by blast
  have "starts_with (trim_end s) ''//''" if "starts_with s ''//''"
    using that by (auto simp: prefix_def one)
  with sub show "starts_with (trim_end s) ''//'' \<longleftrightarrow> starts_with s ''//''" by blast
qed

lemma line_entry_value:
  "map_option fst (line_entry source (n, l)) =
     (if skipped_value (line_value l) then None else Some (line_value l))"
proof (cases "split_once CHR '';'' l")
  case None
  then have "split_once CHR '';'' (str_trim l) = None"
    using set_trim(2) [of l] by (auto simp: split_once_None)
  with None show ?thesis
    by (auto simp: line_entry_def line_value_def skipped_value_def should_skip_line_def
        split_value_and_comment_def Let_def)
next
  case (Some ab)
  then obtain a b where ab: "l = a @ CHR '';'' # b" "CHR '';'' \<notin> set a" "split_once CHR '';'' l = Some (a, b)"
    by (cases ab) (auto simp: split_once_Some)
  let ?s = "trim_start a"
  have t: "str_trim l = ?s @ CHR '';'' # trim_end b"
    by (simp add: ab(1) str_trim_def trim_start_cut trim_end_cut)
  have "CHR '';'' \<notin> set ?s" using ab(2) set_trim(1) [of a] by blast
  then have split: "split_once CHR '';'' (str_trim l) = Some (?s, trim_end b)"
    by (simp add: t split_once_append)
  have v: "line_value l = trim_end ?s" by (simp add: line_value_def ab(3) str_trim_def)
  have "str_trim ?s = trim_end ?s" by (simp add: str_trim_def trim_start_idem)
  then have trimmed: "str_trim ?s = trim_end ?s" "str_trim (trim_end ?s) = trim_end ?s"
    by (metis trim_idem)+
  have skip: "should_skip_line (str_trim l) \<longleftrightarrow> starts_with ?s ''#'' \<or> starts_with ?s ''//''"
    by (auto simp: should_skip_line_def t prefix_def append_eq_Cons_conv append_eq_append_conv2)
  show ?thesis
    using skip trimmed
    by (auto simp: line_entry_def split_value_and_comment_def split v skipped_value_def trim_end_mark
        Let_def)
qed

lemma map_filter_fst:
  "(\<And>x. x \<in> set xs \<Longrightarrow> map_option fst (f x) = g x) \<Longrightarrow>
   map fst (List.map_filter f xs) = List.map_filter g xs"
proof (induction xs)
  case (Cons x xs)
  have "g x = map_option fst (f x)" "map fst (List.map_filter f xs) = List.map_filter g xs"
    using Cons by simp_all
  then show ?case by (cases "f x") (simp_all add: map_filter_simps)
qed (simp add: map_filter_simps)

definition read_value :: "string \<Rightarrow> string option" where
  "read_value l = (if skipped_value (line_value l) then None else Some (line_value l))"

lemma read_values:
  "List.map_filter (\<lambda>(n, l). read_value l) (enumerate n ls) =
     filter (\<lambda>v. \<not> skipped_value v) (map line_value ls)"
  by (induction ls arbitrary: n) (simp_all add: map_filter_simps read_value_def)

text \<open>The values the doctor checks are the ones the loaders take.\<close>

lemma file_entries_checked: "map fst (file_entries source (Some content)) = checked_values content"
proof -
  have "map fst (file_entries source (Some content)) =
      List.map_filter (\<lambda>(n, l). read_value l) (read_lines (Some content))"
    unfolding file_entries_def by (rule map_filter_fst) (auto simp: line_entry_value read_value_def)
  also have "\<dots> = filter (\<lambda>v. \<not> skipped_value v) (map line_value (str_lines content))"
    by (simp add: read_lines_def str_lines_def read_values)
  finally show ?thesis by (simp add: checked_values_def skipped_value_def)
qed

lemma checked_iff:
  "validate_ioc_lines (Content content) i valid = pass i \<longleftrightarrow>
     (\<forall>e \<in> set (file_entries source (Some content)). valid (fst e))"
proof -
  have "validate_ioc_lines (Content content) i valid = pass i \<longleftrightarrow>
      (\<forall>v \<in> set (checked_values content). valid v)"
    by (auto simp: validate_ioc_lines_def pass_def fail_def filter_empty_conv)
  then show ?thesis by (simp add: file_entries_checked [of source, symmetric])
qed

lemma is_digit_lower: "is_digit 16 (ascii_lower c) = is_digit 16 c"
  by (auto simp: is_digit_def digit_value_def ascii_lower_def of_char_of)

lemma valid_hash_listed: "valid_hash (fst e) \<longleftrightarrow> (\<exists>k. lists_hash k e (to_ascii_lowercase (fst e)))"
proof -
  have "is_hex (to_ascii_lowercase (fst e)) = list_all (is_digit 16) (fst e)"
    by (simp add: is_hex_def to_ascii_lowercase_def list_all_iff is_digit_lower)
  moreover have "(\<exists>k. digest_length k \<noteq> 0 \<and> n = digest_length k) \<longleftrightarrow> n = 32 \<or> n = 40 \<or> n = 64" for n
  proof
    have "digest_length IocMd5 = 32" "digest_length IocSha1 = 40" "digest_length IocSha256 = 64"
      by (simp_all add: digest_length_def)
    then show "n = 32 \<or> n = 40 \<or> n = 64 \<Longrightarrow> \<exists>k. digest_length k \<noteq> 0 \<and> n = digest_length k"
      by (metis zero_neq_numeral)
  qed (elim exE conjE, rename_tac k, case_tac k; simp add: digest_length_def)
  ultimately show ?thesis by (auto simp: valid_hash_def lists_hash_def to_ascii_lowercase_def)
qed

lemma fold_add_ip:
  "(\<exists>w. hm_get (ii_exact (fold (add_ip C) es iocs)) ip = Some w) \<longleftrightarrow>
     (\<exists>w. hm_get (ii_exact iocs) ip = Some w) \<or>
     (\<exists>e \<in> set es. \<not> str_contains (fst e) ''/'' \<and> parse_ip (fst e) = Some ip)"
  "set (ii_cidr (fold (add_ip C) es iocs)) = set (ii_cidr iocs) \<union>
     {(net, snd e) | net e. e \<in> set es \<and> str_contains (fst e) ''/'' \<and> ic_net_parse C (fst e) = Some net}"
proof -
  have exact: "(\<exists>w. hm_get (ii_exact (add_ip C e iocs)) ip = Some w) \<longleftrightarrow>
      (\<exists>w. hm_get (ii_exact iocs) ip = Some w) \<or>
      \<not> str_contains (fst e) ''/'' \<and> parse_ip (fst e) = Some ip" for e iocs
    by (auto simp: add_ip_def hm_insert_Some_iff split: option.split)
  show "(\<exists>w. hm_get (ii_exact (fold (add_ip C) es iocs)) ip = Some w) \<longleftrightarrow>
     (\<exists>w. hm_get (ii_exact iocs) ip = Some w) \<or>
     (\<exists>e \<in> set es. \<not> str_contains (fst e) ''/'' \<and> parse_ip (fst e) = Some ip)"
    by (induction es arbitrary: iocs) (auto simp: exact)
  have cidr: "set (ii_cidr (add_ip C e iocs)) = set (ii_cidr iocs) \<union>
      {(net, snd e) | net. str_contains (fst e) ''/'' \<and> ic_net_parse C (fst e) = Some net}" for e iocs
    by (auto simp: add_ip_def split: option.split)
  show "set (ii_cidr (fold (add_ip C) es iocs)) = set (ii_cidr iocs) \<union>
     {(net, snd e) | net e. e \<in> set es \<and> str_contains (fst e) ''/'' \<and> ic_net_parse C (fst e) = Some net}"
    by (induction es arbitrary: iocs) (auto simp: cidr)
qed

definition hash_loaded :: "hash_iocs \<Rightarrow> string \<Rightarrow> bool" where
  "hash_loaded iocs v \<longleftrightarrow> (\<exists>k w. hm_get (hash_table k iocs) (to_ascii_lowercase v) = Some w)"

definition ip_loaded :: "('net, 'set) ioc_crates \<Rightarrow> 'net ip_iocs \<Rightarrow> string \<times> ioc_meta \<Rightarrow> bool" where
  "ip_loaded C iocs e \<longleftrightarrow>
     (if str_contains (fst e) ''/''
      then \<exists>net. ic_net_parse C (fst e) = Some net \<and> (net, snd e) \<in> set (ii_cidr iocs)
      else \<exists>ip w. parse_ip (fst e) = Some ip \<and> hm_get (ii_exact iocs) ip = Some w)"

lemma load_hashes_loaded:
  assumes "e \<in> set (file_entries source content)"
  shows "hash_loaded (load_hashes source content) (fst e) \<longleftrightarrow> valid_hash (fst e)"
proof -
  have empty: "hash_table k \<lparr>hi_md5 = [], hi_sha1 = [], hi_sha256 = []\<rparr> = []" for k
    by (cases k) (simp_all add: hash_table_def)
  have "hash_loaded (load_hashes source content) (fst e) \<longleftrightarrow>
      (\<exists>k. \<exists>e' \<in> set (file_entries source content). lists_hash k e' (to_ascii_lowercase (fst e)))"
    by (simp add: hash_loaded_def load_hashes_def fold_add_hash_table empty)
  also have "\<dots> \<longleftrightarrow> (\<exists>k. lists_hash k e (to_ascii_lowercase (fst e)))"
    using assms by (auto simp: lists_hash_def)
  finally show ?thesis by (simp add: valid_hash_listed)
qed

lemma load_ips_loaded:
  assumes "e \<in> set (file_entries source content)"
  shows "ip_loaded C (load_ips C source content) e \<longleftrightarrow> valid_ip C (fst e)"
proof (cases "str_contains (fst e) ''/''")
  case True
  then have "(net, snd e) \<in> set (ii_cidr (load_ips C source content))"
    if "ic_net_parse C (fst e) = Some net" for net
    using assms that unfolding load_ips_def fold_add_ip by blast
  with True show ?thesis by (auto simp: ip_loaded_def valid_ip_def)
next
  case False
  then show ?thesis using assms by (auto simp: ip_loaded_def load_ips_def fold_add_ip valid_ip_def)
qed

text \<open>
  C26: the doctor checks what the agent loads. Of a hash file, and of an address file, the check
  passes exactly when every entry the loader takes from the file is afterwards in one of the tables
  that events are matched against; so no entry is dropped that the doctor accepts, and the doctor
  rejects no file of which every entry is loaded.
\<close>

theorem doctor_ioc_exact:
  "(validate_ioc_lines (Content content) i valid_hash = pass i \<longleftrightarrow>
     (\<forall>e \<in> set (file_entries source (Some content)).
        hash_loaded (load_hashes source (Some content)) (fst e))) \<and>
   (validate_ioc_lines (Content content) i (valid_ip C) = pass i \<longleftrightarrow>
     (\<forall>e \<in> set (file_entries source (Some content)). ip_loaded C (load_ips C source (Some content)) e))"
  by (simp add: checked_iff [of _ _ _ source] load_hashes_loaded load_ips_loaded)

definition zero_hash :: string where
  "zero_hash = replicate 32 CHR ''0''"

theorem doctor_ioc_exact_witness:
  "list_all (\<lambda>e. hash_loaded (load_hashes ''h'' (Some zero_hash)) (fst e))
     (file_entries ''h'' (Some zero_hash)) \<and>
   file_entries ''h'' (Some zero_hash) \<noteq> []"
proof
  have "validate_ioc_lines (Content zero_hash) ''i'' valid_hash = pass ''i''" by code_simp
  with doctor_ioc_exact [of zero_hash "''i''" "''h''"]
  show "list_all (\<lambda>e. hash_loaded (load_hashes ''h'' (Some zero_hash)) (fst e))
     (file_entries ''h'' (Some zero_hash))"
    unfolding list_all_iff by blast
  have "checked_values zero_hash \<noteq> []" by code_simp
  then show "file_entries ''h'' (Some zero_hash) \<noteq> []" using file_entries_checked [of "''h''" zero_hash] by auto
qed

end
