(* ===== verification/Setup.thy ===== *)
theory Setup
  imports Doctor "HOL-Library.Product_Lexorder"
begin

text \<open>
  \<open>src/setup.rs\<close>: the steps of \<open>rustinel setup\<close> on Linux and macOS, on the host of \<open>Service\<close>. What is
  printed is left out, paths are those of Unix. The network, the prompt and the program's own path
  are parameters, and so is what the doctor finds on a host.
  \<^item> \<open>written_config_escapes\<close>: the strings of the written configuration read back as the paths.
  \<^item> \<open>installed_pack_accepted\<close>: a pack that \<open>rules install\<close> activated is valid for the setup and passes
    the doctor's checks; \<open>setup_rules_valid\<close>: the setup goes on only with valid active rules.
\<close>

section \<open>The written configuration\<close>

definition toml_string :: "string \<Rightarrow> string" where
  "toml_string p =
     (let escaped = str_replace [dquote] [backslash, dquote] (str_replace [backslash] [backslash, backslash] p)
      in [dquote] @ escaped @ [dquote])"

definition managed_config_toml :: "install_layout \<Rightarrow> string" where
  "managed_config_toml l =
     (let cfg = managed_config l in
      unlines [
        ''[scanner]'',
        ''sigma_rules_path = '' @ toml_string (sc_sigma_rules_path (ac_scanner cfg)),
        ''yara_rules_path = '' @ toml_string (sc_yara_rules_path (ac_scanner cfg)),
        [],
        ''[logging]'',
        ''directory = '' @ toml_string (lg_directory (ac_logging cfg)),
        [],
        ''[alerts]'',
        ''directory = '' @ toml_string (al_directory (ac_alerts cfg)),
        [],
        ''[ioc]'',
        ''hashes_path = '' @ toml_string (cf_hashes_path (ac_ioc cfg)),
        ''ips_path = '' @ toml_string (cf_ips_path (ac_ioc cfg)),
        ''domains_path = '' @ toml_string (cf_domains_path (ac_ioc cfg)),
        ''paths_regex_path = '' @ toml_string (cf_paths_regex_path (ac_ioc cfg))])"

section \<open>The surroundings of a run\<close>

datatype setup_pack = Essential | Advanced

definition setup_level :: "setup_pack \<Rightarrow> string" where
  "setup_level p = (case p of Essential \<Rightarrow> ''essential'' | Advanced \<Rightarrow> ''advanced'')"

record setup_options =
  so_pack :: "setup_pack option"
  so_yes :: bool
  so_no_start :: bool
  so_force :: bool
  so_catalog_url :: string

text \<open>
  A response is the announced length and the body; \<open>se_exe\<close> is where the running program lies,
  \<open>se_chmod\<close> whether its copy can be made executable, \<open>se_doctor\<close> what the doctor asks of the host.
\<close>

record ('r, 'v, 'cv, 'm, 'net, 'set, 'c) setup_env =
  se_platform :: platform
  se_crates :: "('r, 'v) pack_crates"
  se_config_crate :: "'cv config_crate"
  se_env_set :: "string \<Rightarrow> bool"
  se_env_config :: "string option"
  se_cwd :: "string option"
  se_current_os :: string
  se_pkg_version :: string
  se_stamp :: string
  se_now :: string
  se_pid :: string
  se_parse_url :: "string \<Rightarrow> url option"
  se_join_url :: "url \<Rightarrow> string \<Rightarrow> url option"
  se_get :: "url \<Rightarrow> (u64 option \<times> u8 list) option"
  se_parse_catalog :: "u8 list \<Rightarrow> catalog option"
  se_parse_state :: "u8 list \<Rightarrow> rules_state option"
  se_terminal :: bool
  se_input :: "string option"
  se_exe :: "path option"
  se_exe_text :: "string option"
  se_chmod :: "path \<Rightarrow> bool"
  se_service_program :: "'m service_program"
  se_doctor :: "'m host \<Rightarrow> ('net, 'set, 'c) doctor_env"

datatype setup_error = Setup_Io call | Existing_Config_Invalid | Bad_Url string | Download_Failed
  | Setup_Rules rules_error | No_Rules setup_error | No_Pack string | Unknown_Selection string
  | Prompt_Failed | Exe_Unknown | No_Bundle | Not_Executable path | Setup_Service service_error
  | Health_Checks_Failed

section \<open>Directories and configuration\<close>

definition managed_directories :: "install_layout \<Rightarrow> managed_service_paths \<Rightarrow> path list" where
  "managed_directories l sp =
     [disk_path (il_rules_dir l), disk_path (il_logs_dir l), disk_path (il_alerts_dir l),
      disk_path (sp_working_dir sp), butlast (disk_path (il_config_file l)),
      butlast (disk_path (sp_binary_path sp))]"

fun create_directories :: "path list \<Rightarrow> (setup_error, unit) io" where
  "create_directories [] = io_ret ()"
| "create_directories (d # ds) =
     io_bind (io_context Setup_Io (fs_create_dir_all d)) (\<lambda>_. create_directories ds)"

definition validate_existing_config ::
    "('r, 'v, 'cv, 'm, 'net, 'set, 'c) setup_env \<Rightarrow> string \<Rightarrow> (string \<Rightarrow> bool) \<Rightarrow> bool" where
  "validate_existing_config E config_file exists \<longleftrightarrow>
     from_options (se_config_crate E) (se_platform E) exists (se_env_set E) (se_cwd E)
       \<lparr>lo_explicit_config = Some config_file, lo_env_config = None, lo_managed_config = config_file,
        lo_exe_config = None, lo_cwd_config = ''config.toml''\<rparr> \<noteq> None"

definition prepare_config ::
    "('r, 'v, 'cv, 'm, 'net, 'set, 'c) setup_env \<Rightarrow> install_layout \<Rightarrow> bool \<Rightarrow> (setup_error, unit) io" where
  "prepare_config E l force =
     (let file = disk_path (il_config_file l) in
      io_bind (io_tree (\<lambda>t. (path_exists t file,
        validate_existing_config E (il_config_file l) (\<lambda>p. path_exists t (disk_path p))))) (\<lambda>(present, valid).
      if present \<and> \<not> force then (if valid then io_ret () else io_fail Existing_Config_Invalid)
      else io_context Setup_Io (fs_write file (text_bytes (managed_config_toml l)))))"

section \<open>Rules\<close>

definition fetch ::
    "('r, 'v, 'cv, 'm, 'net, 'set, 'c) setup_env \<Rightarrow> url \<Rightarrow> nat \<Rightarrow> u8 list option" where
  "fetch E u max_bytes =
     Option.bind (se_get E u) (\<lambda>(content_length, body). fetch_url_bytes max_bytes content_length body)"

definition parse_release_url ::
    "('r, 'v, 'cv, 'm, 'net, 'set, 'c) setup_env \<Rightarrow> string \<Rightarrow> setup_error + url" where
  "parse_release_url E v =
     (case se_parse_url E v of
        None \<Rightarrow> Inl (Bad_Url v)
      | Some u \<Rightarrow> if validate_release_url u then Inr u else Inl (Bad_Url v))"

definition max_catalog_bytes :: nat where
  "max_catalog_bytes = 2 * 1024 * 1024"

definition fetch_catalog ::
    "('r, 'v, 'cv, 'm, 'net, 'set, 'c) setup_env \<Rightarrow> url \<Rightarrow> setup_error + catalog" where
  "fetch_catalog E u =
     (case fetch E u max_catalog_bytes of
        None \<Rightarrow> Inl Download_Failed
      | Some bytes \<Rightarrow>
          (case catalog_from_slice (se_crates E) (se_parse_catalog E) bytes of
             Inl e \<Rightarrow> Inl (Setup_Rules e) | Inr c \<Rightarrow> Inr c))"

definition prompt_pack_choice ::
    "('r, 'v, 'cv, 'm, 'net, 'set, 'c) setup_env \<Rightarrow> setup_error + setup_pack" where
  "prompt_pack_choice E =
     (case se_input E of
        None \<Rightarrow> Inl Prompt_Failed
      | Some input \<Rightarrow>
          let choice = to_ascii_lowercase (str_trim input) in
          if choice \<in> {[], ''1'', ''essential'', ''e''} then Inr Essential
          else if choice \<in> {''2'', ''advanced'', ''a''} then Inr Advanced
          else Inl (Unknown_Selection choice))"

definition select_pack_by_level ::
    "('r, 'v, 'cv, 'm, 'net, 'set, 'c) setup_env \<Rightarrow> catalog \<Rightarrow> setup_pack \<Rightarrow> setup_error + catalog_pack" where
  "select_pack_by_level E c choice =
     (let level = setup_level choice;
          candidates = filter (\<lambda>pack. eq_ignore_ascii_case (pk_level pack) level)
            (compatible_packs (se_current_os E) c)
      in case sort_key (\<lambda>pack. (\<not> pk_default pack, pk_id pack)) candidates of
           [] \<Rightarrow> Inl (No_Pack level)
         | pack # _ \<Rightarrow> Inr pack)"

definition select_pack ::
    "('r, 'v, 'cv, 'm, 'net, 'set, 'c) setup_env \<Rightarrow> catalog \<Rightarrow> setup_pack option \<Rightarrow> bool \<Rightarrow>
     setup_error + catalog_pack" where
  "select_pack E c requested yes =
     (case (case requested of
              Some pack \<Rightarrow> Inr pack
            | None \<Rightarrow> if yes \<or> \<not> se_terminal E then Inr Essential else prompt_pack_choice E) of
        Inl e \<Rightarrow> Inl e
      | Inr choice \<Rightarrow> select_pack_by_level E c choice)"

definition download_and_install_pack ::
    "('r, 'v, 'cv, 'm, 'net, 'set, 'c) setup_env \<Rightarrow> url \<Rightarrow> catalog \<Rightarrow> string \<Rightarrow> path \<Rightarrow>
     (setup_error, install_outcome) io" where
  "download_and_install_pack E catalog_url c pack_id rules_dir =
     (case find_pack pack_id c of
        None \<Rightarrow> io_fail (Setup_Rules (Pack_Not_Found pack_id))
      | Some selected \<Rightarrow>
          io_bind (io_context Setup_Rules (io_check
            (validate_pack_installable (se_crates E) (se_current_os E) (se_pkg_version E) selected))) (\<lambda>_.
          case se_join_url E catalog_url (pk_artifact selected) of
            None \<Rightarrow> io_fail (Bad_Url (pk_artifact selected))
          | Some artifact_url \<Rightarrow>
              if \<not> validate_release_url artifact_url then io_fail (Bad_Url (pk_artifact selected))
              else case fetch E artifact_url max_artifact_bytes of
                     None \<Rightarrow> io_fail Download_Failed
                   | Some archive \<Rightarrow>
                       io_context Setup_Rules
                         (install_pack_archive_bytes (se_crates E) (se_current_os E) (se_pkg_version E)
                            (se_stamp E) (se_now E) c pack_id rules_dir archive)))"

definition active_rules_are_valid ::
    "(u8 list \<Rightarrow> rules_state option) \<Rightarrow> path \<Rightarrow> world \<Rightarrow> bool" where
  "active_rules_are_valid parse_state rules_dir w \<longleftrightarrow>
     (let current = current_of rules_dir; t = wd_tree w in
      read_state parse_state rules_dir w \<noteq> None \<and>
      is_file t (current @ [''pack.yml'']) \<and>
      is_dir t (current @ [''sigma'']) \<and> is_dir t (current @ [''yara'']) \<and> is_dir t (current @ [''ioc'']) \<and>
      list_all (\<lambda>f. is_file t (current @ [''ioc'', f]))
        [''hashes.txt'', ''ips.txt'', ''domains.txt'', ''paths_regex.txt''])"

definition install_rules_with_recovery ::
    "('r, 'v, 'cv, 'm, 'net, 'set, 'c) setup_env \<Rightarrow> url \<Rightarrow> catalog \<Rightarrow> path \<Rightarrow> catalog_pack \<Rightarrow>
     (setup_error, install_outcome option) io" where
  "install_rules_with_recovery E catalog_url c rules_dir pack w =
     (case download_and_install_pack E catalog_url c (pk_id pack) rules_dir w of
        (Inr outcome, w') \<Rightarrow> (Inr (Some outcome), w')
      | (Inl e, w') \<Rightarrow>
          if active_rules_are_valid (se_parse_state E) rules_dir w' then (Inr None, w')
          else (Inl (No_Rules e), w'))"

section \<open>The program\<close>

text \<open>The innermost directory of the path, or the path itself, that is the application bundle.\<close>

fun bundle_above :: "string list \<Rightarrow> path option" where
  "bundle_above [] = None"
| "bundle_above (c # r) = (if c = ''Rustinel.app'' then Some (rev (c # r)) else bundle_above r)"

definition app_bundle_root :: "path \<Rightarrow> path option" where
  "app_bundle_root p = bundle_above (rev p)"

definition same_file_best_effort :: "node \<Rightarrow> path \<Rightarrow> path \<Rightarrow> bool" where
  "same_file_best_effort t a b \<longleftrightarrow> path_exists t a \<and> path_exists t b \<and> a = b"

text \<open>
  The entries of a directory are those it has when it is read; the copy lies outside of the source,
  so copying does not change them. Reading a directory fails only when there is none.
\<close>

fun copy_entries :: "path \<Rightarrow> path \<Rightarrow> (string \<times> node) list \<Rightarrow> (setup_error, unit) io" where
  "copy_entries source destination [] = io_ret ()"
| "copy_entries source destination ((n, File b) # es) =
     io_bind (io_context Setup_Io (fs_copy (source @ [n]) (destination @ [n]))) (\<lambda>_.
     copy_entries source destination es)"
| "copy_entries source destination ((n, Dir cs) # es) =
     io_bind (io_context Setup_Io (fs_create_dir_all (destination @ [n]))) (\<lambda>_.
     io_bind (copy_entries (source @ [n]) (destination @ [n]) cs) (\<lambda>_.
     copy_entries source destination es))"

definition copy_directory :: "path \<Rightarrow> path \<Rightarrow> (setup_error, unit) io" where
  "copy_directory source destination =
     io_bind (io_context Setup_Io (fs_create_dir_all destination)) (\<lambda>_.
     io_bind (io_tree (\<lambda>t. node_at t source)) (\<lambda>found.
     case found of
       Some (Dir cs) \<Rightarrow> copy_entries source destination cs
     | _ \<Rightarrow> io_fail (Setup_Io (Read source))))"

definition set_executable_permissions ::
    "('r, 'v, 'cv, 'm, 'net, 'set, 'c) setup_env \<Rightarrow> path \<Rightarrow> (setup_error, unit) io" where
  "set_executable_permissions E p =
     io_bind (io_tree (\<lambda>t. path_exists t p)) (\<lambda>present.
     if present \<and> se_chmod E p then io_ret () else io_fail (Not_Executable p))"

definition install_macos_bundle ::
    "('r, 'v, 'cv, 'm, 'net, 'set, 'c) setup_env \<Rightarrow> path \<Rightarrow> path \<Rightarrow> (setup_error, unit) io" where
  "install_macos_bundle E exe binary_path =
     io_bind (io_tree (\<lambda>t. path_exists t exe)) (\<lambda>resolved.
     if \<not> resolved then io_fail Exe_Unknown
     else case (app_bundle_root exe, app_bundle_root binary_path) of
       (Some source_app, Some destination_app) \<Rightarrow>
         if source_app = destination_app then io_ret ()
         else
           let temporary_app = butlast destination_app @ [''.Rustinel.app.tmp.'' @ se_pid E] in
           io_bind (io_tree (\<lambda>t. path_exists t temporary_app)) (\<lambda>left.
           io_bind (if left then io_context Setup_Io (fs_remove_dir_all temporary_app) else io_ret ()) (\<lambda>_.
           io_bind (\<lambda>w. case copy_directory source_app temporary_app w of
               (Inr u, w') \<Rightarrow> (Inr u, w')
             | (Inl e, w') \<Rightarrow> (Inl e, snd (fs_remove_dir_all temporary_app w'))) (\<lambda>_.
           io_bind (io_tree (\<lambda>t. path_exists t destination_app)) (\<lambda>present.
           io_bind (if present then io_context Setup_Io (fs_remove_dir_all destination_app) else io_ret ()) (\<lambda>_.
           io_bind (io_context Setup_Io (fs_rename temporary_app destination_app)) (\<lambda>_.
           set_executable_permissions E binary_path))))))
     | _ \<Rightarrow> io_fail No_Bundle)"

definition install_binary ::
    "('r, 'v, 'cv, 'm, 'net, 'set, 'c) setup_env \<Rightarrow> path \<Rightarrow> (setup_error, unit) io" where
  "install_binary E binary_path =
     (case se_exe E of
        None \<Rightarrow> io_fail Exe_Unknown
      | Some exe \<Rightarrow>
          if se_platform E = MacOS then install_macos_bundle E exe binary_path
          else
            io_bind (io_tree (\<lambda>t. same_file_best_effort t exe binary_path)) (\<lambda>same.
            if same then io_ret ()
            else
              io_bind (io_context Setup_Io (fs_copy exe binary_path)) (\<lambda>_.
              set_executable_permissions E binary_path)))"

section \<open>The whole setup\<close>

definition setup_service ::
    "('r, 'v, 'cv, 'm, 'net, 'set, 'c) setup_env \<Rightarrow> service_action \<Rightarrow>
     ('m host, service_error, service_command_result) act" where
  "setup_service E =
     run_backend_action (unix_backend (se_platform E) (se_service_program E) (service_paths_for (se_platform E)))"

definition on_service :: "('m host, service_error, 'a) act \<Rightarrow> ('m host, setup_error, 'a) act" where
  "on_service m h =
     (case m h of (Inl e, h') \<Rightarrow> (Inl (Setup_Service e), h') | (Inr x, h') \<Rightarrow> (Inr x, h'))"

definition status_or_unknown ::
    "('r, 'v, 'cv, 'm, 'net, 'set, 'c) setup_env \<Rightarrow> ('m host, setup_error, service_status) act" where
  "status_or_unknown E h =
     (case setup_service E Status_Service h of
        (Inr (Status s), h') \<Rightarrow> (Inr s, h')
      | (_, h') \<Rightarrow> (Inr Unknown_Status, h'))"

text \<open>When the start fails, the status is asked for the advice and the error returned.\<close>

definition start_service ::
    "('r, 'v, 'cv, 'm, 'net, 'set, 'c) setup_env \<Rightarrow> ('m host, setup_error, service_status) act" where
  "start_service E h =
     (case setup_service E Start_Service h of
        (Inl e, h') \<Rightarrow> (Inl (Setup_Service e), snd (status_or_unknown E h'))
      | (Inr _, h') \<Rightarrow> status_or_unknown E h')"

definition run_health_checks ::
    "('r, 'v, 'cv, 'm, 'net, 'set, 'c) setup_env \<Rightarrow> install_layout \<Rightarrow> 'm host \<Rightarrow> diagnostic_status" where
  "run_health_checks E l h =
     doctor_status (se_config_crate E) (se_doctor E h) (\<lambda>p. file_exists p h) (se_env_set E) (se_cwd E)
       (from_runtime (se_platform E) (se_env_config E) (se_exe_text E) (Some (il_config_file l)))"

definition of_result :: "'e + 'a \<Rightarrow> ('s, 'e, 'a) act" where
  "of_result r s = (r, s)"

definition setup_run ::
    "('r, 'v, 'cv, 'm, 'net, 'set, 'c) setup_env \<Rightarrow> setup_options \<Rightarrow> ('m host, setup_error, unit) act" where
  "setup_run E opts =
     (let l = managed_layout (se_platform E); sp = service_paths_for (se_platform E) in
      act_bind (on_disk id (create_directories (managed_directories l sp))) (\<lambda>_.
      act_bind (on_disk id (prepare_config E l (so_force opts))) (\<lambda>_.
      act_bind (of_result (parse_release_url E (so_catalog_url opts))) (\<lambda>catalog_url.
      act_bind (of_result (fetch_catalog E catalog_url)) (\<lambda>c.
      act_bind (of_result (select_pack E c (so_pack opts) (so_yes opts))) (\<lambda>pack.
      act_bind (on_disk id
        (install_rules_with_recovery E catalog_url c (disk_path (il_rules_dir l)) pack)) (\<lambda>_.
      act_bind (on_disk id (install_binary E (disk_path (sp_binary_path sp)))) (\<lambda>_.
      act_bind (on_service (setup_service E Install_Service)) (\<lambda>_.
      act_bind (if so_no_start opts then status_or_unknown E else start_service E) (\<lambda>_.
      act_bind (act_get (run_health_checks E l)) (\<lambda>health.
      if health = Fail then act_fail Health_Checks_Failed else act_ret ())))))))))))"

section \<open>The strings of the configuration\<close>

definition toml_char :: "char \<Rightarrow> string" where
  "toml_char c =
     (if c = backslash then [backslash, backslash] else if c = dquote then [backslash, dquote] else [c])"

lemma toml_string_chars: "toml_string p = [dquote] @ concat (map toml_char p) @ [dquote]"
  by (induction p) (simp_all add: toml_string_def str_replace_char toml_char_def Let_def)

text \<open>A basic string of TOML after its opening quote, with the two escapes that are written.\<close>

fun toml_body :: "string \<Rightarrow> string option" where
  "toml_body [] = None"
| "toml_body (c # s) =
     (if c = dquote then (if s = [] then Some [] else None)
      else if c = backslash then
        (case s of
           [] \<Rightarrow> None
         | d # r \<Rightarrow> if d = backslash \<or> d = dquote then map_option (Cons d) (toml_body r) else None)
      else map_option (Cons c) (toml_body s))"

lemma written_config_escapes: "toml_body (tl (toml_string p)) = Some p"
proof -
  have "toml_body (concat (map toml_char p) @ [dquote]) = Some p"
    by (induction p) (simp_all add: toml_char_def)
  then show ?thesis by (simp add: toml_string_chars)
qed

section \<open>An installation changes nothing off the rules directory\<close>

lemma confined_check [confined_intros]: "confined d (io_check r)"
  by (simp add: confined_def io_check_def)

lemma confined_finally [confined_intros]:
  "confined d m \<Longrightarrow> confined d c \<Longrightarrow> confined d (io_finally m c)"
  unfolding confined_def io_finally_def
  by (simp add: Let_def split: prod.split) (metis kept_off_root kept_off_trans snd_conv)

lemma confined_on_error [confined_intros]:
  "confined d m \<Longrightarrow> confined d undo \<Longrightarrow> confined d (io_on_error m undo)"
  unfolding confined_def io_on_error_def
  by (simp split: prod.split sum.split) (metis kept_off_root kept_off_trans snd_conv)

lemma confined_rename_if_exists [confined_intros]:
  "strict_prefix d a \<Longrightarrow> strict_prefix d b \<Longrightarrow> confined d (rename_if_exists a b)"
  unfolding rename_if_exists_def by (auto intro!: confined_intros)

lemma confined_install:
  "confined rules_dir (install_pack_archive_bytes X current_os pkg_version stamp now c pack_id rules_dir archive)"
proof -
  have sp: "strict_prefix rules_dir (rules_dir @ x # xs)" for x xs by (simp add: strict_prefix_def)
  have stage: "confined rules_dir (stage_pack X now pack (rules_dir @ xs) archive)" for pack xs
    by (rule confined_mono [OF confined_stage_pack]) simp
  have replace: "confined rules_dir (atomic_replace_active rules_dir (rules_dir @ [''staging''])
      (rules_dir @ x # xs) (rules_dir @ y # ys))" for x xs y ys
    unfolding atomic_replace_active_def Let_def restore_previous_def current_of_def state_of_def
      previous_current_def previous_state_def
    by (auto intro!: confined_intros sp)
  show ?thesis
    unfolding install_pack_archive_bytes_def Let_def install_in_work_dir_def work_dir_of_def
    by (auto intro!: confined_intros confined_recreate_dir stage replace sp split: option.split)
qed

lemma install_faults:
  assumes "is_dir (wd_tree w) []"
    and "install_pack_archive_bytes X current_os pkg_version stamp now c pack_id rules_dir archive w = (r, w')"
  shows "wd_faults w' = wd_faults w" and "is_dir (wd_tree w') []"
  using confined_run [OF confined_install assms(2,1)] assms(1) by (auto intro: kept_off_root)

section \<open>The installed pack\<close>

text \<open>
  What the parts agree on: a decoded checksum was written in hexadecimal digits, two for a byte; the
  state that was serialised parses back; and the doctor's view of a manifest has the fields that the
  installer saw. The crates \<open>hex\<close>, \<open>serde_json\<close> and \<open>serde_yaml\<close> document the three.
\<close>

definition crates_agree ::
    "('r, 'v) pack_crates \<Rightarrow> (u8 list \<Rightarrow> rules_state option) \<Rightarrow> (u8 list \<Rightarrow> doctor_manifest option) \<Rightarrow> bool" where
  "crates_agree X parse_state parse_manifest \<longleftrightarrow>
     (\<forall>s b. pc_hex_decode X s = Some b \<longrightarrow> list_all (is_digit 16) s \<and> length s = 2 * length b) \<and>
     (\<forall>st json. pc_state_json X st = Some json \<longrightarrow> parse_state json = Some st) \<and>
     (\<forall>b m. pc_manifest X b = Some m \<longrightarrow> parse_manifest b = Some \<lparr>dm_id = mf_id m,
        dm_pack_schema_version = mf_pack_schema_version m, dm_requires_rustinel = mf_requires_rustinel m\<rparr>)"

definition readable :: "faults \<Rightarrow> bool" where
  "readable f \<longleftrightarrow> (\<forall>n q. \<not> fl_fails f n (Read q))"

text \<open>The directory has no file where the installer parks the old pack, no directory for the old state.\<close>

definition staging_clean :: "path \<Rightarrow> node \<Rightarrow> bool" where
  "staging_clean rules_dir t \<longleftrightarrow>
     \<not> is_file t (previous_current (rules_dir @ [''staging''])) \<and>
     \<not> is_dir t (previous_state (rules_dir @ [''staging'']))"

lemma read_file:
  assumes "readable (wd_faults w)" and "node_at (wd_tree w) p = Some (File b)"
  shows "fs_read p w = (Inr b, w\<lparr>wd_calls := Suc (wd_calls w)\<rparr>)"
  using assms by (simp add: fs_read_def system_call_def readable_def Let_def)

lemma install_facts:
  assumes "is_dir (wd_tree w) []" and "undo_reliable rules_dir (wd_faults w)"
    and "staging_clean rules_dir (wd_tree w)"
    and run: "install_pack_archive_bytes X current_os pkg_version stamp now c pack_id rules_dir archive w
      = (Inr out, w')"
  obtains pack json where "find_pack pack_id c = Some pack"
    and "validate_pack_installable X current_os pkg_version pack = Inr ()"
    and "verify_sha256 X archive (pk_sha256 pack) = Inr ()"
    and "pack_in_place X pack (wd_tree w') (current_of rules_dir)"
    and "pc_state_json X \<lparr>rs_pack_id = pk_id pack, rs_version = pk_version pack,
      rs_sha256 = pk_sha256 pack, rs_installed_at = now\<rparr> = Some json"
    and "node_at (wd_tree w') (state_of rules_dir) = Some (File json)"
proof -
  obtain pack where pack: "find_pack pack_id c = Some pack" "length archive \<le> max_artifact_bytes"
    using run by (auto simp: install_pack_archive_bytes_def io_fail_def split: if_splits option.splits)
  have "same_at (kept_places rules_dir) w w" using assms(1) by (simp add: same_at_def)
  from install_checked [OF assms(1,2) _ _ pack, of X current_os pkg_version stamp now,
      unfolded triple_def, rule_format, OF _ _ this] assms(3) run
  have "install_result X now pack rules_dir w (Inr out) w' \<and>
      validate_pack_installable X current_os pkg_version pack = Inr () \<and>
      verify_sha256 X archive (pk_sha256 pack) = Inr ()"
    by (auto simp: staging_clean_def)
  with pack(1) that show thesis by (auto simp: install_result_def)
qed

lemma pack_in_place_valid:
  assumes "pack_in_place X pack (wd_tree w) (current_of rules_dir)" and "readable (wd_faults w)"
    and "node_at (wd_tree w) (state_of rules_dir) = Some (File json)" and "parse_state json = Some st"
  shows "read_state parse_state rules_dir w = Some st"
    and "active_rules_are_valid parse_state rules_dir w"
proof -
  show state: "read_state parse_state rules_dir w = Some st"
    using read_file [OF assms(2,3)] assms(4) by (simp add: read_state_def)
  have "is_file (wd_tree w) (current_of rules_dir @ [''pack.yml''])"
    using assms(1) by (auto simp: pack_in_place_def is_file_def split: option.splits node.splits)
  with state assms(1) show "active_rules_are_valid parse_state rules_dir w"
    by (simp add: active_rules_are_valid_def pack_in_place_def rules_dirs_def ioc_names_def Let_def)
qed

lemma manifest_accepted:
  assumes "crates_agree X parse_state parse_manifest" and "pc_manifest X b = Some m"
    and "validate_manifest m pack = Inr ()" and "rs_pack_id st = pk_id pack"
    and "validate_pack_installable X current_os pkg_version pack = Inr ()"
  shows "validate_pack_manifest X parse_manifest pkg_version (Some b) st =
    ([pass ''rules_pack_compatibility''], True)"
proof -
  have "parse_manifest b = Some \<lparr>dm_id = mf_id m, dm_pack_schema_version = mf_pack_schema_version m,
      dm_requires_rustinel = mf_requires_rustinel m\<rparr>"
    using assms(1,2) by (simp add: crates_agree_def)
  moreover have "mf_id m = pk_id pack" "mf_requires_rustinel m = pk_requires_rustinel pack"
    "mf_pack_schema_version m \<in> set doctor_schema_versions"
    using assms(3) by (auto simp: validate_manifest_def doctor_schema_versions_def
        supported_pack_schema_versions_def split: if_splits)
  ultimately show ?thesis
    using assms(4,5) by (auto simp: validate_pack_manifest_def validate_pack_installable_def
        split: if_splits option.splits)
qed

lemma installed_rules_valid:
  assumes "is_dir (wd_tree w) []" and "undo_reliable rules_dir (wd_faults w)"
    and "staging_clean rules_dir (wd_tree w)" and "readable (wd_faults w)"
    and "crates_agree X parse_state parse_manifest"
    and run: "install_pack_archive_bytes X current_os pkg_version stamp now c pack_id rules_dir archive w
      = (Inr out, w')"
  shows "active_rules_are_valid parse_state rules_dir w'"
proof -
  obtain pack json where "pack_in_place X pack (wd_tree w') (current_of rules_dir)"
    and json: "pc_state_json X \<lparr>rs_pack_id = pk_id pack, rs_version = pk_version pack,
      rs_sha256 = pk_sha256 pack, rs_installed_at = now\<rparr> = Some json"
    and "node_at (wd_tree w') (state_of rules_dir) = Some (File json)"
    using install_facts [OF assms(1-3) run] by metis
  moreover have "readable (wd_faults w')" using install_faults(1) [OF assms(1) run] assms(4) by simp
  moreover from json assms(5) have "\<exists>st. parse_state json = Some st" by (auto simp: crates_agree_def)
  ultimately show ?thesis using pack_in_place_valid(2) by metis
qed

text \<open>
  C11: what \<open>rules install\<close> activates, the setup and the doctor accept. After an installation that
  reports success, the active rules are valid for the setup, and the doctor reports the checksum, the
  state and the compatibility of the pack with the running version as passed, for the pack that was
  asked for.
\<close>

theorem installed_pack_accepted:
  assumes "is_dir (wd_tree w) []" and "undo_reliable rules_dir (wd_faults w)"
    and "staging_clean rules_dir (wd_tree w)" and "readable (wd_faults w)"
    and "crates_agree X parse_state parse_manifest"
    and run: "install_pack_archive_bytes X current_os pkg_version stamp now c pack_id rules_dir archive w
      = (Inr out, w')"
  shows "active_rules_are_valid parse_state rules_dir w' \<and>
    fst (inspect_rule_pack X parse_state parse_manifest pkg_version rules_dir w') =
      [pass ''rules_pack_checksum'', pass ''rules_pack_state'', pass ''rules_pack_compatibility''] \<and>
    map_option rd_pack_id (snd (inspect_rule_pack X parse_state parse_manifest pkg_version rules_dir w')) =
      Some pack_id"
proof -
  obtain pack json where pack: "find_pack pack_id c = Some pack"
    "validate_pack_installable X current_os pkg_version pack = Inr ()"
    "verify_sha256 X archive (pk_sha256 pack) = Inr ()"
    "pack_in_place X pack (wd_tree w') (current_of rules_dir)"
    and json: "pc_state_json X \<lparr>rs_pack_id = pk_id pack, rs_version = pk_version pack,
      rs_sha256 = pk_sha256 pack, rs_installed_at = now\<rparr> = Some json"
    "node_at (wd_tree w') (state_of rules_dir) = Some (File json)"
    using install_facts [OF assms(1-3) run] by metis
  let ?st = "\<lparr>rs_pack_id = pk_id pack, rs_version = pk_version pack, rs_sha256 = pk_sha256 pack,
    rs_installed_at = now\<rparr>"
  have parse: "parse_state json = Some ?st" using assms(5) json(1) by (simp add: crates_agree_def)
  have readable: "readable (wd_faults w')" using install_faults(1) [OF assms(1) run] assms(4) by simp
  note valid = pack_in_place_valid [where parse_state = parse_state, OF pack(4) readable json(2) parse]
  obtain b m where b: "node_at (wd_tree w') (current_of rules_dir @ [''pack.yml'']) = Some (File b)"
    and m: "pc_manifest X b = Some m" "validate_manifest m pack = Inr ()"
    using pack(4) by (auto simp: pack_in_place_def split: option.splits node.splits)
  let ?w = "w'\<lparr>wd_calls := Suc (wd_calls w')\<rparr>"
  have "readable (wd_faults ?w)" "node_at (wd_tree ?w) (current_of rules_dir @ [''pack.yml'']) = Some (File b)"
    using readable b by simp_all
  note manifest = read_file [OF this]
  have sha: "is_sha256_hex (pk_sha256 pack)"
    using pack(3) assms(5) by (auto simp: verify_sha256_def parse_sha256_def is_sha256_hex_def
        crates_agree_def split: option.splits if_splits)
  have pack_id: "pk_id pack = pack_id"
    using pack(1) by (auto simp: find_pack_def find_Some_iff)
  have "inspect_rule_pack X parse_state parse_manifest pkg_version rules_dir w' =
      ([pass ''rules_pack_checksum'', pass ''rules_pack_state'', pass ''rules_pack_compatibility''],
       Some \<lparr>rd_rules_dir = rules_dir, rd_state_path = state_of rules_dir, rd_pack_id = pk_id pack,
         rd_version = pk_version pack, rd_sha256 = pk_sha256 pack,
         rd_manifest_path = Some (current_of rules_dir @ [''pack.yml''])\<rparr>)"
    using valid(1) read_file [OF readable json(2)] manifest sha
      manifest_accepted [OF assms(5) m, of ?st current_os pkg_version] pack(2)
    by (simp add: inspect_rule_pack_def Let_def)
  with valid(2) pack_id show ?thesis by simp
qed

text \<open>
  The setup goes on only with valid active rules: those of the new pack, or the old ones, which a
  failed installation has left as they were.
\<close>

lemma setup_rules_valid:
  assumes "is_dir (wd_tree w) []" and "undo_reliable rules_dir (wd_faults w)"
    and "staging_clean rules_dir (wd_tree w)" and "readable (wd_faults w)"
    and "crates_agree (se_crates E) (se_parse_state E) parse_manifest"
    and run: "install_rules_with_recovery E u c rules_dir pack w = (Inr r, w')"
  shows "active_rules_are_valid (se_parse_state E) rules_dir w'"
proof (cases "download_and_install_pack E u c (pk_id pack) rules_dir w")
  case (Pair q w1)
  show ?thesis
  proof (cases q)
    case (Inl e)
    with run Pair show ?thesis by (auto simp: install_rules_with_recovery_def split: if_splits)
  next
    case (Inr out)
    with Pair obtain archive where "install_pack_archive_bytes (se_crates E) (se_current_os E)
        (se_pkg_version E) (se_stamp E) (se_now E) c (pk_id pack) rules_dir archive w = (Inr out, w1)"
      by (auto simp: download_and_install_pack_def io_success io_check_def split: option.splits if_splits)
    from installed_rules_valid [OF assms(1-5) this] run Pair Inr show ?thesis
      by (simp add: install_rules_with_recovery_def)
  qed
qed

section \<open>The whole setup\<close>

text \<open>Steps of the host that leave a path alone, whether they succeed or not.\<close>

definition quiet :: "path \<Rightarrow> ('m host, 'e, 'a) act \<Rightarrow> bool" where
  "quiet q m \<longleftrightarrow>
     (\<forall>h. is_dir (wd_tree (ho_disk h)) [] \<longrightarrow>
        wd_faults (ho_disk (snd (m h))) = wd_faults (ho_disk h) \<and>
        is_dir (wd_tree (ho_disk (snd (m h)))) [] \<and>
        node_at (wd_tree (ho_disk (snd (m h)))) q = node_at (wd_tree (ho_disk h)) q)"

named_theorems quiet_intros

lemma quiet_run:
  assumes "quiet q m" and "m h = (r, h')" and "is_dir (wd_tree (ho_disk h)) []"
  shows "wd_faults (ho_disk h') = wd_faults (ho_disk h)" and "is_dir (wd_tree (ho_disk h')) []"
    and "node_at (wd_tree (ho_disk h')) q = node_at (wd_tree (ho_disk h)) q"
proof -
  from assms(1,3) have "wd_faults (ho_disk (snd (m h))) = wd_faults (ho_disk h) \<and>
      is_dir (wd_tree (ho_disk (snd (m h)))) [] \<and>
      node_at (wd_tree (ho_disk (snd (m h)))) q = node_at (wd_tree (ho_disk h)) q"
    unfolding quiet_def by blast
  with assms(2) show "wd_faults (ho_disk h') = wd_faults (ho_disk h)" and "is_dir (wd_tree (ho_disk h')) []"
    and "node_at (wd_tree (ho_disk h')) q = node_at (wd_tree (ho_disk h)) q"
    by simp_all
qed

lemma quiet_bind [quiet_intros]:
  fixes m :: "('m host, 'e, 'a) act"
  assumes "quiet q m" and "\<And>x. quiet q (k x)"
  shows "quiet q (act_bind m k)"
  unfolding quiet_def
proof (intro allI impI)
  fix h :: "'m host" assume h: "is_dir (wd_tree (ho_disk h)) []"
  obtain r h1 where m: "m h = (r, h1)" by (cases "m h")
  note step = quiet_run [OF assms(1) m h]
  have "wd_faults (ho_disk (snd (k x h1))) = wd_faults (ho_disk h1) \<and>
      is_dir (wd_tree (ho_disk (snd (k x h1)))) [] \<and>
      node_at (wd_tree (ho_disk (snd (k x h1)))) q = node_at (wd_tree (ho_disk h1)) q" for x
    using assms(2) step(2) unfolding quiet_def by blast
  with step m show "wd_faults (ho_disk (snd (act_bind m k h))) = wd_faults (ho_disk h) \<and>
      is_dir (wd_tree (ho_disk (snd (act_bind m k h)))) [] \<and>
      node_at (wd_tree (ho_disk (snd (act_bind m k h)))) q = node_at (wd_tree (ho_disk h)) q"
    by (cases r) (simp_all add: act_bind_def)
qed

lemma quiet_same_disk: "same_disk m \<Longrightarrow> quiet q m"
  by (simp add: quiet_def same_disk_def)

lemma quiet_on_disk: "leaves q m \<Longrightarrow> quiet q (on_disk f m)"
  by (simp add: quiet_def leaves_def on_disk_def Let_def split: prod.split) (metis snd_conv)

lemma quiet_try [quiet_intros]: "quiet q m \<Longrightarrow> quiet q (act_try m)"
  by (simp add: quiet_def act_try_def Let_def split: prod.split) (metis snd_conv)

lemma quiet_on_service: "quiet q m \<Longrightarrow> quiet q (on_service m)"
  by (simp add: quiet_def on_service_def split: prod.split sum.split) (metis snd_conv)

lemma quiet_basic [quiet_intros]:
  "quiet q (act_ret x)" "quiet q (act_fail e)" "quiet q (act_get f)" "quiet q (command_output ctl args)"
  "quiet q (command ctl args)"
  by (intro quiet_same_disk same_disk_intros)+

lemma quiet_split [quiet_intros]: "(\<And>a b. quiet q (k a b)) \<Longrightarrow> quiet q (case x of (a, b) \<Rightarrow> k a b)"
  by (cases x) simp

lemma same_disk_ensure: "same_disk (ensure_regular_file p)"
  by (simp add: same_disk_def ensure_regular_file_def)

lemma same_disk_result: "same_disk (of_result r)"
  by (simp add: same_disk_def of_result_def)

text \<open>Each part of the setup works below a directory of its own.\<close>

lemma confined_copy_entries:
  "prefix d destination \<Longrightarrow> confined d (copy_entries source destination es)"
proof (induction source destination es rule: copy_entries.induct)
  case (2 source destination n b es)
  then show ?case by (auto intro!: confined_intros simp: strict_prefix_def prefix_def)
next
  case (3 source destination n cs es)
  then show ?case by (auto intro!: confined_intros)
qed (simp add: confined_intros)

lemma confined_copy_directory: "confined destination (copy_directory source destination)"
  unfolding copy_directory_def
  by (auto intro!: confined_intros confined_copy_entries split: option.split node.split)

lemma confined_undo:
  "confined d m \<Longrightarrow> confined d u \<Longrightarrow>
   confined d (\<lambda>w. case m w of (Inr x, w') \<Rightarrow> (Inr x, w') | (Inl e, w') \<Rightarrow> (Inl e, snd (u w')))"
  unfolding confined_def
  by (simp split: prod.split sum.split) (metis kept_off_root kept_off_trans snd_conv)

lemma confined_install_binary:
  assumes "se_platform E \<noteq> Windows"
  shows "confined (disk_path (sp_working_dir (service_paths_for (se_platform E))))
    (install_binary E (disk_path (sp_binary_path (service_paths_for (se_platform E)))))"
proof (cases "se_platform E = MacOS")
  case True
  let ?d = "[''usr'', ''local'', ''var'', ''rustinel'']"
  have paths: "disk_path (sp_working_dir (service_paths_for MacOS)) = ?d"
    "app_bundle_root (disk_path (sp_binary_path (service_paths_for MacOS))) = Some (?d @ [''Rustinel.app''])"
    by code_simp+
  have sp: "strict_prefix ?d (?d @ [x])" for x by (simp add: strict_prefix_def)
  have copy: "confined ?d (copy_directory source (?d @ [x]))" for source x
    by (rule confined_mono [OF confined_copy_directory]) simp
  show ?thesis
    using True
    by (auto simp: install_binary_def install_macos_bundle_def paths set_executable_permissions_def Let_def
        sp [simplified] copy [simplified] intro!: confined_intros confined_undo split: option.split)
next
  case False
  with assms have p: "se_platform E = Linux" by (cases "se_platform E") simp_all
  have paths: "disk_path (sp_working_dir (service_paths_for Linux)) = [''opt'', ''rustinel'']"
    "disk_path (sp_binary_path (service_paths_for Linux)) = [''opt'', ''rustinel'', ''rustinel'']"
    by code_simp+
  show ?thesis
    by (auto simp: install_binary_def p paths set_executable_permissions_def strict_prefix_def
        intro!: confined_intros split: option.split)
qed

lemma leaves_write: "q \<parallel> p \<Longrightarrow> leaves q (fs_write p b)"
proof -
  assume q: "q \<parallel> p"
  then have "strict_prefix [] p" by (cases p) (auto simp: strict_prefix_def)
  with q show ?thesis
    unfolding leaves_def fs_write_def system_call_def
    by (auto simp: Let_def put_file_def spoil_file_def node_at_graft_other is_dir_graft_above
        parallel_commute split: option.split)
qed

lemma leaves_fail: "leaves q (io_fail e)"
  by (simp add: leaves_def io_fail_def)

lemma leaves_read: "leaves q (fs_read p)"
  unfolding leaves_def fs_read_def system_call_def
  by (auto simp: Let_def unspoilt_def split: option.split node.split)

lemma leaves_create_directories:
  "\<forall>d \<in> set ds. \<not> prefix q d \<Longrightarrow> leaves q (create_directories ds)"
  by (induction ds) (auto intro!: leaves_ret leaves_bind leaves_context leaves_create_dir_all)

lemma leaves_prepare_config:
  "q \<parallel> disk_path (il_config_file l) \<Longrightarrow> leaves q (prepare_config E l force)"
  unfolding prepare_config_def Let_def
  by (rule leaves_bind, rule leaves_tree)
    (auto intro!: leaves_ret leaves_fail leaves_context leaves_write split: prod.split)

lemma confined_install_rules: "confined rules_dir (install_rules_with_recovery E u c rules_dir pack)"
proof -
  have "confined rules_dir (download_and_install_pack E u c (pk_id pack) rules_dir)"
    unfolding download_and_install_pack_def
    by (auto intro!: confined_intros confined_install split: option.split)
  then show ?thesis
    by (simp add: confined_def install_rules_with_recovery_def split: prod.split sum.split)
      (metis snd_conv)
qed

lemma quiet_write_definition:
  "\<not> prefix q (butlast (disk_path p)) \<Longrightarrow> q \<parallel> disk_path p \<Longrightarrow> quiet q (write_definition p contents)"
  unfolding write_definition_def
  by (auto intro!: quiet_intros quiet_on_disk leaves_create_dir_all leaves_write leaves_read)

lemma quiet_install_service:
  assumes "p \<noteq> Windows" and "definition_path p (service_paths_for p) = Some s"
    and "\<not> prefix q (butlast (disk_path s))" and "q \<parallel> disk_path s"
  shows "quiet q (run_backend_action (unix_backend p ctl (service_paths_for p)) Install_Service)"
proof -
  have "quiet q (validate_install_inputs paths)" for paths
    unfolding validate_install_inputs_def
    by (intro quiet_intros quiet_same_disk same_disk_ensure)
  moreover have "quiet q (write_definition s contents)" for contents
    by (rule quiet_write_definition [OF assms(3,4)])
  ultimately show ?thesis
    using assms(1,2)
    by (cases p)
      (auto simp: run_backend_action_def unix_backend_def systemd_backend_def launchd_backend_def
        systemd_install_def launchd_install_def definition_path_def service_path_def print_service_def
        intro!: quiet_intros)
qed

lemma active_rules_cong:
  assumes "readable (wd_faults w)" and "readable (wd_faults w')"
    and "node_at (wd_tree w') (current_of rules_dir) = node_at (wd_tree w) (current_of rules_dir)"
    and "node_at (wd_tree w') (state_of rules_dir) = node_at (wd_tree w) (state_of rules_dir)"
  shows "active_rules_are_valid parse rules_dir w' = active_rules_are_valid parse rules_dir w"
proof -
  have "read_state parse rules_dir w' = read_state parse rules_dir w"
    using assms(1,2,4) by (simp add: read_state_def fs_read_def system_call_def readable_def Let_def
        split: option.split node.split)
  with assms(3) show ?thesis
    by (simp add: active_rules_are_valid_def is_file_def is_dir_def node_at_append Let_def)
qed

text \<open>The places of a managed installation do not meet.\<close>

definition kept_by_setup :: "platform \<Rightarrow> path \<Rightarrow> bool" where
  "kept_by_setup p q \<longleftrightarrow>
     (let l = managed_layout p; sp = service_paths_for p;
          s = disk_path (the (definition_path p sp)) in
      list_all (\<lambda>d. \<not> prefix q d) (managed_directories l sp) \<and>
      (let c = disk_path (il_config_file l) in \<not> prefix q c \<and> \<not> prefix c q) \<and>
      (let d = disk_path (sp_working_dir sp) in \<not> prefix q d \<and> \<not> prefix d q) \<and>
      \<not> prefix q (butlast s) \<and> \<not> prefix q s \<and> \<not> prefix s q)"

lemma setup_places:
  assumes "p \<noteq> Windows"
  shows "\<forall>q \<in> set (kept_places (disk_path (il_rules_dir (managed_layout p)))). kept_by_setup p q"
    and "\<exists>s. definition_path p (service_paths_for p) = Some s \<and> disk_path s \<noteq> []"
proof -
  have "\<forall>p \<in> {Linux, MacOS}. \<forall>q \<in> set (kept_places (disk_path (il_rules_dir (managed_layout p)))). kept_by_setup p q"
    by code_simp
  then show "\<forall>q \<in> set (kept_places (disk_path (il_rules_dir (managed_layout p)))). kept_by_setup p q"
    using assms by (cases p) auto
  have "\<forall>p \<in> {Linux, MacOS}. case definition_path p (service_paths_for p) of
      None \<Rightarrow> False | Some s \<Rightarrow> disk_path s \<noteq> []" by code_simp
  then show "\<exists>s. definition_path p (service_paths_for p) = Some s \<and> disk_path s \<noteq> []"
    using assms by (cases p) (auto split: option.splits)
qed

lemma same_disk_status: "same_disk (setup_service E Status_Service)" "same_disk (setup_service E Start_Service)"
  by (auto simp: setup_service_def run_backend_action_def control_keeps_disk intro!: same_disk_intros)

lemma same_disk_after_install:
  "same_disk (if no_start then status_or_unknown E else start_service E)"
proof -
  have "same_disk (status_or_unknown E)"
    using same_disk_status(1) [of E]
    by (auto simp: same_disk_def status_or_unknown_def split: prod.split sum.split service_command_result.split)
      (metis snd_conv)+
  moreover from this have "same_disk (start_service E)"
    using same_disk_status(2) [of E]
    by (simp add: same_disk_def start_service_def split: prod.split sum.split) (metis snd_conv)
  ultimately show ?thesis by simp
qed

lemma of_result_success: "of_result r s = (Inr x, s') \<longleftrightarrow> r = Inr x \<and> s = s'"
  by (auto simp: of_result_def)

lemma on_service_success: "on_service m h = (Inr x, h') \<longleftrightarrow> m h = (Inr x, h')"
  by (auto simp: on_service_def split: prod.splits sum.splits)

lemma setup_steps:
  assumes "setup_run E opts h = (Inr (), h')"
  obtains h1 h2 h3 h4 h5 pack url c r b u1 u2 u4 where
    "on_disk id (create_directories (managed_directories (managed_layout (se_platform E))
      (service_paths_for (se_platform E)))) h = (Inr u1, h1)" and
    "on_disk id (prepare_config E (managed_layout (se_platform E)) (so_force opts)) h1 = (Inr u2, h2)" and
    "on_disk id (install_rules_with_recovery E url c
      (disk_path (il_rules_dir (managed_layout (se_platform E)))) pack) h2 = (Inr r, h3)" and
    "on_disk id (install_binary E (disk_path (sp_binary_path (service_paths_for (se_platform E))))) h3
      = (Inr u4, h4)" and
    "on_service (setup_service E Install_Service) h4 = (Inr b, h5)" and
    "ho_disk h' = ho_disk h5" and "run_health_checks E (managed_layout (se_platform E)) h' \<noteq> Fail"
proof -
  have tail: "ho_disk h7 = ho_disk h6" if
    "(if so_no_start opts then status_or_unknown E else start_service E) h6 = (Inr st, h7)" for h6 h7 st
    by (rule same_disk_run [OF same_disk_after_install that])
  have last: "ho_disk h' = ho_disk h6 \<and> run_health_checks E l h' \<noteq> Fail" if
    "(if so_no_start opts then status_or_unknown E else start_service E) h6 = (Inr st, h7)" and
    "act_get (run_health_checks E l) h7 = (Inr health, h8)" and
    "(if health = Fail then act_fail Health_Checks_Failed else act_ret ()) h8 = (Inr (), h')"
    for h6 h7 h8 st health l
    using that tail by (auto simp: act_success split: if_splits)
  show thesis
    using assms unfolding setup_run_def Let_def act_success(4) of_result_success
    by (elim exE conjE, hypsubst) (rule that, assumption+, (drule (2) last, blast)+)
qed

text \<open>
  A setup that reports success has left valid active rules and the current service definition, and
  no check of the doctor has failed.
\<close>

lemma setup_success:
  fixes E :: "('r, 'v, 'cv, 'm, 'net, 'set, 'c) setup_env"
  defines "p \<equiv> se_platform E"
  defines "rules_dir \<equiv> disk_path (il_rules_dir (managed_layout p))"
  assumes p: "p \<noteq> Windows" and root: "is_dir (wd_tree (ho_disk h)) []"
    and reliable: "undo_reliable rules_dir (wd_faults (ho_disk h))" "readable (wd_faults (ho_disk h))"
    and clean: "staging_clean rules_dir (wd_tree (ho_disk h))"
    and crates: "crates_agree (se_crates E) (se_parse_state E) parse_manifest"
    and run: "setup_run E opts h = (Inr (), h')"
  shows "active_rules_are_valid (se_parse_state E) rules_dir (ho_disk h')"
    and "node_at (wd_tree (ho_disk h')) (disk_path (the (definition_path p (service_paths_for p)))) =
      Some (File (text_bytes (definition_contents p (service_paths_for p))))"
    and "run_health_checks E (managed_layout p) h' \<noteq> Fail"
proof -
  let ?l = "managed_layout p" and ?sp = "service_paths_for p"
  let ?keeps = "\<lambda>m. \<forall>q \<in> set (kept_places rules_dir). quiet q m"
  obtain s where s: "definition_path p ?sp = Some s" "disk_path s \<noteq> []" using setup_places(2) [OF p] by auto
  have places: "kept_by_setup p q" if "q \<in> set (kept_places rules_dir)" for q
    by (rule bspec [OF setup_places(1) [OF p]]) (use that in \<open>simp only: rules_dir_def\<close>)
  obtain h1 h2 h3 h4 h5 pack url c r b where
    1: "on_disk id (create_directories (managed_directories ?l ?sp)) h = (Inr (), h1)" and
    2: "on_disk id (prepare_config E ?l (so_force opts)) h1 = (Inr (), h2)" and
    3: "on_disk id (install_rules_with_recovery E url c rules_dir pack) h2 = (Inr r, h3)" and
    4: "on_disk id (install_binary E (disk_path (sp_binary_path ?sp))) h3 = (Inr (), h4)" and
    5: "on_service (setup_service E Install_Service) h4 = (Inr b, h5)" and
    6: "ho_disk h' = ho_disk h5" and health: "run_health_checks E ?l h' \<noteq> Fail"
    using setup_steps [OF run] unfolding p_def rules_dir_def by (metis old.unit.exhaust)
  show "run_health_checks E ?l h' \<noteq> Fail" by (rule health)
  have k1: "?keeps (on_disk id (create_directories (managed_directories ?l ?sp)))"
    using places by (auto intro!: quiet_on_disk leaves_create_directories simp: kept_by_setup_def Let_def list_all_iff)
  have k2: "?keeps (on_disk id (prepare_config E ?l (so_force opts)))"
    using places by (auto intro!: quiet_on_disk leaves_prepare_config simp: kept_by_setup_def Let_def parallel_def)
  have k4: "?keeps (on_disk id (install_binary E (disk_path (sp_binary_path ?sp))))"
    using places confined_leaves [OF confined_install_binary [of E]] p
    by (auto intro!: quiet_on_disk simp: kept_by_setup_def Let_def parallel_def p_def)
  have k5: "?keeps (on_service (setup_service E Install_Service))"
    using places s p
    by (auto intro!: quiet_on_service quiet_install_service simp: kept_by_setup_def Let_def parallel_def
        setup_service_def p_def)
  have cur: "current_of rules_dir \<in> set (kept_places rules_dir)" by simp
  have st: "state_of rules_dir \<in> set (kept_places rules_dir)" by simp
  note q1 = quiet_run [OF k1 [rule_format] 1 root]
  note r1 = q1(2) [OF cur]
  note q2 = quiet_run [OF k2 [rule_format] 2 r1]
  note r2 = q2(2) [OF cur]
  have f2: "wd_faults (ho_disk h2) = wd_faults (ho_disk h)" using q1(1) [OF cur] q2(1) [OF cur] by simp
  have "staging_clean rules_dir (wd_tree (ho_disk h2))"
    using clean q1(3) q2(3) by (simp add: staging_clean_def is_file_def is_dir_def)
  moreover obtain w3 where w3: "install_rules_with_recovery E url c rules_dir pack (ho_disk h2) = (Inr r, w3)"
    "ho_disk h3 = w3"
    using 3 by (auto simp: on_disk_success)
  ultimately have valid: "active_rules_are_valid (se_parse_state E) rules_dir (ho_disk h3)"
    using setup_rules_valid [OF r2 _ _ _ crates w3(1)] reliable f2 by simp
  note c3 = confined_run [OF confined_install_rules w3(1) r2]
  have r3: "is_dir (wd_tree (ho_disk h3)) []" using kept_off_root [OF c3(2) r2] w3(2) by simp
  have f3: "wd_faults (ho_disk h3) = wd_faults (ho_disk h)" using c3(1) w3(2) f2 by simp
  note q4 = quiet_run [OF k4 [rule_format] 4 r3]
  note r4 = q4(2) [OF cur]
  note q5 = quiet_run [OF k5 [rule_format] 5 r4]
  have "wd_faults (ho_disk h5) = wd_faults (ho_disk h)" using q5(1) [OF cur] q4(1) [OF cur] f3 by simp
  with valid show "active_rules_are_valid (se_parse_state E) rules_dir (ho_disk h')"
    using active_rules_cong [of "ho_disk h3" "ho_disk h5" rules_dir "se_parse_state E"] f3 reliable(2)
      q4(3) [OF cur] q4(3) [OF st] q5(3) [OF cur] q5(3) [OF st] 6 by simp
  have "sb_install (unix_backend p (se_service_program E) ?sp) h4 = (Inr (), h5)"
    using 5 by (simp add: on_service_success setup_service_def run_backend_action_def act_success p_def)
  from install_writes_definition [OF s this] s 6
  show "node_at (wd_tree (ho_disk h')) (disk_path (the (definition_path p ?sp))) =
      Some (File (text_bytes (definition_contents p ?sp)))"
    by simp
qed

section \<open>A concrete installation\<close>

definition zero_digest :: string where
  "zero_digest = replicate 64 CHR ''0''"

definition setup_state :: rules_state where
  "setup_state = \<lparr>rs_pack_id = ''p'', rs_version = ''1'', rs_sha256 = zero_digest, rs_installed_at = ''t''\<rparr>"

definition setup_crates :: "(unit, unit) pack_crates" where
  "setup_crates = demo_crates\<lparr>
     pc_hex_decode := \<lambda>s. if s = zero_digest then Some (replicate 32 0) else None,
     pc_state_json := \<lambda>st. if st = setup_state then Some [1] else None\<rparr>"

definition setup_catalog :: catalog where
  "setup_catalog = demo_catalog\<lparr>ct_packs := [demo_pack\<lparr>pk_sha256 := zero_digest\<rparr>]\<rparr>"

definition setup_manifest :: doctor_manifest where
  "setup_manifest = \<lparr>dm_id = ''p'', dm_pack_schema_version = 1, dm_requires_rustinel = ''*''\<rparr>"

lemma setup_crates_agree: "crates_agree setup_crates (\<lambda>b. Some setup_state) (\<lambda>b. Some setup_manifest)"
proof -
  have "list_all (is_digit 16) zero_digest \<and> length zero_digest = 2 * length (replicate 32 (0 :: u8))"
    by code_simp
  then show ?thesis
    by (auto simp: crates_agree_def setup_crates_def demo_crates_def demo_manifest_def setup_manifest_def)
qed

theorem installed_pack_accepted_witness:
  "\<exists>out w'. install_pack_archive_bytes setup_crates ''linux'' ''1'' ''0'' ''t'' setup_catalog ''p'' [''r''] [9]
      demo_world = (Inr out, w') \<and>
    active_rules_are_valid (\<lambda>b. Some setup_state) [''r''] w'"
proof -
  have "\<not> isl (fst (install_pack_archive_bytes setup_crates ''linux'' ''1'' ''0'' ''t'' setup_catalog ''p''
      [''r''] [9] demo_world))"
    unfolding install_pack_archive_bytes_def if_not_P [OF demo_size] by code_simp
  then obtain out w' where run: "install_pack_archive_bytes setup_crates ''linux'' ''1'' ''0'' ''t''
      setup_catalog ''p'' [''r''] [9] demo_world = (Inr out, w')"
    by (metis isl_def prod.collapse sum.collapse(2) sum.exhaust_sel)
  have "is_dir (wd_tree demo_world) []" "undo_reliable [''r''] (wd_faults demo_world)"
    "staging_clean [''r''] (wd_tree demo_world)" "readable (wd_faults demo_world)"
    by (simp_all add: demo_world_def is_dir_def is_file_def undo_reliable_def no_faults_def Let_def
        previous_current_def previous_state_def staging_clean_def readable_def)
  from installed_pack_accepted [OF this setup_crates_agree run] run show ?thesis by blast
qed

end
