(* ===== verification/Spec2Isabelle.thy ===== *)
theory Spec2Isabelle
  imports Platforms Rule_Install Config Yara_Memory Setup
begin

text \<open>
  Rustinel, an endpoint detection agent, as a shallow embedding.

  \<^bold>\<open>The program.\<close> Sensors (\<open>src/sensor/\<close>, and the eBPF programs under \<open>ebpf/src/\<close>) produce events; the
  normalizer (\<open>src/normalizer/\<close>) turns them into records of one of eleven kinds
  (\<open>src/models/event.rs\<close>, \<open>fields.rs\<close>). Caches under \<open>src/state/\<close> remember processes, account names,
  host names and connections. The Sigma engine (\<open>src/engine/\<close>), the indicator engine (\<open>src/ioc/\<close>)
  and the YARA scanner (\<open>src/scanner/\<close>, \<open>src/memory/\<close>) raise alerts. An alert goes to the sink
  (\<open>src/alerts/\<close>), which translates it to an ECS record (\<open>src/models/ecs/\<close>) and suppresses
  repetitions, and to the active response (\<open>src/response/\<close>), which may terminate a process. Beside
  this path the rule-pack installer (\<open>src/rules.rs\<close>) replaces the rules on disk, the reload
  worker (\<open>src/reload/\<close>) replaces the detectors, and \<open>src/config.rs\<close> says where everything lies;
  \<open>rustinel setup\<close>, \<open>service\<close> and \<open>doctor\<close> install the agent and check the installation.

  \<^bold>\<open>The theories\<close>, in the order of their dependencies.
  \<^item> \<open>Prelude\<close>: machine integers, runs of a component over a list of events with the locales
    \<open>machine\<close>, \<open>counted\<close>, \<open>ledger\<close> and \<open>simulation\<close>, hash maps with the locales
    \<open>keyed_store\<close> and \<open>hash_iter\<close>.
  \<^item> \<open>Text\<close>, \<open>Numbers\<close>, \<open>Addr\<close>, \<open>Lines\<close>, \<open>Bytes\<close>, \<open>Paths\<close>: the operations of the Rust standard library
    on strings, integers, IP addresses, slices and paths that the sources call, on bytes.
  \<^item> \<open>Events\<close>: the event and alert records and the field accessors.
  \<^item> \<open>Eviction\<close>, \<open>Dns_Cache\<close>, \<open>Connection_Aggregator\<close>, \<open>Process_Cache\<close>: \<open>src/state/\<close>,
    each compared with an abstract promise over whole histories.
  \<^item> \<open>Ecs_Values\<close>, \<open>Ecs\<close>, \<open>Dedup\<close>, \<open>Rate_Limiter\<close>: from an alert to the written records.
  \<^item> \<open>Log_Source\<close>, \<open>Matcher\<close>, \<open>Sigma_Rules\<close>, \<open>Sigma_Engine\<close>: the built-in Sigma engine, from
    a parsed rule to the alert of an event.
  \<^item> \<open>Ioc\<close>, \<open>Hash_Worker\<close>: indicator files, matching, and the hash worker with its cache.
  \<^item> \<open>Response\<close>: the decision, the queue, the worker and the validation of identities.
  \<^item> \<open>Path_Map\<close>, \<open>Sid_Cache\<close>, \<open>Normalizer\<close>: device paths, account names, and the normalizer
    that completes sensor events from these and the caches; \<open>Attribution\<close> proves what it
    guarantees.
  \<^item> \<open>Pipeline\<close>: the detection handler and the workers beside it as one machine, and the theorems
    from a sensor event to an alert and to a terminated process.
  \<^item> \<open>Dns_Wire\<close>, \<open>Packet\<close>, \<open>Bpf_Filter\<close>, \<open>Bpf_Sensor\<close>: the macOS packet sensor: the question of a DNS
    query, the frame parser, the kernel filter run by an interpreter of its instructions, and the
    capture thread with its attribution worker, which loses no event unseen.
  \<^item> \<open>Ebpf_Events\<close>, \<open>Ebpf_Programs\<close>, \<open>Ebpf_Trace\<close>: the raw records and the eBPF programs; what the file
    programs report of any interleaving of system calls.
  \<^item> \<open>Linux_Proc\<close>, \<open>Linux_Sensor\<close>, \<open>Linux_Path\<close>: \<open>/proc\<close>, the Linux sensor, and the way from a
    program's ring buffer to a sensor event.
  \<^item> \<open>Lookups\<close>, \<open>Etw\<close>, \<open>Etw_Decode\<close>: version information and account names (\<open>src/utils/pe.rs\<close>,
    \<open>user.rs\<close>), and the Windows sensor (\<open>src/sensor/windows/\<close>). \<open>Esf\<close>: the macOS Endpoint Security
    sensor (\<open>src/sensor/macos/esf.rs\<close>).
  \<^item> \<open>Sensors\<close>, \<open>Platforms\<close>: the inductive predicate \<open>sensed\<close> of the events any sensor hands to the
    pipeline, what the response and the rules may rely on, and where the platforms differ.
  \<^item> \<open>Disk\<close>, \<open>Rule_Packs\<close>, \<open>Rule_Install\<close>: a file system with faults, the catalog and the installation
    of a rule pack with every call in its order, and that it is all or nothing.
  \<^item> \<open>Sigma_Load\<close>, \<open>Reload\<close>: loading a rule directory; the fingerprints, the poller and the worker that
    swaps detectors, as a step relation with its invariant and its convergence.
  \<^item> \<open>Config\<close>: the settings, both lists of their defaults, paths and allowlists.
  \<^item> \<open>Yara\<close>, \<open>Yara_Memory\<close>: the rule files, the scan cache, the handler of process starts, the alerts,
    and the reading of a process's memory within its limits.
  \<^item> \<open>Service\<close>, \<open>Doctor\<close>, \<open>Setup\<close>: the commands that install and check the agent (\<open>src/service.rs\<close>,
    \<open>src/platform/\<close>, \<open>src/doctor/\<close>, \<open>src/setup.rs\<close>) on a host of a disk and a service manager: the
    service follows its definition on disk, the doctor checks what the loaders load, and a set-up
    that reports success leaves valid rules and a current service.

  \<^bold>\<open>Conventions.\<close> A struct is a record with a two-letter prefix, a method takes and returns the
  record, a lock is the atomicity of one step. Clock readings, the iteration order of a hash map
  (any permutation of its keys, the locale \<open>hash_iter\<close>) and the outcome of an atomic
  compare-and-exchange are parameters of the step that reads them, so the theorems hold for all of
  them. Third-party crates (regular expressions, CIDR networks, YAML, base64, condition trees,
  digests, archives, YARA, the readers of ETW, ESF and PE files) and the operating system are records
  of functions passed to the definitions that use them. Errors are values of an option or a sum; the
  one panic the sources can reach in a look-up of sockets is the type \<open>outcome\<close>.

  \<^bold>\<open>Loops.\<close> There is no fuel: a loop is a structural recursion or a \<open>function\<close> with a measure. The
  bounds of \<open>scan_name\<close> (256) and \<open>sendmmsg_loop\<close> (4) are those of the eBPF programs themselves. The
  loop around \<open>getpwuid_r\<close> is a \<open>partial_function\<close>, and that it returns is a theorem.

  \<^bold>\<open>What is not modelled.\<close> The rsigma backend (a third-party evaluator behind a feature), the wiring
  of tasks at start and shutdown (\<open>src/runtime/\<close>, of which the YARA and indicator workers are
  modelled), logging and metrics, the command line and all printed text, the parsers of the crates,
  and the system calls behind the parameters: loading eBPF programs, opening capture devices and
  trace sessions, the memory readers of Windows and macOS and the process snapshot of Windows. The
  set-up is modelled on Linux and macOS, and what other programs do to the disk is left out.
\<close>

end
